(* ===== verification/Brain_Prelude.thy ===== *)
theory Brain_Prelude
  imports Main "HOL-Library.Char_ord" "HOL-Library.List_Lexorder"
begin

text \<open>
  Shared vocabulary of the development: the error type and result type of
  \<open>src/foundation/error.rs\<close>, sequencing of fallible steps (Rust's \<open>?\<close>), loops that may
  fail, checked and saturating machine arithmetic, and the ordered containers
  (\<open>BTreeMap\<close>, \<open>BTreeSet\<close>) as sorted lists, with the lemmas every component uses.
\<close>

section \<open>Errors and results\<close>

text \<open>
  \<open>BrainError\<close>: the payload of the string variants is the error code of the source. Of an
  operating system error only the kind matters to the code (\<open>ErrorKind::NotFound\<close> is
  handled specially), of a JSON error nothing does. \<open>Panic\<close> is not a variant of the enum: it
  stands for a Rust panic, so that a panicking branch is a branch of the model.
\<close>

datatype io_kind = NotFound | OtherIo

datatype brain_error =
    Invalid string
  | Integrity string
  | Numerical string
  | Io io_kind
  | Json
  | Panic string

type_synonym 'a res = "brain_error + 'a"

text \<open>Rust's \<open>?\<close> operator: stop with the first error, go on with the value otherwise.\<close>

definition rbind :: "'a res \<Rightarrow> ('a \<Rightarrow> 'b res) \<Rightarrow> 'b res" where
  "rbind m f = (case m of Inl e \<Rightarrow> Inl e | Inr x \<Rightarrow> f x)"

text \<open>\<open>if c \{ return Err(e) \}\<close> as a step that returns nothing.\<close>

definition reject :: "bool \<Rightarrow> brain_error \<Rightarrow> unit res" where
  "reject c e = (if c then Inl e else Inr ())"

text \<open>\<open>opt.ok_or_else(|| e)\<close>.\<close>

definition ok_or :: "'a option \<Rightarrow> brain_error \<Rightarrow> 'a res" where
  "ok_or x e = (case x of None \<Rightarrow> Inl e | Some y \<Rightarrow> Inr y)"

text \<open>\<open>for x in xs \{ s = f(x, s)?; \}\<close>.\<close>

fun rfold :: "('a \<Rightarrow> 's \<Rightarrow> 's res) \<Rightarrow> 'a list \<Rightarrow> 's \<Rightarrow> 's res" where
  "rfold f [] s = Inr s"
| "rfold f (x # xs) s = rbind (f x s) (rfold f xs)"

text \<open>\<open>for x in xs \{ check(x)?; \}\<close>.\<close>

fun rfor :: "('a \<Rightarrow> unit res) \<Rightarrow> 'a list \<Rightarrow> unit res" where
  "rfor f [] = Inr ()"
| "rfor f (x # xs) = rbind (f x) (\<lambda>_. rfor f xs)"

named_theorems result_simps

lemma rbind_simps [simp, result_simps]:
  "rbind (Inl e) f = Inl e"
  "rbind (Inr x) f = f x"
  by (simp_all add: rbind_def)

lemma rbind_eq_Inr [simp, result_simps]: "rbind m f = Inr y \<longleftrightarrow> (\<exists>x. m = Inr x \<and> f x = Inr y)"
  by (cases m) auto

lemma rbind_eq_Inl: "rbind m f = Inl e \<longleftrightarrow> m = Inl e \<or> (\<exists>x. m = Inr x \<and> f x = Inl e)"
  by (cases m) auto

lemma rbind_cong [fundef_cong]:
  "m = m' \<Longrightarrow> (\<And>x. m' = Inr x \<Longrightarrow> f x = f' x) \<Longrightarrow> rbind m f = rbind m' f'"
  by (cases m') auto

lemma rbind_Inr_id [simp]: "rbind m Inr = m"
  by (cases m) auto

lemma reject_eq_Inr [simp, result_simps]: "reject c e = Inr u \<longleftrightarrow> \<not> c"
  by (simp add: reject_def)

lemma reject_eq_Inl [simp, result_simps]: "reject c e = Inl e' \<longleftrightarrow> c \<and> e' = e"
  by (auto simp: reject_def)

lemma ok_or_eq_Inr [simp, result_simps]: "ok_or x e = Inr y \<longleftrightarrow> x = Some y"
  by (auto simp: ok_or_def split: option.splits)

lemma ok_or_eq_Inl [simp, result_simps]: "ok_or x e = Inl e' \<longleftrightarrow> x = None \<and> e' = e"
  by (auto simp: ok_or_def split: option.splits)

lemma ok_or_simps [simp]: "ok_or None e = Inl e" "ok_or (Some y) e = Inr y"
  by (simp_all add: ok_or_def)

lemma reject_simps [simp]: "reject True e = Inl e" "reject False e = Inr ()"
  by (simp_all add: reject_def)

lemma not_Inl_ex: "(\<forall>e. m \<noteq> Inl e) \<longleftrightarrow> (\<exists>x. m = Inr x)"
  by (cases m) auto

lemma rfor_eq_Inr [simp, result_simps]: "rfor f xs = Inr u \<longleftrightarrow> (\<forall>x \<in> set xs. f x = Inr ())"
  by (induction xs) auto

lemma rfold_append: "rfold f (xs @ ys) s = rbind (rfold f xs s) (rfold f ys)"
proof (induction xs arbitrary: s)
  case (Cons x xs)
  then show ?case by (cases "f x s") auto
qed simp

text \<open>The loop rule: what the body keeps, the loop keeps.\<close>

lemma rfold_invariant:
  assumes "rfold f xs s = Inr t" and "P s"
    and "\<And>x u v. x \<in> set xs \<Longrightarrow> P u \<Longrightarrow> f x u = Inr v \<Longrightarrow> P v"
  shows "P t"
  using assms
proof (induction xs arbitrary: s)
  case (Cons x xs)
  then obtain u where "f x s = Inr u" "rfold f xs u = Inr t" by auto
  with Cons show ?case by (metis list.set_intros)
qed simp

text \<open>A loop that inserts one key per element has inserted the keys of the list.\<close>

lemma rfold_keys:
  assumes "rfold f xs s = Inr t" and "\<And>x u v. f x u = Inr v \<Longrightarrow> D v = insert (k x) (D u)"
  shows "D t = k ` set xs \<union> D s"
  using assms(1)
proof (induction xs arbitrary: s)
  case (Cons x xs)
  then obtain u where "f x s = Inr u" "rfold f xs u = Inr t" by auto
  with Cons.IH assms(2) show ?case by auto
qed simp

text \<open>A loop whose body never fails under an invariant does not fail.\<close>

lemma rfold_total:
  assumes "P s"
    and "\<And>x u. x \<in> set xs \<Longrightarrow> P u \<Longrightarrow> \<exists>v. f x u = Inr v \<and> P v"
  shows "\<exists>t. rfold f xs s = Inr t \<and> P t"
  using assms
proof (induction xs arbitrary: s)
  case (Cons x xs)
  from Cons.prems(2)[of x s] Cons.prems(1) obtain v where v: "f x s = Inr v" "P v" by auto
  have "\<exists>t. rfold f xs v = Inr t \<and> P t"
    by (rule Cons.IH) (use v Cons.prems in auto)
  with v show ?case by auto
qed simp

section \<open>Machine arithmetic\<close>

text \<open>
  \<open>u16\<close>, \<open>u32\<close>, \<open>u64\<close> and \<open>usize\<close> (64 bits) are naturals with the width written out where the
  code can overflow: \<open>checked_add\<close> is \<open>None\<close> on overflow, \<open>saturating_add\<close> stops at the
  largest value.
\<close>

definition checked_add :: "nat \<Rightarrow> nat \<Rightarrow> nat \<Rightarrow> nat option" where
  "checked_add w a b = (if a + b < 2 ^ w then Some (a + b) else None)"

definition checked_sub :: "nat \<Rightarrow> nat \<Rightarrow> nat option" where
  "checked_sub a b = (if b \<le> a then Some (a - b) else None)"

definition saturating_add :: "nat \<Rightarrow> nat \<Rightarrow> nat \<Rightarrow> nat" where
  "saturating_add w a b = min (a + b) (2 ^ w - 1)"

lemma checked_add_eq_Some [simp]: "checked_add w a b = Some c \<longleftrightarrow> c = a + b \<and> a + b < 2 ^ w"
  by (auto simp: checked_add_def)

lemma checked_add_eq_None: "checked_add w a b = None \<longleftrightarrow> 2 ^ w \<le> a + b"
  by (auto simp: checked_add_def)

lemma checked_sub_eq_Some [simp]: "checked_sub a b = Some c \<longleftrightarrow> b \<le> a \<and> c = a - b"
  by (auto simp: checked_sub_def)

lemma saturating_add_le_iff:
  "m < 2 ^ w - 1 \<Longrightarrow> saturating_add w a b \<le> m \<longleftrightarrow> a + b \<le> m"
  by (auto simp: saturating_add_def min_def)

lemma saturating_add_exact: "a + b < 2 ^ w \<Longrightarrow> saturating_add w a b = a + b"
  by (auto simp: saturating_add_def min_def)

section \<open>Ordered containers\<close>

text \<open>
  A \<open>BTreeMap\<close> is the list of its entries in key order, a \<open>BTreeSet\<close> the list of its members in
  order: iteration order is visible to the code (first match wins, canonical encodings), and
  two containers are equal when these lists are. \<open>map_of\<close> reads a map, \<open>set\<close> a set.
\<close>

type_synonym ('k, 'v) bmap = "('k \<times> 'v) list"
type_synonym 'a bset = "'a list"

fun bm_insert :: "'k::linorder \<Rightarrow> 'v \<Rightarrow> ('k, 'v) bmap \<Rightarrow> ('k, 'v) bmap" where
  "bm_insert k v [] = [(k, v)]"
| "bm_insert k v ((k', v') # m) =
     (if k < k' then (k, v) # (k', v') # m
      else if k = k' then (k, v) # m
      else (k', v') # bm_insert k v m)"

text \<open>\<open>get_mut\<close> followed by an assignment: the entry of the key, if there is one, is replaced.\<close>

fun bm_modify :: "'k \<Rightarrow> ('v \<Rightarrow> 'v) \<Rightarrow> ('k, 'v) bmap \<Rightarrow> ('k, 'v) bmap" where
  "bm_modify k f [] = []"
| "bm_modify k f ((k', v) # m) = (if k = k' then (k', f v) # m else (k', v) # bm_modify k f m)"

fun bs_insert :: "'a::linorder \<Rightarrow> 'a bset \<Rightarrow> 'a bset" where
  "bs_insert x [] = [x]"
| "bs_insert x (y # ys) =
     (if x < y then x # y # ys else if x = y then y # ys else y # bs_insert x ys)"

definition bm_keys :: "('k, 'v) bmap \<Rightarrow> 'k list" where
  "bm_keys m = map fst m"

definition bm_values :: "('k, 'v) bmap \<Rightarrow> 'v list" where
  "bm_values m = map snd m"

definition bs_of :: "'a::linorder list \<Rightarrow> 'a bset" where
  "bs_of xs = fold bs_insert xs []"

definition bm_ok :: "('k::linorder, 'v) bmap \<Rightarrow> bool" where
  "bm_ok m \<longleftrightarrow> sorted_wrt (<) (map fst m)"

definition bs_ok :: "'a::linorder bset \<Rightarrow> bool" where
  "bs_ok xs \<longleftrightarrow> sorted_wrt (<) xs"

named_theorems container_simps

lemma map_of_bm_insert [simp, container_simps]:
  "map_of (bm_insert k v m) = (map_of m)(k \<mapsto> v)"
  by (induction k v m rule: bm_insert.induct) (auto simp: fun_eq_iff)

lemma fst_set_bm_insert [simp, container_simps]:
  "fst ` set (bm_insert k v m) = insert k (fst ` set m)"
  by (induction k v m rule: bm_insert.induct) auto

lemma set_bm_insert_subset: "set (bm_insert k v m) \<subseteq> insert (k, v) (set m)"
  by (induction k v m rule: bm_insert.induct) auto

lemma bm_ok_Nil [simp, container_simps]: "bm_ok []"
  by (simp add: bm_ok_def)

lemma bm_ok_Cons: "bm_ok ((k, v) # m) \<longleftrightarrow> (\<forall>k' \<in> fst ` set m. k < k') \<and> bm_ok m"
  by (auto simp: bm_ok_def)

lemma bm_ok_insert [simp, intro, container_simps]: "bm_ok m \<Longrightarrow> bm_ok (bm_insert k v m)"
  by (induction k v m rule: bm_insert.induct) (auto simp: bm_ok_Cons)

lemma bm_ok_distinct: "bm_ok m \<Longrightarrow> distinct (map fst m)"
  by (simp add: bm_ok_def strict_sorted_iff)

lemma map_of_eq_iff_mem: "bm_ok m \<Longrightarrow> map_of m k = Some v \<longleftrightarrow> (k, v) \<in> set m"
  using bm_ok_distinct by (metis map_of_eq_Some_iff)

lemma set_bm_insert:
  assumes "bm_ok m" shows "set (bm_insert k v m) = insert (k, v) {p \<in> set m. fst p \<noteq> k}"
proof (rule set_eqI)
  fix p :: "'a \<times> 'b"
  obtain k' v' where p: "p = (k', v')" by force
  have "p \<in> set (bm_insert k v m) \<longleftrightarrow> map_of (bm_insert k v m) k' = Some v'"
    using assms p by (simp only: bm_ok_insert map_of_eq_iff_mem)
  also have "\<dots> \<longleftrightarrow> p \<in> insert (k, v) {p \<in> set m. fst p \<noteq> k}"
    using assms p by (auto simp: map_of_eq_iff_mem)
  finally show "p \<in> set (bm_insert k v m) \<longleftrightarrow> p \<in> insert (k, v) {p \<in> set m. fst p \<noteq> k}" .
qed

lemma bm_ok_eqI: "bm_ok m \<Longrightarrow> bm_ok m' \<Longrightarrow> map_of m = map_of m' \<Longrightarrow> m = m'"
proof (induction m arbitrary: m')
  case Nil
  then show ?case by (cases m') (auto simp: fun_eq_iff split: if_splits)
next
  case (Cons p m)
  obtain k v where p: "p = (k, v)" by force
  from Cons.prems(3) p have "m' \<noteq> []" by (auto simp: fun_eq_iff split: if_splits)
  then obtain k' v' n where m': "m' = (k', v') # n" by (cases m') auto
  have *: "map_of (p # m) x = map_of m' x" for x using Cons.prems(3) by (rule fun_cong)
  have "k = k'"
  proof (rule ccontr)
    assume "k \<noteq> k'"
    with *[of k] *[of k'] p m' have "k \<in> fst ` set n" "k' \<in> fst ` set m"
      by (auto dest!: map_of_SomeD split: if_splits)
        (metis (mono_tags, lifting) fst_conv imageI map_of_SomeD option.discI)+
    with Cons.prems p m' show False by (fastforce simp: bm_ok_Cons)
  qed
  moreover from this *[of k] p m' have "v = v'" by simp
  moreover have "map_of m = map_of n"
  proof
    fix x show "map_of m x = map_of n x"
    proof (cases "x = k")
      case True
      with Cons.prems p m' \<open>k = k'\<close> have "x \<notin> fst ` set m" "x \<notin> fst ` set n"
        by (auto simp: bm_ok_Cons)
      then show ?thesis by (simp add: map_of_eq_None_iff[THEN iffD2])
    next
      case False
      with *[of x] p m' \<open>k = k'\<close> show ?thesis by simp
    qed
  qed
  ultimately show ?case using Cons p m' by (auto simp: bm_ok_Cons)
qed

lemma length_bm_insert:
  "bm_ok m \<Longrightarrow> length (bm_insert k v m) = (if map_of m k = None then Suc (length m) else length m)"
proof (induction k v m rule: bm_insert.induct)
  case (2 k v k' v' m)
  then show ?case
    by (auto simp: bm_ok_Cons map_of_eq_None_iff split: if_splits)
qed simp

lemma bm_insert_not_Nil [simp]: "bm_insert k v m \<noteq> []"
  by (induction k v m rule: bm_insert.induct) auto

lemma map_of_bm_modify [simp, container_simps]:
  "map_of (bm_modify k f m) = (\<lambda>k'. if k' = k then map_option f (map_of m k) else map_of m k')"
  by (induction k f m rule: bm_modify.induct) (auto simp: fun_eq_iff)

lemma keys_bm_modify [simp, container_simps]: "map fst (bm_modify k f m) = map fst m"
  by (induction k f m rule: bm_modify.induct) auto

lemma bm_ok_modify [simp, container_simps]: "bm_ok (bm_modify k f m) = bm_ok m"
  by (simp add: bm_ok_def)

lemma length_bm_modify [simp, container_simps]: "length (bm_modify k f m) = length m"
  by (metis keys_bm_modify length_map)

lemma sum_list_bm_modify:
  fixes f :: "nat \<Rightarrow> nat"
  shows "map_of m k = Some v \<Longrightarrow> sum_list (map snd (bm_modify k f m)) + v = sum_list (map snd m) + f v"
  by (induction k f m rule: bm_modify.induct) auto

lemma length_bs_insert_fresh: "x \<notin> set ys \<Longrightarrow> length (bs_insert x ys) = Suc (length ys)"
  by (induction x ys rule: bs_insert.induct) auto

lemma length_bs_insert_le: "length (bs_insert x ys) \<le> Suc (length ys)"
  by (induction x ys rule: bs_insert.induct) auto

lemma set_bs_insert [simp, container_simps]: "set (bs_insert x ys) = insert x (set ys)"
  by (induction x ys rule: bs_insert.induct) auto

lemma bs_ok_Nil [simp, container_simps]: "bs_ok []"
  by (simp add: bs_ok_def)

lemma bs_ok_Cons: "bs_ok (x # xs) \<longleftrightarrow> (\<forall>y \<in> set xs. x < y) \<and> bs_ok xs"
  by (simp add: bs_ok_def)

lemma bs_ok_insert [simp, intro, container_simps]: "bs_ok ys \<Longrightarrow> bs_ok (bs_insert x ys)"
  by (induction x ys rule: bs_insert.induct) (auto simp: bs_ok_Cons)

lemma bs_ok_distinct: "bs_ok xs \<Longrightarrow> distinct xs"
  by (simp add: bs_ok_def strict_sorted_iff)

lemma bs_ok_eqI: "bs_ok xs \<Longrightarrow> bs_ok ys \<Longrightarrow> set xs = set ys \<Longrightarrow> xs = ys"
  unfolding bs_ok_def by (rule strict_sorted_equal)

lemma length_bs: "bs_ok xs \<Longrightarrow> length xs = card (set xs)"
  by (simp add: bs_ok_distinct distinct_card)

lemma length_bs_insert:
  "bs_ok ys \<Longrightarrow> length (bs_insert x ys) = (if x \<in> set ys then length ys else Suc (length ys))"
  using length_bs[of "bs_insert x ys"] length_bs[of ys] by (simp add: card_insert_if)

lemma set_fold_bs_insert: "set (fold bs_insert xs ys) = set xs \<union> set ys"
  by (induction xs arbitrary: ys) auto

lemma bs_ok_fold_insert: "bs_ok ys \<Longrightarrow> bs_ok (fold bs_insert xs ys)"
  by (induction xs arbitrary: ys) auto

lemma set_bs_of [simp, container_simps]: "set (bs_of xs) = set xs"
  by (simp add: bs_of_def set_fold_bs_insert)

lemma bs_ok_of [simp, container_simps]: "bs_ok (bs_of xs)"
  by (simp add: bs_of_def bs_ok_fold_insert)

lemma set_bm_keys [simp, container_simps]: "set (bm_keys m) = dom (map_of m)"
  by (simp add: bm_keys_def dom_map_of_conv_image_fst)

lemma bm_values_mem: "v \<in> set (bm_values m) \<Longrightarrow> bm_ok m \<Longrightarrow> \<exists>k. map_of m k = Some v"
  by (auto simp: bm_values_def map_of_eq_iff_mem)

lemma map_of_values: "map_of m k = Some v \<Longrightarrow> v \<in> set (bm_values m)"
  by (force simp: bm_values_def dest: map_of_SomeD)

end
