(* ===== verification/Identity.thy ===== *)
theory Identity
  imports Brain_Prelude
begin

text \<open>
  Digests and identifiers: \<open>src/foundation/digest.rs\<close>, \<open>src/foundation/identity.rs\<close> and the local
  identifiers at the head of \<open>src/knowledge/knowledge_engine.rs\<close>. Strings are byte lists (an
  Isabelle \<open>char\<close> is one byte), as Rust's \<open>len\<close> and \<open>bytes\<close> see them. SHA-256 (crate
  \<open>sha2\<close>) is the parameter \<open>sha\<close>: from bytes to the lower-case hexadecimal text.
\<close>

section \<open>Character classes\<close>

definition is_ascii_digit :: "char \<Rightarrow> bool" where
  "is_ascii_digit c \<longleftrightarrow> CHR ''0'' \<le> c \<and> c \<le> CHR ''9''"

definition is_lower_hex :: "char \<Rightarrow> bool" where
  "is_lower_hex c \<longleftrightarrow> is_ascii_digit c \<or> (CHR ''a'' \<le> c \<and> c \<le> CHR ''f'')"

definition is_ascii_uppercase :: "char \<Rightarrow> bool" where
  "is_ascii_uppercase c \<longleftrightarrow> CHR ''A'' \<le> c \<and> c \<le> CHR ''Z''"

definition is_ascii_hexdigit :: "char \<Rightarrow> bool" where
  "is_ascii_hexdigit c \<longleftrightarrow> is_lower_hex c \<or> (CHR ''A'' \<le> c \<and> c \<le> CHR ''F'')"

definition is_ascii_alphanumeric :: "char \<Rightarrow> bool" where
  "is_ascii_alphanumeric c \<longleftrightarrow>
     is_ascii_digit c \<or> is_ascii_uppercase c \<or> (CHR ''a'' \<le> c \<and> c \<le> CHR ''z'')"

text \<open>\<open>str::split(ch)\<close>: always at least one segment, empty segments kept.\<close>

fun split_on :: "char \<Rightarrow> string \<Rightarrow> string list" where
  "split_on d [] = [[]]"
| "split_on d (c # cs) =
     (if c = d then [] # split_on d cs
      else case split_on d cs of s # ss \<Rightarrow> (c # s) # ss | [] \<Rightarrow> [[c]])"

text \<open>\<open>str::split_once(ch)\<close>.\<close>

fun split_once :: "char \<Rightarrow> string \<Rightarrow> (string \<times> string) option" where
  "split_once d [] = None"
| "split_once d (c # cs) =
     (if c = d then Some ([], cs)
      else case split_once d cs of None \<Rightarrow> None | Some (a, b) \<Rightarrow> Some (c # a, b))"

definition has_empty_segment :: "string \<Rightarrow> bool" where
  "has_empty_segment v \<longleftrightarrow> list_ex (\<lambda>s. s = []) (split_on CHR ''.'' v)"

definition starts_with :: "char \<Rightarrow> string \<Rightarrow> bool" where
  "starts_with c v \<longleftrightarrow> (case v of [] \<Rightarrow> False | x # _ \<Rightarrow> x = c)"

definition ends_with :: "char \<Rightarrow> string \<Rightarrow> bool" where
  "ends_with c v \<longleftrightarrow> starts_with c (rev v)"

section \<open>Digests\<close>

type_synonym digest = string

definition HEX_LEN :: nat where
  "HEX_LEN = 64"

definition is_valid_str :: "string \<Rightarrow> bool" where
  "is_valid_str v \<longleftrightarrow>
     length v = HEX_LEN \<and> list_all is_ascii_hexdigit v
     \<and> list_all (\<lambda>c. \<not> is_ascii_uppercase c) v"

definition sha256_digest_parse :: "string \<Rightarrow> digest res" where
  "sha256_digest_parse v =
     (if \<not> is_valid_str v then Inl (Invalid ''sha256_digest_invalid'') else Inr v)"

definition digest_bytes :: "(string \<Rightarrow> digest) \<Rightarrow> string \<Rightarrow> digest" where
  "digest_bytes sha bytes = sha bytes"

definition digest_domain :: "(string \<Rightarrow> digest) \<Rightarrow> string \<Rightarrow> string \<Rightarrow> digest" where
  "digest_domain sha domain payload = sha (domain @ payload)"

definition zero_digest :: digest where
  "zero_digest = replicate HEX_LEN CHR ''0''"

text \<open>\<open>is_draft\<close> of a sealed semantic digest.\<close>

definition is_draft :: "digest \<Rightarrow> bool" where
  "is_draft d \<longleftrightarrow> d = zero_digest"

definition is_raw_sha256 :: "string \<Rightarrow> bool" where
  "is_raw_sha256 v \<longleftrightarrow> length v = HEX_LEN \<and> list_all is_lower_hex v"

section \<open>Identifiers of \<open>identity.rs\<close>\<close>

text \<open>The code's \<open>format!("\{label\}_invalid")\<close> and \<open>concat!\<close> are \<open>@\<close> on the label.\<close>

definition validate_ascii_id :: "string \<Rightarrow> bool \<Rightarrow> bool \<Rightarrow> string \<Rightarrow> unit res" where
  "validate_ascii_id v allow_dot forbid_leading_dot label =
     (if v = [] \<or> 128 < length v
         \<or> (forbid_leading_dot \<and> starts_with CHR ''.'' v)
         \<or> \<not> list_all (\<lambda>b. is_ascii_alphanumeric b \<or> b = CHR ''-'' \<or> b = CHR ''_''
                          \<or> (allow_dot \<and> b = CHR ''.'')) v
      then Inl (Invalid (label @ ''_invalid'')) else Inr ())"

definition session_id_parse :: "string \<Rightarrow> string res" where
  "session_id_parse v = rbind (validate_ascii_id v False False ''session_id'') (\<lambda>_. Inr v)"

definition observation_id_parse :: "string \<Rightarrow> string res" where
  "observation_id_parse v = rbind (validate_ascii_id v True True ''observation_id'') (\<lambda>_. Inr v)"

text \<open>\<open>semantic_id!\<close> and \<open>semantic_non_digest_id!\<close>, with the macro's label and dot flag.\<close>

definition semantic_id_parse :: "string \<Rightarrow> bool \<Rightarrow> string \<Rightarrow> string res" where
  "semantic_id_parse label allow_dot v =
     rbind (validate_ascii_id v allow_dot True label) (\<lambda>_.
     rbind (reject (allow_dot \<and> has_empty_segment v) (Invalid (label @ ''_hierarchy_invalid''))) (\<lambda>_.
     rbind (reject (is_raw_sha256 v) (Invalid (label @ ''_is_digest''))) (\<lambda>_. Inr v)))"

definition semantic_non_digest_id_parse :: "string \<Rightarrow> bool \<Rightarrow> string \<Rightarrow> string res" where
  "semantic_non_digest_id_parse label allow_dot v =
     rbind (validate_ascii_id v allow_dot True label) (\<lambda>_.
     rbind (reject (allow_dot \<and> has_empty_segment v) (Invalid (label @ ''_hierarchy_invalid''))) (\<lambda>_.
     rbind (reject (is_raw_sha256 v) (Invalid (label @ ''_is_digest''))) (\<lambda>_. Inr v)))"

text \<open>\<open>semantic_assignable_id!\<close>: the empty string is the unassigned identity.\<close>

definition semantic_assignable_id_parse :: "string \<Rightarrow> string \<Rightarrow> string res" where
  "semantic_assignable_id_parse label v =
     (if v = [] then Inr []
      else rbind (validate_ascii_id v True True label) (\<lambda>_.
           rbind (reject (has_empty_segment v) (Invalid (label @ ''_hierarchy_invalid''))) (\<lambda>_.
           rbind (reject (is_raw_sha256 v) (Invalid (label @ ''_is_digest''))) (\<lambda>_. Inr v))))"

definition inquiry_id_parse :: "string \<Rightarrow> string res" where
  "inquiry_id_parse = semantic_non_digest_id_parse ''inquiry_id'' True"

definition skill_id_parse :: "string \<Rightarrow> string res" where
  "skill_id_parse v =
     rbind (validate_ascii_id v False True ''skill_id'') (\<lambda>_.
     rbind (reject (is_raw_sha256 v) (Invalid ''skill_id_is_digest'')) (\<lambda>_. Inr v))"

definition tensor_id_parse :: "string \<Rightarrow> string res" where
  "tensor_id_parse v =
     (if v = [] \<or> 512 < length v \<or> \<not> List.member v CHR ''.''
         \<or> list_ex (\<lambda>s. s = [] \<or> \<not> list_all (\<lambda>b. is_ascii_alphanumeric b \<or> b = CHR ''_'' \<or> b = CHR ''-'') s)
              (split_on CHR ''.'' v)
      then Inl (Invalid ''tensor_id_invalid'') else Inr v)"

definition valid_version_labels :: "string \<Rightarrow> bool \<Rightarrow> bool" where
  "valid_version_labels v reject_numeric_leading_zero \<longleftrightarrow>
     v \<noteq> [] \<and>
     list_all (\<lambda>l. l \<noteq> [] \<and> list_all (\<lambda>b. is_ascii_alphanumeric b \<or> b = CHR ''-'') l
        \<and> (\<not> reject_numeric_leading_zero \<or> \<not> list_all is_ascii_digit l
            \<or> length l = 1 \<or> \<not> starts_with CHR ''0'' l))
       (split_on CHR ''.'' v)"

definition is_canonical_capability_version :: "string \<Rightarrow> bool" where
  "is_canonical_capability_version version \<longleftrightarrow>
     (case version of
        [] \<Rightarrow> False
      | c # v \<Rightarrow> c = CHR ''v'' \<and>
          (case split_on CHR ''+'' v of
             [] \<Rightarrow> False
           | without_build # builds \<Rightarrow>
               length builds \<le> 1 \<and> list_all (\<lambda>b. valid_version_labels b False) builds \<and>
               (let (core, prerelease) =
                      (case split_once CHR ''-'' without_build of
                         None \<Rightarrow> (without_build, None) | Some (a, b) \<Rightarrow> (a, Some b));
                    components = split_on CHR ''.'' core
                in (case prerelease of None \<Rightarrow> True | Some p \<Rightarrow> valid_version_labels p True) \<and>
                   components \<noteq> [] \<and> length components \<le> 3 \<and>
                   list_all (\<lambda>x. x \<noteq> [] \<and> list_all is_ascii_digit x
                                \<and> (length x = 1 \<or> \<not> starts_with CHR ''0'' x)) components)))"

definition capability_id_parse :: "string \<Rightarrow> string res" where
  "capability_id_parse v =
     rbind (reject (128 < length v \<or> 1 < count_list v CHR '':'') (Invalid ''capability_id_invalid'')) (\<lambda>_.
     (let (base, version) = (case split_once CHR '':'' v of
                               None \<Rightarrow> (v, None) | Some (a, b) \<Rightarrow> (a, Some b))
      in rbind (validate_ascii_id base True True ''capability_id'') (\<lambda>_.
         rbind (reject (has_empty_segment base) (Invalid ''capability_id_hierarchy_invalid'')) (\<lambda>_.
         rbind (reject (is_raw_sha256 base) (Invalid ''capability_id_is_digest'')) (\<lambda>_.
         rbind (reject (case version of None \<Rightarrow> False
                        | Some w \<Rightarrow> \<not> is_canonical_capability_version w)
                  (Invalid ''capability_id_invalid'')) (\<lambda>_. Inr v))))))"

definition source_revision_parse :: "string \<Rightarrow> string res" where
  "source_revision_parse v =
     (if \<not> (length v = 40 \<or> length v = 64) \<or> \<not> list_all is_lower_hex v
      then Inl (Invalid ''source_revision_invalid'') else Inr v)"

section \<open>Identifiers and symbols of the knowledge engine\<close>

definition MAX_IDENTIFIER_BYTES :: nat where
  "MAX_IDENTIFIER_BYTES = 160"

definition MAX_SYMBOL_BYTES :: nat where
  "MAX_SYMBOL_BYTES = 256"

definition is_local_id_char :: "char \<Rightarrow> bool" where
  "is_local_id_char b \<longleftrightarrow>
     is_ascii_alphanumeric b \<or> b = CHR ''-'' \<or> b = CHR ''_'' \<or> b = CHR ''.'' \<or> b = CHR '':''"

definition validate_identifier :: "string \<Rightarrow> string \<Rightarrow> unit res" where
  "validate_identifier v code =
     (if v = [] \<or> MAX_IDENTIFIER_BYTES < length v \<or> is_raw_sha256 v
         \<or> starts_with CHR ''.'' v \<or> ends_with CHR ''.'' v \<or> has_empty_segment v
         \<or> \<not> list_all is_local_id_char v
      then Inl (Invalid code) else Inr ())"

text \<open>The \<open>parse\<close> that \<open>local_id!\<close> gives each of its types, with the type's error code.\<close>

definition local_id_parse :: "string \<Rightarrow> string \<Rightarrow> string res" where
  "local_id_parse code v = rbind (validate_identifier v code) (\<lambda>_. Inr v)"

definition knowledge_symbol_parse :: "string \<Rightarrow> string res" where
  "knowledge_symbol_parse v =
     (if v = [] \<or> MAX_SYMBOL_BYTES < length v
         \<or> (case v of [] \<Rightarrow> False | c # _ \<Rightarrow> \<not> is_ascii_alphanumeric c)
         \<or> (case rev v of [] \<Rightarrow> False | c # _ \<Rightarrow> \<not> is_ascii_alphanumeric c)
         \<or> \<not> list_all is_local_id_char v
      then Inl (Invalid ''knowledge_symbol_invalid'') else Inr v)"

definition DERIVED_CLAIM_ID_DOMAIN :: string where
  "DERIVED_CLAIM_ID_DOMAIN = ''TIDEX:DERIVED-CLAIM-ID:v1'' @ [CHR 0x00]"

definition DERIVED_OBLIGATION_ID_DOMAIN :: string where
  "DERIVED_OBLIGATION_ID_DOMAIN = ''TIDEX:DERIVED-OBLIGATION-ID:v1'' @ [CHR 0x00]"

definition derived_discovery_claim :: "(string \<Rightarrow> digest) \<Rightarrow> string \<Rightarrow> string" where
  "derived_discovery_claim sha payload =
     ''discovered-claim-'' @ digest_domain sha DERIVED_CLAIM_ID_DOMAIN payload"

definition derived_discovery_obligation :: "(string \<Rightarrow> digest) \<Rightarrow> string \<Rightarrow> string" where
  "derived_discovery_obligation sha payload =
     ''discovered-obligation-'' @ digest_domain sha DERIVED_OBLIGATION_ID_DOMAIN payload"

section \<open>Facts\<close>

lemma split_on_not_Nil [simp]: "split_on d v \<noteq> []"
  by (induction v) (auto split: list.splits)

lemma split_on_no_delim: "d \<notin> set v \<Longrightarrow> split_on d v = [v]"
  by (induction v) auto

lemma split_once_Some: "split_once d v = Some (a, b) \<Longrightarrow> v = a @ d # b \<and> d \<notin> set a"
  by (induction v arbitrary: a) (auto split: if_splits option.splits)

lemma split_once_None: "split_once d v = None \<longleftrightarrow> d \<notin> set v"
  by (induction v) (auto split: option.splits)

text \<open>\<open>split\<close> and \<open>join\<close>: the segments put back together give the string.\<close>

fun join_with :: "char \<Rightarrow> string list \<Rightarrow> string" where
  "join_with d [] = []"
| "join_with d [s] = s"
| "join_with d (s # ss) = s @ d # join_with d ss"

lemma join_split_on: "join_with d (split_on d v) = v"
proof (induction v)
  case (Cons c cs)
  obtain s ss where s: "split_on d cs = s # ss" by (cases "split_on d cs") auto
  with Cons show ?case by (cases ss) auto
qed simp

lemma split_on_segments: "s \<in> set (split_on d v) \<Longrightarrow> d \<notin> set s \<and> set s \<subseteq> set v"
proof (induction v arbitrary: s)
  case (Cons c cs)
  then show ?case by (cases "split_on d cs") (fastforce split: if_splits)+
qed simp

lemma is_lower_hex_chars: "is_lower_hex c \<longleftrightarrow> c \<in> set ''0123456789abcdef''"
proof -
  have "is_lower_hex c \<longleftrightarrow> (48 \<le> (of_char c :: nat) \<and> (of_char c :: nat) \<le> 57)
          \<or> (97 \<le> (of_char c :: nat) \<and> (of_char c :: nat) \<le> 102)"
    by (simp add: is_lower_hex_def is_ascii_digit_def less_eq_char_def)
  also have "\<dots> \<longleftrightarrow> (of_char c :: nat) \<in> {48,49,50,51,52,53,54,55,56,57,97,98,99,100,101,102}"
  proof -
    have "(48 \<le> n \<and> n \<le> 57) \<or> (97 \<le> n \<and> n \<le> 102)
      \<longleftrightarrow> n \<in> {48,49,50,51,52,53,54,55,56,57,97,98,99,100,101,102}" for n :: nat
      by (simp only: insert_iff empty_iff simp_thms) presburger
    then show ?thesis .
  qed
  also have "\<dots> \<longleftrightarrow> (of_char c :: nat) \<in> of_char ` set ''0123456789abcdef''"
    by simp
  also have "\<dots> \<longleftrightarrow> c \<in> set ''0123456789abcdef''"
    by (rule inj_image_mem_iff) (rule inj_of_char)
  finally show ?thesis .
qed

lemma lower_hex_alphanumeric: "is_lower_hex c \<Longrightarrow> is_ascii_alphanumeric c"
  by (auto simp: is_lower_hex_def is_ascii_alphanumeric_def less_eq_char_def)

lemma lower_hex_not_dot: "is_lower_hex c \<Longrightarrow> c \<noteq> CHR ''.'' \<and> c \<noteq> CHR '':''"
  by (auto simp: is_lower_hex_chars)

lemma is_valid_str_iff: "is_valid_str v \<longleftrightarrow> is_raw_sha256 v"
proof -
  have "is_ascii_hexdigit c \<and> \<not> is_ascii_uppercase c \<longleftrightarrow> is_lower_hex c" for c
    by (auto simp: is_ascii_hexdigit_def is_ascii_uppercase_def is_lower_hex_def
        is_ascii_digit_def less_eq_char_def)
  then show ?thesis
    by (auto simp: is_valid_str_def is_raw_sha256_def list_all_iff)
qed

lemma is_valid_zero_digest [simp]: "is_valid_str zero_digest"
  by (simp add: is_valid_str_iff is_raw_sha256_def zero_digest_def HEX_LEN_def list_all_iff
      is_lower_hex_chars)

lemma local_id_parse_eq_Inr:
  "local_id_parse code v = Inr w \<longleftrightarrow>
     w = v \<and> v \<noteq> [] \<and> length v \<le> MAX_IDENTIFIER_BYTES \<and> \<not> is_raw_sha256 v
     \<and> \<not> starts_with CHR ''.'' v \<and> \<not> ends_with CHR ''.'' v \<and> \<not> has_empty_segment v
     \<and> list_all is_local_id_char v"
  by (auto simp: local_id_parse_def validate_identifier_def split: if_splits)

text \<open>A short dot-free prefix followed by a digest is always a local identifier.\<close>

lemma prefixed_digest_local_id:
  assumes "is_valid_str h" and "p \<noteq> []" and "length p \<le> 96"
    and "list_all is_local_id_char p" and "CHR ''.'' \<notin> set p"
  shows "local_id_parse code (p @ h) = Inr (p @ h)"
proof -
  have h: "length h = 64" "list_all is_lower_hex h"
    using assms(1) by (auto simp: is_valid_str_iff is_raw_sha256_def HEX_LEN_def)
  have nodot: "CHR ''.'' \<notin> set (p @ h)"
    using h(2) assms(5) lower_hex_not_dot by (auto simp: list_all_iff)
  have "list_all is_local_id_char (p @ h)"
    using h(2) assms(4) by (auto simp: list_all_iff is_local_id_char_def lower_hex_alphanumeric)
  moreover have "\<not> starts_with CHR ''.'' (p @ h)" "\<not> ends_with CHR ''.'' (p @ h)"
  proof -
    have "starts_with c v \<Longrightarrow> c \<in> set v" "ends_with c v \<Longrightarrow> c \<in> set v" for c v
      by (auto simp: starts_with_def ends_with_def split: list.splits)
    with nodot show "\<not> starts_with CHR ''.'' (p @ h)" "\<not> ends_with CHR ''.'' (p @ h)" by blast+
  qed
  ultimately show ?thesis using h(1) assms(2,3) nodot
    by (simp add: local_id_parse_eq_Inr MAX_IDENTIFIER_BYTES_def is_raw_sha256_def HEX_LEN_def
        has_empty_segment_def split_on_no_delim)
qed

lemma is_local_id_char_code: "is_local_id_char c \<longleftrightarrow>
    (let n = (of_char c :: nat) in (48 \<le> n \<and> n \<le> 57) \<or> (65 \<le> n \<and> n \<le> 90) \<or> (97 \<le> n \<and> n \<le> 122))
    \<or> c = CHR ''-'' \<or> c = CHR ''_'' \<or> c = CHR ''.'' \<or> c = CHR '':''"
  by (auto simp: is_local_id_char_def is_ascii_alphanumeric_def is_ascii_digit_def
      is_ascii_uppercase_def less_eq_char_def Let_def)

lemma derived_claim_valid:
  "is_valid_str (digest_domain sha DERIVED_CLAIM_ID_DOMAIN p) \<Longrightarrow>
   local_id_parse code (derived_discovery_claim sha p) = Inr (derived_discovery_claim sha p)"
  unfolding derived_discovery_claim_def
  by (rule prefixed_digest_local_id) (simp_all add: is_local_id_char_code)

lemma derived_obligation_valid:
  "is_valid_str (digest_domain sha DERIVED_OBLIGATION_ID_DOMAIN p) \<Longrightarrow>
   local_id_parse code (derived_discovery_obligation sha p) = Inr (derived_discovery_obligation sha p)"
  unfolding derived_discovery_obligation_def
  by (rule prefixed_digest_local_id) (simp_all add: is_local_id_char_code)

section \<open>Properties\<close>

text \<open>
  A digest never passes for a name: the parsers of the semantic, assignable, inquiry, skill and
  local identifiers all reject the text of a SHA-256 digest.
\<close>

theorem digest_is_no_identifier:
  assumes "is_raw_sha256 v"
  shows "(\<exists>e. semantic_id_parse label allow_dot v = Inl e) \<and> (\<exists>e. semantic_non_digest_id_parse label allow_dot v = Inl e)
    \<and> (\<exists>e. semantic_assignable_id_parse label v = Inl e) \<and> (\<exists>e. inquiry_id_parse v = Inl e)
    \<and> (\<exists>e. skill_id_parse v = Inl e) \<and> (\<exists>e. local_id_parse code v = Inl e)"
proof -
  have ne: "v \<noteq> []" using assms by (auto simp: is_raw_sha256_def HEX_LEN_def)
  have "\<exists>e. rbind (reject c a) (\<lambda>_. rbind (reject True b) f) = Inl e" for c a b and f :: "unit \<Rightarrow> string res"
    by (cases c) simp_all
  then have two: "\<exists>e. rbind (m :: unit res) (\<lambda>_. rbind (reject c a) (\<lambda>_. rbind (reject True b) f)) = Inl e"
    for m c a b and f :: "unit \<Rightarrow> string res" by (cases m) auto
  have one: "\<exists>e. rbind (m :: unit res) (\<lambda>_. rbind (reject True b) f) = Inl e" for m b and f :: "unit \<Rightarrow> string res"
    by (cases m) auto
  have "\<exists>e. semantic_id_parse label allow_dot v = Inl e" "\<exists>e. semantic_non_digest_id_parse label allow_dot v = Inl e"
    "\<exists>e. semantic_assignable_id_parse label v = Inl e" "\<exists>e. inquiry_id_parse v = Inl e"
    using assms ne two
    by (simp_all add: semantic_id_parse_def semantic_non_digest_id_parse_def semantic_assignable_id_parse_def inquiry_id_parse_def)
  moreover have "\<exists>e. skill_id_parse v = Inl e" using assms one by (simp add: skill_id_parse_def)
  moreover have "\<exists>e. local_id_parse code v = Inl e"
    using assms local_id_parse_eq_Inr[of code v] by (cases "local_id_parse code v") auto
  ultimately show ?thesis by blast
qed

theorem digest_is_no_identifier_witness: "\<exists>e. inquiry_id_parse zero_digest = Inl e"
  using digest_is_no_identifier[of zero_digest] is_valid_zero_digest by (simp add: is_valid_str_iff)

text \<open>
  Derived identifiers are identifiers: the claim and obligation names computed from a discovery
  pass the parsers of local identifiers, for every payload.
\<close>

theorem derived_identifiers_parse:
  assumes "\<And>bytes. is_valid_str (sha bytes)"
  shows "local_id_parse code (derived_discovery_claim sha payload) = Inr (derived_discovery_claim sha payload)
    \<and> local_id_parse code (derived_discovery_obligation sha payload) = Inr (derived_discovery_obligation sha payload)"
  using assms derived_claim_valid[of sha payload code] derived_obligation_valid[of sha payload code]
  by (simp add: digest_domain_def)

theorem derived_identifiers_parse_witness:
  "local_id_parse ''e'' (derived_discovery_claim (\<lambda>_. zero_digest) ''p'') = Inr (derived_discovery_claim (\<lambda>_. zero_digest) ''p'')"
  using derived_identifiers_parse[of "\<lambda>_. zero_digest"] by simp

end
