(* ===== verification/Authority.thy ===== *)
theory Authority
  imports Identity
begin

text \<open>
  The private file authority of \<open>src/foundation/authority.rs\<close> at the level of file contents:
  confinement of paths, verified and bounded reads, immutable installation, atomic replacement
  and the authority lock. The store maps the absolute path of a regular file under the private
  root to its bytes. Descriptors, inode identity, ownership and permission bits (crate \<open>rustix\<close>)
  are not represented; a missing file is the only operating system error.
\<close>

section \<open>Paths and the store\<close>

datatype component = RootDir | Normal string | ParentDir | CurDir

type_synonym path = "component list"

type_synonym store = "path \<rightharpoonup> string"

record private_file_reference =
  ref_path :: path
  ref_sha256 :: digest

definition is_absolute :: "path \<Rightarrow> bool" where
  "is_absolute p \<longleftrightarrow> (case p of RootDir # _ \<Rightarrow> True | _ \<Rightarrow> False)"

fun strip_prefix :: "path \<Rightarrow> path \<Rightarrow> path option" where
  "strip_prefix [] p = Some p"
| "strip_prefix (a # as) (b # bs) = (if a = b then strip_prefix as bs else None)"
| "strip_prefix (a # as) [] = None"

fun is_normal :: "component \<Rightarrow> bool" where
  "is_normal (Normal s) = True"
| "is_normal _ = False"

definition root_relative_path :: "path \<Rightarrow> path \<Rightarrow> path res" where
  "root_relative_path root raw =
     (if \<not> is_absolute raw then Inl (Invalid ''private_file_path_must_be_absolute'')
      else case strip_prefix root raw of
        None \<Rightarrow> Inl (Integrity ''private_file_path_outside_root'')
      | Some relative \<Rightarrow>
          if relative = [] \<or> \<not> list_all is_normal relative
          then Inl (Invalid ''private_file_path_not_confined'')
          else Inr relative)"

section \<open>Reading\<close>

text \<open>
  An open file as the reading loops see it: the size \<open>fstat\<close> reported on opening, the
  chunks the successive \<open>read\<close> calls return before the empty one, and whether the final
  \<open>fstat\<close> agrees with the first (\<open>ensure_private_file_stable\<close>).
\<close>

record opened_file =
  opened_len :: nat
  chunks :: "string list"
  stable :: bool

text \<open>
  The loop of \<open>verify_opened_private_file\<close> and of \<open>read_opened_private_file_bounded\<close>: count the
  bytes, stop beyond the limit, keep what was read.
\<close>

fun read_loop :: "nat option \<Rightarrow> string list \<Rightarrow> nat \<Rightarrow> string \<Rightarrow> (nat \<times> string) res" where
  "read_loop max_bytes [] actual_len acc = Inr (actual_len, acc)"
| "read_loop max_bytes (c # cs) actual_len acc =
     (if c = [] then Inr (actual_len, acc)
      else rbind (ok_or (checked_add 64 actual_len (length c)) (Integrity ''private_file_size_overflow''))
        (\<lambda>len. if (case max_bytes of None \<Rightarrow> False | Some limit \<Rightarrow> limit < len)
                then Inl (Invalid ''private_file_read_limit_exceeded'')
                else read_loop max_bytes cs len (acc @ c)))"

definition verify_opened_private_file ::
  "(string \<Rightarrow> digest) \<Rightarrow> opened_file \<Rightarrow> digest \<Rightarrow> nat option \<Rightarrow> bool \<Rightarrow> string res" where
  "verify_opened_private_file sha file expected max_bytes retain_bytes =
     (if (case max_bytes of None \<Rightarrow> False | Some limit \<Rightarrow> limit < opened_len file)
      then Inl (Invalid ''private_file_read_limit_exceeded'')
      else rbind (read_loop max_bytes (chunks file) 0 []) (\<lambda>(actual_len, bytes).
           rbind (reject (\<not> stable file) (Integrity ''private_file_mutated_during_read'')) (\<lambda>_.
           rbind (reject (actual_len \<noteq> opened_len file) (Integrity ''private_file_mutated_during_read'')) (\<lambda>_.
           rbind (sha256_digest_parse (sha bytes)) (\<lambda>actual.
           rbind (reject (actual \<noteq> expected) (Integrity ''private_file_reference_digest_mismatch'')) (\<lambda>_.
           Inr (if retain_bytes then bytes else [])))))))"

definition read_opened_private_file_bounded :: "opened_file \<Rightarrow> nat \<Rightarrow> string res" where
  "read_opened_private_file_bounded file max_bytes =
     (if max_bytes < opened_len file then Inl (Invalid ''private_file_read_limit_exceeded'')
      else rbind (read_loop (Some max_bytes) (chunks file) 0 []) (\<lambda>(actual_len, bytes).
           rbind (reject (\<not> stable file) (Integrity ''private_file_mutated_during_read'')) (\<lambda>_.
           rbind (reject (actual_len \<noteq> opened_len file) (Integrity ''private_file_mutated_during_read'')) (\<lambda>_.
           Inr bytes))))"

text \<open>
  Opening a file of the store: one undisturbed reader, which gets the content in chunks of at
  most the read buffer.
\<close>

definition PRIVATE_READ_BUFFER_BYTES :: nat where
  "PRIVATE_READ_BUFFER_BYTES = 65536"

function chunked :: "nat \<Rightarrow> string \<Rightarrow> string list" where
  "chunked n s = (if s = [] \<or> n = 0 then [] else take n s # chunked n (drop n s))"
  by pat_completeness auto
termination
  by (relation "measure (\<lambda>(n, s). length s)") auto

declare chunked.simps [simp del]

definition store_file :: "string \<Rightarrow> opened_file" where
  "store_file bytes =
     \<lparr>opened_len = length bytes, chunks = chunked PRIVATE_READ_BUFFER_BYTES bytes, stable = True\<rparr>"

definition open_confined_regular_file :: "path \<Rightarrow> path \<Rightarrow> store \<Rightarrow> (path \<times> opened_file) res" where
  "open_confined_regular_file root raw fs =
     rbind (root_relative_path root raw) (\<lambda>relative.
     rbind (ok_or (fs (root @ relative)) (Io NotFound)) (\<lambda>bytes.
     Inr (root @ relative, store_file bytes)))"

definition open_private_reference :: "path \<Rightarrow> path \<Rightarrow> store \<Rightarrow> (path \<times> opened_file) res" where
  "open_private_reference root raw fs =
     rbind (root_relative_path root raw) (\<lambda>relative.
     rbind (reject (root = [RootDir] \<or> \<not> list_all (\<lambda>c. c = RootDir \<or> is_normal c) root)
              (Invalid ''private_root_path_invalid'')) (\<lambda>_.
     rbind (ok_or (fs (root @ relative)) (Io NotFound)) (\<lambda>bytes.
     Inr (root @ relative, store_file bytes))))"

definition ref_verify :: "(string \<Rightarrow> digest) \<Rightarrow> path \<Rightarrow> private_file_reference \<Rightarrow> store \<Rightarrow> path res" where
  "ref_verify sha root r fs =
     rbind (open_private_reference root (ref_path r) fs) (\<lambda>(p, file).
     rbind (verify_opened_private_file sha file (ref_sha256 r) None False) (\<lambda>_. Inr p))"

definition read_verified :: "(string \<Rightarrow> digest) \<Rightarrow> path \<Rightarrow> private_file_reference \<Rightarrow> store \<Rightarrow> string res" where
  "read_verified sha root r fs =
     rbind (open_private_reference root (ref_path r) fs) (\<lambda>(p, file).
     verify_opened_private_file sha file (ref_sha256 r) None True)"

definition read_verified_bounded ::
  "(string \<Rightarrow> digest) \<Rightarrow> path \<Rightarrow> private_file_reference \<Rightarrow> nat \<Rightarrow> store \<Rightarrow> string res" where
  "read_verified_bounded sha root r max_bytes fs =
     rbind (open_private_reference root (ref_path r) fs) (\<lambda>(p, file).
     verify_opened_private_file sha file (ref_sha256 r) (Some max_bytes) True)"

definition read_existing_private_file_bounded :: "path \<Rightarrow> path \<Rightarrow> nat \<Rightarrow> store \<Rightarrow> string res" where
  "read_existing_private_file_bounded root raw max_bytes fs =
     rbind (open_private_reference root raw fs) (\<lambda>(p, file).
     read_opened_private_file_bounded file max_bytes)"

definition existing_regular_file_if_present :: "path \<Rightarrow> path \<Rightarrow> store \<Rightarrow> path option res" where
  "existing_regular_file_if_present root raw fs =
     (case open_confined_regular_file root raw fs of
        Inr (p, _) \<Rightarrow> Inr (Some p)
      | Inl e \<Rightarrow> if e = Io NotFound then Inr None else Inl e)"

section \<open>Writing\<close>

text \<open>
  An operation that may write: it returns its result and the store it leaves behind, also
  when it fails after a write.
\<close>

type_synonym 'a io = "store \<Rightarrow> 'a res \<times> store"

definition io_bind :: "'a io \<Rightarrow> ('a \<Rightarrow> 'b io) \<Rightarrow> 'b io" where
  "io_bind m f fs = (case m fs of (Inl e, fs') \<Rightarrow> (Inl e, fs') | (Inr x, fs') \<Rightarrow> f x fs')"

definition io_read :: "(store \<Rightarrow> 'a res) \<Rightarrow> 'a io" where
  "io_read r fs = (r fs, fs)"

definition io_res :: "'a res \<Rightarrow> 'a io" where
  "io_res r fs = (r, fs)"

definition verify_immutable_content :: "(string \<Rightarrow> digest) \<Rightarrow> path \<Rightarrow> path \<Rightarrow> digest \<Rightarrow> store \<Rightarrow> unit res" where
  "verify_immutable_content sha root path expected fs =
     rbind (root_relative_path root path) (\<lambda>relative.
     rbind (ok_or (fs (root @ relative)) (Io NotFound)) (\<lambda>bytes.
     reject (sha bytes \<noteq> expected) (Integrity ''private_file_immutable_content_mismatch'')))"

text \<open>
  The staging file is written, hashed and linked under the final name (\<open>stage_private_bytes\<close>,
  \<open>install_private_immutable_file\<close>): the content appears at once or not at all.
\<close>

definition write_or_verify_immutable :: "(string \<Rightarrow> digest) \<Rightarrow> path \<Rightarrow> path \<Rightarrow> string \<Rightarrow> digest io" where
  "write_or_verify_immutable sha root path bytes =
     (let expected = digest_bytes sha bytes in
      io_bind (io_read (existing_regular_file_if_present root path)) (\<lambda>present.
        if present \<noteq> None
        then io_bind (io_read (verify_immutable_content sha root path expected)) (\<lambda>_. io_res (Inr expected))
        else io_bind (io_res (root_relative_path root path)) (\<lambda>relative fs.
               (Inr expected, fs(root @ relative \<mapsto> bytes)))))"

definition create_private_immutable :: "(string \<Rightarrow> digest) \<Rightarrow> path \<Rightarrow> path \<Rightarrow> string \<Rightarrow> digest io" where
  "create_private_immutable sha root path bytes =
     io_bind (io_read (existing_regular_file_if_present root path)) (\<lambda>present.
       if present \<noteq> None
       then io_res (Inl (Integrity ''private_file_immutable_target_already_exists''))
       else io_bind (io_res (root_relative_path root path)) (\<lambda>relative fs.
              (Inr (digest_bytes sha bytes), fs(root @ relative \<mapsto> bytes))))"

definition replace_private_file_atomic ::
  "(string \<Rightarrow> digest) \<Rightarrow> path \<Rightarrow> path \<Rightarrow> string \<Rightarrow> digest option \<Rightarrow> digest io" where
  "replace_private_file_atomic sha root path bytes expected_sha256 =
     (let digest = digest_bytes sha bytes in
      if (case expected_sha256 of None \<Rightarrow> False | Some e \<Rightarrow> e \<noteq> digest)
      then io_res (Inl (Integrity ''private_file_atomic_expected_digest_mismatch''))
      else io_bind (io_read (existing_regular_file_if_present root path)) (\<lambda>_.
           io_bind (io_res (root_relative_path root path)) (\<lambda>relative fs.
             (Inr digest, fs(root @ relative \<mapsto> bytes)))))"

definition with_private_authority_lock ::
  "(string \<Rightarrow> digest) \<Rightarrow> path \<Rightarrow> path \<Rightarrow> 'a io \<Rightarrow> 'a io" where
  "with_private_authority_lock sha root lock_path operation =
     io_bind (write_or_verify_immutable sha root lock_path []) (\<lambda>_.
     io_bind (io_read (open_private_reference root lock_path)) (\<lambda>_. operation))"

section \<open>Facts about paths and reads\<close>

lemma strip_prefix_eq_Some [simp]: "strip_prefix a b = Some c \<longleftrightarrow> b = a @ c"
  by (induction a b rule: strip_prefix.induct) auto

lemma strip_prefix_append [simp]: "strip_prefix a (a @ b) = Some b"
  by simp

lemma root_relative_path_eq_Inr:
  "root_relative_path root raw = Inr relative \<longleftrightarrow>
     is_absolute raw \<and> raw = root @ relative \<and> relative \<noteq> [] \<and> list_all is_normal relative"
  by (auto simp: root_relative_path_def simp del: strip_prefix_eq_Some split: option.splits if_splits)
    (simp_all)

lemma root_relative_path_join: "root_relative_path root raw = Inr relative \<Longrightarrow> root @ relative = raw"
  by (simp add: root_relative_path_eq_Inr)

lemma concat_chunked: "0 < n \<Longrightarrow> concat (chunked n s) = s"
  by (induction n s rule: chunked.induct) (subst chunked.simps, auto)

lemma chunked_nonempty: "[] \<notin> set (chunked n s)"
proof (induction n s rule: chunked.induct)
  case (1 n s)
  then show ?case by (subst chunked.simps) auto
qed

lemma read_loop_complete:
  assumes "[] \<notin> set cs" and "len + length (concat cs) < 2 ^ 64"
    and "\<And>limit. max_bytes = Some limit \<Longrightarrow> len + length (concat cs) \<le> limit"
  shows "read_loop max_bytes cs len acc = Inr (len + length (concat cs), acc @ concat cs)"
  using assms
proof (induction cs arbitrary: len acc)
  case (Cons c cs)
  have "read_loop max_bytes cs (len + length c) (acc @ c)
      = Inr (len + length c + length (concat cs), (acc @ c) @ concat cs)"
    by (rule Cons.IH) (use Cons.prems in \<open>auto simp: add.assoc\<close>)
  moreover have "len + length c < 2 ^ 64"
    and "\<And>limit. max_bytes = Some limit \<Longrightarrow> len + length c \<le> limit"
    using Cons.prems by fastforce+
  ultimately show ?case
    using Cons.prems(1) by (auto simp: checked_add_def not_less split: option.splits)
qed simp

lemma read_loop_step:
  "c \<noteq> [] \<Longrightarrow> read_loop max_bytes (c # cs) len acc = Inr r \<Longrightarrow>
     read_loop max_bytes cs (len + length c) (acc @ c) = Inr r
     \<and> (\<forall>limit. max_bytes = Some limit \<longrightarrow> len + length c \<le> limit)"
  by (auto split: if_splits option.splits)

lemma read_loop_sound:
  "read_loop max_bytes cs len acc = Inr (n, bytes) \<Longrightarrow>
     \<exists>read. bytes = acc @ read \<and> n = len + length read
       \<and> (\<forall>limit. max_bytes = Some limit \<longrightarrow> len \<le> limit \<longrightarrow> n \<le> limit)
       \<and> ([] \<notin> set cs \<longrightarrow> read = concat cs)"
proof (induction cs arbitrary: len acc)
  case (Cons c cs)
  show ?case
  proof (cases "c = []")
    case False
    from read_loop_step[OF False Cons.prems]
    have ok: "read_loop max_bytes cs (len + length c) (acc @ c) = Inr (n, bytes)"
      and lim: "\<forall>limit. max_bytes = Some limit \<longrightarrow> len + length c \<le> limit" by auto
    from Cons.IH[OF ok] obtain r where r: "bytes = (acc @ c) @ r" "n = len + length c + length r"
      "\<forall>limit. max_bytes = Some limit \<longrightarrow> len + length c \<le> limit \<longrightarrow> n \<le> limit"
      "[] \<notin> set cs \<longrightarrow> r = concat cs"
      by blast
    with lim show ?thesis by (intro exI[of _ "c @ r"]) auto
  qed (use Cons.prems in auto)
qed simp

text \<open>
  Whatever the operating system returned chunk by chunk, bytes leave the verifier only when
  they have the expected digest, the announced length and respect the limit.
\<close>

lemma verify_opened_sound:
  assumes "verify_opened_private_file sha file expected max_bytes True = Inr bytes"
  shows "sha bytes = expected" and "is_valid_str expected" and "length bytes = opened_len file"
    and "\<And>limit. max_bytes = Some limit \<Longrightarrow> length bytes \<le> limit"
proof -
  from assms obtain n where loop: "read_loop max_bytes (chunks file) 0 [] = Inr (n, bytes)"
    and len: "n = opened_len file" and d: "sha256_digest_parse (sha bytes) = Inr expected"
    by (auto simp: verify_opened_private_file_def split: if_splits)
  from d show "sha bytes = expected" "is_valid_str expected"
    by (auto simp: sha256_digest_parse_def split: if_splits)
  from read_loop_sound[OF loop] len show "length bytes = opened_len file" by auto
  show "length bytes \<le> limit" if "max_bytes = Some limit" for limit
    using read_loop_sound[OF loop] that by auto
qed

text \<open>On a file of the store the loop is the plain check of length and digest.\<close>

lemma read_loop_store_file:
  "length bytes < 2 ^ 64 \<Longrightarrow> (\<And>limit. max_bytes = Some limit \<Longrightarrow> length bytes \<le> limit) \<Longrightarrow>
   read_loop max_bytes (chunked PRIVATE_READ_BUFFER_BYTES bytes) 0 [] = Inr (length bytes, bytes)"
  using read_loop_complete[of "chunked PRIVATE_READ_BUFFER_BYTES bytes" 0 max_bytes "[]"]
  by (simp add: chunked_nonempty concat_chunked PRIVATE_READ_BUFFER_BYTES_def)

lemma verify_store_file:
  assumes "limit < 2 ^ 64"
  shows "verify_opened_private_file sha (store_file bytes) expected (Some limit) True =
    (if limit < length bytes then Inl (Invalid ''private_file_read_limit_exceeded'')
     else if \<not> is_valid_str (sha bytes) then Inl (Invalid ''sha256_digest_invalid'')
     else if sha bytes \<noteq> expected then Inl (Integrity ''private_file_reference_digest_mismatch'')
     else Inr bytes)"
proof (cases "limit < length bytes")
  case False
  with assms have "read_loop (Some limit) (chunked PRIVATE_READ_BUFFER_BYTES bytes) 0 []
      = Inr (length bytes, bytes)"
    by (intro read_loop_store_file) auto
  with False show ?thesis
    by (simp add: verify_opened_private_file_def store_file_def sha256_digest_parse_def)
qed (simp add: verify_opened_private_file_def store_file_def)

lemma read_opened_store_file:
  assumes "limit < 2 ^ 64"
  shows "read_opened_private_file_bounded (store_file bytes) limit =
    (if limit < length bytes then Inl (Invalid ''private_file_read_limit_exceeded'') else Inr bytes)"
proof (cases "limit < length bytes")
  case False
  with assms have "read_loop (Some limit) (chunked PRIVATE_READ_BUFFER_BYTES bytes) 0 []
      = Inr (length bytes, bytes)"
    by (intro read_loop_store_file) auto
  with False show ?thesis by (simp add: read_opened_private_file_bounded_def store_file_def)
qed (simp add: read_opened_private_file_bounded_def store_file_def)

text \<open>A root the authority accepts, and paths confined under it.\<close>

definition good_root :: "path \<Rightarrow> bool" where
  "good_root root \<longleftrightarrow>
     is_absolute root \<and> root \<noteq> [RootDir] \<and> list_all (\<lambda>c. c = RootDir \<or> is_normal c) root"

definition confined :: "path \<Rightarrow> path \<Rightarrow> bool" where
  "confined root p \<longleftrightarrow> (\<exists>relative. root_relative_path root p = Inr relative)"

lemma is_absolute_append: "is_absolute a \<Longrightarrow> is_absolute (a @ b)"
  by (auto simp: is_absolute_def split: list.splits component.splits)

lemma confined_iff:
  "good_root root \<Longrightarrow> confined root p \<longleftrightarrow> (\<exists>relative. p = root @ relative \<and> relative \<noteq> [] \<and> list_all is_normal relative)"
  by (auto simp: confined_def root_relative_path_eq_Inr good_root_def is_absolute_append)

lemma open_private_reference_eq:
  assumes "good_root root" "confined root p"
  shows "open_private_reference root p fs =
    (case fs p of None \<Rightarrow> Inl (Io NotFound) | Some b \<Rightarrow> Inr (p, store_file b))"
  using assms
  by (auto simp: open_private_reference_def confined_def good_root_def
      reject_def root_relative_path_join split: option.splits dest: root_relative_path_join)

lemma existing_regular_file_eq:
  assumes "confined root p"
  shows "existing_regular_file_if_present root p fs = Inr (if fs p = None then None else Some p)"
  using assms
  by (auto simp: existing_regular_file_if_present_def open_confined_regular_file_def confined_def
      root_relative_path_join split: option.splits dest: root_relative_path_join)

lemma read_verified_bounded_ok:
  assumes "read_verified_bounded sha root r limit fs = Inr bytes"
  shows "fs (ref_path r) = Some bytes" and "sha bytes = ref_sha256 r" and "length bytes \<le> limit"
    and "confined root (ref_path r)"
proof -
  from assms obtain p f where o: "open_private_reference root (ref_path r) fs = Inr (p, f)"
    and v: "verify_opened_private_file sha f (ref_sha256 r) (Some limit) True = Inr bytes"
    by (auto simp: read_verified_bounded_def)
  from o obtain relative b where rel: "root_relative_path root (ref_path r) = Inr relative"
    and b: "fs (ref_path r) = Some b" and f: "f = store_file b"
    by (auto simp: open_private_reference_def) (metis root_relative_path_join)
  from rel show "confined root (ref_path r)" by (auto simp: confined_def)
  from v show "sha bytes = ref_sha256 r" "length bytes \<le> limit"
    using verify_opened_sound[OF v] by auto
  from v f obtain n where "read_loop (Some limit) (chunked PRIVATE_READ_BUFFER_BYTES b) 0 [] = Inr (n, bytes)"
    by (auto simp: verify_opened_private_file_def store_file_def split: if_splits)
  from read_loop_sound[OF this] have "bytes = concat (chunked PRIVATE_READ_BUFFER_BYTES b)"
    by (simp add: chunked_nonempty)
  then have "bytes = b" by (simp add: concat_chunked PRIVATE_READ_BUFFER_BYTES_def)
  with b show "fs (ref_path r) = Some bytes" by simp
qed

lemma read_verified_bounded_eq:
  assumes "good_root root" "confined root (ref_path r)" "limit < 2 ^ 64"
  shows "read_verified_bounded sha root r limit fs =
    (case fs (ref_path r) of
       None \<Rightarrow> Inl (Io NotFound)
     | Some bytes \<Rightarrow> verify_opened_private_file sha (store_file bytes) (ref_sha256 r) (Some limit) True)"
  using assms by (simp add: read_verified_bounded_def open_private_reference_eq split: option.splits)

section \<open>The immutable objects of the store\<close>

text \<open>
  What the users of the authority rely on: an installed object is readable under its path, no
  later installation changes or removes an object, and an installation touches its own path
  only. \<open>same\<close> is equality as the authority can observe it, equality of digests.
\<close>

locale immutable_objects =
  fixes obj :: "'s \<Rightarrow> 'p \<Rightarrow> 'b option"
    and put :: "'p \<Rightarrow> 'b \<Rightarrow> 's \<Rightarrow> 'd res \<times> 's"
    and same :: "'b \<Rightarrow> 'b \<Rightarrow> bool"
  assumes put_keeps: "obj s q = Some b \<Longrightarrow> obj (snd (put p b' s)) q = Some b"
    and put_stored: "fst (put p b s) = Inr d \<Longrightarrow> \<exists>b'. obj (snd (put p b s)) p = Some b' \<and> same b' b"
    and put_fresh: "fst (put p b s) = Inr d \<Longrightarrow> obj s p = None \<Longrightarrow> obj (snd (put p b s)) p = Some b"
    and put_other: "q \<noteq> p \<Longrightarrow> obj (snd (put p b s)) q = obj s q"
    and put_again: "obj s p = Some b \<Longrightarrow> obj s' p = Some b \<Longrightarrow> fst (put p b' s') = fst (put p b' s)"
begin

definition extends :: "'s \<Rightarrow> 's \<Rightarrow> bool" where
  "extends s s' \<longleftrightarrow> (\<forall>q b. obj s q = Some b \<longrightarrow> obj s' q = Some b)"

lemma extends_refl: "extends s s"
  by (simp add: extends_def)

lemma extends_trans: "extends s t \<Longrightarrow> extends t u \<Longrightarrow> extends s u"
  by (simp add: extends_def)

lemma put_extends: "extends s (snd (put p b s))"
  by (simp add: extends_def put_keeps)

text \<open>A retry after any number of other installations gives the same answer.\<close>

lemma put_retry:
  assumes "fst (put p b s) = Inr d" and "extends (snd (put p b s)) t"
  shows "fst (put p b t) = fst (put p b (snd (put p b s)))"
proof -
  from put_stored[OF assms(1)] obtain b' where "obj (snd (put p b s)) p = Some b'" by blast
  with assms(2) show ?thesis by (intro put_again[of _ p b']) (auto simp: extends_def)
qed

end

definition authority_obj :: "path \<Rightarrow> store \<Rightarrow> path \<Rightarrow> string option" where
  "authority_obj root fs p = (if confined root p then fs p else None)"

lemma write_or_verify_eq:
  assumes "confined root p"
  shows "write_or_verify_immutable sha root p bytes fs =
    (case fs p of
       None \<Rightarrow> (Inr (sha bytes), fs(p \<mapsto> bytes))
     | Some old \<Rightarrow> (if sha old \<noteq> sha bytes then Inl (Integrity ''private_file_immutable_content_mismatch'')
                   else Inr (sha bytes), fs))"
proof -
  from assms obtain relative where rel: "root_relative_path root p = Inr relative"
    by (auto simp: confined_def)
  then have "root @ relative = p" by (rule root_relative_path_join)
  with rel show ?thesis
    by (cases "fs p")
       (auto simp: write_or_verify_immutable_def io_bind_def io_read_def io_res_def
         existing_regular_file_eq[OF assms] verify_immutable_content_def digest_bytes_def
         reject_def Let_def)
qed

lemma write_or_verify_unconfined:
  assumes "\<not> confined root p"
  shows "\<exists>e. write_or_verify_immutable sha root p bytes fs = (Inl e, fs)"
proof -
  from assms obtain e where rel: "root_relative_path root p = Inl e"
    by (cases "root_relative_path root p") (auto simp: confined_def)
  then have "e \<noteq> Io NotFound" by (auto simp: root_relative_path_def split: if_splits option.splits)
  with rel show ?thesis
    by (simp add: write_or_verify_immutable_def io_bind_def io_read_def
        existing_regular_file_if_present_def open_confined_regular_file_def Let_def)
qed

lemma write_or_verify_Inr_confined:
  "fst (write_or_verify_immutable sha root p bytes fs) = Inr d \<Longrightarrow> confined root p"
  using write_or_verify_unconfined by (metis fst_conv sum.distinct(1))

interpretation private_objects: immutable_objects
  "authority_obj root" "write_or_verify_immutable sha root" "\<lambda>a b. sha a = sha b"
  for root sha
proof (unfold_locales, goal_cases)
  case (1 s q b p b')
  then show ?case
    by (cases "confined root p")
       (auto simp: authority_obj_def write_or_verify_eq split: option.splits if_splits
         dest!: write_or_verify_unconfined[of root p sha b' s])
next
  case (2 p b s d)
  then have "confined root p" by (rule write_or_verify_Inr_confined)
  with 2 show ?case
    by (auto simp: authority_obj_def write_or_verify_eq split: option.splits if_splits)
next
  case (3 p b s d)
  then show ?case
    by (auto simp: authority_obj_def write_or_verify_eq dest!: write_or_verify_Inr_confined
        split: option.splits if_splits)
next
  case (4 q p b s)
  then show ?case
    by (cases "confined root p")
       (auto simp: authority_obj_def write_or_verify_eq split: option.splits
         dest!: write_or_verify_unconfined[of root p sha b s])
next
  case (5 s p b s' b')
  then show ?case
    by (auto simp: authority_obj_def write_or_verify_eq split: if_splits)
qed

section \<open>Operations that write\<close>

lemma io_bind_eq_Inr: "io_bind m f fs = (Inr y, fs') \<longleftrightarrow> (\<exists>x fs1. m fs = (Inr x, fs1) \<and> f x fs1 = (Inr y, fs'))"
  by (auto simp: io_bind_def split: prod.splits sum.splits)

lemma io_read_eq_Inr: "io_read r fs = (Inr y, fs') \<longleftrightarrow> r fs = Inr y \<and> fs' = fs"
  by (auto simp: io_read_def)

lemma io_res_eq_Inr: "io_res r fs = (Inr y, fs') \<longleftrightarrow> r = Inr y \<and> fs' = fs"
  by (auto simp: io_res_def)

lemmas io_steps = io_bind_eq_Inr io_read_eq_Inr io_res_eq_Inr

text \<open>
  An operation keeps the files outside a set of paths when every file that was there is there
  unchanged after it, on success and on failure.
\<close>

definition io_keeps :: "path set \<Rightarrow> 'a io \<Rightarrow> bool" where
  "io_keeps mutable m \<longleftrightarrow> (\<forall>fs p b. p \<notin> mutable \<longrightarrow> fs p = Some b \<longrightarrow> snd (m fs) p = Some b)"

named_theorems keeps_intros

lemma io_keeps_read [keeps_intros]: "io_keeps M (io_read r)"
  by (simp add: io_keeps_def io_read_def)

lemma io_keeps_res [keeps_intros]: "io_keeps M (io_res r)"
  by (simp add: io_keeps_def io_res_def)

lemma io_keeps_bind [keeps_intros]:
  assumes "io_keeps M m" and "\<And>x. io_keeps M (f x)"
  shows "io_keeps M (io_bind m f)"
  unfolding io_keeps_def
proof (intro allI impI)
  fix fs :: store and p b
  assume p: "p \<notin> M" "fs p = Some b"
  obtain r fs1 where m: "m fs = (r, fs1)" by (cases "m fs")
  with assms(1) p have "fs1 p = Some b" unfolding io_keeps_def by (metis snd_conv)
  with assms(2) p m show "snd (io_bind m f fs) p = Some b"
    by (cases r) (simp_all add: io_bind_def io_keeps_def)
qed

lemma io_keeps_write [keeps_intros]: "io_keeps M (write_or_verify_immutable sha root p bytes)"
  unfolding io_keeps_def
proof (intro allI impI)
  fix fs :: store and q b
  assume "fs q = Some b"
  then show "snd (write_or_verify_immutable sha root p bytes fs) q = Some b"
    using write_or_verify_unconfined[of root p sha bytes fs]
    by (cases "confined root p") (auto simp: write_or_verify_eq split: option.splits)
qed

lemma io_keeps_replace [keeps_intros]: "p \<in> M \<Longrightarrow> io_keeps M (replace_private_file_atomic sha root p bytes d)"
  unfolding io_keeps_def replace_private_file_atomic_def Let_def
  by (auto simp: io_bind_def io_read_def io_res_def split: option.splits sum.splits dest!: root_relative_path_join)

section \<open>Properties\<close>

text \<open>
  A verified read is authentic under every behaviour of the file: whatever chunks the reads
  return and whatever the metadata says, accepted bytes have the expected digest, the announced
  length, and respect the limit.
\<close>

theorem verified_read_authentic:
  assumes "verify_opened_private_file sha file expected max_bytes True = Inr bytes"
  shows "sha bytes = expected \<and> length bytes = opened_len file
    \<and> (\<forall>limit. max_bytes = Some limit \<longrightarrow> length bytes \<le> limit)"
  using verify_opened_sound[OF assms] by auto

theorem verified_read_authentic_witness:
  "verify_opened_private_file (\<lambda>_. zero_digest) \<lparr>opened_len = 3, chunks = [''ab'', ''c''], stable = True\<rparr> zero_digest (Some 3) True
     = Inr ''abc'' \<and> length ''abc'' = 3"
proof -
  have "verify_opened_private_file (\<lambda>_. zero_digest) \<lparr>opened_len = 3, chunks = [''ab'', ''c''], stable = True\<rparr>
      zero_digest (Some 3) True = Inr ''abc''"
    by (simp add: verify_opened_private_file_def checked_add_def sha256_digest_parse_def)
  with verified_read_authentic[OF this] show ?thesis by simp
qed

definition install_all :: "(string \<Rightarrow> digest) \<Rightarrow> path \<Rightarrow> (path \<times> string) list \<Rightarrow> store \<Rightarrow> store" where
  "install_all sha root = fold (\<lambda>(q, b) fs. snd (write_or_verify_immutable sha root q b fs))"

lemma install_all_extends: "private_objects.extends root fs (install_all sha root ws fs)"
proof (induction ws arbitrary: fs)
  case (Cons w ws)
  obtain q b where w: "w = (q, b)" by force
  from private_objects.extends_trans[OF private_objects.put_extends[of root fs sha q b] Cons] w
  show ?case by (simp add: install_all_def)
qed (simp add: install_all_def private_objects.extends_refl)

text \<open>
  C18: what is installed can be read for ever: a new immutable object is read back under its digest
  after any sequence of further installations.
\<close>
theorem immutable_object_round_trip:
  assumes "write_or_verify_immutable sha root p bytes fs = (Inr d, fs')" and "fs p = None"
    and "good_root root" and "length bytes \<le> limit" and "limit < 2 ^ 64" and "is_valid_str (sha bytes)"
  shows "read_verified_bounded sha root \<lparr>ref_path = p, ref_sha256 = d\<rparr> limit (install_all sha root ws fs') = Inr bytes"
proof -
  from assms(1) write_or_verify_Inr_confined[of sha root p bytes fs d] have c: "confined root p" by simp
  with assms(1,2) have "d = sha bytes" "fs' p = Some bytes" by (auto simp: write_or_verify_eq)
  with c install_all_extends[of root fs' sha ws] have "install_all sha root ws fs' p = Some bytes"
    unfolding private_objects.extends_def authority_obj_def by presburger
  with c assms \<open>d = sha bytes\<close> show ?thesis by (simp add: read_verified_bounded_eq verify_store_file)
qed

theorem immutable_object_round_trip_witness:
  "read_verified_bounded (\<lambda>_. zero_digest) [RootDir, Normal ''r''] \<lparr>ref_path = [RootDir, Normal ''r'', Normal ''o''], ref_sha256 = zero_digest\<rparr> 10
     (install_all (\<lambda>_. zero_digest) [RootDir, Normal ''r''] [([RootDir, Normal ''r'', Normal ''o''], ''other'')]
       (Map.empty([RootDir, Normal ''r'', Normal ''o''] \<mapsto> ''abc''))) = Inr ''abc''"
proof -
  have g: "good_root [RootDir, Normal ''r'']" by (simp add: good_root_def is_absolute_def)
  have "write_or_verify_immutable (\<lambda>_. zero_digest) [RootDir, Normal ''r''] [RootDir, Normal ''r'', Normal ''o''] ''abc'' Map.empty
      = (Inr zero_digest, Map.empty([RootDir, Normal ''r'', Normal ''o''] \<mapsto> ''abc''))"
    using g by (simp add: write_or_verify_eq confined_iff)
  then show ?thesis by (rule immutable_object_round_trip) (use g in simp_all)
qed

end
