(* ===== verification/Knowledge_Types.thy ===== *)
theory Knowledge_Types
  imports Authority
begin

text \<open>
  The data of \<open>src/knowledge/knowledge_engine.rs\<close>: observations and predicates, plans and
  budgets, claims, obligations and hypotheses, invocations, evidence artifacts, receipts, the
  knowledge state and the canonical head. A Rust struct is a record (field names carry a prefix
  per struct), an enum a datatype; \<open>BTreeMap\<close> and \<open>BTreeSet\<close> are \<open>bmap\<close> and \<open>bset\<close>.
  The last section names the code outside the repository that the engine calls.
\<close>

section \<open>Bounds\<close>

definition HARD_MAX_CLAIMS :: nat where "HARD_MAX_CLAIMS = 4096"
definition HARD_MAX_OBLIGATIONS :: nat where "HARD_MAX_OBLIGATIONS = 8192"
definition HARD_MAX_HYPOTHESES :: nat where "HARD_MAX_HYPOTHESES = 512"
definition HARD_MAX_ACTIONS :: nat where "HARD_MAX_ACTIONS = 8192"
definition HARD_MAX_TOTAL_COST :: nat where "HARD_MAX_TOTAL_COST = 1000000"
definition HARD_MAX_REVISION :: nat where "HARD_MAX_REVISION = 8192"
definition HARD_MAX_DEPENDENCY_NODES :: nat where "HARD_MAX_DEPENDENCY_NODES = 4096"
definition HARD_MAX_DEPENDENCY_EDGES :: nat where "HARD_MAX_DEPENDENCY_EDGES = 16384"
definition HARD_MAX_DEPENDENCY_EDGES_PER_ACTION :: nat where
  "HARD_MAX_DEPENDENCY_EDGES_PER_ACTION = 256"
definition HARD_MAX_DEPENDENCY_DEPTH :: nat where "HARD_MAX_DEPENDENCY_DEPTH = 64"
definition HARD_MAX_EVIDENCE_RECORDS :: nat where "HARD_MAX_EVIDENCE_RECORDS = 16384"
definition HARD_MAX_OBSERVATIONS_PER_ACTION :: nat where "HARD_MAX_OBSERVATIONS_PER_ACTION = 1024"
definition HARD_MAX_SCENARIO_INPUTS :: nat where "HARD_MAX_SCENARIO_INPUTS = 256"
definition HARD_MAX_TRACE_EVENTS :: nat where "HARD_MAX_TRACE_EVENTS = 1000000"
definition HARD_MAX_COUNTEREXAMPLE_CASES :: nat where "HARD_MAX_COUNTEREXAMPLE_CASES = 1000000"
definition HARD_MAX_DISCOVERIES_PER_ACTION :: nat where "HARD_MAX_DISCOVERIES_PER_ACTION = 256"
definition MAX_STATE_BYTES :: nat where "MAX_STATE_BYTES = 64 * 2 ^ 20"
definition MAX_ACTION_RECEIPT_BYTES :: nat where "MAX_ACTION_RECEIPT_BYTES = 64 * 2 ^ 20"
definition MAX_EVIDENCE_RECORD_BYTES :: nat where "MAX_EVIDENCE_RECORD_BYTES = 2 ^ 20"
definition MAX_EVIDENCE_ARTIFACT_BYTES :: nat where "MAX_EVIDENCE_ARTIFACT_BYTES = 64 * 2 ^ 20"
definition MAX_EXECUTOR_IMPLEMENTATION_BYTES :: nat where
  "MAX_EXECUTOR_IMPLEMENTATION_BYTES = 64 * 2 ^ 20"
definition CANONICAL_HEAD_POINTER_MAX_BYTES :: nat where
  "CANONICAL_HEAD_POINTER_MAX_BYTES = 2 ^ 20"

section \<open>Observations, predicates, plans\<close>

datatype observed_value =
    ObsBool bool
  | ObsI64 int
  | ObsU64 nat
  | ObsSymbol string
  | ObsExactBytesDigest digest

datatype knowledge_predicate =
    BoolEquals string bool
  | I64Equals string int
  | U64Equals string nat
  | U64AtLeast string nat
  | U64AtMost string nat
  | SymbolEquals string string
  | ExactBytesDigestEquals string digest

datatype predicate_evaluation = Matches | Contradicts | Missing | TypeMismatch

datatype observation_value_type = TyBool | TyI64 | TyU64 | TySymbol | TyExactBytesDigest

type_synonym observations = "(string, observed_value) bmap"

datatype evaluation_criterion = EvaluationCriterion (criterion_predicate: knowledge_predicate)

datatype knowledge_domain =
    TraceBehavior
  | ScenarioBehavior
  | CausalMechanism
  | AdversarialBoundary
  | FormalProperty
  | DependencyClosure
  | Profiled string

datatype proof_system = Smt | ModelChecking | TheoremKernel | AbstractInterpretation

type_synonym predictions = "(string, knowledge_predicate) bmap"

datatype cognitive_plan =
    ObserveTrace "string bset" nat
  | ExecuteScenario string observations "string bset"
  | CausalIntervention string observed_value observed_value knowledge_predicate predictions
  | SearchCounterexample knowledge_predicate nat predictions
  | VerifyFormalProperty proof_system knowledge_predicate
  | ExpandDependencyClosure string nat nat

record knowledge_budget =
  max_actions :: nat
  max_total_cost :: nat
  max_revision :: nat
  max_dependency_nodes :: nat
  max_dependency_edges :: nat
  max_dependency_depth :: nat
  max_evidence_records :: nat
  max_observations_per_action :: nat

section \<open>Contract drafts\<close>

record knowledge_claim_draft =
  cd_claim_id :: string
  cd_domain :: knowledge_domain
  cd_predicate :: knowledge_predicate

record knowledge_obligation_draft =
  od_obligation_id :: string
  od_claim_id :: string
  od_criterion :: evaluation_criterion
  od_plan :: cognitive_plan

record knowledge_hypothesis_draft =
  hd_hypothesis_id :: string
  hd_family_id :: string
  hd_definition :: knowledge_predicate

record knowledge_contract_draft =
  draft_claims :: "knowledge_claim_draft list"
  draft_obligations :: "knowledge_obligation_draft list"
  draft_hypotheses :: "knowledge_hypothesis_draft list"
  draft_budget :: knowledge_budget

section \<open>Claims, obligations, hypotheses\<close>

datatype knowledge_engine_schema = SchemaV1

datatype claim_assessment =
    Unresolved
  | Established "digest bset"
  | Contradicted "digest bset"

datatype execution_block_reason =
    AdapterUnavailable
  | ResourceDenied
  | UnsupportedEnvironment
  | ObservationUnavailable
  | SafetyPolicyDenied
  | ExecutorIntegrityFailure

datatype knowledge_block_reason =
    ContradictoryObservation digest
  | ExecutorBlocked digest execution_block_reason
  | DependencyCycle digest string string
  | HypothesisConflict string string

datatype knowledge_obligation_state =
    Open (ob_attempts: nat) (ob_witnesses: "digest bset")
  | Satisfied (ob_attempts: nat) (ob_witnesses: "digest bset")
  | Blocked (ob_attempts: nat) (ob_witnesses: "digest bset") knowledge_block_reason

record knowledge_claim =
  claim_id :: string
  claim_domain :: knowledge_domain
  claim_predicate :: knowledge_predicate
  claim_assessment :: claim_assessment

record knowledge_obligation =
  obligation_id :: string
  obligation_claim_id :: string
  obligation_domain :: knowledge_domain
  obligation_criterion :: evaluation_criterion
  obligation_plan :: cognitive_plan
  obligation_state :: knowledge_obligation_state

datatype hypothesis_assessment =
    Viable
  | Supported "digest bset"
  | Refuted "digest bset"
  | Conflicted "digest bset" "digest bset"

record knowledge_hypothesis =
  hypothesis_id :: string
  hypothesis_family_id :: string
  hypothesis_definition :: knowledge_predicate
  hypothesis_assessment :: hypothesis_assessment

record budget_usage =
  used_actions :: nat
  used_total_cost :: nat
  used_evidence_records :: nat

datatype dependency_edge = DependencyEdge (edge_from: string) (edge_to: string)

text \<open>\<open>DependencyEdge\<close> derives \<open>Ord\<close>: lexicographic in its fields.\<close>

instantiation dependency_edge :: linorder
begin

definition less_eq_dependency_edge :: "dependency_edge \<Rightarrow> dependency_edge \<Rightarrow> bool" where
  "less_eq_dependency_edge a b \<longleftrightarrow>
     edge_from a < edge_from b \<or> (edge_from a = edge_from b \<and> edge_to a \<le> edge_to b)"

definition less_dependency_edge :: "dependency_edge \<Rightarrow> dependency_edge \<Rightarrow> bool" where
  "less_dependency_edge a b \<longleftrightarrow>
     edge_from a < edge_from b \<or> (edge_from a = edge_from b \<and> edge_to a < edge_to b)"

instance
  by standard
    (auto simp: less_eq_dependency_edge_def less_dependency_edge_def dependency_edge.expand
      intro: dependency_edge.expand)

end

section \<open>Invocations\<close>

record invocation_binding =
  ib_authority_instance :: string
  ib_authority_root :: digest
  ib_inquiry_id :: string
  ib_capability_bundle :: digest
  ib_parent_state :: digest
  ib_action_id :: digest
  ib_obligation_id :: string
  ib_claim_id :: string
  ib_attempt :: nat
  ib_criterion :: evaluation_criterion

record trace_invocation =
  tr_binding :: invocation_binding
  tr_observation_keys :: "string bset"
  tr_max_events :: nat

record scenario_invocation =
  sc_binding :: invocation_binding
  sc_scenario_id :: string
  sc_inputs :: observations
  sc_observation_keys :: "string bset"

record causal_invocation =
  ca_binding :: invocation_binding
  ca_variable :: string
  ca_baseline :: observed_value
  ca_treatment :: observed_value
  ca_effect :: knowledge_predicate
  ca_predictions :: predictions

record counterexample_invocation =
  ce_binding :: invocation_binding
  ce_target :: knowledge_predicate
  ce_max_cases :: nat
  ce_predictions :: predictions

record formal_verification_invocation =
  fv_binding :: invocation_binding
  fv_proof_system :: proof_system
  fv_property :: knowledge_predicate

record dependency_expansion_invocation =
  de_binding :: invocation_binding
  de_root :: string
  de_depth :: nat
  de_max_depth :: nat

datatype cognitive_invocation =
    InvObserveTrace trace_invocation
  | InvExecuteScenario scenario_invocation
  | InvCausalIntervention causal_invocation
  | InvSearchCounterexample counterexample_invocation
  | InvVerifyFormalProperty formal_verification_invocation
  | InvExpandDependencyClosure dependency_expansion_invocation

section \<open>Evidence\<close>

datatype evidence_kind =
    RuntimeTrace
  | ScenarioResult
  | CausalComparison
  | CounterexampleSearch
  | FormalCertificate
  | FormalSearchLog
  | DependencyGraph

text \<open>\<open>EvidenceKind\<close> derives \<open>Ord\<close>: the order of the variants.\<close>

fun evidence_kind_index :: "evidence_kind \<Rightarrow> nat" where
  "evidence_kind_index RuntimeTrace = 0"
| "evidence_kind_index ScenarioResult = 1"
| "evidence_kind_index CausalComparison = 2"
| "evidence_kind_index CounterexampleSearch = 3"
| "evidence_kind_index FormalCertificate = 4"
| "evidence_kind_index FormalSearchLog = 5"
| "evidence_kind_index DependencyGraph = 6"

lemma evidence_kind_index_inj: "evidence_kind_index a = evidence_kind_index b \<Longrightarrow> a = b"
  by (cases a; cases b) simp_all

instantiation evidence_kind :: linorder
begin

definition less_eq_evidence_kind :: "evidence_kind \<Rightarrow> evidence_kind \<Rightarrow> bool" where
  "less_eq_evidence_kind a b \<longleftrightarrow> evidence_kind_index a \<le> evidence_kind_index b"

definition less_evidence_kind :: "evidence_kind \<Rightarrow> evidence_kind \<Rightarrow> bool" where
  "less_evidence_kind a b \<longleftrightarrow> evidence_kind_index a < evidence_kind_index b"

instance
  by standard
    (auto simp: less_eq_evidence_kind_def less_evidence_kind_def intro: evidence_kind_index_inj)

end

record evidence_artifact_input =
  input_kind :: evidence_kind
  input_artifact :: private_file_reference

datatype trace_evidence_protocol = CanonicalEventStreamV1
datatype scenario_evidence_protocol = ExactScenarioObservationV1
datatype causal_evidence_protocol = PairedInterventionV1
datatype counterexample_evidence_protocol = DeterministicCaseSearchV1
datatype formal_evidence_protocol = BackendUnavailableV1 | ExternalCertificateV1
datatype dependency_graph_evidence_protocol = CanonicalDependencyEdgesV1

datatype executor_interface_version = ExecutorV1

record executor_identity_draft =
  id_executor_id :: string
  id_interface_version :: executor_interface_version
  id_implementation :: private_file_reference

record executor_attestation =
  att_executor_id :: string
  att_interface_version :: executor_interface_version
  att_implementation :: private_file_reference
  att_version_digest :: digest

record evidence_authority_binding =
  eb_schema :: knowledge_engine_schema
  eb_authority_instance :: string
  eb_authority_root :: digest
  eb_inquiry_id :: string
  eb_capability_bundle :: digest
  eb_parent_state :: digest
  eb_action_id :: digest
  eb_obligation_id :: string
  eb_claim_id :: string
  eb_attempt :: nat
  eb_invocation_digest :: digest
  eb_executor_id :: string
  eb_executor_interface_version :: executor_interface_version
  eb_executor_implementation_digest :: digest
  eb_executor_version_digest :: digest

record trace_evidence_event =
  event_ordinal :: nat
  event_observations :: observations

record trace_evidence_artifact =
  ta_binding :: evidence_authority_binding
  ta_protocol :: trace_evidence_protocol
  ta_observation_keys :: "string bset"
  ta_max_events :: nat
  ta_events :: "trace_evidence_event list"

record scenario_evidence_artifact =
  sa_binding :: evidence_authority_binding
  sa_protocol :: scenario_evidence_protocol
  sa_scenario_id :: string
  sa_inputs :: observations
  sa_observation_keys :: "string bset"
  sa_observations :: observations

record causal_evidence_artifact =
  caa_binding :: evidence_authority_binding
  caa_protocol :: causal_evidence_protocol
  caa_variable :: string
  caa_baseline :: observed_value
  caa_treatment :: observed_value
  caa_effect :: knowledge_predicate
  caa_predictions :: predictions
  caa_baseline_observations :: observations
  caa_treatment_observations :: observations

record counterexample_case_evidence =
  case_inputs :: observations
  case_observations :: observations

record counterexample_evidence_artifact =
  cea_binding :: evidence_authority_binding
  cea_protocol :: counterexample_evidence_protocol
  cea_target :: knowledge_predicate
  cea_max_cases :: nat
  cea_predictions :: predictions
  cea_cases :: "(string, counterexample_case_evidence) bmap"

record formal_verification_evidence_artifact =
  fa_binding :: evidence_authority_binding
  fa_protocol :: formal_evidence_protocol
  fa_proof_system :: proof_system
  fa_property :: knowledge_predicate

record formal_certificate_artifact =
  fc_binding :: evidence_authority_binding
  fc_protocol :: formal_evidence_protocol
  fc_proof_system :: proof_system
  fc_property :: knowledge_predicate
  fc_certificate :: string

record dependency_graph_evidence_artifact =
  da_binding :: evidence_authority_binding
  da_protocol :: dependency_graph_evidence_protocol
  da_root :: string
  da_depth :: nat
  da_max_depth :: nat
  da_edges :: "dependency_edge bset"

section \<open>Outcomes and receipts\<close>

datatype discovered_concern_kind = Effect | Risk

record discovered_knowledge_obligation =
  disc_kind :: discovered_concern_kind
  disc_domain :: knowledge_domain
  disc_claim_predicate :: knowledge_predicate
  disc_criterion :: evaluation_criterion
  disc_plan :: cognitive_plan

datatype bounded_action_reason =
  SearchSpaceExhausted | ProofInconclusive | TraceLimitReached | ScenarioIndeterminate

datatype action_outcome =
    Completed observations "dependency_edge bset" "(string, discovered_knowledge_obligation) bmap"
  | BoundedNoResult bounded_action_reason
  | OutcomeBlocked execution_block_reason

record adapter_execution =
  exec_outcome :: action_outcome
  exec_evidence :: "evidence_artifact_input list"

record knowledge_evidence_record =
  er_schema :: knowledge_engine_schema
  er_authority_root :: digest
  er_evidence_id :: digest
  er_invocation_digest :: digest
  er_executor_id :: string
  er_kind :: evidence_kind
  er_artifact :: private_file_reference
  er_outcome_digest :: digest
  er_manifest_digest :: digest

record authenticated_evidence_reference =
  aer_evidence_id :: digest
  aer_kind :: evidence_kind
  aer_record :: private_file_reference
  aer_record_digest :: digest
  aer_source_artifact_digest :: digest

record action_receipt =
  rc_schema :: knowledge_engine_schema
  rc_authority_root :: digest
  rc_inquiry_id :: string
  rc_capability_bundle :: digest
  rc_parent_state :: digest
  rc_action_id :: digest
  rc_invocation :: cognitive_invocation
  rc_invocation_digest :: digest
  rc_executor :: executor_attestation
  rc_outcome :: action_outcome
  rc_evidence :: "(digest, authenticated_evidence_reference) bmap"
  rc_charged_cost :: nat
  rc_manifest_digest :: digest

datatype bounded_unknown_reason =
    ActionBudgetExhausted
  | CostBudgetExhausted
  | RevisionLimitReached
  | EvidenceLimitReached
  | AttemptLimitReached string
  | DependencyNodeLimitReached
  | DependencyEdgeLimitReached
  | DependencyDepthLimitReached string
  | NoAdmissibleInvocation

datatype knowledge_terminal =
    ScopedComplete digest nat "string bset"
  | BoundedUnknown digest nat bounded_unknown_reason "string bset"
  | TerminalBlocked digest nat "(string, knowledge_block_reason) bmap"

datatype planning_decision =
    PlanInvoke cognitive_invocation
  | PlanTerminal knowledge_terminal

section \<open>The knowledge state\<close>

record knowledge_state =
  ks_schema :: knowledge_engine_schema
  ks_authority_root :: digest
  ks_inquiry_id :: string
  ks_capability_bundle_reference :: private_file_reference
  ks_capability_bundle :: digest
  ks_policy_digest :: digest
  ks_revision :: nat
  ks_parent_digest :: "digest option"
  ks_parent_reference :: "private_file_reference option"
  ks_last_action_receipt_reference :: "private_file_reference option"
  ks_budget :: knowledge_budget
  ks_usage :: budget_usage
  ks_claims :: "(string, knowledge_claim) bmap"
  ks_obligations :: "(string, knowledge_obligation) bmap"
  ks_hypotheses :: "(string, knowledge_hypothesis) bmap"
  ks_dependency_parents :: "(string, string option) bmap"
  ks_dependency_depths :: "(string, nat) bmap"
  ks_dependency_graph :: "(string, string bset) bmap"
  ks_bounded_reason :: "bounded_unknown_reason option"
  ks_applied_receipts :: "digest bset"
  ks_used_evidence_artifacts :: "digest bset"
  ks_manifest_digest :: digest

record transition_changes =
  satisfied_obligations :: "string bset"
  blocked_obligations :: "string bset"
  established_claims :: "string bset"
  contradicted_claims :: "string bset"
  supported_hypotheses :: "string bset"
  refuted_hypotheses :: "string bset"
  added_claims :: "string bset"
  added_obligations :: "string bset"

record transition_receipt =
  tx_schema :: knowledge_engine_schema
  tx_authority_root :: digest
  tx_inquiry_id :: string
  tx_capability_bundle :: digest
  tx_from_state :: digest
  tx_to_state :: digest
  tx_action_id :: digest
  tx_action_receipt :: digest
  tx_from_state_reference :: private_file_reference
  tx_to_state_reference :: private_file_reference
  tx_action_receipt_reference :: private_file_reference
  tx_changes :: transition_changes
  tx_terminal_after :: "knowledge_terminal option"
  tx_manifest_digest :: digest

record knowledge_advance =
  adv_state :: knowledge_state
  adv_transition :: transition_receipt

datatype living_staircase_step_state = StepOpen | StepSatisfied | StepBlocked

record living_staircase_step =
  step_obligation_id :: string
  step_claim_id :: string
  step_domain :: knowledge_domain
  step_depth :: nat
  step_plan :: cognitive_plan
  step_state :: living_staircase_step_state
  step_attempts :: nat
  step_witnesses :: "digest bset"

record living_staircase_projection =
  ls_schema :: string
  ls_inquiry_id :: string
  ls_knowledge_state :: digest
  ls_revision :: nat
  ls_steps :: "living_staircase_step list"
  ls_maximum_depth :: nat
  ls_next :: planning_decision
  ls_manifest_sha256 :: digest

record canonical_inquiry_head =
  ch_schema :: knowledge_engine_schema
  ch_authority_root :: digest
  ch_inquiry_id :: string
  ch_genesis_state :: digest
  ch_genesis_reference :: private_file_reference
  ch_current_state :: digest
  ch_current_reference :: private_file_reference
  ch_revision :: nat
  ch_action_receipts :: "(digest, digest) bmap"
  ch_manifest_digest :: digest

record policy_projection =
  pp_schema :: knowledge_engine_schema
  pp_profile_version :: nat
  pp_planner_version :: nat
  pp_reducer_version :: nat
  pp_canonical_encoding_version :: nat
  pp_evidence_verifier_profile_version :: nat
  pp_max_claims :: nat
  pp_max_obligations :: nat
  pp_max_hypotheses :: nat
  pp_max_attempts_per_obligation :: nat

section \<open>Code outside the repository\<close>

text \<open>
  What the engine serializes with \<open>serde_json::to_vec\<close>: one constructor per call site's type.
  The \<open>Projection\<close> structs leave out exactly the manifest digest (the head's also its file
  references); here a projection is the record with those fields blanked, see \<open>unsealed_state\<close> and its
  siblings in \<open>Knowledge_Plans\<close>.
\<close>

datatype payload =
    PString string
  | PAction digest string nat
  | PInvocation cognitive_invocation
  | POutcome action_outcome
  | PVersion string executor_interface_version digest digest
  | PEvidenceId digest string evidence_kind digest
  | PEvidenceProjection knowledge_evidence_record
  | PEvidenceRecord knowledge_evidence_record
  | PReceiptProjection action_receipt
  | PReceipt action_receipt
  | PStateProjection knowledge_state
  | PState knowledge_state
  | PTransitionProjection transition_receipt
  | PTransition transition_receipt
  | PHeadProjection canonical_inquiry_head
  | PHead canonical_inquiry_head
  | PPolicy policy_projection
  | PDependencyIdentity string digest string
  | PDiscoveryIdentity string digest string discovered_concern_kind
  | PInputs observations
  | PTraceArtifact trace_evidence_artifact
  | PScenarioArtifact scenario_evidence_artifact
  | PCausalArtifact causal_evidence_artifact
  | PCounterexampleArtifact counterexample_evidence_artifact
  | PFormalArtifact formal_verification_evidence_artifact
  | PFormalCertificate formal_certificate_artifact
  | PDependencyArtifact dependency_graph_evidence_artifact
  | PStaircase living_staircase_projection

text \<open>
  The parameters of the model: SHA-256 (crate \<open>sha2\<close>), JSON encoding and decoding (crate
  \<open>serde_json\<close>; a decoder is \<open>None\<close> on malformed input), and the capability bundle authority
  (\<open>authenticate_capability_bundle\<close>, which returns the manifest digest of an authentic bundle).
\<close>

record externals =
  sha :: "string \<Rightarrow> digest"
  to_vec :: "payload \<Rightarrow> string"
  from_slice_state :: "string \<Rightarrow> knowledge_state option"
  from_slice_receipt :: "string \<Rightarrow> action_receipt option"
  from_slice_record :: "string \<Rightarrow> knowledge_evidence_record option"
  from_slice_head :: "string \<Rightarrow> canonical_inquiry_head option"
  from_slice_trace :: "string \<Rightarrow> trace_evidence_artifact option"
  from_slice_scenario :: "string \<Rightarrow> scenario_evidence_artifact option"
  from_slice_causal :: "string \<Rightarrow> causal_evidence_artifact option"
  from_slice_counterexample :: "string \<Rightarrow> counterexample_evidence_artifact option"
  from_slice_formal :: "string \<Rightarrow> formal_verification_evidence_artifact option"
  from_slice_certificate :: "string \<Rightarrow> formal_certificate_artifact option"
  from_slice_dependency :: "string \<Rightarrow> dependency_graph_evidence_artifact option"
  bundle_authority :: "path \<Rightarrow> private_file_reference \<Rightarrow> store \<Rightarrow> digest res"

record knowledge_policy =
  kp_digest :: digest
  kp_max_attempts_per_obligation :: nat

record knowledge_engine =
  private_root :: path
  authority_instance :: string
  authority_root :: digest
  policy :: knowledge_policy

end
