(* ===== verification/Knowledge_Plans.thy ===== *)
theory Knowledge_Plans
  imports Knowledge_Types
begin

text \<open>
  Predicates, plans, budgets and invocations of the knowledge engine
  (\<open>src/knowledge/knowledge_engine.rs\<close>): evaluation of a predicate over observations, cost and
  bounds of a plan, the binding of a criterion to its plan, the observation schema, and the
  digests of the sealed records.
\<close>

section \<open>Predicates\<close>

fun observation_key :: "knowledge_predicate \<Rightarrow> string" where
  "observation_key (BoolEquals key _) = key"
| "observation_key (I64Equals key _) = key"
| "observation_key (U64Equals key _) = key"
| "observation_key (U64AtLeast key _) = key"
| "observation_key (U64AtMost key _) = key"
| "observation_key (SymbolEquals key _) = key"
| "observation_key (ExactBytesDigestEquals key _) = key"

fun predicate_value_type :: "knowledge_predicate \<Rightarrow> observation_value_type" where
  "predicate_value_type (BoolEquals _ _) = TyBool"
| "predicate_value_type (I64Equals _ _) = TyI64"
| "predicate_value_type (U64Equals _ _) = TyU64"
| "predicate_value_type (U64AtLeast _ _) = TyU64"
| "predicate_value_type (U64AtMost _ _) = TyU64"
| "predicate_value_type (SymbolEquals _ _) = TySymbol"
| "predicate_value_type (ExactBytesDigestEquals _ _) = TyExactBytesDigest"

fun observed_value_type :: "observed_value \<Rightarrow> observation_value_type" where
  "observed_value_type (ObsBool _) = TyBool"
| "observed_value_type (ObsI64 _) = TyI64"
| "observed_value_type (ObsU64 _) = TyU64"
| "observed_value_type (ObsSymbol _) = TySymbol"
| "observed_value_type (ObsExactBytesDigest _) = TyExactBytesDigest"

text \<open>The \<open>match (self, actual)\<close> of \<open>evaluate\<close>; \<open>None\<close> is its last arm.\<close>

fun predicate_matches :: "knowledge_predicate \<Rightarrow> observed_value \<Rightarrow> bool option" where
  "predicate_matches (BoolEquals _ expected) (ObsBool actual) = Some (actual = expected)"
| "predicate_matches (I64Equals _ expected) (ObsI64 actual) = Some (actual = expected)"
| "predicate_matches (U64Equals _ expected) (ObsU64 actual) = Some (actual = expected)"
| "predicate_matches (U64AtLeast _ minimum) (ObsU64 actual) = Some (minimum \<le> actual)"
| "predicate_matches (U64AtMost _ maximum) (ObsU64 actual) = Some (actual \<le> maximum)"
| "predicate_matches (SymbolEquals _ expected) (ObsSymbol actual) = Some (actual = expected)"
| "predicate_matches (ExactBytesDigestEquals _ expected) (ObsExactBytesDigest actual)
     = Some (actual = expected)"
| "predicate_matches _ _ = None"

definition evaluate :: "knowledge_predicate \<Rightarrow> observations \<Rightarrow> predicate_evaluation" where
  "evaluate p observations =
     (case map_of observations (observation_key p) of
        None \<Rightarrow> Missing
      | Some actual \<Rightarrow>
          if predicate_value_type p \<noteq> observed_value_type actual then TypeMismatch
          else case predicate_matches p actual of
                 None \<Rightarrow> TypeMismatch
               | Some True \<Rightarrow> Matches
               | Some False \<Rightarrow> Contradicts)"

fun observation_for_predicate :: "knowledge_predicate \<Rightarrow> observed_value" where
  "observation_for_predicate (BoolEquals _ expected) = ObsBool expected"
| "observation_for_predicate (I64Equals _ expected) = ObsI64 expected"
| "observation_for_predicate (U64Equals _ expected) = ObsU64 expected"
| "observation_for_predicate (U64AtLeast _ minimum) = ObsU64 minimum"
| "observation_for_predicate (U64AtMost _ maximum) = ObsU64 maximum"
| "observation_for_predicate (SymbolEquals _ expected) = ObsSymbol expected"
| "observation_for_predicate (ExactBytesDigestEquals _ expected) = ObsExactBytesDigest expected"

lemma observation_for_predicate_matches:
  "map_of observations (observation_key p) = Some (observation_for_predicate p) \<Longrightarrow>
   evaluate p observations = Matches"
  by (cases p) (simp_all add: evaluate_def)

lemma predicate_matches_typed:
  "predicate_value_type p = observed_value_type v \<Longrightarrow> predicate_matches p v \<noteq> None"
  by (cases p; cases v) simp_all

lemma evaluate_Missing: "evaluate p obs = Missing \<longleftrightarrow> map_of obs (observation_key p) = None"
  by (auto simp: evaluate_def split: option.splits bool.splits)

lemma evaluate_TypeMismatch:
  "evaluate p obs = TypeMismatch \<longleftrightarrow>
     (\<exists>v. map_of obs (observation_key p) = Some v \<and> predicate_value_type p \<noteq> observed_value_type v)"
proof (cases "map_of obs (observation_key p)")
  case (Some v)
  then show ?thesis using predicate_matches_typed[of p v]
    by (auto simp: evaluate_def split: option.splits bool.splits)
qed (simp add: evaluate_def)

section \<open>Plans and budgets\<close>

fun plan_domain :: "cognitive_plan \<Rightarrow> knowledge_domain" where
  "plan_domain (ObserveTrace _ _) = TraceBehavior"
| "plan_domain (ExecuteScenario _ _ _) = ScenarioBehavior"
| "plan_domain (CausalIntervention _ _ _ _ _) = CausalMechanism"
| "plan_domain (SearchCounterexample _ _ _) = AdversarialBoundary"
| "plan_domain (VerifyFormalProperty _ _) = FormalProperty"
| "plan_domain (ExpandDependencyClosure _ _ _) = DependencyClosure"

fun plan_cost :: "cognitive_plan \<Rightarrow> nat" where
  "plan_cost (ObserveTrace _ _) = 2"
| "plan_cost (ExecuteScenario _ _ _) = 3"
| "plan_cost (CausalIntervention _ _ _ _ _) = 5"
| "plan_cost (SearchCounterexample _ _ _) = 4"
| "plan_cost (VerifyFormalProperty _ _) = 8"
| "plan_cost (ExpandDependencyClosure _ _ _) = 3"

fun plan_predictions :: "cognitive_plan \<Rightarrow> predictions option" where
  "plan_predictions (CausalIntervention _ _ _ _ predictions) = Some predictions"
| "plan_predictions (SearchCounterexample _ _ predictions) = Some predictions"
| "plan_predictions _ = None"

fun validate_bounds :: "knowledge_budget \<Rightarrow> cognitive_plan \<Rightarrow> unit res" where
  "validate_bounds budget (ObserveTrace observation_keys max_events) =
     reject (observation_keys = []
             \<or> max_observations_per_action budget < length observation_keys
             \<or> max_events = 0 \<or> HARD_MAX_TRACE_EVENTS < max_events)
       (Invalid ''trace_plan_bounds_invalid'')"
| "validate_bounds budget (ExecuteScenario _ inputs observation_keys) =
     reject (HARD_MAX_SCENARIO_INPUTS < length inputs \<or> observation_keys = []
             \<or> max_observations_per_action budget < length observation_keys)
       (Invalid ''scenario_plan_bounds_invalid'')"
| "validate_bounds budget (CausalIntervention _ baseline treatment _ predictions) =
     reject (baseline = treatment \<or> length predictions < 2)
       (Invalid ''causal_plan_not_discriminating'')"
| "validate_bounds budget (SearchCounterexample _ max_cases predictions) =
     reject (max_cases = 0 \<or> HARD_MAX_COUNTEREXAMPLE_CASES < max_cases \<or> length predictions < 2)
       (Invalid ''counterexample_plan_bounds_invalid'')"
| "validate_bounds budget (VerifyFormalProperty _ _) = Inr ()"
| "validate_bounds budget (ExpandDependencyClosure _ depth max_depth) =
     reject (max_depth = 0 \<or> max_dependency_depth budget < max_depth \<or> max_depth < depth)
       (Invalid ''dependency_plan_bounds_invalid'')"

definition budget_validate :: "knowledge_budget \<Rightarrow> unit res" where
  "budget_validate b =
     reject (max_actions b = 0 \<or> HARD_MAX_ACTIONS < max_actions b
        \<or> max_total_cost b = 0 \<or> HARD_MAX_TOTAL_COST < max_total_cost b
        \<or> max_revision b = 0 \<or> HARD_MAX_REVISION < max_revision b
        \<or> max_dependency_nodes b = 0 \<or> HARD_MAX_DEPENDENCY_NODES < max_dependency_nodes b
        \<or> max_dependency_edges b = 0 \<or> HARD_MAX_DEPENDENCY_EDGES < max_dependency_edges b
        \<or> max_dependency_depth b = 0 \<or> HARD_MAX_DEPENDENCY_DEPTH < max_dependency_depth b
        \<or> max_evidence_records b = 0 \<or> HARD_MAX_EVIDENCE_RECORDS < max_evidence_records b
        \<or> max_observations_per_action b = 0
        \<or> HARD_MAX_OBSERVATIONS_PER_ACTION < max_observations_per_action b)
       (Invalid ''knowledge_budget_invalid'')"

definition budget_bounded ::
  "nat \<Rightarrow> nat \<Rightarrow> nat \<Rightarrow> nat \<Rightarrow> nat \<Rightarrow> nat \<Rightarrow> nat \<Rightarrow> nat \<Rightarrow> knowledge_budget res" where
  "budget_bounded actions total_cost revision nodes edges depth evidence_records observations =
     (let budget = \<lparr>max_actions = actions, max_total_cost = total_cost, max_revision = revision,
        max_dependency_nodes = nodes, max_dependency_edges = edges, max_dependency_depth = depth,
        max_evidence_records = evidence_records, max_observations_per_action = observations\<rparr>
      in rbind (budget_validate budget) (\<lambda>_. Inr budget))"

definition conservative_default :: knowledge_budget where
  "conservative_default =
     \<lparr>max_actions = 512, max_total_cost = 16384, max_revision = 512, max_dependency_nodes = 512,
      max_dependency_edges = 2048, max_dependency_depth = 16, max_evidence_records = 2048,
      max_observations_per_action = 256\<rparr>"

lemma conservative_default_valid: "budget_validate conservative_default = Inr ()"
  by (simp add: budget_validate_def conservative_default_def HARD_MAX_ACTIONS_def
      HARD_MAX_TOTAL_COST_def HARD_MAX_REVISION_def HARD_MAX_DEPENDENCY_NODES_def
      HARD_MAX_DEPENDENCY_EDGES_def HARD_MAX_DEPENDENCY_DEPTH_def HARD_MAX_EVIDENCE_RECORDS_def
      HARD_MAX_OBSERVATIONS_PER_ACTION_def)

definition DEPENDENCY_KEY_DOMAIN :: string where
  "DEPENDENCY_KEY_DOMAIN = ''TIDEX:DEPENDENCY-OBSERVATION-KEY:v1'' @ [CHR 0x00]"

definition dependency_closure_predicate :: "externals \<Rightarrow> string \<Rightarrow> knowledge_predicate res" where
  "dependency_closure_predicate X root =
     (let key_digest = digest_domain (sha X) DEPENDENCY_KEY_DOMAIN (to_vec X (PString root)) in
      rbind (local_id_parse ''observation_key_invalid'' (''dependency.'' @ key_digest @ ''.closed''))
        (\<lambda>key. Inr (BoolEquals key True)))"

fun criterion_bound_to_plan :: "externals \<Rightarrow> knowledge_predicate \<Rightarrow> cognitive_plan \<Rightarrow> bool res" where
  "criterion_bound_to_plan X p (ObserveTrace observation_keys _)
     = Inr (List.member observation_keys (observation_key p))"
| "criterion_bound_to_plan X p (ExecuteScenario _ _ observation_keys)
     = Inr (List.member observation_keys (observation_key p))"
| "criterion_bound_to_plan X p (CausalIntervention _ _ _ effect _) = Inr (effect = p)"
| "criterion_bound_to_plan X p (SearchCounterexample target _ _) = Inr (target = p)"
| "criterion_bound_to_plan X p (VerifyFormalProperty _ property) = Inr (property = p)"
| "criterion_bound_to_plan X p (ExpandDependencyClosure root _ _)
     = rbind (dependency_closure_predicate X root) (\<lambda>q. Inr (q = p))"

definition validate_criterion_plan_binding ::
  "externals \<Rightarrow> evaluation_criterion \<Rightarrow> cognitive_plan \<Rightarrow> unit res" where
  "validate_criterion_plan_binding X criterion plan =
     rbind (criterion_bound_to_plan X (criterion_predicate criterion) plan) (\<lambda>valid.
     reject (\<not> valid) (Invalid ''knowledge_criterion_not_bound_to_plan_object''))"

fun plan_predicates :: "cognitive_plan \<Rightarrow> knowledge_predicate list" where
  "plan_predicates (ObserveTrace _ _) = []"
| "plan_predicates (ExecuteScenario _ _ _) = []"
| "plan_predicates (ExpandDependencyClosure _ _ _) = []"
| "plan_predicates (CausalIntervention _ _ _ effect predictions) = effect # bm_values predictions"
| "plan_predicates (SearchCounterexample target _ predictions) = target # bm_values predictions"
| "plan_predicates (VerifyFormalProperty _ property) = [property]"

section \<open>The observation schema\<close>

type_synonym schema = "(string, observation_value_type) bmap"

definition record_predicate_type :: "knowledge_predicate \<Rightarrow> schema \<Rightarrow> schema res" where
  "record_predicate_type p schema =
     (case map_of schema (observation_key p) of
        Some previous \<Rightarrow>
          if previous \<noteq> predicate_value_type p
          then Inl (Invalid ''observation_key_value_type_conflict'')
          else Inr (bm_insert (observation_key p) (predicate_value_type p) schema)
      | None \<Rightarrow> Inr (bm_insert (observation_key p) (predicate_value_type p) schema))"

definition observation_schema_from_state :: "knowledge_state \<Rightarrow> schema res" where
  "observation_schema_from_state state =
     rbind (rfold (\<lambda>c. record_predicate_type (claim_predicate c)) (bm_values (ks_claims state)) []) (\<lambda>schema.
     rbind (rfold (\<lambda>ob schema.
              rbind (record_predicate_type (criterion_predicate (obligation_criterion ob)) schema)
                (rfold record_predicate_type (plan_predicates (obligation_plan ob))))
            (bm_values (ks_obligations state)) schema) (\<lambda>schema.
     rfold (\<lambda>h. record_predicate_type (hypothesis_definition h)) (bm_values (ks_hypotheses state)) schema))"

text \<open>A schema agrees with a predicate when it gives the predicate's key its value type.\<close>

definition schema_agrees :: "schema \<Rightarrow> knowledge_predicate \<Rightarrow> bool" where
  "schema_agrees schema p \<longleftrightarrow> map_of schema (observation_key p) = Some (predicate_value_type p)"

lemma record_predicate_type_Inr:
  "record_predicate_type p schema = Inr schema' \<Longrightarrow>
     map_of schema' = (map_of schema)(observation_key p \<mapsto> predicate_value_type p)
     \<and> (\<forall>q. schema_agrees schema q \<longrightarrow> schema_agrees schema' q) \<and> schema_agrees schema' p"
  by (auto simp: record_predicate_type_def schema_agrees_def split: option.splits if_splits)

lemma rfold_record_predicate_type:
  "rfold record_predicate_type ps schema = Inr schema' \<Longrightarrow>
     (\<forall>q. schema_agrees schema q \<longrightarrow> schema_agrees schema' q) \<and> (\<forall>p \<in> set ps. schema_agrees schema' p)"
proof (induction ps arbitrary: schema)
  case (Cons p ps)
  then obtain u where u: "record_predicate_type p schema = Inr u"
    and r: "rfold record_predicate_type ps u = Inr schema'" by auto
  from Cons.IH[OF r] record_predicate_type_Inr[OF u] show ?case by auto
qed simp

lemma schema_agrees_types:
  "schema_agrees s p \<Longrightarrow> schema_agrees s q \<Longrightarrow> observation_key p = observation_key q \<Longrightarrow>
   predicate_value_type p = predicate_value_type q"
  by (simp add: schema_agrees_def)

section \<open>Invocations\<close>

fun binding :: "cognitive_invocation \<Rightarrow> invocation_binding" where
  "binding (InvObserveTrace v) = tr_binding v"
| "binding (InvExecuteScenario v) = sc_binding v"
| "binding (InvCausalIntervention v) = ca_binding v"
| "binding (InvSearchCounterexample v) = ce_binding v"
| "binding (InvVerifyFormalProperty v) = fv_binding v"
| "binding (InvExpandDependencyClosure v) = de_binding v"

fun invocation_cost :: "cognitive_invocation \<Rightarrow> nat" where
  "invocation_cost (InvObserveTrace _) = 2"
| "invocation_cost (InvExecuteScenario _) = 3"
| "invocation_cost (InvCausalIntervention _) = 5"
| "invocation_cost (InvSearchCounterexample _) = 4"
| "invocation_cost (InvVerifyFormalProperty _) = 8"
| "invocation_cost (InvExpandDependencyClosure _) = 3"

fun invocation_predictions :: "cognitive_invocation \<Rightarrow> predictions option" where
  "invocation_predictions (InvCausalIntervention v) = Some (ca_predictions v)"
| "invocation_predictions (InvSearchCounterexample v) = Some (ce_predictions v)"
| "invocation_predictions _ = None"

definition required_observations :: "cognitive_invocation \<Rightarrow> string bset" where
  "required_observations invoc =
     (let keys = (case invoc of
            InvObserveTrace v \<Rightarrow> tr_observation_keys v
          | InvExecuteScenario v \<Rightarrow> sc_observation_keys v
          | InvCausalIntervention v \<Rightarrow> bs_of (map observation_key (bm_values (ca_predictions v)))
          | InvSearchCounterexample v \<Rightarrow> bs_of (map observation_key (bm_values (ce_predictions v)))
          | InvVerifyFormalProperty v \<Rightarrow> bs_of [observation_key (fv_property v)]
          | InvExpandDependencyClosure _ \<Rightarrow> []);
          keys = (case invoc of
            InvSearchCounterexample v \<Rightarrow> bs_insert (observation_key (ce_target v)) keys
          | _ \<Rightarrow> keys)
      in bs_insert (observation_key (criterion_predicate (ib_criterion (binding invoc)))) keys)"

lemma required_observations_criterion:
  "observation_key (criterion_predicate (ib_criterion (binding invoc))) \<in> set (required_observations invoc)"
  by (simp add: required_observations_def Let_def)

lemma required_observations_predictions:
  "invocation_predictions invoc = Some ps \<Longrightarrow> p \<in> set (bm_values ps) \<Longrightarrow>
   observation_key p \<in> set (required_observations invoc)"
  by (cases invoc) (auto simp: required_observations_def Let_def)

section \<open>Digests of the sealed records\<close>

definition STATE_DOMAIN :: string where "STATE_DOMAIN = ''TIDEX:KNOWLEDGE-STATE:v1'' @ [CHR 0x00]"
definition POLICY_DOMAIN :: string where "POLICY_DOMAIN = ''TIDEX:KNOWLEDGE-POLICY:v1'' @ [CHR 0x00]"
definition ACTION_ID_DOMAIN :: string where
  "ACTION_ID_DOMAIN = ''TIDEX:KNOWLEDGE-ACTION-ID:v1'' @ [CHR 0x00]"
definition INVOCATION_DOMAIN :: string where
  "INVOCATION_DOMAIN = ''TIDEX:COGNITIVE-INVOCATION:v1'' @ [CHR 0x00]"
definition OBSERVATION_DOMAIN :: string where
  "OBSERVATION_DOMAIN = ''TIDEX:OBSERVATION-SET:v1'' @ [CHR 0x00]"
definition EVIDENCE_ID_DOMAIN :: string where
  "EVIDENCE_ID_DOMAIN = ''TIDEX:KNOWLEDGE-EVIDENCE-ID:v1'' @ [CHR 0x00]"
definition EVIDENCE_DOMAIN :: string where
  "EVIDENCE_DOMAIN = ''TIDEX:KNOWLEDGE-EVIDENCE:v1'' @ [CHR 0x00]"
definition RECEIPT_DOMAIN :: string where
  "RECEIPT_DOMAIN = ''TIDEX:KNOWLEDGE-ACTION-RECEIPT:v1'' @ [CHR 0x00]"
definition TRANSITION_DOMAIN :: string where
  "TRANSITION_DOMAIN = ''TIDEX:KNOWLEDGE-TRANSITION:v1'' @ [CHR 0x00]"
definition ROOT_DOMAIN :: string where "ROOT_DOMAIN = ''TIDEX:AUTHORITY-ROOT:v1'' @ [CHR 0x00]"
definition CANONICAL_HEAD_DOMAIN :: string where
  "CANONICAL_HEAD_DOMAIN = ''TIDEX:CANONICAL-INQUIRY-HEAD:v1'' @ [CHR 0x00]"
definition EXECUTOR_VERSION_DOMAIN :: string where
  "EXECUTOR_VERSION_DOMAIN = ''TIDEX:COGNITIVE-EXECUTOR-VERSION:v1'' @ [CHR 0x00]"

definition computed :: "externals \<Rightarrow> string \<Rightarrow> payload \<Rightarrow> digest" where
  "computed X domain p = digest_domain (sha X) domain (to_vec X p)"

definition invocation_digest :: "externals \<Rightarrow> cognitive_invocation \<Rightarrow> digest" where
  "invocation_digest X invoc = computed X INVOCATION_DOMAIN (PInvocation invoc)"

definition calculate_executor_version_digest ::
  "externals \<Rightarrow> string \<Rightarrow> executor_interface_version \<Rightarrow> digest \<Rightarrow> digest \<Rightarrow> digest" where
  "calculate_executor_version_digest X executor_id interface_version declared observed =
     computed X EXECUTOR_VERSION_DOMAIN (PVersion executor_id interface_version declared observed)"

text \<open>
  The \<open>Projection\<close> structs: the record without its manifest digest. The projection of the
  head also leaves out the file references.
\<close>

definition unsealed_state :: "knowledge_state \<Rightarrow> knowledge_state" where
  "unsealed_state s = s\<lparr>ks_manifest_digest := []\<rparr>"

definition unsealed_receipt :: "action_receipt \<Rightarrow> action_receipt" where
  "unsealed_receipt r = r\<lparr>rc_manifest_digest := []\<rparr>"

definition unsealed_record :: "knowledge_evidence_record \<Rightarrow> knowledge_evidence_record" where
  "unsealed_record r = r\<lparr>er_manifest_digest := []\<rparr>"

definition unsealed_transition :: "transition_receipt \<Rightarrow> transition_receipt" where
  "unsealed_transition t = t\<lparr>tx_manifest_digest := []\<rparr>"

definition no_reference :: private_file_reference where
  "no_reference = \<lparr>ref_path = [], ref_sha256 = []\<rparr>"

definition unsealed_head :: "canonical_inquiry_head \<Rightarrow> canonical_inquiry_head" where
  "unsealed_head h = h\<lparr>ch_genesis_reference := no_reference, ch_current_reference := no_reference,
     ch_manifest_digest := []\<rparr>"

definition calculate_state_digest :: "externals \<Rightarrow> knowledge_state \<Rightarrow> digest" where
  "calculate_state_digest X s = computed X STATE_DOMAIN (PStateProjection (unsealed_state s))"

definition calculate_receipt_digest :: "externals \<Rightarrow> action_receipt \<Rightarrow> digest" where
  "calculate_receipt_digest X r = computed X RECEIPT_DOMAIN (PReceiptProjection (unsealed_receipt r))"

definition calculate_record_digest :: "externals \<Rightarrow> knowledge_evidence_record \<Rightarrow> digest" where
  "calculate_record_digest X r = computed X EVIDENCE_DOMAIN (PEvidenceProjection (unsealed_record r))"

definition calculate_transition_digest :: "externals \<Rightarrow> transition_receipt \<Rightarrow> digest" where
  "calculate_transition_digest X t =
     computed X TRANSITION_DOMAIN (PTransitionProjection (unsealed_transition t))"

definition calculate_head_digest :: "externals \<Rightarrow> canonical_inquiry_head \<Rightarrow> digest" where
  "calculate_head_digest X h = computed X CANONICAL_HEAD_DOMAIN (PHeadProjection (unsealed_head h))"

lemma state_digest_ignores_seal [simp]:
  "calculate_state_digest X (s\<lparr>ks_manifest_digest := d\<rparr>) = calculate_state_digest X s"
  by (simp add: calculate_state_digest_def unsealed_state_def)

lemma receipt_digest_ignores_seal [simp]:
  "calculate_receipt_digest X (r\<lparr>rc_manifest_digest := d\<rparr>) = calculate_receipt_digest X r"
  by (simp add: calculate_receipt_digest_def unsealed_receipt_def)

section \<open>Opening the engine\<close>

definition policy_conservative_v1 :: "externals \<Rightarrow> knowledge_policy" where
  "policy_conservative_v1 X =
     (let projection = \<lparr>pp_schema = SchemaV1, pp_profile_version = 2, pp_planner_version = 1,
        pp_reducer_version = 1, pp_canonical_encoding_version = 2,
        pp_evidence_verifier_profile_version = 2, pp_max_claims = HARD_MAX_CLAIMS,
        pp_max_obligations = HARD_MAX_OBLIGATIONS, pp_max_hypotheses = HARD_MAX_HYPOTHESES,
        pp_max_attempts_per_obligation = 3\<rparr>
      in \<lparr>kp_digest = computed X POLICY_DOMAIN (PPolicy projection),
          kp_max_attempts_per_obligation = pp_max_attempts_per_obligation projection\<rparr>)"

definition engine_from_verified_root :: "externals \<Rightarrow> path \<Rightarrow> string \<Rightarrow> knowledge_engine" where
  "engine_from_verified_root X root inst =
     \<lparr>private_root = root, authority_instance = inst,
      authority_root = computed X ROOT_DOMAIN (PString inst),
      policy = policy_conservative_v1 X\<rparr>"

text \<open>
  The engine as the crate opens it; \<open>verify_private_root\<close> (environment and metadata of the
  directory) has accepted the root.
\<close>

definition engine_opened :: "externals \<Rightarrow> knowledge_engine \<Rightarrow> bool" where
  "engine_opened X E \<longleftrightarrow> E = engine_from_verified_root X (private_root E) (authority_instance E)"

definition semantic_path :: "knowledge_engine \<Rightarrow> string \<Rightarrow> digest \<Rightarrow> path" where
  "semantic_path E cls semantic_digest =
     private_root E @ [Normal ''state'', Normal ''knowledge_engine'', Normal cls, Normal ''by-sha'',
                       Normal (semantic_digest @ ''.json'')]"

lemma engine_opened_attempts:
  "engine_opened X E \<Longrightarrow> kp_max_attempts_per_obligation (policy E) = 3"
  by (auto simp: engine_opened_def engine_from_verified_root_def policy_conservative_v1_def Let_def
      dest!: arg_cong[where f = policy])

end
