(* ===== verification/Knowledge_Assessment.thy ===== *)
theory Knowledge_Assessment
  imports Knowledge_Plans
begin

text \<open>
  The pure reductions of the knowledge engine (\<open>src/knowledge/knowledge_engine.rs\<close>): the assessment
  of a claim from its obligations, the assessment of a hypothesis from the evaluations of its
  predictions, the resolution of hypothesis families, and the record of what a transition changed.
  The reduction of a hypothesis refines two growing sets of receipts, the supporting and the
  refuting ones.
\<close>

section \<open>Grouping\<close>

text \<open>\<open>map.entry(k).or_default().push(v)\<close>, and the loop that groups a list by a key.\<close>

definition bm_push :: "'k::linorder \<Rightarrow> 'v \<Rightarrow> ('k, 'v list) bmap \<Rightarrow> ('k, 'v list) bmap" where
  "bm_push k v m = bm_insert k ((case map_of m k of None \<Rightarrow> [] | Some vs \<Rightarrow> vs) @ [v]) m"

definition group_by :: "('v \<Rightarrow> 'k::linorder) \<Rightarrow> 'v list \<Rightarrow> ('k, 'v list) bmap" where
  "group_by key vs = fold (\<lambda>v. bm_push (key v) v) vs []"

lemma group_by_snoc: "group_by key (vs @ [v]) = bm_push (key v) v (group_by key vs)"
  by (simp add: group_by_def)

lemma map_of_group_by:
  "map_of (group_by key vs) k = (case filter (\<lambda>v. key v = k) vs of [] \<Rightarrow> None | g \<Rightarrow> Some g)"
proof (induction vs rule: rev_induct)
  case (snoc v vs)
  then show ?case
    by (auto simp: group_by_snoc bm_push_def split: list.splits option.splits)
qed (simp add: group_by_def)

lemma bm_ok_group_by: "bm_ok (group_by key vs)"
  by (induction vs rule: rev_induct) (simp_all add: group_by_snoc bm_push_def, simp add: group_by_def)

lemma map_of_group_by_iff:
  "map_of (group_by key vs) k = Some g \<longleftrightarrow> k \<in> key ` set vs \<and> g = filter (\<lambda>v. key v = k) vs"
proof (cases "filter (\<lambda>v. key v = k) vs")
  case Nil
  then have "k \<notin> key ` set vs" by (auto simp: filter_empty_conv)
  with Nil show ?thesis by (simp add: map_of_group_by)
next
  case (Cons x xs)
  then have "x \<in> set (filter (\<lambda>v. key v = k) vs)" by simp
  then have "k \<in> key ` set vs" by auto
  with Cons show ?thesis by (auto simp: map_of_group_by)
qed

lemma group_by_values:
  "g \<in> set (bm_values (group_by key vs)) \<longleftrightarrow> (\<exists>k \<in> key ` set vs. g = filter (\<lambda>v. key v = k) vs)"
  using bm_values_mem[OF _ bm_ok_group_by, of g key vs] map_of_values[of "group_by key vs" _ g]
  unfolding map_of_group_by_iff by blast

lemma ball_group_by:
  "(\<forall>g \<in> set (bm_values (group_by key vs)). P g) \<longleftrightarrow> (\<forall>v \<in> set vs. P (filter (\<lambda>x. key x = key v) vs))"
proof -
  have "(\<forall>g \<in> set (bm_values (group_by key vs)). P g)
      \<longleftrightarrow> (\<forall>g. (\<exists>k \<in> key ` set vs. g = filter (\<lambda>x. key x = k) vs) \<longrightarrow> P g)"
    by (simp only: Ball_def group_by_values)
  then show ?thesis by blast
qed

lemma group_by_keys: "dom (map_of (group_by key vs)) = key ` set vs"
  by (auto simp: dom_def map_of_group_by_iff)

section \<open>Claims\<close>

fun attempts :: "knowledge_obligation_state \<Rightarrow> nat" where
  "attempts (Open n _) = n"
| "attempts (Satisfied n _) = n"
| "attempts (Blocked n _ _) = n"

fun witnesses :: "knowledge_obligation_state \<Rightarrow> digest bset" where
  "witnesses (Open _ w) = w"
| "witnesses (Satisfied _ w) = w"
| "witnesses (Blocked _ w _) = w"

fun is_open :: "knowledge_obligation_state \<Rightarrow> bool" where
  "is_open (Open _ _) = True"
| "is_open _ = False"

fun is_satisfied :: "knowledge_obligation_state \<Rightarrow> bool" where
  "is_satisfied (Satisfied _ _) = True"
| "is_satisfied _ = False"

fun is_blocked :: "knowledge_obligation_state \<Rightarrow> bool" where
  "is_blocked (Blocked _ _ _) = True"
| "is_blocked _ = False"

text \<open>\<open>set.extend(other)\<close>.\<close>

definition bs_extend :: "'a::linorder bset \<Rightarrow> 'a list \<Rightarrow> 'a bset" where
  "bs_extend s xs = fold bs_insert xs s"

fun contradiction_witnesses_of :: "knowledge_obligation_state \<Rightarrow> digest list" where
  "contradiction_witnesses_of (Blocked _ w (ContradictoryObservation _)) = w"
| "contradiction_witnesses_of _ = []"

text \<open>The loop state of \<open>derive_claim_assessment\<close>: all witnesses, contradictions, all satisfied.\<close>

definition assess_step ::
  "knowledge_obligation \<Rightarrow> digest bset \<times> digest bset \<times> bool \<Rightarrow> digest bset \<times> digest bset \<times> bool" where
  "assess_step ob = (\<lambda>(all_w, contra, all_satisfied).
     (bs_extend all_w (witnesses (obligation_state ob)),
      bs_extend contra (contradiction_witnesses_of (obligation_state ob)),
      all_satisfied \<and> is_satisfied (obligation_state ob)))"

definition derive_claim_assessment :: "knowledge_obligation list \<Rightarrow> claim_assessment" where
  "derive_claim_assessment obligations =
     (let (all_w, contra, all_satisfied) = fold assess_step obligations ([], [], True) in
      if contra \<noteq> [] then Contradicted contra
      else if all_satisfied then Established all_w else Unresolved)"

definition recompute_claim_assessments ::
  "(string, knowledge_claim) bmap \<Rightarrow> (string, knowledge_obligation) bmap
   \<Rightarrow> (string, knowledge_claim) bmap res" where
  "recompute_claim_assessments claims obligations =
     rfold (\<lambda>cid claims.
        let related = filter (\<lambda>ob. obligation_claim_id ob = cid) (bm_values obligations) in
        rbind (reject (related = []) (Integrity ''knowledge_claim_without_obligation'')) (\<lambda>_.
        rbind (reject (map_of claims cid = None) (Integrity ''knowledge_claim_missing_during_reduction'')) (\<lambda>_.
        Inr (bm_modify cid (\<lambda>c. c\<lparr>claim_assessment := derive_claim_assessment related\<rparr>) claims))))
       (bm_keys claims) claims"

lemma set_bs_extend [simp]: "set (bs_extend s xs) = set s \<union> set xs"
  by (auto simp: bs_extend_def set_fold_bs_insert)

lemma bs_ok_extend [simp]: "bs_ok s \<Longrightarrow> bs_ok (bs_extend s xs)"
  by (simp add: bs_extend_def bs_ok_fold_insert)

lemma assess_fold:
  assumes "fold assess_step obs (a, c, t) = (a', c', t')" and "bs_ok a" "bs_ok c"
  shows "set a' = set a \<union> (\<Union>ob \<in> set obs. set (witnesses (obligation_state ob)))
     \<and> set c' = set c \<union> (\<Union>ob \<in> set obs. set (contradiction_witnesses_of (obligation_state ob)))
     \<and> t' = (t \<and> (\<forall>ob \<in> set obs. is_satisfied (obligation_state ob)))
     \<and> bs_ok a' \<and> bs_ok c'"
  using assms
proof (induction obs arbitrary: a c t)
  case (Cons ob obs)
  from Cons.IH[of "bs_extend a (witnesses (obligation_state ob))"
      "bs_extend c (contradiction_witnesses_of (obligation_state ob))" "t \<and> is_satisfied (obligation_state ob)"]
    Cons.prems
  show ?case by (auto simp: assess_step_def)
qed simp

text \<open>
  The specification of the assessment: the witnesses of contradictions when there are any,
  else all witnesses when every obligation is satisfied.
\<close>

definition all_witnesses :: "knowledge_obligation set \<Rightarrow> digest set" where
  "all_witnesses obs = (\<Union>ob \<in> obs. set (witnesses (obligation_state ob)))"

definition contradictions :: "knowledge_obligation set \<Rightarrow> digest set" where
  "contradictions obs = (\<Union>ob \<in> obs. set (contradiction_witnesses_of (obligation_state ob)))"

lemma derive_claim_assessment_spec:
  "case derive_claim_assessment obs of
     Contradicted w \<Rightarrow> contradictions (set obs) \<noteq> {} \<and> bs_ok w \<and> set w = contradictions (set obs)
   | Established w \<Rightarrow> contradictions (set obs) = {} \<and> (\<forall>ob \<in> set obs. is_satisfied (obligation_state ob))
        \<and> bs_ok w \<and> set w = all_witnesses (set obs)
   | Unresolved \<Rightarrow> contradictions (set obs) = {} \<and> (\<exists>ob \<in> set obs. \<not> is_satisfied (obligation_state ob))"
proof -
  obtain a c t where f: "fold assess_step obs ([], [], True) = (a, c, t)" by (cases "fold assess_step obs ([], [], True)")
  from assess_fold[OF f] have "set a = all_witnesses (set obs)" "set c = contradictions (set obs)"
    "t \<longleftrightarrow> (\<forall>ob \<in> set obs. is_satisfied (obligation_state ob))" "bs_ok a" "bs_ok c"
    by (simp_all add: all_witnesses_def contradictions_def)
  with f show ?thesis by (auto simp: derive_claim_assessment_def)
qed

lemma derive_claim_assessment_cong:
  assumes "set obs = set obs'" shows "derive_claim_assessment obs = derive_claim_assessment obs'"
  using derive_claim_assessment_spec[of obs] derive_claim_assessment_spec[of obs'] assms
  by (auto split: claim_assessment.splits intro: bs_ok_eqI)

lemma derive_claim_assessment_Established:
  "derive_claim_assessment obs = Established w \<Longrightarrow> (\<forall>ob \<in> set obs. is_satisfied (obligation_state ob))"
  using derive_claim_assessment_spec[of obs] by simp

lemma recompute_claim_assessments_Inr:
  "recompute_claim_assessments claims obligations = Inr claims' \<Longrightarrow>
     map fst claims' = map fst claims
     \<and> (\<forall>cid. map_of claims' cid = map_option (\<lambda>c. c\<lparr>claim_assessment :=
           derive_claim_assessment (filter (\<lambda>ob. obligation_claim_id ob = cid) (bm_values obligations))\<rparr>)
          (map_of claims cid))
     \<and> (\<forall>cid \<in> dom (map_of claims). filter (\<lambda>ob. obligation_claim_id ob = cid) (bm_values obligations) \<noteq> [])"
proof -
  let ?rel = "\<lambda>cid. filter (\<lambda>ob. obligation_claim_id ob = cid) (bm_values obligations)"
  let ?f = "\<lambda>cid claims. rbind (reject (?rel cid = []) (Integrity ''knowledge_claim_without_obligation'')) (\<lambda>_.
        rbind (reject (map_of claims cid = None) (Integrity ''knowledge_claim_missing_during_reduction'')) (\<lambda>_.
        Inr (bm_modify cid (\<lambda>c. c\<lparr>claim_assessment := derive_claim_assessment (?rel cid)\<rparr>) claims)))"
  have loop: "rfold ?f ks cs = Inr cs' \<Longrightarrow> map fst cs' = map fst cs
      \<and> (\<forall>cid. map_of cs' cid = (if cid \<in> set ks
            then map_option (\<lambda>c. c\<lparr>claim_assessment := derive_claim_assessment (?rel cid)\<rparr>) (map_of cs cid)
            else map_of cs cid)) \<and> (\<forall>cid \<in> set ks. ?rel cid \<noteq> [])" for ks cs cs'
  proof (induction ks arbitrary: cs)
    case (Cons k ks)
    then obtain cs1 where c1: "cs1 = bm_modify k (\<lambda>c. c\<lparr>claim_assessment := derive_claim_assessment (?rel k)\<rparr>) cs"
      and ne: "?rel k \<noteq> []" and r: "rfold ?f ks cs1 = Inr cs'" by auto
    from Cons.IH[OF r] c1 ne show ?case by (auto simp: option.map_comp o_def)
  qed simp
  assume "recompute_claim_assessments claims obligations = Inr claims'"
  then have "rfold ?f (bm_keys claims) claims = Inr claims'"
    unfolding recompute_claim_assessments_def by (simp only: Let_def)
  note res = loop[OF this]
  have m: "map_of claims' cid = map_option (\<lambda>c. c\<lparr>claim_assessment := derive_claim_assessment (?rel cid)\<rparr>)
      (map_of claims cid)" for cid
  proof (cases "cid \<in> set (bm_keys claims)")
    case True
    with res show ?thesis by simp
  next
    case False
    then have "map_of claims cid = None" by (simp add: domIff)
    with res False show ?thesis by simp
  qed
  have "\<forall>cid \<in> dom (map_of claims). ?rel cid \<noteq> []" using res unfolding set_bm_keys by blast
  with res m show ?thesis by blast
qed

section \<open>Hypotheses\<close>

fun hypothesis_witnesses :: "hypothesis_assessment \<Rightarrow> digest list" where
  "hypothesis_witnesses Viable = []"
| "hypothesis_witnesses (Supported w) = w"
| "hypothesis_witnesses (Refuted w) = w"
| "hypothesis_witnesses (Conflicted supporting refuting) = supporting @ refuting"

fun reduce_hypothesis_assessment ::
  "hypothesis_assessment \<Rightarrow> predicate_evaluation \<Rightarrow> digest \<Rightarrow> hypothesis_assessment res" where
  "reduce_hypothesis_assessment a Missing receipt =
     Inl (Integrity ''hypothesis_prediction_observation_missing_or_type_mismatch'')"
| "reduce_hypothesis_assessment a TypeMismatch receipt =
     Inl (Integrity ''hypothesis_prediction_observation_missing_or_type_mismatch'')"
| "reduce_hypothesis_assessment Viable Matches receipt = Inr (Supported [receipt])"
| "reduce_hypothesis_assessment Viable Contradicts receipt = Inr (Refuted [receipt])"
| "reduce_hypothesis_assessment (Supported w) Matches receipt = Inr (Supported (bs_insert receipt w))"
| "reduce_hypothesis_assessment (Refuted w) Contradicts receipt = Inr (Refuted (bs_insert receipt w))"
| "reduce_hypothesis_assessment (Supported w) Contradicts receipt = Inr (Conflicted w [receipt])"
| "reduce_hypothesis_assessment (Refuted w) Matches receipt = Inr (Conflicted [receipt] w)"
| "reduce_hypothesis_assessment (Conflicted supporting refuting) Matches receipt =
     Inr (Conflicted (bs_insert receipt supporting) refuting)"
| "reduce_hypothesis_assessment (Conflicted supporting refuting) Contradicts receipt =
     Inr (Conflicted supporting (bs_insert receipt refuting))"

definition hypothesis_families_resolved :: "(string, knowledge_hypothesis) bmap \<Rightarrow> bool" where
  "hypothesis_families_resolved hypotheses =
     list_all (\<lambda>family.
        length (filter (\<lambda>h. case hypothesis_assessment h of Supported _ \<Rightarrow> True | _ \<Rightarrow> False) family) = 1
        \<and> length (filter (\<lambda>h. case hypothesis_assessment h of Refuted _ \<Rightarrow> True | _ \<Rightarrow> False) family)
            = length family - 1)
       (bm_values (group_by hypothesis_family_id (bm_values hypotheses)))"

text \<open>The abstract state of a hypothesis: its supporting and its refuting receipts.\<close>

fun verdicts :: "hypothesis_assessment \<Rightarrow> digest set \<times> digest set" where
  "verdicts Viable = ({}, {})"
| "verdicts (Supported w) = (set w, {})"
| "verdicts (Refuted w) = ({}, set w)"
| "verdicts (Conflicted supporting refuting) = (set supporting, set refuting)"

fun assessment_ok :: "hypothesis_assessment \<Rightarrow> bool" where
  "assessment_ok Viable \<longleftrightarrow> True"
| "assessment_ok (Supported w) \<longleftrightarrow> w \<noteq> [] \<and> bs_ok w"
| "assessment_ok (Refuted w) \<longleftrightarrow> w \<noteq> [] \<and> bs_ok w"
| "assessment_ok (Conflicted s r) \<longleftrightarrow> s \<noteq> [] \<and> r \<noteq> [] \<and> bs_ok s \<and> bs_ok r"

fun add_verdict :: "predicate_evaluation \<Rightarrow> digest \<Rightarrow> digest set \<times> digest set \<Rightarrow> digest set \<times> digest set" where
  "add_verdict Matches r (s, t) = (insert r s, t)"
| "add_verdict Contradicts r (s, t) = (s, insert r t)"
| "add_verdict _ r v = v"

lemma bs_insert_not_Nil [simp]: "bs_insert x ys \<noteq> []"
  by (induction x ys rule: bs_insert.induct) auto

lemma bs_ok_single [simp]: "bs_ok [x]"
  by (simp add: bs_ok_def)

lemma reduce_hypothesis_refines:
  assumes "reduce_hypothesis_assessment a e receipt = Inr a'"
  shows "verdicts a' = add_verdict e receipt (verdicts a) \<and> (assessment_ok a \<longrightarrow> assessment_ok a')
     \<and> e \<in> {Matches, Contradicts}"
  using assms by (induction a e receipt rule: reduce_hypothesis_assessment.induct) auto

lemma reduce_hypothesis_total:
  "e \<in> {Matches, Contradicts} \<Longrightarrow> \<exists>a'. reduce_hypothesis_assessment a e receipt = Inr a'"
  by (cases a; cases e) auto

lemma hypothesis_witnesses_verdicts: "set (hypothesis_witnesses a) = fst (verdicts a) \<union> snd (verdicts a)"
  by (cases a) auto

text \<open>An assessment is the classification of its verdicts.\<close>

lemma assessment_ok_eqI:
  "assessment_ok a \<Longrightarrow> assessment_ok b \<Longrightarrow> verdicts a = verdicts b \<Longrightarrow> a = b"
  by (cases a; cases b) (auto intro: bs_ok_eqI)

definition reduce_all :: "(predicate_evaluation \<times> digest) list \<Rightarrow> hypothesis_assessment \<Rightarrow> hypothesis_assessment res" where
  "reduce_all = rfold (\<lambda>(e, r) a. reduce_hypothesis_assessment a e r)"

lemma reduce_all_verdicts:
  "reduce_all evs a = Inr a' \<Longrightarrow>
     verdicts a' = (fst (verdicts a) \<union> {r. (Matches, r) \<in> set evs}, snd (verdicts a) \<union> {r. (Contradicts, r) \<in> set evs})
     \<and> (assessment_ok a \<longrightarrow> assessment_ok a')"
proof (induction evs arbitrary: a)
  case (Cons p evs)
  obtain e r where p: "p = (e, r)" by force
  from Cons.prems p obtain b where b: "reduce_hypothesis_assessment a e r = Inr b"
    and rest: "reduce_all evs b = Inr a'" by (auto simp: reduce_all_def)
  obtain s t where v: "verdicts a = (s, t)" by force
  from Cons.IH[OF rest] reduce_hypothesis_refines[OF b] p v show ?case by (cases e) auto
qed (simp add: reduce_all_def)

lemma reduce_all_order_independent:
  assumes "reduce_all evs a = Inr b" and "reduce_all evs' a = Inr b'" and "set evs = set evs'" and "assessment_ok a"
  shows "b = b'"
  using reduce_all_verdicts[OF assms(1)] reduce_all_verdicts[OF assms(2)] assms(3,4)
  by (auto intro: assessment_ok_eqI)

text \<open>A resolved family has one supported hypothesis, every other is refuted.\<close>

fun is_supported :: "hypothesis_assessment \<Rightarrow> bool" where
  "is_supported (Supported _) = True"
| "is_supported _ = False"

fun is_refuted :: "hypothesis_assessment \<Rightarrow> bool" where
  "is_refuted (Refuted _) = True"
| "is_refuted _ = False"

lemma one_and_rest:
  assumes "\<And>x. P x \<Longrightarrow> \<not> Q x"
  shows "length (filter P xs) = 1 \<and> length (filter Q xs) = length xs - 1
     \<longleftrightarrow> length (filter P xs) = 1 \<and> (\<forall>x \<in> set xs. P x \<or> Q x)"
proof (cases "length (filter P xs) = 1")
  case True
  have split: "length xs = length (filter P xs) + length (filter Q xs) + length (filter (\<lambda>x. \<not> P x \<and> \<not> Q x) xs)"
    using assms by (induction xs) auto
  have "(\<forall>x \<in> set xs. P x \<or> Q x) \<longleftrightarrow> filter (\<lambda>x. \<not> P x \<and> \<not> Q x) xs = []"
    by (auto simp: filter_empty_conv)
  moreover have "filter (\<lambda>x. \<not> P x \<and> \<not> Q x) xs = [] \<longleftrightarrow> length (filter (\<lambda>x. \<not> P x \<and> \<not> Q x) xs) = 0" by simp
  ultimately show ?thesis using split True by linarith
qed simp

lemma length_filter_one:
  assumes "distinct xs" shows "length (filter P xs) = 1 \<longleftrightarrow> (\<exists>!x. x \<in> set xs \<and> P x)"
proof -
  have "length (filter P xs) = card {x \<in> set xs. P x}"
    using distinct_card[OF distinct_filter[OF assms], of P] by simp
  also have "\<dots> = 1 \<longleftrightarrow> (\<exists>!x. x \<in> set xs \<and> P x)"
    by (auto simp: card_1_singleton_iff Ex1_def set_eq_iff)
  finally show ?thesis .
qed

lemma hypothesis_families_resolved_iff:
  assumes "distinct (bm_values hypotheses)"
  shows "hypothesis_families_resolved hypotheses \<longleftrightarrow>
    (\<forall>h \<in> set (bm_values hypotheses).
       (\<exists>!h'. h' \<in> set (bm_values hypotheses) \<and> hypothesis_family_id h' = hypothesis_family_id h
               \<and> is_supported (hypothesis_assessment h'))
       \<and> (is_supported (hypothesis_assessment h) \<or> is_refuted (hypothesis_assessment h)))"
    (is "_ \<longleftrightarrow> ?spec")
proof -
  let ?hs = "bm_values hypotheses" and ?s = "\<lambda>h. is_supported (hypothesis_assessment h)"
    and ?r = "\<lambda>h. is_refuted (hypothesis_assessment h)"
  have s: "(case hypothesis_assessment h of Supported _ \<Rightarrow> True | _ \<Rightarrow> False) = ?s h"
    and r: "(case hypothesis_assessment h of Refuted _ \<Rightarrow> True | _ \<Rightarrow> False) = ?r h" for h
    by (cases "hypothesis_assessment h"; simp)+
  have excl: "?s h \<Longrightarrow> \<not> ?r h" for h by (cases "hypothesis_assessment h") simp_all
  have fam: "length (filter ?s g) = 1 \<and> length (filter ?r g) = length g - 1 \<longleftrightarrow>
      (\<exists>!h'. h' \<in> set g \<and> ?s h') \<and> (\<forall>h \<in> set g. ?s h \<or> ?r h)" if "distinct g" for g
    by (subst one_and_rest[of ?s ?r, OF excl]) (simp_all only: length_filter_one[OF that])
  have "hypothesis_families_resolved hypotheses \<longleftrightarrow>
      (\<forall>h \<in> set ?hs. let g = filter (\<lambda>h'. hypothesis_family_id h' = hypothesis_family_id h) ?hs in
         length (filter ?s g) = 1 \<and> length (filter ?r g) = length g - 1)"
    unfolding hypothesis_families_resolved_def s r list_all_iff ball_group_by Let_def ..
  also have "\<dots> \<longleftrightarrow> (\<forall>h \<in> set ?hs. let g = filter (\<lambda>h'. hypothesis_family_id h' = hypothesis_family_id h) ?hs in
         (\<exists>!h'. h' \<in> set g \<and> ?s h') \<and> (\<forall>h \<in> set g. ?s h \<or> ?r h))"
    unfolding Let_def using fam[OF distinct_filter[OF assms]] by (intro ball_cong refl)
  also have "\<dots> \<longleftrightarrow> ?spec" by (auto simp: Let_def conj_assoc)
  finally show ?thesis .
qed

section \<open>What a transition changed\<close>

definition record_transition_changes ::
  "knowledge_state \<Rightarrow> (string, claim_assessment) bmap \<Rightarrow> (string, knowledge_obligation_state) bmap
   \<Rightarrow> (string, hypothesis_assessment) bmap \<Rightarrow> transition_changes \<Rightarrow> transition_changes" where
  "record_transition_changes nxt prior_claims prior_obligations prior_hypotheses changes =
     (let changes = fold (\<lambda>(oid, ob) ch.
            if map_of prior_obligations oid = Some (obligation_state ob) then ch
            else case obligation_state ob of
              Satisfied _ _ \<Rightarrow> ch\<lparr>satisfied_obligations := bs_insert oid (satisfied_obligations ch)\<rparr>
            | Blocked _ _ _ \<Rightarrow> ch\<lparr>blocked_obligations := bs_insert oid (blocked_obligations ch)\<rparr>
            | Open _ _ \<Rightarrow> ch) (ks_obligations nxt) changes;
          changes = fold (\<lambda>(cid, c) ch.
            if map_of prior_claims cid = Some (claim_assessment c) then ch
            else case claim_assessment c of
              Established _ \<Rightarrow> ch\<lparr>established_claims := bs_insert cid (established_claims ch)\<rparr>
            | Contradicted _ \<Rightarrow> ch\<lparr>contradicted_claims := bs_insert cid (contradicted_claims ch)\<rparr>
            | Unresolved \<Rightarrow> ch) (ks_claims nxt) changes
      in fold (\<lambda>(hid, h) ch.
            if map_of prior_hypotheses hid = Some (hypothesis_assessment h) then ch
            else case hypothesis_assessment h of
              Supported _ \<Rightarrow> ch\<lparr>supported_hypotheses := bs_insert hid (supported_hypotheses ch)\<rparr>
            | Refuted _ \<Rightarrow> ch\<lparr>refuted_hypotheses := bs_insert hid (refuted_hypotheses ch)\<rparr>
            | _ \<Rightarrow> ch) (ks_hypotheses nxt) changes)"

lemma record_transition_frame:
  "added_claims (record_transition_changes nxt pc po ph ch) = added_claims ch"
  "added_obligations (record_transition_changes nxt pc po ph ch) = added_obligations ch"
proof -
  have inv: "(\<And>x c. x \<in> set xs \<Longrightarrow> g (f x c) = g c) \<Longrightarrow> g (fold f xs c) = g c"
    for g :: "transition_changes \<Rightarrow> string bset" and f :: "'x \<Rightarrow> _ \<Rightarrow> _" and xs c
    by (induction xs arbitrary: c) auto
  show "added_claims (record_transition_changes nxt pc po ph ch) = added_claims ch"
    unfolding record_transition_changes_def Let_def
    by (subst inv, fastforce split: hypothesis_assessment.splits, subst inv, fastforce split: claim_assessment.splits,
        subst inv, fastforce split: knowledge_obligation_state.splits) simp
  show "added_obligations (record_transition_changes nxt pc po ph ch) = added_obligations ch"
    unfolding record_transition_changes_def Let_def
    by (subst inv, fastforce split: hypothesis_assessment.splits, subst inv, fastforce split: claim_assessment.splits,
        subst inv, fastforce split: knowledge_obligation_state.splits) simp
qed

section \<open>Properties\<close>

text \<open>
  The assessment of a claim is what its obligations say: contradicted by exactly the receipts of
  contradicted obligations, established by all witnesses when every obligation is satisfied, and
  unresolved otherwise.
\<close>

theorem claim_assessment_correct:
  "case derive_claim_assessment obs of
     Contradicted w \<Rightarrow> contradictions (set obs) \<noteq> {} \<and> bs_ok w \<and> set w = contradictions (set obs)
   | Established w \<Rightarrow> contradictions (set obs) = {} \<and> (\<forall>ob \<in> set obs. is_satisfied (obligation_state ob))
        \<and> bs_ok w \<and> set w = all_witnesses (set obs)
   | Unresolved \<Rightarrow> contradictions (set obs) = {} \<and> (\<exists>ob \<in> set obs. \<not> is_satisfied (obligation_state ob))"
  by (rule derive_claim_assessment_spec)

theorem claim_assessment_correct_witness:
  "derive_claim_assessment [\<lparr>obligation_id = ''a'', obligation_claim_id = ''c'', obligation_domain = TraceBehavior,
      obligation_criterion = EvaluationCriterion (BoolEquals ''k'' True), obligation_plan = ObserveTrace [''k''] 1,
      obligation_state = Satisfied 1 [zero_digest]\<rparr>] = Established [zero_digest]"
  using claim_assessment_correct[of "[\<lparr>obligation_id = ''a'', obligation_claim_id = ''c'', obligation_domain = TraceBehavior,
      obligation_criterion = EvaluationCriterion (BoolEquals ''k'' True), obligation_plan = ObserveTrace [''k''] 1,
      obligation_state = Satisfied 1 [zero_digest]\<rparr>]"]
  by (simp add: derive_claim_assessment_def assess_step_def bs_extend_def)

text \<open>
  The order in which evidence about a hypothesis arrives does not matter: two sequences with the
  same evaluations end in the same assessment.
\<close>

theorem hypothesis_reduction_order_independent:
  assumes "reduce_all evs a = Inr b" and "reduce_all evs' a = Inr b'" and "set evs = set evs'" and "assessment_ok a"
  shows "b = b'"
  using assms by (rule reduce_all_order_independent)

theorem hypothesis_reduction_order_independent_witness:
  "reduce_all [(Matches, ''r1''), (Contradicts, ''r2'')] Viable = reduce_all [(Contradicts, ''r2''), (Matches, ''r1'')] Viable"
proof -
  obtain b b' where b: "reduce_all [(Matches, ''r1''), (Contradicts, ''r2'')] Viable = Inr b"
    "reduce_all [(Contradicts, ''r2''), (Matches, ''r1'')] Viable = Inr b'" by (simp add: reduce_all_def)
  from hypothesis_reduction_order_independent[OF b] b show ?thesis by auto
qed

text \<open>
  A family of rival hypotheses counts as resolved exactly when one of its members is supported
  and every other one is refuted.
\<close>

theorem families_resolved_correct:
  assumes "distinct (bm_values hypotheses)"
  shows "hypothesis_families_resolved hypotheses \<longleftrightarrow>
    (\<forall>h \<in> set (bm_values hypotheses).
       (\<exists>!h'. h' \<in> set (bm_values hypotheses) \<and> hypothesis_family_id h' = hypothesis_family_id h
               \<and> is_supported (hypothesis_assessment h'))
       \<and> (is_supported (hypothesis_assessment h) \<or> is_refuted (hypothesis_assessment h)))"
  using assms by (rule hypothesis_families_resolved_iff)

theorem families_resolved_correct_witness:
  "\<not> hypothesis_families_resolved [(''h'', \<lparr>hypothesis_id = ''h'', hypothesis_family_id = ''f'',
      hypothesis_definition = BoolEquals ''k'' True, hypothesis_assessment = Viable\<rparr>)]"
  using families_resolved_correct[of "[(''h'', \<lparr>hypothesis_id = ''h'', hypothesis_family_id = ''f'',
      hypothesis_definition = BoolEquals ''k'' True, hypothesis_assessment = Viable\<rparr>)]"]
  by (simp add: bm_values_def)

end
