(* ===== verification/Knowledge_Graph.thy ===== *)
theory Knowledge_Graph
  imports Brain_Prelude
begin

text \<open>
  The dependency graph algorithms of \<open>src/knowledge/knowledge_engine.rs\<close>: the bounded worklist
  search \<open>dependency_graph_reachable\<close>, the topological counting of
  \<open>dependency_graph_is_acyclic\<close>, and \<open>dependency_edge_count\<close>. On a well-formed graph within the
  node limit the first decides reachability, the second acyclicity, and neither fails.
\<close>

section \<open>The algorithms\<close>

type_synonym 'n graph = "('n, 'n bset) bmap"

text \<open>
  \<open>for next in targets.iter().rev()\<close>: return when the target is met, push otherwise. The
  stack \<open>pending\<close> has its top first. \<open>None\<close> is the early \<open>return Ok(true)\<close>.
\<close>

fun push_targets :: "'n \<Rightarrow> 'n list \<Rightarrow> 'n list \<Rightarrow> 'n list option" where
  "push_targets target [] pending = Some pending"
| "push_targets target (x # xs) pending =
     (if x = target then None else push_targets target xs (x # pending))"

function reach_loop :: "'n::linorder graph \<Rightarrow> 'n \<Rightarrow> nat \<Rightarrow> 'n list \<Rightarrow> 'n bset \<Rightarrow> bool res" where
  "reach_loop graph target max_nodes [] visited = Inr False"
| "reach_loop graph target max_nodes (node # pending) visited =
     (if List.member visited node then reach_loop graph target max_nodes pending visited
      else let visited' = bs_insert node visited in
        if max_nodes < length visited'
        then Inl (Integrity ''dependency_graph_traversal_limit_exceeded'')
        else case map_of graph node of
          None \<Rightarrow> Inl (Integrity ''dependency_graph_node_missing'')
        | Some targets \<Rightarrow>
            (case push_targets target (rev targets) pending of
               None \<Rightarrow> Inr True
             | Some pending' \<Rightarrow> reach_loop graph target max_nodes pending' visited'))"
  by pat_completeness auto
termination
  by (relation "measures [\<lambda>(g, t, m, p, v). Suc m - length v, \<lambda>(g, t, m, p, v). length p]")
     (auto simp: length_bs_insert_fresh)

definition dependency_graph_reachable :: "'n::linorder graph \<Rightarrow> 'n \<Rightarrow> 'n \<Rightarrow> nat \<Rightarrow> bool res" where
  "dependency_graph_reachable graph start target max_nodes =
     (if start = target then Inr True
      else if map_of graph start = None then Inr False
      else reach_loop graph target max_nodes [start] [])"

definition count_target :: "'n \<Rightarrow> ('n, nat) bmap \<Rightarrow> ('n, nat) bmap res" where
  "count_target target indegree =
     rbind (ok_or (map_of indegree target) (Integrity ''dependency_graph_target_missing'')) (\<lambda>degree.
     rbind (ok_or (checked_add 64 degree 1) (Invalid ''dependency_indegree_overflow'')) (\<lambda>degree'.
     Inr (bm_modify target (\<lambda>_. degree') indegree)))"

definition release_target :: "'n::linorder \<Rightarrow> ('n, nat) bmap \<times> 'n bset \<Rightarrow> (('n, nat) bmap \<times> 'n bset) res" where
  "release_target target = (\<lambda>(indegree, ready).
     rbind (ok_or (map_of indegree target) (Integrity ''dependency_graph_target_missing'')) (\<lambda>degree.
     rbind (ok_or (checked_sub degree 1) (Integrity ''dependency_indegree_underflow'')) (\<lambda>degree'.
     Inr (bm_modify target (\<lambda>_. degree') indegree,
          if degree' = 0 then bs_insert target ready else ready))))"

lemma release_target_measure:
  "release_target t (indegree, ready) = Inr (indegree', ready') \<Longrightarrow>
   sum_list (map snd indegree') + length ready' \<le> sum_list (map snd indegree) + length ready"
proof -
  assume ok: "release_target t (indegree, ready) = Inr (indegree', ready')"
  then obtain d where d: "map_of indegree t = Some d" "1 \<le> d"
    and i: "indegree' = bm_modify t (\<lambda>_. d - 1) indegree"
    and r: "ready' = (if d - 1 = 0 then bs_insert t ready else ready)"
    by (auto simp: release_target_def)
  from sum_list_bm_modify[OF d(1), of "\<lambda>_. d - 1"] i d(2)
  have "Suc (sum_list (map snd indegree')) = sum_list (map snd indegree)" by simp
  with r length_bs_insert_le[of t ready] show ?thesis by auto
qed

lemma release_targets_measure:
  "rfold release_target ts (indegree, ready) = Inr (indegree', ready') \<Longrightarrow>
   sum_list (map snd indegree') + length ready' \<le> sum_list (map snd indegree) + length ready"
proof (induction ts arbitrary: indegree ready)
  case (Cons t ts)
  then obtain i r where "release_target t (indegree, ready) = Inr (i, r)"
    and "rfold release_target ts (i, r) = Inr (indegree', ready')" by auto
  with Cons.IH release_target_measure show ?case by (meson le_trans)
qed simp

function acyclic_loop :: "'n::linorder graph \<Rightarrow> ('n, nat) bmap \<Rightarrow> 'n bset \<Rightarrow> nat \<Rightarrow> nat res" where
  "acyclic_loop graph indegree [] visited = Inr visited"
| "acyclic_loop graph indegree (node # ready) visited =
     rbind (ok_or (checked_add 64 visited 1) (Invalid ''dependency_visit_overflow'')) (\<lambda>visited'.
     rbind (ok_or (map_of graph node) (Panic ''graph[&node]'')) (\<lambda>targets.
     rbind (rfold release_target targets (indegree, ready)) (\<lambda>(indegree', ready').
     acyclic_loop graph indegree' ready' visited')))"
  by pat_completeness auto
termination
proof (relation "measure (\<lambda>(g, i, r, v). sum_list (map snd i) + length r)", goal_cases)
  case (2 graph indegree node ready visited x xa xb xc y)
  from 2(3,4) have "rfold release_target xa (indegree, ready) = Inr (xc, y)" by simp
  from release_targets_measure[OF this] show ?case by simp
qed simp

definition dependency_graph_is_acyclic :: "'n::linorder graph \<Rightarrow> nat \<Rightarrow> bool res" where
  "dependency_graph_is_acyclic graph max_nodes =
     (if max_nodes < length graph then Inr False
      else rbind (rfold (rfold count_target) (bm_values graph) (map (\<lambda>(node, _). (node, 0)) graph))
        (\<lambda>indegree.
          let ready = bs_of (map fst (filter (\<lambda>(_, degree). degree = 0) indegree)) in
          rbind (acyclic_loop graph indegree ready 0) (\<lambda>visited. Inr (visited = length graph))))"

definition dependency_edge_count :: "'n graph \<Rightarrow> nat res" where
  "dependency_edge_count graph =
     rfold (\<lambda>targets total.
        ok_or (checked_add 64 total (length targets)) (Invalid ''dependency_edge_count_overflow''))
       (bm_values graph) 0"

section \<open>Well-formed graphs\<close>

definition edges :: "'n graph \<Rightarrow> ('n \<times> 'n) set" where
  "edges graph = {(u, v). \<exists>targets. map_of graph u = Some targets \<and> v \<in> set targets}"

definition nodes :: "'n graph \<Rightarrow> 'n set" where
  "nodes graph = dom (map_of graph)"

definition graph_ok :: "'n::linorder graph \<Rightarrow> bool" where
  "graph_ok graph \<longleftrightarrow> bm_ok graph \<and> (\<forall>(u, targets) \<in> set graph. bs_ok targets \<and> set targets \<subseteq> nodes graph)"

lemma finite_nodes [simp]: "finite (nodes graph)"
  by (simp add: nodes_def finite_dom_map_of)

lemma card_nodes: "graph_ok graph \<Longrightarrow> card (nodes graph) = length graph"
  using distinct_card[of "map fst graph"]
  by (simp add: nodes_def dom_map_of_conv_image_fst graph_ok_def bm_ok_distinct)

lemma edges_nodes: "graph_ok graph \<Longrightarrow> (u, v) \<in> edges graph \<Longrightarrow> u \<in> nodes graph \<and> v \<in> nodes graph"
proof -
  assume ok: "graph_ok graph" and "(u, v) \<in> edges graph"
  then obtain ts where ts: "map_of graph u = Some ts" "v \<in> set ts" by (auto simp: edges_def)
  then have "(u, ts) \<in> set graph" by (auto dest: map_of_SomeD)
  with ok have "set ts \<subseteq> nodes graph" by (auto simp: graph_ok_def)
  with ts(2) have "v \<in> nodes graph" by blast
  moreover from ts(1) have "u \<in> nodes graph" unfolding nodes_def by (rule domI)
  ultimately show ?thesis by blast
qed

lemma finite_edges: "graph_ok graph \<Longrightarrow> finite (edges graph)"
  by (rule finite_subset[of _ "nodes graph \<times> nodes graph"]) (auto dest: edges_nodes)

lemma successors: "map_of graph u = Some targets \<Longrightarrow> edges graph `` {u} = set targets"
  by (auto simp: edges_def)

text \<open>Adding a node without edges, and adding an edge.\<close>

lemma nodes_add_node [simp]: "nodes (bm_insert v [] graph) = insert v (nodes graph)"
  by (auto simp: nodes_def)

lemma edges_add_node: "v \<notin> nodes graph \<Longrightarrow> edges (bm_insert v [] graph) = edges graph"
  by (auto simp: edges_def nodes_def split: if_splits)

lemma graph_ok_add_node: "graph_ok graph \<Longrightarrow> v \<notin> nodes graph \<Longrightarrow> graph_ok (bm_insert v [] graph)"
  using set_bm_insert_subset[of v "[]" graph] by (fastforce simp: graph_ok_def)

lemma nodes_add_edge [simp]: "nodes (bm_modify u f graph) = nodes graph"
  by (auto simp: nodes_def split: if_splits)

lemma edges_add_edge: "u \<in> nodes graph \<Longrightarrow> edges (bm_modify u (bs_insert v) graph) = insert (u, v) (edges graph)"
  by (auto simp: edges_def nodes_def split: if_splits)

lemma graph_ok_add_edge:
  assumes ok: "graph_ok graph" and v: "v \<in> nodes graph"
  shows "graph_ok (bm_modify u (bs_insert v) graph)"
proof -
  have "bs_ok ts \<and> set ts \<subseteq> nodes graph" if "(n, ts) \<in> set (bm_modify u (bs_insert v) graph)" for n ts
  proof -
    have "bm_ok (bm_modify u (bs_insert v) graph)" using ok by (simp add: graph_ok_def)
    with that have "map_of (bm_modify u (bs_insert v) graph) n = Some ts" by (simp only: map_of_eq_iff_mem)
    then obtain ts0 where "map_of graph n = Some ts0" "ts = ts0 \<or> ts = bs_insert v ts0" by (auto split: if_splits)
    moreover from this have "(n, ts0) \<in> set graph" by (auto dest: map_of_SomeD)
    with ok have "bs_ok ts0" "set ts0 \<subseteq> nodes graph" by (auto simp: graph_ok_def)
    ultimately show ?thesis using v by auto
  qed
  with ok show ?thesis by (auto simp: graph_ok_def)
qed

section \<open>The search decides reachability\<close>

lemma push_targets_eq:
  "push_targets target xs pending = (if target \<in> set xs then None else Some (rev xs @ pending))"
  by (induction xs arbitrary: pending) auto

lemma closed_no_path:
  assumes "r `` V \<subseteq> V" and "p \<in> V" and "(p, t) \<in> r\<^sup>*"
  shows "t \<in> V"
  using assms(3,2) by (induction rule: rtrancl_induct) (use assms(1) in auto)

lemma reach_loop_correct:
  assumes "graph_ok graph" and "length graph \<le> max_nodes"
    and "set pending \<subseteq> nodes graph" and "set visited \<subseteq> nodes graph" and "bs_ok visited"
    and "target \<notin> set pending" and "target \<notin> set visited"
    and "edges graph `` set visited \<subseteq> set visited \<union> set pending"
  shows "reach_loop graph target max_nodes pending visited
       = Inr (\<exists>p \<in> set pending \<union> set visited. (p, target) \<in> (edges graph)\<^sup>*)"
  using assms
proof (induction graph target max_nodes pending visited rule: reach_loop.induct)
  case (1 graph target max_nodes visited)
  then show ?case using closed_no_path[of "edges graph" "set visited"] by auto
next
  case (2 graph target max_nodes node pending visited)
  show ?case
  proof (cases "node \<in> set visited")
    case True
    then have "reach_loop graph target max_nodes pending visited
       = Inr (\<exists>p \<in> set pending \<union> set visited. (p, target) \<in> (edges graph)\<^sup>*)"
      using "2.prems" by (intro "2.IH"(1)) auto
    with True show ?thesis by auto
  next
    case False
    let ?v = "bs_insert node visited"
    from "2.prems" obtain targets where targets: "map_of graph node = Some targets"
      by (auto simp: nodes_def)
    have succ: "edges graph `` {node} = set targets" by (rule successors[OF targets])
    have sub: "set targets \<subseteq> nodes graph"
      using succ edges_nodes[OF "2.prems"(1)] by blast
    have "length ?v = card (set ?v)" using "2.prems"(5) by (intro length_bs) auto
    also have "\<dots> \<le> card (nodes graph)" using "2.prems" by (intro card_mono) auto
    finally have len: "\<not> max_nodes < length ?v" using "2.prems" card_nodes by fastforce
    show ?thesis
    proof (cases "target \<in> set targets")
      case True
      then have "(node, target) \<in> edges graph" using succ by blast
      then show ?thesis using False len targets True by (auto simp: Let_def push_targets_eq)
    next
      case nt: False
      have push: "push_targets target (rev targets) pending = Some (targets @ pending)"
        using nt by (simp add: push_targets_eq)
      have "reach_loop graph target max_nodes (targets @ pending) ?v
          = Inr (\<exists>p \<in> set (targets @ pending) \<union> set ?v. (p, target) \<in> (edges graph)\<^sup>*)"
        using "2.prems" False len nt sub succ
        by (intro "2.IH"(2)[OF _ refl _ targets push]) (auto simp: Image_iff)
      moreover have "(\<exists>p \<in> set (targets @ pending) \<union> set ?v. (p, target) \<in> (edges graph)\<^sup>*)
          = (\<exists>p \<in> set (node # pending) \<union> set visited. (p, target) \<in> (edges graph)\<^sup>*)"
        using succ by (auto intro: converse_rtrancl_into_rtrancl)
      ultimately show ?thesis using False len targets push by (auto simp: Let_def)
    qed
  qed
qed

lemma reachable_decides:
  assumes "graph_ok graph" and "length graph \<le> max_nodes"
  shows "dependency_graph_reachable graph start target max_nodes
       = Inr ((start, target) \<in> (edges graph)\<^sup>*)"
proof (cases "start = target \<or> map_of graph start = None")
  case True
  moreover have "(start, target) \<notin> (edges graph)\<^sup>*"
    if "map_of graph start = None" "start \<noteq> target"
    using that by (auto simp: edges_def elim: converse_rtranclE)
  ultimately show ?thesis by (auto simp: dependency_graph_reachable_def)
next
  case False
  then have "reach_loop graph target max_nodes [start] []
      = Inr (\<exists>p \<in> set [start] \<union> set []. (p, target) \<in> (edges graph)\<^sup>*)"
    using assms by (intro reach_loop_correct) (auto simp: nodes_def)
  moreover from False have "dependency_graph_reachable graph start target max_nodes
      = reach_loop graph target max_nodes [start] []"
    unfolding dependency_graph_reachable_def by (simp only: if_False de_Morgan_disj)
  ultimately show ?thesis by simp
qed

section \<open>The topological count decides acyclicity\<close>

text \<open>
  The predecessors of a node that have not been visited; the count keeps each node's degree at
  their number.
\<close>

definition waiting :: "'n graph \<Rightarrow> 'n set \<Rightarrow> 'n \<Rightarrow> 'n set" where
  "waiting graph P v = {u \<in> nodes graph - P. (u, v) \<in> edges graph}"

lemma finite_waiting [simp]: "finite (waiting graph P v)"
  by (simp add: waiting_def)

lemma count_target_Inr:
  "count_target t indegree = Inr i \<Longrightarrow>
     map_of i v = map_option (\<lambda>d. d + (if v = t then 1 else 0)) (map_of indegree v)
     \<and> map fst i = map fst indegree"
  by (auto simp: count_target_def option.map_ident)

lemma count_targets:
  assumes "rfold count_target ts indegree = Inr indegree'"
  shows "map_of indegree' v = map_option (\<lambda>d. d + count_list ts v) (map_of indegree v)
     \<and> map fst indegree' = map fst indegree"
  using assms
proof (induction ts arbitrary: indegree)
  case (Cons t ts)
  then obtain i where i: "count_target t indegree = Inr i"
    and r: "rfold count_target ts i = Inr indegree'" by auto
  from Cons.IH[OF r] count_target_Inr[OF i, of v] show ?case
    by (cases "map_of indegree v") auto
qed (simp add: option.map_ident)

lemma count_targets_total:
  assumes "set ts \<subseteq> dom (map_of indegree)"
    and "\<And>v d. map_of indegree v = Some d \<Longrightarrow> d + length ts < 2 ^ 64"
  shows "\<exists>indegree'. rfold count_target ts indegree = Inr indegree'"
  using assms
proof (induction ts arbitrary: indegree)
  case (Cons t ts)
  from Cons.prems(1) obtain d where d: "map_of indegree t = Some d" by auto
  have "d + 1 < 2 ^ 64" using Cons.prems(2)[OF d] by simp
  with d have c: "count_target t indegree = Inr (bm_modify t (\<lambda>_. d + 1) indegree)"
    by (simp add: count_target_def checked_add_def)
  have "\<exists>indegree'. rfold count_target ts (bm_modify t (\<lambda>_. d + 1) indegree) = Inr indegree'"
  proof (rule Cons.IH)
    show "set ts \<subseteq> dom (map_of (bm_modify t (\<lambda>_. d + 1) indegree))"
      using Cons.prems(1) by (auto simp: dom_def)
    show "e + length ts < 2 ^ 64" if "map_of (bm_modify t (\<lambda>_. d + 1) indegree) v = Some e" for v e
      using that d Cons.prems(2)[of v] Cons.prems(2)[OF d] by (auto split: if_splits)
  qed
  with c show ?case by simp
qed simp

lemma release_target_step:
  assumes "map_of indegree t = Some (Suc d)"
  shows "release_target t (indegree, ready)
       = Inr (bm_modify t (\<lambda>_. d) indegree, if d = 0 then bs_insert t ready else ready)"
  using assms by (simp add: release_target_def checked_sub_def)

lemma release_targets:
  assumes "distinct ts" and "\<And>v. v \<in> set ts \<Longrightarrow> \<exists>d. map_of indegree v = Some (Suc d)" and "bs_ok ready"
  shows "\<exists>indegree' ready'. rfold release_target ts (indegree, ready) = Inr (indegree', ready')
     \<and> map fst indegree' = map fst indegree
     \<and> (\<forall>v. map_of indegree' v = map_option (\<lambda>d. if v \<in> set ts then d - 1 else d) (map_of indegree v))
     \<and> bs_ok ready' \<and> set ready' = set ready \<union> {v \<in> set ts. map_of indegree v = Some 1}"
  using assms
proof (induction ts arbitrary: indegree ready)
  case Nil
  then show ?case by (simp add: option.map_ident)
next
  case (Cons t ts)
  from Cons.prems(2)[of t] obtain d where d: "map_of indegree t = Some (Suc d)" by auto
  let ?i = "bm_modify t (\<lambda>_. d) indegree" and ?r = "if d = 0 then bs_insert t ready else ready"
  have step: "release_target t (indegree, ready) = Inr (?i, ?r)" by (rule release_target_step[OF d])
  have t: "t \<notin> set ts" "distinct ts" using Cons.prems(1) by simp_all
  have same: "map_of ?i v = map_of indegree v" if "v \<noteq> t" for v using that by simp
  have pre: "\<exists>d. map_of ?i v = Some (Suc d)" if "v \<in> set ts" for v
  proof -
    have "v \<noteq> t" using that t by blast
    with Cons.prems(2)[of v] that same[of v] show ?thesis by simp
  qed
  have rok: "bs_ok ?r" using Cons.prems(3) by (cases "d = 0") (simp_all add: bs_ok_insert)
  from Cons.IH[OF t(2) pre rok] obtain i' r' where r:
    "rfold release_target ts (?i, ?r) = Inr (i', r')" "map fst i' = map fst ?i"
    "\<forall>v. map_of i' v = map_option (\<lambda>d. if v \<in> set ts then d - 1 else d) (map_of ?i v)"
    "bs_ok r'" "set r' = set ?r \<union> {v \<in> set ts. map_of ?i v = Some 1}" by blast
  have m: "map_of i' v = map_option (\<lambda>d. if v \<in> set (t # ts) then d - 1 else d) (map_of indegree v)" for v
  proof (cases "v = t")
    case True
    with r(3) d t show ?thesis by simp
  next
    case False
    with r(3) same[OF False] show ?thesis by simp
  qed
  have "{v \<in> set ts. map_of ?i v = Some 1} = {v \<in> set ts. map_of indegree v = Some 1}"
    using t same by (intro Collect_cong) metis
  then have s: "set r' = set ready \<union> {v \<in> set (t # ts). map_of indegree v = Some 1}"
    using r(5) d by (cases "d = 0") auto
  from step r(1) have "rfold release_target (t # ts) (indegree, ready) = Inr (i', r')" by simp
  with m s r(2,4) show ?case by (intro exI[of _ i'] exI[of _ r']) simp
qed

text \<open>
  The invariant of the loop: \<open>P\<close> is the set of visited nodes, closed under predecessors and
  ordered by a rank that every edge into it increases.
\<close>

definition count_inv :: "'n::linorder graph \<Rightarrow> 'n set \<Rightarrow> ('n \<Rightarrow> nat) \<Rightarrow> ('n, nat) bmap \<Rightarrow> 'n bset \<Rightarrow> nat \<Rightarrow> bool" where
  "count_inv graph P rank indegree ready visited \<longleftrightarrow>
     P \<subseteq> nodes graph \<and> visited = card P
     \<and> map fst indegree = map fst graph
     \<and> (\<forall>v \<in> nodes graph. map_of indegree v = Some (card (waiting graph P v)))
     \<and> bs_ok ready \<and> set ready = {v \<in> nodes graph - P. waiting graph P v = {}}
     \<and> (\<forall>u v. (u, v) \<in> edges graph \<longrightarrow> v \<in> P \<longrightarrow> u \<in> P \<and> rank u < rank v)
     \<and> (\<forall>v \<in> P. rank v < card P)"

lemma waiting_insert:
  "waiting graph (insert n P) v = waiting graph P v - {n}"
  by (auto simp: waiting_def)

lemma count_inv_step:
  assumes ok: "graph_ok graph" and invar: "count_inv graph P rank indegree (node # ready) visited"
  shows "\<exists>targets indegree' ready'. map_of graph node = Some targets
     \<and> rfold release_target targets (indegree, ready) = Inr (indegree', ready')
     \<and> count_inv graph (insert node P) (rank(node := card P)) indegree' ready' (Suc visited)
     \<and> node \<in> nodes graph - P"
proof -
  from invar have node: "node \<in> nodes graph" "node \<notin> P" "waiting graph P node = {}"
    by (auto simp: count_inv_def)
  then obtain targets where t: "map_of graph node = Some targets" by (auto simp: nodes_def)
  have succ: "edges graph `` {node} = set targets" by (rule successors[OF t])
  from t ok have targets: "bs_ok targets" "set targets \<subseteq> nodes graph"
    by (auto simp: graph_ok_def dest!: map_of_SomeD)
  have deg: "map_of indegree v = Some (card (waiting graph P v))" if "v \<in> nodes graph" for v
    using that invar by (simp add: count_inv_def)
  have mem: "node \<in> waiting graph P v" if "v \<in> set targets" for v
    using that succ node by (auto simp: waiting_def)
  have card_ins: "card (waiting graph (insert node P) v)
      = (if v \<in> set targets then card (waiting graph P v) - 1 else card (waiting graph P v))" for v
    using mem[of v] succ by (auto simp: waiting_insert card_Diff_singleton_if) (auto simp: waiting_def)
  have "\<exists>d. map_of indegree v = Some (Suc d)" if "v \<in> set targets" for v
    using deg[of v] that targets(2) mem[OF that] by (cases "card (waiting graph P v)") auto
  moreover have "bs_ok ready" using invar by (auto simp: count_inv_def bs_ok_Cons)
  ultimately obtain indegree' ready' where r:
    "rfold release_target targets (indegree, ready) = Inr (indegree', ready')"
    "map fst indegree' = map fst indegree"
    "\<forall>v. map_of indegree' v = map_option (\<lambda>d. if v \<in> set targets then d - 1 else d) (map_of indegree v)"
    "bs_ok ready'" "set ready' = set ready \<union> {v \<in> set targets. map_of indegree v = Some 1}"
    using release_targets[OF bs_ok_distinct[OF targets(1)], of indegree ready] by blast
  have closed: "\<And>u v. (u, v) \<in> edges graph \<Longrightarrow> v \<in> P \<Longrightarrow> u \<in> P \<and> rank u < rank v"
    using invar unfolding count_inv_def by blast
  have out: "v \<notin> P" if "v \<in> set targets" for v
  proof
    assume "v \<in> P"
    moreover have "(node, v) \<in> edges graph" using that succ by blast
    ultimately show False using closed node(2) by blast
  qed
  have loop: "node \<notin> set targets" using mem[of node] node by auto
  have "node \<notin> set ready" using invar by (auto simp: count_inv_def bs_ok_Cons)
  moreover have "set ready \<union> {node} = {v \<in> nodes graph - P. waiting graph P v = {}}"
    using invar by (auto simp: count_inv_def)
  ultimately have ready: "set ready = {v \<in> nodes graph - P. waiting graph P v = {}} - {node}" by blast
  have one: "card (waiting graph P v) = 1 \<longleftrightarrow> waiting graph (insert node P) v = {}" if "v \<in> set targets" for v
    using card_ins[of v] that mem[OF that] by (auto simp: card_eq_0_iff dest: card_1_singletonE)
       (metis card.empty card_Diff_singleton diff_self_eq_0 finite_waiting waiting_insert card_gt_0_iff Suc_pred One_nat_def empty_iff)
  have other: "waiting graph (insert node P) v = waiting graph P v" if "v \<notin> set targets" for v
    using that succ by (auto simp: waiting_insert waiting_def)
  have ready': "set ready' = {v \<in> nodes graph - insert node P. waiting graph (insert node P) v = {}}"
  proof (rule set_eqI)
    fix v
    show "v \<in> set ready' \<longleftrightarrow> v \<in> {v \<in> nodes graph - insert node P. waiting graph (insert node P) v = {}}"
    proof (cases "v \<in> set targets")
      case True
      then have v: "v \<in> nodes graph" "v \<notin> P" "v \<noteq> node" "waiting graph P v \<noteq> {}"
        using targets(2) out loop mem by blast+
      have "v \<in> set ready' \<longleftrightarrow> card (waiting graph P v) = 1"
        unfolding r(5) ready using True v deg[OF v(1)] by simp
      with one[OF True] v show ?thesis by simp
    next
      case False
      then show ?thesis unfolding r(5) ready using other[OF False] by auto
    qed
  qed
  have finP: "finite P" "P \<subseteq> nodes graph" "visited = card P" "map fst indegree = map fst graph"
    using invar finite_subset[OF _ finite_nodes] by (auto simp: count_inv_def)
  have card: "card (insert node P) = Suc (card P)" using node(2) finP(1) by simp
  have deg': "map_of indegree' v = Some (card (waiting graph (insert node P) v))" if "v \<in> nodes graph" for v
    using r(3) deg[OF that] card_ins[of v] by simp
  have rank_lt: "\<And>v. v \<in> P \<Longrightarrow> rank v < card P" using invar unfolding count_inv_def by blast
  have closed': "u \<in> insert node P \<and> (rank(node := card P)) u < (rank(node := card P)) v"
    if e: "(u, v) \<in> edges graph" and v: "v \<in> insert node P" for u v
  proof (cases "v = node")
    case True
    with e ok have u: "u \<in> nodes graph" using edges_nodes by blast
    have "u \<in> P"
    proof (rule ccontr)
      assume "u \<notin> P"
      with u e True have "u \<in> waiting graph P node" by (simp add: waiting_def)
      with node(3) show False by simp
    qed
    with True node(2) rank_lt[of u] show ?thesis by (auto simp: fun_upd_def)
  next
    case False
    with v closed[OF e] node(2) show ?thesis by auto
  qed
  have rank': "\<forall>v \<in> insert node P. (rank(node := card P)) v < card (insert node P)"
    using rank_lt card by (auto simp: less_Suc_eq)
  have "count_inv graph (insert node P) (rank(node := card P)) indegree' ready' (Suc visited)"
    unfolding count_inv_def
  proof (intro conjI)
    show "insert node P \<subseteq> nodes graph" using finP node(1) by blast
    show "Suc visited = card (insert node P)" using finP card by simp
    show "map fst indegree' = map fst graph" using finP r(2) by simp
  qed (use r(4) deg' ready' closed' rank' in blast)+
  with t r(1) node show ?thesis by blast
qed

text \<open>The loop visits a set of nodes that no edge enters from outside and where none is ready.\<close>

lemma acyclic_loop_correct:
  assumes "graph_ok graph" and "length graph < 2 ^ 64" and "count_inv graph P rank indegree ready visited"
  shows "\<exists>P' rank' indegree'. acyclic_loop graph indegree ready visited = Inr (card P')
           \<and> count_inv graph P' rank' indegree' [] (card P')"
  using assms
proof (induction graph indegree ready visited arbitrary: P rank rule: acyclic_loop.induct)
  case (1 graph indegree visited)
  then have "visited = card P" by (simp add: count_inv_def)
  with 1 show ?case by (intro exI[of _ P] exI[of _ rank] exI[of _ indegree]) simp
next
  case (2 graph indegree node ready visited)
  from count_inv_step[OF 2(2,4)] obtain targets indegree' ready' where
    t: "map_of graph node = Some targets"
    and r: "rfold release_target targets (indegree, ready) = Inr (indegree', ready')"
    and invar: "count_inv graph (insert node P) (rank(node := card P)) indegree' ready' (Suc visited)"
    by blast
  from invar have "Suc visited = card (insert node P)" "insert node P \<subseteq> nodes graph"
    by (simp_all add: count_inv_def)
  then have "Suc visited \<le> length graph"
    using card_mono[of "nodes graph" "insert node P"] card_nodes[OF 2(2)] by simp
  with 2(3) have c: "checked_add 64 visited 1 = Some (Suc visited)" by (simp add: checked_add_def)
  have step: "acyclic_loop graph indegree (node # ready) visited = acyclic_loop graph indegree' ready' (Suc visited)"
    by (simp add: t r c del: One_nat_def)
  show ?case unfolding step
    by (rule 2(1)) (use t r c 2(2,3) invar in \<open>simp_all del: One_nat_def\<close>)
qed

lemma count_list_distinct: "distinct xs \<Longrightarrow> count_list xs v = (if v \<in> set xs then 1 else 0)"
  by (induction xs) auto

lemma count_list_concat:
  "(\<And>ts. ts \<in> set tss \<Longrightarrow> distinct ts) \<Longrightarrow>
   count_list (concat tss) v = length (filter (\<lambda>ts. v \<in> set ts) tss)"
  by (induction tss) (auto simp: count_list_distinct)

lemma rfold_rfold: "rfold (rfold f) xss s = rfold f (concat xss) s"
proof (induction xss arbitrary: s)
  case (Cons xs xss)
  then show ?case by (cases "rfold f xs s") (simp_all add: rfold_append)
qed simp

lemma distinct_filter_fst: "distinct (map fst xs) \<Longrightarrow> distinct (map fst (filter P xs))"
  by (induction xs) auto

lemma length_concat_bound:
  assumes ok: "graph_ok graph" and len: "length graph \<le> m"
  shows "length (concat (bm_values graph)) \<le> m * m"
proof -
  have each: "length ts \<le> m" if "ts \<in> set (bm_values graph)" for ts
  proof -
    from that ok have "bs_ok ts" "set ts \<subseteq> nodes graph" by (fastforce simp: graph_ok_def bm_values_def)+
    then have "length ts \<le> card (nodes graph)" by (simp add: length_bs card_mono)
    with len card_nodes[OF ok] show ?thesis by simp
  qed
  have "length (concat tss) \<le> length tss * m" if "\<forall>ts \<in> set tss. length ts \<le> m" for tss :: "'a list list"
    using that by (induction tss) auto
  from this[of "bm_values graph"] each have "length (concat (bm_values graph)) \<le> length graph * m"
    by (simp add: bm_values_def)
  with len show ?thesis by (meson le_trans mult_le_mono1)
qed

text \<open>The nodes of degree 0 start the loop.\<close>

lemma ready_start:
  assumes ok: "graph_ok graph" and keys: "map fst indegree = map fst graph"
    and deg: "\<And>v. v \<in> nodes graph \<Longrightarrow> map_of indegree v = Some (card (waiting graph {} v))"
  shows "set (map fst (filter (\<lambda>(_, degree). degree = 0) indegree)) = {v \<in> nodes graph. waiting graph {} v = {}}"
proof -
  have "bm_ok indegree" using ok keys by (simp add: bm_ok_def graph_ok_def)
  then have "set (map fst (filter (\<lambda>(_, degree). degree = 0) indegree)) = {v. map_of indegree v = Some 0}"
    by (force simp: map_of_eq_iff_mem)
  also have "\<dots> = {v \<in> nodes graph. waiting graph {} v = {}}"
  proof -
    have "v \<in> nodes graph" if "map_of indegree v = Some 0" for v
      using domI[of "map_of indegree", OF that] keys
      by (metis dom_map_of_conv_image_fst nodes_def set_map)
    with deg show ?thesis by force
  qed
  finally show ?thesis .
qed

text \<open>Nothing ready: either all nodes are visited, or every unvisited node has an unvisited predecessor.\<close>

lemma all_visited_iff_acyclic:
  assumes ok: "graph_ok graph" and fin: "count_inv graph P rank indegree [] (card P)"
  shows "card P = length graph \<longleftrightarrow> acyclic (edges graph)"
proof
  assume "card P = length graph"
  with fin card_nodes[OF ok] have "P = nodes graph"
    by (metis card_subset_eq count_inv_def finite_nodes)
  with fin ok have "edges graph \<subseteq> measure rank"
    by (auto simp: count_inv_def dest: edges_nodes)
  then show "acyclic (edges graph)" by (meson acyclic_subset wf_acyclic wf_measure)
next
  assume "acyclic (edges graph)"
  with finite_edges[OF ok] have wf: "wf (edges graph)" by (rule finite_acyclic_wf)
  have "nodes graph - P = {}"
  proof (rule ccontr)
    assume "nodes graph - P \<noteq> {}"
    then obtain x where x: "x \<in> nodes graph - P" by blast
    from wfE_min[OF wf x] obtain z where z: "z \<in> nodes graph - P"
      and min: "\<And>y. (y, z) \<in> edges graph \<Longrightarrow> y \<notin> nodes graph - P" by blast
    have "waiting graph P z = {}" using min by (auto simp: waiting_def)
    with z fin show False by (auto simp: count_inv_def)
  qed
  moreover have "P \<subseteq> nodes graph" using fin by (simp add: count_inv_def)
  ultimately have "P = nodes graph" by blast
  then show "card P = length graph" using card_nodes[OF ok] by simp
qed

text \<open>The edge count is the number of edges.\<close>

lemma edge_fold_eq:
  "rfold (\<lambda>targets total. ok_or (checked_add 64 total (length targets)) e) tss n = Inr m \<Longrightarrow>
   m = n + length (concat tss)"
proof (induction tss arbitrary: n)
  case (Cons ts tss)
  then obtain k where k: "k = n + length ts"
    and r: "rfold (\<lambda>targets total. ok_or (checked_add 64 total (length targets)) e) tss k = Inr m" by auto
  from Cons.IH[OF r] k show ?case by simp
qed simp

lemma edge_fold_total:
  "n + length (concat tss) < 2 ^ 64 \<Longrightarrow>
   rfold (\<lambda>targets total. ok_or (checked_add 64 total (length targets)) e) tss n
     = Inr (n + length (concat tss))"
proof (induction tss arbitrary: n)
  case (Cons ts tss)
  then have "checked_add 64 n (length ts) = Some (n + length ts)" by (simp add: checked_add_def)
  with Cons show ?case by (simp add: add.assoc)
qed simp

lemma dependency_edge_count_eq:
  "dependency_edge_count graph = Inr m \<Longrightarrow> m = length (concat (bm_values graph))"
  unfolding dependency_edge_count_def by (drule edge_fold_eq) simp

text \<open>After the counting pass each degree is the number of predecessors.\<close>

lemma count_edges:
  assumes ok: "graph_ok graph"
  shows "count_list (concat (bm_values graph)) v = card (waiting graph {} v)"
proof -
  have sorted: "\<And>u ts. (u, ts) \<in> set graph \<Longrightarrow> bs_ok ts" using ok by (auto simp: graph_ok_def)
  have d: "distinct (map fst graph)" using ok by (auto simp: graph_ok_def bm_ok_distinct)
  have "count_list (concat (bm_values graph)) v
      = length (filter (\<lambda>ts. v \<in> set ts) (bm_values graph))"
    using sorted by (intro count_list_concat) (auto simp: bm_values_def bs_ok_distinct)
  also have "\<dots> = length (filter (\<lambda>(u, ts). v \<in> set ts) graph)"
    by (simp add: bm_values_def filter_map o_def case_prod_unfold)
  also have "\<dots> = card (set (map fst (filter (\<lambda>(u, ts). v \<in> set ts) graph)))"
    using distinct_card[OF distinct_filter_fst[OF d]] by (metis length_map)
  also have "set (map fst (filter (\<lambda>(u, ts). v \<in> set ts) graph)) = waiting graph {} v"
    using ok by (force simp: waiting_def nodes_def edges_def graph_ok_def map_of_eq_iff_mem dom_def image_iff)
  finally show ?thesis .
qed

lemma dependency_graph_is_acyclic_correct:
  assumes ok: "graph_ok graph" and len: "length graph \<le> max_nodes" and max: "max_nodes < 2 ^ 32"
  shows "dependency_graph_is_acyclic graph max_nodes = Inr (acyclic (edges graph))"
proof -
  let ?zero = "map (\<lambda>(node, _). (node, 0::nat)) graph" and ?ts = "concat (bm_values graph)"
  have zero: "map_of ?zero v = (if v \<in> nodes graph then Some 0 else None)" for v
    by (induction graph) (auto simp: nodes_def)
  have sub: "set ?ts \<subseteq> nodes graph" using ok by (force simp: graph_ok_def bm_values_def)
  have "\<exists>indegree. rfold count_target ?ts ?zero = Inr indegree"
  proof (rule count_targets_total)
    show "set ?ts \<subseteq> dom (map_of ?zero)" using sub zero by (auto simp: dom_def)
    have "max_nodes * max_nodes < 2 ^ 32 * 2 ^ 32" using max by (intro mult_strict_mono) simp_all
    then have "length ?ts < 2 ^ 64" using length_concat_bound[OF ok len] by simp
    then show "d + length ?ts < 2 ^ 64" if "map_of ?zero v = Some d" for v d
      using that zero[of v] by (simp split: if_splits)
  qed
  then obtain indegree where i: "rfold count_target ?ts ?zero = Inr indegree" by blast
  have deg: "map_of indegree v = Some (card (waiting graph {} v))" if "v \<in> nodes graph" for v
    using count_targets[OF i, of v] zero[of v] that count_edges[OF ok, of v] by simp
  have keys: "map fst indegree = map fst graph"
    using count_targets[OF i] by (simp add: case_prod_beta o_def)
  let ?ready = "bs_of (map fst (filter (\<lambda>(_, degree). degree = 0) indegree))"
  have "count_inv graph {} (\<lambda>_. 0) indegree ?ready 0"
    unfolding count_inv_def using deg keys ready_start[OF ok keys deg] by auto
  from acyclic_loop_correct[OF ok _ this] len max obtain P rank indegree' where
    loop: "acyclic_loop graph indegree ?ready 0 = Inr (card P)"
    and fin: "count_inv graph P rank indegree' [] (card P)" by fastforce
  have "dependency_graph_is_acyclic graph max_nodes = Inr (card P = length graph)"
    using len i loop by (simp add: dependency_graph_is_acyclic_def rfold_rfold Let_def)
  then show ?thesis using all_visited_iff_acyclic[OF ok fin] by simp
qed

section \<open>Properties\<close>

text \<open>
  C19: the worklist search decides reachability: on every graph within the bound it returns, without
  error, whether a path leads from the start to the target.
\<close>

theorem reachability_search_correct:
  assumes "graph_ok graph" and "length graph \<le> max_nodes"
  shows "dependency_graph_reachable graph start target max_nodes = Inr ((start, target) \<in> (edges graph)\<^sup>*)"
  using assms by (rule reachable_decides)

theorem reachability_search_correct_witness: "((1::nat), 3) \<in> (edges [(1, [2]), (2, [3]), (3, [])])\<^sup>*"
proof -
  have "graph_ok [(1::nat, [2]), (2, [3]), (3, [])]" by (simp add: graph_ok_def bm_ok_Cons bs_ok_Cons nodes_def)
  from reachability_search_correct[OF this, of 3 1 3] show ?thesis
    by (simp add: dependency_graph_reachable_def)
qed

text \<open>
  C20: the topological count decides acyclicity: on every graph within the bound it returns, without
  error, whether the graph has no cycle.
\<close>

theorem acyclicity_check_correct:
  assumes "graph_ok graph" and "length graph \<le> max_nodes" and "max_nodes < 2 ^ 32"
  shows "dependency_graph_is_acyclic graph max_nodes = Inr (acyclic (edges graph))"
  using assms by (rule dependency_graph_is_acyclic_correct)

theorem acyclicity_check_correct_witness: "\<not> acyclic (edges [(1::nat, [2]), (2, [1])])"
proof -
  have "graph_ok [(1::nat, [2]), (2, [1])]" by (simp add: graph_ok_def bm_ok_Cons bs_ok_Cons nodes_def)
  from acyclicity_check_correct[OF this, of 2] show ?thesis
    by (simp add: dependency_graph_is_acyclic_def count_target_def bm_values_def bs_of_def checked_add_def)
qed

end
