(* ===== verification/Knowledge_State.thy ===== *)
theory Knowledge_State
  imports Knowledge_Assessment Knowledge_Graph
begin

text \<open>
  The sealed knowledge state of \<open>src/knowledge/knowledge_engine.rs\<close>: \<open>validate_contract\<close>,
  \<open>initialize\<close> and \<open>validate_state\<close> with all their checks in the order of the code, and what an
  accepted state satisfies.
\<close>

section \<open>Checks shared by the contract and the state\<close>

text \<open>
  The loop over the keys of a prediction: every hypothesis is known and all are of one family.
  \<open>family_of\<close> looks a hypothesis up.
\<close>

fun prediction_family ::
  "(string \<Rightarrow> string option) \<Rightarrow> brain_error \<Rightarrow> brain_error \<Rightarrow> string list \<Rightarrow> string option
   \<Rightarrow> string option res" where
  "prediction_family family_of missing crosses [] family_id = Inr family_id"
| "prediction_family family_of missing crosses (h # hs) family_id =
     rbind (ok_or (family_of h) missing) (\<lambda>f.
     case family_id of
       Some expected_family \<Rightarrow>
         if expected_family \<noteq> f then Inl crosses
         else prediction_family family_of missing crosses hs family_id
     | None \<Rightarrow> prediction_family family_of missing crosses hs (Some f))"

lemma prediction_family_Inr:
  "prediction_family family_of missing crosses hs acc = Inr (Some f) \<Longrightarrow>
     (\<forall>h \<in> set hs. family_of h = Some f) \<and> (acc = None \<or> acc = Some f)"
proof (induction hs arbitrary: acc)
  case (Cons h hs)
  then obtain x where x: "family_of h = Some x" by auto
  show ?case
  proof (cases acc)
    case None
    with Cons.prems x have "prediction_family family_of missing crosses hs (Some x) = Inr (Some f)" by simp
    from Cons.IH[OF this] None x show ?thesis by simp
  next
    case (Some e)
    with Cons.prems x have "e = x" "prediction_family family_of missing crosses hs (Some x) = Inr (Some f)"
      by (auto split: if_splits)
    from Cons.IH[OF this(2)] this(1) Some x show ?thesis by simp
  qed
qed simp

section \<open>The contract\<close>

fun is_profiled :: "knowledge_domain \<Rightarrow> bool" where
  "is_profiled (Profiled _) = True"
| "is_profiled _ = False"

fun initial_depth_nonzero :: "cognitive_plan \<Rightarrow> bool" where
  "initial_depth_nonzero (ExpandDependencyClosure _ depth _) = (depth \<noteq> 0)"
| "initial_depth_nonzero _ = False"

definition contract_claims ::
  "knowledge_claim_draft list \<Rightarrow> ((string, knowledge_claim_draft) bmap \<times> schema) res" where
  "contract_claims drafts = rfold (\<lambda>claim (claims, schema).
     rbind (reject (map_of claims (cd_claim_id claim) \<noteq> None) (Invalid ''knowledge_claim_duplicate'')) (\<lambda>_.
     rbind (record_predicate_type (cd_predicate claim) schema) (\<lambda>schema.
     Inr (bm_insert (cd_claim_id claim) claim claims, schema)))) drafts ([], [])"

type_synonym draft_index = "string bset \<times> schema \<times> (string, knowledge_obligation_draft list) bmap"

definition contract_obligation ::
  "externals \<Rightarrow> knowledge_budget \<Rightarrow> (string, knowledge_claim_draft) bmap \<Rightarrow> knowledge_obligation_draft
   \<Rightarrow> draft_index \<Rightarrow> draft_index res" where
  "contract_obligation X budget claims ob = (\<lambda>(ids, schema, by_claim).
     rbind (reject (List.member ids (od_obligation_id ob)) (Invalid ''knowledge_obligation_duplicate'')) (\<lambda>_.
     rbind (ok_or (map_of claims (od_claim_id ob)) (Invalid ''knowledge_obligation_claim_missing'')) (\<lambda>claim.
     rbind (reject (\<not> is_profiled (cd_domain claim) \<and> cd_domain claim \<noteq> plan_domain (od_plan ob))
              (Invalid ''knowledge_obligation_domain_method_mismatch'')) (\<lambda>_.
     rbind (validate_bounds budget (od_plan ob)) (\<lambda>_.
     rbind (validate_criterion_plan_binding X (od_criterion ob) (od_plan ob)) (\<lambda>_.
     rbind (record_predicate_type (criterion_predicate (od_criterion ob)) schema) (\<lambda>schema.
     rbind (rfold record_predicate_type (plan_predicates (od_plan ob)) schema) (\<lambda>schema.
     rbind (reject (initial_depth_nonzero (od_plan ob)) (Invalid ''initial_dependency_root_depth_nonzero'')) (\<lambda>_.
     Inr (bs_insert (od_obligation_id ob) ids, schema, bm_push (od_claim_id ob) ob by_claim))))))))))"

definition contract_claims_covered ::
  "knowledge_claim_draft list \<Rightarrow> (string, knowledge_obligation_draft list) bmap \<Rightarrow> unit res" where
  "contract_claims_covered drafts by_claim = rfor (\<lambda>claim.
     rbind (ok_or (map_of by_claim (cd_claim_id claim)) (Invalid ''knowledge_claim_without_obligation'')) (\<lambda>obs.
     reject (\<not> list_ex (\<lambda>ob. criterion_predicate (od_criterion ob) = cd_predicate claim) obs)
       (Invalid ''knowledge_claim_without_direct_criterion''))) drafts"

type_synonym hypothesis_index =
  "(string, knowledge_hypothesis_draft) bmap \<times> (string, string bset) bmap \<times> schema"

definition contract_hypothesis ::
  "knowledge_hypothesis_draft \<Rightarrow> hypothesis_index \<Rightarrow> hypothesis_index res" where
  "contract_hypothesis h = (\<lambda>(hypotheses, families, schema).
     rbind (reject (map_of hypotheses (hd_hypothesis_id h) \<noteq> None)
              (Invalid ''knowledge_hypothesis_duplicate'')) (\<lambda>_.
     rbind (record_predicate_type (hd_definition h) schema) (\<lambda>schema.
     Inr (bm_insert (hd_hypothesis_id h) h hypotheses,
          bm_insert (hd_family_id h)
            (bs_insert (hd_hypothesis_id h)
               (case map_of families (hd_family_id h) of None \<Rightarrow> [] | Some ids \<Rightarrow> ids)) families,
          schema))))"

definition contract_prediction ::
  "(string, knowledge_hypothesis_draft) bmap \<Rightarrow> (string, string bset) bmap \<Rightarrow> knowledge_obligation_draft
   \<Rightarrow> string bset \<Rightarrow> string bset res" where
  "contract_prediction hypotheses families ob predicted =
     (case plan_predictions (od_plan ob) of
        None \<Rightarrow> Inr predicted
      | Some predictions \<Rightarrow>
          rbind (prediction_family (\<lambda>h. map_option hd_family_id (map_of hypotheses h))
                   (Invalid ''prediction_hypothesis_missing'')
                   (Invalid ''prediction_crosses_hypothesis_families'') (bm_keys predictions) None) (\<lambda>family_id.
          rbind (ok_or family_id (Invalid ''prediction_family_missing'')) (\<lambda>family_id.
          rbind (ok_or (map_of families family_id) (Panic ''families[family_id]'')) (\<lambda>family.
          rbind (reject (length predictions \<noteq> length family
                   \<or> \<not> list_all (\<lambda>h. List.member family h) (bm_keys predictions))
                 (Invalid ''prediction_does_not_cover_rival_family'')) (\<lambda>_.
          Inr (bs_insert family_id predicted))))))"

definition validate_contract :: "externals \<Rightarrow> knowledge_contract_draft \<Rightarrow> unit res" where
  "validate_contract X draft =
     rbind (budget_validate (draft_budget draft)) (\<lambda>_.
     rbind (reject (draft_claims draft = [] \<or> draft_obligations draft = []
              \<or> HARD_MAX_CLAIMS < length (draft_claims draft)
              \<or> HARD_MAX_OBLIGATIONS < length (draft_obligations draft)
              \<or> HARD_MAX_HYPOTHESES < length (draft_hypotheses draft))
            (Invalid ''knowledge_contract_cardinality_invalid'')) (\<lambda>_.
     rbind (contract_claims (draft_claims draft)) (\<lambda>(claims, schema).
     rbind (rfold (contract_obligation X (draft_budget draft) claims) (draft_obligations draft)
              ([], schema, [])) (\<lambda>(_, schema, by_claim).
     rbind (contract_claims_covered (draft_claims draft) by_claim) (\<lambda>_.
     rbind (rfold contract_hypothesis (draft_hypotheses draft) ([], [], schema)) (\<lambda>(hypotheses, families, _).
     rbind (reject (list_ex (\<lambda>family. length family < 2) (bm_values families))
              (Invalid ''hypothesis_family_without_rivals'')) (\<lambda>_.
     rbind (rfold (contract_prediction hypotheses families) (draft_obligations draft) []) (\<lambda>predicted.
     reject (length predicted \<noteq> length families)
       (Invalid ''hypothesis_family_without_precommitted_predictions'')))))))))"

section \<open>Initialization\<close>

definition authenticate_bundle ::
  "externals \<Rightarrow> knowledge_engine \<Rightarrow> private_file_reference \<Rightarrow> store \<Rightarrow> digest res" where
  "authenticate_bundle X E reference fs =
     rbind (bundle_authority X (private_root E) reference fs) (\<lambda>d.
     rbind (reject (is_draft d) (Integrity ''knowledge_bundle_unsealed'')) (\<lambda>_. Inr d))"

definition initialize_claim ::
  "knowledge_claim_draft \<Rightarrow> (string, knowledge_claim) bmap \<Rightarrow> (string, knowledge_claim) bmap res" where
  "initialize_claim claim claims =
     rbind (reject (map_of claims (cd_claim_id claim) \<noteq> None) (Invalid ''knowledge_claim_duplicate'')) (\<lambda>_.
     Inr (bm_insert (cd_claim_id claim)
       \<lparr>claim_id = cd_claim_id claim, claim_domain = cd_domain claim, claim_predicate = cd_predicate claim,
        claim_assessment = Unresolved\<rparr> claims))"

type_synonym obligation_index =
  "(string, knowledge_obligation) bmap \<times> (string, string option) bmap \<times> (string, nat) bmap
   \<times> (string, string bset) bmap"

definition index_dependency_root ::
  "cognitive_plan \<Rightarrow> (string, string option) bmap \<times> (string, nat) bmap \<times> (string, string bset) bmap
   \<Rightarrow> (string, string option) bmap \<times> (string, nat) bmap \<times> (string, string bset) bmap" where
  "index_dependency_root plan = (\<lambda>(parents, depths, graph).
     case plan of
       ExpandDependencyClosure root depth _ \<Rightarrow>
         (bm_insert root None parents,
          if map_of parents root = None then bm_insert root depth depths else depths,
          if map_of parents root = None then bm_insert root [] graph else graph)
     | _ \<Rightarrow> (parents, depths, graph))"

definition initialize_obligation ::
  "(string, knowledge_claim) bmap \<Rightarrow> knowledge_obligation_draft \<Rightarrow> obligation_index \<Rightarrow> obligation_index res" where
  "initialize_obligation claims ob = (\<lambda>(obligations, index).
     rbind (ok_or (map_of claims (od_claim_id ob)) (Invalid ''knowledge_obligation_claim_missing'')) (\<lambda>claim.
     let index' = index_dependency_root (od_plan ob) index in
     rbind (reject (map_of obligations (od_obligation_id ob) \<noteq> None)
              (Invalid ''knowledge_obligation_duplicate'')) (\<lambda>_.
     Inr (bm_insert (od_obligation_id ob)
       \<lparr>obligation_id = od_obligation_id ob, obligation_claim_id = od_claim_id ob,
        obligation_domain = claim_domain claim, obligation_criterion = od_criterion ob,
        obligation_plan = od_plan ob, obligation_state = Open 0 []\<rparr> obligations, index'))))"

definition initialize_hypothesis ::
  "knowledge_hypothesis_draft \<Rightarrow> (string, knowledge_hypothesis) bmap \<Rightarrow> (string, knowledge_hypothesis) bmap res" where
  "initialize_hypothesis h hypotheses =
     rbind (reject (map_of hypotheses (hd_hypothesis_id h) \<noteq> None)
              (Invalid ''knowledge_hypothesis_duplicate'')) (\<lambda>_.
     Inr (bm_insert (hd_hypothesis_id h)
       \<lparr>hypothesis_id = hd_hypothesis_id h, hypothesis_family_id = hd_family_id h,
        hypothesis_definition = hd_definition h, hypothesis_assessment = Viable\<rparr> hypotheses))"

section \<open>Validation of a state\<close>

definition validate_state_header :: "knowledge_engine \<Rightarrow> knowledge_state \<Rightarrow> unit res" where
  "validate_state_header E s =
     reject (ks_schema s \<noteq> SchemaV1 \<or> ks_authority_root s \<noteq> authority_root E
             \<or> ks_policy_digest s \<noteq> kp_digest (policy E))
       (Integrity ''knowledge_state_authority_or_policy_mismatch'')"

text \<open>The chain of \<open>||\<close> stops at the first true operand, the edge count last may fail.\<close>

definition validate_state_bounds :: "knowledge_state \<Rightarrow> unit res" where
  "validate_state_bounds s =
     rbind (budget_validate (ks_budget s)) (\<lambda>_.
     rbind (reject (ks_claims s = [] \<or> ks_obligations s = []
              \<or> HARD_MAX_CLAIMS < length (ks_claims s)
              \<or> HARD_MAX_OBLIGATIONS < length (ks_obligations s)
              \<or> HARD_MAX_HYPOTHESES < length (ks_hypotheses s)
              \<or> max_revision (ks_budget s) < ks_revision s
              \<or> max_actions (ks_budget s) < used_actions (ks_usage s)
              \<or> max_total_cost (ks_budget s) < used_total_cost (ks_usage s)
              \<or> max_evidence_records (ks_budget s) < used_evidence_records (ks_usage s)
              \<or> max_dependency_nodes (ks_budget s) < length (ks_dependency_parents s))
            (Invalid ''knowledge_state_bounds_invalid'')) (\<lambda>_.
     rbind (dependency_edge_count (ks_dependency_graph s)) (\<lambda>edge_count.
     reject (max_dependency_edges (ks_budget s) < edge_count) (Invalid ''knowledge_state_bounds_invalid''))))"

definition validate_state_accounting :: "knowledge_state \<Rightarrow> unit res" where
  "validate_state_accounting s =
     reject ((ks_revision s = 0) \<noteq> (ks_parent_digest s = None)
             \<or> (ks_parent_digest s = None) \<noteq> (ks_parent_reference s = None)
             \<or> (ks_revision s = 0) \<noteq> (ks_last_action_receipt_reference s = None)
             \<or> ks_revision s \<noteq> used_actions (ks_usage s)
             \<or> length (ks_applied_receipts s) \<noteq> used_actions (ks_usage s)
             \<or> length (ks_used_evidence_artifacts s) \<noteq> used_evidence_records (ks_usage s))
       (Integrity ''knowledge_state_revision_accounting_mismatch'')"

definition validate_state_origin :: "knowledge_state \<Rightarrow> unit res" where
  "validate_state_origin s =
     reject (ks_revision s = 0
             \<and> (used_total_cost (ks_usage s) \<noteq> 0 \<or> used_evidence_records (ks_usage s) \<noteq> 0
                \<or> ks_applied_receipts s \<noteq> [] \<or> ks_used_evidence_artifacts s \<noteq> []
                \<or> ks_bounded_reason s \<noteq> None
                \<or> list_ex (\<lambda>c. claim_assessment c \<noteq> Unresolved) (bm_values (ks_claims s))
                \<or> list_ex (\<lambda>ob. obligation_state ob \<noteq> Open 0 []) (bm_values (ks_obligations s))
                \<or> list_ex (\<lambda>h. hypothesis_assessment h \<noteq> Viable) (bm_values (ks_hypotheses s))
                \<or> list_ex (\<lambda>p. p \<noteq> None) (bm_values (ks_dependency_parents s))
                \<or> list_ex (\<lambda>d. d \<noteq> 0) (bm_values (ks_dependency_depths s))
                \<or> list_ex (\<lambda>ts. ts \<noteq> []) (bm_values (ks_dependency_graph s))))
       (Integrity ''knowledge_state_origin_not_canonical'')"

definition validate_state_parent ::
  "externals \<Rightarrow> knowledge_engine \<Rightarrow> knowledge_state \<Rightarrow> store \<Rightarrow> unit res" where
  "validate_state_parent X E s fs =
     (case (ks_parent_digest s, ks_parent_reference s) of
        (Some parent_digest, Some parent_reference) \<Rightarrow>
          rbind (read_verified_bounded (sha X) (private_root E) parent_reference MAX_STATE_BYTES fs) (\<lambda>parent_bytes.
          rbind (ok_or (from_slice_state X parent_bytes) Json) (\<lambda>parent.
          rbind (reject (ref_path parent_reference \<noteq> semantic_path E ''states'' parent_digest
                   \<or> ks_manifest_digest parent \<noteq> parent_digest
                   \<or> checked_add 64 (ks_revision parent) 1 \<noteq> Some (ks_revision s)
                   \<or> ks_inquiry_id parent \<noteq> ks_inquiry_id s
                   \<or> ks_capability_bundle parent \<noteq> ks_capability_bundle s
                   \<or> calculate_state_digest X parent \<noteq> parent_digest)
                 (Integrity ''knowledge_state_parent_invalid'')) (\<lambda>_.
          let new_receipts = filter (\<lambda>r. \<not> List.member (ks_applied_receipts parent) r) (ks_applied_receipts s) in
          rbind (ok_or (ks_last_action_receipt_reference s)
                   (Integrity ''knowledge_state_last_receipt_missing'')) (\<lambda>last_reference.
          rbind (read_verified_bounded (sha X) (private_root E) last_reference MAX_ACTION_RECEIPT_BYTES fs) (\<lambda>receipt_bytes.
          rbind (ok_or (from_slice_receipt X receipt_bytes) Json) (\<lambda>receipt.
          reject (length new_receipts \<noteq> 1
                  \<or> new_receipts ! 0 \<noteq> rc_manifest_digest receipt
                  \<or> ref_path last_reference \<noteq> semantic_path E ''action_receipts'' (rc_manifest_digest receipt)
                  \<or> rc_parent_state receipt \<noteq> parent_digest
                  \<or> calculate_receipt_digest X receipt \<noteq> rc_manifest_digest receipt
                  \<or> used_total_cost (ks_usage s)
                      \<noteq> saturating_add 64 (used_total_cost (ks_usage parent)) (rc_charged_cost receipt)
                  \<or> used_evidence_records (ks_usage s)
                      \<noteq> saturating_add 64 (used_evidence_records (ks_usage parent)) (length (rc_evidence receipt)))
            (Integrity ''knowledge_state_last_receipt_invalid'')))))))
      | _ \<Rightarrow> Inr ())"

type_synonym state_index = "schema \<times> (string, knowledge_obligation list) bmap"

definition validate_state_claim :: "string \<times> knowledge_claim \<Rightarrow> schema \<Rightarrow> schema res" where
  "validate_state_claim = (\<lambda>(cid, claim) schema.
     rbind (reject (cid \<noteq> claim_id claim) (Integrity ''knowledge_claim_map_key_mismatch'')) (\<lambda>_.
     record_predicate_type (claim_predicate claim) schema))"

definition dependency_plan_indexed :: "knowledge_state \<Rightarrow> cognitive_plan \<Rightarrow> bool" where
  "dependency_plan_indexed s plan =
     (case plan of
        ExpandDependencyClosure root depth _ \<Rightarrow>
          map_of (ks_dependency_depths s) root = Some depth \<and> map_of (ks_dependency_parents s) root \<noteq> None
      | _ \<Rightarrow> True)"

definition validate_state_obligation ::
  "externals \<Rightarrow> knowledge_state \<Rightarrow> string \<times> knowledge_obligation \<Rightarrow> state_index \<Rightarrow> state_index res" where
  "validate_state_obligation X s = (\<lambda>(oid, ob) (schema, by_claim).
     rbind (reject (oid \<noteq> obligation_id ob) (Integrity ''knowledge_obligation_map_key_mismatch'')) (\<lambda>_.
     rbind (ok_or (map_of (ks_claims s) (obligation_claim_id ob))
              (Integrity ''knowledge_obligation_claim_missing'')) (\<lambda>claim.
     rbind (reject (claim_domain claim \<noteq> obligation_domain ob
              \<or> (\<not> is_profiled (claim_domain claim) \<and> claim_domain claim \<noteq> plan_domain (obligation_plan ob)))
            (Integrity ''knowledge_obligation_domain_mismatch'')) (\<lambda>_.
     rbind (validate_bounds (ks_budget s) (obligation_plan ob)) (\<lambda>_.
     rbind (validate_criterion_plan_binding X (obligation_criterion ob) (obligation_plan ob)) (\<lambda>_.
     rbind (record_predicate_type (criterion_predicate (obligation_criterion ob)) schema) (\<lambda>schema.
     rbind (rfold record_predicate_type (plan_predicates (obligation_plan ob)) schema) (\<lambda>schema.
     rbind (reject (\<not> dependency_plan_indexed s (obligation_plan ob))
              (Integrity ''knowledge_dependency_plan_not_indexed'')) (\<lambda>_.
     rbind (reject (list_ex (\<lambda>r. \<not> List.member (ks_applied_receipts s) r) (witnesses (obligation_state ob)))
              (Integrity ''knowledge_obligation_unapplied_witness'')) (\<lambda>_.
     Inr (schema, bm_push (obligation_claim_id ob) ob by_claim)))))))))))"

definition validate_state_claim_reduced ::
  "(string, knowledge_obligation list) bmap \<Rightarrow> knowledge_claim \<Rightarrow> unit res" where
  "validate_state_claim_reduced by_claim claim =
     rbind (ok_or (map_of by_claim (claim_id claim)) (Integrity ''knowledge_claim_without_obligation'')) (\<lambda>obs.
     rbind (reject (\<not> list_ex (\<lambda>ob. criterion_predicate (obligation_criterion ob) = claim_predicate claim) obs)
              (Integrity ''knowledge_claim_without_direct_criterion'')) (\<lambda>_.
     reject (claim_assessment claim \<noteq> derive_claim_assessment obs)
       (Integrity ''knowledge_claim_assessment_not_reduced'')))"

type_synonym family_index = "(string, knowledge_hypothesis list) bmap"

definition validate_state_hypothesis ::
  "knowledge_state \<Rightarrow> string \<times> knowledge_hypothesis \<Rightarrow> schema \<times> family_index \<Rightarrow> (schema \<times> family_index) res" where
  "validate_state_hypothesis s = (\<lambda>(hid, h) (schema, families).
     rbind (reject (hid \<noteq> hypothesis_id h) (Integrity ''knowledge_hypothesis_map_key_mismatch'')) (\<lambda>_.
     rbind (record_predicate_type (hypothesis_definition h) schema) (\<lambda>schema.
     rbind (reject (list_ex (\<lambda>r. \<not> List.member (ks_applied_receipts s) r)
                     (hypothesis_witnesses (hypothesis_assessment h)))
              (Integrity ''knowledge_hypothesis_unapplied_witness'')) (\<lambda>_.
     Inr (schema, bm_push (hypothesis_family_id h) h families)))))"

definition validate_state_prediction ::
  "knowledge_state \<Rightarrow> family_index \<Rightarrow> knowledge_obligation \<Rightarrow> string bset \<Rightarrow> string bset res" where
  "validate_state_prediction s families ob predicted =
     (case plan_predictions (obligation_plan ob) of
        None \<Rightarrow> Inr predicted
      | Some predictions \<Rightarrow>
          rbind (prediction_family (\<lambda>h. map_option hypothesis_family_id (map_of (ks_hypotheses s) h))
                   (Integrity ''state_prediction_hypothesis_missing'')
                   (Integrity ''state_prediction_crosses_families'') (bm_keys predictions) None) (\<lambda>family_id.
          rbind (ok_or family_id (Integrity ''state_prediction_empty'')) (\<lambda>family_id.
          rbind (ok_or (map_of families family_id) (Integrity ''state_prediction_family_missing'')) (\<lambda>family.
          rbind (reject (length predictions \<noteq> length family
                   \<or> \<not> list_all (\<lambda>h. list_ex (\<lambda>item. hypothesis_id item = h) family) (bm_keys predictions))
                 (Integrity ''state_prediction_family_incomplete'')) (\<lambda>_.
          Inr (bs_insert family_id predicted))))))"

definition validate_dependency_index :: "knowledge_state \<Rightarrow> unit res" where
  "validate_dependency_index s =
     (if length (ks_dependency_parents s) \<noteq> length (ks_dependency_depths s)
         \<or> length (ks_dependency_graph s) \<noteq> length (ks_dependency_depths s)
         \<or> list_ex (\<lambda>node. map_of (ks_dependency_depths s) node = None) (bm_keys (ks_dependency_graph s))
         \<or> list_ex (\<lambda>targets. list_ex (\<lambda>t. map_of (ks_dependency_graph s) t = None) targets)
             (bm_values (ks_dependency_graph s))
         \<or> list_ex (\<lambda>depth. max_dependency_depth (ks_budget s) < depth) (bm_values (ks_dependency_depths s))
      then Inl (Integrity ''knowledge_dependency_index_mismatch'')
      else rbind (dependency_graph_is_acyclic (ks_dependency_graph s) (max_dependency_nodes (ks_budget s))) (\<lambda>ac.
        reject (\<not> ac) (Integrity ''knowledge_dependency_index_mismatch'')))"

definition validate_dependency_parent :: "knowledge_state \<Rightarrow> string \<times> string option \<Rightarrow> unit res" where
  "validate_dependency_parent s = (\<lambda>(node, parent).
     rbind (ok_or (map_of (ks_dependency_depths s) node) (Integrity ''knowledge_dependency_depth_missing'')) (\<lambda>depth.
     case parent of
       None \<Rightarrow> Inr ()
     | Some parent \<Rightarrow>
         rbind (ok_or (map_of (ks_dependency_depths s) parent)
                  (Integrity ''knowledge_dependency_parent_missing'')) (\<lambda>parent_depth.
         rbind (reject (depth \<noteq> saturating_add 16 parent_depth 1)
                  (Integrity ''knowledge_dependency_depth_invalid'')) (\<lambda>_.
         reject (\<not> (case map_of (ks_dependency_graph s) parent of
                       None \<Rightarrow> False | Some targets \<Rightarrow> List.member targets node))
           (Integrity ''knowledge_dependency_parent_edge_missing'')))))"

definition validate_state_contents :: "externals \<Rightarrow> knowledge_state \<Rightarrow> unit res" where
  "validate_state_contents X s =
     rbind (rfold validate_state_claim (ks_claims s) []) (\<lambda>schema.
     rbind (rfold (validate_state_obligation X s) (ks_obligations s) (schema, [])) (\<lambda>(schema, by_claim).
     rbind (rfor (validate_state_claim_reduced by_claim) (bm_values (ks_claims s))) (\<lambda>_.
     rbind (rfold (validate_state_hypothesis s) (ks_hypotheses s) (schema, [])) (\<lambda>(_, families).
     rbind (reject (list_ex (\<lambda>family. length family < 2) (bm_values families))
              (Integrity ''knowledge_hypothesis_family_without_rivals'')) (\<lambda>_.
     rbind (rfold (validate_state_prediction s families) (bm_values (ks_obligations s)) []) (\<lambda>predicted.
     rbind (reject (length predicted \<noteq> length families)
              (Integrity ''state_hypothesis_family_without_predictions'')) (\<lambda>_.
     rbind (validate_dependency_index s) (\<lambda>_.
     rfor (validate_dependency_parent s) (ks_dependency_parents s)))))))))"

definition validate_state :: "externals \<Rightarrow> knowledge_engine \<Rightarrow> knowledge_state \<Rightarrow> store \<Rightarrow> unit res" where
  "validate_state X E s fs =
     rbind (validate_state_header E s) (\<lambda>_.
     rbind (validate_state_bounds s) (\<lambda>_.
     rbind (validate_state_accounting s) (\<lambda>_.
     rbind (validate_state_origin s) (\<lambda>_.
     rbind (validate_state_parent X E s fs) (\<lambda>_.
     rbind (authenticate_bundle X E (ks_capability_bundle_reference s) fs) (\<lambda>bundle.
     rbind (reject (bundle \<noteq> ks_capability_bundle s) (Integrity ''knowledge_state_bundle_mismatch'')) (\<lambda>_.
     rbind (validate_state_contents X s) (\<lambda>_.
     reject (calculate_state_digest X s \<noteq> ks_manifest_digest s)
       (Integrity ''knowledge_state_digest_mismatch'')))))))))"

definition initialize ::
  "externals \<Rightarrow> knowledge_engine \<Rightarrow> string \<Rightarrow> private_file_reference \<Rightarrow> knowledge_contract_draft \<Rightarrow> store
   \<Rightarrow> knowledge_state res" where
  "initialize X E inquiry bundle_reference draft fs =
     rbind (authenticate_bundle X E bundle_reference fs) (\<lambda>bundle.
     rbind (validate_contract X draft) (\<lambda>_.
     rbind (rfold initialize_claim (draft_claims draft) []) (\<lambda>claims.
     rbind (rfold (initialize_obligation claims) (draft_obligations draft) ([], [], [], []))
       (\<lambda>(obligations, parents, depths, graph).
     rbind (rfold initialize_hypothesis (draft_hypotheses draft) []) (\<lambda>hypotheses.
     let state = \<lparr>ks_schema = SchemaV1, ks_authority_root = authority_root E, ks_inquiry_id = inquiry,
           ks_capability_bundle_reference = bundle_reference, ks_capability_bundle = bundle,
           ks_policy_digest = kp_digest (policy E), ks_revision = 0, ks_parent_digest = None,
           ks_parent_reference = None, ks_last_action_receipt_reference = None,
           ks_budget = draft_budget draft,
           ks_usage = \<lparr>used_actions = 0, used_total_cost = 0, used_evidence_records = 0\<rparr>,
           ks_claims = claims, ks_obligations = obligations, ks_hypotheses = hypotheses,
           ks_dependency_parents = parents, ks_dependency_depths = depths, ks_dependency_graph = graph,
           ks_bounded_reason = None, ks_applied_receipts = [], ks_used_evidence_artifacts = [],
           ks_manifest_digest = digest_domain (sha X) STATE_DOMAIN ''unsealed''\<rparr>;
         state = state\<lparr>ks_manifest_digest := calculate_state_digest X state\<rparr> in
     rbind (validate_state X E state fs) (\<lambda>_. Inr state))))))"

section \<open>What an accepted state satisfies\<close>

text \<open>The representation invariant of the containers of a state, which every Rust value has.\<close>

fun plan_containers_ok :: "cognitive_plan \<Rightarrow> bool" where
  "plan_containers_ok (ObserveTrace keys _) \<longleftrightarrow> bs_ok keys"
| "plan_containers_ok (ExecuteScenario _ inputs keys) \<longleftrightarrow> bm_ok inputs \<and> bs_ok keys"
| "plan_containers_ok (CausalIntervention _ _ _ _ predictions) \<longleftrightarrow> bm_ok predictions"
| "plan_containers_ok (SearchCounterexample _ _ predictions) \<longleftrightarrow> bm_ok predictions"
| "plan_containers_ok _ \<longleftrightarrow> True"

lemma plan_containers_ok_predictions:
  "plan_containers_ok p \<Longrightarrow> plan_predictions p = Some ps \<Longrightarrow> bm_ok ps"
  by (cases p) simp_all

definition state_containers_ok :: "knowledge_state \<Rightarrow> bool" where
  "state_containers_ok s \<longleftrightarrow>
     bm_ok (ks_claims s) \<and> bm_ok (ks_obligations s) \<and> bm_ok (ks_hypotheses s)
     \<and> bm_ok (ks_dependency_parents s) \<and> bm_ok (ks_dependency_depths s) \<and> bm_ok (ks_dependency_graph s)
     \<and> (\<forall>ts \<in> set (bm_values (ks_dependency_graph s)). bs_ok ts)
     \<and> (\<forall>ob \<in> set (bm_values (ks_obligations s)).
          plan_containers_ok (obligation_plan ob) \<and> bs_ok (witnesses (obligation_state ob)))
     \<and> bs_ok (ks_applied_receipts s) \<and> bs_ok (ks_used_evidence_artifacts s)"

lemma validate_state_Inr:
  assumes "validate_state X E s fs = Inr u"
  shows "validate_state_header E s = Inr ()" "validate_state_bounds s = Inr ()"
    "validate_state_accounting s = Inr ()" "validate_state_origin s = Inr ()"
    "validate_state_parent X E s fs = Inr ()" "validate_state_contents X s = Inr ()"
    "authenticate_bundle X E (ks_capability_bundle_reference s) fs = Inr (ks_capability_bundle s)"
    "calculate_state_digest X s = ks_manifest_digest s"
  using assms by (auto simp: validate_state_def)

lemma validate_state_obligation_Inr:
  assumes "validate_state_obligation X s (oid, ob) (schema, by_claim) = Inr (schema', by_claim')"
  shows "oid = obligation_id ob" "by_claim' = bm_push (obligation_claim_id ob) ob by_claim"
    "\<exists>claim. map_of (ks_claims s) (obligation_claim_id ob) = Some claim
       \<and> claim_domain claim = obligation_domain ob
       \<and> (is_profiled (claim_domain claim) \<or> claim_domain claim = plan_domain (obligation_plan ob))"
    "validate_bounds (ks_budget s) (obligation_plan ob) = Inr ()"
    "validate_criterion_plan_binding X (obligation_criterion ob) (obligation_plan ob) = Inr ()"
    "dependency_plan_indexed s (obligation_plan ob)"
    "set (witnesses (obligation_state ob)) \<subseteq> set (ks_applied_receipts s)"
    "\<exists>schema1. record_predicate_type (criterion_predicate (obligation_criterion ob)) schema = Inr schema1
       \<and> rfold record_predicate_type (plan_predicates (obligation_plan ob)) schema1 = Inr schema'"
  using assms by (auto simp: validate_state_obligation_def list_ex_iff)

lemma group_by_Nil: "group_by f [] = []"
  by (simp add: group_by_def)

lemma card_dom_bm: "bm_ok m \<Longrightarrow> card (dom (map_of m)) = length m"
  using distinct_card[OF bm_ok_distinct] by (metis dom_map_of_conv_image_fst length_map set_map)

text \<open>What the loop over the obligations establishes for each of them.\<close>

definition obligation_checked :: "externals \<Rightarrow> knowledge_state \<Rightarrow> string \<Rightarrow> knowledge_obligation \<Rightarrow> bool" where
  "obligation_checked X s oid ob \<longleftrightarrow>
     oid = obligation_id ob
     \<and> (\<exists>claim. map_of (ks_claims s) (obligation_claim_id ob) = Some claim
         \<and> claim_domain claim = obligation_domain ob
         \<and> (is_profiled (claim_domain claim) \<or> claim_domain claim = plan_domain (obligation_plan ob)))
     \<and> validate_bounds (ks_budget s) (obligation_plan ob) = Inr ()
     \<and> validate_criterion_plan_binding X (obligation_criterion ob) (obligation_plan ob) = Inr ()
     \<and> dependency_plan_indexed s (obligation_plan ob)
     \<and> set (witnesses (obligation_state ob)) \<subseteq> set (ks_applied_receipts s)"

lemma validate_state_obligation_step:
  assumes "validate_state_obligation X s (oid, ob) (schema, group_by obligation_claim_id obs) = Inr r"
  shows "\<exists>schema'. r = (schema', group_by obligation_claim_id (obs @ [ob])) \<and> obligation_checked X s oid ob
    \<and> (\<forall>q. schema_agrees schema q \<longrightarrow> schema_agrees schema' q)
    \<and> (\<forall>q \<in> set (criterion_predicate (obligation_criterion ob) # plan_predicates (obligation_plan ob)).
         schema_agrees schema' q)"
proof -
  obtain schema' g where r: "r = (schema', g)" by force
  note st = validate_state_obligation_Inr[OF assms[unfolded r]]
  from st(8) obtain schema1 where s1: "record_predicate_type (criterion_predicate (obligation_criterion ob)) schema = Inr schema1"
    and s2: "rfold record_predicate_type (plan_predicates (obligation_plan ob)) schema1 = Inr schema'" by blast
  have "obligation_checked X s oid ob" unfolding obligation_checked_def using st(1,3-7) by blast
  with r st(2) record_predicate_type_Inr[OF s1] rfold_record_predicate_type[OF s2] show ?thesis
    by (simp add: group_by_snoc)
qed

lemma validate_state_obligations:
  assumes "rfold (validate_state_obligation X s) obs (schema, group_by obligation_claim_id prev) = Inr (schema', by_claim)"
  shows "by_claim = group_by obligation_claim_id (prev @ bm_values obs)
    \<and> (\<forall>(oid, ob) \<in> set obs. obligation_checked X s oid ob)
    \<and> (\<forall>q. schema_agrees schema q \<longrightarrow> schema_agrees schema' q)
    \<and> (\<forall>ob \<in> set (bm_values obs). \<forall>q \<in> set (criterion_predicate (obligation_criterion ob) # plan_predicates (obligation_plan ob)).
         schema_agrees schema' q)"
  using assms
proof (induction obs arbitrary: schema prev)
  case (Cons p obs)
  obtain oid ob where p: "p = (oid, ob)" by force
  from Cons.prems p obtain r where r: "validate_state_obligation X s (oid, ob) (schema, group_by obligation_claim_id prev) = Inr r"
    and rest: "rfold (validate_state_obligation X s) obs r = Inr (schema', by_claim)" by auto
  from validate_state_obligation_step[OF r] obtain schema1 where
    1: "r = (schema1, group_by obligation_claim_id (prev @ [ob]))" "obligation_checked X s oid ob"
      "\<forall>q. schema_agrees schema q \<longrightarrow> schema_agrees schema1 q"
      "\<forall>q \<in> set (criterion_predicate (obligation_criterion ob) # plan_predicates (obligation_plan ob)).
         schema_agrees schema1 q" by blast
  note ih = Cons.IH[OF rest[unfolded 1(1)]]
  have b: "bm_values (p # obs) = ob # bm_values obs" using p by (simp add: bm_values_def)
  show ?case
  proof (intro conjI)
    show "by_claim = group_by obligation_claim_id (prev @ bm_values (p # obs))" using ih b by simp
    show "\<forall>(oid, ob) \<in> set (p # obs). obligation_checked X s oid ob" using ih 1(2) p by simp
    show "\<forall>q. schema_agrees schema q \<longrightarrow> schema_agrees schema' q" using ih 1(3) by blast
    show "\<forall>ob \<in> set (bm_values (p # obs)). \<forall>q \<in> set (criterion_predicate (obligation_criterion ob) # plan_predicates (obligation_plan ob)).
         schema_agrees schema' q"
      unfolding b using ih 1(4) by (metis set_ConsD)
  qed
qed (simp add: bm_values_def)

lemma validate_state_claims:
  assumes "rfold validate_state_claim claims schema = Inr schema'"
  shows "(\<forall>(cid, c) \<in> set claims. cid = claim_id c)
    \<and> (\<forall>q. schema_agrees schema q \<longrightarrow> schema_agrees schema' q)
    \<and> (\<forall>c \<in> set (bm_values claims). schema_agrees schema' (claim_predicate c))"
  using assms
proof (induction claims arbitrary: schema)
  case (Cons p claims)
  obtain cid c where p: "p = (cid, c)" by force
  from Cons.prems p obtain s1 where s1: "record_predicate_type (claim_predicate c) schema = Inr s1" "cid = claim_id c"
    and r: "rfold validate_state_claim claims s1 = Inr schema'" by (auto simp: validate_state_claim_def)
  from Cons.IH[OF r] record_predicate_type_Inr[OF s1(1)] s1(2) p show ?case
    by (auto simp: bm_values_def)
qed (simp add: bm_values_def)

lemma validate_state_hypotheses:
  assumes "rfold (validate_state_hypothesis s) hs (schema, group_by hypothesis_family_id prev) = Inr (schema', families)"
  shows "families = group_by hypothesis_family_id (prev @ bm_values hs)
    \<and> (\<forall>(hid, h) \<in> set hs. hid = hypothesis_id h
         \<and> set (hypothesis_witnesses (hypothesis_assessment h)) \<subseteq> set (ks_applied_receipts s))
    \<and> (\<forall>q. schema_agrees schema q \<longrightarrow> schema_agrees schema' q)
    \<and> (\<forall>h \<in> set (bm_values hs). schema_agrees schema' (hypothesis_definition h))"
  using assms
proof (induction hs arbitrary: schema prev)
  case (Cons p hs)
  obtain hid h where p: "p = (hid, h)" by force
  from Cons.prems p obtain s1 where s1: "record_predicate_type (hypothesis_definition h) schema = Inr s1" "hid = hypothesis_id h"
    and w: "set (hypothesis_witnesses (hypothesis_assessment h)) \<subseteq> set (ks_applied_receipts s)"
    and r: "rfold (validate_state_hypothesis s) hs (s1, group_by hypothesis_family_id (prev @ [h])) = Inr (schema', families)"
    by (auto simp: validate_state_hypothesis_def group_by_snoc list_ex_iff)
  from Cons.IH[OF r] record_predicate_type_Inr[OF s1(1)] s1(2) w p show ?case
    by (auto simp: bm_values_def)
qed (simp add: bm_values_def)

text \<open>The predicates of a state: those of its claims, criteria, plans and hypotheses.\<close>

definition state_predicates :: "knowledge_state \<Rightarrow> knowledge_predicate set" where
  "state_predicates s =
     claim_predicate ` set (bm_values (ks_claims s))
     \<union> (\<Union>ob \<in> set (bm_values (ks_obligations s)).
           set (criterion_predicate (obligation_criterion ob) # plan_predicates (obligation_plan ob)))
     \<union> hypothesis_definition ` set (bm_values (ks_hypotheses s))"

definition related :: "knowledge_state \<Rightarrow> string \<Rightarrow> knowledge_obligation list" where
  "related s cid = filter (\<lambda>ob. obligation_claim_id ob = cid) (bm_values (ks_obligations s))"

lemma validate_state_contents_Inr:
  assumes "validate_state_contents X s = Inr ()"
  shows "\<forall>(cid, c) \<in> set (ks_claims s). cid = claim_id c \<and> claim_assessment c = derive_claim_assessment (related s cid)
       \<and> related s cid \<noteq> []"
    and "\<forall>(oid, ob) \<in> set (ks_obligations s). obligation_checked X s oid ob"
    and "\<forall>(hid, h) \<in> set (ks_hypotheses s). hid = hypothesis_id h
         \<and> set (hypothesis_witnesses (hypothesis_assessment h)) \<subseteq> set (ks_applied_receipts s)"
    and "\<exists>schema. \<forall>q \<in> state_predicates s. schema_agrees schema q"
    and "validate_dependency_index s = Inr ()"
    and "rfor (validate_dependency_parent s) (ks_dependency_parents s) = Inr ()"
proof -
  from assms obtain schema schema' schema'' by_claim families predicted where
    1: "rfold validate_state_claim (ks_claims s) [] = Inr schema"
    and 2: "rfold (validate_state_obligation X s) (ks_obligations s) (schema, []) = Inr (schema', by_claim)"
    and 3: "rfor (validate_state_claim_reduced by_claim) (bm_values (ks_claims s)) = Inr ()"
    and 4: "rfold (validate_state_hypothesis s) (ks_hypotheses s) (schema', []) = Inr (schema'', families)"
    and 5: "validate_dependency_index s = Inr ()" "rfor (validate_dependency_parent s) (ks_dependency_parents s) = Inr ()"
    by (auto simp: validate_state_contents_def)
  note c = validate_state_claims[OF 1]
  note ob = validate_state_obligations[of X s _ schema "[]", unfolded group_by_Nil append_Nil, OF 2]
  note h = validate_state_hypotheses[of s _ schema' "[]", unfolded group_by_Nil append_Nil, OF 4]
  show "\<forall>(oid, ob) \<in> set (ks_obligations s). obligation_checked X s oid ob" using ob by blast
  show "\<forall>(hid, h) \<in> set (ks_hypotheses s). hid = hypothesis_id h
         \<and> set (hypothesis_witnesses (hypothesis_assessment h)) \<subseteq> set (ks_applied_receipts s)" using h by blast
  show "validate_dependency_index s = Inr ()" "rfor (validate_dependency_parent s) (ks_dependency_parents s) = Inr ()"
    by (fact 5)+
  have "\<forall>q \<in> state_predicates s. schema_agrees schema'' q"
    using c ob h unfolding state_predicates_def by blast
  then show "\<exists>schema. \<forall>q \<in> state_predicates s. schema_agrees schema q" by blast
  show "\<forall>(cid, c) \<in> set (ks_claims s). cid = claim_id c \<and> claim_assessment c = derive_claim_assessment (related s cid)
       \<and> related s cid \<noteq> []"
  proof (clarify)
    fix cid cl assume m: "(cid, cl) \<in> set (ks_claims s)"
    with c have id: "cid = claim_id cl" by blast
    from m have "cl \<in> set (bm_values (ks_claims s))" by (force simp: bm_values_def)
    with 3 obtain obs where obs: "map_of by_claim (claim_id cl) = Some obs"
      and d: "claim_assessment cl = derive_claim_assessment obs" and ne: "obs \<noteq> []"
      by (fastforce simp: validate_state_claim_reduced_def)
    from obs ob have "obs = related s cid"
      by (simp add: map_of_group_by_iff related_def id)
    with id d ne show "cid = claim_id cl \<and> claim_assessment cl = derive_claim_assessment (related s cid)
       \<and> related s cid \<noteq> []" by simp
  qed
qed

text \<open>The dependency index of an accepted state is a well-formed acyclic graph.\<close>

lemma validate_dependency_index_Inr:
  assumes ok: "state_containers_ok s" and v: "validate_dependency_index s = Inr ()"
    and b: "length (ks_dependency_parents s) \<le> max_dependency_nodes (ks_budget s)"
      "max_dependency_nodes (ks_budget s) < 2 ^ 32"
  shows "graph_ok (ks_dependency_graph s)" and "acyclic (edges (ks_dependency_graph s))"
    and "length (ks_dependency_graph s) = length (ks_dependency_parents s)"
    and "dom (map_of (ks_dependency_graph s)) = dom (map_of (ks_dependency_depths s))"
    and "\<forall>n d. map_of (ks_dependency_depths s) n = Some d \<longrightarrow> d \<le> max_dependency_depth (ks_budget s)"
proof -
  let ?g = "ks_dependency_graph s"
  from v have len: "length (ks_dependency_parents s) = length (ks_dependency_depths s)"
      "length ?g = length (ks_dependency_depths s)"
    and keys: "\<forall>node \<in> dom (map_of ?g). map_of (ks_dependency_depths s) node \<noteq> None"
    and tg: "\<forall>targets \<in> set (bm_values ?g). \<forall>t \<in> set targets. map_of ?g t \<noteq> None"
    and dp: "\<forall>d \<in> set (bm_values (ks_dependency_depths s)). d \<le> max_dependency_depth (ks_budget s)"
    and ac: "dependency_graph_is_acyclic ?g (max_dependency_nodes (ks_budget s)) = Inr True"
    by (auto simp: validate_dependency_index_def list_ex_iff not_less split: if_splits)
  show gok: "graph_ok ?g" unfolding graph_ok_def nodes_def
    using ok tg by (fastforce simp: state_containers_ok_def bm_values_def)
  show "acyclic (edges ?g)"
    using dependency_graph_is_acyclic_correct[OF gok _ b(2)] ac len b(1) by simp
  show "length ?g = length (ks_dependency_parents s)" using len by simp
  have "dom (map_of ?g) \<subseteq> dom (map_of (ks_dependency_depths s))" using keys by blast
  then show "dom (map_of ?g) = dom (map_of (ks_dependency_depths s))"
    using ok len by (intro card_subset_eq) (simp_all add: state_containers_ok_def finite_dom_map_of card_dom_bm)
  show "\<forall>n d. map_of (ks_dependency_depths s) n = Some d \<longrightarrow> d \<le> max_dependency_depth (ks_budget s)"
    using dp map_of_values by metis
qed

text \<open>Every hypothesis of an accepted state is predicted by the plan of an obligation.\<close>

definition predicted_by :: "knowledge_state \<Rightarrow> family_index \<Rightarrow> knowledge_obligation \<Rightarrow> string \<Rightarrow> bool" where
  "predicted_by s families ob f \<longleftrightarrow>
     (\<exists>ps family. plan_predictions (obligation_plan ob) = Some ps \<and> map_of families f = Some family
        \<and> length ps = length family
        \<and> (\<forall>h \<in> dom (map_of ps). \<exists>item \<in> set family. hypothesis_id item = h))"

lemma validate_state_prediction_Inr:
  assumes "validate_state_prediction s families ob predicted = Inr predicted'"
  shows "predicted' = predicted \<or> (\<exists>f. predicted' = bs_insert f predicted \<and> predicted_by s families ob f)"
proof (cases "plan_predictions (obligation_plan ob)")
  case None
  with assms show ?thesis by (simp add: validate_state_prediction_def)
next
  case (Some ps)
  with assms obtain f family where f: "map_of families f = Some family" "predicted' = bs_insert f predicted"
    "length ps = length family" "list_all (\<lambda>h. list_ex (\<lambda>item. hypothesis_id item = h) family) (bm_keys ps)"
    by (auto simp: validate_state_prediction_def)
  then have "\<forall>h \<in> set (bm_keys ps). \<exists>item \<in> set family. hypothesis_id item = h"
    by (simp add: list_all_iff list_ex_iff)
  with f Some have "predicted_by s families ob f" unfolding predicted_by_def set_bm_keys by blast
  with f(2) show ?thesis by blast
qed

lemma validate_state_predictions:
  assumes "rfold (validate_state_prediction s families) obs predicted = Inr predicted'" and "bs_ok predicted"
    and "\<forall>f \<in> set predicted. \<exists>ob \<in> obs0. predicted_by s families ob f" and "set obs \<subseteq> obs0"
  shows "bs_ok predicted' \<and> (\<forall>f \<in> set predicted'. \<exists>ob \<in> obs0. predicted_by s families ob f)"
  using assms
proof (induction obs arbitrary: predicted)
  case (Cons ob obs)
  then obtain p1 where p1: "validate_state_prediction s families ob predicted = Inr p1"
    and r: "rfold (validate_state_prediction s families) obs p1 = Inr predicted'" by auto
  have "bs_ok p1 \<and> (\<forall>f \<in> set p1. \<exists>ob \<in> obs0. predicted_by s families ob f)"
    using validate_state_prediction_Inr[OF p1] Cons.prems(2-4) by auto
  with Cons.IH[OF r] Cons.prems(4) show ?case by simp
qed simp

lemma hypothesis_predicted:
  assumes v: "validate_state_contents X s = Inr ()" and ok: "state_containers_ok s"
    and h: "h \<in> set (bm_values (ks_hypotheses s))"
  shows "\<exists>ob \<in> set (bm_values (ks_obligations s)). \<exists>ps. plan_predictions (obligation_plan ob) = Some ps
       \<and> map_of ps (hypothesis_id h) \<noteq> None"
proof -
  from v obtain schema schema' families predicted where
    4: "rfold (validate_state_hypothesis s) (ks_hypotheses s) (schema, []) = Inr (schema', families)"
    and 5: "rfold (validate_state_prediction s families) (bm_values (ks_obligations s)) [] = Inr predicted"
    and 6: "length predicted = length families"
    by (auto simp: validate_state_contents_def)
  note hyps = validate_state_hypotheses[of s _ schema "[]", unfolded group_by_Nil append_Nil, OF 4]
  let ?hs = "bm_values (ks_hypotheses s)"
  have fam: "families = group_by hypothesis_family_id ?hs" using hyps by blast
  have pr: "bs_ok predicted"
    "\<forall>f \<in> set predicted. \<exists>ob \<in> set (bm_values (ks_obligations s)). predicted_by s families ob f"
    using validate_state_predictions[OF 5, of "set (bm_values (ks_obligations s))"] by auto
  have "set predicted \<subseteq> dom (map_of families)" using pr(2) by (auto simp: predicted_by_def)
  moreover have "card (set predicted) = card (dom (map_of families))"
    using 6 length_bs[OF pr(1)] card_dom_bm[OF bm_ok_group_by] fam by metis
  ultimately have "set predicted = dom (map_of families)" by (simp add: card_subset_eq finite_dom_map_of)
  with h fam have "hypothesis_family_id h \<in> set predicted" by (simp add: group_by_keys)
  with pr(2) obtain ob where ob: "ob \<in> set (bm_values (ks_obligations s))"
    and pb: "predicted_by s families ob (hypothesis_family_id h)" by blast
  from pb obtain ps family where ps: "plan_predictions (obligation_plan ob) = Some ps"
    and family: "map_of families (hypothesis_family_id h) = Some family"
    and len': "length ps = length family"
    and sub': "\<forall>h \<in> dom (map_of ps). \<exists>item \<in> set family. hypothesis_id item = h"
    unfolding predicted_by_def by blast
  from family fam have g: "family = filter (\<lambda>h'. hypothesis_family_id h' = hypothesis_family_id h) ?hs"
    by (simp add: map_of_group_by_iff)
  have len: "length ps = length (filter (\<lambda>h'. hypothesis_family_id h' = hypothesis_family_id h) ?hs)"
    using len' g by simp
  have sub: "dom (map_of ps) \<subseteq> hypothesis_id ` set (filter (\<lambda>h'. hypothesis_family_id h' = hypothesis_family_id h) ?hs)"
    using sub' unfolding g by (metis (no_types, lifting) imageI subsetI)
  let ?g = "filter (\<lambda>h'. hypothesis_family_id h' = hypothesis_family_id h) ?hs"
  have "bm_ok ps" using ok ob ps plan_containers_ok_predictions by (auto simp: state_containers_ok_def)
  then have "card (dom (map_of ps)) = length ?g" using len by (simp add: card_dom_bm)
  moreover have "card (hypothesis_id ` set ?g) \<le> length ?g"
    using card_image_le[of "set ?g" hypothesis_id] card_length[of ?g] by simp
  ultimately have "dom (map_of ps) = hypothesis_id ` set ?g"
    using sub by (intro card_seteq) auto
  moreover have "h \<in> set ?g" using h by simp
  ultimately have "hypothesis_id h \<in> dom (map_of ps)" by blast
  with ob ps show ?thesis by blast
qed

end
