(* ===== verification/Knowledge_Evidence.thy ===== *)
theory Knowledge_Evidence
  imports Knowledge_Plans
begin

text \<open>
  Evidence of the knowledge engine (\<open>src/knowledge/knowledge_engine.rs\<close>): the binding of an
  artifact to its invocation and executor, construction and canonical decoding of the six kinds of
  artifact, and \<open>EvidenceVerifierRegistry\<close>, which derives an outcome from the evidence instead of
  trusting the one an executor proposes. The lemmas show what a derived outcome is: the last
  values of a trace, the first contradicting case of a search, never a result for a formal
  obligation.
\<close>

section \<open>The authority binding\<close>

record evidence_verification_context =
  cx_private_root :: path
  cx_authority_instance :: string
  cx_authority_root :: digest
  cx_invocation :: cognitive_invocation
  cx_executor :: executor_attestation

definition evidence_authority_binding_from_invocation ::
  "externals \<Rightarrow> cognitive_invocation \<Rightarrow> executor_identity_draft \<Rightarrow> evidence_authority_binding res" where
  "evidence_authority_binding_from_invocation X invoc executor =
     (let ib = binding invoc;
          expected_root = computed X ROOT_DOMAIN (PString (ib_authority_instance ib)) in
      rbind (reject (ib_authority_root ib \<noteq> expected_root)
              (Integrity ''evidence_invocation_authority_instance_mismatch'')) (\<lambda>_.
      Inr \<lparr>eb_schema = SchemaV1,
        eb_authority_instance = ib_authority_instance ib,
        eb_authority_root = ib_authority_root ib,
        eb_inquiry_id = ib_inquiry_id ib,
        eb_capability_bundle = ib_capability_bundle ib,
        eb_parent_state = ib_parent_state ib,
        eb_action_id = ib_action_id ib,
        eb_obligation_id = ib_obligation_id ib,
        eb_claim_id = ib_claim_id ib,
        eb_attempt = ib_attempt ib,
        eb_invocation_digest = invocation_digest X invoc,
        eb_executor_id = id_executor_id executor,
        eb_executor_interface_version = id_interface_version executor,
        eb_executor_implementation_digest = ref_sha256 (id_implementation executor),
        eb_executor_version_digest = calculate_executor_version_digest X (id_executor_id executor)
          (id_interface_version executor) (ref_sha256 (id_implementation executor))
          (ref_sha256 (id_implementation executor))\<rparr>))"

definition evidence_authority_binding_validate ::
  "externals \<Rightarrow> evidence_authority_binding \<Rightarrow> evidence_verification_context \<Rightarrow> unit res" where
  "evidence_authority_binding_validate X eb context =
     (let ib = binding (cx_invocation context);
          derived_root = computed X ROOT_DOMAIN (PString (cx_authority_instance context)) in
      reject (eb_schema eb \<noteq> SchemaV1
          \<or> derived_root \<noteq> cx_authority_root context
          \<or> eb_authority_instance eb \<noteq> cx_authority_instance context
          \<or> eb_authority_instance eb \<noteq> ib_authority_instance ib
          \<or> eb_authority_root eb \<noteq> cx_authority_root context
          \<or> eb_authority_root eb \<noteq> ib_authority_root ib
          \<or> eb_inquiry_id eb \<noteq> ib_inquiry_id ib
          \<or> eb_capability_bundle eb \<noteq> ib_capability_bundle ib
          \<or> eb_parent_state eb \<noteq> ib_parent_state ib
          \<or> eb_action_id eb \<noteq> ib_action_id ib
          \<or> eb_obligation_id eb \<noteq> ib_obligation_id ib
          \<or> eb_claim_id eb \<noteq> ib_claim_id ib
          \<or> eb_attempt eb \<noteq> ib_attempt ib
          \<or> eb_invocation_digest eb \<noteq> invocation_digest X (cx_invocation context)
          \<or> eb_executor_id eb \<noteq> att_executor_id (cx_executor context)
          \<or> eb_executor_interface_version eb \<noteq> att_interface_version (cx_executor context)
          \<or> eb_executor_implementation_digest eb \<noteq> ref_sha256 (att_implementation (cx_executor context))
          \<or> eb_executor_version_digest eb \<noteq> att_version_digest (cx_executor context))
        (Integrity ''evidence_authority_binding_mismatch''))"

section \<open>Construction of artifacts\<close>

definition trace_evidence_event_new :: "nat \<Rightarrow> observations \<Rightarrow> trace_evidence_event res" where
  "trace_evidence_event_new ordinal obs =
     rbind (reject (obs = []) (Invalid ''trace_evidence_event_empty'')) (\<lambda>_.
     Inr \<lparr>event_ordinal = ordinal, event_observations = obs\<rparr>)"

fun trace_artifact_from_invocation ::
  "externals \<Rightarrow> cognitive_invocation \<Rightarrow> executor_identity_draft \<Rightarrow> trace_evidence_event list
   \<Rightarrow> trace_evidence_artifact res" where
  "trace_artifact_from_invocation X (InvObserveTrace trace) executor events =
     rbind (evidence_authority_binding_from_invocation X (InvObserveTrace trace) executor) (\<lambda>eb.
     Inr \<lparr>ta_binding = eb, ta_protocol = CanonicalEventStreamV1,
          ta_observation_keys = tr_observation_keys trace,
          ta_max_events = tr_max_events trace, ta_events = events\<rparr>)"
| "trace_artifact_from_invocation X _ executor events =
     Inl (Invalid ''trace_evidence_requires_trace_invocation'')"

fun scenario_artifact_from_invocation ::
  "externals \<Rightarrow> cognitive_invocation \<Rightarrow> executor_identity_draft \<Rightarrow> observations
   \<Rightarrow> scenario_evidence_artifact res" where
  "scenario_artifact_from_invocation X (InvExecuteScenario scenario) executor obs =
     rbind (evidence_authority_binding_from_invocation X (InvExecuteScenario scenario) executor) (\<lambda>eb.
     Inr \<lparr>sa_binding = eb, sa_protocol = ExactScenarioObservationV1,
          sa_scenario_id = sc_scenario_id scenario, sa_inputs = sc_inputs scenario,
          sa_observation_keys = sc_observation_keys scenario, sa_observations = obs\<rparr>)"
| "scenario_artifact_from_invocation X _ executor obs =
     Inl (Invalid ''scenario_evidence_requires_scenario_invocation'')"

fun causal_artifact_from_invocation ::
  "externals \<Rightarrow> cognitive_invocation \<Rightarrow> executor_identity_draft \<Rightarrow> observations \<Rightarrow> observations
   \<Rightarrow> causal_evidence_artifact res" where
  "causal_artifact_from_invocation X (InvCausalIntervention causal) executor base treat =
     rbind (evidence_authority_binding_from_invocation X (InvCausalIntervention causal) executor) (\<lambda>eb.
     Inr \<lparr>caa_binding = eb, caa_protocol = PairedInterventionV1,
          caa_variable = ca_variable causal, caa_baseline = ca_baseline causal,
          caa_treatment = ca_treatment causal, caa_effect = ca_effect causal,
          caa_predictions = ca_predictions causal,
          caa_baseline_observations = base, caa_treatment_observations = treat\<rparr>)"
| "causal_artifact_from_invocation X _ executor base treat =
     Inl (Invalid ''causal_evidence_requires_causal_invocation'')"

definition counterexample_case_new :: "observations \<Rightarrow> observations \<Rightarrow> counterexample_case_evidence res" where
  "counterexample_case_new inputs obs =
     rbind (reject (HARD_MAX_SCENARIO_INPUTS < length inputs \<or> obs = [])
              (Invalid ''counterexample_case_bounds_invalid'')) (\<lambda>_.
     Inr \<lparr>case_inputs = inputs, case_observations = obs\<rparr>)"

fun counterexample_artifact_from_invocation ::
  "externals \<Rightarrow> cognitive_invocation \<Rightarrow> executor_identity_draft
   \<Rightarrow> (string, counterexample_case_evidence) bmap \<Rightarrow> counterexample_evidence_artifact res" where
  "counterexample_artifact_from_invocation X (InvSearchCounterexample search) executor cases =
     rbind (evidence_authority_binding_from_invocation X (InvSearchCounterexample search) executor) (\<lambda>eb.
     Inr \<lparr>cea_binding = eb, cea_protocol = DeterministicCaseSearchV1,
          cea_target = ce_target search, cea_max_cases = ce_max_cases search,
          cea_predictions = ce_predictions search, cea_cases = cases\<rparr>)"
| "counterexample_artifact_from_invocation X _ executor cases =
     Inl (Invalid ''counterexample_evidence_requires_search_invocation'')"

fun formal_artifact_backend_unavailable ::
  "externals \<Rightarrow> cognitive_invocation \<Rightarrow> executor_identity_draft
   \<Rightarrow> formal_verification_evidence_artifact res" where
  "formal_artifact_backend_unavailable X (InvVerifyFormalProperty formal) executor =
     rbind (evidence_authority_binding_from_invocation X (InvVerifyFormalProperty formal) executor) (\<lambda>eb.
     Inr \<lparr>fa_binding = eb, fa_protocol = BackendUnavailableV1,
          fa_proof_system = fv_proof_system formal, fa_property = fv_property formal\<rparr>)"
| "formal_artifact_backend_unavailable X _ executor =
     Inl (Invalid ''formal_evidence_requires_formal_invocation'')"

fun dependency_artifact_from_invocation ::
  "externals \<Rightarrow> cognitive_invocation \<Rightarrow> executor_identity_draft \<Rightarrow> dependency_edge bset
   \<Rightarrow> dependency_graph_evidence_artifact res" where
  "dependency_artifact_from_invocation X (InvExpandDependencyClosure expansion) executor es =
     rbind (evidence_authority_binding_from_invocation X (InvExpandDependencyClosure expansion) executor) (\<lambda>eb.
     Inr \<lparr>da_binding = eb, da_protocol = CanonicalDependencyEdgesV1, da_root = de_root expansion,
          da_depth = de_depth expansion, da_max_depth = de_max_depth expansion, da_edges = es\<rparr>)"
| "dependency_artifact_from_invocation X _ executor es =
     Inl (Invalid ''dependency_graph_evidence_requires_dependency_invocation'')"

section \<open>Canonical decoding\<close>

text \<open>What the six \<open>decode_canonical\<close> functions share: decode, then encode again and compare.\<close>

definition decode_canonical_as ::
  "externals \<Rightarrow> (string \<Rightarrow> 'a option) \<Rightarrow> ('a \<Rightarrow> payload) \<Rightarrow> string \<Rightarrow> string \<Rightarrow> string \<Rightarrow> 'a res" where
  "decode_canonical_as X from_slice as_payload encoding_code canonical_code bytes =
     rbind (ok_or (from_slice bytes) (Integrity encoding_code)) (\<lambda>artifact.
     rbind (reject (to_vec X (as_payload artifact) \<noteq> bytes) (Integrity canonical_code)) (\<lambda>_.
     Inr artifact))"

definition trace_decode_canonical :: "externals \<Rightarrow> string \<Rightarrow> trace_evidence_artifact res" where
  "trace_decode_canonical X = decode_canonical_as X (from_slice_trace X) PTraceArtifact
     ''trace_evidence_encoding_invalid'' ''trace_evidence_not_canonical''"

definition scenario_decode_canonical :: "externals \<Rightarrow> string \<Rightarrow> scenario_evidence_artifact res" where
  "scenario_decode_canonical X = decode_canonical_as X (from_slice_scenario X) PScenarioArtifact
     ''scenario_evidence_encoding_invalid'' ''scenario_evidence_not_canonical''"

definition causal_decode_canonical :: "externals \<Rightarrow> string \<Rightarrow> causal_evidence_artifact res" where
  "causal_decode_canonical X = decode_canonical_as X (from_slice_causal X) PCausalArtifact
     ''causal_evidence_encoding_invalid'' ''causal_evidence_not_canonical''"

definition counterexample_decode_canonical ::
  "externals \<Rightarrow> string \<Rightarrow> counterexample_evidence_artifact res" where
  "counterexample_decode_canonical X =
     decode_canonical_as X (from_slice_counterexample X) PCounterexampleArtifact
       ''counterexample_evidence_encoding_invalid'' ''counterexample_evidence_not_canonical''"

definition formal_decode_canonical ::
  "externals \<Rightarrow> string \<Rightarrow> formal_verification_evidence_artifact res" where
  "formal_decode_canonical X = decode_canonical_as X (from_slice_formal X) PFormalArtifact
     ''formal_evidence_encoding_invalid'' ''formal_evidence_not_canonical''"

definition dependency_decode_canonical ::
  "externals \<Rightarrow> string \<Rightarrow> dependency_graph_evidence_artifact res" where
  "dependency_decode_canonical X = decode_canonical_as X (from_slice_dependency X) PDependencyArtifact
     ''dependency_graph_evidence_encoding_invalid'' ''dependency_graph_evidence_not_canonical''"

lemma decode_canonical_as_eq_Inr [simp]:
  "decode_canonical_as X f g c1 c2 bytes = Inr a \<longleftrightarrow> f bytes = Some a \<and> to_vec X (g a) = bytes"
  by (auto simp: decode_canonical_as_def)

lemmas decode_canonical_defs =
  trace_decode_canonical_def scenario_decode_canonical_def causal_decode_canonical_def
  counterexample_decode_canonical_def formal_decode_canonical_def dependency_decode_canonical_def

section \<open>The verifier registry\<close>

definition canonical_completed :: "observations \<Rightarrow> action_outcome" where
  "canonical_completed obs = Completed obs [] []"

definition canonical_dependency_closure_observations ::
  "dependency_expansion_invocation \<Rightarrow> observations" where
  "canonical_dependency_closure_observations v =
     (let p = criterion_predicate (ib_criterion (de_binding v)) in
      [(observation_key p, observation_for_predicate p)])"

definition validate_exact_observation_keys ::
  "observations \<Rightarrow> string bset \<Rightarrow> string \<Rightarrow> unit res" where
  "validate_exact_observation_keys obs expected code =
     reject (bs_of (bm_keys obs) \<noteq> expected) (Integrity code)"

definition validate_predicate_observation_types ::
  "observations \<Rightarrow> knowledge_predicate list \<Rightarrow> string \<Rightarrow> unit res" where
  "validate_predicate_observation_types obs predicates code =
     reject (list_ex (\<lambda>p. evaluate p obs = Missing \<or> evaluate p obs = TypeMismatch) predicates)
       (Integrity code)"

definition read_single_evidence ::
  "externals \<Rightarrow> path \<Rightarrow> evidence_artifact_input list \<Rightarrow> evidence_kind \<Rightarrow> string \<Rightarrow> store \<Rightarrow> string res" where
  "read_single_evidence X root evidence expected_kind code fs =
     rbind (reject (length evidence \<noteq> 1 \<or> input_kind (evidence ! 0) \<noteq> expected_kind) (Integrity code)) (\<lambda>_.
     read_verified_bounded (sha X) root (input_artifact (evidence ! 0)) MAX_EVIDENCE_ARTIFACT_BYTES fs)"

text \<open>The two nested loops of \<open>derive_trace\<close>: index, event, observations so far.\<close>

definition insert_all :: "('k::linorder, 'v) bmap \<Rightarrow> ('k, 'v) bmap \<Rightarrow> ('k, 'v) bmap" where
  "insert_all new obs = fold (\<lambda>(key, value). bm_insert key value) new obs"

fun trace_replay ::
  "string bset \<Rightarrow> nat \<Rightarrow> trace_evidence_event list \<Rightarrow> observations \<Rightarrow> observations res" where
  "trace_replay keys index [] obs = Inr obs"
| "trace_replay keys index (event # events) obs =
     rbind (reject (2 ^ 32 \<le> index) (Invalid ''trace_ordinal_overflow'')) (\<lambda>_.
     rbind (reject (event_ordinal event \<noteq> index \<or> event_observations event = []
              \<or> list_ex (\<lambda>key. \<not> List.member keys key) (bm_keys (event_observations event)))
            (Integrity ''trace_evidence_event_invalid'')) (\<lambda>_.
     trace_replay keys (Suc index) events (insert_all (event_observations event) obs)))"

definition derive_trace ::
  "externals \<Rightarrow> evidence_verification_context \<Rightarrow> trace_invocation \<Rightarrow> evidence_artifact_input list
   \<Rightarrow> store \<Rightarrow> action_outcome res" where
  "derive_trace X context trace evidence fs =
     rbind (read_single_evidence X (cx_private_root context) evidence RuntimeTrace
              ''trace_evidence_cardinality_or_kind_invalid'' fs) (\<lambda>bytes.
     rbind (trace_decode_canonical X bytes) (\<lambda>artifact.
     rbind (evidence_authority_binding_validate X (ta_binding artifact) context) (\<lambda>_.
     rbind (reject (ta_protocol artifact \<noteq> CanonicalEventStreamV1
              \<or> ta_observation_keys artifact \<noteq> tr_observation_keys trace
              \<or> ta_max_events artifact \<noteq> tr_max_events trace
              \<or> ta_events artifact = []
              \<or> 2 ^ 32 \<le> length (ta_events artifact) \<or> tr_max_events trace < length (ta_events artifact))
            (Integrity ''trace_evidence_protocol_or_inputs_mismatch'')) (\<lambda>_.
     rbind (trace_replay (tr_observation_keys trace) 0 (ta_events artifact) []) (\<lambda>obs.
     rbind (validate_exact_observation_keys obs (tr_observation_keys trace)
              ''trace_evidence_observations_incomplete'') (\<lambda>_.
     rbind (validate_predicate_observation_types obs
              [criterion_predicate (ib_criterion (tr_binding trace))]
              ''trace_evidence_observation_type_mismatch'') (\<lambda>_.
     Inr (canonical_completed obs))))))))"

definition derive_scenario ::
  "externals \<Rightarrow> evidence_verification_context \<Rightarrow> scenario_invocation \<Rightarrow> evidence_artifact_input list
   \<Rightarrow> store \<Rightarrow> action_outcome res" where
  "derive_scenario X context scenario evidence fs =
     rbind (read_single_evidence X (cx_private_root context) evidence ScenarioResult
              ''scenario_evidence_cardinality_or_kind_invalid'' fs) (\<lambda>bytes.
     rbind (scenario_decode_canonical X bytes) (\<lambda>artifact.
     rbind (evidence_authority_binding_validate X (sa_binding artifact) context) (\<lambda>_.
     rbind (reject (sa_protocol artifact \<noteq> ExactScenarioObservationV1
              \<or> sa_scenario_id artifact \<noteq> sc_scenario_id scenario
              \<or> sa_inputs artifact \<noteq> sc_inputs scenario
              \<or> sa_observation_keys artifact \<noteq> sc_observation_keys scenario)
            (Integrity ''scenario_evidence_protocol_or_inputs_mismatch'')) (\<lambda>_.
     rbind (validate_exact_observation_keys (sa_observations artifact) (sc_observation_keys scenario)
              ''scenario_evidence_observations_incomplete'') (\<lambda>_.
     rbind (validate_predicate_observation_types (sa_observations artifact)
              [criterion_predicate (ib_criterion (sc_binding scenario))]
              ''scenario_evidence_observation_type_mismatch'') (\<lambda>_.
     Inr (canonical_completed (sa_observations artifact))))))))"

definition derive_causal ::
  "externals \<Rightarrow> evidence_verification_context \<Rightarrow> causal_invocation \<Rightarrow> evidence_artifact_input list
   \<Rightarrow> store \<Rightarrow> action_outcome res" where
  "derive_causal X context causal evidence fs =
     rbind (read_single_evidence X (cx_private_root context) evidence CausalComparison
              ''causal_evidence_cardinality_or_kind_invalid'' fs) (\<lambda>bytes.
     rbind (causal_decode_canonical X bytes) (\<lambda>artifact.
     rbind (evidence_authority_binding_validate X (caa_binding artifact) context) (\<lambda>_.
     rbind (reject (caa_protocol artifact \<noteq> PairedInterventionV1
              \<or> caa_variable artifact \<noteq> ca_variable causal
              \<or> caa_baseline artifact \<noteq> ca_baseline causal
              \<or> caa_treatment artifact \<noteq> ca_treatment causal
              \<or> caa_effect artifact \<noteq> ca_effect causal
              \<or> caa_predictions artifact \<noteq> ca_predictions causal)
            (Integrity ''causal_evidence_protocol_or_inputs_mismatch'')) (\<lambda>_.
     let required = required_observations (cx_invocation context);
         predicates = ca_effect causal # bm_values (ca_predictions causal) in
     rbind (validate_exact_observation_keys (caa_baseline_observations artifact) required
              ''causal_baseline_observations_incomplete'') (\<lambda>_.
     rbind (validate_exact_observation_keys (caa_treatment_observations artifact) required
              ''causal_treatment_observations_incomplete'') (\<lambda>_.
     rbind (validate_predicate_observation_types (caa_baseline_observations artifact) predicates
              ''causal_baseline_observation_type_mismatch'') (\<lambda>_.
     rbind (validate_predicate_observation_types (caa_treatment_observations artifact) predicates
              ''causal_treatment_observation_type_mismatch'') (\<lambda>_.
     Inr (canonical_completed (caa_treatment_observations artifact))))))))))"

text \<open>The loop over the cases of a search: encodings of the inputs seen, first counterexample.\<close>

fun search_cases ::
  "externals \<Rightarrow> knowledge_predicate \<Rightarrow> string bset \<Rightarrow> knowledge_predicate list
   \<Rightarrow> counterexample_case_evidence list \<Rightarrow> string bset \<Rightarrow> observations option
   \<Rightarrow> observations option res" where
  "search_cases X target required predicates [] unique_inputs first = Inr first"
| "search_cases X target required predicates (c # cases) unique_inputs first =
     rbind (reject (HARD_MAX_SCENARIO_INPUTS < length (case_inputs c)
              \<or> List.member unique_inputs (to_vec X (PInputs (case_inputs c))))
            (Integrity ''counterexample_case_inputs_invalid'')) (\<lambda>_.
     rbind (validate_exact_observation_keys (case_observations c) required
              ''counterexample_case_observations_incomplete'') (\<lambda>_.
     rbind (validate_predicate_observation_types (case_observations c) predicates
              ''counterexample_case_observation_type_mismatch'') (\<lambda>_.
     search_cases X target required predicates cases
       (bs_insert (to_vec X (PInputs (case_inputs c))) unique_inputs)
       (if first = None \<and> evaluate target (case_observations c) = Contradicts
        then Some (case_observations c) else first))))"

definition derive_counterexample ::
  "externals \<Rightarrow> evidence_verification_context \<Rightarrow> counterexample_invocation
   \<Rightarrow> evidence_artifact_input list \<Rightarrow> store \<Rightarrow> action_outcome res" where
  "derive_counterexample X context search evidence fs =
     rbind (read_single_evidence X (cx_private_root context) evidence CounterexampleSearch
              ''counterexample_evidence_cardinality_or_kind_invalid'' fs) (\<lambda>bytes.
     rbind (counterexample_decode_canonical X bytes) (\<lambda>artifact.
     rbind (evidence_authority_binding_validate X (cea_binding artifact) context) (\<lambda>_.
     rbind (reject (cea_protocol artifact \<noteq> DeterministicCaseSearchV1
              \<or> cea_target artifact \<noteq> ce_target search
              \<or> cea_max_cases artifact \<noteq> ce_max_cases search
              \<or> cea_predictions artifact \<noteq> ce_predictions search
              \<or> cea_cases artifact = []
              \<or> 2 ^ 32 \<le> length (cea_cases artifact) \<or> ce_max_cases search < length (cea_cases artifact))
            (Integrity ''counterexample_evidence_protocol_or_inputs_mismatch'')) (\<lambda>_.
     rbind (search_cases X (ce_target search) (required_observations (cx_invocation context))
              (ce_target search # bm_values (ce_predictions search)) (bm_values (cea_cases artifact))
              [] None) (\<lambda>first.
     rbind (ok_or first (Integrity ''counterexample_evidence_contains_no_counterexample'')) (\<lambda>obs.
     Inr (canonical_completed obs)))))))"

definition derive_dependency_graph ::
  "externals \<Rightarrow> evidence_verification_context \<Rightarrow> evidence_artifact_input list \<Rightarrow> store
   \<Rightarrow> action_outcome res" where
  "derive_dependency_graph X context evidence fs =
     rbind (read_single_evidence X (cx_private_root context) evidence DependencyGraph
              ''dependency_graph_evidence_cardinality_or_kind_invalid'' fs) (\<lambda>bytes.
     rbind (dependency_decode_canonical X bytes) (\<lambda>artifact.
     rbind (evidence_authority_binding_validate X (da_binding artifact) context) (\<lambda>_.
     case cx_invocation context of
       InvExpandDependencyClosure expansion \<Rightarrow>
         rbind (reject (da_protocol artifact \<noteq> CanonicalDependencyEdgesV1
                  \<or> da_root artifact \<noteq> de_root expansion
                  \<or> da_depth artifact \<noteq> de_depth expansion
                  \<or> da_max_depth artifact \<noteq> de_max_depth expansion
                  \<or> list_ex (\<lambda>edge. edge_from edge \<noteq> de_root expansion) (da_edges artifact))
                (Integrity ''dependency_graph_evidence_protocol_or_inputs_mismatch'')) (\<lambda>_.
         Inr (Completed (canonical_dependency_closure_observations expansion) (da_edges artifact) []))
     | _ \<Rightarrow> Inl (Integrity ''dependency_graph_verifier_requires_dependency_invocation''))))"

definition derive_formal_backend_unavailable ::
  "externals \<Rightarrow> evidence_verification_context \<Rightarrow> formal_verification_invocation \<Rightarrow> action_outcome
   \<Rightarrow> evidence_artifact_input list \<Rightarrow> store \<Rightarrow> action_outcome res" where
  "derive_formal_backend_unavailable X context formal proposed evidence fs =
     rbind (read_single_evidence X (cx_private_root context) evidence FormalSearchLog
              ''formal_evidence_cardinality_or_kind_invalid'' fs) (\<lambda>bytes.
     rbind (formal_decode_canonical X bytes) (\<lambda>artifact.
     rbind (evidence_authority_binding_validate X (fa_binding artifact) context) (\<lambda>_.
     rbind (reject (fa_protocol artifact \<noteq> BackendUnavailableV1
              \<or> fa_proof_system artifact \<noteq> fv_proof_system formal
              \<or> fa_property artifact \<noteq> fv_property formal)
            (Integrity ''formal_evidence_protocol_or_inputs_mismatch'')) (\<lambda>_.
     rbind (reject (OutcomeBlocked AdapterUnavailable \<noteq> proposed)
            (Integrity ''formal_blocked_outcome_not_canonically_derived'')) (\<lambda>_.
     Inr (OutcomeBlocked AdapterUnavailable))))))"

definition reject_unchecked_formal_certificate ::
  "externals \<Rightarrow> evidence_verification_context \<Rightarrow> formal_verification_invocation
   \<Rightarrow> evidence_artifact_input list \<Rightarrow> store \<Rightarrow> action_outcome res" where
  "reject_unchecked_formal_certificate X context formal evidence fs =
     rbind (read_single_evidence X (cx_private_root context) evidence FormalCertificate
              ''formal_certificate_cardinality_or_kind_invalid'' fs) (\<lambda>bytes.
     rbind (ok_or (from_slice_certificate X bytes) (Integrity ''formal_certificate_encoding_invalid'')) (\<lambda>artifact.
     rbind (reject (to_vec X (PFormalCertificate artifact) \<noteq> bytes)
            (Integrity ''formal_certificate_not_canonical'')) (\<lambda>_.
     rbind (evidence_authority_binding_validate X (fc_binding artifact) context) (\<lambda>_.
     rbind (reject (fc_protocol artifact \<noteq> ExternalCertificateV1
              \<or> fc_proof_system artifact \<noteq> fv_proof_system formal
              \<or> fc_property artifact \<noteq> fv_property formal
              \<or> fc_certificate artifact = [])
            (Integrity ''formal_certificate_protocol_or_inputs_mismatch'')) (\<lambda>_.
     Inl (Integrity ''formal_certificate_checker_backend_unavailable''))))))"

fun is_dependency_expansion :: "cognitive_invocation \<Rightarrow> bool" where
  "is_dependency_expansion (InvExpandDependencyClosure _) = True"
| "is_dependency_expansion _ = False"

definition derive_completed ::
  "externals \<Rightarrow> evidence_verification_context \<Rightarrow> action_outcome \<Rightarrow> evidence_artifact_input list \<Rightarrow> store
   \<Rightarrow> action_outcome res" where
  "derive_completed X context proposed evidence fs =
     (case proposed of
        Completed _ dependency_edges discovered_obligations \<Rightarrow>
          rbind (reject (discovered_obligations \<noteq> []
                   \<or> (\<not> is_dependency_expansion (cx_invocation context) \<and> dependency_edges \<noteq> []))
                 (Integrity ''semantic_verifier_forbids_unverified_derivations'')) (\<lambda>_.
          let agree = (\<lambda>derived. rbind (reject (derived \<noteq> proposed)
                         (Integrity ''executor_outcome_not_canonically_derived'')) (\<lambda>_. Inr derived)) in
          case cx_invocation context of
            InvObserveTrace trace \<Rightarrow> rbind (derive_trace X context trace evidence fs) agree
          | InvExecuteScenario scenario \<Rightarrow> rbind (derive_scenario X context scenario evidence fs) agree
          | InvCausalIntervention causal \<Rightarrow> rbind (derive_causal X context causal evidence fs) agree
          | InvSearchCounterexample search \<Rightarrow> rbind (derive_counterexample X context search evidence fs) agree
          | InvVerifyFormalProperty formal \<Rightarrow>
              reject_unchecked_formal_certificate X context formal evidence fs
          | InvExpandDependencyClosure _ \<Rightarrow> rbind (derive_dependency_graph X context evidence fs) agree)
      | _ \<Rightarrow> Inl (Integrity ''completed_evidence_derivation_requires_completed_outcome''))"

definition derive_verified_outcome ::
  "externals \<Rightarrow> evidence_verification_context \<Rightarrow> action_outcome \<Rightarrow> evidence_artifact_input list \<Rightarrow> store
   \<Rightarrow> action_outcome res" where
  "derive_verified_outcome X context proposed evidence fs =
     (case proposed of
        Completed _ _ _ \<Rightarrow> derive_completed X context proposed evidence fs
      | OutcomeBlocked _ \<Rightarrow>
          (case cx_invocation context of
             InvVerifyFormalProperty formal \<Rightarrow>
               derive_formal_backend_unavailable X context formal proposed evidence fs
           | _ \<Rightarrow> Inr proposed)
      | BoundedNoResult _ \<Rightarrow>
          (case cx_invocation context of
             InvVerifyFormalProperty _ \<Rightarrow> Inl (Integrity ''formal_bounded_result_requires_real_backend'')
           | _ \<Rightarrow> Inr proposed))"

section \<open>The executor bridge\<close>

record authenticated_evidence_executor =
  ex_identity :: executor_identity_draft
  ex_expected_invocation :: digest
  ex_execution :: adapter_execution

definition authenticated_executor_new ::
  "executor_identity_draft \<Rightarrow> digest \<Rightarrow> action_outcome \<Rightarrow> evidence_artifact_input list
   \<Rightarrow> authenticated_evidence_executor res" where
  "authenticated_executor_new identity expected outcome evidence =
     rbind (reject (evidence = []) (Invalid ''authenticated_executor_evidence_empty'')) (\<lambda>_.
     Inr \<lparr>ex_identity = identity, ex_expected_invocation = expected,
          ex_execution = \<lparr>exec_outcome = outcome, exec_evidence = evidence\<rparr>\<rparr>)"

definition executor_invoke ::
  "externals \<Rightarrow> authenticated_evidence_executor \<Rightarrow> cognitive_invocation \<Rightarrow> adapter_execution res" where
  "executor_invoke X executor invoc =
     rbind (reject (invocation_digest X invoc \<noteq> ex_expected_invocation executor)
              (Integrity ''authenticated_executor_invocation_mismatch'')) (\<lambda>_.
     Inr (ex_execution executor))"

section \<open>What a derived outcome is\<close>

lemma map_of_insert_all: "map_of (insert_all new obs) = map_of obs ++ map_of (rev new)"
  unfolding insert_all_def
  by (induction new arbitrary: obs) (auto simp: map_add_assoc)

lemma bm_ok_insert_all: "bm_ok obs \<Longrightarrow> bm_ok (insert_all new obs)"
  unfolding insert_all_def by (induction new arbitrary: obs) auto

lemma validate_exact_observation_keys_dom:
  "validate_exact_observation_keys obs expected code = Inr u \<Longrightarrow> dom (map_of obs) = set expected"
  using set_bm_keys[of obs] by (auto simp: validate_exact_observation_keys_def)

lemma validate_types_decides:
  "validate_predicate_observation_types obs ps code = Inr u \<Longrightarrow> p \<in> set ps \<Longrightarrow>
   evaluate p obs = Matches \<or> evaluate p obs = Contradicts"
  by (cases "evaluate p obs") (auto simp: validate_predicate_observation_types_def list_ex_iff)

lemma read_single_evidence_Inr:
  assumes "read_single_evidence X root evidence kind code fs = Inr bytes"
  shows "\<exists>e. evidence = [e] \<and> input_kind e = kind \<and> fs (ref_path (input_artifact e)) = Some bytes
           \<and> sha X bytes = ref_sha256 (input_artifact e)"
proof -
  from assms have len: "length evidence = 1" and kind: "input_kind (evidence ! 0) = kind"
    and read: "read_verified_bounded (sha X) root (input_artifact (evidence ! 0)) MAX_EVIDENCE_ARTIFACT_BYTES fs
             = Inr bytes"
    by (auto simp: read_single_evidence_def)
  from len have "evidence = [evidence ! 0]" by (cases evidence) auto
  with kind read_verified_bounded_ok(1,2)[OF read] show ?thesis by blast
qed

text \<open>Replay keeps the last value observed for each key.\<close>

definition last_observed :: "string \<Rightarrow> trace_evidence_event list \<Rightarrow> observed_value option" where
  "last_observed key events =
     (case filter (\<lambda>v. v \<noteq> None) (map (\<lambda>e. map_of (rev (event_observations e)) key) (rev events)) of
        [] \<Rightarrow> None | v # _ \<Rightarrow> v)"

lemma last_observed_Nil [simp]: "last_observed key [] = None"
  by (simp add: last_observed_def)

lemma last_observed_Cons:
  "last_observed key (e # events) =
     (case last_observed key events of
        None \<Rightarrow> map_of (rev (event_observations e)) key | Some v \<Rightarrow> Some v)"
proof -
  let ?tail = "filter (\<lambda>v. v \<noteq> None) (map (\<lambda>e. map_of (rev (event_observations e)) key) (rev events))"
  have "set ?tail \<subseteq> {v. v \<noteq> None}" by auto
  then show ?thesis
    by (cases ?tail; cases "map_of (rev (event_observations e)) key")
       (auto simp: last_observed_def split: list.splits)
qed

lemma trace_replay_observed:
  "trace_replay keys index events obs = Inr obs' \<Longrightarrow>
   map_of obs' key = (case last_observed key events of None \<Rightarrow> map_of obs key | Some v \<Rightarrow> Some v)"
proof (induction keys index events obs rule: trace_replay.induct)
  case (2 keys index event events obs)
  then have "map_of obs' key = (case last_observed key events of
       None \<Rightarrow> map_of (insert_all (event_observations event) obs) key | Some v \<Rightarrow> Some v)"
    by simp
  then show ?case
    by (auto simp: last_observed_Cons map_of_insert_all map_add_def split: option.splits)
qed simp

lemma trace_replay_ordinals:
  "trace_replay keys index events obs = Inr obs' \<Longrightarrow>
   map event_ordinal events = [index ..< index + length events]"
proof (induction keys index events obs rule: trace_replay.induct)
  case (2 keys index event events obs)
  then show ?case by (simp add: upt_conv_Cons del: upt_Suc)
qed simp

lemma derive_trace_Inr:
  assumes "derive_trace X context trace evidence fs = Inr outcome"
  shows "\<exists>bytes artifact obs. read_single_evidence X (cx_private_root context) evidence RuntimeTrace
             ''trace_evidence_cardinality_or_kind_invalid'' fs = Inr bytes
           \<and> from_slice_trace X bytes = Some artifact
           \<and> evidence_authority_binding_validate X (ta_binding artifact) context = Inr ()
           \<and> trace_replay (tr_observation_keys trace) 0 (ta_events artifact) [] = Inr obs
           \<and> dom (map_of obs) = set (tr_observation_keys trace)
           \<and> evaluate (criterion_predicate (ib_criterion (tr_binding trace))) obs \<in> {Matches, Contradicts}
           \<and> outcome = Completed obs [] []"
  using assms
  by (auto simp: derive_trace_def trace_decode_canonical_def canonical_completed_def
      dest!: validate_exact_observation_keys_dom validate_types_decides)

text \<open>The search finds the first case that contradicts the target.\<close>

lemma search_cases_Some:
  "search_cases X target required ps cases seen (Some obs) = Inr first \<Longrightarrow> first = Some obs"
  by (induction cases arbitrary: seen) auto

lemma search_cases_first:
  "search_cases X target required ps cases seen None = Inr (Some obs) \<Longrightarrow> target \<in> set ps \<Longrightarrow>
   \<exists>i < length cases. obs = case_observations (cases ! i) \<and> evaluate target obs = Contradicts
     \<and> (\<forall>j < i. evaluate target (case_observations (cases ! j)) = Matches)"
proof (induction cases arbitrary: seen)
  case (Cons c cases)
  from Cons.prems have ty: "validate_predicate_observation_types (case_observations c) ps
      ''counterexample_case_observation_type_mismatch'' = Inr ()" by auto
  show ?case
  proof (cases "evaluate target (case_observations c) = Contradicts")
    case True
    with Cons.prems have "search_cases X target required ps cases
       (bs_insert (to_vec X (PInputs (case_inputs c))) seen) (Some (case_observations c)) = Inr (Some obs)"
      by auto
    from search_cases_Some[OF this] True show ?thesis by (intro exI[of _ 0]) simp
  next
    case False
    with Cons.prems have "search_cases X target required ps cases
       (bs_insert (to_vec X (PInputs (case_inputs c))) seen) None = Inr (Some obs)" by auto
    from Cons.IH[OF this Cons.prems(2)] obtain i where i: "i < length cases" "obs = case_observations (cases ! i)"
      "evaluate target obs = Contradicts"
      "\<forall>j < i. evaluate target (case_observations (cases ! j)) = Matches" by blast
    have m: "evaluate target (case_observations c) = Matches"
      using validate_types_decides[OF ty Cons.prems(2)] False by blast
    have "evaluate target (case_observations ((c # cases) ! j)) = Matches" if "j < Suc i" for j
      using that m i(4) by (cases j) auto
    with i(1-3) show ?thesis by (intro exI[of _ "Suc i"]) simp
  qed
qed simp

lemma search_cases_distinct:
  "search_cases X target required ps cases seen first = Inr first' \<Longrightarrow>
   distinct (map (\<lambda>c. to_vec X (PInputs (case_inputs c))) cases)
   \<and> (\<forall>c \<in> set cases. to_vec X (PInputs (case_inputs c)) \<notin> set seen
        \<and> dom (map_of (case_observations c)) = set required)"
proof (induction cases arbitrary: seen first)
  case (Cons c cases)
  then have r: "search_cases X target required ps cases
       (bs_insert (to_vec X (PInputs (case_inputs c))) seen)
       (if first = None \<and> evaluate target (case_observations c) = Contradicts
        then Some (case_observations c) else first) = Inr first'"
    and fresh: "to_vec X (PInputs (case_inputs c)) \<notin> set seen"
    and d: "dom (map_of (case_observations c)) = set required"
    by (auto dest!: validate_exact_observation_keys_dom)
  from Cons.IH[OF r] fresh d show ?case by auto
qed simp

lemma derive_counterexample_Inr:
  assumes "derive_counterexample X context search evidence fs = Inr outcome"
  shows "\<exists>bytes artifact obs i. read_single_evidence X (cx_private_root context) evidence CounterexampleSearch
             ''counterexample_evidence_cardinality_or_kind_invalid'' fs = Inr bytes
           \<and> from_slice_counterexample X bytes = Some artifact
           \<and> evidence_authority_binding_validate X (cea_binding artifact) context = Inr ()
           \<and> outcome = Completed obs [] []
           \<and> i < length (cea_cases artifact) \<and> obs = case_observations (bm_values (cea_cases artifact) ! i)
           \<and> evaluate (ce_target search) obs = Contradicts
           \<and> (\<forall>j < i. evaluate (ce_target search) (case_observations (bm_values (cea_cases artifact) ! j)) = Matches)
           \<and> dom (map_of obs) = set (required_observations (cx_invocation context))
           \<and> distinct (map (\<lambda>c. to_vec X (PInputs (case_inputs c))) (bm_values (cea_cases artifact)))"
proof -
  from assms obtain bytes artifact obs where
    read: "read_single_evidence X (cx_private_root context) evidence CounterexampleSearch
             ''counterexample_evidence_cardinality_or_kind_invalid'' fs = Inr bytes"
    and dec: "from_slice_counterexample X bytes = Some artifact"
    and eb: "evidence_authority_binding_validate X (cea_binding artifact) context = Inr ()"
    and sc: "search_cases X (ce_target search) (required_observations (cx_invocation context))
              (ce_target search # bm_values (ce_predictions search)) (bm_values (cea_cases artifact)) [] None
            = Inr (Some obs)"
    and out: "outcome = Completed obs [] []"
    by (auto simp: derive_counterexample_def counterexample_decode_canonical_def canonical_completed_def)
  from search_cases_first[OF sc] obtain i where i: "i < length (bm_values (cea_cases artifact))"
    "obs = case_observations (bm_values (cea_cases artifact) ! i)" "evaluate (ce_target search) obs = Contradicts"
    "\<forall>j < i. evaluate (ce_target search) (case_observations (bm_values (cea_cases artifact) ! j)) = Matches"
    by auto
  from search_cases_distinct[OF sc] i(1,2) have
    "dom (map_of obs) = set (required_observations (cx_invocation context))"
    "distinct (map (\<lambda>c. to_vec X (PInputs (case_inputs c))) (bm_values (cea_cases artifact)))"
    by auto
  moreover have "i < length (cea_cases artifact)" using i(1) by (simp add: bm_values_def)
  ultimately show ?thesis using read dec eb out i(2-4)
    by (intro exI[of _ bytes] exI[of _ artifact] exI[of _ obs] exI[of _ i] conjI) simp_all
qed

lemma derive_scenario_Inr:
  assumes "derive_scenario X context scenario evidence fs = Inr outcome"
  shows "\<exists>bytes artifact. read_single_evidence X (cx_private_root context) evidence ScenarioResult
             ''scenario_evidence_cardinality_or_kind_invalid'' fs = Inr bytes
           \<and> scenario_decode_canonical X bytes = Inr artifact
           \<and> evidence_authority_binding_validate X (sa_binding artifact) context = Inr ()
           \<and> dom (map_of (sa_observations artifact)) = set (sc_observation_keys scenario)
           \<and> evaluate (criterion_predicate (ib_criterion (sc_binding scenario))) (sa_observations artifact)
               \<in> {Matches, Contradicts}
           \<and> outcome = Completed (sa_observations artifact) [] []"
  using assms
  by (auto simp: derive_scenario_def canonical_completed_def
      dest!: validate_exact_observation_keys_dom validate_types_decides)

lemma derive_causal_Inr:
  assumes "derive_causal X context causal evidence fs = Inr outcome"
  shows "\<exists>bytes artifact. read_single_evidence X (cx_private_root context) evidence CausalComparison
             ''causal_evidence_cardinality_or_kind_invalid'' fs = Inr bytes
           \<and> causal_decode_canonical X bytes = Inr artifact
           \<and> evidence_authority_binding_validate X (caa_binding artifact) context = Inr ()
           \<and> dom (map_of (caa_treatment_observations artifact)) = set (required_observations (cx_invocation context))
           \<and> dom (map_of (caa_baseline_observations artifact)) = set (required_observations (cx_invocation context))
           \<and> evaluate (ca_effect causal) (caa_treatment_observations artifact) \<in> {Matches, Contradicts}
           \<and> outcome = Completed (caa_treatment_observations artifact) [] []"
  using assms
  by (auto simp: derive_causal_def canonical_completed_def Let_def
      dest!: validate_exact_observation_keys_dom validate_types_decides)

lemma derive_dependency_graph_Inr:
  assumes "derive_dependency_graph X context evidence fs = Inr outcome"
  shows "\<exists>bytes artifact expansion. read_single_evidence X (cx_private_root context) evidence DependencyGraph
             ''dependency_graph_evidence_cardinality_or_kind_invalid'' fs = Inr bytes
           \<and> dependency_decode_canonical X bytes = Inr artifact
           \<and> evidence_authority_binding_validate X (da_binding artifact) context = Inr ()
           \<and> cx_invocation context = InvExpandDependencyClosure expansion
           \<and> (\<forall>edge \<in> set (da_edges artifact). edge_from edge = de_root expansion)
           \<and> outcome = Completed (canonical_dependency_closure_observations expansion) (da_edges artifact) []"
  using assms
  by (cases "cx_invocation context") (auto simp: derive_dependency_graph_def list_ex_iff)

lemma formal_certificate_rejected [simp]: "reject_unchecked_formal_certificate X context formal evidence fs \<noteq> Inr outcome"
  by (auto simp: reject_unchecked_formal_certificate_def)

lemma derive_completed_Inr:
  assumes "derive_completed X context proposed evidence fs = Inr outcome"
  shows "outcome = proposed \<and> (\<exists>obs es. outcome = Completed obs es []
           \<and> (es \<noteq> [] \<longrightarrow> is_dependency_expansion (cx_invocation context)))"
  using assms
  by (auto simp: derive_completed_def Let_def split: action_outcome.splits cognitive_invocation.splits)

lemma derive_completed_cases:
  assumes "derive_completed X context proposed evidence fs = Inr outcome"
  obtains (trace) trace where "cx_invocation context = InvObserveTrace trace"
      "derive_trace X context trace evidence fs = Inr outcome"
    | (scenario) scenario where "cx_invocation context = InvExecuteScenario scenario"
      "derive_scenario X context scenario evidence fs = Inr outcome"
    | (causal) causal where "cx_invocation context = InvCausalIntervention causal"
      "derive_causal X context causal evidence fs = Inr outcome"
    | (search) search where "cx_invocation context = InvSearchCounterexample search"
      "derive_counterexample X context search evidence fs = Inr outcome"
    | (dependency) expansion where "cx_invocation context = InvExpandDependencyClosure expansion"
      "derive_dependency_graph X context evidence fs = Inr outcome"
  using assms
  by (auto simp: derive_completed_def Let_def split: action_outcome.splits cognitive_invocation.splits)

lemma derive_verified_outcome_Inr:
  "derive_verified_outcome X context proposed evidence fs = Inr outcome \<Longrightarrow> outcome = proposed"
  using derive_completed_Inr[of X "context" proposed evidence fs outcome]
  by (auto simp: derive_verified_outcome_def derive_formal_backend_unavailable_def
      split: action_outcome.splits cognitive_invocation.splits)

text \<open>The criterion of an invocation is bound to what the invocation asks.\<close>

fun invocation_criterion_bound :: "cognitive_invocation \<Rightarrow> bool" where
  "invocation_criterion_bound (InvCausalIntervention v)
     \<longleftrightarrow> ca_effect v = criterion_predicate (ib_criterion (ca_binding v))"
| "invocation_criterion_bound (InvSearchCounterexample v)
     \<longleftrightarrow> ce_target v = criterion_predicate (ib_criterion (ce_binding v))"
| "invocation_criterion_bound _ \<longleftrightarrow> True"

lemma derived_outcome_decides:
  assumes "derive_completed X context proposed evidence fs = Inr (Completed obs es ds)"
    and "invocation_criterion_bound (cx_invocation context)"
  shows "evaluate (criterion_predicate (ib_criterion (binding (cx_invocation context)))) obs
          \<in> {Matches, Contradicts}"
  using assms(1)
proof (cases rule: derive_completed_cases)
  case (trace trace)
  with derive_trace_Inr[OF trace(2)] show ?thesis by auto
next
  case (scenario scenario)
  with derive_scenario_Inr[OF scenario(2)] show ?thesis by auto
next
  case (causal causal)
  with derive_causal_Inr[OF causal(2)] assms(2) show ?thesis by auto
next
  case (search search)
  with derive_counterexample_Inr[OF search(2)] assms(2) show ?thesis by auto
next
  case (dependency expansion)
  have "evaluate (criterion_predicate (ib_criterion (de_binding expansion)))
      (canonical_dependency_closure_observations expansion) = Matches"
    by (rule observation_for_predicate_matches) (simp add: canonical_dependency_closure_observations_def Let_def)
  with dependency derive_dependency_graph_Inr[OF dependency(2)] show ?thesis by auto
qed

section \<open>Producer and verifier agree\<close>

text \<open>The context in which the engine verifies what \<open>executor\<close> returned for \<open>invoc\<close>.\<close>

definition attestation_of :: "externals \<Rightarrow> executor_identity_draft \<Rightarrow> executor_attestation" where
  "attestation_of X executor =
     \<lparr>att_executor_id = id_executor_id executor, att_interface_version = id_interface_version executor,
      att_implementation = id_implementation executor,
      att_version_digest = calculate_executor_version_digest X (id_executor_id executor)
        (id_interface_version executor) (ref_sha256 (id_implementation executor))
        (ref_sha256 (id_implementation executor))\<rparr>"

definition verification_context ::
  "externals \<Rightarrow> path \<Rightarrow> cognitive_invocation \<Rightarrow> executor_identity_draft \<Rightarrow> evidence_verification_context" where
  "verification_context X root invoc executor =
     \<lparr>cx_private_root = root, cx_authority_instance = ib_authority_instance (binding invoc),
      cx_authority_root = ib_authority_root (binding invoc), cx_invocation = invoc,
      cx_executor = attestation_of X executor\<rparr>"

lemma evidence_binding_accepted:
  assumes "evidence_authority_binding_from_invocation X invoc executor = Inr eb"
  shows "evidence_authority_binding_validate X eb (verification_context X root invoc executor) = Inr ()"
  using assms by (auto simp: evidence_authority_binding_from_invocation_def Let_def
      evidence_authority_binding_validate_def verification_context_def attestation_of_def)

lemma read_single_evidence_eq:
  assumes "good_root root" "confined root p" "fs p = Some bytes" "length bytes \<le> MAX_EVIDENCE_ARTIFACT_BYTES"
    and "is_valid_str (sha X bytes)"
  shows "read_single_evidence X root [\<lparr>input_kind = k, input_artifact = \<lparr>ref_path = p, ref_sha256 = sha X bytes\<rparr>\<rparr>]
      k code fs = Inr bytes"
  using assms verify_store_file by (simp add: read_single_evidence_def read_verified_bounded_eq MAX_EVIDENCE_ARTIFACT_BYTES_def)

lemma bs_of_bm_keys: "bm_ok m \<Longrightarrow> dom (map_of m) = set keys \<Longrightarrow> bs_ok keys \<Longrightarrow> bs_of (bm_keys m) = keys"
  by (intro bs_ok_eqI) simp_all

lemma derive_scenario_complete:
  assumes art: "scenario_artifact_from_invocation X (InvExecuteScenario scenario) executor obs = Inr artifact"
    and dec: "from_slice_scenario X (to_vec X (PScenarioArtifact artifact)) = Some artifact"
    and read: "read_single_evidence X root evidence ScenarioResult
                 ''scenario_evidence_cardinality_or_kind_invalid'' fs = Inr (to_vec X (PScenarioArtifact artifact))"
    and keys: "bm_ok obs" "bs_ok (sc_observation_keys scenario)" "dom (map_of obs) = set (sc_observation_keys scenario)"
    and ty: "evaluate (criterion_predicate (ib_criterion (sc_binding scenario))) obs \<in> {Matches, Contradicts}"
  shows "derive_scenario X (verification_context X root (InvExecuteScenario scenario) executor) scenario evidence fs
       = Inr (Completed obs [] [])"
proof -
  from art obtain eb where eb: "evidence_authority_binding_from_invocation X (InvExecuteScenario scenario) executor = Inr eb"
    and a: "artifact = \<lparr>sa_binding = eb, sa_protocol = ExactScenarioObservationV1,
          sa_scenario_id = sc_scenario_id scenario, sa_inputs = sc_inputs scenario,
          sa_observation_keys = sc_observation_keys scenario, sa_observations = obs\<rparr>" by auto
  let ?cx = "verification_context X root (InvExecuteScenario scenario) executor"
  have root: "cx_private_root ?cx = root" by (simp add: verification_context_def)
  have d: "scenario_decode_canonical X (to_vec X (PScenarioArtifact artifact)) = Inr artifact"
    using dec by (simp add: scenario_decode_canonical_def)
  have k: "validate_exact_observation_keys obs (sc_observation_keys scenario) c = Inr ()" for c
    using bs_of_bm_keys[OF keys(1) keys(3) keys(2)] by (simp add: validate_exact_observation_keys_def)
  have t: "validate_predicate_observation_types obs
      [criterion_predicate (ib_criterion (sc_binding scenario))] c = Inr ()" for c
    using ty by (auto simp: validate_predicate_observation_types_def)
  show ?thesis
    by (simp only: derive_scenario_def root read rbind_simps d) 
      (simp add: a evidence_binding_accepted[OF eb] k t canonical_completed_def)
qed

text \<open>A binding is not transferable: it fixes the invocation, its parent state and the executor.\<close>

lemma evidence_binding_unique:
  assumes "evidence_authority_binding_validate X eb c = Inr ()" "evidence_authority_binding_validate X eb c' = Inr ()"
  shows "invocation_digest X (cx_invocation c) = invocation_digest X (cx_invocation c')
     \<and> ib_parent_state (binding (cx_invocation c)) = ib_parent_state (binding (cx_invocation c'))
     \<and> ib_action_id (binding (cx_invocation c)) = ib_action_id (binding (cx_invocation c'))
     \<and> att_version_digest (cx_executor c) = att_version_digest (cx_executor c')"
  using assms by (auto simp: evidence_authority_binding_validate_def Let_def)

end
