(* ===== verification/Knowledge_Planner.thy ===== *)
theory Knowledge_Planner
  imports Knowledge_State Knowledge_Evidence
begin

text \<open>
  The planner of \<open>src/knowledge/knowledge_engine.rs\<close>: \<open>derive_terminal\<close>, \<open>plan\<close>,
  \<open>materialize_invocation\<close> and the \<open>living_staircase\<close> projection. The lemmas characterize each
  decision: when an inquiry is complete, blocked or bounded, and which obligation is invoked.
\<close>

section \<open>Terminals\<close>

fun block_reason :: "knowledge_obligation_state \<Rightarrow> knowledge_block_reason option" where
  "block_reason (Blocked _ _ reason) = Some reason"
| "block_reason _ = None"

fun is_conflicted :: "hypothesis_assessment \<Rightarrow> bool" where
  "is_conflicted (Conflicted _ _) = True"
| "is_conflicted _ = False"

definition obligation_blockers :: "knowledge_state \<Rightarrow> (string, knowledge_block_reason) bmap" where
  "obligation_blockers s =
     fold (\<lambda>(oid, ob) blockers. case block_reason (obligation_state ob) of
             Some reason \<Rightarrow> bm_insert oid reason blockers | None \<Rightarrow> blockers)
       (ks_obligations s) []"

definition predicts :: "string \<Rightarrow> cognitive_plan \<Rightarrow> bool" where
  "predicts hid plan =
     (case plan_predictions plan of None \<Rightarrow> False | Some predictions \<Rightarrow> map_of predictions hid \<noteq> None)"

definition conflict_blocker ::
  "knowledge_state \<Rightarrow> knowledge_hypothesis \<Rightarrow> (string, knowledge_block_reason) bmap
   \<Rightarrow> (string, knowledge_block_reason) bmap res" where
  "conflict_blocker s h blockers =
     (if is_conflicted (hypothesis_assessment h)
      then rbind (ok_or (find (\<lambda>ob. predicts (hypothesis_id h) (obligation_plan ob)) (bm_values (ks_obligations s)))
                   (Integrity ''conflicted_hypothesis_without_obligation'')) (\<lambda>ob.
           Inr (bm_insert (obligation_id ob)
                  (HypothesisConflict (hypothesis_family_id h) (hypothesis_id h)) blockers))
      else Inr blockers)"

definition derive_blockers :: "knowledge_state \<Rightarrow> (string, knowledge_block_reason) bmap res" where
  "derive_blockers s = rfold (conflict_blocker s) (bm_values (ks_hypotheses s)) (obligation_blockers s)"

definition bounded_terminal :: "knowledge_state \<Rightarrow> bounded_unknown_reason \<Rightarrow> knowledge_terminal" where
  "bounded_terminal s reason =
     BoundedUnknown (ks_manifest_digest s) (ks_revision s) reason
       (bs_of (map fst (filter (\<lambda>(_, ob). \<not> is_satisfied (obligation_state ob)) (ks_obligations s))))"

fun is_expansion_plan :: "cognitive_plan \<Rightarrow> bool" where
  "is_expansion_plan (ExpandDependencyClosure _ _ _) = True"
| "is_expansion_plan _ = False"

definition open_expansion :: "knowledge_state \<Rightarrow> bool" where
  "open_expansion s = list_ex (\<lambda>ob. is_open (obligation_state ob) \<and> is_expansion_plan (obligation_plan ob))
     (bm_values (ks_obligations s))"

definition all_satisfied :: "knowledge_state \<Rightarrow> bool" where
  "all_satisfied s = list_all (\<lambda>ob. is_satisfied (obligation_state ob)) (bm_values (ks_obligations s))"

definition derive_terminal :: "knowledge_engine \<Rightarrow> knowledge_state \<Rightarrow> knowledge_terminal option res" where
  "derive_terminal E s =
     rbind (derive_blockers s) (\<lambda>blockers.
     if blockers \<noteq> [] then Inr (Some (TerminalBlocked (ks_manifest_digest s) (ks_revision s) blockers))
     else case ks_bounded_reason s of
       Some reason \<Rightarrow> Inr (Some (bounded_terminal s reason))
     | None \<Rightarrow>
         if all_satisfied s \<and> hypothesis_families_resolved (ks_hypotheses s)
         then Inr (Some (ScopedComplete (ks_manifest_digest s) (ks_revision s) (bs_of (bm_keys (ks_claims s)))))
         else if max_actions (ks_budget s) \<le> used_actions (ks_usage s)
         then Inr (Some (bounded_terminal s ActionBudgetExhausted))
         else if max_revision (ks_budget s) \<le> ks_revision s
         then Inr (Some (bounded_terminal s RevisionLimitReached))
         else if max_evidence_records (ks_budget s) \<le> used_evidence_records (ks_usage s)
         then Inr (Some (bounded_terminal s EvidenceLimitReached))
         else case find (\<lambda>ob. is_open (obligation_state ob)
                           \<and> kp_max_attempts_per_obligation (policy E) \<le> attempts (obligation_state ob))
                    (bm_values (ks_obligations s)) of
           Some ob \<Rightarrow> Inr (Some (bounded_terminal s (AttemptLimitReached (obligation_id ob))))
         | None \<Rightarrow>
             if max_dependency_nodes (ks_budget s) \<le> length (ks_dependency_parents s) \<and> open_expansion s
             then Inr (Some (bounded_terminal s DependencyNodeLimitReached))
             else rbind (dependency_edge_count (ks_dependency_graph s)) (\<lambda>edge_count.
               if max_dependency_edges (ks_budget s) \<le> edge_count \<and> open_expansion s
               then Inr (Some (bounded_terminal s DependencyEdgeLimitReached))
               else if all_satisfied s
               then Inr (Some (bounded_terminal s NoAdmissibleInvocation))
               else Inr None))"

section \<open>Planning\<close>

definition materialize_invocation ::
  "externals \<Rightarrow> knowledge_engine \<Rightarrow> knowledge_state \<Rightarrow> knowledge_obligation \<Rightarrow> cognitive_invocation res" where
  "materialize_invocation X E s ob =
     rbind (ok_or (checked_add 16 (attempts (obligation_state ob)) 1)
              (Invalid ''knowledge_attempt_overflow'')) (\<lambda>next_attempt.
     let ib = \<lparr>ib_authority_instance = authority_instance E, ib_authority_root = authority_root E,
           ib_inquiry_id = ks_inquiry_id s, ib_capability_bundle = ks_capability_bundle s,
           ib_parent_state = ks_manifest_digest s,
           ib_action_id = computed X ACTION_ID_DOMAIN (PAction (ks_manifest_digest s) (obligation_id ob) next_attempt),
           ib_obligation_id = obligation_id ob, ib_claim_id = obligation_claim_id ob,
           ib_attempt = next_attempt, ib_criterion = obligation_criterion ob\<rparr> in
     Inr (case obligation_plan ob of
            ObserveTrace observation_keys max_events \<Rightarrow>
              InvObserveTrace \<lparr>tr_binding = ib, tr_observation_keys = observation_keys, tr_max_events = max_events\<rparr>
          | ExecuteScenario scenario_id inputs observation_keys \<Rightarrow>
              InvExecuteScenario \<lparr>sc_binding = ib, sc_scenario_id = scenario_id, sc_inputs = inputs,
                sc_observation_keys = observation_keys\<rparr>
          | CausalIntervention variable baseline treatment effect predictions \<Rightarrow>
              InvCausalIntervention \<lparr>ca_binding = ib, ca_variable = variable, ca_baseline = baseline,
                ca_treatment = treatment, ca_effect = effect, ca_predictions = predictions\<rparr>
          | SearchCounterexample target max_cases predictions \<Rightarrow>
              InvSearchCounterexample \<lparr>ce_binding = ib, ce_target = target, ce_max_cases = max_cases,
                ce_predictions = predictions\<rparr>
          | VerifyFormalProperty proof_system property \<Rightarrow>
              InvVerifyFormalProperty \<lparr>fv_binding = ib, fv_proof_system = proof_system, fv_property = property\<rparr>
          | ExpandDependencyClosure root depth max_depth \<Rightarrow>
              InvExpandDependencyClosure \<lparr>de_binding = ib, de_root = root, de_depth = depth,
                de_max_depth = max_depth\<rparr>))"

text \<open>
  The open obligations sorted by identifier; the sort is the stable \<open>sort_by\<close> of the code. The
  loop skips the ones whose cost does not fit.
\<close>

definition open_obligations :: "knowledge_state \<Rightarrow> knowledge_obligation list" where
  "open_obligations s =
     sort_key obligation_id (filter (\<lambda>ob. is_open (obligation_state ob)) (bm_values (ks_obligations s)))"

definition affordable :: "knowledge_state \<Rightarrow> knowledge_obligation \<Rightarrow> bool" where
  "affordable s ob \<longleftrightarrow>
     saturating_add 64 (used_total_cost (ks_usage s)) (plan_cost (obligation_plan ob)) \<le> max_total_cost (ks_budget s)"

definition plan :: "externals \<Rightarrow> knowledge_engine \<Rightarrow> knowledge_state \<Rightarrow> store \<Rightarrow> planning_decision res" where
  "plan X E s fs =
     rbind (validate_state X E s fs) (\<lambda>_.
     rbind (derive_terminal E s) (\<lambda>terminal.
     case terminal of
       Some t \<Rightarrow> Inr (PlanTerminal t)
     | None \<Rightarrow>
         (case find (affordable s) (open_obligations s) of
            Some ob \<Rightarrow> rbind (materialize_invocation X E s ob) (\<lambda>invoc. Inr (PlanInvoke invoc))
          | None \<Rightarrow>
              Inr (PlanTerminal (bounded_terminal s
                (if open_obligations s \<noteq> [] then CostBudgetExhausted else NoAdmissibleInvocation))))))"

section \<open>The living staircase\<close>

fun staircase_state :: "knowledge_obligation_state \<Rightarrow> living_staircase_step_state" where
  "staircase_state (Open _ _) = StepOpen"
| "staircase_state (Satisfied _ _) = StepSatisfied"
| "staircase_state (Blocked _ _ _) = StepBlocked"

definition staircase_step :: "knowledge_state \<Rightarrow> knowledge_obligation \<Rightarrow> living_staircase_step res" where
  "staircase_step s ob =
     rbind (case obligation_plan ob of
              ExpandDependencyClosure root depth _ \<Rightarrow>
                rbind (reject (map_of (ks_dependency_depths s) root \<noteq> Some depth)
                         (Integrity ''living_staircase_depth_not_authenticated'')) (\<lambda>_. Inr depth)
            | _ \<Rightarrow> Inr 0) (\<lambda>depth.
     Inr \<lparr>step_obligation_id = obligation_id ob, step_claim_id = obligation_claim_id ob,
          step_domain = obligation_domain ob, step_depth = depth, step_plan = obligation_plan ob,
          step_state = staircase_state (obligation_state ob),
          step_attempts = attempts (obligation_state ob), step_witnesses = witnesses (obligation_state ob)\<rparr>)"

text \<open>\<open>collect::<BrainResult<Vec<_>>>()\<close>: stop at the first error.\<close>

fun rmap :: "('a \<Rightarrow> 'b res) \<Rightarrow> 'a list \<Rightarrow> 'b list res" where
  "rmap f [] = Inr []"
| "rmap f (x # xs) = rbind (f x) (\<lambda>y. rbind (rmap f xs) (\<lambda>ys. Inr (y # ys)))"

definition STAIRCASE_DOMAIN :: string where
  "STAIRCASE_DOMAIN = ''TIDEX:LIVING-STAIRCASE-PROJECTION:v1'' @ [CHR 0x00]"

text \<open>The comparator of \<open>sort_by\<close>: depth, then identifier; a sort by the pair is the same stable sort.\<close>

definition sort_steps :: "living_staircase_step list \<Rightarrow> living_staircase_step list" where
  "sort_steps steps = sort_key step_depth (sort_key step_obligation_id steps)"

definition living_staircase ::
  "externals \<Rightarrow> knowledge_engine \<Rightarrow> knowledge_state \<Rightarrow> store \<Rightarrow> living_staircase_projection res" where
  "living_staircase X E s fs =
     rbind (validate_state X E s fs) (\<lambda>_.
     rbind (rmap (staircase_step s) (bm_values (ks_obligations s))) (\<lambda>steps.
     let steps = sort_steps steps; maximum_depth = fold max (map step_depth steps) 0 in
     rbind (plan X E s fs) (\<lambda>next_decision.
     let projection = \<lparr>ls_schema = ''tidex.living_staircase_projection/v1'',
           ls_inquiry_id = ks_inquiry_id s, ls_knowledge_state = ks_manifest_digest s,
           ls_revision = ks_revision s, ls_steps = steps, ls_maximum_depth = maximum_depth,
           ls_next = next_decision, ls_manifest_sha256 = zero_digest\<rparr> in
     Inr (projection\<lparr>ls_manifest_sha256 :=
           digest_domain (sha X) STAIRCASE_DOMAIN (to_vec X (PStaircase projection))\<rparr>))))"

section \<open>What the decisions mean\<close>

lemma plan_Invoke:
  assumes "plan X E s fs = Inr (PlanInvoke invoc)"
  obtains ob where "validate_state X E s fs = Inr ()" "derive_terminal E s = Inr None"
    "find (affordable s) (open_obligations s) = Some ob" "materialize_invocation X E s ob = Inr invoc"
  using assms by (auto simp: plan_def split: option.splits)

lemma materialize_invocation_Inr:
  assumes "materialize_invocation X E s ob = Inr invoc"
  shows "ib_obligation_id (binding invoc) = obligation_id ob"
    and "ib_claim_id (binding invoc) = obligation_claim_id ob"
    and "ib_criterion (binding invoc) = obligation_criterion ob"
    and "ib_parent_state (binding invoc) = ks_manifest_digest s"
    and "ib_attempt (binding invoc) = Suc (attempts (obligation_state ob))"
    and "invocation_cost invoc = plan_cost (obligation_plan ob)"
    and "invocation_predictions invoc = plan_predictions (obligation_plan ob)"
    and "is_dependency_expansion invoc = is_expansion_plan (obligation_plan ob)"
  using assms by (cases "obligation_plan ob"; auto simp: materialize_invocation_def Let_def)+

text \<open>The blockers are empty exactly when nothing is blocked and nothing conflicts.\<close>

lemma obligation_blockers_Nil:
  "obligation_blockers s = [] \<longleftrightarrow> (\<forall>ob \<in> set (bm_values (ks_obligations s)). \<not> is_blocked (obligation_state ob))"
proof -
  let ?f = "\<lambda>(oid, ob) blockers. case block_reason (obligation_state ob) of
      Some reason \<Rightarrow> bm_insert oid reason blockers | None \<Rightarrow> blockers"
  have "fold ?f obs bl = [] \<longleftrightarrow> bl = [] \<and> (\<forall>p \<in> set obs. \<not> is_blocked (obligation_state (snd p)))" for obs bl
  proof (induction obs arbitrary: bl)
    case (Cons p obs)
    obtain oid ob where "p = (oid, ob)" by force
    with Cons show ?case by (cases "obligation_state ob") auto
  qed simp
  note loop = this
  show ?thesis unfolding obligation_blockers_def loop by (simp add: bm_values_def)
qed

lemma conflict_blocker_Inr:
  "conflict_blocker s h bl = Inr bl' \<Longrightarrow> bl' = [] \<longleftrightarrow> bl = [] \<and> \<not> is_conflicted (hypothesis_assessment h)"
  by (auto simp: conflict_blocker_def split: if_splits)

lemma derive_blockers_Nil:
  assumes "derive_blockers s = Inr bl"
  shows "bl = [] \<longleftrightarrow> (\<forall>ob \<in> set (bm_values (ks_obligations s)). \<not> is_blocked (obligation_state ob))
     \<and> (\<forall>h \<in> set (bm_values (ks_hypotheses s)). \<not> is_conflicted (hypothesis_assessment h))"
proof -
  have "bl' = [] \<longleftrightarrow> b = [] \<and> (\<forall>h \<in> set hs. \<not> is_conflicted (hypothesis_assessment h))"
    if "rfold (conflict_blocker s) hs b = Inr bl'" for hs b bl'
    using that
  proof (induction hs arbitrary: b)
    case (Cons h hs)
    then obtain b1 where b1: "conflict_blocker s h b = Inr b1" "rfold (conflict_blocker s) hs b1 = Inr bl'" by auto
    from Cons.IH[OF b1(2)] conflict_blocker_Inr[OF b1(1)] show ?case by auto
  qed simp
  from this[OF assms[unfolded derive_blockers_def]] show ?thesis by (simp add: obligation_blockers_Nil)
qed

lemma derive_blockers_total:
  assumes v: "validate_state_contents X s = Inr ()" and ok: "state_containers_ok s"
  shows "\<exists>bl. derive_blockers s = Inr bl"
proof -
  have "\<exists>b'. conflict_blocker s h b = Inr b'" if "h \<in> set (bm_values (ks_hypotheses s))" for h b
  proof -
    from hypothesis_predicted[OF v ok that] obtain ob where
      "ob \<in> set (bm_values (ks_obligations s))" "predicts (hypothesis_id h) (obligation_plan ob)"
      by (auto simp: predicts_def)
    then have "find (\<lambda>ob. predicts (hypothesis_id h) (obligation_plan ob)) (bm_values (ks_obligations s)) \<noteq> None"
      by (auto simp: find_None_iff)
    then show ?thesis by (auto simp: conflict_blocker_def)
  qed
  then have "\<exists>bl. rfold (conflict_blocker s) (bm_values (ks_hypotheses s)) (obligation_blockers s) = Inr bl \<and> True"
    by (intro rfold_total) auto
  then show ?thesis by (simp add: derive_blockers_def)
qed

text \<open>The terminal of a complete inquiry.\<close>

lemma derive_terminal_ScopedComplete:
  assumes "derive_terminal E s = Inr (Some (ScopedComplete d r cs))"
  shows "all_satisfied s" "hypothesis_families_resolved (ks_hypotheses s)" "ks_bounded_reason s = None"
    "d = ks_manifest_digest s" "r = ks_revision s" "cs = bs_of (bm_keys (ks_claims s))"
proof -
  from assms obtain bl where bl: "derive_blockers s = Inr bl" by (auto simp: derive_terminal_def)
  have "bl = []"
  proof (rule ccontr)
    assume "bl \<noteq> []"
    with assms bl show False by (simp add: derive_terminal_def)
  qed
  with bl assms show "all_satisfied s" "hypothesis_families_resolved (ks_hypotheses s)" "ks_bounded_reason s = None"
    "d = ks_manifest_digest s" "r = ks_revision s" "cs = bs_of (bm_keys (ks_claims s))"
    by (auto simp: derive_terminal_def bounded_terminal_def split: option.splits if_splits)
qed

lemma derive_terminal_ScopedComplete_iff:
  assumes "derive_blockers s = Inr bl"
  shows "(\<exists>d r cs. derive_terminal E s = Inr (Some (ScopedComplete d r cs))) \<longleftrightarrow>
     bl = [] \<and> ks_bounded_reason s = None \<and> all_satisfied s \<and> hypothesis_families_resolved (ks_hypotheses s)"
proof
  assume "\<exists>d r cs. derive_terminal E s = Inr (Some (ScopedComplete d r cs))"
  then obtain d r cs where t: "derive_terminal E s = Inr (Some (ScopedComplete d r cs))" by blast
  have "bl = []"
  proof (rule ccontr)
    assume "bl \<noteq> []"
    with assms t show False by (simp add: derive_terminal_def)
  qed
  with derive_terminal_ScopedComplete[OF t]
  show "bl = [] \<and> ks_bounded_reason s = None \<and> all_satisfied s \<and> hypothesis_families_resolved (ks_hypotheses s)"
    by blast
next
  assume "bl = [] \<and> ks_bounded_reason s = None \<and> all_satisfied s \<and> hypothesis_families_resolved (ks_hypotheses s)"
  with assms show "\<exists>d r cs. derive_terminal E s = Inr (Some (ScopedComplete d r cs))"
    by (simp add: derive_terminal_def)
qed

text \<open>A state that is not terminal has work left and room for it.\<close>

lemma derive_terminal_None:
  assumes "derive_terminal E s = Inr None"
  shows "derive_blockers s = Inr []" "ks_bounded_reason s = None" "\<not> all_satisfied s"
    "used_actions (ks_usage s) < max_actions (ks_budget s)" "ks_revision s < max_revision (ks_budget s)"
    "used_evidence_records (ks_usage s) < max_evidence_records (ks_budget s)"
    "\<And>ob. ob \<in> set (bm_values (ks_obligations s)) \<Longrightarrow> is_open (obligation_state ob) \<Longrightarrow>
        attempts (obligation_state ob) < kp_max_attempts_per_obligation (policy E)"
proof -
  from assms obtain bl where bl: "derive_blockers s = Inr bl" by (auto simp: derive_terminal_def)
  have "bl = []"
  proof (rule ccontr)
    assume "bl \<noteq> []"
    with assms bl show False by (simp add: derive_terminal_def)
  qed
  with bl show b: "derive_blockers s = Inr []" by simp
  from assms b show n: "ks_bounded_reason s = None" by (auto simp: derive_terminal_def split: option.splits)
  note d = assms[unfolded derive_terminal_def b rbind_simps n option.case]
  show "used_actions (ks_usage s) < max_actions (ks_budget s)" "ks_revision s < max_revision (ks_budget s)"
    "used_evidence_records (ks_usage s) < max_evidence_records (ks_budget s)"
    using d by (auto split: if_splits)
  have f: "find (\<lambda>ob. is_open (obligation_state ob)
      \<and> kp_max_attempts_per_obligation (policy E) \<le> attempts (obligation_state ob)) (bm_values (ks_obligations s)) = None"
    using d by (auto split: if_splits option.splits)
  then show "\<And>ob. ob \<in> set (bm_values (ks_obligations s)) \<Longrightarrow> is_open (obligation_state ob) \<Longrightarrow>
        attempts (obligation_state ob) < kp_max_attempts_per_obligation (policy E)"
    by (force simp: find_None_iff)
  show "\<not> all_satisfied s" using d f by (auto split: if_splits)
qed

lemma some_open:
  assumes "derive_terminal E s = Inr None"
  shows "open_obligations s \<noteq> []"
proof -
  from derive_terminal_None(3)[OF assms] obtain ob where ob: "ob \<in> set (bm_values (ks_obligations s))"
    "\<not> is_satisfied (obligation_state ob)" by (auto simp: all_satisfied_def list_all_iff)
  moreover have "\<not> is_blocked (obligation_state ob)"
    using derive_blockers_Nil[OF derive_terminal_None(1)[OF assms]] ob(1) by simp
  ultimately have "is_open (obligation_state ob)" by (cases "obligation_state ob") auto
  with ob(1) have "ob \<in> set (open_obligations s)" by (simp add: open_obligations_def)
  then show ?thesis by auto
qed

text \<open>On an accepted state the planner always decides.\<close>

lemma validate_state_budget:
  "validate_state_bounds s = Inr () \<Longrightarrow> max_dependency_nodes (ks_budget s) < 2 ^ 32
    \<and> length (ks_dependency_parents s) \<le> max_dependency_nodes (ks_budget s)
    \<and> (\<exists>n. dependency_edge_count (ks_dependency_graph s) = Inr n)"
  by (auto simp: validate_state_bounds_def budget_validate_def HARD_MAX_DEPENDENCY_NODES_def)

lemma derive_terminal_total:
  assumes "validate_state X E s fs = Inr ()" and "state_containers_ok s"
  shows "\<exists>t. derive_terminal E s = Inr t"
proof -
  from derive_blockers_total[OF validate_state_Inr(6)[OF assms(1)] assms(2)] obtain bl where
    "derive_blockers s = Inr bl" by blast
  moreover from validate_state_budget[OF validate_state_Inr(2)[OF assms(1)]] obtain n where
    "dependency_edge_count (ks_dependency_graph s) = Inr n" by blast
  ultimately show ?thesis
    by (simp add: derive_terminal_def split: option.split)
qed

lemma plan_total_aux:
  assumes v: "validate_state X E s fs = Inr ()" and ok: "state_containers_ok s"
    and a: "kp_max_attempts_per_obligation (policy E) < 2 ^ 16"
  shows "\<exists>d. plan X E s fs = Inr d"
proof -
  from derive_terminal_total[OF v ok] obtain t where t: "derive_terminal E s = Inr t" by blast
  show ?thesis
  proof (cases t)
    case (Some t')
    with v t show ?thesis by (simp add: plan_def)
  next
    case None
    show ?thesis
    proof (cases "find (affordable s) (open_obligations s)")
      case None
      with v t \<open>t = None\<close> show ?thesis by (simp add: plan_def)
    next
      case (Some ob)
      then have "ob \<in> set (open_obligations s)" by (auto simp: find_Some_iff)
      then have "ob \<in> set (bm_values (ks_obligations s))" "is_open (obligation_state ob)"
        by (simp_all add: open_obligations_def)
      with derive_terminal_None(7)[of E s ob] t \<open>t = None\<close> a have "attempts (obligation_state ob) + 1 < 2 ^ 16" by simp
      then have "checked_add 16 (attempts (obligation_state ob)) 1 = Some (attempts (obligation_state ob) + 1)"
        by (simp add: checked_add_def)
      then have "\<exists>invoc. materialize_invocation X E s ob = Inr invoc"
        by (simp add: materialize_invocation_def Let_def del: One_nat_def)
      with v t \<open>t = None\<close> Some show ?thesis by (auto simp: plan_def)
    qed
  qed
qed

text \<open>The planned obligation is the first open one that the remaining cost budget covers.\<close>

lemma sorted_find_least:
  assumes "find P (sort_key f xs) = Some x" "y \<in> set xs" "P y"
  shows "f x \<le> f y"
proof -
  from assms(1) obtain i where i: "i < length (sort_key f xs)" "P (sort_key f xs ! i)" "x = sort_key f xs ! i"
    "\<forall>j < i. \<not> P (sort_key f xs ! j)" by (auto simp: find_Some_iff)
  from assms(2) obtain j where j: "j < length (sort_key f xs)" "y = sort_key f xs ! j"
    by (metis in_set_conv_nth set_sort)
  with assms(3) i(4) have "i \<le> j" by (meson not_le)
  then show ?thesis using sorted_nth_mono[of "map f (sort_key f xs)" i j] i(1,3) j by simp
qed

lemma plan_choice:
  assumes "find (affordable s) (open_obligations s) = Some ob"
  shows "ob \<in> set (bm_values (ks_obligations s))" "is_open (obligation_state ob)" "affordable s ob"
    "\<And>ob'. ob' \<in> set (bm_values (ks_obligations s)) \<Longrightarrow> is_open (obligation_state ob') \<Longrightarrow> affordable s ob' \<Longrightarrow>
       obligation_id ob \<le> obligation_id ob'"
proof -
  from assms have "ob \<in> set (open_obligations s)" and aff: "affordable s ob" by (auto simp: find_Some_iff)
  then show "ob \<in> set (bm_values (ks_obligations s))" "is_open (obligation_state ob)" "affordable s ob"
    by (simp_all add: open_obligations_def)
  fix ob' assume "ob' \<in> set (bm_values (ks_obligations s))" "is_open (obligation_state ob')" "affordable s ob'"
  with sorted_find_least[OF assms[unfolded open_obligations_def]] show "obligation_id ob \<le> obligation_id ob'" by simp
qed

text \<open>In the affordable case the sum does not saturate.\<close>

lemma affordable_exact:
  "affordable s ob \<Longrightarrow> max_total_cost (ks_budget s) < 2 ^ 64 - 1 \<Longrightarrow>
   used_total_cost (ks_usage s) + plan_cost (obligation_plan ob) \<le> max_total_cost (ks_budget s)"
  by (simp add: affordable_def saturating_add_le_iff)

end
