(* ===== verification/Knowledge_Receipts.thy ===== *)
theory Knowledge_Receipts
  imports Knowledge_Planner
begin

text \<open>
  Action receipts of \<open>src/knowledge/knowledge_engine.rs\<close>: authentication of the executor, the
  checks of an execution's output, the sealed evidence records, \<open>issue_action_receipt\<close>,
  \<open>validate_action_receipt\<close> and the persistence of receipts. The checks are those of a production
  build (\<open>cfg(not(test))\<close>).
\<close>

section \<open>Executors and outcomes\<close>

definition authenticate_executor ::
  "externals \<Rightarrow> knowledge_engine \<Rightarrow> executor_identity_draft \<Rightarrow> store \<Rightarrow> executor_attestation res" where
  "authenticate_executor X E draft fs =
     rbind (read_verified_bounded (sha X) (private_root E) (id_implementation draft)
              MAX_EXECUTOR_IMPLEMENTATION_BYTES fs) (\<lambda>implementation_bytes.
     Inr \<lparr>att_executor_id = id_executor_id draft, att_interface_version = id_interface_version draft,
          att_implementation = id_implementation draft,
          att_version_digest = calculate_executor_version_digest X (id_executor_id draft)
            (id_interface_version draft) (ref_sha256 (id_implementation draft))
            (digest_bytes (sha X) implementation_bytes)\<rparr>)"

definition required_evidence_kinds :: "cognitive_invocation \<Rightarrow> action_outcome \<Rightarrow> evidence_kind bset" where
  "required_evidence_kinds invoc outcome =
     (case invoc of
        InvObserveTrace _ \<Rightarrow> [RuntimeTrace]
      | InvExecuteScenario _ \<Rightarrow> [ScenarioResult]
      | InvCausalIntervention _ \<Rightarrow> [CausalComparison]
      | InvSearchCounterexample _ \<Rightarrow> [CounterexampleSearch]
      | InvVerifyFormalProperty _ \<Rightarrow>
          (case outcome of Completed _ _ _ \<Rightarrow> [FormalCertificate] | _ \<Rightarrow> [FormalSearchLog])
      | InvExpandDependencyClosure _ \<Rightarrow> [DependencyGraph])"

fun is_completed :: "action_outcome \<Rightarrow> bool" where
  "is_completed (Completed _ _ _) = True"
| "is_completed _ = False"

fun is_formal :: "cognitive_invocation \<Rightarrow> bool" where
  "is_formal (InvVerifyFormalProperty _) = True"
| "is_formal _ = False"

text \<open>The loop over the discovered obligations, which runs only when there are none.\<close>

definition validate_discovery ::
  "externals \<Rightarrow> knowledge_budget \<Rightarrow> discovered_knowledge_obligation \<Rightarrow> schema \<Rightarrow> schema res" where
  "validate_discovery X budget d schema =
     rbind (validate_bounds budget (disc_plan d)) (\<lambda>_.
     rbind (validate_criterion_plan_binding X (disc_criterion d) (disc_plan d)) (\<lambda>_.
     rbind (reject (disc_claim_predicate d \<noteq> criterion_predicate (disc_criterion d)
              \<or> (\<not> is_profiled (disc_domain d) \<and> disc_domain d \<noteq> plan_domain (disc_plan d)))
            (Invalid ''discovered_obligation_invalid'')) (\<lambda>_.
     rbind (record_predicate_type (disc_claim_predicate d) schema) (\<lambda>schema.
     rbind (record_predicate_type (criterion_predicate (disc_criterion d)) schema) (\<lambda>schema.
     rfold record_predicate_type (plan_predicates (disc_plan d)) schema)))))"

definition completed_shape_invalid ::
  "knowledge_state \<Rightarrow> cognitive_invocation \<Rightarrow> observations \<Rightarrow> dependency_edge bset
   \<Rightarrow> (string, discovered_knowledge_obligation) bmap \<Rightarrow> bool res" where
  "completed_shape_invalid s invoc obs es ds =
     (if max_observations_per_action (ks_budget s) < length obs
         \<or> HARD_MAX_DEPENDENCY_EDGES_PER_ACTION < length es then Inr True
      else rbind (dependency_edge_count (ks_dependency_graph s)) (\<lambda>edge_count.
        Inr (max_dependency_edges (ks_budget s) < saturating_add 64 edge_count (length es)
             \<or> HARD_MAX_DISCOVERIES_PER_ACTION < length ds
             \<or> list_ex (\<lambda>key. map_of obs key = None) (required_observations invoc))))"

definition validate_outcome_shape ::
  "externals \<Rightarrow> knowledge_state \<Rightarrow> cognitive_invocation \<Rightarrow> action_outcome \<Rightarrow> unit res" where
  "validate_outcome_shape X s invoc outcome =
     (case outcome of
        Completed obs es ds \<Rightarrow>
          rbind (completed_shape_invalid s invoc obs es ds) (\<lambda>bad.
          rbind (reject bad (Invalid ''cognitive_execution_observations_incomplete'')) (\<lambda>_.
          rbind (reject (ds \<noteq> []) (Integrity ''discovery_requires_authenticated_derivation_policy'')) (\<lambda>_.
          rbind (case invoc of
                   InvExpandDependencyClosure v \<Rightarrow>
                     reject (list_ex (\<lambda>edge. edge_from edge \<noteq> de_root v) es)
                       (Invalid ''dependency_evidence_wrong_source'')
                 | _ \<Rightarrow> reject (es \<noteq> []) (Invalid ''dependency_edges_on_wrong_invocation'')) (\<lambda>_.
          rbind (observation_schema_from_state s) (\<lambda>schema.
          rbind (rfold (validate_discovery X (ks_budget s)) (bm_values ds) schema) (\<lambda>_. Inr ()))))))
      | _ \<Rightarrow> Inr ())"

definition engine_context ::
  "knowledge_engine \<Rightarrow> cognitive_invocation \<Rightarrow> executor_attestation \<Rightarrow> evidence_verification_context" where
  "engine_context E invoc executor =
     \<lparr>cx_private_root = private_root E, cx_authority_instance = authority_instance E,
      cx_authority_root = authority_root E, cx_invocation = invoc, cx_executor = executor\<rparr>"

definition rederive ::
  "externals \<Rightarrow> knowledge_engine \<Rightarrow> cognitive_invocation \<Rightarrow> executor_attestation \<Rightarrow> action_outcome
   \<Rightarrow> evidence_artifact_input list \<Rightarrow> string \<Rightarrow> store \<Rightarrow> unit res" where
  "rederive X E invoc executor outcome evidence code fs =
     (if is_completed outcome \<or> is_formal invoc
      then rbind (derive_verified_outcome X (engine_context E invoc executor) outcome evidence fs) (\<lambda>derived.
           reject (derived \<noteq> outcome) (Integrity code))
      else Inr ())"

definition validate_execution_output ::
  "externals \<Rightarrow> knowledge_engine \<Rightarrow> knowledge_state \<Rightarrow> cognitive_invocation \<Rightarrow> executor_attestation
   \<Rightarrow> adapter_execution \<Rightarrow> store \<Rightarrow> unit res" where
  "validate_execution_output X E s invoc executor execution fs =
     rbind (rederive X E invoc executor (exec_outcome execution) (exec_evidence execution)
              ''executor_outcome_not_semantically_derived'' fs) (\<lambda>_.
     rbind (reject (exec_evidence execution = []
              \<or> max_evidence_records (ks_budget s)
                  < saturating_add 64 (used_evidence_records (ks_usage s)) (length (exec_evidence execution)))
            (Invalid ''cognitive_execution_evidence_cardinality_invalid'')) (\<lambda>_.
     let expected_kinds = required_evidence_kinds invoc (exec_outcome execution);
         actual_kinds = bs_of (map input_kind (exec_evidence execution)) in
     rbind (reject (length actual_kinds \<noteq> length (exec_evidence execution) \<or> actual_kinds \<noteq> expected_kinds)
            (Invalid ''cognitive_execution_evidence_kind_invalid'')) (\<lambda>_.
     rbind (ref_verify (sha X) (private_root E) (att_implementation executor) fs) (\<lambda>_.
     validate_outcome_shape X s invoc (exec_outcome execution)))))"

section \<open>Validation of receipts\<close>

definition authenticate_evidence_record ::
  "externals \<Rightarrow> knowledge_engine \<Rightarrow> authenticated_evidence_reference \<Rightarrow> digest \<Rightarrow> string \<Rightarrow> digest \<Rightarrow> store
   \<Rightarrow> knowledge_evidence_record res" where
  "authenticate_evidence_record X E reference inv_digest executor_id outcome_digest fs =
     rbind (read_verified_bounded (sha X) (private_root E) (aer_record reference) MAX_EVIDENCE_RECORD_BYTES fs) (\<lambda>bytes.
     rbind (ok_or (from_slice_record X bytes) Json) (\<lambda>record.
     rbind (reject (ref_path (aer_record reference) \<noteq> semantic_path E ''evidence'' (er_manifest_digest record)
              \<or> er_schema record \<noteq> SchemaV1
              \<or> er_authority_root record \<noteq> authority_root E
              \<or> er_evidence_id record \<noteq> aer_evidence_id reference
              \<or> er_invocation_digest record \<noteq> inv_digest
              \<or> er_executor_id record \<noteq> executor_id
              \<or> er_kind record \<noteq> aer_kind reference
              \<or> er_outcome_digest record \<noteq> outcome_digest
              \<or> ref_sha256 (er_artifact record) \<noteq> aer_source_artifact_digest reference
              \<or> er_manifest_digest record \<noteq> aer_record_digest reference
              \<or> calculate_record_digest X record \<noteq> er_manifest_digest record)
            (Integrity ''knowledge_evidence_record_mismatch'')) (\<lambda>_.
     rbind (read_verified_bounded (sha X) (private_root E) (er_artifact record) MAX_EVIDENCE_ARTIFACT_BYTES fs) (\<lambda>artifact_bytes.
     rbind (reject (artifact_bytes = []) (Integrity ''knowledge_evidence_artifact_empty'')) (\<lambda>_.
     Inr record)))))"

text \<open>The loop over the evidence of a receipt: source digests and kinds seen, evidence so far.\<close>

fun receipt_evidence ::
  "externals \<Rightarrow> knowledge_engine \<Rightarrow> knowledge_state \<Rightarrow> action_receipt \<Rightarrow> digest \<Rightarrow> evidence_kind bset
   \<Rightarrow> (digest \<times> authenticated_evidence_reference) list \<Rightarrow> digest bset \<Rightarrow> evidence_kind bset
   \<Rightarrow> evidence_artifact_input list \<Rightarrow> store \<Rightarrow> (evidence_kind bset \<times> evidence_artifact_input list) res" where
  "receipt_evidence X E s receipt outcome_digest expected [] sources kinds verified fs = Inr (kinds, verified)"
| "receipt_evidence X E s receipt outcome_digest expected ((evidence_id, reference) # rest) sources kinds verified fs =
     rbind (reject (evidence_id \<noteq> aer_evidence_id reference
              \<or> \<not> List.member expected (aer_kind reference)
              \<or> aer_source_artifact_digest reference = ref_sha256 (att_implementation (rc_executor receipt))
              \<or> List.member (ks_used_evidence_artifacts s) (aer_source_artifact_digest reference)
              \<or> List.member sources (aer_source_artifact_digest reference)
              \<or> List.member kinds (aer_kind reference))
            (Integrity ''action_receipt_evidence_binding_invalid'')) (\<lambda>_.
     rbind (authenticate_evidence_record X E reference (rc_invocation_digest receipt)
              (att_executor_id (rc_executor receipt)) outcome_digest fs) (\<lambda>record.
     receipt_evidence X E s receipt outcome_digest expected rest
       (bs_insert (aer_source_artifact_digest reference) sources) (bs_insert (aer_kind reference) kinds)
       (verified @ [\<lparr>input_kind = er_kind record, input_artifact = er_artifact record\<rparr>]) fs))"

definition outcome_digest_of :: "externals \<Rightarrow> action_outcome \<Rightarrow> digest" where
  "outcome_digest_of X outcome = computed X OBSERVATION_DOMAIN (POutcome outcome)"

definition validate_action_receipt ::
  "externals \<Rightarrow> knowledge_engine \<Rightarrow> knowledge_state \<Rightarrow> action_receipt \<Rightarrow> store \<Rightarrow> unit res" where
  "validate_action_receipt X E s receipt fs =
     rbind (reject (rc_schema receipt \<noteq> SchemaV1
              \<or> rc_authority_root receipt \<noteq> authority_root E
              \<or> rc_inquiry_id receipt \<noteq> ks_inquiry_id s
              \<or> rc_capability_bundle receipt \<noteq> ks_capability_bundle s
              \<or> rc_parent_state receipt \<noteq> ks_manifest_digest s
              \<or> rc_action_id receipt \<noteq> ib_action_id (binding (rc_invocation receipt))
              \<or> rc_invocation_digest receipt \<noteq> invocation_digest X (rc_invocation receipt)
              \<or> rc_charged_cost receipt \<noteq> invocation_cost (rc_invocation receipt)
              \<or> rc_manifest_digest receipt \<noteq> calculate_receipt_digest X receipt
              \<or> List.member (ks_applied_receipts s) (rc_manifest_digest receipt))
            (Integrity ''action_receipt_binding_or_digest_mismatch'')) (\<lambda>_.
     rbind (plan X E s fs) (\<lambda>decision.
     rbind (case decision of PlanInvoke invoc \<Rightarrow> Inr invoc
            | PlanTerminal _ \<Rightarrow> Inl (Integrity ''action_receipt_for_terminal_state'')) (\<lambda>expected_invocation.
     rbind (reject (rc_invocation receipt \<noteq> expected_invocation)
              (Integrity ''action_receipt_not_current_planned_invocation'')) (\<lambda>_.
     rbind (validate_outcome_shape X s (rc_invocation receipt) (rc_outcome receipt)) (\<lambda>_.
     rbind (authenticate_executor X E \<lparr>id_executor_id = att_executor_id (rc_executor receipt),
              id_interface_version = att_interface_version (rc_executor receipt),
              id_implementation = att_implementation (rc_executor receipt)\<rparr> fs) (\<lambda>executor.
     rbind (reject (executor \<noteq> rc_executor receipt \<or> rc_evidence receipt = [])
              (Integrity ''action_receipt_executor_invalid'')) (\<lambda>_.
     rbind (reject (max_evidence_records (ks_budget s)
                < saturating_add 64 (used_evidence_records (ks_usage s)) (length (rc_evidence receipt)))
              (Invalid ''action_receipt_evidence_limit_exceeded'')) (\<lambda>_.
     let expected_kinds = required_evidence_kinds (rc_invocation receipt) (rc_outcome receipt) in
     rbind (receipt_evidence X E s receipt (outcome_digest_of X (rc_outcome receipt)) expected_kinds
              (rc_evidence receipt) [] [] [] fs) (\<lambda>(kinds, verified_evidence).
     rbind (reject (kinds \<noteq> expected_kinds) (Integrity ''action_receipt_evidence_kind_set_invalid'')) (\<lambda>_.
     rederive X E (rc_invocation receipt) executor (rc_outcome receipt) verified_evidence
       ''receipt_outcome_not_semantically_derived'' fs))))))))))"

section \<open>Issuing and persistence\<close>

definition persist_action_receipt ::
  "externals \<Rightarrow> knowledge_engine \<Rightarrow> action_receipt \<Rightarrow> private_file_reference io" where
  "persist_action_receipt X E receipt =
     io_bind (io_res (reject (rc_authority_root receipt \<noteq> authority_root E
                       \<or> rc_manifest_digest receipt \<noteq> calculate_receipt_digest X receipt)
                     (Integrity ''action_receipt_not_authentic''))) (\<lambda>_.
     let destination = semantic_path E ''action_receipts'' (rc_manifest_digest receipt) in
     io_bind (write_or_verify_immutable (sha X) (private_root E) destination (to_vec X (PReceipt receipt))) (\<lambda>raw_digest.
     io_res (Inr \<lparr>ref_path = destination, ref_sha256 = raw_digest\<rparr>)))"

definition authenticate_action_receipt ::
  "externals \<Rightarrow> knowledge_engine \<Rightarrow> knowledge_state \<Rightarrow> private_file_reference \<Rightarrow> store \<Rightarrow> action_receipt res" where
  "authenticate_action_receipt X E s reference fs =
     rbind (read_verified_bounded (sha X) (private_root E) reference MAX_ACTION_RECEIPT_BYTES fs) (\<lambda>bytes.
     rbind (ok_or (from_slice_receipt X bytes) Json) (\<lambda>receipt.
     rbind (reject (ref_path reference \<noteq> semantic_path E ''action_receipts'' (rc_manifest_digest receipt))
              (Integrity ''action_receipt_content_address_mismatch'')) (\<lambda>_.
     rbind (validate_action_receipt X E s receipt fs) (\<lambda>_. Inr receipt))))"

text \<open>One evidence input of \<open>issue_action_receipt\<close>: its record is sealed and persisted.\<close>

definition seal_evidence_record ::
  "externals \<Rightarrow> knowledge_engine \<Rightarrow> digest \<Rightarrow> digest \<Rightarrow> string \<Rightarrow> evidence_artifact_input
   \<Rightarrow> knowledge_evidence_record" where
  "seal_evidence_record X E inv_digest outcome_digest executor_id input =
     (let record = \<lparr>er_schema = SchemaV1, er_authority_root = authority_root E,
            er_evidence_id = computed X EVIDENCE_ID_DOMAIN
              (PEvidenceId inv_digest executor_id (input_kind input) (ref_sha256 (input_artifact input))),
            er_invocation_digest = inv_digest, er_executor_id = executor_id, er_kind = input_kind input,
            er_artifact = input_artifact input, er_outcome_digest = outcome_digest,
            er_manifest_digest = digest_domain (sha X) EVIDENCE_DOMAIN ''unsealed''\<rparr>
      in record\<lparr>er_manifest_digest := calculate_record_digest X record\<rparr>)"

fun issue_evidence ::
  "externals \<Rightarrow> knowledge_engine \<Rightarrow> knowledge_state \<Rightarrow> executor_attestation \<Rightarrow> digest \<Rightarrow> digest
   \<Rightarrow> evidence_artifact_input list \<Rightarrow> digest bset \<Rightarrow> (digest, authenticated_evidence_reference) bmap
   \<Rightarrow> (digest, authenticated_evidence_reference) bmap io" where
  "issue_evidence X E s executor inv_digest outcome_digest [] sources evidence = io_res (Inr evidence)"
| "issue_evidence X E s executor inv_digest outcome_digest (input # rest) sources evidence =
     io_bind (io_read (read_verified_bounded (sha X) (private_root E) (input_artifact input) MAX_EVIDENCE_ARTIFACT_BYTES)) (\<lambda>source_bytes.
     io_bind (io_res (reject (source_bytes = []
                \<or> ref_sha256 (input_artifact input) = ref_sha256 (att_implementation executor)
                \<or> List.member sources (ref_sha256 (input_artifact input))
                \<or> List.member (ks_used_evidence_artifacts s) (ref_sha256 (input_artifact input)))
              (Integrity ''cognitive_evidence_empty_reused_or_executable''))) (\<lambda>_.
     let record = seal_evidence_record X E inv_digest outcome_digest (att_executor_id executor) input;
         destination = semantic_path E ''evidence'' (er_manifest_digest record) in
     io_bind (write_or_verify_immutable (sha X) (private_root E) destination (to_vec X (PEvidenceRecord record))) (\<lambda>raw_digest.
     let reference = \<lparr>aer_evidence_id = er_evidence_id record, aer_kind = er_kind record,
           aer_record = \<lparr>ref_path = destination, ref_sha256 = raw_digest\<rparr>,
           aer_record_digest = er_manifest_digest record,
           aer_source_artifact_digest = ref_sha256 (er_artifact record)\<rparr> in
     io_bind (io_res (reject (map_of evidence (er_evidence_id record) \<noteq> None)
                (Integrity ''cognitive_evidence_identity_collision''))) (\<lambda>_.
     issue_evidence X E s executor inv_digest outcome_digest rest
       (bs_insert (ref_sha256 (input_artifact input)) sources)
       (bm_insert (er_evidence_id record) reference evidence)))))"

definition seal_receipt ::
  "externals \<Rightarrow> knowledge_engine \<Rightarrow> cognitive_invocation \<Rightarrow> executor_attestation \<Rightarrow> action_outcome
   \<Rightarrow> (digest, authenticated_evidence_reference) bmap \<Rightarrow> action_receipt" where
  "seal_receipt X E invoc executor outcome evidence =
     (let ib = binding invoc;
          receipt = \<lparr>rc_schema = SchemaV1, rc_authority_root = authority_root E,
            rc_inquiry_id = ib_inquiry_id ib, rc_capability_bundle = ib_capability_bundle ib,
            rc_parent_state = ib_parent_state ib, rc_action_id = ib_action_id ib, rc_invocation = invoc,
            rc_invocation_digest = invocation_digest X invoc, rc_executor = executor, rc_outcome = outcome,
            rc_evidence = evidence, rc_charged_cost = invocation_cost invoc,
            rc_manifest_digest = digest_domain (sha X) RECEIPT_DOMAIN ''unsealed''\<rparr>
      in receipt\<lparr>rc_manifest_digest := calculate_receipt_digest X receipt\<rparr>)"

definition issue_action_receipt ::
  "externals \<Rightarrow> knowledge_engine \<Rightarrow> knowledge_state \<Rightarrow> cognitive_invocation \<Rightarrow> executor_attestation
   \<Rightarrow> adapter_execution \<Rightarrow> action_receipt io" where
  "issue_action_receipt X E s invoc executor execution =
     io_bind (io_read (validate_state X E s)) (\<lambda>_.
     io_bind (io_read (validate_execution_output X E s invoc executor execution)) (\<lambda>_.
     io_bind (issue_evidence X E s executor (invocation_digest X invoc)
                (outcome_digest_of X (exec_outcome execution)) (exec_evidence execution) [] []) (\<lambda>evidence.
     let receipt = seal_receipt X E invoc executor (exec_outcome execution) evidence in
     io_bind (io_read (validate_action_receipt X E s receipt)) (\<lambda>_.
     io_bind (persist_action_receipt X E receipt) (\<lambda>_.
     io_res (Inr receipt))))))"

definition execute ::
  "externals \<Rightarrow> knowledge_engine \<Rightarrow> knowledge_state \<Rightarrow> authenticated_evidence_executor \<Rightarrow> action_receipt io" where
  "execute X E s adapter =
     io_bind (io_read (plan X E s)) (\<lambda>decision.
     io_bind (io_res (case decision of PlanInvoke invoc \<Rightarrow> Inr invoc
               | PlanTerminal _ \<Rightarrow> Inl (Invalid ''knowledge_state_has_no_executable_action''))) (\<lambda>invoc.
     io_bind (io_read (authenticate_executor X E (ex_identity adapter))) (\<lambda>identity.
     io_bind (io_res (executor_invoke X adapter invoc)) (\<lambda>execution.
     issue_action_receipt X E s invoc identity execution))))"

section \<open>What an accepted receipt is\<close>

lemma receipt_evidence_Inr:
  "receipt_evidence X E s receipt od expected ev sources kinds verified fs = Inr (kinds', verified') \<Longrightarrow>
     distinct (map (\<lambda>(_, reference). aer_source_artifact_digest reference) ev)
     \<and> (\<forall>(_, reference) \<in> set ev. aer_source_artifact_digest reference \<notin> set sources
          \<and> aer_source_artifact_digest reference \<notin> set (ks_used_evidence_artifacts s))"
proof (induction X E s receipt od expected ev sources kinds verified fs rule: receipt_evidence.induct)
  case (2 X E s receipt od expected eid reference rest sources kinds verified fs)
  then obtain rcd where rcd: "authenticate_evidence_record X E reference (rc_invocation_digest receipt)
              (att_executor_id (rc_executor receipt)) od fs = Inr rcd"
    and fresh: "aer_source_artifact_digest reference \<notin> set sources"
      "aer_source_artifact_digest reference \<notin> set (ks_used_evidence_artifacts s)"
    and r: "receipt_evidence X E s receipt od expected rest
       (bs_insert (aer_source_artifact_digest reference) sources) (bs_insert (aer_kind reference) kinds)
       (verified @ [\<lparr>input_kind = er_kind rcd, input_artifact = er_artifact rcd\<rparr>]) fs = Inr (kinds', verified')"
    by auto
  have "distinct (map (\<lambda>(_, reference). aer_source_artifact_digest reference) rest)
     \<and> (\<forall>(_, ref) \<in> set rest. aer_source_artifact_digest ref \<notin> set (bs_insert (aer_source_artifact_digest reference) sources)
          \<and> aer_source_artifact_digest ref \<notin> set (ks_used_evidence_artifacts s))"
    by (rule 2(1)[OF _ rcd r]) (use 2(2) in auto)
  with fresh show ?case by fastforce
qed simp

lemma decision_invokes:
  "(case decision of PlanInvoke invoc \<Rightarrow> Inr invoc | PlanTerminal t \<Rightarrow> Inl e) = (Inr i :: cognitive_invocation res)
     \<longleftrightarrow> decision = PlanInvoke i"
  by (cases decision) auto

lemma validate_action_receipt_Inr:
  assumes "validate_action_receipt X E s receipt fs = Inr u"
  shows "plan X E s fs = Inr (PlanInvoke (rc_invocation receipt))"
    and "rc_parent_state receipt = ks_manifest_digest s"
    and "rc_charged_cost receipt = invocation_cost (rc_invocation receipt)"
    and "rc_manifest_digest receipt = calculate_receipt_digest X receipt"
    and "rc_manifest_digest receipt \<notin> set (ks_applied_receipts s)"
    and "rc_action_id receipt = ib_action_id (binding (rc_invocation receipt))"
    and "rc_evidence receipt \<noteq> []"
    and "validate_outcome_shape X s (rc_invocation receipt) (rc_outcome receipt) = Inr ()"
    and "saturating_add 64 (used_evidence_records (ks_usage s)) (length (rc_evidence receipt))
           \<le> max_evidence_records (ks_budget s)"
    and "distinct (map aer_source_artifact_digest (bm_values (rc_evidence receipt)))"
    and "\<forall>reference \<in> set (bm_values (rc_evidence receipt)).
           aer_source_artifact_digest reference \<notin> set (ks_used_evidence_artifacts s)"
    and "\<exists>executor verified code. rederive X E (rc_invocation receipt) executor (rc_outcome receipt) verified code fs = Inr ()"
    and "rc_inquiry_id receipt = ks_inquiry_id s"
    and "rc_authority_root receipt = authority_root E"
proof -
  from assms obtain decision executor kinds verified where
    p: "plan X E s fs = Inr decision"
    and d: "decision = PlanInvoke (rc_invocation receipt)"
    and ev: "receipt_evidence X E s receipt (outcome_digest_of X (rc_outcome receipt))
         (required_evidence_kinds (rc_invocation receipt) (rc_outcome receipt)) (rc_evidence receipt) [] [] [] fs
         = Inr (kinds, verified)"
    and rd: "rederive X E (rc_invocation receipt) executor (rc_outcome receipt) verified
       ''receipt_outcome_not_semantically_derived'' fs = Inr ()"
    and rest: "rc_parent_state receipt = ks_manifest_digest s"
      "rc_charged_cost receipt = invocation_cost (rc_invocation receipt)"
      "rc_manifest_digest receipt = calculate_receipt_digest X receipt"
      "rc_manifest_digest receipt \<notin> set (ks_applied_receipts s)"
      "rc_action_id receipt = ib_action_id (binding (rc_invocation receipt))"
      "rc_evidence receipt \<noteq> []"
      "validate_outcome_shape X s (rc_invocation receipt) (rc_outcome receipt) = Inr ()"
      "saturating_add 64 (used_evidence_records (ks_usage s)) (length (rc_evidence receipt))
           \<le> max_evidence_records (ks_budget s)"
      "rc_inquiry_id receipt = ks_inquiry_id s" "rc_authority_root receipt = authority_root E"
    by (auto simp: validate_action_receipt_def Let_def not_less decision_invokes)
  from p d show "plan X E s fs = Inr (PlanInvoke (rc_invocation receipt))" by simp
  from rd show "\<exists>executor verified code. rederive X E (rc_invocation receipt) executor (rc_outcome receipt) verified code fs = Inr ()"
    by blast
  from receipt_evidence_Inr[OF ev] show "distinct (map aer_source_artifact_digest (bm_values (rc_evidence receipt)))"
    by (simp add: bm_values_def case_prod_unfold o_def)
  from receipt_evidence_Inr[OF ev] show "\<forall>reference \<in> set (bm_values (rc_evidence receipt)).
           aer_source_artifact_digest reference \<notin> set (ks_used_evidence_artifacts s)"
    by (fastforce simp: bm_values_def)
  show "rc_parent_state receipt = ks_manifest_digest s"
    "rc_charged_cost receipt = invocation_cost (rc_invocation receipt)"
    "rc_manifest_digest receipt = calculate_receipt_digest X receipt"
    "rc_manifest_digest receipt \<notin> set (ks_applied_receipts s)"
    "rc_action_id receipt = ib_action_id (binding (rc_invocation receipt))"
    "rc_evidence receipt \<noteq> []"
    "validate_outcome_shape X s (rc_invocation receipt) (rc_outcome receipt) = Inr ()"
    "saturating_add 64 (used_evidence_records (ks_usage s)) (length (rc_evidence receipt))
           \<le> max_evidence_records (ks_budget s)"
    "rc_inquiry_id receipt = ks_inquiry_id s" "rc_authority_root receipt = authority_root E"
    by (fact rest)+
qed

end
