(* ===== verification/Knowledge_Reducer.thy ===== *)
theory Knowledge_Reducer
  imports Knowledge_Receipts
begin

text \<open>
  The reducer of \<open>src/knowledge/knowledge_engine.rs\<close>: \<open>advance\<close> applies one authenticated receipt to
  a state and seals the successor, with \<open>reduce_dependency_expansion\<close> and
  \<open>reduce_discovered_obligations\<close>. The lemmas give the accounting of an advance, what it may
  change, and the bound on the number of advances.
\<close>

section \<open>References\<close>

definition state_reference :: "externals \<Rightarrow> knowledge_engine \<Rightarrow> knowledge_state \<Rightarrow> private_file_reference" where
  "state_reference X E s =
     \<lparr>ref_path = semantic_path E ''states'' (ks_manifest_digest s),
      ref_sha256 = digest_bytes (sha X) (to_vec X (PState s))\<rparr>"

definition action_receipt_reference ::
  "externals \<Rightarrow> knowledge_engine \<Rightarrow> action_receipt \<Rightarrow> private_file_reference" where
  "action_receipt_reference X E r =
     \<lparr>ref_path = semantic_path E ''action_receipts'' (rc_manifest_digest r),
      ref_sha256 = digest_bytes (sha X) (to_vec X (PReceipt r))\<rparr>"

section \<open>Dependency expansion\<close>

definition block_dependency_cycle ::
  "string \<Rightarrow> digest \<Rightarrow> dependency_edge \<Rightarrow> knowledge_state \<times> transition_changes
   \<Rightarrow> (knowledge_state \<times> transition_changes) res" where
  "block_dependency_cycle oid receipt edge = (\<lambda>(s, changes).
     rbind (ok_or (map_of (ks_obligations s) oid) (Integrity ''dependency_obligation_missing'')) (\<lambda>ob.
     Inr (s\<lparr>ks_obligations := bm_modify oid (\<lambda>ob. ob\<lparr>obligation_state :=
              Blocked (attempts (obligation_state ob)) (witnesses (obligation_state ob))
                (DependencyCycle receipt (edge_from edge) (edge_to edge))\<rparr>) (ks_obligations s)\<rparr>,
          changes\<lparr>blocked_obligations := bs_insert (obligation_id ob) (blocked_obligations changes)\<rparr>)))"

definition link_dependency :: "dependency_edge \<Rightarrow> knowledge_state \<Rightarrow> knowledge_state res" where
  "link_dependency edge s =
     rbind (ok_or (map_of (ks_dependency_graph s) (edge_from edge)) (Integrity ''dependency_graph_source_missing'')) (\<lambda>_.
     Inr (s\<lparr>ks_dependency_graph := bm_modify (edge_from edge) (bs_insert (edge_to edge)) (ks_dependency_graph s)\<rparr>))"

definition add_dependency ::
  "externals \<Rightarrow> nat \<Rightarrow> nat \<Rightarrow> dependency_edge \<Rightarrow> knowledge_state \<times> transition_changes
   \<Rightarrow> (knowledge_state \<times> transition_changes) res" where
  "add_dependency X child_depth max_depth edge = (\<lambda>(s, changes).
     let identity_payload = to_vec X (PDependencyIdentity (ks_inquiry_id s) (ks_capability_bundle s) (edge_to edge));
         cid = derived_discovery_claim (sha X) identity_payload;
         oid = derived_discovery_obligation (sha X) identity_payload in
     rbind (reject (map_of (ks_claims s) cid \<noteq> None \<or> map_of (ks_obligations s) oid \<noteq> None)
              (Integrity ''derived_dependency_identity_collision'')) (\<lambda>_.
     rbind (dependency_closure_predicate X (edge_to edge)) (\<lambda>predicate.
     rbind (link_dependency edge (s\<lparr>
       ks_claims := bm_insert cid \<lparr>claim_id = cid, claim_domain = DependencyClosure, claim_predicate = predicate,
                      claim_assessment = Unresolved\<rparr> (ks_claims s),
       ks_obligations := bm_insert oid \<lparr>obligation_id = oid, obligation_claim_id = cid,
                      obligation_domain = DependencyClosure, obligation_criterion = EvaluationCriterion predicate,
                      obligation_plan = ExpandDependencyClosure (edge_to edge) child_depth max_depth,
                      obligation_state = Open 0 []\<rparr> (ks_obligations s),
       ks_dependency_parents := bm_insert (edge_to edge) (Some (edge_from edge)) (ks_dependency_parents s),
       ks_dependency_depths := bm_insert (edge_to edge) child_depth (ks_dependency_depths s),
       ks_dependency_graph := bm_insert (edge_to edge) [] (ks_dependency_graph s)\<rparr>)) (\<lambda>s'.
     Inr (s', changes\<lparr>added_claims := bs_insert cid (added_claims changes),
                     added_obligations := bs_insert oid (added_obligations changes)\<rparr>)))))"

definition expand_edge ::
  "externals \<Rightarrow> dependency_expansion_invocation \<Rightarrow> nat \<Rightarrow> digest \<Rightarrow> dependency_edge
   \<Rightarrow> knowledge_state \<times> transition_changes \<Rightarrow> (knowledge_state \<times> transition_changes) res" where
  "expand_edge X v source_depth receipt edge = (\<lambda>(s, changes).
     rbind (reject (edge_from edge \<noteq> de_root v) (Integrity ''dependency_edge_source_mismatch'')) (\<lambda>_.
     rbind (if edge_to edge = edge_from edge then Inr True
            else dependency_graph_reachable (ks_dependency_graph s) (edge_to edge) (edge_from edge)
                   (max_dependency_nodes (ks_budget s))) (\<lambda>cycle.
     if cycle then block_dependency_cycle (ib_obligation_id (de_binding v)) receipt edge (s, changes)
     else if map_of (ks_dependency_parents s) (edge_to edge) \<noteq> None
     then rbind (link_dependency edge s) (\<lambda>s'. Inr (s', changes))
     else rbind (ok_or (checked_add 16 source_depth 1) (Invalid ''dependency_depth_overflow'')) (\<lambda>child_depth.
       if de_max_depth v < child_depth \<or> max_dependency_depth (ks_budget s) < child_depth
       then Inr (s\<lparr>ks_bounded_reason := Some (DependencyDepthLimitReached (edge_to edge))\<rparr>, changes)
       else if max_dependency_nodes (ks_budget s) \<le> length (ks_dependency_parents s)
       then Inr (s\<lparr>ks_bounded_reason := Some DependencyNodeLimitReached\<rparr>, changes)
       else add_dependency X child_depth (de_max_depth v) edge (s, changes)))))"

definition reduce_dependency_expansion ::
  "externals \<Rightarrow> knowledge_state \<Rightarrow> dependency_expansion_invocation \<Rightarrow> dependency_edge bset \<Rightarrow> digest
   \<Rightarrow> transition_changes \<Rightarrow> (knowledge_state \<times> transition_changes) res" where
  "reduce_dependency_expansion X s v es receipt changes =
     rbind (ok_or (map_of (ks_dependency_depths s) (de_root v)) (Integrity ''dependency_source_not_indexed'')) (\<lambda>source_depth.
     rbind (reject (source_depth \<noteq> de_depth v) (Integrity ''dependency_invocation_depth_mismatch'')) (\<lambda>_.
     rfold (expand_edge X v source_depth receipt) es (s, changes)))"

section \<open>Discovered obligations\<close>

text \<open>The inner \<open>Inl\<close> is the \<open>break\<close> of the loop, with the state it leaves.\<close>

definition index_discovered_root ::
  "cognitive_plan \<Rightarrow> knowledge_state \<Rightarrow> (knowledge_state + knowledge_state) res" where
  "index_discovered_root p s =
     (case p of
        ExpandDependencyClosure root depth _ \<Rightarrow>
          (case map_of (ks_dependency_depths s) root of
             Some existing_depth \<Rightarrow>
               if existing_depth \<noteq> depth then Inl (Integrity ''discovered_dependency_depth_conflict'') else Inr (Inr s)
           | None \<Rightarrow>
               if depth = 0 then
                 (if max_dependency_nodes (ks_budget s) \<le> length (ks_dependency_parents s)
                  then Inr (Inl (s\<lparr>ks_bounded_reason := Some DependencyNodeLimitReached\<rparr>))
                  else Inr (Inr (s\<lparr>ks_dependency_parents := bm_insert root None (ks_dependency_parents s),
                                   ks_dependency_depths := bm_insert root 0 (ks_dependency_depths s),
                                   ks_dependency_graph := bm_insert root [] (ks_dependency_graph s)\<rparr>)))
               else Inl (Integrity ''discovered_dependency_without_authenticated_parent''))
      | _ \<Rightarrow> Inr (Inr s))"

fun reduce_discovered_obligations ::
  "externals \<Rightarrow> (string \<times> discovered_knowledge_obligation) list \<Rightarrow> knowledge_state \<times> transition_changes
   \<Rightarrow> (knowledge_state \<times> transition_changes) res" where
  "reduce_discovered_obligations X [] (s, changes) = Inr (s, changes)"
| "reduce_discovered_obligations X ((concern, d) # rest) (s, changes) =
     (if HARD_MAX_CLAIMS \<le> length (ks_claims s) \<or> HARD_MAX_OBLIGATIONS \<le> length (ks_obligations s)
      then Inr (s\<lparr>ks_bounded_reason := Some NoAdmissibleInvocation\<rparr>, changes)
      else let identity_payload = to_vec X (PDiscoveryIdentity (ks_inquiry_id s) (ks_capability_bundle s) concern (disc_kind d));
               cid = derived_discovery_claim (sha X) identity_payload;
               oid = derived_discovery_obligation (sha X) identity_payload in
        case (map_of (ks_claims s) cid, map_of (ks_obligations s) oid) of
          (Some existing_claim, Some existing_obligation) \<Rightarrow>
            if claim_domain existing_claim \<noteq> disc_domain d
               \<or> claim_predicate existing_claim \<noteq> disc_claim_predicate d
               \<or> obligation_criterion existing_obligation \<noteq> disc_criterion d
               \<or> obligation_plan existing_obligation \<noteq> disc_plan d
            then Inl (Integrity ''discovered_concern_identity_collision'')
            else reduce_discovered_obligations X rest (s, changes)
        | (None, None) \<Rightarrow>
            rbind (index_discovered_root (disc_plan d) s) (\<lambda>indexed.
            case indexed of
              Inl stopped \<Rightarrow> Inr (stopped, changes)
            | Inr s \<Rightarrow> reduce_discovered_obligations X rest
                (s\<lparr>ks_claims := bm_insert cid \<lparr>claim_id = cid, claim_domain = disc_domain d,
                      claim_predicate = disc_claim_predicate d, claim_assessment = Unresolved\<rparr> (ks_claims s),
                   ks_obligations := bm_insert oid \<lparr>obligation_id = oid, obligation_claim_id = cid,
                      obligation_domain = disc_domain d, obligation_criterion = disc_criterion d,
                      obligation_plan = disc_plan d, obligation_state = Open 0 []\<rparr> (ks_obligations s)\<rparr>,
                 changes\<lparr>added_claims := bs_insert cid (added_claims changes),
                         added_obligations := bs_insert oid (added_obligations changes)\<rparr>))
        | _ \<Rightarrow> Inl (Integrity ''discovered_concern_partial_identity_collision''))"

section \<open>Advance\<close>

definition no_changes :: transition_changes where
  "no_changes = \<lparr>satisfied_obligations = [], blocked_obligations = [], established_claims = [],
     contradicted_claims = [], supported_hypotheses = [], refuted_hypotheses = [],
     added_claims = [], added_obligations = []\<rparr>"

definition account_receipt ::
  "externals \<Rightarrow> knowledge_engine \<Rightarrow> knowledge_state \<Rightarrow> action_receipt \<Rightarrow> knowledge_state res" where
  "account_receipt X E s receipt =
     rbind (ok_or (checked_add 64 (ks_revision s) 1) (Invalid ''knowledge_revision_overflow'')) (\<lambda>revision.
     rbind (ok_or (checked_add 64 (used_actions (ks_usage s)) 1) (Invalid ''knowledge_action_count_overflow'')) (\<lambda>actions.
     rbind (ok_or (checked_add 64 (used_total_cost (ks_usage s)) (rc_charged_cost receipt))
              (Invalid ''knowledge_cost_overflow'')) (\<lambda>total_cost.
     rbind (ok_or (checked_add 64 (used_evidence_records (ks_usage s)) (length (rc_evidence receipt)))
              (Invalid ''knowledge_evidence_count_overflow'')) (\<lambda>evidence_records.
     rbind (reject (List.member (ks_applied_receipts s) (rc_manifest_digest receipt))
              (Integrity ''action_receipt_replayed'')) (\<lambda>_.
     rbind (rfold (\<lambda>reference used.
              rbind (reject (List.member used (aer_source_artifact_digest reference))
                       (Integrity ''action_receipt_source_evidence_replayed'')) (\<lambda>_.
              Inr (bs_insert (aer_source_artifact_digest reference) used)))
            (bm_values (rc_evidence receipt)) (ks_used_evidence_artifacts s)) (\<lambda>used.
     Inr (s\<lparr>ks_parent_digest := Some (ks_manifest_digest s),
            ks_parent_reference := Some (state_reference X E s),
            ks_last_action_receipt_reference := Some (action_receipt_reference X E receipt),
            ks_revision := revision,
            ks_usage := \<lparr>used_actions = actions, used_total_cost = total_cost, used_evidence_records = evidence_records\<rparr>,
            ks_applied_receipts := bs_insert (rc_manifest_digest receipt) (ks_applied_receipts s),
            ks_used_evidence_artifacts := used\<rparr>)))))))"

fun outcome_observations :: "action_outcome \<Rightarrow> observations option" where
  "outcome_observations (Completed obs _ _) = Some obs"
| "outcome_observations _ = None"

definition reduce_prediction ::
  "observations \<Rightarrow> digest \<Rightarrow> string \<times> knowledge_predicate \<Rightarrow> (string, knowledge_hypothesis) bmap
   \<Rightarrow> (string, knowledge_hypothesis) bmap res" where
  "reduce_prediction obs receipt_digest = (\<lambda>(hid, prediction) hypotheses.
     rbind (ok_or (map_of hypotheses hid) (Integrity ''receipt_prediction_hypothesis_missing'')) (\<lambda>h.
     rbind (reduce_hypothesis_assessment (hypothesis_assessment h) (evaluate prediction obs) receipt_digest) (\<lambda>a.
     Inr (bm_modify hid (\<lambda>h. h\<lparr>hypothesis_assessment := a\<rparr>) hypotheses))))"

definition reduce_predictions ::
  "action_receipt \<Rightarrow> (string, knowledge_hypothesis) bmap \<Rightarrow> (string, knowledge_hypothesis) bmap res" where
  "reduce_predictions receipt hypotheses =
     (case (invocation_predictions (rc_invocation receipt), outcome_observations (rc_outcome receipt)) of
        (Some predictions, Some obs) \<Rightarrow>
          rfold (reduce_prediction obs (rc_manifest_digest receipt)) predictions hypotheses
      | _ \<Rightarrow> Inr hypotheses)"

definition reduced_obligation_state ::
  "action_receipt \<Rightarrow> nat \<Rightarrow> digest bset \<Rightarrow> knowledge_obligation_state res" where
  "reduced_obligation_state receipt n w =
     (case rc_outcome receipt of
        Completed obs _ _ \<Rightarrow>
          (case evaluate (criterion_predicate (ib_criterion (binding (rc_invocation receipt)))) obs of
             Matches \<Rightarrow> Inr (Satisfied n w)
           | Contradicts \<Rightarrow> Inr (Blocked n w (ContradictoryObservation (rc_manifest_digest receipt)))
           | Missing \<Rightarrow> Inl (Integrity ''receipt_missing_precommitted_criterion'')
           | TypeMismatch \<Rightarrow> Inl (Integrity ''receipt_criterion_observation_type_mismatch''))
      | BoundedNoResult _ \<Rightarrow> Inr (Open n w)
      | OutcomeBlocked reason \<Rightarrow>
          Inr (Blocked n w (ExecutorBlocked (rc_manifest_digest receipt) reason)))"

definition reduce_obligation ::
  "action_receipt \<Rightarrow> (string, knowledge_obligation) bmap \<Rightarrow> (string, knowledge_obligation) bmap res" where
  "reduce_obligation receipt obligations =
     (let oid = ib_obligation_id (binding (rc_invocation receipt)) in
      rbind (ok_or (map_of obligations oid) (Integrity ''action_obligation_missing'')) (\<lambda>prior.
      rbind (ok_or (checked_add 16 (attempts (obligation_state prior)) 1) (Invalid ''knowledge_attempt_overflow'')) (\<lambda>n.
      rbind (reduced_obligation_state receipt n
               (bs_insert (rc_manifest_digest receipt) (witnesses (obligation_state prior)))) (\<lambda>reduced.
      Inr (bm_modify oid (\<lambda>ob. ob\<lparr>obligation_state := reduced\<rparr>) obligations)))))"

definition reduce_outcome ::
  "externals \<Rightarrow> action_receipt \<Rightarrow> knowledge_state \<Rightarrow> (knowledge_state \<times> transition_changes) res" where
  "reduce_outcome X receipt s =
     rbind (case (rc_invocation receipt, rc_outcome receipt) of
              (InvExpandDependencyClosure v, Completed _ es _) \<Rightarrow>
                reduce_dependency_expansion X s v es (rc_manifest_digest receipt) no_changes
            | _ \<Rightarrow> Inr (s, no_changes)) (\<lambda>(s, changes).
     case rc_outcome receipt of
       Completed _ _ ds \<Rightarrow> reduce_discovered_obligations X ds (s, changes)
     | _ \<Rightarrow> Inr (s, changes))"

text \<open>The part of \<open>advance\<close> between its input checks and the sealing of the successor.\<close>

definition reduce_state ::
  "externals \<Rightarrow> knowledge_engine \<Rightarrow> knowledge_state \<Rightarrow> action_receipt
   \<Rightarrow> (knowledge_state \<times> transition_changes) res" where
  "reduce_state X E s receipt =
     rbind (account_receipt X E s receipt) (\<lambda>nxt.
     let prior_claims = map (\<lambda>(i, c). (i, claim_assessment c)) (ks_claims nxt);
         prior_obligations = map (\<lambda>(i, ob). (i, obligation_state ob)) (ks_obligations nxt);
         prior_hypotheses = map (\<lambda>(i, h). (i, hypothesis_assessment h)) (ks_hypotheses nxt) in
     rbind (reduce_predictions receipt (ks_hypotheses nxt)) (\<lambda>hypotheses.
     rbind (reduce_obligation receipt (ks_obligations nxt)) (\<lambda>obligations.
     rbind (reduce_outcome X receipt (nxt\<lparr>ks_hypotheses := hypotheses, ks_obligations := obligations\<rparr>)) (\<lambda>(nxt, changes).
     rbind (recompute_claim_assessments (ks_claims nxt) (ks_obligations nxt)) (\<lambda>claims.
     let nxt = nxt\<lparr>ks_claims := claims\<rparr>;
         changes = record_transition_changes nxt prior_claims prior_obligations prior_hypotheses changes in
     Inr (nxt\<lparr>ks_manifest_digest := calculate_state_digest X nxt\<rparr>, changes))))))"

definition seal_transition ::
  "externals \<Rightarrow> knowledge_engine \<Rightarrow> knowledge_state \<Rightarrow> action_receipt \<Rightarrow> knowledge_state \<Rightarrow> transition_changes
   \<Rightarrow> knowledge_terminal option \<Rightarrow> transition_receipt" where
  "seal_transition X E s receipt nxt changes terminal_after =
     (let transition = \<lparr>tx_schema = SchemaV1, tx_authority_root = authority_root E,
            tx_inquiry_id = ks_inquiry_id nxt, tx_capability_bundle = ks_capability_bundle nxt,
            tx_from_state = ks_manifest_digest s, tx_to_state = ks_manifest_digest nxt,
            tx_action_id = rc_action_id receipt, tx_action_receipt = rc_manifest_digest receipt,
            tx_from_state_reference = state_reference X E s,
            tx_to_state_reference = state_reference X E nxt,
            tx_action_receipt_reference = action_receipt_reference X E receipt,
            tx_changes = changes, tx_terminal_after = terminal_after,
            tx_manifest_digest = digest_domain (sha X) TRANSITION_DOMAIN ''unsealed''\<rparr>
      in transition\<lparr>tx_manifest_digest := calculate_transition_digest X transition\<rparr>)"

definition advance ::
  "externals \<Rightarrow> knowledge_engine \<Rightarrow> knowledge_state \<Rightarrow> action_receipt \<Rightarrow> store \<Rightarrow> knowledge_advance res" where
  "advance X E s receipt fs =
     rbind (validate_state X E s fs) (\<lambda>_.
     rbind (validate_action_receipt X E s receipt fs) (\<lambda>_.
     rbind (read_verified_bounded (sha X) (private_root E) (state_reference X E s) MAX_STATE_BYTES fs) (\<lambda>persisted_parent.
     rbind (reject (persisted_parent \<noteq> to_vec X (PState s)) (Integrity ''knowledge_parent_state_bytes_mismatch'')) (\<lambda>_.
     rbind (reduce_state X E s receipt) (\<lambda>(nxt, changes).
     rbind (validate_state X E nxt fs) (\<lambda>_.
     rbind (derive_terminal E nxt) (\<lambda>terminal_after.
     rbind (read_verified_bounded (sha X) (private_root E) (action_receipt_reference X E receipt)
              MAX_ACTION_RECEIPT_BYTES fs) (\<lambda>_.
     Inr \<lparr>adv_state = nxt, adv_transition = seal_transition X E s receipt nxt changes terminal_after\<rparr>))))))))"

section \<open>What an expansion may change\<close>

text \<open>The fields of a state that the reductions after the accounting leave alone.\<close>

definition ledger_fields where
  "ledger_fields s =
     (ks_schema s, ks_authority_root s, ks_inquiry_id s, ks_capability_bundle_reference s, ks_capability_bundle s,
      ks_policy_digest s, ks_revision s, ks_parent_digest s, ks_parent_reference s,
      ks_last_action_receipt_reference s, ks_budget s, ks_usage s, ks_applied_receipts s,
      ks_used_evidence_artifacts s)"

text \<open>
  \<open>s'\<close> extends \<open>s\<close> up to the obligation \<open>oid\<close>: nothing is removed, what is new is open and belongs to
  new claims, and \<open>oid\<close> may have been blocked by a cycle.
\<close>

definition cycle_blocked :: "knowledge_obligation \<Rightarrow> knowledge_obligation \<Rightarrow> bool" where
  "cycle_blocked ob ob' \<longleftrightarrow> (\<exists>r f t. ob' = ob\<lparr>obligation_state :=
      Blocked (attempts (obligation_state ob)) (witnesses (obligation_state ob)) (DependencyCycle r f t)\<rparr>)"

definition same_or_blocked :: "bool \<Rightarrow> knowledge_obligation \<Rightarrow> knowledge_obligation \<Rightarrow> bool" where
  "same_or_blocked planned ob ob' \<longleftrightarrow> ob' = ob \<or> planned \<and> cycle_blocked ob ob'"

definition extends_claims :: "(string, knowledge_claim) bmap \<Rightarrow> (string, knowledge_claim) bmap \<Rightarrow> bool" where
  "extends_claims claims claims' \<longleftrightarrow>
     (\<forall>i c. map_of claims i = Some c \<longrightarrow> map_of claims' i = Some c)
     \<and> (\<forall>i c. map_of claims i = None \<longrightarrow> map_of claims' i = Some c \<longrightarrow>
          claim_assessment c = Unresolved \<and> claim_id c = i)"

definition extends_obligations ::
  "string \<Rightarrow> string set \<Rightarrow> (string, knowledge_obligation) bmap \<Rightarrow> (string, knowledge_obligation) bmap \<Rightarrow> bool" where
  "extends_obligations oid old_claims obs obs' \<longleftrightarrow>
     map_of obs oid \<noteq> None
     \<and> (\<forall>i ob. map_of obs i = Some ob \<longrightarrow> (\<exists>ob'. map_of obs' i = Some ob' \<and> same_or_blocked (i = oid) ob ob'))
     \<and> (\<forall>i ob. map_of obs i = None \<longrightarrow> map_of obs' i = Some ob \<longrightarrow>
          obligation_state ob = Open 0 [] \<and> obligation_id ob = i \<and> obligation_claim_id ob \<notin> old_claims)"

definition extends_state :: "string \<Rightarrow> knowledge_state \<Rightarrow> knowledge_state \<Rightarrow> bool" where
  "extends_state oid s s' \<longleftrightarrow>
     ledger_fields s' = ledger_fields s \<and> ks_hypotheses s' = ks_hypotheses s
     \<and> extends_claims (ks_claims s) (ks_claims s')
     \<and> extends_obligations oid (dom (map_of (ks_claims s))) (ks_obligations s) (ks_obligations s')"

lemma same_or_blocked_refl [simp]: "same_or_blocked p ob ob"
  by (simp add: same_or_blocked_def)

lemma cycle_blocked_trans: "cycle_blocked a b \<Longrightarrow> cycle_blocked b c \<Longrightarrow> cycle_blocked a c"
  unfolding cycle_blocked_def by (elim exE, intro exI) simp

lemma same_or_blocked_trans: "same_or_blocked p a b \<Longrightarrow> same_or_blocked p b c \<Longrightarrow> same_or_blocked p a c"
  unfolding same_or_blocked_def using cycle_blocked_trans by blast

lemma extends_claims_refl: "extends_claims a a"
  by (simp add: extends_claims_def)

lemma extends_claims_trans:
  assumes 1: "extends_claims a b" and 2: "extends_claims b c" shows "extends_claims a c"
  unfolding extends_claims_def
proof (intro conjI allI impI)
  fix i cl assume "map_of a i = Some cl"
  with 1 2 show "map_of c i = Some cl" unfolding extends_claims_def by blast
next
  fix i cl assume a: "map_of a i = None" and c: "map_of c i = Some cl"
  have "claim_assessment cl = Unresolved \<and> claim_id cl = i"
  proof (cases "map_of b i")
    case None
    with 2 c show ?thesis unfolding extends_claims_def by blast
  next
    case (Some cl1)
    with 2 c have "cl = cl1" unfolding extends_claims_def by fastforce
    with 1 a Some show ?thesis unfolding extends_claims_def by blast
  qed
  then show "claim_assessment cl = Unresolved" "claim_id cl = i" by blast+
qed

lemma extends_obligations_refl: "map_of a oid \<noteq> None \<Longrightarrow> extends_obligations oid P a a"
  by (auto simp: extends_obligations_def)

lemma extends_obligations_trans:
  assumes 1: "extends_obligations oid P a b" and 2: "extends_obligations oid Q b c" and PQ: "P \<subseteq> Q"
  shows "extends_obligations oid P a c"
proof -
  have a: "map_of a oid \<noteq> None" using 1 unfolding extends_obligations_def by blast
  have old: "\<exists>ob'. map_of c i = Some ob' \<and> same_or_blocked (i = oid) ob ob'" if "map_of a i = Some ob" for i ob
  proof -
    from 1 that obtain ob1 where "map_of b i = Some ob1" and s1: "same_or_blocked (i = oid) ob ob1"
      unfolding extends_obligations_def by blast
    with 2 obtain ob2 where "map_of c i = Some ob2" "same_or_blocked (i = oid) ob1 ob2"
      unfolding extends_obligations_def by blast
    with same_or_blocked_trans[OF s1] show ?thesis by blast
  qed
  have new: "obligation_state ob = Open 0 [] \<and> obligation_id ob = i \<and> obligation_claim_id ob \<notin> P"
    if n: "map_of a i = None" and c: "map_of c i = Some ob" for i ob
  proof (cases "map_of b i")
    case None
    with 2 c PQ show ?thesis unfolding extends_obligations_def by blast
  next
    case (Some ob1)
    from a n have "i \<noteq> oid" by auto
    with 2 Some c have "ob = ob1" unfolding extends_obligations_def same_or_blocked_def by fastforce
    with 1 n Some show ?thesis unfolding extends_obligations_def by blast
  qed
  from a old new show ?thesis unfolding extends_obligations_def by blast
qed

lemma extends_state_refl: "map_of (ks_obligations s) oid \<noteq> None \<Longrightarrow> extends_state oid s s"
  by (simp add: extends_state_def extends_claims_refl extends_obligations_refl)

lemma extends_state_old:
  assumes "extends_state oid s s'" "map_of (ks_obligations s) i = Some ob"
  obtains ob' where "map_of (ks_obligations s') i = Some ob'" "same_or_blocked (i = oid) ob ob'"
  using assms unfolding extends_state_def extends_obligations_def by blast

lemma extends_state_new:
  assumes "extends_state oid s s'" "map_of (ks_obligations s) i = None" "map_of (ks_obligations s') i = Some ob"
  shows "obligation_state ob = Open 0 [] \<and> obligation_id ob = i \<and> map_of (ks_claims s) (obligation_claim_id ob) = None"
  using assms unfolding extends_state_def extends_obligations_def by (metis domIff)

lemma extends_state_planned: "extends_state oid s s' \<Longrightarrow> map_of (ks_obligations s) oid \<noteq> None"
  unfolding extends_state_def extends_obligations_def by blast

lemma extends_state_ledger: "extends_state oid s s' \<Longrightarrow> ledger_fields s' = ledger_fields s \<and> ks_hypotheses s' = ks_hypotheses s"
  by (simp add: extends_state_def)

lemma extends_state_trans:
  assumes "extends_state oid a b" "extends_state oid b c" shows "extends_state oid a c"
proof -
  have "dom (map_of (ks_claims a)) \<subseteq> dom (map_of (ks_claims b))"
    using assms(1) by (auto simp: extends_state_def extends_claims_def)
  with assms show ?thesis
    by (auto simp: extends_state_def intro: extends_claims_trans extends_obligations_trans)
qed

text \<open>A step that changes neither claims nor obligations.\<close>

lemma extends_state_index:
  assumes "map_of (ks_obligations s) oid \<noteq> None"
    and "ledger_fields s' = ledger_fields s" "ks_hypotheses s' = ks_hypotheses s"
      "ks_claims s' = ks_claims s" "ks_obligations s' = ks_obligations s"
  shows "extends_state oid s s'"
  using assms by (simp add: extends_state_def extends_claims_refl extends_obligations_refl)

lemma link_dependency_Inr:
  assumes "link_dependency edge s = Inr s'"
  shows "s' = s\<lparr>ks_dependency_graph := bm_modify (edge_from edge) (bs_insert (edge_to edge)) (ks_dependency_graph s)\<rparr>"
    and "map_of (ks_dependency_graph s) (edge_from edge) \<noteq> None"
  using assms by (auto simp: link_dependency_def)

lemma add_dependency_state:
  assumes "add_dependency X child_depth max_depth edge (s, ch) = Inr (s', ch')"
  obtains cid i predicate where
    "map_of (ks_claims s) cid = None" "map_of (ks_obligations s) i = None"
    "dependency_closure_predicate X (edge_to edge) = Inr predicate"
    "edge_from edge = edge_to edge \<or> map_of (ks_dependency_graph s) (edge_from edge) \<noteq> None"
    "s' = s\<lparr>
       ks_claims := bm_insert cid \<lparr>claim_id = cid, claim_domain = DependencyClosure, claim_predicate = predicate,
                      claim_assessment = Unresolved\<rparr> (ks_claims s),
       ks_obligations := bm_insert i \<lparr>obligation_id = i, obligation_claim_id = cid,
                      obligation_domain = DependencyClosure, obligation_criterion = EvaluationCriterion predicate,
                      obligation_plan = ExpandDependencyClosure (edge_to edge) child_depth max_depth,
                      obligation_state = Open 0 []\<rparr> (ks_obligations s),
       ks_dependency_parents := bm_insert (edge_to edge) (Some (edge_from edge)) (ks_dependency_parents s),
       ks_dependency_depths := bm_insert (edge_to edge) child_depth (ks_dependency_depths s),
       ks_dependency_graph := bm_modify (edge_from edge) (bs_insert (edge_to edge))
           (bm_insert (edge_to edge) [] (ks_dependency_graph s))\<rparr>"
proof -
  let ?pl = "to_vec X (PDependencyIdentity (ks_inquiry_id s) (ks_capability_bundle s) (edge_to edge))"
  let ?c = "derived_discovery_claim (sha X) ?pl" and ?o = "derived_discovery_obligation (sha X) ?pl"
  from assms obtain predicate s1 where fresh: "map_of (ks_claims s) ?c = None" "map_of (ks_obligations s) ?o = None"
    and p: "dependency_closure_predicate X (edge_to edge) = Inr predicate"
    and l: "link_dependency edge (s\<lparr>
       ks_claims := bm_insert ?c \<lparr>claim_id = ?c, claim_domain = DependencyClosure, claim_predicate = predicate,
                      claim_assessment = Unresolved\<rparr> (ks_claims s),
       ks_obligations := bm_insert ?o \<lparr>obligation_id = ?o, obligation_claim_id = ?c,
                      obligation_domain = DependencyClosure, obligation_criterion = EvaluationCriterion predicate,
                      obligation_plan = ExpandDependencyClosure (edge_to edge) child_depth max_depth,
                      obligation_state = Open 0 []\<rparr> (ks_obligations s),
       ks_dependency_parents := bm_insert (edge_to edge) (Some (edge_from edge)) (ks_dependency_parents s),
       ks_dependency_depths := bm_insert (edge_to edge) child_depth (ks_dependency_depths s),
       ks_dependency_graph := bm_insert (edge_to edge) [] (ks_dependency_graph s)\<rparr>) = Inr s'"
    by (auto simp: add_dependency_def Let_def)
  from link_dependency_Inr(2)[OF l] have
    "edge_from edge = edge_to edge \<or> map_of (ks_dependency_graph s) (edge_from edge) \<noteq> None" by auto
  with that[OF fresh p this] link_dependency_Inr(1)[OF l] show thesis by simp
qed

lemma add_dependency_Inr:
  assumes "add_dependency X child_depth max_depth edge (s, ch) = Inr (s', ch')"
    and oid: "map_of (ks_obligations s) oid \<noteq> None"
  shows "extends_state oid s s'"
    and "ks_bounded_reason s' = ks_bounded_reason s"
    and "ks_dependency_parents s' = bm_insert (edge_to edge) (Some (edge_from edge)) (ks_dependency_parents s)"
    and "ks_dependency_depths s' = bm_insert (edge_to edge) child_depth (ks_dependency_depths s)"
    and "ks_dependency_graph s' = bm_modify (edge_from edge) (bs_insert (edge_to edge))
           (bm_insert (edge_to edge) [] (ks_dependency_graph s))"
    and "edge_from edge = edge_to edge \<or> map_of (ks_dependency_graph s) (edge_from edge) \<noteq> None"
proof -
  from assms(1) obtain cid i predicate where st:
    "map_of (ks_claims s) cid = None" "map_of (ks_obligations s) i = None"
    "edge_from edge = edge_to edge \<or> map_of (ks_dependency_graph s) (edge_from edge) \<noteq> None"
    "s' = s\<lparr>
       ks_claims := bm_insert cid \<lparr>claim_id = cid, claim_domain = DependencyClosure, claim_predicate = predicate,
                      claim_assessment = Unresolved\<rparr> (ks_claims s),
       ks_obligations := bm_insert i \<lparr>obligation_id = i, obligation_claim_id = cid,
                      obligation_domain = DependencyClosure, obligation_criterion = EvaluationCriterion predicate,
                      obligation_plan = ExpandDependencyClosure (edge_to edge) child_depth max_depth,
                      obligation_state = Open 0 []\<rparr> (ks_obligations s),
       ks_dependency_parents := bm_insert (edge_to edge) (Some (edge_from edge)) (ks_dependency_parents s),
       ks_dependency_depths := bm_insert (edge_to edge) child_depth (ks_dependency_depths s),
       ks_dependency_graph := bm_modify (edge_from edge) (bs_insert (edge_to edge))
           (bm_insert (edge_to edge) [] (ks_dependency_graph s))\<rparr>"
    by (rule add_dependency_state)
  show "extends_state oid s s'"
    unfolding extends_state_def
  proof (intro conjI)
    show "ledger_fields s' = ledger_fields s" "ks_hypotheses s' = ks_hypotheses s"
      by (simp_all add: st(4) ledger_fields_def)
    show "extends_claims (ks_claims s) (ks_claims s')"
      using st(1) by (auto simp: extends_claims_def st(4))
    show "extends_obligations oid (dom (map_of (ks_claims s))) (ks_obligations s) (ks_obligations s')"
      using st(1,2) oid by (auto simp: extends_obligations_def st(4))
  qed
qed (use assms(1) in \<open>elim add_dependency_state, simp\<close>)+

lemma cycle_blockedI:
  "cycle_blocked ob (ob\<lparr>obligation_state :=
      Blocked (attempts (obligation_state ob)) (witnesses (obligation_state ob)) (DependencyCycle r f t)\<rparr>)"
  by (auto simp: cycle_blocked_def)

lemma block_dependency_cycle_Inr:
  assumes "block_dependency_cycle oid receipt edge (s, ch) = Inr (s', ch')"
  shows "extends_state oid s s'"
    and "ks_bounded_reason s' = ks_bounded_reason s" "ks_dependency_parents s' = ks_dependency_parents s"
      "ks_dependency_depths s' = ks_dependency_depths s" "ks_dependency_graph s' = ks_dependency_graph s"
    and "\<exists>ob. map_of (ks_obligations s') oid = Some ob \<and>
           (\<exists>n w. obligation_state ob = Blocked n w (DependencyCycle receipt (edge_from edge) (edge_to edge)))"
  using assms
  by (auto simp: block_dependency_cycle_def extends_state_def ledger_fields_def extends_claims_refl
      extends_obligations_def same_or_blocked_def cycle_blockedI split: if_splits)

section \<open>The dependency index\<close>

text \<open>
  The index of dependencies: an acyclic graph whose nodes are the indexed ones, within the node
  and depth bounds, where a node with a parent lies one below it.
\<close>

definition dependency_ok :: "knowledge_state \<Rightarrow> bool" where
  "dependency_ok s \<longleftrightarrow>
     graph_ok (ks_dependency_graph s) \<and> acyclic (edges (ks_dependency_graph s))
     \<and> bm_ok (ks_dependency_parents s) \<and> bm_ok (ks_dependency_depths s)
     \<and> nodes (ks_dependency_graph s) = dom (map_of (ks_dependency_parents s))
     \<and> dom (map_of (ks_dependency_depths s)) = dom (map_of (ks_dependency_parents s))
     \<and> length (ks_dependency_parents s) \<le> max_dependency_nodes (ks_budget s)
     \<and> (\<forall>n d. map_of (ks_dependency_depths s) n = Some d \<longrightarrow> d \<le> max_dependency_depth (ks_budget s))
     \<and> (\<forall>n p. map_of (ks_dependency_parents s) n = Some (Some p) \<longrightarrow> (p, n) \<in> edges (ks_dependency_graph s)
          \<and> (\<exists>d. map_of (ks_dependency_depths s) p = Some d \<and> map_of (ks_dependency_depths s) n = Some (Suc d)))"

lemma dependency_ok_reachable:
  assumes "dependency_ok s"
  shows "dependency_graph_reachable (ks_dependency_graph s) a b (max_dependency_nodes (ks_budget s))
       = Inr ((a, b) \<in> (edges (ks_dependency_graph s))\<^sup>*)"
proof (rule reachable_decides)
  show ok: "graph_ok (ks_dependency_graph s)" using assms by (simp add: dependency_ok_def)
  have "length (ks_dependency_graph s) = length (ks_dependency_parents s)"
    using card_nodes[OF ok] assms by (simp add: dependency_ok_def card_dom_bm)
  then show "length (ks_dependency_graph s) \<le> max_dependency_nodes (ks_budget s)"
    using assms by (simp add: dependency_ok_def)
qed

text \<open>What an expansion promises of one edge: it is linked, or the refusal is recorded.\<close>

definition edge_accounted :: "string \<Rightarrow> dependency_edge \<Rightarrow> knowledge_state \<Rightarrow> bool" where
  "edge_accounted oid edge s \<longleftrightarrow>
     (edge_from edge, edge_to edge) \<in> edges (ks_dependency_graph s)
     \<or> (\<exists>ob. map_of (ks_obligations s) oid = Some ob \<and> is_blocked (obligation_state ob))
     \<or> ks_bounded_reason s \<noteq> None"

definition expansion_step :: "string \<Rightarrow> string \<Rightarrow> nat \<Rightarrow> knowledge_state \<Rightarrow> knowledge_state \<Rightarrow> bool" where
  "expansion_step oid root depth s s' \<longleftrightarrow>
     extends_state oid s s'
     \<and> map_of (ks_dependency_depths s') root = Some depth
     \<and> edges (ks_dependency_graph s) \<subseteq> edges (ks_dependency_graph s')
     \<and> (\<forall>n p. map_of (ks_dependency_parents s) n = Some p \<longrightarrow> map_of (ks_dependency_parents s') n = Some p)
     \<and> (\<forall>n d. map_of (ks_dependency_depths s) n = Some d \<longrightarrow> map_of (ks_dependency_depths s') n = Some d)
     \<and> (ks_bounded_reason s \<noteq> None \<longrightarrow> ks_bounded_reason s' \<noteq> None)"

lemma edge_accounted_mono:
  assumes st: "expansion_step oid root depth s s'" and acc: "edge_accounted oid edge s"
  shows "edge_accounted oid edge s'"
proof -
  have "\<exists>ob'. map_of (ks_obligations s') oid = Some ob' \<and> is_blocked (obligation_state ob')"
    if "map_of (ks_obligations s) oid = Some ob" "is_blocked (obligation_state ob)" for ob
  proof -
    from st have "extends_state oid s s'" by (simp add: expansion_step_def)
    from extends_state_old[OF this that(1)] obtain ob' where
      "map_of (ks_obligations s') oid = Some ob'" "same_or_blocked True ob ob'" by auto
    with that(2) show ?thesis by (auto simp: same_or_blocked_def cycle_blocked_def)
  qed
  with st acc show ?thesis unfolding edge_accounted_def expansion_step_def by blast
qed

lemma expansion_step_trans:
  "expansion_step oid root depth a b \<Longrightarrow> expansion_step oid root depth b c \<Longrightarrow> expansion_step oid root depth a c"
proof -
  assume a: "expansion_step oid root depth a b" and b: "expansion_step oid root depth b c"
  show ?thesis
    unfolding expansion_step_def
  proof (intro conjI)
    show "extends_state oid a c" using a b extends_state_trans unfolding expansion_step_def by blast
    show "edges (ks_dependency_graph a) \<subseteq> edges (ks_dependency_graph c)"
      using a b unfolding expansion_step_def by (meson subset_trans)
  qed (use a b in \<open>simp_all add: expansion_step_def\<close>)
qed

lemma extends_state_budget: "extends_state oid s s' \<Longrightarrow> ks_budget s' = ks_budget s"
  by (simp add: extends_state_def ledger_fields_def)

lemma dependency_ok_cong:
  assumes "dependency_ok s" "ks_budget s' = ks_budget s" "ks_dependency_parents s' = ks_dependency_parents s"
    "ks_dependency_depths s' = ks_dependency_depths s" "ks_dependency_graph s' = ks_dependency_graph s"
  shows "dependency_ok s'"
  using assms by (simp add: dependency_ok_def)

lemma dependency_ok_link:
  assumes ok: "dependency_ok s" and u: "u \<in> nodes (ks_dependency_graph s)" and v: "v \<in> nodes (ks_dependency_graph s)"
    and no_cycle: "(v, u) \<notin> (edges (ks_dependency_graph s))\<^sup>*"
  shows "dependency_ok (s\<lparr>ks_dependency_graph := bm_modify u (bs_insert v) (ks_dependency_graph s)\<rparr>)"
  using ok graph_ok_add_edge[OF _ v, of u] edges_add_edge[OF u, of v] no_cycle
  by (auto simp: dependency_ok_def acyclic_insert)

lemma dependency_ok_add:
  assumes ok: "dependency_ok s" and u: "map_of (ks_dependency_depths s) u = Some d"
    and v: "map_of (ks_dependency_parents s) v = None"
    and bounds: "Suc d \<le> max_dependency_depth (ks_budget s)"
      "length (ks_dependency_parents s) < max_dependency_nodes (ks_budget s)"
    and s': "ks_budget s' = ks_budget s"
      "ks_dependency_parents s' = bm_insert v (Some u) (ks_dependency_parents s)"
      "ks_dependency_depths s' = bm_insert v (Suc d) (ks_dependency_depths s)"
      "ks_dependency_graph s' = bm_modify u (bs_insert v) (bm_insert v [] (ks_dependency_graph s))"
  shows "dependency_ok s'"
proof -
  let ?g = "ks_dependency_graph s" and ?g1 = "bm_insert v [] (ks_dependency_graph s)"
  have nd: "nodes ?g = dom (map_of (ks_dependency_parents s))"
    "dom (map_of (ks_dependency_depths s)) = dom (map_of (ks_dependency_parents s))" and gok: "graph_ok ?g"
    using ok by (simp_all add: dependency_ok_def)
  have vn: "v \<notin> nodes ?g" and un: "u \<in> nodes ?g" using v u nd by auto
  have g1: "graph_ok ?g1" "edges ?g1 = edges ?g" using graph_ok_add_node[OF gok vn] edges_add_node[OF vn] by auto
  have uv: "u \<noteq> v" using un vn by blast
  have e: "edges (ks_dependency_graph s') = insert (u, v) (edges ?g)"
    using edges_add_edge[of u ?g1 v] un g1(2) by (simp add: s')
  have g: "graph_ok (ks_dependency_graph s')" using graph_ok_add_edge[OF g1(1), of v u] by (simp add: s')
  have iso: "(v, x) \<notin> edges ?g" for x using edges_nodes[OF gok] vn by blast
  have "(v, u) \<notin> (edges ?g)\<^sup>*"
  proof
    assume "(v, u) \<in> (edges ?g)\<^sup>*"
    then show False using uv iso by (cases rule: converse_rtranclE) auto
  qed
  then have ac: "acyclic (edges (ks_dependency_graph s'))" using ok e by (simp add: dependency_ok_def acyclic_insert)
  have par: "(p, n) \<in> edges (ks_dependency_graph s')
      \<and> (\<exists>d. map_of (ks_dependency_depths s') p = Some d \<and> map_of (ks_dependency_depths s') n = Some (Suc d))"
    if p: "map_of (ks_dependency_parents s') n = Some (Some p)" for n p
  proof (cases "n = v")
    case True
    with p have "p = u" by (simp add: s')
    with True e u uv show ?thesis by (simp add: s')
  next
    case False
    with p have "map_of (ks_dependency_parents s) n = Some (Some p)" by (simp add: s')
    with ok have o: "(p, n) \<in> edges ?g"
      "\<exists>d. map_of (ks_dependency_depths s) p = Some d \<and> map_of (ks_dependency_depths s) n = Some (Suc d)"
      unfolding dependency_ok_def by blast+
    moreover from o(1) edges_nodes[OF gok] vn have "p \<noteq> v" by blast
    ultimately show ?thesis using e False by (auto simp: s')
  qed
  show ?thesis
    unfolding dependency_ok_def
  proof (intro conjI)
    show "graph_ok (ks_dependency_graph s')" "acyclic (edges (ks_dependency_graph s'))" by (fact g ac)+
    show "bm_ok (ks_dependency_parents s')" "bm_ok (ks_dependency_depths s')"
      using ok by (auto simp: s' dependency_ok_def)
    show "nodes (ks_dependency_graph s') = dom (map_of (ks_dependency_parents s'))"
      using nd un by (auto simp: s')
    show "dom (map_of (ks_dependency_depths s')) = dom (map_of (ks_dependency_parents s'))" using nd by (simp add: s')
    show "length (ks_dependency_parents s') \<le> max_dependency_nodes (ks_budget s')"
      using ok v bounds by (simp add: s' dependency_ok_def length_bm_insert)
    show "\<forall>n d. map_of (ks_dependency_depths s') n = Some d \<longrightarrow> d \<le> max_dependency_depth (ks_budget s')"
      using ok bounds by (auto simp: s' dependency_ok_def split: if_splits)
    show "\<forall>n p. map_of (ks_dependency_parents s') n = Some (Some p) \<longrightarrow> (p, n) \<in> edges (ks_dependency_graph s')
          \<and> (\<exists>d. map_of (ks_dependency_depths s') p = Some d \<and> map_of (ks_dependency_depths s') n = Some (Suc d))"
      using par by blast
  qed
qed

lemma expand_edge_Inr:
  assumes e: "expand_edge X v depth receipt edge (s, ch) = Inr (s', ch')"
    and ok: "dependency_ok s" and root: "map_of (ks_dependency_depths s) (de_root v) = Some depth"
    and planned: "map_of (ks_obligations s) (ib_obligation_id (de_binding v)) \<noteq> None"
  shows "dependency_ok s' \<and> expansion_step (ib_obligation_id (de_binding v)) (de_root v) depth s s'
    \<and> edge_accounted (ib_obligation_id (de_binding v)) edge s'"
proof -
  let ?o = "ib_obligation_id (de_binding v)" and ?g = "ks_dependency_graph s"
  from e have from_root: "edge_from edge = de_root v" by (auto simp: expand_edge_def)
  let ?cycle = "edge_to edge = de_root v \<or> (edge_to edge, de_root v) \<in> (edges ?g)\<^sup>*"
  have cyc: "(if edge_to edge = de_root v then Inr True
            else dependency_graph_reachable ?g (edge_to edge) (de_root v) (max_dependency_nodes (ks_budget s)))
        = Inr ?cycle"
    using dependency_ok_reachable[OF ok] by simp
  have not_rejected: "(de_root v \<noteq> de_root v) = False" by simp
  have eq: "expand_edge X v depth receipt edge (s, ch) =
     (if ?cycle then block_dependency_cycle ?o receipt edge (s, ch)
     else if map_of (ks_dependency_parents s) (edge_to edge) \<noteq> None
     then rbind (link_dependency edge s) (\<lambda>s'. Inr (s', ch))
     else rbind (ok_or (checked_add 16 depth 1) (Invalid ''dependency_depth_overflow'')) (\<lambda>child_depth.
       if de_max_depth v < child_depth \<or> max_dependency_depth (ks_budget s) < child_depth
       then Inr (s\<lparr>ks_bounded_reason := Some (DependencyDepthLimitReached (edge_to edge))\<rparr>, ch)
       else if max_dependency_nodes (ks_budget s) \<le> length (ks_dependency_parents s)
       then Inr (s\<lparr>ks_bounded_reason := Some DependencyNodeLimitReached\<rparr>, ch)
       else add_dependency X child_depth (de_max_depth v) edge (s, ch)))"
    by (simp only: expand_edge_def from_root cyc prod.case rbind_simps not_rejected reject_simps)
  have rn: "de_root v \<in> nodes ?g" using ok root by (auto simp: dependency_ok_def)
  consider (cycle) "?cycle" | (linked) "\<not> ?cycle" "map_of (ks_dependency_parents s) (edge_to edge) \<noteq> None"
    | (fresh) "\<not> ?cycle" "map_of (ks_dependency_parents s) (edge_to edge) = None" by blast
  then show ?thesis
  proof cases
    case cycle
    have b: "block_dependency_cycle ?o receipt edge (s, ch) = Inr (s', ch')"
      using e unfolding eq if_P[OF cycle] .
    note b = block_dependency_cycle_Inr[OF b]
    have "ks_budget s' = ks_budget s" using extends_state_budget[OF b(1)] .
    then have "dependency_ok s'" using dependency_ok_cong[OF ok] b by blast
    moreover have "expansion_step ?o (de_root v) depth s s'" using b root by (simp add: expansion_step_def)
    moreover have "edge_accounted ?o edge s'" using b(6) by (auto simp: edge_accounted_def)
    ultimately show ?thesis by blast
  next
    case linked
    have "rbind (link_dependency edge s) (\<lambda>s'. Inr (s', ch)) = Inr (s', ch')"
      using e unfolding eq if_not_P[OF linked(1)] if_P[OF linked(2)] .
    then have l: "link_dependency edge s = Inr s'" by auto
    note l = link_dependency_Inr[OF l]
    have to: "edge_to edge \<in> nodes ?g" using linked(2) ok by (auto simp: dependency_ok_def)
    have "dependency_ok s'" using dependency_ok_link[OF ok rn to] linked(1) l(1) from_root by simp
    moreover have ed: "edges (ks_dependency_graph s') = insert (edge_from edge, edge_to edge) (edges ?g)"
      using edges_add_edge[OF rn] l(1) from_root by simp
    moreover have "extends_state ?o s s'" using planned l(1) by (intro extends_state_index) (simp_all add: ledger_fields_def)
    ultimately show ?thesis using root l(1) by (auto simp: expansion_step_def edge_accounted_def)
  next
    case fresh
    have "\<not> (map_of (ks_dependency_parents s) (edge_to edge) \<noteq> None)" using fresh(2) by simp
    note e1 = e[unfolded eq if_not_P[OF fresh(1)] if_not_P[OF this]]
    then obtain child where child: "child = Suc depth"
      and r: "(if de_max_depth v < child \<or> max_dependency_depth (ks_budget s) < child
       then Inr (s\<lparr>ks_bounded_reason := Some (DependencyDepthLimitReached (edge_to edge))\<rparr>, ch)
       else if max_dependency_nodes (ks_budget s) \<le> length (ks_dependency_parents s)
       then Inr (s\<lparr>ks_bounded_reason := Some DependencyNodeLimitReached\<rparr>, ch)
       else add_dependency X child (de_max_depth v) edge (s, ch)) = Inr (s', ch')"
      by auto
    show ?thesis
    proof (cases "(de_max_depth v < child \<or> max_dependency_depth (ks_budget s) < child)
        \<or> max_dependency_nodes (ks_budget s) \<le> length (ks_dependency_parents s)")
      case True
      with r obtain reason where s': "s' = s\<lparr>ks_bounded_reason := Some reason\<rparr>" by (auto split: if_splits)
      have "dependency_ok s'" using s' by (intro dependency_ok_cong[OF ok]) simp_all
      moreover have "extends_state ?o s s'" using planned s' by (intro extends_state_index) (simp_all add: ledger_fields_def)
      ultimately show ?thesis using root s' by (auto simp: expansion_step_def edge_accounted_def)
    next
      case False
      with r have a: "add_dependency X child (de_max_depth v) edge (s, ch) = Inr (s', ch')" by simp
      note a = add_dependency_Inr[OF a planned]
      have bud: "ks_budget s' = ks_budget s" using extends_state_budget[OF a(1)] .
      have "dependency_ok s'"
        by (rule dependency_ok_add[OF ok root fresh(2)]) (use False a bud child from_root in auto)
      moreover have vn: "edge_to edge \<notin> nodes ?g" using fresh(2) ok by (auto simp: dependency_ok_def)
      then have ed: "edges (ks_dependency_graph s') = insert (edge_from edge, edge_to edge) (edges ?g)"
        using rn from_root a(5) edges_add_edge[of "de_root v" "bm_insert (edge_to edge) [] ?g" "edge_to edge"]
          edges_add_node[OF vn] by simp
      moreover have nd: "map_of (ks_dependency_depths s) (edge_to edge) = None"
        using fresh(2) ok unfolding dependency_ok_def by (metis domIff)
      ultimately show ?thesis
        using root a fresh(2) by (auto simp: expansion_step_def edge_accounted_def)
    qed
  qed
qed

lemma reduce_dependency_expansion_Inr:
  assumes e: "reduce_dependency_expansion X s v es receipt ch = Inr (s', ch')"
    and ok: "dependency_ok s" and planned: "map_of (ks_obligations s) (ib_obligation_id (de_binding v)) \<noteq> None"
  shows "dependency_ok s' \<and> extends_state (ib_obligation_id (de_binding v)) s s'
    \<and> (\<forall>edge \<in> set es. edge_accounted (ib_obligation_id (de_binding v)) edge s')"
proof -
  let ?o = "ib_obligation_id (de_binding v)"
  from e have root: "map_of (ks_dependency_depths s) (de_root v) = Some (de_depth v)"
    and r: "rfold (expand_edge X v (de_depth v) receipt) es (s, ch) = Inr (s', ch')"
    by (auto simp: reduce_dependency_expansion_def)
  have refl: "expansion_step ?o (de_root v) (de_depth v) s s"
    using extends_state_refl[OF planned] root by (simp add: expansion_step_def)
  have loop: "dependency_ok s' \<and> expansion_step ?o (de_root v) (de_depth v) s1 s'
      \<and> (\<forall>edge \<in> set es. edge_accounted ?o edge s')"
    if "rfold (expand_edge X v (de_depth v) receipt) es (s1, ch1) = Inr (s', ch')" "dependency_ok s1"
      "expansion_step ?o (de_root v) (de_depth v) s1 s1" for es s1 ch1
    using that
  proof (induction es arbitrary: s1 ch1)
    case (Cons edge es)
    then obtain s2 ch2 where s2: "expand_edge X v (de_depth v) receipt edge (s1, ch1) = Inr (s2, ch2)"
      and rest: "rfold (expand_edge X v (de_depth v) receipt) es (s2, ch2) = Inr (s', ch')" by auto
    have 1: "map_of (ks_dependency_depths s1) (de_root v) = Some (de_depth v)" "map_of (ks_obligations s1) ?o \<noteq> None"
      using Cons.prems(3) extends_state_planned by (auto simp: expansion_step_def)
    note st = expand_edge_Inr[OF s2 Cons.prems(2) 1]
    have "expansion_step ?o (de_root v) (de_depth v) s2 s2"
    proof -
      from 1(2) obtain ob where "map_of (ks_obligations s1) ?o = Some ob" by blast
      moreover from st have "extends_state ?o s1 s2" by (simp add: expansion_step_def)
      ultimately have "map_of (ks_obligations s2) ?o \<noteq> None" by (metis extends_state_old option.discI)
      with st show ?thesis using extends_state_refl by (simp add: expansion_step_def)
    qed
    with Cons.IH[OF rest] st have ih: "dependency_ok s'" "expansion_step ?o (de_root v) (de_depth v) s2 s'"
      "\<forall>edge \<in> set es. edge_accounted ?o edge s'" by blast+
    moreover have "expansion_step ?o (de_root v) (de_depth v) s1 s'"
      using st ih(2) expansion_step_trans by blast
    moreover have "edge_accounted ?o edge s'" using st ih(2) edge_accounted_mono by blast
    ultimately show ?case by simp
  qed simp
  from loop[OF r ok refl] show ?thesis by (simp add: expansion_step_def)
qed

end
