(* ===== verification/Knowledge_Advance.thy ===== *)
theory Knowledge_Advance
  imports Knowledge_Reducer
begin

text \<open>
  The properties of \<open>advance\<close> (\<open>src/knowledge/knowledge_engine.rs\<close>): its accounting, what it keeps
  and what it may change in obligations, claims, hypotheses and the dependency index, and the
  bound on the length of a run.
\<close>

section \<open>The containers of the successor\<close>

lemma bm_values_modify: "set (bm_values (bm_modify k f m)) \<subseteq> set (bm_values m) \<union> f ` set (bm_values m)"
  by (induction k f m rule: bm_modify.induct) (auto simp: bm_values_def)

lemma bm_values_insert: "set (bm_values (bm_insert k v m)) \<subseteq> insert v (set (bm_values m))"
  using set_bm_insert_subset[of k v m] by (force simp: bm_values_def)

lemma expand_edge_containers:
  assumes e: "expand_edge X v depth receipt edge (s, ch) = Inr (s', ch')" and ok: "state_containers_ok s"
  shows "state_containers_ok s'"
proof -
  have link: "state_containers_ok s2" if l: "link_dependency edge s1 = Inr s2" and o: "state_containers_ok s1" for s1 s2
  proof -
    have "bs_ok ts" if "ts \<in> set (bm_values (bm_modify (edge_from edge) (bs_insert (edge_to edge)) (ks_dependency_graph s1)))" for ts
      using that bm_values_modify[of "edge_from edge" "bs_insert (edge_to edge)" "ks_dependency_graph s1"] o
      by (auto simp: state_containers_ok_def)
    with o link_dependency_Inr(1)[OF l] show ?thesis by (simp add: state_containers_ok_def)
  qed
  have block: "state_containers_ok s2"
    if b: "block_dependency_cycle oid receipt edge (s, ch) = Inr (s2, ch2)" for oid s2 ch2
  proof -
    let ?f = "\<lambda>ob. ob\<lparr>obligation_state := Blocked (attempts (obligation_state ob)) (witnesses (obligation_state ob))
                (DependencyCycle receipt (edge_from edge) (edge_to edge))\<rparr>"
    have "plan_containers_ok (obligation_plan ob) \<and> bs_ok (witnesses (obligation_state ob))"
      if "ob \<in> set (bm_values (bm_modify oid ?f (ks_obligations s)))" for ob
      using that bm_values_modify[of oid ?f "ks_obligations s"] ok by (auto simp: state_containers_ok_def)
    with ok b show ?thesis by (auto simp: block_dependency_cycle_def state_containers_ok_def)
  qed
  have add: "state_containers_ok s2" if a: "add_dependency X d m edge (s, ch) = Inr (s2, ch2)" for d m s2 ch2
  proof -
    from a obtain s1 cid i predicate where l: "link_dependency edge s1 = Inr s2" and s1: "s1 = s\<lparr>
       ks_claims := bm_insert cid \<lparr>claim_id = cid, claim_domain = DependencyClosure, claim_predicate = predicate,
                      claim_assessment = Unresolved\<rparr> (ks_claims s),
       ks_obligations := bm_insert i \<lparr>obligation_id = i, obligation_claim_id = cid,
                      obligation_domain = DependencyClosure, obligation_criterion = EvaluationCriterion predicate,
                      obligation_plan = ExpandDependencyClosure (edge_to edge) d m,
                      obligation_state = Open 0 []\<rparr> (ks_obligations s),
       ks_dependency_parents := bm_insert (edge_to edge) (Some (edge_from edge)) (ks_dependency_parents s),
       ks_dependency_depths := bm_insert (edge_to edge) d (ks_dependency_depths s),
       ks_dependency_graph := bm_insert (edge_to edge) [] (ks_dependency_graph s)\<rparr>"
      by (auto simp: add_dependency_def Let_def)
    have "bs_ok ts" if "ts \<in> set (bm_values (ks_dependency_graph s1))" for ts
      using that bm_values_insert[of "edge_to edge" "[]" "ks_dependency_graph s"] ok
      by (auto simp: state_containers_ok_def s1)
    moreover have "plan_containers_ok (obligation_plan ob) \<and> bs_ok (witnesses (obligation_state ob))"
      if "ob \<in> set (bm_values (ks_obligations s1))" for ob
      using that ok unfolding s1 by (auto simp: state_containers_ok_def dest!: subsetD[OF bm_values_insert])
    ultimately have "state_containers_ok s1" using ok by (simp add: state_containers_ok_def s1)
    from link[OF l this] show ?thesis .
  qed
  have index: "state_containers_ok (s\<lparr>ks_bounded_reason := b\<rparr>)" for b using ok by (simp add: state_containers_ok_def)
  from e show ?thesis
    using link[OF _ ok] block add index
    by (auto simp: expand_edge_def split: if_splits)
qed

lemma reduce_dependency_expansion_containers:
  assumes "reduce_dependency_expansion X s v es receipt ch = Inr (s', ch')" and "state_containers_ok s"
  shows "state_containers_ok s'"
proof -
  from assms(1) have r: "rfold (expand_edge X v (de_depth v) receipt) es (s, ch) = Inr (s', ch')"
    by (auto simp: reduce_dependency_expansion_def)
  have "state_containers_ok (fst (s', ch'))"
    by (rule rfold_invariant[OF r, where P = "\<lambda>p. state_containers_ok (fst p)"])
       (use assms(2) expand_edge_containers in \<open>auto\<close>)
  then show ?thesis by simp
qed

section \<open>The dependency index of an accepted state\<close>

lemma validate_state_dependency_ok:
  assumes v: "validate_state X E s fs = Inr ()" and ok: "state_containers_ok s"
  shows "dependency_ok s"
proof -
  note c = validate_state_contents_Inr(5,6)[OF validate_state_Inr(6)[OF v]]
  note b = validate_state_budget[OF validate_state_Inr(2)[OF v]]
  note d = validate_dependency_index_Inr[OF ok c(1)] 
  have len: "length (ks_dependency_parents s) \<le> max_dependency_nodes (ks_budget s)"
    and mx: "max_dependency_nodes (ks_budget s) < 2 ^ 32" using b by blast+
  note d = d[OF len mx]
  have depth_bound: "max_dependency_depth (ks_budget s) \<le> 64"
    using validate_state_Inr(2)[OF v]
    by (auto simp: validate_state_bounds_def budget_validate_def HARD_MAX_DEPENDENCY_DEPTH_def)
  have bok: "bm_ok (ks_dependency_parents s)" "bm_ok (ks_dependency_depths s)" "bm_ok (ks_dependency_graph s)"
    using ok by (simp_all add: state_containers_ok_def)
  have par: "validate_dependency_parent s (n, p) = Inr ()" if "map_of (ks_dependency_parents s) n = Some p" for n p
    using c(2) that by (auto dest: map_of_SomeD)
  have "dom (map_of (ks_dependency_parents s)) \<subseteq> dom (map_of (ks_dependency_depths s))"
    using par by (fastforce simp: validate_dependency_parent_def)
  moreover have "card (dom (map_of (ks_dependency_parents s))) = card (dom (map_of (ks_dependency_depths s)))"
    using d(3,4) card_dom_bm[OF bok(1)] card_dom_bm[OF bok(3)] by simp
  ultimately have dm: "dom (map_of (ks_dependency_depths s)) = dom (map_of (ks_dependency_parents s))"
    by (metis card_subset_eq finite_dom_map_of)
  have parent: "(p, n) \<in> edges (ks_dependency_graph s)
      \<and> (\<exists>d. map_of (ks_dependency_depths s) p = Some d \<and> map_of (ks_dependency_depths s) n = Some (Suc d))"
    if "map_of (ks_dependency_parents s) n = Some (Some p)" for n p
  proof -
    from par[OF that] obtain dn dp targets where dn: "map_of (ks_dependency_depths s) n = Some dn"
      and dp: "map_of (ks_dependency_depths s) p = Some dp" and eq: "dn = saturating_add 16 dp 1"
      and g: "map_of (ks_dependency_graph s) p = Some targets" "n \<in> set targets"
      by (auto simp: validate_dependency_parent_def split: option.splits)
    from d(5) dp depth_bound have "dp \<le> 64" by fastforce
    with eq have "dn = Suc dp" by (simp add: saturating_add_def)
    with dn dp g show ?thesis by (auto simp: edges_def)
  qed
  show ?thesis
    unfolding dependency_ok_def nodes_def using d(1,2,4,5) bok(1,2) dm len parent by simp
qed

section \<open>The stages of an advance\<close>

lemma account_evidence_Inr:
  "rfold (\<lambda>reference used.
      rbind (reject (aer_source_artifact_digest reference \<in> set used) e) (\<lambda>_.
      Inr (bs_insert (aer_source_artifact_digest reference) used))) refs used = Inr used' \<Longrightarrow>
   set used' = set used \<union> aer_source_artifact_digest ` set refs
   \<and> distinct (map aer_source_artifact_digest refs) \<and> aer_source_artifact_digest ` set refs \<inter> set used = {}
   \<and> (bs_ok used \<longrightarrow> bs_ok used')"
proof (induction refs arbitrary: used)
  case (Cons r refs)
  then have n: "aer_source_artifact_digest r \<notin> set used"
    and rest: "rfold (\<lambda>reference used.
      rbind (reject (aer_source_artifact_digest reference \<in> set used) e) (\<lambda>_.
      Inr (bs_insert (aer_source_artifact_digest reference) used))) refs
        (bs_insert (aer_source_artifact_digest r) used) = Inr used'" by auto
  from Cons.IH[OF rest] n show ?case by auto
qed simp

lemma account_receipt_Inr:
  assumes "account_receipt X E s receipt = Inr acc"
  obtains used where
    "acc = s\<lparr>ks_parent_digest := Some (ks_manifest_digest s),
            ks_parent_reference := Some (state_reference X E s),
            ks_last_action_receipt_reference := Some (action_receipt_reference X E receipt),
            ks_revision := Suc (ks_revision s),
            ks_usage := \<lparr>used_actions = Suc (used_actions (ks_usage s)),
               used_total_cost = used_total_cost (ks_usage s) + rc_charged_cost receipt,
               used_evidence_records = used_evidence_records (ks_usage s) + length (rc_evidence receipt)\<rparr>,
            ks_applied_receipts := bs_insert (rc_manifest_digest receipt) (ks_applied_receipts s),
            ks_used_evidence_artifacts := used\<rparr>"
    "rc_manifest_digest receipt \<notin> set (ks_applied_receipts s)"
    "set used = set (ks_used_evidence_artifacts s) \<union> aer_source_artifact_digest ` set (bm_values (rc_evidence receipt))"
    "aer_source_artifact_digest ` set (bm_values (rc_evidence receipt)) \<inter> set (ks_used_evidence_artifacts s) = {}"
    "bs_ok (ks_used_evidence_artifacts s) \<Longrightarrow> bs_ok used"
proof -
  from assms obtain used where
    r: "rfold (\<lambda>reference used.
      rbind (reject (aer_source_artifact_digest reference \<in> set used)
               (Integrity ''action_receipt_source_evidence_replayed'')) (\<lambda>_.
      Inr (bs_insert (aer_source_artifact_digest reference) used)))
        (bm_values (rc_evidence receipt)) (ks_used_evidence_artifacts s) = Inr used"
    and n: "rc_manifest_digest receipt \<notin> set (ks_applied_receipts s)"
    and acc: "acc = s\<lparr>ks_parent_digest := Some (ks_manifest_digest s),
            ks_parent_reference := Some (state_reference X E s),
            ks_last_action_receipt_reference := Some (action_receipt_reference X E receipt),
            ks_revision := Suc (ks_revision s),
            ks_usage := \<lparr>used_actions = Suc (used_actions (ks_usage s)),
               used_total_cost = used_total_cost (ks_usage s) + rc_charged_cost receipt,
               used_evidence_records = used_evidence_records (ks_usage s) + length (rc_evidence receipt)\<rparr>,
            ks_applied_receipts := bs_insert (rc_manifest_digest receipt) (ks_applied_receipts s),
            ks_used_evidence_artifacts := used\<rparr>"
    by (auto simp: account_receipt_def)
  show thesis by (rule that[OF acc n]) (use account_evidence_Inr[OF r] in blast)+
qed

text \<open>Each prediction reduces its own hypothesis, no other hypothesis changes.\<close>

lemma reduce_prediction_Inr:
  "reduce_prediction obs r (hid, p) hs = Inr hs' \<Longrightarrow>
   \<exists>h a. map_of hs hid = Some h \<and> reduce_hypothesis_assessment (hypothesis_assessment h) (evaluate p obs) r = Inr a
     \<and> map_of hs' = (map_of hs)(hid \<mapsto> h\<lparr>hypothesis_assessment := a\<rparr>) \<and> map fst hs' = map fst hs"
  by (auto simp: reduce_prediction_def fun_eq_iff)

definition predicted_reduction ::
  "predictions \<Rightarrow> observations \<Rightarrow> digest \<Rightarrow> string \<Rightarrow> knowledge_hypothesis \<Rightarrow> knowledge_hypothesis \<Rightarrow> bool" where
  "predicted_reduction ps obs r hid h h' \<longleftrightarrow>
     (case map_of ps hid of
        None \<Rightarrow> h' = h
      | Some p \<Rightarrow> \<exists>a. reduce_hypothesis_assessment (hypothesis_assessment h) (evaluate p obs) r = Inr a
                     \<and> h' = h\<lparr>hypothesis_assessment := a\<rparr>)"

lemma rfold_reduce_prediction:
  assumes "rfold (reduce_prediction obs r) ps hs = Inr hs'" and "distinct (map fst ps)"
  shows "map fst hs' = map fst hs \<and> fst ` set ps \<subseteq> dom (map_of hs)
     \<and> (\<forall>hid h. map_of hs hid = Some h \<longrightarrow>
          (\<exists>h'. map_of hs' hid = Some h' \<and> predicted_reduction ps obs r hid h h'))"
  using assms
proof (induction ps arbitrary: hs)
  case Nil
  then show ?case by (simp add: predicted_reduction_def)
next
  case (Cons q ps)
  obtain i p where q: "q = (i, p)" by force
  from Cons.prems(1) q obtain hs1 where s1: "reduce_prediction obs r (i, p) hs = Inr hs1"
    and rest: "rfold (reduce_prediction obs r) ps hs1 = Inr hs'" by auto
  from reduce_prediction_Inr[OF s1] obtain h a where h: "map_of hs i = Some h"
    and a: "reduce_hypothesis_assessment (hypothesis_assessment h) (evaluate p obs) r = Inr a"
    and m: "map_of hs1 = (map_of hs)(i \<mapsto> h\<lparr>hypothesis_assessment := a\<rparr>)" "map fst hs1 = map fst hs" by blast
  from Cons.prems(2) q have d: "distinct (map fst ps)" "i \<notin> fst ` set ps" by auto
  then have none: "map_of ps i = None" by (simp add: map_of_eq_None_iff)
  note ih = Cons.IH[OF rest d(1)]
  have "\<exists>h'. map_of hs' hid = Some h' \<and> predicted_reduction (q # ps) obs r hid g h'"
    if g: "map_of hs hid = Some g" for hid g
  proof (cases "hid = i")
    case True
    have "map_of hs1 i = Some (h\<lparr>hypothesis_assessment := a\<rparr>)" by (simp add: m(1))
    with ih obtain h' where "map_of hs' i = Some h'"
      "predicted_reduction ps obs r i (h\<lparr>hypothesis_assessment := a\<rparr>) h'" by blast
    with True g h a none q show ?thesis by (auto simp: predicted_reduction_def)
  next
    case False
    then have "map_of hs1 hid = Some g" using g by (simp add: m(1))
    with ih obtain h' where "map_of hs' hid = Some h'" "predicted_reduction ps obs r hid g h'" by blast
    with False q show ?thesis by (auto simp: predicted_reduction_def)
  qed
  moreover have "dom (map_of hs1) = dom (map_of hs)" using m(2) by (simp add: dom_map_of_conv_image_fst flip: set_map)
  then have "fst ` set (q # ps) \<subseteq> dom (map_of hs)" using ih h q by auto
  ultimately show ?case using ih m(2) by simp
qed

lemma reduce_obligation_Inr:
  assumes "reduce_obligation receipt obs = Inr obs'"
  obtains prior st where "map_of obs (ib_obligation_id (binding (rc_invocation receipt))) = Some prior"
    "reduced_obligation_state receipt (Suc (attempts (obligation_state prior)))
       (bs_insert (rc_manifest_digest receipt) (witnesses (obligation_state prior))) = Inr st"
    "obs' = bm_modify (ib_obligation_id (binding (rc_invocation receipt)))
              (\<lambda>ob. ob\<lparr>obligation_state := st\<rparr>) obs"
  using assms by (auto simp: reduce_obligation_def Let_def)

lemma reduced_obligation_state_Inr:
  "reduced_obligation_state receipt n w = Inr st \<Longrightarrow> attempts st = n \<and> witnesses st = w"
  by (auto simp: reduced_obligation_state_def split: action_outcome.splits predicate_evaluation.splits)

definition planned_id :: "action_receipt \<Rightarrow> string" where
  "planned_id receipt = ib_obligation_id (binding (rc_invocation receipt))"

lemma reduce_outcome_Inr:
  assumes r: "reduce_outcome X receipt s = Inr (s', ch')"
    and no_discovery: "\<And>obs es ds. rc_outcome receipt = Completed obs es ds \<Longrightarrow> ds = []"
    and ok: "dependency_ok s" and planned: "map_of (ks_obligations s) (planned_id receipt) \<noteq> None"
  shows "dependency_ok s' \<and> extends_state (planned_id receipt) s s' \<and> (state_containers_ok s \<longrightarrow> state_containers_ok s')
    \<and> (\<forall>v obs es ds. rc_invocation receipt = InvExpandDependencyClosure v \<longrightarrow> rc_outcome receipt = Completed obs es ds
        \<longrightarrow> (\<forall>edge \<in> set es. edge_accounted (planned_id receipt) edge s'))
    \<and> (\<not> (is_dependency_expansion (rc_invocation receipt) \<and> is_completed (rc_outcome receipt)) \<longrightarrow> s' = s)"
proof (cases "is_dependency_expansion (rc_invocation receipt) \<and> is_completed (rc_outcome receipt)")
  case True
  then obtain v obs es ds where inv: "rc_invocation receipt = InvExpandDependencyClosure v"
    and out: "rc_outcome receipt = Completed obs es ds"
    by (cases "rc_invocation receipt"; cases "rc_outcome receipt") auto
  with no_discovery have "ds = []" by blast
  with r inv out have red: "reduce_dependency_expansion X s v es (rc_manifest_digest receipt) no_changes = Inr (s', ch')"
    by (auto simp: reduce_outcome_def)
  have id: "planned_id receipt = ib_obligation_id (de_binding v)" by (simp add: planned_id_def inv)
  from reduce_dependency_expansion_Inr[OF red ok] planned id reduce_dependency_expansion_containers[OF red] inv out True
  show ?thesis by simp
next
  case False
  have "s' = s"
  proof (cases "rc_outcome receipt")
    case (Completed obs es ds)
    with False no_discovery r show ?thesis
      by (cases "rc_invocation receipt") (auto simp: reduce_outcome_def)
  qed (use r in \<open>auto simp: reduce_outcome_def split: cognitive_invocation.splits\<close>)
  with False ok planned show ?thesis by (auto simp: extends_state_refl)
qed

lemma reduce_state_Inr:
  assumes "reduce_state X E s receipt = Inr (nxt, ch)"
  obtains acc hyps obls mid ch0 claims where
    "account_receipt X E s receipt = Inr acc"
    "reduce_predictions receipt (ks_hypotheses s) = Inr hyps"
    "reduce_obligation receipt (ks_obligations s) = Inr obls"
    "reduce_outcome X receipt (acc\<lparr>ks_hypotheses := hyps, ks_obligations := obls\<rparr>) = Inr (mid, ch0)"
    "recompute_claim_assessments (ks_claims mid) (ks_obligations mid) = Inr claims"
    "nxt = mid\<lparr>ks_claims := claims, ks_manifest_digest := calculate_state_digest X (mid\<lparr>ks_claims := claims\<rparr>)\<rparr>"
proof -
  from assms obtain acc hyps obls mid ch0 claims where
    acc: "account_receipt X E s receipt = Inr acc"
    and h: "reduce_predictions receipt (ks_hypotheses acc) = Inr hyps"
    and o: "reduce_obligation receipt (ks_obligations acc) = Inr obls"
    and m: "reduce_outcome X receipt (acc\<lparr>ks_hypotheses := hyps, ks_obligations := obls\<rparr>) = Inr (mid, ch0)"
    and c: "recompute_claim_assessments (ks_claims mid) (ks_obligations mid) = Inr claims"
    and n: "nxt = mid\<lparr>ks_claims := claims, ks_manifest_digest := calculate_state_digest X (mid\<lparr>ks_claims := claims\<rparr>)\<rparr>"
    by (auto simp: reduce_state_def Let_def)
  have "ks_hypotheses acc = ks_hypotheses s" "ks_obligations acc = ks_obligations s"
    using account_receipt_Inr[OF acc] by force+
  with that[OF acc _ _ m c n] h o show thesis by simp
qed

lemma advance_Inr:
  assumes "advance X E s receipt fs = Inr adv"
  obtains ch t where "validate_state X E s fs = Inr ()" "validate_action_receipt X E s receipt fs = Inr ()"
    "reduce_state X E s receipt = Inr (adv_state adv, ch)" "validate_state X E (adv_state adv) fs = Inr ()"
    "derive_terminal E (adv_state adv) = Inr t"
    "adv_transition adv = seal_transition X E s receipt (adv_state adv) ch t"
  using assms by (auto simp: advance_def)

lemma outcome_without_discoveries:
  assumes "validate_action_receipt X E s receipt fs = Inr u" and "rc_outcome receipt = Completed obs es ds"
  shows "ds = []"
  using validate_action_receipt_Inr(8)[OF assms(1)] assms(2) by (auto simp: validate_outcome_shape_def)

definition hypothesis_reduced ::
  "action_receipt \<Rightarrow> string \<Rightarrow> knowledge_hypothesis \<Rightarrow> knowledge_hypothesis \<Rightarrow> bool" where
  "hypothesis_reduced receipt hid h h' \<longleftrightarrow>
     (case (invocation_predictions (rc_invocation receipt), outcome_observations (rc_outcome receipt)) of
        (Some ps, Some obs) \<Rightarrow> predicted_reduction ps obs (rc_manifest_digest receipt) hid h h'
      | _ \<Rightarrow> h' = h)"

lemma reduce_predictions_Inr:
  assumes "reduce_predictions receipt hs = Inr hs'"
    and "\<And>ps. invocation_predictions (rc_invocation receipt) = Some ps \<Longrightarrow> bm_ok ps"
  shows "map fst hs' = map fst hs
     \<and> (\<forall>hid h. map_of hs hid = Some h \<longrightarrow> (\<exists>h'. map_of hs' hid = Some h' \<and> hypothesis_reduced receipt hid h h'))"
proof (cases "invocation_predictions (rc_invocation receipt)")
  case None
  with assms(1) show ?thesis by (simp add: reduce_predictions_def hypothesis_reduced_def)
next
  case (Some ps)
  show ?thesis
  proof (cases "outcome_observations (rc_outcome receipt)")
    case None
    with assms(1) Some show ?thesis by (simp add: reduce_predictions_def hypothesis_reduced_def)
  next
    case (Some obs)
    with assms(1) \<open>invocation_predictions (rc_invocation receipt) = Some ps\<close>
    have "rfold (reduce_prediction obs (rc_manifest_digest receipt)) ps hs = Inr hs'"
      by (simp add: reduce_predictions_def)
    from rfold_reduce_prediction[OF this bm_ok_distinct[OF assms(2)]] Some
      \<open>invocation_predictions (rc_invocation receipt) = Some ps\<close>
    show ?thesis by (simp add: hypothesis_reduced_def)
  qed
qed

lemma validated_obligation_lookup:
  assumes "validate_state X E s fs = Inr ()" "state_containers_ok s"
  shows "ob \<in> set (bm_values (ks_obligations s)) \<longleftrightarrow> map_of (ks_obligations s) (obligation_id ob) = Some ob"
proof
  assume "ob \<in> set (bm_values (ks_obligations s))"
  then obtain i where i: "(i, ob) \<in> set (ks_obligations s)" by (auto simp: bm_values_def)
  with validate_state_contents_Inr(2)[OF validate_state_Inr(6)[OF assms(1)]] have "i = obligation_id ob"
    by (auto simp: obligation_checked_def)
  with i assms(2) show "map_of (ks_obligations s) (obligation_id ob) = Some ob"
    by (auto simp: state_containers_ok_def map_of_eq_iff_mem)
qed (rule map_of_values)

text \<open>All facts of one advance, for a state whose containers are well formed.\<close>

lemma advance_stages:
  assumes adv: "advance X E s receipt fs = Inr adv" and ok: "state_containers_ok s"
  obtains ob st acc hyps obls mid ch0 claims where
    "derive_terminal E s = Inr None" "affordable s ob" "is_open (obligation_state ob)"
    "map_of (ks_obligations s) (planned_id receipt) = Some ob"
    "planned_id receipt = obligation_id ob"
    "rc_charged_cost receipt = plan_cost (obligation_plan ob)"
    "invocation_predictions (rc_invocation receipt) = plan_predictions (obligation_plan ob)"
    "reduced_obligation_state receipt (Suc (attempts (obligation_state ob)))
       (bs_insert (rc_manifest_digest receipt) (witnesses (obligation_state ob))) = Inr st"
    "account_receipt X E s receipt = Inr acc"
    "reduce_predictions receipt (ks_hypotheses s) = Inr hyps"
    "obls = bm_modify (planned_id receipt) (\<lambda>ob. ob\<lparr>obligation_state := st\<rparr>) (ks_obligations s)"
    "extends_state (planned_id receipt) (acc\<lparr>ks_hypotheses := hyps, ks_obligations := obls\<rparr>) mid"
    "dependency_ok mid" "state_containers_ok mid"
    "\<And>v obs es ds edge. rc_invocation receipt = InvExpandDependencyClosure v \<Longrightarrow>
        rc_outcome receipt = Completed obs es ds \<Longrightarrow> edge \<in> set es \<Longrightarrow> edge_accounted (planned_id receipt) edge mid"
    "\<not> (is_dependency_expansion (rc_invocation receipt) \<and> is_completed (rc_outcome receipt)) \<Longrightarrow>
        mid = acc\<lparr>ks_hypotheses := hyps, ks_obligations := obls\<rparr>"
    "recompute_claim_assessments (ks_claims mid) (ks_obligations mid) = Inr claims"
    "adv_state adv = mid\<lparr>ks_claims := claims,
       ks_manifest_digest := calculate_state_digest X (mid\<lparr>ks_claims := claims\<rparr>)\<rparr>"
proof -
  from adv obtain ch t where vs: "validate_state X E s fs = Inr ()"
    and vr: "validate_action_receipt X E s receipt fs = Inr ()"
    and red: "reduce_state X E s receipt = Inr (adv_state adv, ch)" by (rule advance_Inr)
  from plan_Invoke[OF validate_action_receipt_Inr(1)[OF vr]] obtain ob where
    tm: "derive_terminal E s = Inr None" and f: "find (affordable s) (open_obligations s) = Some ob"
    and m: "materialize_invocation X E s ob = Inr (rc_invocation receipt)" by metis
  note mat = materialize_invocation_Inr[OF m]
  have id: "planned_id receipt = obligation_id ob" by (simp add: planned_id_def mat(1))
  have look: "map_of (ks_obligations s) (planned_id receipt) = Some ob"
    using validated_obligation_lookup[OF vs ok, of ob] plan_choice(1)[OF f] id by simp
  from red obtain acc hyps obls mid ch0 claims where
    a: "account_receipt X E s receipt = Inr acc"
    and h: "reduce_predictions receipt (ks_hypotheses s) = Inr hyps"
    and o: "reduce_obligation receipt (ks_obligations s) = Inr obls"
    and r: "reduce_outcome X receipt (acc\<lparr>ks_hypotheses := hyps, ks_obligations := obls\<rparr>) = Inr (mid, ch0)"
    and c: "recompute_claim_assessments (ks_claims mid) (ks_obligations mid) = Inr claims"
    and n: "adv_state adv = mid\<lparr>ks_claims := claims, ks_manifest_digest := calculate_state_digest X (mid\<lparr>ks_claims := claims\<rparr>)\<rparr>"
    by (rule reduce_state_Inr)
  from o look obtain st where
    st: "reduced_obligation_state receipt (Suc (attempts (obligation_state ob)))
       (bs_insert (rc_manifest_digest receipt) (witnesses (obligation_state ob))) = Inr st"
    and obls: "obls = bm_modify (planned_id receipt) (\<lambda>ob. ob\<lparr>obligation_state := st\<rparr>) (ks_obligations s)"
    by (elim reduce_obligation_Inr) (simp add: planned_id_def)
  let ?s1 = "acc\<lparr>ks_hypotheses := hyps, ks_obligations := obls\<rparr>"
  from a obtain used where acc: "acc = s\<lparr>ks_parent_digest := Some (ks_manifest_digest s),
            ks_parent_reference := Some (state_reference X E s),
            ks_last_action_receipt_reference := Some (action_receipt_reference X E receipt),
            ks_revision := Suc (ks_revision s),
            ks_usage := \<lparr>used_actions = Suc (used_actions (ks_usage s)),
               used_total_cost = used_total_cost (ks_usage s) + rc_charged_cost receipt,
               used_evidence_records = used_evidence_records (ks_usage s) + length (rc_evidence receipt)\<rparr>,
            ks_applied_receipts := bs_insert (rc_manifest_digest receipt) (ks_applied_receipts s),
            ks_used_evidence_artifacts := used\<rparr>"
    and used: "bs_ok (ks_used_evidence_artifacts s) \<Longrightarrow> bs_ok used" by (elim account_receipt_Inr) blast
  have dep: "dependency_ok ?s1"
    by (rule dependency_ok_cong[OF validate_state_dependency_ok[OF vs ok]]) (simp_all add: acc)
  have planned: "map_of (ks_obligations ?s1) (planned_id receipt) \<noteq> None" by (simp add: obls look)
  have inv_preds: "bm_ok ps" if "invocation_predictions (rc_invocation receipt) = Some ps" for ps
  proof -
    have "plan_containers_ok (obligation_plan ob)" using ok plan_choice(1)[OF f] by (simp add: state_containers_ok_def)
    with that mat(7) show ?thesis by (metis plan_containers_ok_predictions)
  qed
  have hyps: "bm_ok hyps"
    using reduce_predictions_Inr[OF h inv_preds] ok by (simp add: bm_ok_def state_containers_ok_def)
  have w: "plan_containers_ok (obligation_plan ob') \<and> bs_ok (witnesses (obligation_state ob'))"
    if "ob' \<in> set (bm_values obls)" for ob'
  proof -
    have "ob' \<in> set (bm_values (ks_obligations s))
        \<union> (\<lambda>ob. ob\<lparr>obligation_state := st\<rparr>) ` set (bm_values (ks_obligations s))"
      using that[unfolded obls] by (rule subsetD[OF bm_values_modify])
    then have "ob' \<in> set (bm_values (ks_obligations s)) \<or> (\<exists>ob2 \<in> set (bm_values (ks_obligations s)). ob' = ob2\<lparr>obligation_state := st\<rparr>)"
      by blast
    moreover have "bs_ok (witnesses st)"
      using reduced_obligation_state_Inr[OF st] ok plan_choice(1)[OF f] by (auto simp: state_containers_ok_def)
    ultimately show ?thesis using ok by (auto simp: state_containers_ok_def)
  qed
  have cont: "state_containers_ok ?s1"
    using ok hyps used w by (auto simp: state_containers_ok_def acc obls)
  have nd: "\<And>obs es ds. rc_outcome receipt = Completed obs es ds \<Longrightarrow> ds = []"
    by (rule outcome_without_discoveries[OF vr])
  have out: "dependency_ok mid \<and> extends_state (planned_id receipt) ?s1 mid
    \<and> (state_containers_ok ?s1 \<longrightarrow> state_containers_ok mid)
    \<and> (\<forall>v obs es ds. rc_invocation receipt = InvExpandDependencyClosure v \<longrightarrow> rc_outcome receipt = Completed obs es ds
        \<longrightarrow> (\<forall>edge \<in> set es. edge_accounted (planned_id receipt) edge mid))
    \<and> (\<not> (is_dependency_expansion (rc_invocation receipt) \<and> is_completed (rc_outcome receipt)) \<longrightarrow> mid = ?s1)"
    by (rule reduce_outcome_Inr[OF r _ dep planned]) (rule nd)
  from out cont have out3: "state_containers_ok mid" by blast
  from out have out: "dependency_ok mid" "extends_state (planned_id receipt) ?s1 mid"
    "\<And>v obs es ds edge. rc_invocation receipt = InvExpandDependencyClosure v \<Longrightarrow>
        rc_outcome receipt = Completed obs es ds \<Longrightarrow> edge \<in> set es \<Longrightarrow> edge_accounted (planned_id receipt) edge mid"
    "\<not> (is_dependency_expansion (rc_invocation receipt) \<and> is_completed (rc_outcome receipt)) \<Longrightarrow> mid = ?s1"
    by blast+
  have cost: "rc_charged_cost receipt = plan_cost (obligation_plan ob)"
    using validate_action_receipt_Inr(3)[OF vr] mat(6) by simp
  show thesis
    by (rule that[OF tm plan_choice(3,2)[OF f] look id cost mat(7) st a h obls out(2,1) out3 out(3,4) c n, rotated -1])
qed

section \<open>One advance\<close>

lemma advance_containers:
  assumes adv: "advance X E s receipt fs = Inr adv" and ok: "state_containers_ok s"
  shows "state_containers_ok (adv_state adv)" and "dependency_ok (adv_state adv)"
proof -
  from adv ok obtain ob st acc hyps obls mid ch0 claims where m: "dependency_ok mid" "state_containers_ok mid"
    and c: "recompute_claim_assessments (ks_claims mid) (ks_obligations mid) = Inr claims"
    and n: "adv_state adv = mid\<lparr>ks_claims := claims,
       ks_manifest_digest := calculate_state_digest X (mid\<lparr>ks_claims := claims\<rparr>)\<rparr>"
    by (rule advance_stages) metis
  have "bm_ok claims" using recompute_claim_assessments_Inr[OF c] m(2) by (simp add: bm_ok_def state_containers_ok_def)
  with m(2) show "state_containers_ok (adv_state adv)" by (simp add: n state_containers_ok_def)
  show "dependency_ok (adv_state adv)" by (rule dependency_ok_cong[OF m(1)]) (simp_all add: n)
qed

lemma advance_ledger:
  assumes adv: "advance X E s receipt fs = Inr adv" and ok: "state_containers_ok s"
  shows "ks_revision (adv_state adv) = Suc (ks_revision s)"
    and "used_actions (ks_usage (adv_state adv)) = Suc (used_actions (ks_usage s))"
    and "used_total_cost (ks_usage (adv_state adv)) = used_total_cost (ks_usage s) + rc_charged_cost receipt"
    and "used_evidence_records (ks_usage (adv_state adv))
         = used_evidence_records (ks_usage s) + length (rc_evidence receipt)"
    and "ks_applied_receipts (adv_state adv) = bs_insert (rc_manifest_digest receipt) (ks_applied_receipts s)"
    and "rc_manifest_digest receipt \<notin> set (ks_applied_receipts s)"
    and "set (ks_used_evidence_artifacts (adv_state adv))
         = set (ks_used_evidence_artifacts s) \<union> aer_source_artifact_digest ` set (bm_values (rc_evidence receipt))"
    and "aer_source_artifact_digest ` set (bm_values (rc_evidence receipt)) \<inter> set (ks_used_evidence_artifacts s) = {}"
    and "ks_parent_digest (adv_state adv) = Some (ks_manifest_digest s)"
    and "ks_budget (adv_state adv) = ks_budget s"
    and "ks_inquiry_id (adv_state adv) = ks_inquiry_id s"
    and "ks_capability_bundle (adv_state adv) = ks_capability_bundle s"
    and "ks_parent_reference (adv_state adv) = Some (state_reference X E s)"
    and "ks_last_action_receipt_reference (adv_state adv) = Some (action_receipt_reference X E receipt)"
proof -
  from adv ok obtain acc hyps obls mid claims where a: "account_receipt X E s receipt = Inr acc"
    and e: "extends_state (planned_id receipt) (acc\<lparr>ks_hypotheses := hyps, ks_obligations := obls\<rparr>) mid"
    and n: "adv_state adv = mid\<lparr>ks_claims := claims,
       ks_manifest_digest := calculate_state_digest X (mid\<lparr>ks_claims := claims\<rparr>)\<rparr>"
    by (rule advance_stages) metis
  from e have l: "ledger_fields (adv_state adv) = ledger_fields acc"
    by (simp add: extends_state_def ledger_fields_def n)
  from a show "ks_revision (adv_state adv) = Suc (ks_revision s)"
    "used_actions (ks_usage (adv_state adv)) = Suc (used_actions (ks_usage s))"
    "used_total_cost (ks_usage (adv_state adv)) = used_total_cost (ks_usage s) + rc_charged_cost receipt"
    "used_evidence_records (ks_usage (adv_state adv))
         = used_evidence_records (ks_usage s) + length (rc_evidence receipt)"
    "ks_applied_receipts (adv_state adv) = bs_insert (rc_manifest_digest receipt) (ks_applied_receipts s)"
    "rc_manifest_digest receipt \<notin> set (ks_applied_receipts s)"
    "set (ks_used_evidence_artifacts (adv_state adv))
         = set (ks_used_evidence_artifacts s) \<union> aer_source_artifact_digest ` set (bm_values (rc_evidence receipt))"
    "aer_source_artifact_digest ` set (bm_values (rc_evidence receipt)) \<inter> set (ks_used_evidence_artifacts s) = {}"
    "ks_parent_digest (adv_state adv) = Some (ks_manifest_digest s)"
    "ks_budget (adv_state adv) = ks_budget s" "ks_inquiry_id (adv_state adv) = ks_inquiry_id s"
    "ks_capability_bundle (adv_state adv) = ks_capability_bundle s"
    "ks_parent_reference (adv_state adv) = Some (state_reference X E s)"
    "ks_last_action_receipt_reference (adv_state adv) = Some (action_receipt_reference X E receipt)"
    using l by (elim account_receipt_Inr; simp add: ledger_fields_def)+
qed

text \<open>Only the planned obligation changes, and new ones are open and belong to new claims.\<close>

lemma advance_obligations:
  assumes adv: "advance X E s receipt fs = Inr adv" and ok: "state_containers_ok s"
  shows "\<exists>ob. map_of (ks_obligations s) (planned_id receipt) = Some ob \<and> is_open (obligation_state ob)
      \<and> rc_charged_cost receipt = plan_cost (obligation_plan ob) \<and> affordable s ob
      \<and> (\<exists>st. map_of (ks_obligations (adv_state adv)) (planned_id receipt) = Some (ob\<lparr>obligation_state := st\<rparr>)
           \<and> attempts st = Suc (attempts (obligation_state ob))
           \<and> witnesses st = bs_insert (rc_manifest_digest receipt) (witnesses (obligation_state ob)))"
    and "i \<noteq> planned_id receipt \<Longrightarrow> map_of (ks_obligations s) i = Some ob \<Longrightarrow>
        map_of (ks_obligations (adv_state adv)) i = Some ob"
    and "map_of (ks_obligations s) i = None \<Longrightarrow> map_of (ks_obligations (adv_state adv)) i = Some ob \<Longrightarrow>
        obligation_state ob = Open 0 [] \<and> obligation_id ob = i \<and> map_of (ks_claims s) (obligation_claim_id ob) = None"
proof -
  from adv ok obtain ob st acc hyps obls mid claims where
    ob: "affordable s ob" "is_open (obligation_state ob)" "map_of (ks_obligations s) (planned_id receipt) = Some ob"
    and cost: "rc_charged_cost receipt = plan_cost (obligation_plan ob)"
    and st: "reduced_obligation_state receipt (Suc (attempts (obligation_state ob)))
       (bs_insert (rc_manifest_digest receipt) (witnesses (obligation_state ob))) = Inr st"
    and a: "account_receipt X E s receipt = Inr acc"
    and obls: "obls = bm_modify (planned_id receipt) (\<lambda>ob. ob\<lparr>obligation_state := st\<rparr>) (ks_obligations s)"
    and e: "extends_state (planned_id receipt) (acc\<lparr>ks_hypotheses := hyps, ks_obligations := obls\<rparr>) mid"
    and n: "adv_state adv = mid\<lparr>ks_claims := claims,
       ks_manifest_digest := calculate_state_digest X (mid\<lparr>ks_claims := claims\<rparr>)\<rparr>"
    by (rule advance_stages) metis
  have nob: "ks_obligations (adv_state adv) = ks_obligations mid" by (simp add: n)
  have cl: "ks_claims acc = ks_claims s" using account_receipt_Inr[OF a] by force
  note attw = reduced_obligation_state_Inr[OF st]
  have "map_of (ks_obligations (acc\<lparr>ks_hypotheses := hyps, ks_obligations := obls\<rparr>)) (planned_id receipt)
      = Some (ob\<lparr>obligation_state := st\<rparr>)" using ob(3) by (simp add: obls)
  from extends_state_old[OF e this] obtain ob' where
    o': "map_of (ks_obligations mid) (planned_id receipt) = Some ob'"
      "same_or_blocked True (ob\<lparr>obligation_state := st\<rparr>) ob'" by auto
  then have "\<exists>st'. ob' = ob\<lparr>obligation_state := st'\<rparr> \<and> attempts st' = attempts st \<and> witnesses st' = witnesses st"
    by (auto simp: same_or_blocked_def cycle_blocked_def)
  with o'(1) attw nob have "\<exists>st. map_of (ks_obligations (adv_state adv)) (planned_id receipt) = Some (ob\<lparr>obligation_state := st\<rparr>)
           \<and> attempts st = Suc (attempts (obligation_state ob))
           \<and> witnesses st = bs_insert (rc_manifest_digest receipt) (witnesses (obligation_state ob))" by auto
  with ob cost show "\<exists>ob. map_of (ks_obligations s) (planned_id receipt) = Some ob \<and> is_open (obligation_state ob)
      \<and> rc_charged_cost receipt = plan_cost (obligation_plan ob) \<and> affordable s ob
      \<and> (\<exists>st. map_of (ks_obligations (adv_state adv)) (planned_id receipt) = Some (ob\<lparr>obligation_state := st\<rparr>)
           \<and> attempts st = Suc (attempts (obligation_state ob))
           \<and> witnesses st = bs_insert (rc_manifest_digest receipt) (witnesses (obligation_state ob)))" by blast
  show "map_of (ks_obligations (adv_state adv)) i = Some ob1"
    if i: "i \<noteq> planned_id receipt" "map_of (ks_obligations s) i = Some ob1" for i ob1
  proof -
    have "map_of (ks_obligations (acc\<lparr>ks_hypotheses := hyps, ks_obligations := obls\<rparr>)) i = Some ob1"
      using i by (simp add: obls)
    from extends_state_old[OF e this] obtain ob' where
      "map_of (ks_obligations mid) i = Some ob'" "same_or_blocked (i = planned_id receipt) ob1 ob'" by blast
    with i(1) nob show ?thesis by (simp add: same_or_blocked_def)
  qed
  show "obligation_state ob1 = Open 0 [] \<and> obligation_id ob1 = i \<and> map_of (ks_claims s) (obligation_claim_id ob1) = None"
    if i: "map_of (ks_obligations s) i = None" "map_of (ks_obligations (adv_state adv)) i = Some ob1" for i ob1
  proof -
    have "map_of (ks_obligations (acc\<lparr>ks_hypotheses := hyps, ks_obligations := obls\<rparr>)) i = None"
      using i(1) by (auto simp: obls)
    from extends_state_new[OF e this, of ob1] i(2) nob cl show ?thesis by simp
  qed
qed

lemma advance_hypotheses:
  assumes adv: "advance X E s receipt fs = Inr adv" and ok: "state_containers_ok s"
  shows "map fst (ks_hypotheses (adv_state adv)) = map fst (ks_hypotheses s)"
    and "map_of (ks_hypotheses s) hid = Some h \<Longrightarrow>
      \<exists>h'. map_of (ks_hypotheses (adv_state adv)) hid = Some h' \<and> hypothesis_reduced receipt hid h h'"
proof -
  from adv ok obtain ob acc hyps obls mid claims where
    look: "map_of (ks_obligations s) (planned_id receipt) = Some ob"
    and pr: "invocation_predictions (rc_invocation receipt) = plan_predictions (obligation_plan ob)"
    and h: "reduce_predictions receipt (ks_hypotheses s) = Inr hyps"
    and e: "extends_state (planned_id receipt) (acc\<lparr>ks_hypotheses := hyps, ks_obligations := obls\<rparr>) mid"
    and n: "adv_state adv = mid\<lparr>ks_claims := claims,
       ks_manifest_digest := calculate_state_digest X (mid\<lparr>ks_claims := claims\<rparr>)\<rparr>"
    by (rule advance_stages) metis
  have "plan_containers_ok (obligation_plan ob)"
    using ok map_of_values[OF look] by (simp add: state_containers_ok_def)
  then have "bm_ok ps" if "invocation_predictions (rc_invocation receipt) = Some ps" for ps
    using that pr by (metis plan_containers_ok_predictions)
  note r = reduce_predictions_Inr[OF h this]
  have "ks_hypotheses (adv_state adv) = hyps" using extends_state_ledger[OF e] by (simp add: n)
  with r show "map fst (ks_hypotheses (adv_state adv)) = map fst (ks_hypotheses s)"
    and "map_of (ks_hypotheses s) hid = Some h \<Longrightarrow>
      \<exists>h'. map_of (ks_hypotheses (adv_state adv)) hid = Some h' \<and> hypothesis_reduced receipt hid h h'" by auto
qed

lemma advance_claims:
  assumes adv: "advance X E s receipt fs = Inr adv" and ok: "state_containers_ok s"
    and c: "map_of (ks_claims s) cid = Some c"
  shows "map_of (ks_claims (adv_state adv)) cid
       = Some (c\<lparr>claim_assessment := derive_claim_assessment (related (adv_state adv) cid)\<rparr>)"
proof -
  from adv ok obtain acc hyps obls mid claims where
    a: "account_receipt X E s receipt = Inr acc"
    and e: "extends_state (planned_id receipt) (acc\<lparr>ks_hypotheses := hyps, ks_obligations := obls\<rparr>) mid"
    and rc: "recompute_claim_assessments (ks_claims mid) (ks_obligations mid) = Inr claims"
    and n: "adv_state adv = mid\<lparr>ks_claims := claims,
       ks_manifest_digest := calculate_state_digest X (mid\<lparr>ks_claims := claims\<rparr>)\<rparr>"
    by (rule advance_stages) metis
  have "ks_claims acc = ks_claims s" using account_receipt_Inr[OF a] by force
  with e c have "map_of (ks_claims mid) cid = Some c" by (simp add: extends_state_def extends_claims_def)
  with recompute_claim_assessments_Inr[OF rc] show ?thesis by (simp add: n related_def)
qed

section \<open>What is final\<close>

text \<open>A settled claim stays settled: its obligations do not change and it gets no new ones.\<close>

lemma related_mem:
  "bm_ok (ks_obligations s) \<Longrightarrow>
   ob \<in> set (related s cid) \<longleftrightarrow> (\<exists>i. map_of (ks_obligations s) i = Some ob) \<and> obligation_claim_id ob = cid"
  using bm_values_mem[of ob "ks_obligations s"] map_of_values[of "ks_obligations s" _ ob]
  by (auto simp: related_def)

lemma advance_related:
  assumes adv: "advance X E s receipt fs = Inr adv" and ok: "state_containers_ok s"
    and c: "map_of (ks_claims s) cid \<noteq> None"
    and settled: "\<forall>ob \<in> set (related s cid). \<not> is_open (obligation_state ob)"
  shows "set (related (adv_state adv) cid) = set (related s cid)"
proof -
  have bok: "bm_ok (ks_obligations s)" "bm_ok (ks_obligations (adv_state adv))"
    using ok advance_containers(1)[OF adv ok] by (simp_all add: state_containers_ok_def)
  note o = advance_obligations[OF adv ok]
  from o(1) obtain pl st where pl: "map_of (ks_obligations s) (planned_id receipt) = Some pl" "is_open (obligation_state pl)"
    and pl': "map_of (ks_obligations (adv_state adv)) (planned_id receipt) = Some (pl\<lparr>obligation_state := st\<rparr>)" by blast
  have npl: "obligation_claim_id pl \<noteq> cid" using settled pl related_mem[OF bok(1)] by blast
  have old: "map_of (ks_obligations (adv_state adv)) i = Some ob"
    if "map_of (ks_obligations s) i = Some ob" "obligation_claim_id ob = cid" for i ob
  proof -
    have "i \<noteq> planned_id receipt" using that pl(1) npl by auto
    from o(2)[OF this that(1)] show ?thesis .
  qed
  have new: "map_of (ks_obligations s) i = Some ob"
    if m: "map_of (ks_obligations (adv_state adv)) i = Some ob" "obligation_claim_id ob = cid" for i ob
  proof (cases "map_of (ks_obligations s) i")
    case None
    from o(3)[OF None m(1)] m(2) c show ?thesis by simp
  next
    case (Some ob0)
    have "i \<noteq> planned_id receipt" using m pl' npl by auto
    from o(2)[OF this Some] m(1) Some show ?thesis by simp
  qed
  show ?thesis
  proof (rule set_eqI)
    fix ob show "ob \<in> set (related (adv_state adv) cid) \<longleftrightarrow> ob \<in> set (related s cid)"
      unfolding related_mem[OF bok(1)] related_mem[OF bok(2)] using old new by blast
  qed
qed

lemma advance_established:
  assumes adv: "advance X E s receipt fs = Inr adv" and ok: "state_containers_ok s"
    and c: "map_of (ks_claims s) cid = Some c" and est: "claim_assessment c = Established w"
  shows "map_of (ks_claims (adv_state adv)) cid = Some c"
proof -
  have v: "validate_state X E s fs = Inr ()" using adv by (rule advance_Inr)
  have "(cid, c) \<in> set (ks_claims s)" using c by (rule map_of_SomeD)
  with validate_state_contents_Inr(1)[OF validate_state_Inr(6)[OF v]]
  have a: "claim_assessment c = derive_claim_assessment (related s cid)" by blast
  have "\<not> is_open (obligation_state ob)" if "ob \<in> set (related s cid)" for ob
    using derive_claim_assessment_Established[of "related s cid" w] a est that by (cases "obligation_state ob") auto
  then have "set (related (adv_state adv) cid) = set (related s cid)"
    using advance_related[OF adv ok] c by simp
  then have "derive_claim_assessment (related (adv_state adv) cid) = claim_assessment c"
    using a derive_claim_assessment_cong by metis
  with advance_claims[OF adv ok c] show ?thesis by simp
qed

text \<open>Evidence about a hypothesis only accumulates.\<close>

lemma hypothesis_reduced_verdicts:
  assumes "hypothesis_reduced receipt hid h h'"
  shows "fst (verdicts (hypothesis_assessment h)) \<subseteq> fst (verdicts (hypothesis_assessment h'))
    \<and> snd (verdicts (hypothesis_assessment h)) \<subseteq> snd (verdicts (hypothesis_assessment h'))
    \<and> hypothesis_definition h' = hypothesis_definition h \<and> hypothesis_family_id h' = hypothesis_family_id h
    \<and> (is_conflicted (hypothesis_assessment h) \<longrightarrow> is_conflicted (hypothesis_assessment h'))"
proof (cases "h' = h")
  case False
  with assms obtain e a where a: "reduce_hypothesis_assessment (hypothesis_assessment h) e (rc_manifest_digest receipt) = Inr a"
    and h': "h' = h\<lparr>hypothesis_assessment := a\<rparr>"
    by (auto simp: hypothesis_reduced_def predicted_reduction_def split: option.splits)
  obtain x y where xy: "verdicts (hypothesis_assessment h) = (x, y)" by force
  have "is_conflicted a" if "is_conflicted (hypothesis_assessment h)"
    using that a by (cases "hypothesis_assessment h"; cases e) auto
  with reduce_hypothesis_refines[OF a] h' xy show ?thesis by (cases e) auto
qed simp

section \<open>Runs\<close>

text \<open>
  The state machine of an inquiry: each step applies one receipt that the engine accepts, with
  the store of that moment.
\<close>

inductive knowledge_step :: "externals \<Rightarrow> knowledge_engine \<Rightarrow> knowledge_state \<Rightarrow> knowledge_state \<Rightarrow> bool"
  for X E where
  knowledge_step: "advance X E s receipt fs = Inr adv \<Longrightarrow> knowledge_step X E s (adv_state adv)"

inductive_cases knowledge_stepE: "knowledge_step X E s s'"

text \<open>A machine whose every step raises a rank that a bound limits has no run longer than the bound.\<close>

locale bounded_machine =
  fixes step :: "'s \<Rightarrow> 's \<Rightarrow> bool" and rank :: "'s \<Rightarrow> nat" and bound :: "'s \<Rightarrow> nat" and good :: "'s \<Rightarrow> bool"
  assumes step_good: "step s s' \<Longrightarrow> good s \<Longrightarrow> good s'"
    and step_rank: "step s s' \<Longrightarrow> good s \<Longrightarrow> rank s' = Suc (rank s)"
    and step_bound: "step s s' \<Longrightarrow> good s \<Longrightarrow> bound s' = bound s"
    and step_within: "step s s' \<Longrightarrow> good s \<Longrightarrow> rank s' \<le> bound s'"
begin

lemma run_rank:
  assumes "(step ^^ n) s s'" "good s"
  shows "good s' \<and> rank s' = rank s + n \<and> bound s' = bound s"
  using assms
proof (induction n arbitrary: s')
  case (Suc n)
  then obtain t where t: "(step ^^ n) s t" "step t s'" by auto
  from Suc.IH[OF t(1) Suc.prems(2)] step_good[OF t(2)] step_rank[OF t(2)] step_bound[OF t(2)] show ?case by simp
qed simp

lemma run_length:
  assumes "(step ^^ n) s s'" "good s" "rank s \<le> bound s"
  shows "rank s + n \<le> bound s"
proof (cases n)
  case (Suc m)
  with assms(1) obtain t where t: "(step ^^ m) s t" "step t s'" by auto
  from run_rank[OF t(1) assms(2)] step_within[OF t(2)] run_rank[OF assms(1,2)] show ?thesis by simp
qed (use assms(3) in simp)

lemma run_invariant:
  assumes "(step ^^ n) s s'" "good s" "P s" "\<And>a b. step a b \<Longrightarrow> good a \<Longrightarrow> P a \<Longrightarrow> P b"
  shows "P s'"
  using assms(1)
proof (induction n arbitrary: s')
  case 0
  with assms(3) show ?case by simp
next
  case (Suc n)
  then obtain t where t: "(step ^^ n) s t" "step t s'" by auto
  from assms(4)[OF t(2)] run_rank[OF t(1) assms(2)] Suc.IH[OF t(1)] show ?case by blast
qed

end

interpretation inquiry: bounded_machine
  "knowledge_step X E" ks_revision "\<lambda>s. max_revision (ks_budget s)" state_containers_ok
  for X E
proof (unfold_locales, goal_cases)
  case (1 s s')
  then show ?case using advance_containers(1) by (auto elim!: knowledge_stepE)
next
  case (2 s s')
  then show ?case using advance_ledger(1) by (auto elim!: knowledge_stepE)
next
  case (3 s s')
  then show ?case using advance_ledger(10) by (auto elim!: knowledge_stepE)
next
  case (4 s s')
  then obtain receipt fs adv where adv: "advance X E s receipt fs = Inr adv" "s' = adv_state adv"
    by (auto elim!: knowledge_stepE)
  then have "validate_state X E s' fs = Inr ()" by (auto elim: advance_Inr)
  then show ?case by (auto dest!: validate_state_Inr(2) simp: validate_state_bounds_def)
qed

end
