(* ===== verification/Knowledge_Canonical.thy ===== *)
theory Knowledge_Canonical
  imports Knowledge_Advance
begin

text \<open>
  Persistence and the canonical head of an inquiry (\<open>src/knowledge/knowledge_engine.rs\<close>):
  \<open>persist_state\<close>, \<open>authenticate_state\<close>, \<open>persist_transition\<close>, \<open>establish_canonical_genesis\<close>,
  \<open>commit_canonical_advance\<close> and \<open>load_canonical_head\<close>. The head is the one mutable pointer of an
  inquiry; its update is a compare-and-swap under the authority lock, which the model runs as one
  step (\<open>with_private_authority_lock\<close>), while the immutable objects are written before it.
\<close>

section \<open>States\<close>

definition persist_state :: "externals \<Rightarrow> knowledge_engine \<Rightarrow> knowledge_state \<Rightarrow> private_file_reference io" where
  "persist_state X E s =
     io_bind (io_read (validate_state X E s)) (\<lambda>_.
     io_bind (io_read (\<lambda>fs.
        case (ks_parent_digest s, ks_parent_reference s) of
          (Some parent, Some parent_reference) \<Rightarrow>
            rbind (read_verified_bounded (sha X) (private_root E) parent_reference MAX_STATE_BYTES fs) (\<lambda>parent_bytes.
            rbind (ok_or (from_slice_state X parent_bytes) Json) (\<lambda>parent_state.
            reject (ref_path parent_reference \<noteq> semantic_path E ''states'' parent
                    \<or> ks_manifest_digest parent_state \<noteq> parent
                    \<or> checked_add 64 (ks_revision parent_state) 1 \<noteq> Some (ks_revision s)
                    \<or> calculate_state_digest X parent_state \<noteq> parent)
              (Integrity ''knowledge_state_parent_invalid'')))
        | _ \<Rightarrow> Inr ())) (\<lambda>_.
     let destination = semantic_path E ''states'' (ks_manifest_digest s) in
     io_bind (write_or_verify_immutable (sha X) (private_root E) destination (to_vec X (PState s))) (\<lambda>raw_digest.
     io_res (Inr \<lparr>ref_path = destination, ref_sha256 = raw_digest\<rparr>))))"

definition read_state_reference ::
  "externals \<Rightarrow> knowledge_engine \<Rightarrow> private_file_reference \<Rightarrow> store \<Rightarrow> knowledge_state res" where
  "read_state_reference X E reference fs =
     rbind (read_verified_bounded (sha X) (private_root E) reference MAX_STATE_BYTES fs) (\<lambda>bytes.
     rbind (ok_or (from_slice_state X bytes) Json) (\<lambda>s.
     rbind (reject (ref_path reference \<noteq> semantic_path E ''states'' (ks_manifest_digest s))
              (Integrity ''knowledge_state_content_address_mismatch'')) (\<lambda>_.
     rbind (validate_state X E s fs) (\<lambda>_. Inr s))))"

text \<open>
  The walk to the origin. The list is \<open>reverse_chain\<close> with its last element first, which is the
  order after \<open>reverse\<close>.
\<close>

function read_lineage ::
  "externals \<Rightarrow> knowledge_engine \<Rightarrow> knowledge_state list \<Rightarrow> store \<Rightarrow> knowledge_state list res" where
  "read_lineage X E [] fs = Inr []"
| "read_lineage X E (s # chain) fs =
     (case ks_parent_reference s of
        None \<Rightarrow> Inr (s # chain)
      | Some parent_reference \<Rightarrow>
          if HARD_MAX_REVISION < length (s # chain)
          then Inl (Invalid ''knowledge_state_lineage_limit_exceeded'')
          else rbind (read_state_reference X E parent_reference fs) (\<lambda>parent.
               read_lineage X E (parent # s # chain) fs))"
  by pat_completeness auto
termination
  by (relation "measure (\<lambda>(X, E, chain, fs). Suc HARD_MAX_REVISION - length chain)") auto

text \<open>The loop over \<open>windows(2)\<close>: each child is the reducer's output on its parent.\<close>

fun check_lineage :: "externals \<Rightarrow> knowledge_engine \<Rightarrow> knowledge_state list \<Rightarrow> store \<Rightarrow> unit res" where
  "check_lineage X E (parent # child # rest) fs =
     rbind (ok_or (ks_last_action_receipt_reference child) (Integrity ''knowledge_state_last_receipt_missing'')) (\<lambda>reference.
     rbind (authenticate_action_receipt X E parent reference fs) (\<lambda>receipt.
     rbind (advance X E parent receipt fs) (\<lambda>expected.
     rbind (reject (adv_state expected \<noteq> child) (Integrity ''knowledge_state_not_reducer_output'')) (\<lambda>_.
     check_lineage X E (child # rest) fs))))"
| "check_lineage X E _ fs = Inr ()"

definition authenticate_state ::
  "externals \<Rightarrow> knowledge_engine \<Rightarrow> private_file_reference \<Rightarrow> store \<Rightarrow> knowledge_state res" where
  "authenticate_state X E reference fs =
     rbind (read_state_reference X E reference fs) (\<lambda>s.
     rbind (read_lineage X E [s] fs) (\<lambda>chain.
     rbind (reject (case chain of [] \<Rightarrow> True | initial # _ \<Rightarrow> ks_revision initial \<noteq> 0)
              (Integrity ''knowledge_state_lineage_missing_origin'')) (\<lambda>_.
     rbind (check_lineage X E chain fs) (\<lambda>_. Inr s))))"

section \<open>Transitions\<close>

definition validate_transition ::
  "externals \<Rightarrow> knowledge_engine \<Rightarrow> transition_receipt \<Rightarrow> store \<Rightarrow> unit res" where
  "validate_transition X E t fs =
     rbind (reject (tx_schema t \<noteq> SchemaV1 \<or> tx_authority_root t \<noteq> authority_root E
              \<or> tx_manifest_digest t \<noteq> calculate_transition_digest X t)
            (Integrity ''knowledge_transition_invalid'')) (\<lambda>_.
     rbind (read_verified_bounded (sha X) (private_root E) (tx_from_state_reference t) MAX_STATE_BYTES fs) (\<lambda>from_bytes.
     rbind (read_verified_bounded (sha X) (private_root E) (tx_to_state_reference t) MAX_STATE_BYTES fs) (\<lambda>to_bytes.
     rbind (read_verified_bounded (sha X) (private_root E) (tx_action_receipt_reference t)
              MAX_ACTION_RECEIPT_BYTES fs) (\<lambda>receipt_bytes.
     rbind (ok_or (from_slice_state X from_bytes) Json) (\<lambda>from_state.
     rbind (ok_or (from_slice_state X to_bytes) Json) (\<lambda>to_state.
     rbind (ok_or (from_slice_receipt X receipt_bytes) Json) (\<lambda>receipt.
     rbind (reject (ks_manifest_digest from_state \<noteq> tx_from_state t
              \<or> ks_manifest_digest to_state \<noteq> tx_to_state t
              \<or> rc_manifest_digest receipt \<noteq> tx_action_receipt t
              \<or> ref_path (tx_from_state_reference t) \<noteq> semantic_path E ''states'' (tx_from_state t)
              \<or> ref_path (tx_to_state_reference t) \<noteq> semantic_path E ''states'' (tx_to_state t)
              \<or> ref_path (tx_action_receipt_reference t) \<noteq> semantic_path E ''action_receipts'' (tx_action_receipt t))
            (Integrity ''knowledge_transition_reference_mismatch'')) (\<lambda>_.
     rbind (validate_state X E from_state fs) (\<lambda>_.
     rbind (validate_state X E to_state fs) (\<lambda>_.
     rbind (advance X E from_state receipt fs) (\<lambda>expected.
     reject (adv_state expected \<noteq> to_state \<or> adv_transition expected \<noteq> t)
       (Integrity ''knowledge_transition_not_reducer_output''))))))))))))"

definition persist_transition ::
  "externals \<Rightarrow> knowledge_engine \<Rightarrow> transition_receipt \<Rightarrow> private_file_reference io" where
  "persist_transition X E t =
     io_bind (io_read (validate_transition X E t)) (\<lambda>_.
     let destination = semantic_path E ''transitions'' (tx_manifest_digest t) in
     io_bind (write_or_verify_immutable (sha X) (private_root E) destination (to_vec X (PTransition t))) (\<lambda>raw_digest.
     io_res (Inr \<lparr>ref_path = destination, ref_sha256 = raw_digest\<rparr>)))"

definition persist_advance ::
  "externals \<Rightarrow> knowledge_engine \<Rightarrow> knowledge_advance \<Rightarrow> (private_file_reference \<times> private_file_reference) io" where
  "persist_advance X E adv =
     io_bind (persist_state X E (adv_state adv)) (\<lambda>state_reference.
     io_bind (persist_transition X E (adv_transition adv)) (\<lambda>transition_reference.
     io_res (Inr (state_reference, transition_reference))))"

section \<open>The canonical head\<close>

definition canonical_head_pointer_path :: "knowledge_engine \<Rightarrow> string \<Rightarrow> path" where
  "canonical_head_pointer_path E inquiry =
     private_root E @ [Normal ''state'', Normal ''knowledge_engine'', Normal ''canonical_heads'',
                       Normal (inquiry @ ''.json'')]"

definition canonical_head_lock_path :: "knowledge_engine \<Rightarrow> string \<Rightarrow> path" where
  "canonical_head_lock_path E inquiry =
     private_root E @ [Normal ''state'', Normal ''knowledge_engine'', Normal ''canonical_head_locks'',
                       Normal (inquiry @ ''.lock'')]"

definition read_canonical_head_if_present ::
  "externals \<Rightarrow> knowledge_engine \<Rightarrow> path \<Rightarrow> store \<Rightarrow> canonical_inquiry_head option res" where
  "read_canonical_head_if_present X E pointer fs =
     (case read_existing_private_file_bounded (private_root E) pointer CANONICAL_HEAD_POINTER_MAX_BYTES fs of
        Inr bytes \<Rightarrow> rbind (ok_or (from_slice_head X bytes) Json) (\<lambda>head. Inr (Some head))
      | Inl e \<Rightarrow> if e = Io NotFound then Inr None else Inl e)"

text \<open>
  The walk that collects the receipts of a lineage. The parent of an accepted state has a
  smaller revision; the first state counts as larger than any accepted one.
\<close>

definition lineage_rank :: "externals \<Rightarrow> knowledge_engine \<Rightarrow> knowledge_state \<Rightarrow> store \<Rightarrow> nat" where
  "lineage_rank X E s fs =
     (if validate_state X E s fs = Inr () then ks_revision s else Suc HARD_MAX_REVISION)"

lemma read_state_reference_Inr:
  assumes "read_state_reference X E r fs = Inr s"
  shows "validate_state X E s fs = Inr ()" and "ref_path r = semantic_path E ''states'' (ks_manifest_digest s)"
    and "\<exists>bytes. read_verified_bounded (sha X) (private_root E) r MAX_STATE_BYTES fs = Inr bytes
           \<and> from_slice_state X bytes = Some s"
  using assms by (auto simp: read_state_reference_def)

lemma validate_state_revision_bound: "validate_state X E s fs = Inr () \<Longrightarrow> ks_revision s \<le> HARD_MAX_REVISION"
  by (drule validate_state_Inr(2)) (auto simp: validate_state_bounds_def budget_validate_def)

lemma parent_revision:
  assumes v: "validate_state X E s fs = Inr ()" and r: "ks_parent_reference s = Some r"
    and p: "read_state_reference X E r fs = Inr parent"
  shows "ks_revision s = Suc (ks_revision parent) \<and> ks_parent_digest s = Some (ks_manifest_digest parent)
    \<and> ks_inquiry_id parent = ks_inquiry_id s"
proof -
  have "ks_parent_digest s \<noteq> None"
    using validate_state_Inr(3)[OF v] r by (auto simp: validate_state_accounting_def)
  then obtain d where d: "ks_parent_digest s = Some d" by blast
  from read_state_reference_Inr(3)[OF p] validate_state_Inr(5)[OF v] d r show ?thesis
    by (auto simp: validate_state_parent_def Let_def)
qed

lemma lineage_rank_parent:
  assumes "ks_parent_reference s = Some r" and "read_state_reference X E r fs = Inr parent"
  shows "lineage_rank X E parent fs < lineage_rank X E s fs"
  using parent_revision[OF _ assms] read_state_reference_Inr(1)[OF assms(2)]
    validate_state_revision_bound[OF read_state_reference_Inr(1)[OF assms(2)]]
  by (auto simp: lineage_rank_def)

function lineage_actions ::
  "externals \<Rightarrow> knowledge_engine \<Rightarrow> knowledge_state \<Rightarrow> (digest, digest) bmap \<Rightarrow> store
   \<Rightarrow> (knowledge_state \<times> (digest, digest) bmap) res" where
  "lineage_actions X E cursor actions fs =
     (case ks_parent_reference cursor of
        None \<Rightarrow> Inr (cursor, actions)
      | Some parent_reference \<Rightarrow>
          rbind (read_state_reference X E parent_reference fs) (\<lambda>parent.
          rbind (ok_or (ks_last_action_receipt_reference cursor)
                   (Integrity ''canonical_inquiry_head_last_receipt_missing'')) (\<lambda>receipt_reference.
          rbind (authenticate_action_receipt X E parent receipt_reference fs) (\<lambda>receipt.
          rbind (reject (rc_parent_state receipt \<noteq> ks_manifest_digest parent
                   \<or> map_of actions (rc_action_id receipt) \<noteq> None)
                 (Integrity ''canonical_inquiry_head_lineage_action_invalid'')) (\<lambda>_.
          lineage_actions X E parent (bm_insert (rc_action_id receipt) (rc_manifest_digest receipt) actions) fs)))))"
  by pat_completeness auto
termination
  by (relation "measure (\<lambda>(X, E, s, actions, fs). lineage_rank X E s fs)") (auto intro: lineage_rank_parent)

declare lineage_actions.simps [simp del]

definition canonical_action_receipts_from_lineage ::
  "externals \<Rightarrow> knowledge_engine \<Rightarrow> knowledge_state \<Rightarrow> store \<Rightarrow> (digest, digest) bmap res" where
  "canonical_action_receipts_from_lineage X E current fs =
     rbind (lineage_actions X E current [] fs) (\<lambda>(cursor, actions).
     rbind (reject (ks_revision cursor \<noteq> 0 \<or> length actions \<noteq> ks_revision current)
              (Integrity ''canonical_inquiry_head_lineage_invalid'')) (\<lambda>_. Inr actions))"

definition authenticate_canonical_head ::
  "externals \<Rightarrow> knowledge_engine \<Rightarrow> canonical_inquiry_head \<Rightarrow> store \<Rightarrow> unit res" where
  "authenticate_canonical_head X E head fs =
     rbind (reject (ch_schema head \<noteq> SchemaV1 \<or> ch_authority_root head \<noteq> authority_root E
              \<or> ch_manifest_digest head \<noteq> calculate_head_digest X head
              \<or> HARD_MAX_REVISION < ch_revision head)
            (Integrity ''canonical_inquiry_head_not_authentic'')) (\<lambda>_.
     rbind (authenticate_state X E (ch_genesis_reference head) fs) (\<lambda>genesis.
     rbind (authenticate_state X E (ch_current_reference head) fs) (\<lambda>current.
     rbind (reject (ks_inquiry_id genesis \<noteq> ch_inquiry_id head \<or> ks_inquiry_id current \<noteq> ch_inquiry_id head
              \<or> ks_revision genesis \<noteq> 0
              \<or> ks_manifest_digest genesis \<noteq> ch_genesis_state head
              \<or> ks_manifest_digest current \<noteq> ch_current_state head
              \<or> ks_revision current \<noteq> ch_revision head)
            (Integrity ''canonical_inquiry_head_state_mismatch'')) (\<lambda>_.
     rbind (canonical_action_receipts_from_lineage X E current fs) (\<lambda>actions.
     reject (ch_action_receipts head \<noteq> actions \<or> length (ch_action_receipts head) \<noteq> ch_revision head)
       (Integrity ''canonical_inquiry_head_action_count_invalid''))))))"

definition publish_canonical_head ::
  "externals \<Rightarrow> knowledge_engine \<Rightarrow> path \<Rightarrow> canonical_inquiry_head \<Rightarrow> unit io" where
  "publish_canonical_head X E pointer head =
     io_bind (io_read (authenticate_canonical_head X E head)) (\<lambda>_.
     io_bind (replace_private_file_atomic (sha X) (private_root E) pointer (to_vec X (PHead head)) None) (\<lambda>_.
     io_res (Inr ())))"

definition seal_head :: "externals \<Rightarrow> canonical_inquiry_head \<Rightarrow> canonical_inquiry_head" where
  "seal_head X head = head\<lparr>ch_manifest_digest := calculate_head_digest X head\<rparr>"

text \<open>The closures that run under the lock.\<close>

definition genesis_section ::
  "externals \<Rightarrow> knowledge_engine \<Rightarrow> knowledge_state \<Rightarrow> private_file_reference \<Rightarrow> canonical_inquiry_head io" where
  "genesis_section X E s reference =
     (let pointer = canonical_head_pointer_path E (ks_inquiry_id s) in
      io_bind (io_read (read_canonical_head_if_present X E pointer)) (\<lambda>present.
      case present of
        Some existing \<Rightarrow>
          io_bind (io_read (authenticate_canonical_head X E existing)) (\<lambda>_.
          io_res (if ch_genesis_state existing = ks_manifest_digest s
                     \<and> ch_current_state existing = ks_manifest_digest s \<and> ch_revision existing = 0
                  then Inr existing else Inl (Integrity ''canonical_inquiry_genesis_conflict'')))
      | None \<Rightarrow>
          let head = seal_head X \<lparr>ch_schema = SchemaV1, ch_authority_root = authority_root E,
                ch_inquiry_id = ks_inquiry_id s, ch_genesis_state = ks_manifest_digest s,
                ch_genesis_reference = reference, ch_current_state = ks_manifest_digest s,
                ch_current_reference = reference, ch_revision = 0, ch_action_receipts = [],
                ch_manifest_digest = digest_domain (sha X) CANONICAL_HEAD_DOMAIN ''unsealed''\<rparr> in
          io_bind (publish_canonical_head X E pointer head) (\<lambda>_. io_res (Inr head))))"

definition establish_canonical_genesis ::
  "externals \<Rightarrow> knowledge_engine \<Rightarrow> knowledge_state \<Rightarrow> canonical_inquiry_head io" where
  "establish_canonical_genesis X E s =
     io_bind (io_res (reject (ks_revision s \<noteq> 0 \<or> ks_parent_digest s \<noteq> None)
                       (Invalid ''canonical_genesis_must_be_revision_zero''))) (\<lambda>_.
     io_bind (persist_state X E s) (\<lambda>reference.
     with_private_authority_lock (sha X) (private_root E) (canonical_head_lock_path E (ks_inquiry_id s))
       (genesis_section X E s reference)))"

definition successor_head ::
  "externals \<Rightarrow> knowledge_engine \<Rightarrow> canonical_inquiry_head \<Rightarrow> canonical_inquiry_head \<Rightarrow> knowledge_advance
   \<Rightarrow> private_file_reference \<Rightarrow> canonical_inquiry_head" where
  "successor_head X E expected actual adv next_reference =
     seal_head X \<lparr>ch_schema = SchemaV1, ch_authority_root = authority_root E,
       ch_inquiry_id = ch_inquiry_id expected, ch_genesis_state = ch_genesis_state actual,
       ch_genesis_reference = ch_genesis_reference actual,
       ch_current_state = ks_manifest_digest (adv_state adv), ch_current_reference = next_reference,
       ch_revision = ks_revision (adv_state adv),
       ch_action_receipts = bm_insert (tx_action_id (adv_transition adv))
         (tx_action_receipt (adv_transition adv)) (ch_action_receipts actual),
       ch_manifest_digest = digest_domain (sha X) CANONICAL_HEAD_DOMAIN ''unsealed''\<rparr>"

definition commit_section ::
  "externals \<Rightarrow> knowledge_engine \<Rightarrow> canonical_inquiry_head \<Rightarrow> knowledge_advance \<Rightarrow> private_file_reference
   \<Rightarrow> canonical_inquiry_head io" where
  "commit_section X E expected adv next_reference =
     (let pointer = canonical_head_pointer_path E (ch_inquiry_id expected) in
      io_bind (io_read (read_canonical_head_if_present X E pointer)) (\<lambda>present.
      io_bind (io_res (ok_or present (Integrity ''canonical_inquiry_head_missing''))) (\<lambda>actual.
      io_bind (io_read (authenticate_canonical_head X E actual)) (\<lambda>_.
      case map_of (ch_action_receipts actual) (tx_action_id (adv_transition adv)) of
        Some recorded \<Rightarrow>
          io_res (if recorded \<noteq> tx_action_receipt (adv_transition adv)
                  then Inl (Integrity ''canonical_action_id_receipt_conflict'')
                  else if ch_current_state actual = ks_manifest_digest (adv_state adv)
                          \<and> ch_revision actual = ks_revision (adv_state adv)
                  then Inr actual
                  else Inl (Integrity ''canonical_action_replay_not_current''))
      | None \<Rightarrow>
          io_bind (io_res (reject (ch_manifest_digest actual \<noteq> ch_manifest_digest expected)
                     (Integrity ''canonical_head_compare_and_swap_conflict''))) (\<lambda>_.
          let nxt = successor_head X E expected actual adv next_reference in
          io_bind (publish_canonical_head X E pointer nxt) (\<lambda>_. io_res (Inr nxt)))))))"

definition commit_canonical_advance ::
  "externals \<Rightarrow> knowledge_engine \<Rightarrow> canonical_inquiry_head \<Rightarrow> knowledge_advance \<Rightarrow> canonical_inquiry_head io" where
  "commit_canonical_advance X E expected adv =
     io_bind (io_read (authenticate_canonical_head X E expected)) (\<lambda>_.
     io_bind (io_res (if tx_from_state (adv_transition adv) \<noteq> ch_current_state expected
                         \<or> ks_parent_digest (adv_state adv) \<noteq> Some (ch_current_state expected)
                         \<or> ks_inquiry_id (adv_state adv) \<noteq> ch_inquiry_id expected
                      then Inl (Integrity ''canonical_advance_expected_head_mismatch'')
                      else rbind (ok_or (checked_add 64 (ch_revision expected) 1)
                                   (Invalid ''canonical_revision_overflow'')) (\<lambda>r.
                           reject (ks_revision (adv_state adv) \<noteq> r)
                             (Integrity ''canonical_advance_expected_head_mismatch'')))) (\<lambda>_.
     io_bind (persist_advance X E adv) (\<lambda>(next_reference, _).
     with_private_authority_lock (sha X) (private_root E) (canonical_head_lock_path E (ch_inquiry_id expected))
       (commit_section X E expected adv next_reference))))"

definition load_canonical_head ::
  "externals \<Rightarrow> knowledge_engine \<Rightarrow> string \<Rightarrow> store \<Rightarrow> canonical_inquiry_head res" where
  "load_canonical_head X E inquiry fs =
     rbind (read_canonical_head_if_present X E (canonical_head_pointer_path E inquiry) fs) (\<lambda>present.
     rbind (ok_or present (Invalid ''canonical_inquiry_head_missing'')) (\<lambda>head.
     rbind (authenticate_canonical_head X E head fs) (\<lambda>_. Inr head)))"

section \<open>An authenticated state is the end of a run\<close>

text \<open>Consecutive states of a lineage: the parent is the one the child refers to.\<close>

fun linked :: "externals \<Rightarrow> knowledge_engine \<Rightarrow> store \<Rightarrow> knowledge_state list \<Rightarrow> bool" where
  "linked X E fs (parent # child # rest) \<longleftrightarrow>
     (\<exists>r. ks_parent_reference child = Some r \<and> read_state_reference X E r fs = Inr parent)
     \<and> linked X E fs (child # rest)"
| "linked X E fs _ \<longleftrightarrow> True"

lemma read_lineage_Inr:
  assumes "read_lineage X E chain fs = Inr chain'" and "linked X E fs chain"
    and "\<forall>s \<in> set chain. validate_state X E s fs = Inr ()"
  shows "\<exists>pre. chain' = pre @ chain \<and> linked X E fs chain' \<and> (\<forall>s \<in> set chain'. validate_state X E s fs = Inr ())"
  using assms
proof (induction X E chain fs rule: read_lineage.induct)
  case (2 X E s chain fs)
  show ?case
  proof (cases "ks_parent_reference s")
    case None
    with 2(2-4) show ?thesis by simp
  next
    case (Some r)
    with 2(2) obtain parent where p: "read_state_reference X E r fs = Inr parent"
      and len: "\<not> HARD_MAX_REVISION < length (s # chain)"
      and rest: "read_lineage X E (parent # s # chain) fs = Inr chain'" by (auto split: if_splits)
    have "\<exists>pre. chain' = pre @ parent # s # chain \<and> linked X E fs chain' \<and> (\<forall>s \<in> set chain'. validate_state X E s fs = Inr ())"
      by (rule 2(1)[OF Some len p rest]) (use Some p 2(3,4) read_state_reference_Inr(1)[OF p] in auto)
    then show ?thesis by (metis append.assoc append_Cons append_Nil)
  qed
qed simp

lemma linked_revisions:
  assumes "linked X E fs (s # chain)" and "\<forall>s \<in> set (s # chain). validate_state X E s fs = Inr ()"
  shows "ks_revision (last (s # chain)) = ks_revision s + length chain
    \<and> ks_inquiry_id (last (s # chain)) = ks_inquiry_id s"
  using assms
proof (induction chain arbitrary: s)
  case (Cons c chain)
  then obtain r where "ks_parent_reference c = Some r" "read_state_reference X E r fs = Inr s" by auto
  with parent_revision[of X E c fs r s] Cons.prems have "ks_revision c = Suc (ks_revision s)"
    "ks_inquiry_id s = ks_inquiry_id c" by auto
  with Cons.IH[of c] Cons.prems show ?case by simp
qed simp

lemma check_lineage_run:
  assumes "check_lineage X E (s # chain) fs = Inr ()"
  shows "(knowledge_step X E ^^ length chain) s (last (s # chain))"
  using assms
proof (induction chain arbitrary: s)
  case (Cons c chain)
  then obtain receipt expected where a: "advance X E s receipt fs = Inr expected" "adv_state expected = c"
    and rest: "check_lineage X E (c # chain) fs = Inr ()" by auto
  from knowledge_step[OF a(1)] a(2) have "knowledge_step X E s c" by simp
  then have "(knowledge_step X E ^^ Suc (length chain)) s (last (c # chain))"
    by (rule relpowp_Suc_I2[OF _ Cons.IH[OF rest]])
  then show ?case by (simp del: relpowp.simps)
qed simp

lemma authenticate_state_run:
  assumes "authenticate_state X E r fs = Inr s"
  shows "\<exists>genesis. validate_state X E genesis fs = Inr () \<and> ks_revision genesis = 0
    \<and> ks_inquiry_id genesis = ks_inquiry_id s
    \<and> (knowledge_step X E ^^ ks_revision s) genesis s \<and> validate_state X E s fs = Inr ()"
proof -
  from assms obtain chain where rd: "read_state_reference X E r fs = Inr s"
    and ln: "read_lineage X E [s] fs = Inr chain"
    and org: "\<not> (case chain of [] \<Rightarrow> True | initial # _ \<Rightarrow> ks_revision initial \<noteq> 0)"
    and ck: "check_lineage X E chain fs = Inr ()" by (auto simp: authenticate_state_def)
  have v: "validate_state X E s fs = Inr ()" by (rule read_state_reference_Inr(1)[OF rd])
  from read_lineage_Inr[OF ln] v obtain pre where pre: "chain = pre @ [s]" "linked X E fs chain"
    "\<forall>s \<in> set chain. validate_state X E s fs = Inr ()" by auto
  from org obtain g rest where g: "chain = g # rest" "ks_revision g = 0" by (auto split: list.splits)
  have l: "last (g # rest) = s" using pre(1) g(1) by (metis last_snoc)
  note rev = linked_revisions[of X E fs g rest, folded g(1), OF pre(2,3)]
  from check_lineage_run[of X E g rest fs] ck g(1) l rev g(2) pre(3) v show ?thesis
    by (intro exI[of _ g]) auto
qed

section \<open>Compare and swap\<close>

lemma replace_file_eq:
  assumes "confined root p"
  shows "replace_private_file_atomic hash root p bytes None fs = (Inr (hash bytes), fs(p \<mapsto> bytes))"
proof -
  from assms obtain relative where rel: "root_relative_path root p = Inr relative" by (auto simp: confined_def)
  then have "root @ relative = p" by (rule root_relative_path_join)
  with rel show ?thesis
    by (simp add: replace_private_file_atomic_def io_bind_def io_read_def io_res_def
        existing_regular_file_eq[OF assms] digest_bytes_def Let_def)
qed

lemma replace_file_unconfined:
  assumes "\<not> confined root p"
  shows "\<exists>e. replace_private_file_atomic hash root p bytes None fs = (Inl e, fs)"
proof -
  from assms obtain e where rel: "root_relative_path root p = Inl e"
    by (cases "root_relative_path root p") (auto simp: confined_def)
  then have "e \<noteq> Io NotFound" by (auto simp: root_relative_path_def split: if_splits option.splits)
  with rel show ?thesis
    by (simp add: replace_private_file_atomic_def io_bind_def io_read_def
        existing_regular_file_if_present_def open_confined_regular_file_def Let_def)
qed

lemma publish_canonical_head_Inr:
  assumes "publish_canonical_head X E p head fs = (Inr u, fs')"
  shows "fs' = fs(p \<mapsto> to_vec X (PHead head)) \<and> authenticate_canonical_head X E head fs = Inr ()
    \<and> confined (private_root E) p"
proof (cases "confined (private_root E) p")
  case True
  with assms show ?thesis
    by (auto simp: publish_canonical_head_def io_bind_def io_read_def io_res_def replace_file_eq
        split: sum.splits)
next
  case False
  then obtain e where "replace_private_file_atomic (sha X) (private_root E) p (to_vec X (PHead head)) None fs = (Inl e, fs)"
    using replace_file_unconfined by blast
  with assms show ?thesis
    by (auto simp: publish_canonical_head_def io_bind_def io_read_def io_res_def split: sum.splits)
qed

lemma publish_canonical_head_Inl:
  assumes "publish_canonical_head X E p head fs = (Inl e, fs')"
  shows "fs' = fs"
proof (cases "confined (private_root E) p")
  case True
  with assms show ?thesis
    by (auto simp: publish_canonical_head_def io_bind_def io_read_def io_res_def replace_file_eq
        split: sum.splits)
next
  case False
  then obtain e' where "replace_private_file_atomic (sha X) (private_root E) p (to_vec X (PHead head)) None fs = (Inl e', fs)"
    using replace_file_unconfined by blast
  with assms show ?thesis
    by (auto simp: publish_canonical_head_def io_bind_def io_read_def io_res_def split: sum.splits)
qed

text \<open>What a commit does under the lock: a recorded retry, or a swap from the expected head, or nothing.\<close>

lemma commit_section_Inr:
  assumes "commit_section X E expected adv r fs = (Inr h, fs')"
  obtains (retry) "fs' = fs" "read_canonical_head_if_present X E (canonical_head_pointer_path E (ch_inquiry_id expected)) fs = Inr (Some h)"
      "map_of (ch_action_receipts h) (tx_action_id (adv_transition adv)) = Some (tx_action_receipt (adv_transition adv))"
      "ch_current_state h = ks_manifest_digest (adv_state adv)" "ch_revision h = ks_revision (adv_state adv)"
      "authenticate_canonical_head X E h fs = Inr ()"
    | (swap) actual where
      "read_canonical_head_if_present X E (canonical_head_pointer_path E (ch_inquiry_id expected)) fs = Inr (Some actual)"
      "authenticate_canonical_head X E actual fs = Inr ()"
      "map_of (ch_action_receipts actual) (tx_action_id (adv_transition adv)) = None"
      "ch_manifest_digest actual = ch_manifest_digest expected"
      "h = successor_head X E expected actual adv r" "authenticate_canonical_head X E h fs = Inr ()"
      "fs' = fs(canonical_head_pointer_path E (ch_inquiry_id expected) \<mapsto> to_vec X (PHead h))"
proof -
  let ?p = "canonical_head_pointer_path E (ch_inquiry_id expected)"
  from assms obtain actual where rd: "read_canonical_head_if_present X E ?p fs = Inr (Some actual)"
    and au: "authenticate_canonical_head X E actual fs = Inr ()"
    by (auto simp: commit_section_def io_bind_def io_read_def io_res_def Let_def split: sum.splits option.splits)
  show thesis
  proof (cases "map_of (ch_action_receipts actual) (tx_action_id (adv_transition adv))")
    case None
    show thesis
    proof (cases "ch_manifest_digest actual = ch_manifest_digest expected")
      case True
      with assms rd au None have pub: "publish_canonical_head X E ?p (successor_head X E expected actual adv r) fs = (Inr (), fs')"
        and h: "h = successor_head X E expected actual adv r"
        by (auto simp: commit_section_def io_bind_def io_read_def io_res_def Let_def split: sum.splits prod.splits)
      from publish_canonical_head_Inr[OF pub] h show thesis by (intro swap[OF rd au None True h]) auto
    next
      case False
      with assms rd au None show thesis
        by (simp add: commit_section_def io_bind_def io_read_def io_res_def Let_def)
    qed
  next
    case (Some recorded)
    with assms rd au show thesis
      by (intro retry) (auto simp: commit_section_def io_bind_def io_read_def io_res_def Let_def split: if_splits)
  qed
qed

lemma commit_section_Inl:
  assumes "commit_section X E expected adv r fs = (Inl e, fs')"
  shows "fs' = fs"
  using assms publish_canonical_head_Inl[of X E _ _ fs e fs']
  by (auto simp: commit_section_def io_bind_def io_read_def io_res_def Let_def
      split: sum.splits option.splits prod.splits if_splits)

text \<open>A pointer holding an encoding that decodes and fits is read back.\<close>

lemma read_head_present:
  assumes "good_root (private_root E)" "confined (private_root E) p" "fs p = Some (to_vec X (PHead h))"
    and "length (to_vec X (PHead h)) \<le> CANONICAL_HEAD_POINTER_MAX_BYTES"
    and "from_slice_head X (to_vec X (PHead h)) = Some h"
  shows "read_canonical_head_if_present X E p fs = Inr (Some h)"
  using assms
  by (simp add: read_canonical_head_if_present_def read_existing_private_file_bounded_def
      open_private_reference_eq read_opened_store_file CANONICAL_HEAD_POINTER_MAX_BYTES_def)

lemma read_head_oversized:
  assumes "good_root (private_root E)" "confined (private_root E) p" "fs p = Some bytes"
    and "CANONICAL_HEAD_POINTER_MAX_BYTES < length bytes"
  shows "read_canonical_head_if_present X E p fs = Inl (Invalid ''private_file_read_limit_exceeded'')"
  using assms
  by (simp add: read_canonical_head_if_present_def read_existing_private_file_bounded_def
      open_private_reference_eq read_opened_store_file CANONICAL_HEAD_POINTER_MAX_BYTES_def)

lemma pointer_confined:
  assumes "good_root (private_root E)"
  shows "confined (private_root E) (canonical_head_pointer_path E i)"
  using assms by (simp add: confined_iff canonical_head_pointer_path_def)

lemma read_head_Inr:
  assumes "read_canonical_head_if_present X E p fs = Inr (Some h)"
  shows "\<exists>bytes. fs p = Some bytes \<and> from_slice_head X bytes = Some h"
proof -
  from assms obtain bytes where r: "read_existing_private_file_bounded (private_root E) p CANONICAL_HEAD_POINTER_MAX_BYTES fs = Inr bytes"
    and d: "from_slice_head X bytes = Some h"
    by (auto simp: read_canonical_head_if_present_def split: sum.splits if_splits)
  from r obtain b where b: "fs p = Some b" "read_opened_private_file_bounded (store_file b) CANONICAL_HEAD_POINTER_MAX_BYTES = Inr bytes"
    by (auto simp: read_existing_private_file_bounded_def open_private_reference_def) (metis root_relative_path_join)
  from b(2) have "bytes = b"
    by (simp add: read_opened_store_file CANONICAL_HEAD_POINTER_MAX_BYTES_def split: if_splits)
  with b(1) d show ?thesis by blast
qed

end
