(* ===== verification/Knowledge_Heads.thy ===== *)
theory Knowledge_Heads
  imports Knowledge_Canonical
begin

text \<open>
  What the canonical head of an inquiry guarantees (\<open>commit_canonical_advance\<close>,
  \<open>establish_canonical_genesis\<close> and \<open>load_canonical_head\<close> of
  \<open>src/knowledge/knowledge_engine.rs\<close>): which files an operation touches, what a successful
  commit publishes, and what a commit from a head that is no longer current does.
\<close>

section \<open>Files an operation touches\<close>

lemma write_or_verify_frame:
  assumes "write_or_verify_immutable hash root p bytes fs = (r, fs')" and "q \<noteq> p"
  shows "fs' q = fs q"
proof (cases "confined root p")
  case True
  with assms show ?thesis by (auto simp: write_or_verify_eq split: option.splits if_splits)
next
  case False
  from write_or_verify_unconfined[OF this] assms show ?thesis by (metis snd_conv)
qed

lemma persist_state_frame:
  assumes "persist_state X E s fs = (r, fs')" and "q \<noteq> semantic_path E ''states'' (ks_manifest_digest s)"
  shows "fs' q = fs q"
  using assms write_or_verify_frame[of "sha X" "private_root E" _ "to_vec X (PState s)" fs _ _ q]
  by (auto simp: persist_state_def io_bind_def io_read_def io_res_def Let_def split: sum.splits prod.splits)

lemma persist_transition_frame:
  assumes "persist_transition X E t fs = (r, fs')" and "q \<noteq> semantic_path E ''transitions'' (tx_manifest_digest t)"
  shows "fs' q = fs q"
  using assms write_or_verify_frame[of "sha X" "private_root E" _ "to_vec X (PTransition t)" fs _ _ q]
  by (auto simp: persist_transition_def io_bind_def io_read_def io_res_def Let_def split: sum.splits prod.splits)

lemma persist_advance_frame:
  assumes "persist_advance X E adv fs = (r, fs')" and "\<And>cls d. q \<noteq> semantic_path E cls d"
  shows "fs' q = fs q"
proof -
  obtain r1 fs1 where 1: "persist_state X E (adv_state adv) fs = (r1, fs1)" by fastforce
  obtain r2 fs2 where 2: "persist_transition X E (adv_transition adv) fs1 = (r2, fs2)" by fastforce
  have "fs1 q = fs q" "fs2 q = fs1 q"
    using persist_state_frame[OF 1] persist_transition_frame[OF 2] assms(2) by auto
  with assms(1) 1 2 show ?thesis
    by (auto simp: persist_advance_def io_bind_def io_res_def split: sum.splits)
qed

lemma pointer_not_object [simp]: "canonical_head_pointer_path E i \<noteq> semantic_path E cls d"
  by (simp add: canonical_head_pointer_path_def semantic_path_def)

lemma pointer_not_lock [simp]: "canonical_head_pointer_path E i \<noteq> canonical_head_lock_path E j"
  by (simp add: canonical_head_pointer_path_def canonical_head_lock_path_def)

lemma pointer_eq [simp]: "canonical_head_pointer_path E i = canonical_head_pointer_path E j \<longleftrightarrow> i = j"
  by (simp add: canonical_head_pointer_path_def)

text \<open>Under the lock the operation starts from the caller's files, the lock file apart.\<close>

lemma with_lock_cases:
  assumes "with_private_authority_lock hash root p f fs = (r, fs')"
  obtains (refused) e where "r = Inl e" "\<And>q. q \<noteq> p \<Longrightarrow> fs' q = fs q"
    | (locked) fs1 where "f fs1 = (r, fs')" "\<And>q. q \<noteq> p \<Longrightarrow> fs1 q = fs q"
proof -
  obtain r1 fs1 where w: "write_or_verify_immutable hash root p [] fs = (r1, fs1)" by fastforce
  note frame = write_or_verify_frame[OF w]
  show thesis
  proof (cases r1)
    case (Inl e)
    with assms w have "r = Inl e" "fs' = fs1" by (auto simp: with_private_authority_lock_def io_bind_def)
    with frame show thesis by (intro refused) auto
  next
    case (Inr d)
    show thesis
    proof (cases "open_private_reference root p fs1")
      case (Inl e)
      with assms w Inr have "r = Inl e" "fs' = fs1"
        by (auto simp: with_private_authority_lock_def io_bind_def io_read_def)
      with frame show thesis by (intro refused) auto
    next
      case (Inr x)
      with assms w \<open>r1 = Inr d\<close> have "f fs1 = (r, fs')"
        by (auto simp: with_private_authority_lock_def io_bind_def io_read_def)
      with frame show thesis by (intro locked[of fs1]) auto
    qed
  qed
qed

section \<open>The receipts of a lineage\<close>

lemma lineage_actions_ok:
  assumes "lineage_actions X E s actions fs = Inr (origin, actions')" and "bm_ok actions"
  shows "bm_ok actions' \<and> (\<forall>a d. map_of actions a = Some d \<longrightarrow> map_of actions' a = Some d)"
  using assms
proof (induction X E s actions fs rule: lineage_actions.induct)
  case (1 X E s actions fs)
  show ?case
  proof (cases "ks_parent_reference s")
    case None
    with 1(2,3) show ?thesis by (subst (asm) lineage_actions.simps) auto
  next
    case (Some p)
    from 1(2) Some obtain parent ref receipt where st: "read_state_reference X E p fs = Inr parent"
      "ks_last_action_receipt_reference s = Some ref" "authenticate_action_receipt X E parent ref fs = Inr receipt"
      "map_of actions (rc_action_id receipt) = None" "rc_parent_state receipt = ks_manifest_digest parent"
      and rest: "lineage_actions X E parent (bm_insert (rc_action_id receipt) (rc_manifest_digest receipt) actions) fs
        = Inr (origin, actions')"
      by (subst (asm) lineage_actions.simps) auto
    have "bm_ok actions' \<and> (\<forall>a d. map_of (bm_insert (rc_action_id receipt) (rc_manifest_digest receipt) actions) a = Some d
        \<longrightarrow> map_of actions' a = Some d)"
      by (rule 1(1)[OF Some st(1) _ st(3) _ rest]) (use st 1(3) in auto)
    then show ?thesis using st(4) by (metis (no_types, lifting) fun_upd_apply map_of_bm_insert option.distinct(1))
  qed
qed

text \<open>The ledger of an authenticated head: one entry per revision.\<close>

lemma authenticated_head:
  assumes "authenticate_canonical_head X E h fs = Inr ()"
  shows "bm_ok (ch_action_receipts h)" and "length (ch_action_receipts h) = ch_revision h"
    and "ch_manifest_digest h = calculate_head_digest X h" and "ch_authority_root h = authority_root E"
    and "\<exists>current. authenticate_state X E (ch_current_reference h) fs = Inr current
           \<and> ks_manifest_digest current = ch_current_state h \<and> ks_revision current = ch_revision h
           \<and> ks_inquiry_id current = ch_inquiry_id h"
    and "ch_revision h \<le> HARD_MAX_REVISION"
proof -
  from assms obtain current where c: "authenticate_state X E (ch_current_reference h) fs = Inr current"
    "ks_manifest_digest current = ch_current_state h" "ks_revision current = ch_revision h"
    "ks_inquiry_id current = ch_inquiry_id h"
    and a: "canonical_action_receipts_from_lineage X E current fs = Inr (ch_action_receipts h)"
    and l: "length (ch_action_receipts h) = ch_revision h"
    and d: "ch_manifest_digest h = calculate_head_digest X h" "ch_authority_root h = authority_root E"
      "\<not> HARD_MAX_REVISION < ch_revision h"
    by (auto simp: authenticate_canonical_head_def)
  from a obtain origin where "lineage_actions X E current [] fs = Inr (origin, ch_action_receipts h)"
    by (auto simp: canonical_action_receipts_from_lineage_def)
  from lineage_actions_ok[OF this] show "bm_ok (ch_action_receipts h)" by simp
  from l d show "length (ch_action_receipts h) = ch_revision h" "ch_manifest_digest h = calculate_head_digest X h"
    "ch_authority_root h = authority_root E" "ch_revision h \<le> HARD_MAX_REVISION" by auto
  from c show "\<exists>current. authenticate_state X E (ch_current_reference h) fs = Inr current
           \<and> ks_manifest_digest current = ch_current_state h \<and> ks_revision current = ch_revision h
           \<and> ks_inquiry_id current = ch_inquiry_id h" by blast
qed

section \<open>Commits\<close>

lemma successor_head_fields [simp]:
  "ch_inquiry_id (successor_head X E expected actual adv r) = ch_inquiry_id expected"
  "ch_revision (successor_head X E expected actual adv r) = ks_revision (adv_state adv)"
  "ch_current_state (successor_head X E expected actual adv r) = ks_manifest_digest (adv_state adv)"
  "ch_action_receipts (successor_head X E expected actual adv r)
     = bm_insert (tx_action_id (adv_transition adv)) (tx_action_receipt (adv_transition adv)) (ch_action_receipts actual)"
  "ch_genesis_state (successor_head X E expected actual adv r) = ch_genesis_state actual"
  by (simp_all add: successor_head_def seal_head_def)

text \<open>Every commit ends in one of these ways; in the first two the published head is untouched.\<close>

lemma commit_cases:
  assumes c: "commit_canonical_advance X E expected adv fs = (r, fs')"
  defines "p \<equiv> canonical_head_pointer_path E (ch_inquiry_id expected)"
  obtains (refused) e where "r = Inl e" "fs' p = fs p"
    | (recorded) h where "r = Inr h" "fs' p = fs p" "\<exists>bytes. fs p = Some bytes \<and> from_slice_head X bytes = Some h"
        "map_of (ch_action_receipts h) (tx_action_id (adv_transition adv)) = Some (tx_action_receipt (adv_transition adv))"
        "ch_current_state h = ks_manifest_digest (adv_state adv)" "ch_revision h = ks_revision (adv_state adv)"
    | (swapped) h actual where "r = Inr h" "fs' p = Some (to_vec X (PHead h))"
        "\<exists>bytes. fs p = Some bytes \<and> from_slice_head X bytes = Some actual"
        "ch_manifest_digest actual = ch_manifest_digest expected"
        "map_of (ch_action_receipts actual) (tx_action_id (adv_transition adv)) = None"
        "ch_action_receipts h = bm_insert (tx_action_id (adv_transition adv))
           (tx_action_receipt (adv_transition adv)) (ch_action_receipts actual)"
        "ch_current_state h = ks_manifest_digest (adv_state adv)" "ch_revision h = Suc (ch_revision actual)"
        "ch_revision actual = ch_revision expected" "ch_revision h \<le> HARD_MAX_REVISION"
        "ks_parent_digest (adv_state adv) = Some (ch_current_state expected)"
        "ch_inquiry_id h = ch_inquiry_id expected" "ch_genesis_state h = ch_genesis_state actual"
proof (cases "authenticate_canonical_head X E expected fs")
  case (Inl e)
  with c show thesis by (intro refused) (auto simp: commit_canonical_advance_def io_bind_def io_read_def)
next
  case (Inr u)
  let ?guard = "if tx_from_state (adv_transition adv) \<noteq> ch_current_state expected
      \<or> ks_parent_digest (adv_state adv) \<noteq> Some (ch_current_state expected)
      \<or> ks_inquiry_id (adv_state adv) \<noteq> ch_inquiry_id expected
    then Inl (Integrity ''canonical_advance_expected_head_mismatch'')
    else rbind (ok_or (checked_add 64 (ch_revision expected) 1) (Invalid ''canonical_revision_overflow'')) (\<lambda>r.
         reject (ks_revision (adv_state adv) \<noteq> r) (Integrity ''canonical_advance_expected_head_mismatch''))"
  show thesis
  proof (cases ?guard)
    case (Inl e)
    with c Inr show thesis
      by (intro refused) (auto simp: commit_canonical_advance_def io_bind_def io_read_def io_res_def simp del: rbind_eq_Inr)
  next
    case (Inr g)
    then have guard: "ks_parent_digest (adv_state adv) = Some (ch_current_state expected)"
      "ks_revision (adv_state adv) = Suc (ch_revision expected)" by (auto split: if_splits)
    obtain pr fs1 where pa: "persist_advance X E adv fs = (pr, fs1)" by fastforce
    have f1: "fs1 p = fs p" by (rule persist_advance_frame[OF pa]) (simp add: p_def)
    show thesis
    proof (cases pr)
      case (Inl e)
      with c \<open>authenticate_canonical_head X E expected fs = Inr u\<close> Inr pa f1 show thesis
        by (intro refused) (auto simp: commit_canonical_advance_def io_bind_def io_read_def io_res_def simp del: rbind_eq_Inr)
    next
      case (Inr refs)
      then obtain nr tr where refs: "pr = Inr (nr, tr)" by (cases refs) auto
      with c \<open>authenticate_canonical_head X E expected fs = Inr u\<close> \<open>?guard = Inr g\<close> pa
      have "with_private_authority_lock (sha X) (private_root E) (canonical_head_lock_path E (ch_inquiry_id expected))
          (commit_section X E expected adv nr) fs1 = (r, fs')"
        by (simp add: commit_canonical_advance_def io_bind_def io_read_def io_res_def del: rbind_eq_Inr)
      then show thesis
      proof (cases rule: with_lock_cases)
        case (refused e)
        with f1 show thesis by (intro that(1)) (auto simp: p_def)
      next
        case (locked fs2)
        then have f2: "fs2 p = fs p" using f1 by (auto simp: p_def)
        show thesis
        proof (cases r)
          case (Inl e)
          with locked(1) commit_section_Inl have "fs' = fs2" by blast
          with Inl f2 show thesis by (intro that(1)) auto
        next
          case (Inr h)
          with locked(1) have sec: "commit_section X E expected adv nr fs2 = (Inr h, fs')" by simp
          then show thesis
          proof (cases rule: commit_section_Inr)
            case retry
            from read_head_Inr[OF retry(2)] f2 Inr retry show thesis
              by (intro that(2)) (auto simp: p_def)
          next
            case (swap actual)
            from authenticated_head[OF swap(2)] authenticated_head[OF swap(6)] swap(3,5)
            have "Suc (ch_revision actual) = ch_revision h"
              by (metis length_bm_insert successor_head_fields(4))
            with guard(2) swap(5) have "ch_revision actual = ch_revision expected" by simp
            with read_head_Inr[OF swap(1)] f2 Inr swap guard authenticated_head(6)[OF swap(6)]
              \<open>Suc (ch_revision actual) = ch_revision h\<close> show thesis
              by (intro that(3)[of h actual]) (auto simp: p_def)
          qed
        qed
      qed
    qed
  qed
qed

text \<open>A commit from a head that is not the published one, of an action it does not record.\<close>

lemma commit_stale:
  assumes "commit_canonical_advance X E expected adv fs = (r, fs')"
    and "fs (canonical_head_pointer_path E (ch_inquiry_id expected)) = Some bytes" "from_slice_head X bytes = Some actual"
    and "ch_manifest_digest actual \<noteq> ch_manifest_digest expected"
    and "map_of (ch_action_receipts actual) (tx_action_id (adv_transition adv)) = None"
  shows "\<exists>e. r = Inl e"
  using assms by (cases rule: commit_cases[OF assms(1)]) auto

end
