(* ===== verification/Sample_Inquiry.thy ===== *)
theory Sample_Inquiry
  imports Knowledge_Heads
begin

text \<open>
  A concrete inquiry, evaluated by the kernel: three claims, a causal intervention that
  discriminates two rival hypotheses, a dependency expansion that discovers one module, and a formal
  property that stays open. The
  instances of the theorems about the engine are taken at its states, receipts and heads. The hash
  and the encoder are small functions that tell the inquiry's objects apart; the decoders know
  exactly these objects.
\<close>

section \<open>Hash and paths\<close>

definition dg :: "char \<Rightarrow> digest" where
  "dg c = replicate 63 CHR ''a'' @ [c]"

definition sample_sha :: "string \<Rightarrow> digest" where
  "sample_sha bs = dg (case rev bs of [] \<Rightarrow> CHR ''a''
     | c # _ \<Rightarrow> if c \<in> set ''0123456789abcdef'' then c else CHR ''a'')"

definition sample_root :: path where
  "sample_root = [RootDir, Normal ''brain'']"

definition sample_file :: "string \<Rightarrow> path" where
  "sample_file name = sample_root @ [Normal name]"

definition sample_path :: "string \<Rightarrow> digest \<Rightarrow> path" where
  "sample_path cls d = sample_root @ [Normal ''state'', Normal ''knowledge_engine'', Normal cls,
     Normal ''by-sha'', Normal (d @ ''.json'')]"

definition sample_ref :: "string \<Rightarrow> char \<Rightarrow> private_file_reference" where
  "sample_ref cls c = \<lparr>ref_path = sample_path cls (dg c), ref_sha256 = dg c\<rparr>"

lemma dg_eq [simp]: "dg a = dg b \<longleftrightarrow> a = b"
  by (simp add: dg_def)

lemma dg_not_Nil [simp]: "dg a \<noteq> []"
  by (simp add: dg_def)

lemma dg_less [simp]: "dg a < dg b \<longleftrightarrow> a < b"
  by (simp add: dg_def numeral_eq_Suc)

lemma dg_valid: "c \<in> set ''0123456789abcdef'' \<Longrightarrow> is_valid_str (dg c)"
  unfolding is_valid_str_iff is_raw_sha256_def is_lower_hex_chars dg_def
  by (simp add: HEX_LEN_def list_all_iff)

lemma sample_sha_valid [simp]: "is_valid_str (sample_sha bs)"
  unfolding sample_sha_def by (rule dg_valid) (auto split: list.splits)

lemma dg_not_draft [simp]: "\<not> is_draft (dg c)"
  by (simp add: is_draft_def dg_def zero_digest_def HEX_LEN_def numeral_eq_Suc)

lemma sample_sha_append: "b \<noteq> [] \<Longrightarrow> sample_sha (a @ b) = sample_sha b"
  by (cases b rule: rev_cases) (simp_all add: sample_sha_def)

lemma sample_path_eq [simp]: "sample_path a (dg b) = sample_path a' (dg b') \<longleftrightarrow> a = a' \<and> b = b'"
  by (simp add: sample_path_def)

lemma sample_file_eq [simp]: "sample_file a = sample_file b \<longleftrightarrow> a = b"
  by (simp add: sample_file_def)

lemma sample_path_file [simp]: "sample_path a b \<noteq> sample_file c" "sample_file c \<noteq> sample_path a b"
  by (simp_all add: sample_path_def sample_file_def)

lemma good_sample_root [simp]: "good_root sample_root"
  by (simp add: good_root_def sample_root_def is_absolute_def)

lemma confined_sample [simp]: "confined sample_root (sample_path a b)" "confined sample_root (sample_file c)"
  by (simp_all add: confined_iff) (simp_all add: sample_path_def sample_file_def)

lemma sample_read [simp]:
  assumes "confined sample_root (ref_path r)" and "limit < 2 ^ 64"
  shows "read_verified_bounded sample_sha sample_root r limit fs =
    (case fs (ref_path r) of
       None \<Rightarrow> Inl (Io NotFound)
     | Some bytes \<Rightarrow>
         if limit < length bytes then Inl (Invalid ''private_file_read_limit_exceeded'')
         else if sample_sha bytes \<noteq> ref_sha256 r then Inl (Integrity ''private_file_reference_digest_mismatch'')
         else Inr bytes)"
  using assms by (simp add: read_verified_bounded_eq verify_store_file split: option.splits)

section \<open>The contract\<close>

definition sample_p :: knowledge_predicate where
  "sample_p = BoolEquals ''k'' True"

definition sample_rival :: knowledge_predicate where
  "sample_rival = BoolEquals ''k'' False"

definition sample_key :: string where
  "sample_key = ''dependency.'' @ dg CHR ''6'' @ ''.closed''"

definition sample_q :: knowledge_predicate where
  "sample_q = BoolEquals sample_key True"

definition sample_f :: knowledge_predicate where
  "sample_f = BoolEquals ''w'' True"

definition sample_predictions :: predictions where
  "sample_predictions = [(''h1'', sample_p), (''h2'', sample_rival)]"

definition sample_causal :: cognitive_plan where
  "sample_causal = CausalIntervention ''v'' (ObsBool False) (ObsBool True) sample_p sample_predictions"

definition sample_expansion :: cognitive_plan where
  "sample_expansion = ExpandDependencyClosure ''m'' 0 2"

definition sample_formal :: cognitive_plan where
  "sample_formal = VerifyFormalProperty TheoremKernel sample_f"

definition sample_draft :: knowledge_contract_draft where
  "sample_draft = \<lparr>
     draft_claims = [\<lparr>cd_claim_id = ''c1'', cd_domain = CausalMechanism, cd_predicate = sample_p\<rparr>,
                     \<lparr>cd_claim_id = ''c2'', cd_domain = DependencyClosure, cd_predicate = sample_q\<rparr>,
                     \<lparr>cd_claim_id = ''c3'', cd_domain = FormalProperty, cd_predicate = sample_f\<rparr>],
     draft_obligations = [
       \<lparr>od_obligation_id = ''a'', od_claim_id = ''c1'', od_criterion = EvaluationCriterion sample_p,
        od_plan = sample_causal\<rparr>,
       \<lparr>od_obligation_id = ''b'', od_claim_id = ''c2'', od_criterion = EvaluationCriterion sample_q,
        od_plan = sample_expansion\<rparr>,
       \<lparr>od_obligation_id = ''z'', od_claim_id = ''c3'', od_criterion = EvaluationCriterion sample_f,
        od_plan = sample_formal\<rparr>],
     draft_hypotheses = [
       \<lparr>hd_hypothesis_id = ''h1'', hd_family_id = ''f'', hd_definition = sample_p\<rparr>,
       \<lparr>hd_hypothesis_id = ''h2'', hd_family_id = ''f'', hd_definition = sample_rival\<rparr>],
     draft_budget = conservative_default\<rparr>"

section \<open>Receipts and evidence\<close>

definition sample_executor :: executor_attestation where
  "sample_executor = \<lparr>att_executor_id = ''x'', att_interface_version = ExecutorV1,
     att_implementation = \<lparr>ref_path = sample_file ''impl'', ref_sha256 = dg CHR ''7''\<rparr>,
     att_version_digest = dg CHR ''8''\<rparr>"

definition sample_binding :: "char \<Rightarrow> char \<Rightarrow> string \<Rightarrow> string \<Rightarrow> knowledge_predicate \<Rightarrow> invocation_binding" where
  "sample_binding parent action oid cid p = \<lparr>ib_authority_instance = ''instance'', ib_authority_root = dg CHR ''6'',
     ib_inquiry_id = ''q'', ib_capability_bundle = dg CHR ''b'', ib_parent_state = dg parent,
     ib_action_id = dg action, ib_obligation_id = oid, ib_claim_id = cid, ib_attempt = 1,
     ib_criterion = EvaluationCriterion p\<rparr>"

definition sample_invocation1 :: cognitive_invocation where
  "sample_invocation1 = InvCausalIntervention \<lparr>
     ca_binding = sample_binding CHR ''0'' CHR ''d'' ''a'' ''c1'' sample_p, ca_variable = ''v'',
     ca_baseline = ObsBool False, ca_treatment = ObsBool True, ca_effect = sample_p,
     ca_predictions = sample_predictions\<rparr>"

definition sample_invocation2 :: cognitive_invocation where
  "sample_invocation2 = InvExpandDependencyClosure \<lparr>
     de_binding = sample_binding CHR ''1'' CHR ''e'' ''b'' ''c2'' sample_q,
     de_root = ''m'', de_depth = 0, de_max_depth = 2\<rparr>"

definition sample_authority :: "char \<Rightarrow> char \<Rightarrow> string \<Rightarrow> string \<Rightarrow> char \<Rightarrow> evidence_authority_binding" where
  "sample_authority parent action oid cid inv_digest = \<lparr>eb_schema = SchemaV1, eb_authority_instance = ''instance'',
     eb_authority_root = dg CHR ''6'', eb_inquiry_id = ''q'', eb_capability_bundle = dg CHR ''b'',
     eb_parent_state = dg parent, eb_action_id = dg action, eb_obligation_id = oid, eb_claim_id = cid,
     eb_attempt = 1, eb_invocation_digest = dg inv_digest, eb_executor_id = ''x'',
     eb_executor_interface_version = ExecutorV1, eb_executor_implementation_digest = dg CHR ''7'',
     eb_executor_version_digest = dg CHR ''8''\<rparr>"

definition sample_artifact1 :: causal_evidence_artifact where
  "sample_artifact1 = \<lparr>caa_binding = sample_authority CHR ''0'' CHR ''d'' ''a'' ''c1'' CHR ''b'',
     caa_protocol = PairedInterventionV1, caa_variable = ''v'', caa_baseline = ObsBool False,
     caa_treatment = ObsBool True, caa_effect = sample_p, caa_predictions = sample_predictions,
     caa_baseline_observations = [(''k'', ObsBool False)],
     caa_treatment_observations = [(''k'', ObsBool True)]\<rparr>"

definition sample_artifact2 :: dependency_graph_evidence_artifact where
  "sample_artifact2 = \<lparr>da_binding = sample_authority CHR ''1'' CHR ''e'' ''b'' ''c2'' CHR ''c'',
     da_protocol = CanonicalDependencyEdgesV1, da_root = ''m'', da_depth = 0, da_max_depth = 2,
     da_edges = [DependencyEdge ''m'' ''n'']\<rparr>"

definition sample_record :: "char \<Rightarrow> char \<Rightarrow> evidence_kind \<Rightarrow> string \<Rightarrow> char \<Rightarrow> knowledge_evidence_record" where
  "sample_record c inv_digest kind file artifact = \<lparr>er_schema = SchemaV1, er_authority_root = dg CHR ''6'',
     er_evidence_id = dg c, er_invocation_digest = dg inv_digest, er_executor_id = ''x'', er_kind = kind,
     er_artifact = \<lparr>ref_path = sample_file file, ref_sha256 = dg artifact\<rparr>, er_outcome_digest = dg CHR ''9'',
     er_manifest_digest = dg c\<rparr>"

definition sample_reference :: "char \<Rightarrow> evidence_kind \<Rightarrow> char \<Rightarrow> authenticated_evidence_reference" where
  "sample_reference c kind artifact = \<lparr>aer_evidence_id = dg c, aer_kind = kind,
     aer_record = sample_ref ''evidence'' c, aer_record_digest = dg c, aer_source_artifact_digest = dg artifact\<rparr>"

definition sample_receipt1 :: action_receipt where
  "sample_receipt1 = \<lparr>rc_schema = SchemaV1, rc_authority_root = dg CHR ''6'', rc_inquiry_id = ''q'',
     rc_capability_bundle = dg CHR ''b'', rc_parent_state = dg CHR ''0'', rc_action_id = dg CHR ''d'',
     rc_invocation = sample_invocation1, rc_invocation_digest = dg CHR ''b'', rc_executor = sample_executor,
     rc_outcome = Completed [(''k'', ObsBool True)] [] [],
     rc_evidence = [(dg CHR ''5'', sample_reference CHR ''5'' CausalComparison CHR ''f'')],
     rc_charged_cost = 5, rc_manifest_digest = dg CHR ''3''\<rparr>"

definition sample_receipt2 :: action_receipt where
  "sample_receipt2 = \<lparr>rc_schema = SchemaV1, rc_authority_root = dg CHR ''6'', rc_inquiry_id = ''q'',
     rc_capability_bundle = dg CHR ''b'', rc_parent_state = dg CHR ''1'', rc_action_id = dg CHR ''e'',
     rc_invocation = sample_invocation2, rc_invocation_digest = dg CHR ''c'', rc_executor = sample_executor,
     rc_outcome = Completed [(sample_key, ObsBool True)] [DependencyEdge ''m'' ''n''] [],
     rc_evidence = [(dg CHR ''6'', sample_reference CHR ''6'' DependencyGraph CHR ''a'')],
     rc_charged_cost = 3, rc_manifest_digest = dg CHR ''4''\<rparr>"

section \<open>States\<close>

definition sample_claim :: "string \<Rightarrow> knowledge_domain \<Rightarrow> knowledge_predicate \<Rightarrow> claim_assessment \<Rightarrow> string \<times> knowledge_claim" where
  "sample_claim cid d p a = (cid, \<lparr>claim_id = cid, claim_domain = d, claim_predicate = p, claim_assessment = a\<rparr>)"

definition sample_obligation ::
  "string \<Rightarrow> string \<Rightarrow> knowledge_domain \<Rightarrow> knowledge_predicate \<Rightarrow> cognitive_plan \<Rightarrow> knowledge_obligation_state
   \<Rightarrow> string \<times> knowledge_obligation" where
  "sample_obligation oid cid d p pl st = (oid, \<lparr>obligation_id = oid, obligation_claim_id = cid, obligation_domain = d,
     obligation_criterion = EvaluationCriterion p, obligation_plan = pl, obligation_state = st\<rparr>)"

definition sample_hypothesis ::
  "string \<Rightarrow> knowledge_predicate \<Rightarrow> hypothesis_assessment \<Rightarrow> string \<times> knowledge_hypothesis" where
  "sample_hypothesis hid p a = (hid, \<lparr>hypothesis_id = hid, hypothesis_family_id = ''f'', hypothesis_definition = p,
     hypothesis_assessment = a\<rparr>)"

definition sample_s0 :: knowledge_state where
  "sample_s0 = \<lparr>ks_schema = SchemaV1, ks_authority_root = dg CHR ''6'', ks_inquiry_id = ''q'',
     ks_capability_bundle_reference = \<lparr>ref_path = sample_file ''bundle'', ref_sha256 = dg CHR ''b''\<rparr>,
     ks_capability_bundle = dg CHR ''b'', ks_policy_digest = dg CHR ''7'', ks_revision = 0,
     ks_parent_digest = None, ks_parent_reference = None, ks_last_action_receipt_reference = None,
     ks_budget = conservative_default,
     ks_usage = \<lparr>used_actions = 0, used_total_cost = 0, used_evidence_records = 0\<rparr>,
     ks_claims = [sample_claim ''c1'' CausalMechanism sample_p Unresolved,
                  sample_claim ''c2'' DependencyClosure sample_q Unresolved,
                  sample_claim ''c3'' FormalProperty sample_f Unresolved],
     ks_obligations = [sample_obligation ''a'' ''c1'' CausalMechanism sample_p sample_causal (Open 0 []),
                       sample_obligation ''b'' ''c2'' DependencyClosure sample_q sample_expansion (Open 0 []),
                       sample_obligation ''z'' ''c3'' FormalProperty sample_f sample_formal (Open 0 [])],
     ks_hypotheses = [sample_hypothesis ''h1'' sample_p Viable, sample_hypothesis ''h2'' sample_rival Viable],
     ks_dependency_parents = [(''m'', None)], ks_dependency_depths = [(''m'', 0)],
     ks_dependency_graph = [(''m'', [])],
     ks_bounded_reason = None, ks_applied_receipts = [], ks_used_evidence_artifacts = [],
     ks_manifest_digest = dg CHR ''0''\<rparr>"

definition sample_s1 :: knowledge_state where
  "sample_s1 = sample_s0\<lparr>ks_revision := 1, ks_parent_digest := Some (dg CHR ''0''),
     ks_parent_reference := Some (sample_ref ''states'' CHR ''0''),
     ks_last_action_receipt_reference := Some (sample_ref ''action_receipts'' CHR ''3''),
     ks_usage := \<lparr>used_actions = 1, used_total_cost = 5, used_evidence_records = 1\<rparr>,
     ks_claims := [sample_claim ''c1'' CausalMechanism sample_p (Established [dg CHR ''3'']),
                   sample_claim ''c2'' DependencyClosure sample_q Unresolved,
                   sample_claim ''c3'' FormalProperty sample_f Unresolved],
     ks_obligations := [sample_obligation ''a'' ''c1'' CausalMechanism sample_p sample_causal (Satisfied 1 [dg CHR ''3'']),
                        sample_obligation ''b'' ''c2'' DependencyClosure sample_q sample_expansion (Open 0 []),
                       sample_obligation ''z'' ''c3'' FormalProperty sample_f sample_formal (Open 0 [])],
     ks_hypotheses := [sample_hypothesis ''h1'' sample_p (Supported [dg CHR ''3'']),
                       sample_hypothesis ''h2'' sample_rival (Refuted [dg CHR ''3''])],
     ks_applied_receipts := [dg CHR ''3''], ks_used_evidence_artifacts := [dg CHR ''f''],
     ks_manifest_digest := dg CHR ''1''\<rparr>"

definition sample_s2 :: knowledge_state where
  "sample_s2 = sample_s1\<lparr>ks_revision := 2, ks_parent_digest := Some (dg CHR ''1''),
     ks_parent_reference := Some (sample_ref ''states'' CHR ''1''),
     ks_last_action_receipt_reference := Some (sample_ref ''action_receipts'' CHR ''4''),
     ks_usage := \<lparr>used_actions = 2, used_total_cost = 8, used_evidence_records = 2\<rparr>,
     ks_claims := [sample_claim ''c1'' CausalMechanism sample_p (Established [dg CHR ''3'']),
                   sample_claim ''c2'' DependencyClosure sample_q (Established [dg CHR ''4'']),
                   sample_claim ''c3'' FormalProperty sample_f Unresolved,
                   sample_claim (''discovered-claim-'' @ dg CHR ''d'') DependencyClosure sample_q Unresolved],
     ks_obligations := [sample_obligation ''a'' ''c1'' CausalMechanism sample_p sample_causal (Satisfied 1 [dg CHR ''3'']),
                        sample_obligation ''b'' ''c2'' DependencyClosure sample_q sample_expansion (Satisfied 1 [dg CHR ''4'']),
                        sample_obligation (''discovered-obligation-'' @ dg CHR ''d'') (''discovered-claim-'' @ dg CHR ''d'')
                          DependencyClosure sample_q (ExpandDependencyClosure ''n'' 1 2) (Open 0 []),
                        sample_obligation ''z'' ''c3'' FormalProperty sample_f sample_formal (Open 0 [])],
     ks_dependency_parents := [(''m'', None), (''n'', Some ''m'')], ks_dependency_depths := [(''m'', 0), (''n'', 1)],
     ks_dependency_graph := [(''m'', [''n'']), (''n'', [])],
     ks_applied_receipts := [dg CHR ''3'', dg CHR ''4''], ks_used_evidence_artifacts := [dg CHR ''a'', dg CHR ''f''],
     ks_manifest_digest := dg CHR ''2''\<rparr>"

definition sample_head :: "nat \<Rightarrow> canonical_inquiry_head" where
  "sample_head r = \<lparr>ch_schema = SchemaV1, ch_authority_root = dg CHR ''6'', ch_inquiry_id = ''q'',
     ch_genesis_state = dg CHR ''0'', ch_genesis_reference = sample_ref ''states'' CHR ''0'',
     ch_current_state = dg (if r = 0 then CHR ''0'' else CHR ''1''),
     ch_current_reference = sample_ref ''states'' (if r = 0 then CHR ''0'' else CHR ''1''),
     ch_revision = r, ch_action_receipts = (if r = 0 then [] else [(dg CHR ''d'', dg CHR ''3'')]),
     ch_manifest_digest = dg (if r = 0 then CHR ''0'' else CHR ''1'')\<rparr>"

section \<open>Encoders and decoders\<close>

definition revision_digit :: "nat \<Rightarrow> string" where
  "revision_digit r = (if r = 0 then ''0'' else if r = 1 then ''1'' else ''2'')"

definition sample_slice :: "(string \<times> 'a) list \<Rightarrow> string \<Rightarrow> 'a option" where
  "sample_slice table bytes = map_of table bytes"

text \<open>\<open>padding\<close> is the number of extra bytes in the encoding of a head.\<close>

fun sample_encode :: "nat \<Rightarrow> payload \<Rightarrow> string" where
  "sample_encode padding (PString _) = ''6''"
| "sample_encode padding (PAction _ oid _) = (if oid = ''a'' then ''d'' else ''e'')"
| "sample_encode padding (PInvocation i) = (if invocation_cost i = 5 then ''b'' else ''c'')"
| "sample_encode padding (POutcome _) = ''9''"
| "sample_encode padding (PVersion _ _ _ _) = ''8''"
| "sample_encode padding (PEvidenceId _ _ kind _) = (if kind = CausalComparison then ''5'' else ''6'')"
| "sample_encode padding (PEvidenceProjection r) = (if er_kind r = CausalComparison then ''e5'' else ''e6'')"
| "sample_encode padding (PEvidenceRecord r) = (if er_kind r = CausalComparison then ''e5'' else ''e6'')"
| "sample_encode padding (PReceiptProjection r) = (if rc_charged_cost r = 5 then ''r3'' else ''r4'')"
| "sample_encode padding (PReceipt r) = (if rc_charged_cost r = 5 then ''r3'' else ''r4'')"
| "sample_encode padding (PStateProjection s) = CHR ''s'' # revision_digit (ks_revision s)"
| "sample_encode padding (PState s) = CHR ''s'' # revision_digit (ks_revision s)"
| "sample_encode padding (PTransitionProjection t) = (if tx_from_state t = dg CHR ''0'' then ''t1'' else ''t2'')"
| "sample_encode padding (PTransition t) = (if tx_from_state t = dg CHR ''0'' then ''t1'' else ''t2'')"
| "sample_encode padding (PHeadProjection h) = revision_digit (ch_revision h)"
| "sample_encode padding (PHead h) = replicate padding CHR ''h'' @ revision_digit (ch_revision h)"
| "sample_encode padding (PPolicy _) = ''7''"
| "sample_encode padding (PDependencyIdentity _ _ _) = ''d''"
| "sample_encode padding (PCausalArtifact _) = ''cf''"
| "sample_encode padding (PDependencyArtifact _) = ''da''"
| "sample_encode padding _ = ''a''"

definition sample_externals :: "nat \<Rightarrow> externals" where
  "sample_externals padding = \<lparr>sha = sample_sha, to_vec = sample_encode padding,
     from_slice_state = sample_slice [(''s0'', sample_s0), (''s1'', sample_s1), (''s2'', sample_s2)],
     from_slice_receipt = sample_slice [(''r3'', sample_receipt1), (''r4'', sample_receipt2)],
     from_slice_record = sample_slice [
       (''e5'', sample_record CHR ''5'' CHR ''b'' CausalComparison ''artifact1'' CHR ''f''),
       (''e6'', sample_record CHR ''6'' CHR ''c'' DependencyGraph ''artifact2'' CHR ''a'')],
     from_slice_head = sample_slice [(replicate padding CHR ''h'' @ ''0'', sample_head 0),
                                     (replicate padding CHR ''h'' @ ''1'', sample_head 1)],
     from_slice_trace = sample_slice [], from_slice_scenario = sample_slice [],
     from_slice_causal = sample_slice [(''cf'', sample_artifact1)],
     from_slice_counterexample = sample_slice [], from_slice_formal = sample_slice [],
     from_slice_certificate = sample_slice [],
     from_slice_dependency = sample_slice [(''da'', sample_artifact2)],
     bundle_authority = \<lambda>_ _ _. Inr (dg CHR ''b'')\<rparr>"

definition sample_engine :: knowledge_engine where
  "sample_engine = \<lparr>private_root = sample_root, authority_instance = ''instance'',
     authority_root = dg CHR ''6'',
     policy = \<lparr>kp_digest = dg CHR ''7'', kp_max_attempts_per_obligation = 3\<rparr>\<rparr>"

definition sample_store :: store where
  "sample_store = map_of [
     (sample_path ''states'' (dg CHR ''0''), ''s0''), (sample_path ''states'' (dg CHR ''1''), ''s1''),
     (sample_path ''action_receipts'' (dg CHR ''3''), ''r3''), (sample_path ''action_receipts'' (dg CHR ''4''), ''r4''),
     (sample_path ''evidence'' (dg CHR ''5''), ''e5''), (sample_path ''evidence'' (dg CHR ''6''), ''e6''),
     (sample_file ''artifact1'', ''cf''), (sample_file ''artifact2'', ''da''), (sample_file ''impl'', ''i7'')]"

end
