(* ===== verification/Sample_Run.thy ===== *)
theory Sample_Run
  imports Sample_Inquiry
begin

text \<open>
  The sample inquiry run by the model: the genesis state, the two receipts, the two advances and
  the canonical head are what the operations compute on the store of \<open>Sample_Inquiry\<close>.
\<close>

lemma sample_externals_simps [simp]:
  "sha (sample_externals n) = sample_sha" "to_vec (sample_externals n) = sample_encode n"
  "bundle_authority (sample_externals n) = (\<lambda>_ _ _. Inr (dg CHR ''b''))"
  "from_slice_causal (sample_externals n) bs = sample_slice [(''cf'', sample_artifact1)] bs"
  "from_slice_dependency (sample_externals n) bs = sample_slice [(''da'', sample_artifact2)] bs"
  "from_slice_receipt (sample_externals n) bs = sample_slice [(''r3'', sample_receipt1), (''r4'', sample_receipt2)] bs"
  "from_slice_state (sample_externals n) bs = sample_slice [(''s0'', sample_s0), (''s1'', sample_s1), (''s2'', sample_s2)] bs"
  "from_slice_record (sample_externals n) bs = sample_slice [
       (''e5'', sample_record CHR ''5'' CHR ''b'' CausalComparison ''artifact1'' CHR ''f''),
       (''e6'', sample_record CHR ''6'' CHR ''c'' DependencyGraph ''artifact2'' CHR ''a'')] bs"
  by (simp_all add: sample_externals_def)

lemma sample_engine_simps [simp]:
  "private_root sample_engine = sample_root" "authority_instance sample_engine = ''instance''"
  "authority_root sample_engine = dg CHR ''6''" "kp_digest (policy sample_engine) = dg CHR ''7''"
  "kp_max_attempts_per_obligation (policy sample_engine) = 3"
  "semantic_path sample_engine cls d = sample_path cls d"
  by (simp_all add: sample_engine_def semantic_path_def sample_path_def)

lemma sample_ref_simps [simp]:
  "ref_path (sample_ref cls c) = sample_path cls (dg c)" "ref_sha256 (sample_ref cls c) = dg c"
  by (simp_all add: sample_ref_def)

lemma sample_encode_not_Nil: "sample_encode n p \<noteq> []"
  by (cases p) (auto simp: revision_digit_def)

lemma sample_computed [simp]: "computed (sample_externals n) d p = sample_sha (sample_encode n p)"
  by (simp add: computed_def digest_domain_def sample_sha_append sample_encode_not_Nil)

lemma sample_sha_eval [simp]:
  "sample_sha ''s0'' = dg CHR ''0''" "sample_sha ''s1'' = dg CHR ''1''" "sample_sha ''s2'' = dg CHR ''2''"
  "sample_sha ''r3'' = dg CHR ''3''" "sample_sha ''r4'' = dg CHR ''4''" "sample_sha ''e5'' = dg CHR ''5''"
  "sample_sha ''e6'' = dg CHR ''6''" "sample_sha ''5'' = dg CHR ''5''" "sample_sha ''6'' = dg CHR ''6''"
  "sample_sha ''7'' = dg CHR ''7''" "sample_sha ''i7'' = dg CHR ''7''" "sample_sha ''8'' = dg CHR ''8''"
  "sample_sha ''9'' = dg CHR ''9''" "sample_sha ''a'' = dg CHR ''a''" "sample_sha ''b'' = dg CHR ''b''"
  "sample_sha ''c'' = dg CHR ''c''" "sample_sha ''d'' = dg CHR ''d''" "sample_sha ''e'' = dg CHR ''e''"
  "sample_sha ''cf'' = dg CHR ''f''" "sample_sha ''da'' = dg CHR ''a''" "sample_sha ''t1'' = dg CHR ''1''"
  "sample_sha ''t2'' = dg CHR ''2''" "sample_sha ''0'' = dg CHR ''0''" "sample_sha ''1'' = dg CHR ''1''"
  "sample_sha ''2'' = dg CHR ''2''"
  by (simp_all add: sample_sha_def)

lemma sample_store_eval [simp]:
  "sample_store (sample_path ''states'' (dg CHR ''0'')) = Some ''s0''"
  "sample_store (sample_path ''states'' (dg CHR ''1'')) = Some ''s1''"
  "sample_store (sample_path ''action_receipts'' (dg CHR ''3'')) = Some ''r3''"
  "sample_store (sample_path ''action_receipts'' (dg CHR ''4'')) = Some ''r4''"
  "sample_store (sample_path ''evidence'' (dg CHR ''5'')) = Some ''e5''"
  "sample_store (sample_path ''evidence'' (dg CHR ''6'')) = Some ''e6''"
  "sample_store (sample_file ''artifact1'') = Some ''cf''"
  "sample_store (sample_file ''artifact2'') = Some ''da''"
  "sample_store (sample_file ''impl'') = Some ''i7''"
  by (simp_all add: sample_store_def)

lemma sample_dependency_predicate [simp]:
  "dependency_closure_predicate (sample_externals n) root = Inr sample_q"
proof -
  have "local_id_parse ''observation_key_invalid'' sample_key = Inr sample_key"
    by (simp add: local_id_parse_eq_Inr sample_key_def dg_def MAX_IDENTIFIER_BYTES_def is_raw_sha256_def
        starts_with_def ends_with_def has_empty_segment_def is_local_id_char_code HEX_LEN_def numeral_eq_Suc)
  then show ?thesis
    by (simp add: dependency_closure_predicate_def digest_domain_def sample_sha_append sample_key_def sample_q_def Let_def)
qed

lemma sample_key_neq [simp]: "sample_key \<noteq> ''w''" "''w'' \<noteq> sample_key" "sample_key < ''w''" "\<not> ''w'' < sample_key"
  "sample_key \<noteq> ''k''" "''k'' \<noteq> sample_key" "sample_key < ''k''" "\<not> ''k'' < sample_key"
  by (simp_all add: sample_key_def less_char_def)

lemmas bound_defs = HARD_MAX_CLAIMS_def HARD_MAX_OBLIGATIONS_def HARD_MAX_HYPOTHESES_def HARD_MAX_ACTIONS_def
  HARD_MAX_TOTAL_COST_def HARD_MAX_REVISION_def HARD_MAX_DEPENDENCY_NODES_def HARD_MAX_DEPENDENCY_EDGES_def
  HARD_MAX_DEPENDENCY_EDGES_PER_ACTION_def HARD_MAX_DEPENDENCY_DEPTH_def HARD_MAX_EVIDENCE_RECORDS_def
  HARD_MAX_OBSERVATIONS_PER_ACTION_def HARD_MAX_SCENARIO_INPUTS_def HARD_MAX_TRACE_EVENTS_def
  HARD_MAX_COUNTEREXAMPLE_CASES_def HARD_MAX_DISCOVERIES_PER_ACTION_def MAX_STATE_BYTES_def
  MAX_ACTION_RECEIPT_BYTES_def MAX_EVIDENCE_RECORD_BYTES_def MAX_EVIDENCE_ARTIFACT_BYTES_def
  MAX_EXECUTOR_IMPLEMENTATION_BYTES_def CANONICAL_HEAD_POINTER_MAX_BYTES_def

lemma sample_budget [simp]:
  "budget_validate conservative_default = Inr ()" "max_actions conservative_default = 512"
  "max_total_cost conservative_default = 16384" "max_revision conservative_default = 512"
  "max_dependency_nodes conservative_default = 512" "max_dependency_edges conservative_default = 2048"
  "max_dependency_depth conservative_default = 16" "max_evidence_records conservative_default = 2048"
  "max_observations_per_action conservative_default = 256"
  by (simp_all add: conservative_default_valid) (simp_all add: conservative_default_def)

lemmas container_defs = bm_values_def bm_keys_def bm_push_def bs_of_def

lemmas sample_defs = sample_claim_def sample_obligation_def sample_hypothesis_def

lemma sample_bounds:
  "validate_state_bounds sample_s0 = Inr ()" "validate_state_bounds sample_s1 = Inr ()"
  "validate_state_bounds sample_s2 = Inr ()"
  by (simp_all add: validate_state_bounds_def sample_s0_def sample_s1_def sample_s2_def bound_defs
      dependency_edge_count_def container_defs checked_add_def)


lemma sample_graph:
  "validate_dependency_index sample_s0 = Inr ()" "validate_dependency_index sample_s1 = Inr ()"
  "validate_dependency_index sample_s2 = Inr ()"
  by (simp_all add: validate_dependency_index_def sample_s0_def sample_s1_def sample_s2_def container_defs
      dependency_graph_is_acyclic_def count_target_def release_target_def checked_add_def checked_sub_def Let_def)

text \<open>Evaluation order of the code: the first step of a sequence before the rest.\<close>

lemma rbind_first: "m = m' \<Longrightarrow> rbind m f = rbind m' f"
  by simp

lemmas state_eval = sample_defs container_defs validate_state_claim_def record_predicate_type_def
  validate_state_obligation_def validate_criterion_plan_binding_def dependency_plan_indexed_def
  validate_state_claim_reduced_def derive_claim_assessment_def assess_step_def bs_extend_def
  validate_state_hypothesis_def validate_state_prediction_def sample_causal_def sample_expansion_def
  sample_predictions_def sample_p_def sample_rival_def sample_q_def sample_f_def sample_formal_def less_char_def

lemma sample_contents0: "validate_state_contents (sample_externals n) sample_s0 = Inr ()"
  unfolding validate_state_contents_def sample_graph
  by (simp add: sample_s0_def state_eval validate_dependency_parent_def cong: rbind_first del: rbind_eq_Inr)

lemma sample_contents1: "validate_state_contents (sample_externals n) sample_s1 = Inr ()"
  unfolding validate_state_contents_def sample_graph
  by (simp add: sample_s0_def sample_s1_def state_eval validate_dependency_parent_def cong: rbind_first del: rbind_eq_Inr)

lemma sample_contents2: "validate_state_contents (sample_externals n) sample_s2 = Inr ()"
  unfolding validate_state_contents_def sample_graph
  by (simp add: sample_s0_def sample_s1_def sample_s2_def state_eval validate_dependency_parent_def
      saturating_add_def cong: rbind_first del: rbind_eq_Inr)

lemma sample_authenticate_bundle [simp]:
  "authenticate_bundle (sample_externals n) sample_engine r fs = Inr (dg CHR ''b'')"
  by (simp add: authenticate_bundle_def)

lemmas seal_eval = calculate_state_digest_def unsealed_state_def calculate_receipt_digest_def unsealed_receipt_def
  calculate_record_digest_def unsealed_record_def calculate_transition_digest_def unsealed_transition_def
  calculate_head_digest_def unsealed_head_def revision_digit_def

lemma sample_validate0: "validate_state (sample_externals n) sample_engine sample_s0 fs = Inr ()"
  unfolding validate_state_def sample_contents0 sample_bounds
  by (simp add: sample_s0_def validate_state_header_def validate_state_accounting_def validate_state_origin_def
      validate_state_parent_def seal_eval container_defs sample_defs cong: rbind_first del: rbind_eq_Inr)

text \<open>The objects a state's validation reads, in any store that holds them.\<close>

definition holds :: "store \<Rightarrow> bool" where
  "holds fs \<longleftrightarrow> (\<forall>p b. sample_store p = Some b \<longrightarrow> fs p = Some b)"

lemma holds_sample_store [simp]: "holds sample_store"
  by (simp add: holds_def)

lemma holds_eval [simp]:
  assumes "holds fs"
  shows "fs (sample_path ''states'' (dg CHR ''0'')) = Some ''s0''"
    "fs (sample_path ''states'' (dg CHR ''1'')) = Some ''s1''"
    "fs (sample_path ''action_receipts'' (dg CHR ''3'')) = Some ''r3''"
    "fs (sample_path ''action_receipts'' (dg CHR ''4'')) = Some ''r4''"
    "fs (sample_path ''evidence'' (dg CHR ''5'')) = Some ''e5''"
    "fs (sample_path ''evidence'' (dg CHR ''6'')) = Some ''e6''"
    "fs (sample_file ''artifact1'') = Some ''cf''"
    "fs (sample_file ''artifact2'') = Some ''da''"
    "fs (sample_file ''impl'') = Some ''i7''"
  using assms by (simp_all add: holds_def)

lemmas read_eval = bound_defs sample_slice_def

lemma sample_validate1:
  assumes "holds fs" shows "validate_state (sample_externals n) sample_engine sample_s1 fs = Inr ()"
  unfolding validate_state_def sample_contents1 sample_bounds
  using assms
  by (simp add: sample_s0_def sample_s1_def validate_state_header_def validate_state_accounting_def validate_state_origin_def
      validate_state_parent_def seal_eval container_defs sample_defs read_eval sample_receipt1_def saturating_add_def
      checked_add_def cong: rbind_first del: rbind_eq_Inr)

lemma sample_validate2:
  assumes "holds fs" shows "validate_state (sample_externals n) sample_engine sample_s2 fs = Inr ()"
  unfolding validate_state_def sample_contents2 sample_bounds
  using assms
  by (simp add: sample_s0_def sample_s1_def sample_s2_def validate_state_header_def validate_state_accounting_def validate_state_origin_def
      validate_state_parent_def seal_eval container_defs sample_defs read_eval sample_receipt2_def saturating_add_def
      checked_add_def cong: rbind_first del: rbind_eq_Inr)

lemma sample_initialize:
  "initialize (sample_externals n) sample_engine ''q'' (ks_capability_bundle_reference sample_s0) sample_draft fs = Inr sample_s0"
proof -
  have c: "validate_contract (sample_externals n) sample_draft = Inr ()"
    by (simp add: validate_contract_def sample_draft_def bound_defs contract_claims_def contract_obligation_def
        contract_claims_covered_def contract_hypothesis_def contract_prediction_def state_eval
        cong: rbind_first del: rbind_eq_Inr)
  have "calculate_state_digest (sample_externals n) s = dg CHR ''0''" if "ks_revision s = 0" for s
    using that by (simp add: seal_eval)
  then show ?thesis using sample_validate0
    by (simp add: initialize_def c cong: rbind_first del: rbind_eq_Inr)
      (simp add: sample_draft_def sample_s0_def initialize_claim_def initialize_obligation_def initialize_hypothesis_def
        index_dependency_root_def Let_def state_eval cong: rbind_first del: rbind_eq_Inr)
qed

section \<open>Planning\<close>

lemmas plan_eval = derive_terminal_def derive_blockers_def obligation_blockers_def conflict_blocker_def
  all_satisfied_def open_expansion_def dependency_edge_count_def open_obligations_def affordable_def
  hypothesis_families_resolved_def group_by_def materialize_invocation_def saturating_add_def checked_add_def

lemma sample_plan0:
  "plan (sample_externals n) sample_engine sample_s0 fs = Inr (PlanInvoke sample_invocation1)"
  unfolding plan_def sample_validate0
  by (simp add: sample_s0_def plan_eval state_eval sample_invocation1_def sample_binding_def Let_def
      cong: rbind_first del: rbind_eq_Inr)

lemma sample_plan1:
  assumes "holds fs"
  shows "plan (sample_externals n) sample_engine sample_s1 fs = Inr (PlanInvoke sample_invocation2)"
  unfolding plan_def sample_validate1[OF assms]
  by (simp add: sample_s0_def sample_s1_def plan_eval state_eval sample_invocation2_def sample_binding_def Let_def
      cong: rbind_first del: rbind_eq_Inr)

section \<open>Receipts\<close>

lemma sample_executor_authentic:
  assumes "holds fs"
  shows "authenticate_executor (sample_externals n) sample_engine
     \<lparr>id_executor_id = att_executor_id sample_executor, id_interface_version = att_interface_version sample_executor,
      id_implementation = att_implementation sample_executor\<rparr> fs = Inr sample_executor"
  using assms by (simp add: authenticate_executor_def sample_executor_def bound_defs
      calculate_executor_version_digest_def cong: rbind_first del: rbind_eq_Inr)

lemmas binding_eval = evidence_authority_binding_validate_def engine_context_def sample_authority_def
  sample_binding_def invocation_digest_def sample_executor_def decode_canonical_defs decode_canonical_as_def
  read_single_evidence_def validate_exact_observation_keys_def validate_predicate_observation_types_def
  required_observations_def evaluate_def canonical_completed_def

lemma sample_rederive1:
  assumes "holds fs"
  shows "rederive (sample_externals n) sample_engine sample_invocation1 sample_executor
      (Completed [(''k'', ObsBool True)] [] [])
      [\<lparr>input_kind = CausalComparison, input_artifact = \<lparr>ref_path = sample_file ''artifact1'', ref_sha256 = dg CHR ''f''\<rparr>\<rparr>]
      code fs = Inr ()"
  using assms
  by (simp add: rederive_def derive_verified_outcome_def derive_completed_def derive_causal_def binding_eval
      sample_invocation1_def sample_artifact1_def read_eval state_eval Let_def cong: rbind_first del: rbind_eq_Inr)

lemma sample_rederive2:
  assumes "holds fs"
  shows "rederive (sample_externals n) sample_engine sample_invocation2 sample_executor
      (Completed [(sample_key, ObsBool True)] [DependencyEdge ''m'' ''n''] [])
      [\<lparr>input_kind = DependencyGraph, input_artifact = \<lparr>ref_path = sample_file ''artifact2'', ref_sha256 = dg CHR ''a''\<rparr>\<rparr>]
      code fs = Inr ()"
  using assms
  by (simp add: rederive_def derive_verified_outcome_def derive_completed_def derive_dependency_graph_def binding_eval
      sample_invocation2_def sample_artifact2_def canonical_dependency_closure_observations_def
      read_eval state_eval Let_def cong: rbind_first del: rbind_eq_Inr)

lemma sample_evidence1:
  assumes "holds fs"
  shows "receipt_evidence (sample_externals n) sample_engine sample_s0 sample_receipt1 (dg CHR ''9'') [CausalComparison]
      (rc_evidence sample_receipt1) [] [] [] fs
    = Inr ([CausalComparison], [\<lparr>input_kind = CausalComparison,
        input_artifact = \<lparr>ref_path = sample_file ''artifact1'', ref_sha256 = dg CHR ''f''\<rparr>\<rparr>])"
  using assms
  by (simp add: sample_receipt1_def sample_reference_def sample_s0_def authenticate_evidence_record_def read_eval
      sample_record_def sample_executor_def seal_eval cong: rbind_first del: rbind_eq_Inr)

lemma sample_evidence2:
  assumes "holds fs"
  shows "receipt_evidence (sample_externals n) sample_engine sample_s1 sample_receipt2 (dg CHR ''9'') [DependencyGraph]
      (rc_evidence sample_receipt2) [] [] [] fs
    = Inr ([DependencyGraph], [\<lparr>input_kind = DependencyGraph,
        input_artifact = \<lparr>ref_path = sample_file ''artifact2'', ref_sha256 = dg CHR ''a''\<rparr>\<rparr>])"
  using assms
  by (simp add: sample_receipt2_def sample_reference_def sample_s1_def authenticate_evidence_record_def read_eval
      sample_record_def sample_executor_def seal_eval cong: rbind_first del: rbind_eq_Inr)

lemma sample_shape1:
  "validate_outcome_shape (sample_externals n) sample_s0 sample_invocation1 (Completed [(''k'', ObsBool True)] [] []) = Inr ()"
  by (simp add: validate_outcome_shape_def completed_shape_invalid_def sample_s0_def sample_invocation1_def
      sample_binding_def required_observations_def observation_schema_from_state_def dependency_edge_count_def
      saturating_add_def checked_add_def bound_defs state_eval cong: rbind_first del: rbind_eq_Inr)

lemma sample_shape2:
  "validate_outcome_shape (sample_externals n) sample_s1 sample_invocation2
     (Completed [(sample_key, ObsBool True)] [DependencyEdge ''m'' ''n''] []) = Inr ()"
  by (simp add: validate_outcome_shape_def completed_shape_invalid_def sample_s0_def sample_s1_def sample_invocation2_def
      sample_binding_def required_observations_def observation_schema_from_state_def dependency_edge_count_def
      saturating_add_def checked_add_def bound_defs state_eval cong: rbind_first del: rbind_eq_Inr)

lemma sample_receipt_fields [simp]:
  "rc_invocation sample_receipt1 = sample_invocation1" "rc_executor sample_receipt1 = sample_executor"
  "rc_outcome sample_receipt1 = Completed [(''k'', ObsBool True)] [] []"
  "rc_invocation sample_receipt2 = sample_invocation2" "rc_executor sample_receipt2 = sample_executor"
  "rc_outcome sample_receipt2 = Completed [(sample_key, ObsBool True)] [DependencyEdge ''m'' ''n''] []"
  "rc_manifest_digest sample_receipt1 = dg CHR ''3''" "rc_manifest_digest sample_receipt2 = dg CHR ''4''"
  "rc_charged_cost sample_receipt1 = 5" "rc_charged_cost sample_receipt2 = 3"
  "rc_evidence sample_receipt1 = [(dg CHR ''5'', sample_reference CHR ''5'' CausalComparison CHR ''f'')]"
  "rc_evidence sample_receipt2 = [(dg CHR ''6'', sample_reference CHR ''6'' DependencyGraph CHR ''a'')]"
  "invocation_cost sample_invocation1 = 5" "invocation_cost sample_invocation2 = 3"
  "ib_action_id (binding sample_invocation1) = dg CHR ''d''" "ib_action_id (binding sample_invocation2) = dg CHR ''e''"
  "rc_action_id sample_receipt1 = dg CHR ''d''" "rc_action_id sample_receipt2 = dg CHR ''e''"
  "rc_schema sample_receipt1 = SchemaV1" "rc_schema sample_receipt2 = SchemaV1"
  "rc_authority_root sample_receipt1 = dg CHR ''6''" "rc_authority_root sample_receipt2 = dg CHR ''6''"
  "rc_inquiry_id sample_receipt1 = ''q''" "rc_inquiry_id sample_receipt2 = ''q''"
  "rc_capability_bundle sample_receipt1 = dg CHR ''b''" "rc_capability_bundle sample_receipt2 = dg CHR ''b''"
  "rc_parent_state sample_receipt1 = dg CHR ''0''" "rc_parent_state sample_receipt2 = dg CHR ''1''"
  "rc_invocation_digest sample_receipt1 = dg CHR ''b''" "rc_invocation_digest sample_receipt2 = dg CHR ''c''"
  "ib_obligation_id (binding sample_invocation1) = ''a''" "ib_obligation_id (binding sample_invocation2) = ''b''"
  by (simp_all add: sample_receipt1_def sample_receipt2_def sample_invocation1_def sample_invocation2_def sample_binding_def)

lemma sample_state_fields [simp]:
  "ks_inquiry_id sample_s0 = ''q''" "ks_inquiry_id sample_s1 = ''q''" "ks_inquiry_id sample_s2 = ''q''"
  "ks_capability_bundle sample_s0 = dg CHR ''b''" "ks_capability_bundle sample_s1 = dg CHR ''b''"
  "ks_manifest_digest sample_s0 = dg CHR ''0''" "ks_manifest_digest sample_s1 = dg CHR ''1''"
  "ks_manifest_digest sample_s2 = dg CHR ''2''"
  "ks_applied_receipts sample_s0 = []" "ks_applied_receipts sample_s1 = [dg CHR ''3'']"
  "ks_used_evidence_artifacts sample_s0 = []" "ks_used_evidence_artifacts sample_s1 = [dg CHR ''f'']"
  "ks_revision sample_s0 = 0" "ks_revision sample_s1 = 1" "ks_revision sample_s2 = 2"
  "ks_budget sample_s0 = conservative_default" "ks_budget sample_s1 = conservative_default"
  "ks_usage sample_s0 = \<lparr>used_actions = 0, used_total_cost = 0, used_evidence_records = 0\<rparr>"
  "ks_usage sample_s1 = \<lparr>used_actions = 1, used_total_cost = 5, used_evidence_records = 1\<rparr>"
  by (simp_all add: sample_s0_def sample_s1_def sample_s2_def)

lemma sample_receipt1_valid:
  assumes "holds fs"
  shows "validate_action_receipt (sample_externals n) sample_engine sample_s0 sample_receipt1 fs = Inr ()"
proof -
  have k: "required_evidence_kinds sample_invocation1 out = [CausalComparison]" for out
    by (simp add: required_evidence_kinds_def sample_invocation1_def)
  have d: "outcome_digest_of (sample_externals n) out = dg CHR ''9''" for out by (simp add: outcome_digest_of_def)
  show ?thesis
    using sample_evidence1[OF assms]
    by (simp add: validate_action_receipt_def sample_plan0 sample_shape1 sample_executor_authentic[OF assms] k d
        sample_rederive1[OF assms] seal_eval invocation_digest_def saturating_add_def Let_def
        cong: rbind_first del: rbind_eq_Inr receipt_evidence.simps)
qed

lemma sample_receipt2_valid:
  assumes "holds fs"
  shows "validate_action_receipt (sample_externals n) sample_engine sample_s1 sample_receipt2 fs = Inr ()"
proof -
  have k: "required_evidence_kinds sample_invocation2 out = [DependencyGraph]" for out
    by (simp add: required_evidence_kinds_def sample_invocation2_def)
  have d: "outcome_digest_of (sample_externals n) out = dg CHR ''9''" for out by (simp add: outcome_digest_of_def)
  show ?thesis
    using sample_evidence2[OF assms]
    by (simp add: validate_action_receipt_def sample_plan1[OF assms] sample_shape2 sample_executor_authentic[OF assms] k d
        sample_rederive2[OF assms] seal_eval invocation_digest_def saturating_add_def Let_def
        cong: rbind_first del: rbind_eq_Inr receipt_evidence.simps)
qed

section \<open>Advances\<close>

definition sample_transition :: "nat \<Rightarrow> knowledge_state \<Rightarrow> action_receipt \<Rightarrow> knowledge_state \<Rightarrow> transition_changes \<Rightarrow> transition_receipt" where
  "sample_transition n s r s' changes = seal_transition (sample_externals n) sample_engine s r s' changes None"

definition sample_changes1 :: transition_changes where
  "sample_changes1 = \<lparr>satisfied_obligations = [''a''], blocked_obligations = [], established_claims = [''c1''],
     contradicted_claims = [], supported_hypotheses = [''h1''], refuted_hypotheses = [''h2''],
     added_claims = [], added_obligations = []\<rparr>"

definition sample_changes2 :: transition_changes where
  "sample_changes2 = \<lparr>satisfied_obligations = [''b''], blocked_obligations = [], established_claims = [''c2''],
     contradicted_claims = [], supported_hypotheses = [], refuted_hypotheses = [],
     added_claims = [''discovered-claim-'' @ dg CHR ''d''], added_obligations = [''discovered-obligation-'' @ dg CHR ''d'']\<rparr>"

definition sample_advance1 :: "nat \<Rightarrow> knowledge_advance" where
  "sample_advance1 n = \<lparr>adv_state = sample_s1,
     adv_transition = sample_transition n sample_s0 sample_receipt1 sample_s1 sample_changes1\<rparr>"

definition sample_advance2 :: "nat \<Rightarrow> knowledge_advance" where
  "sample_advance2 n = \<lparr>adv_state = sample_s2,
     adv_transition = sample_transition n sample_s1 sample_receipt2 sample_s2 sample_changes2\<rparr>"

definition sample_acc1 :: knowledge_state where
  "sample_acc1 = sample_s0\<lparr>ks_parent_digest := ks_parent_digest sample_s1, ks_parent_reference := ks_parent_reference sample_s1,
     ks_last_action_receipt_reference := ks_last_action_receipt_reference sample_s1, ks_revision := 1,
     ks_usage := ks_usage sample_s1, ks_applied_receipts := ks_applied_receipts sample_s1,
     ks_used_evidence_artifacts := ks_used_evidence_artifacts sample_s1\<rparr>"

lemmas account_eval = account_receipt_def state_reference_def action_receipt_reference_def digest_bytes_def
  seal_eval checked_add_def sample_ref_def sample_reference_def container_defs

lemma sample_account1:
  "account_receipt (sample_externals n) sample_engine sample_s0 sample_receipt1 = Inr sample_acc1"
  by (simp add: account_eval sample_acc1_def sample_s1_def cong: rbind_first del: rbind_eq_Inr)

lemma sample_predictions1:
  "reduce_predictions sample_receipt1 (ks_hypotheses sample_s0) = Inr (ks_hypotheses sample_s1)"
  by (simp add: reduce_predictions_def reduce_prediction_def sample_invocation1_def sample_s0_def sample_s1_def
      state_eval evaluate_def cong: rbind_first del: rbind_eq_Inr)

lemma sample_obligation1:
  "reduce_obligation sample_receipt1 (ks_obligations sample_s0) = Inr (ks_obligations sample_s1)"
  by (simp add: reduce_obligation_def reduced_obligation_state_def sample_s0_def sample_s1_def Let_def
      sample_defs evaluate_def checked_add_def cong: rbind_first del: rbind_eq_Inr)
    (simp add: sample_invocation1_def sample_binding_def sample_p_def)

lemma sample_outcome1:
  "reduce_outcome (sample_externals n) sample_receipt1 s = Inr (s, no_changes)"
  by (simp add: reduce_outcome_def) (simp add: sample_invocation1_def)

lemma sample_state1:
  "sample_s1 = (sample_acc1\<lparr>ks_hypotheses := ks_hypotheses sample_s1, ks_obligations := ks_obligations sample_s1\<rparr>)
     \<lparr>ks_claims := ks_claims sample_s1, ks_manifest_digest := dg CHR ''1''\<rparr>"
  by (simp add: sample_acc1_def sample_s1_def)

lemma sample_claims1:
  "recompute_claim_assessments (ks_claims sample_s0) (ks_obligations sample_s1) = Inr (ks_claims sample_s1)"
  by (simp add: recompute_claim_assessments_def sample_s0_def sample_s1_def state_eval Let_def cong: rbind_first del: rbind_eq_Inr)

lemma sample_acc1_fields:
  "ks_claims sample_acc1 = ks_claims sample_s0" "ks_obligations sample_acc1 = ks_obligations sample_s0"
  "ks_hypotheses sample_acc1 = ks_hypotheses sample_s0" "ks_revision sample_acc1 = 1"
  by (simp_all add: sample_acc1_def)

lemma sample_recorded1:
  assumes "ks_claims s = ks_claims sample_s1" "ks_obligations s = ks_obligations sample_s1" "ks_hypotheses s = ks_hypotheses sample_s1"
  shows "record_transition_changes s (map (\<lambda>(i, c). (i, claim_assessment c)) (ks_claims sample_s0))
     (map (\<lambda>(i, ob). (i, obligation_state ob)) (ks_obligations sample_s0))
     (map (\<lambda>(i, h). (i, hypothesis_assessment h)) (ks_hypotheses sample_s0)) no_changes = sample_changes1"
  unfolding record_transition_changes_def assms
  by (simp add: sample_s0_def sample_s1_def sample_defs sample_changes1_def no_changes_def bs_of_def)

lemma sample_digest:
  "calculate_state_digest (sample_externals n) s = sample_sha (CHR ''s'' # revision_digit (ks_revision s))"
  by (simp add: seal_eval)

lemma sample_reduce1:
  "reduce_state (sample_externals n) sample_engine sample_s0 sample_receipt1 = Inr (sample_s1, sample_changes1)"
proof -
  have "reduce_state (sample_externals n) sample_engine sample_s0 sample_receipt1
    = Inr ((sample_acc1\<lparr>ks_hypotheses := ks_hypotheses sample_s1, ks_obligations := ks_obligations sample_s1\<rparr>)
        \<lparr>ks_claims := ks_claims sample_s1, ks_manifest_digest := dg CHR ''1''\<rparr>, sample_changes1)"
    unfolding reduce_state_def sample_account1 rbind_simps sample_acc1_fields sample_predictions1 sample_obligation1 Let_def
      sample_outcome1 prod.case
    by (simp add: sample_claims1 sample_recorded1 sample_acc1_fields sample_digest revision_digit_def del: rbind_eq_Inr)
  then show ?thesis by (simp only: sample_state1[symmetric])
qed

definition sample_acc2 :: knowledge_state where
  "sample_acc2 = sample_s1\<lparr>ks_parent_digest := ks_parent_digest sample_s2, ks_parent_reference := ks_parent_reference sample_s2,
     ks_last_action_receipt_reference := ks_last_action_receipt_reference sample_s2, ks_revision := 2,
     ks_usage := ks_usage sample_s2, ks_applied_receipts := ks_applied_receipts sample_s2,
     ks_used_evidence_artifacts := ks_used_evidence_artifacts sample_s2\<rparr>"

definition sample_obligations2 :: "(string, knowledge_obligation) bmap" where
  "sample_obligations2 = [ks_obligations sample_s2 ! 0, ks_obligations sample_s2 ! 1, ks_obligations sample_s2 ! 3]"

lemma sample_account2:
  "account_receipt (sample_externals n) sample_engine sample_s1 sample_receipt2 = Inr sample_acc2"
  by (simp add: account_eval sample_acc2_def sample_s2_def less_char_def cong: rbind_first del: rbind_eq_Inr)

lemma sample_obligation2:
  "reduce_obligation sample_receipt2 (ks_obligations sample_s1) = Inr sample_obligations2"
  by (simp add: reduce_obligation_def reduced_obligation_state_def sample_s1_def sample_s2_def sample_obligations2_def Let_def
      sample_defs evaluate_def checked_add_def cong: rbind_first del: rbind_eq_Inr)
    (simp add: sample_invocation2_def sample_binding_def sample_q_def)

lemma sample_acc2_fields:
  "ks_claims sample_acc2 = ks_claims sample_s1" "ks_obligations sample_acc2 = ks_obligations sample_s1"
  "ks_hypotheses sample_acc2 = ks_hypotheses sample_s1" "ks_revision sample_acc2 = 2"
  by (simp_all add: sample_acc2_def)

definition sample_mid2 :: knowledge_state where
  "sample_mid2 = sample_acc2\<lparr>
     ks_claims := ks_claims sample_s1 @ [sample_claim (''discovered-claim-'' @ dg CHR ''d'') DependencyClosure sample_q Unresolved],
     ks_obligations := ks_obligations sample_s2, ks_dependency_parents := ks_dependency_parents sample_s2,
     ks_dependency_depths := ks_dependency_depths sample_s2, ks_dependency_graph := ks_dependency_graph sample_s2\<rparr>"

definition sample_added :: transition_changes where
  "sample_added = no_changes\<lparr>added_claims := [''discovered-claim-'' @ dg CHR ''d''],
     added_obligations := [''discovered-obligation-'' @ dg CHR ''d'']\<rparr>"

lemma sample_edge2:
  assumes "de_root v = ''m''" "de_max_depth v = 2"
  shows "expand_edge (sample_externals n) v 0 r (DependencyEdge ''m'' ''n'')
      (sample_acc2\<lparr>ks_obligations := sample_obligations2\<rparr>, no_changes)
    = Inr (sample_mid2, sample_added)"
  using assms
  by (simp add: expand_edge_def add_dependency_def link_dependency_def dependency_graph_reachable_def
      sample_acc2_def sample_s0_def sample_s1_def sample_s2_def sample_mid2_def sample_obligations2_def sample_defs
      derived_discovery_claim_def derived_discovery_obligation_def digest_domain_def sample_sha_append checked_add_def
      sample_added_def no_changes_def less_char_def Let_def cong: rbind_first del: rbind_eq_Inr)

lemma sample_outcome2:
  "reduce_outcome (sample_externals n) sample_receipt2 (sample_acc2\<lparr>ks_obligations := sample_obligations2\<rparr>)
    = Inr (sample_mid2, sample_added)"
  unfolding reduce_outcome_def
  by (simp add: sample_invocation2_def reduce_dependency_expansion_def sample_edge2 del: rbind_eq_Inr)
    (simp add: sample_acc2_def sample_s1_def sample_s0_def sample_edge2[unfolded sample_acc2_def sample_s1_def sample_s0_def, simplified])

lemma sample_claims2:
  "recompute_claim_assessments (ks_claims sample_mid2) (ks_obligations sample_s2) = Inr (ks_claims sample_s2)"
  by (simp add: recompute_claim_assessments_def sample_mid2_def sample_s1_def sample_s2_def state_eval Let_def cong: rbind_first del: rbind_eq_Inr)

lemma sample_mid2_fields:
  "ks_obligations sample_mid2 = ks_obligations sample_s2" "ks_hypotheses sample_mid2 = ks_hypotheses sample_s2"
  "ks_revision sample_mid2 = 2"
  by (simp_all add: sample_mid2_def sample_acc2_def sample_s2_def)

lemma sample_recorded2:
  assumes "ks_claims s = ks_claims sample_s2" "ks_obligations s = ks_obligations sample_s2" "ks_hypotheses s = ks_hypotheses sample_s2"
  shows "record_transition_changes s (map (\<lambda>(i, c). (i, claim_assessment c)) (ks_claims sample_s1))
     (map (\<lambda>(i, ob). (i, obligation_state ob)) (ks_obligations sample_s1))
     (map (\<lambda>(i, h). (i, hypothesis_assessment h)) (ks_hypotheses sample_s1))
     sample_added = sample_changes2"
  unfolding record_transition_changes_def assms
  by (simp add: sample_s1_def sample_s2_def sample_defs sample_changes2_def sample_added_def no_changes_def bs_of_def)

lemma sample_state2:
  "sample_s2 = sample_mid2\<lparr>ks_claims := ks_claims sample_s2, ks_manifest_digest := dg CHR ''2''\<rparr>"
  by (simp add: sample_mid2_def sample_acc2_def sample_s2_def)

lemma sample_reduce2:
  "reduce_state (sample_externals n) sample_engine sample_s1 sample_receipt2 = Inr (sample_s2, sample_changes2)"
proof -
  have h: "reduce_predictions sample_receipt2 (ks_hypotheses sample_s1) = Inr (ks_hypotheses sample_s1)"
    by (simp add: reduce_predictions_def) (simp add: sample_invocation2_def)
  have "sample_acc2\<lparr>ks_hypotheses := ks_hypotheses sample_s1\<rparr> = sample_acc2"
    by (simp add: sample_acc2_def)
  then have m: "sample_acc2\<lparr>ks_hypotheses := ks_hypotheses sample_s1, ks_obligations := sample_obligations2\<rparr>
      = sample_acc2\<lparr>ks_obligations := sample_obligations2\<rparr>" by simp
  have "reduce_state (sample_externals n) sample_engine sample_s1 sample_receipt2
    = Inr (sample_mid2\<lparr>ks_claims := ks_claims sample_s2, ks_manifest_digest := dg CHR ''2''\<rparr>, sample_changes2)"
    unfolding reduce_state_def sample_account2 rbind_simps sample_acc2_fields h sample_obligation2 Let_def m
      sample_outcome2 prod.case
    by (simp add: sample_claims2 sample_recorded2 sample_mid2_fields sample_digest revision_digit_def del: rbind_eq_Inr)
  then show ?thesis by (simp only: sample_state2[symmetric])
qed

lemma sample_store_files:
  assumes "holds fs"
  shows "read_verified_bounded sample_sha sample_root (state_reference (sample_externals n) sample_engine sample_s0) MAX_STATE_BYTES fs = Inr ''s0''"
    "read_verified_bounded sample_sha sample_root (state_reference (sample_externals n) sample_engine sample_s1) MAX_STATE_BYTES fs = Inr ''s1''"
    "read_verified_bounded sample_sha sample_root (action_receipt_reference (sample_externals n) sample_engine sample_receipt1)
       MAX_ACTION_RECEIPT_BYTES fs = Inr ''r3''"
    "read_verified_bounded sample_sha sample_root (action_receipt_reference (sample_externals n) sample_engine sample_receipt2)
       MAX_ACTION_RECEIPT_BYTES fs = Inr ''r4''"
  using assms by (simp_all add: account_eval bound_defs)

lemma sample_derive_terminal:
  "derive_terminal sample_engine sample_s1 = Inr None" "derive_terminal sample_engine sample_s2 = Inr None"
  by (simp_all add: sample_s0_def sample_s1_def sample_s2_def plan_eval state_eval Let_def
      cong: rbind_first del: rbind_eq_Inr)

lemma sample_advance1:
  assumes "holds fs"
  shows "advance (sample_externals n) sample_engine sample_s0 sample_receipt1 fs = Inr (sample_advance1 n)"
  unfolding advance_def sample_validate0 sample_receipt1_valid[OF assms] rbind_simps sample_reduce1 prod.case
    sample_validate1[OF assms] sample_derive_terminal
  by (simp add: sample_store_files[OF assms] sample_advance1_def sample_transition_def revision_digit_def del: rbind_eq_Inr sample_read)

lemma sample_advance2:
  assumes "holds fs"
  shows "advance (sample_externals n) sample_engine sample_s1 sample_receipt2 fs = Inr (sample_advance2 n)"
  unfolding advance_def sample_validate1[OF assms] sample_receipt2_valid[OF assms] rbind_simps sample_reduce2 prod.case
    sample_validate2[OF assms] sample_derive_terminal
  by (simp add: sample_store_files[OF assms] sample_advance2_def sample_transition_def revision_digit_def del: rbind_eq_Inr sample_read)

lemma sample_containers [simp]: "state_containers_ok sample_s0" "state_containers_ok sample_s1" "state_containers_ok sample_s2"
  by (simp_all add: state_containers_ok_def sample_s0_def sample_s1_def sample_s2_def sample_defs container_defs bm_ok_Cons
      bs_ok_Cons sample_causal_def sample_expansion_def sample_formal_def sample_predictions_def less_char_def)

lemma sample_steps:
  "knowledge_step (sample_externals n) sample_engine sample_s0 sample_s1"
  "knowledge_step (sample_externals n) sample_engine sample_s1 sample_s2"
  using knowledge_step[OF sample_advance1[OF holds_sample_store]] knowledge_step[OF sample_advance2[OF holds_sample_store]]
  by (simp_all add: sample_advance1_def sample_advance2_def)

end
