(* ===== verification/Sample_Heads.thy ===== *)
theory Sample_Heads
  imports Sample_Run
begin

text \<open>
  The canonical head of the sample inquiry: its genesis is published, the first advance is
  committed, and the head is loaded again.
\<close>

lemma holds_update [simp]: "holds fs \<Longrightarrow> sample_store p = None \<Longrightarrow> holds (fs(p \<mapsto> b))"
  by (auto simp: holds_def)

lemma sample_read_state:
  assumes "holds fs"
  shows "read_state_reference (sample_externals n) sample_engine (sample_ref ''states'' CHR ''0'') fs = Inr sample_s0"
    and "read_state_reference (sample_externals n) sample_engine (sample_ref ''states'' CHR ''1'') fs = Inr sample_s1"
  using assms sample_validate0 sample_validate1[OF assms]
  by (simp_all add: read_state_reference_def read_eval cong: rbind_first del: rbind_eq_Inr)

lemma sample_references [simp]:
  "ks_parent_reference sample_s0 = None" "ks_parent_reference sample_s1 = Some (sample_ref ''states'' CHR ''0'')"
  "ks_last_action_receipt_reference sample_s1 = Some (sample_ref ''action_receipts'' CHR ''3'')"
  "ks_parent_digest sample_s0 = None" "ks_parent_digest sample_s1 = Some (dg CHR ''0'')"
  by (simp_all add: sample_s0_def sample_s1_def)

lemma sample_receipt_authentic:
  assumes "holds fs"
  shows "authenticate_action_receipt (sample_externals n) sample_engine sample_s0 (sample_ref ''action_receipts'' CHR ''3'') fs
    = Inr sample_receipt1"
  using assms sample_receipt1_valid[OF assms]
  by (simp add: authenticate_action_receipt_def read_eval cong: rbind_first del: rbind_eq_Inr)

lemma sample_authenticate_state:
  assumes "holds fs"
  shows "authenticate_state (sample_externals n) sample_engine (sample_ref ''states'' CHR ''0'') fs = Inr sample_s0"
    and "authenticate_state (sample_externals n) sample_engine (sample_ref ''states'' CHR ''1'') fs = Inr sample_s1"
  using sample_read_state[OF assms] sample_receipt_authentic[OF assms] sample_advance1[OF assms]
  by (simp_all add: authenticate_state_def HARD_MAX_REVISION_def sample_advance1_def cong: rbind_first del: rbind_eq_Inr)

lemma sample_lineage_receipts:
  assumes "holds fs"
  shows "canonical_action_receipts_from_lineage (sample_externals n) sample_engine sample_s0 fs = Inr []"
    and "canonical_action_receipts_from_lineage (sample_externals n) sample_engine sample_s1 fs = Inr [(dg CHR ''d'', dg CHR ''3'')]"
  using sample_read_state[OF assms] sample_receipt_authentic[OF assms]
  by (simp_all add: canonical_action_receipts_from_lineage_def lineage_actions.simps cong: rbind_first del: rbind_eq_Inr)

lemma sample_head_digest:
  "calculate_head_digest (sample_externals n) h = sample_sha (revision_digit (ch_revision h))"
  by (simp add: seal_eval)

lemma sample_head_authentic:
  assumes "holds fs" "r \<le> 1"
  shows "authenticate_canonical_head (sample_externals n) sample_engine (sample_head r) fs = Inr ()"
proof -
  from assms(2) have "r = 0 \<or> r = 1" by auto
  then show ?thesis
    using sample_authenticate_state[OF assms(1)] sample_lineage_receipts[OF assms(1)]
    by (auto simp: authenticate_canonical_head_def sample_head_def sample_head_digest revision_digit_def bound_defs
        cong: rbind_first simp del: rbind_eq_Inr)
qed

definition sample_pointer :: path where
  "sample_pointer = canonical_head_pointer_path sample_engine ''q''"

definition sample_lock :: path where
  "sample_lock = canonical_head_lock_path sample_engine ''q''"

lemma sample_pointer_fresh [simp]:
  "confined sample_root sample_pointer" "confined sample_root sample_lock"
  "sample_store sample_pointer = None" "sample_store sample_lock = None" "sample_pointer \<noteq> sample_lock" "sample_lock \<noteq> sample_pointer"
  "sample_path cls d \<noteq> sample_pointer" "sample_path cls d \<noteq> sample_lock" "sample_pointer \<noteq> sample_path cls d"
  "sample_lock \<noteq> sample_path cls d"
proof -
  show a: "sample_path cls d \<noteq> sample_pointer" "sample_path cls d \<noteq> sample_lock" "sample_pointer \<noteq> sample_path cls d"
    "sample_lock \<noteq> sample_path cls d" for cls d
    by (simp_all add: sample_pointer_def sample_lock_def canonical_head_pointer_path_def canonical_head_lock_path_def sample_path_def)
  have b: "sample_file c \<noteq> sample_pointer" "sample_file c \<noteq> sample_lock" for c
    by (simp_all add: sample_pointer_def sample_lock_def canonical_head_pointer_path_def canonical_head_lock_path_def sample_file_def)
  show "sample_store sample_pointer = None" "sample_store sample_lock = None"
    by (simp_all add: sample_store_def a b b[symmetric])
  show "confined sample_root sample_pointer" "confined sample_root sample_lock"
    by (simp_all add: confined_iff) (simp_all add: sample_pointer_def sample_lock_def canonical_head_pointer_path_def canonical_head_lock_path_def)
  show "sample_pointer \<noteq> sample_lock" by (simp add: sample_pointer_def sample_lock_def)
  then show "sample_lock \<noteq> sample_pointer" by (rule not_sym)
qed

lemma sample_lock_runs:
  assumes "fs sample_lock = None \<or> fs sample_lock = Some []"
  shows "with_private_authority_lock sample_sha sample_root sample_lock f fs = f (fs(sample_lock \<mapsto> []))"
proof -
  from assms have "write_or_verify_immutable sample_sha sample_root sample_lock [] fs
      = (Inr (sample_sha []), fs(sample_lock \<mapsto> []))"
    by (auto simp: write_or_verify_eq fun_upd_idem)
  then show ?thesis
    by (simp add: with_private_authority_lock_def io_bind_def io_read_def open_private_reference_eq)
qed

definition sample_encoded_head :: "nat \<Rightarrow> nat \<Rightarrow> string" where
  "sample_encoded_head n r = replicate n CHR ''h'' @ revision_digit r"

lemma sample_publish:
  assumes "holds fs" "r \<le> 1"
  shows "publish_canonical_head (sample_externals n) sample_engine sample_pointer (sample_head r) fs
    = (Inr (), fs(sample_pointer \<mapsto> sample_encoded_head n r))"
  using sample_head_authentic[OF assms]
  by (simp add: publish_canonical_head_def io_bind_def io_read_def io_res_def replace_file_eq sample_encoded_head_def)
    (simp add: sample_head_def)

lemma sample_slice_head:
  assumes "r \<le> 1"
  shows "from_slice_head (sample_externals n) (sample_encoded_head n r) = Some (sample_head r)"
proof -
  from assms have "r = 0 \<or> r = 1" by auto
  then show ?thesis by (auto simp: sample_externals_def sample_slice_def sample_encoded_head_def revision_digit_def)
qed

lemma sample_read_head:
  assumes "fs sample_pointer = Some (sample_encoded_head n r)" "n < 1048576" "r \<le> 1"
  shows "read_canonical_head_if_present (sample_externals n) sample_engine sample_pointer fs = Inr (Some (sample_head r))"
proof -
  have "read_canonical_head_if_present (sample_externals n) sample_engine sample_pointer fs
    = rbind (ok_or (from_slice_head (sample_externals n) (sample_encoded_head n r)) Json) (\<lambda>head. Inr (Some head))"
    using assms by (simp add: read_canonical_head_if_present_def read_existing_private_file_bounded_def
        open_private_reference_eq read_opened_store_file CANONICAL_HEAD_POINTER_MAX_BYTES_def)
      (simp add: sample_encoded_head_def revision_digit_def)
  then show ?thesis using sample_slice_head[OF assms(3)] by simp
qed

lemma sample_read_no_head:
  assumes "fs sample_pointer = None"
  shows "read_canonical_head_if_present (sample_externals n) sample_engine sample_pointer fs = Inr None"
  using assms by (simp add: read_canonical_head_if_present_def read_existing_private_file_bounded_def
      open_private_reference_eq)

section \<open>Genesis\<close>

definition sample_genesis_store :: "nat \<Rightarrow> store" where
  "sample_genesis_store n = sample_store(sample_lock \<mapsto> [], sample_pointer \<mapsto> sample_encoded_head n 0)"

lemma sample_genesis_head:
  "seal_head (sample_externals n) \<lparr>ch_schema = SchemaV1, ch_authority_root = dg CHR ''6'',
     ch_inquiry_id = ''q'', ch_genesis_state = dg CHR ''0'', ch_genesis_reference = sample_ref ''states'' CHR ''0'',
     ch_current_state = dg CHR ''0'', ch_current_reference = sample_ref ''states'' CHR ''0'', ch_revision = 0,
     ch_action_receipts = [], ch_manifest_digest = d\<rparr> = sample_head 0"
  by (simp add: seal_head_def sample_head_digest sample_head_def revision_digit_def)

lemma sample_persist0:
  assumes "holds fs"
  shows "persist_state (sample_externals n) sample_engine sample_s0 fs = (Inr (sample_ref ''states'' CHR ''0''), fs)"
  using assms sample_validate0
  by (simp add: persist_state_def io_bind_def io_read_def io_res_def write_or_verify_eq Let_def revision_digit_def sample_ref_def)

lemma sample_genesis:
  "establish_canonical_genesis (sample_externals n) sample_engine sample_s0 sample_store
    = (Inr (sample_head 0), sample_genesis_store n)"
proof -
  have "genesis_section (sample_externals n) sample_engine sample_s0 (sample_ref ''states'' CHR ''0'') (sample_store(sample_lock \<mapsto> []))
    = (Inr (sample_head 0), sample_genesis_store n)"
    unfolding genesis_section_def Let_def sample_state_fields sample_pointer_def[symmetric] sample_engine_simps sample_genesis_head
    by (simp add: io_bind_def io_read_def io_res_def sample_read_no_head sample_publish sample_genesis_store_def)
  then show ?thesis
    by (simp add: establish_canonical_genesis_def io_bind_def io_res_def sample_persist0 sample_lock_def[symmetric] sample_lock_runs)
qed

section \<open>Commit\<close>

definition sample_commit_store :: "nat \<Rightarrow> store" where
  "sample_commit_store n = (sample_genesis_store n)(sample_path ''transitions'' (dg CHR ''1'') \<mapsto> ''t1'',
     sample_pointer \<mapsto> sample_encoded_head n 1)"

lemma sample_genesis_store_holds [simp]: "holds (sample_genesis_store n)"
  by (simp add: sample_genesis_store_def)

lemma sample_transitions_fresh [simp]: "sample_store (sample_path ''transitions'' d) = None"
  by (simp add: sample_store_def sample_path_def sample_file_def)

lemma sample_commit_store_holds [simp]: "holds (sample_commit_store n)"
  by (simp add: sample_commit_store_def)

lemma sample_transition_fields [simp]:
  "tx_manifest_digest (adv_transition (sample_advance1 n)) = dg CHR ''1''"
  "tx_from_state (adv_transition (sample_advance1 n)) = dg CHR ''0''"
  "tx_to_state (adv_transition (sample_advance1 n)) = dg CHR ''1''"
  "tx_action_receipt (adv_transition (sample_advance1 n)) = dg CHR ''3''"
  "tx_action_id (adv_transition (sample_advance1 n)) = dg CHR ''d''"
  "adv_state (sample_advance1 n) = sample_s1"
  by (simp_all add: sample_advance1_def sample_transition_def seal_transition_def seal_eval Let_def)

lemma sample_transition_rest:
  "tx_schema (adv_transition (sample_advance1 n)) = SchemaV1"
  "tx_authority_root (adv_transition (sample_advance1 n)) = dg CHR ''6''"
  "tx_from_state_reference (adv_transition (sample_advance1 n)) = sample_ref ''states'' CHR ''0''"
  "tx_to_state_reference (adv_transition (sample_advance1 n)) = sample_ref ''states'' CHR ''1''"
  "tx_action_receipt_reference (adv_transition (sample_advance1 n)) = sample_ref ''action_receipts'' CHR ''3''"
  "calculate_transition_digest (sample_externals n) (adv_transition (sample_advance1 n)) = dg CHR ''1''"
  by (simp_all add: sample_advance1_def sample_transition_def seal_transition_def account_eval Let_def)

lemma sample_transition_valid:
  assumes "holds fs"
  shows "validate_transition (sample_externals n) sample_engine (adv_transition (sample_advance1 n)) fs = Inr ()"
  using assms sample_validate0 sample_validate1[OF assms] sample_advance1[OF assms]
  by (simp add: validate_transition_def sample_transition_rest read_eval cong: rbind_first del: rbind_eq_Inr)

lemma sample_persist1:
  assumes "holds fs"
  shows "persist_state (sample_externals n) sample_engine sample_s1 fs = (Inr (sample_ref ''states'' CHR ''1''), fs)"
  using assms sample_validate1[OF assms]
  by (simp add: persist_state_def io_bind_def io_read_def io_res_def write_or_verify_eq Let_def revision_digit_def
      read_eval seal_eval sample_ref_def cong: rbind_first del: rbind_eq_Inr)

lemma sample_persist_advance:
  assumes "holds fs" "fs (sample_path ''transitions'' (dg CHR ''1'')) = None"
  shows "persist_advance (sample_externals n) sample_engine (sample_advance1 n) fs
    = (Inr (sample_ref ''states'' CHR ''1'', \<lparr>ref_path = sample_path ''transitions'' (dg CHR ''1''), ref_sha256 = dg CHR ''1''\<rparr>),
       fs(sample_path ''transitions'' (dg CHR ''1'') \<mapsto> ''t1''))"
  using assms sample_transition_valid[OF assms(1)]
  by (simp add: persist_advance_def sample_persist1 persist_transition_def io_bind_def io_read_def io_res_def write_or_verify_eq Let_def)

lemma sample_head_fields:
  "ch_inquiry_id (sample_head r) = ''q''" "ch_revision (sample_head r) = r" "ch_current_state (sample_head 0) = dg CHR ''0''"
  by (simp_all add: sample_head_def)

lemma sample_successor:
  "successor_head (sample_externals n) sample_engine (sample_head 0) (sample_head 0) (sample_advance1 n) (sample_ref ''states'' CHR ''1'')
    = sample_head 1"
  by (simp add: successor_head_def seal_head_def sample_head_digest sample_head_def revision_digit_def)

lemma sample_commit:
  assumes "n < 1048576"
  shows "commit_canonical_advance (sample_externals n) sample_engine (sample_head 0) (sample_advance1 n) (sample_genesis_store n)
    = (Inr (sample_head 1), sample_commit_store n)"
proof -
  let ?fs = "(sample_genesis_store n)(sample_path ''transitions'' (dg CHR ''1'') \<mapsto> ''t1'')"
  have t: "sample_genesis_store n (sample_path ''transitions'' (dg CHR ''1'')) = None"
    by (simp add: sample_genesis_store_def)
  have l: "?fs sample_lock = Some []" and p: "?fs sample_pointer = Some (sample_encoded_head n 0)" and h: "holds ?fs"
    by (simp_all add: sample_genesis_store_def)
  have "commit_section (sample_externals n) sample_engine (sample_head 0) (sample_advance1 n) (sample_ref ''states'' CHR ''1'') ?fs
    = (Inr (sample_head 1), sample_commit_store n)"
  proof -
    have f: "ch_inquiry_id (sample_head 0) = ''q''" "ch_action_receipts (sample_head 0) = []"
      by (simp_all add: sample_head_def)
    have rd: "read_canonical_head_if_present (sample_externals n) sample_engine sample_pointer ?fs = Inr (Some (sample_head 0))"
      by (rule sample_read_head[where n = n]) (use p assms in simp_all)
    have au: "authenticate_canonical_head (sample_externals n) sample_engine (sample_head 0) ?fs = Inr ()"
      by (rule sample_head_authentic) (use h in simp_all)
    have pb: "publish_canonical_head (sample_externals n) sample_engine sample_pointer (sample_head 1) ?fs
      = (Inr (), ?fs(sample_pointer \<mapsto> sample_encoded_head n 1))"
      by (rule sample_publish) (use h in simp_all)
    show ?thesis
      unfolding commit_section_def Let_def f sample_pointer_def[symmetric]
      by (simp only: io_bind_def io_read_def io_res_def rd au pb ok_or_simps f map_of.simps option.case sum.case prod.case reject_simps simp_thms
          sample_successor sample_transition_fields sample_commit_store_def)
  qed
  moreover have "?fs(sample_lock \<mapsto> []) = ?fs" using l by (simp add: fun_upd_idem)
  moreover have "with_private_authority_lock sample_sha sample_root sample_lock f ?fs = f (?fs(sample_lock \<mapsto> []))"
    for f :: "canonical_inquiry_head io" by (rule sample_lock_runs) (use l in simp)
  ultimately show ?thesis
    using sample_head_authentic[of "sample_genesis_store n" 0]
    by (simp add: commit_canonical_advance_def io_bind_def io_read_def io_res_def sample_persist_advance t
        sample_lock_def[symmetric] sample_head_fields checked_add_def)
qed

end
