(* ===== verification/Inquiry_Properties.thy ===== *)
theory Inquiry_Properties
  imports Sample_Heads
begin

text \<open>
  What one action and a run of actions do to an inquiry, over the reducer and the planner of
  \<open>src/knowledge/knowledge_engine.rs\<close>. The instances are taken at the sample inquiry.
\<close>

section \<open>Facts about runs\<close>

lemma step_advance:
  assumes "knowledge_step X E s s'"
  obtains receipt fs adv where "advance X E s receipt fs = Inr adv" "s' = adv_state adv"
  using assms by (auto elim!: knowledge_stepE)

lemma run_keeps:
  assumes "(knowledge_step X E ^^ n) s s'" "state_containers_ok s" "P s"
    and "\<And>a receipt fs adv. advance X E a receipt fs = Inr adv \<Longrightarrow> state_containers_ok a \<Longrightarrow> P a \<Longrightarrow> P (adv_state adv)"
  shows "P s'"
  using assms(1-3)
  by (rule inquiry.run_invariant[where P = P]) (use assms(4) in \<open>auto elim!: step_advance\<close>)

lemma run_containers:
  "(knowledge_step X E ^^ n) s s' \<Longrightarrow> state_containers_ok s \<Longrightarrow> state_containers_ok s'"
  using inquiry.run_rank[of n X E s s'] by simp

lemma run_receipts:
  assumes "(knowledge_step X E ^^ n) s s'" "state_containers_ok s"
  shows "set (ks_applied_receipts s) \<subseteq> set (ks_applied_receipts s')
    \<and> set (ks_used_evidence_artifacts s) \<subseteq> set (ks_used_evidence_artifacts s')"
  using assms
proof (rule run_keeps)
  fix a receipt fs adv
  assume "advance X E a receipt fs = Inr adv" "state_containers_ok a"
    "set (ks_applied_receipts s) \<subseteq> set (ks_applied_receipts a) \<and> set (ks_used_evidence_artifacts s) \<subseteq> set (ks_used_evidence_artifacts a)"
  then show "set (ks_applied_receipts s) \<subseteq> set (ks_applied_receipts (adv_state adv))
    \<and> set (ks_used_evidence_artifacts s) \<subseteq> set (ks_used_evidence_artifacts (adv_state adv))"
    using advance_ledger(5,7)[of X E a receipt fs adv] by auto
qed simp

lemma advance_budget:
  assumes "advance X E s receipt fs = Inr adv"
  shows "validate_state X E (adv_state adv) fs = Inr ()"
  using assms by (auto elim: advance_Inr)

lemma sample_draft_containers: "\<forall>d \<in> set (draft_obligations sample_draft). plan_containers_ok (od_plan d)"
  by (simp add: sample_draft_def sample_causal_def sample_expansion_def sample_formal_def sample_predictions_def
      bm_ok_Cons less_char_def)

lemma sample_runs:
  "(knowledge_step (sample_externals n) sample_engine ^^ 1) sample_s1 sample_s2"
  "(knowledge_step (sample_externals n) sample_engine ^^ 2) sample_s0 sample_s2"
  using sample_steps[of n] by (auto simp: numeral_2_eq_2 eq_OO relcompp.simps)

section \<open>One action\<close>

text \<open>
  C1: an accepted action moves the revision and the action count by one, charges exactly the cost and
  the evidence of its receipt, records the receipt, and stays within the budget, which it does not change.
\<close>

theorem advance_accounts:
  assumes "advance X E s receipt fs = Inr adv" and "state_containers_ok s"
  shows "ks_revision (adv_state adv) = Suc (ks_revision s)
    \<and> ks_usage (adv_state adv) = \<lparr>used_actions = Suc (used_actions (ks_usage s)),
         used_total_cost = used_total_cost (ks_usage s) + invocation_cost (rc_invocation receipt),
         used_evidence_records = used_evidence_records (ks_usage s) + length (rc_evidence receipt)\<rparr>
    \<and> ks_applied_receipts (adv_state adv) = bs_insert (rc_manifest_digest receipt) (ks_applied_receipts s)
    \<and> ks_budget (adv_state adv) = ks_budget s
    \<and> used_total_cost (ks_usage (adv_state adv)) \<le> max_total_cost (ks_budget s)
    \<and> used_actions (ks_usage (adv_state adv)) \<le> max_actions (ks_budget s)
    \<and> used_evidence_records (ks_usage (adv_state adv)) \<le> max_evidence_records (ks_budget s)"
proof -
  note ledger = advance_ledger[OF assms]
  have "validate_action_receipt X E s receipt fs = Inr ()"
    using assms(1) by (auto simp: advance_def)
  from validate_action_receipt_Inr(3)[OF this]
  have cost: "rc_charged_cost receipt = invocation_cost (rc_invocation receipt)" .
  from validate_state_Inr(2)[OF advance_budget[OF assms(1)]] ledger(10)
  have "used_total_cost (ks_usage (adv_state adv)) \<le> max_total_cost (ks_budget s)
    \<and> used_actions (ks_usage (adv_state adv)) \<le> max_actions (ks_budget s)
    \<and> used_evidence_records (ks_usage (adv_state adv)) \<le> max_evidence_records (ks_budget s)"
    by (auto simp: validate_state_bounds_def)
  with ledger cost show ?thesis by (cases "ks_usage (adv_state adv)") simp
qed

theorem advance_accounts_witness:
  "ks_revision sample_s1 = Suc (ks_revision sample_s0)
    \<and> ks_usage sample_s1 = \<lparr>used_actions = 1, used_total_cost = 5, used_evidence_records = 1\<rparr>"
  using advance_accounts[OF sample_advance1[OF holds_sample_store, of 0]] by simp

text \<open>
  C2: a receipt that was applied once is refused in every later state of the inquiry, whatever the
  actions in between and whatever the store holds.
\<close>

theorem receipt_applied_once:
  assumes "advance X E s receipt fs = Inr adv" and "state_containers_ok s"
    and "(knowledge_step X E ^^ n) (adv_state adv) s'"
    and "rc_manifest_digest receipt' = rc_manifest_digest receipt"
  shows "\<exists>e. advance X E s' receipt' fs' = Inl e"
proof (cases "advance X E s' receipt' fs'")
  case (Inr adv')
  note ok = advance_containers(1)[OF assms(1,2)]
  from run_receipts[OF assms(3) ok] advance_ledger(5)[OF assms(1,2)]
  have "rc_manifest_digest receipt' \<in> set (ks_applied_receipts s')" using assms(4) by auto
  with advance_ledger(6)[OF Inr run_containers[OF assms(3) ok]] show ?thesis by simp
qed simp

theorem receipt_applied_once_witness:
  "\<exists>e. advance (sample_externals 0) sample_engine sample_s2 sample_receipt1 sample_store = Inl e"
proof -
  have run: "(knowledge_step (sample_externals 0) sample_engine ^^ 1) (adv_state (sample_advance1 0)) sample_s2"
    using sample_runs(1)[of 0] by simp
  show ?thesis by (rule receipt_applied_once[OF sample_advance1[OF holds_sample_store] _ run]) simp_all
qed

text \<open>
  C3: an evidence artifact supports one action of an inquiry at most: a receipt that cites an
  artifact used by an earlier action is refused in every later state.
\<close>

theorem evidence_used_once:
  assumes "advance X E s receipt fs = Inr adv" and "state_containers_ok s"
    and "(knowledge_step X E ^^ n) (adv_state adv) s'"
    and "reference \<in> set (bm_values (rc_evidence receipt))" and "reference' \<in> set (bm_values (rc_evidence receipt'))"
    and "aer_source_artifact_digest reference' = aer_source_artifact_digest reference"
  shows "\<exists>e. advance X E s' receipt' fs' = Inl e"
proof (cases "advance X E s' receipt' fs'")
  case (Inr adv')
  note ok = advance_containers(1)[OF assms(1,2)]
  from run_receipts[OF assms(3) ok] advance_ledger(7)[OF assms(1,2)] assms(4)
  have "aer_source_artifact_digest reference \<in> set (ks_used_evidence_artifacts s')" by auto
  with advance_ledger(8)[OF Inr run_containers[OF assms(3) ok]] assms(5,6) show ?thesis by auto
qed simp

theorem evidence_used_once_witness:
  "\<exists>e. advance (sample_externals 0) sample_engine sample_s2
     (sample_receipt2\<lparr>rc_evidence := rc_evidence sample_receipt1\<rparr>) sample_store = Inl e"
proof -
  have run: "(knowledge_step (sample_externals 0) sample_engine ^^ 1) (adv_state (sample_advance1 0)) sample_s2"
    using sample_runs(1)[of 0] by simp
  show ?thesis
    by (rule evidence_used_once[OF sample_advance1[OF holds_sample_store] _ run,
          of "sample_reference CHR ''5'' CausalComparison CHR ''f''" "sample_reference CHR ''5'' CausalComparison CHR ''f''"])
      (simp_all add: bm_values_def)
qed



text \<open>
  C5: an established claim is final: whatever the further actions, it stays in the state with the
  same predicate and the same witnesses.
\<close>

theorem established_claim_final:
  assumes "(knowledge_step X E ^^ n) s s'" and "state_containers_ok s"
    and "map_of (ks_claims s) cid = Some c" and "claim_assessment c = Established w"
  shows "map_of (ks_claims s') cid = Some c"
  using assms(1-3) by (rule run_keeps) (use assms(4) advance_established in blast)

theorem established_claim_final_witness:
  "map_of (ks_claims sample_s2) ''c1'' = Some (snd (sample_claim ''c1'' CausalMechanism sample_p (Established [dg CHR ''3''])))"
  by (rule established_claim_final[OF sample_runs(1)])
    (simp_all, simp_all add: sample_s1_def sample_claim_def)

text \<open>
  The evidence about a hypothesis only accumulates: supporting and refuting receipts are never
  removed, the definition and the family never change, and a conflict is never resolved.
\<close>

theorem hypothesis_evidence_accumulates:
  assumes "(knowledge_step X E ^^ n) s s'" and "state_containers_ok s"
    and "map_of (ks_hypotheses s) hid = Some h"
  shows "\<exists>h'. map_of (ks_hypotheses s') hid = Some h'
    \<and> fst (verdicts (hypothesis_assessment h)) \<subseteq> fst (verdicts (hypothesis_assessment h'))
    \<and> snd (verdicts (hypothesis_assessment h)) \<subseteq> snd (verdicts (hypothesis_assessment h'))
    \<and> hypothesis_definition h' = hypothesis_definition h \<and> hypothesis_family_id h' = hypothesis_family_id h
    \<and> (is_conflicted (hypothesis_assessment h) \<longrightarrow> is_conflicted (hypothesis_assessment h'))"
  using assms(1,2)
proof (rule run_keeps)
  fix a receipt fs adv
  assume adv: "advance X E a receipt fs = Inr adv" "state_containers_ok a"
    and "\<exists>h'. map_of (ks_hypotheses a) hid = Some h'
      \<and> fst (verdicts (hypothesis_assessment h)) \<subseteq> fst (verdicts (hypothesis_assessment h'))
      \<and> snd (verdicts (hypothesis_assessment h)) \<subseteq> snd (verdicts (hypothesis_assessment h'))
      \<and> hypothesis_definition h' = hypothesis_definition h \<and> hypothesis_family_id h' = hypothesis_family_id h
      \<and> (is_conflicted (hypothesis_assessment h) \<longrightarrow> is_conflicted (hypothesis_assessment h'))"
  then obtain g where g: "map_of (ks_hypotheses a) hid = Some g"
    and G: "fst (verdicts (hypothesis_assessment h)) \<subseteq> fst (verdicts (hypothesis_assessment g))"
      "snd (verdicts (hypothesis_assessment h)) \<subseteq> snd (verdicts (hypothesis_assessment g))"
      "hypothesis_definition g = hypothesis_definition h" "hypothesis_family_id g = hypothesis_family_id h"
      "is_conflicted (hypothesis_assessment h) \<longrightarrow> is_conflicted (hypothesis_assessment g)" by blast
  from advance_hypotheses(2)[OF adv g] obtain h' where h': "map_of (ks_hypotheses (adv_state adv)) hid = Some h'"
    "hypothesis_reduced receipt hid g h'" by blast
  from hypothesis_reduced_verdicts[OF h'(2)] G h'(1)
  show "\<exists>h'. map_of (ks_hypotheses (adv_state adv)) hid = Some h'
      \<and> fst (verdicts (hypothesis_assessment h)) \<subseteq> fst (verdicts (hypothesis_assessment h'))
      \<and> snd (verdicts (hypothesis_assessment h)) \<subseteq> snd (verdicts (hypothesis_assessment h'))
      \<and> hypothesis_definition h' = hypothesis_definition h \<and> hypothesis_family_id h' = hypothesis_family_id h
      \<and> (is_conflicted (hypothesis_assessment h) \<longrightarrow> is_conflicted (hypothesis_assessment h'))"
    by (intro exI[of _ h']) auto
qed (use assms(3) in blast)

theorem hypothesis_evidence_accumulates_witness:
  "\<exists>h'. map_of (ks_hypotheses sample_s2) ''h1'' = Some h' \<and> dg CHR ''3'' \<in> fst (verdicts (hypothesis_assessment h'))"
proof -
  have h: "map_of (ks_hypotheses sample_s1) ''h1'' = Some (snd (sample_hypothesis ''h1'' sample_p (Supported [dg CHR ''3''])))"
    by (simp add: sample_s1_def sample_hypothesis_def)
  from hypothesis_evidence_accumulates[OF sample_runs(1)[of 0] _ h] show ?thesis
    by (auto simp: sample_hypothesis_def)
qed

section \<open>Runs\<close>



text \<open>
  C7: no inquiry acts forever: from an accepted state there is no infinite sequence of actions, and a
  run has at most as many actions as the revision bound leaves.
\<close>

theorem inquiry_terminates:
  assumes "validate_state X E s fs = Inr ()" and "state_containers_ok s"
  shows "((knowledge_step X E ^^ n) s s' \<longrightarrow> ks_revision s + n \<le> max_revision (ks_budget s))
    \<and> \<not> (\<exists>f. f 0 = s \<and> (\<forall>i. knowledge_step X E (f i) (f (Suc i))))"
proof -
  have b: "ks_revision s \<le> max_revision (ks_budget s)"
    using validate_state_Inr(2)[OF assms(1)] by (auto simp: validate_state_bounds_def)
  have len: "ks_revision s + m \<le> max_revision (ks_budget s)" if "(knowledge_step X E ^^ m) s t" for m t
    using inquiry.run_length[OF that assms(2) b] .
  have False if "f 0 = s" "\<forall>i. knowledge_step X E (f i) (f (Suc i))" for f
  proof -
    have "(knowledge_step X E ^^ m) s (f m)" for m using that by (auto simp: relpowp_fun_conv)
    from len[OF this[of "Suc (max_revision (ks_budget s))"]] show False by simp
  qed
  with len show ?thesis by blast
qed

theorem inquiry_terminates_witness: "ks_revision sample_s0 + 2 \<le> max_revision (ks_budget sample_s0)"
  using inquiry_terminates[OF sample_validate0[of 0], of 2 sample_s2] sample_runs(2)[of 0] by simp

text \<open>
  A dependency expansion loses no edge of its evidence: each edge is in the graph of the next state,
  or the expanding obligation is blocked by a cycle, or the state carries a bounded reason.
\<close>

theorem expansion_accounts_for_edges:
  assumes "advance X E s receipt fs = Inr adv" and "state_containers_ok s"
    and "rc_invocation receipt = InvExpandDependencyClosure v" and "rc_outcome receipt = Completed obs es ds"
    and "edge \<in> set es"
  shows "(edge_from edge, edge_to edge) \<in> edges (ks_dependency_graph (adv_state adv))
    \<or> (\<exists>ob. map_of (ks_obligations (adv_state adv)) (planned_id receipt) = Some ob \<and> is_blocked (obligation_state ob))
    \<or> ks_bounded_reason (adv_state adv) \<noteq> None"
proof -
  from assms(1,2) obtain mid claims where acc: "edge_accounted (planned_id receipt) edge mid"
    and st: "adv_state adv = mid\<lparr>ks_claims := claims,
       ks_manifest_digest := calculate_state_digest X (mid\<lparr>ks_claims := claims\<rparr>)\<rparr>"
    by (rule advance_stages) (use assms(3-5) in blast)
  from acc show ?thesis unfolding edge_accounted_def st by simp
qed

theorem expansion_accounts_for_edges_witness: "(''m'', ''n'') \<in> edges (ks_dependency_graph sample_s2)"
proof -
  have "map_of (ks_obligations sample_s2) ''b'' = Some (snd (sample_obligation ''b'' ''c2'' DependencyClosure sample_q
      sample_expansion (Satisfied 1 [dg CHR ''4''])))" "ks_bounded_reason sample_s2 = None"
    by (simp_all add: sample_s0_def sample_s1_def sample_s2_def sample_obligation_def)
  then show ?thesis
    using expansion_accounts_for_edges[OF sample_advance2[OF holds_sample_store, of 0] sample_containers(2)
        sample_receipt_fields(4)[unfolded sample_invocation2_def] sample_receipt_fields(6), of "DependencyEdge ''m'' ''n''"]
    by (simp add: sample_advance2_def sample_obligation_def planned_id_def)
qed

text \<open>
  C8: an inquiry stays consistent with its evidence: in an accepted state every claim has an
  obligation, its assessment is the one its obligations give, every receipt cited as a witness was
  applied, and all predicates agree on one type per observation key.
\<close>

theorem accepted_state_consistent:
  assumes "validate_state X E s fs = Inr ()"
  shows "(\<forall>(cid, c) \<in> set (ks_claims s). related s cid \<noteq> [] \<and> claim_assessment c = derive_claim_assessment (related s cid))
    \<and> (\<forall>(oid, ob) \<in> set (ks_obligations s). set (witnesses (obligation_state ob)) \<subseteq> set (ks_applied_receipts s))
    \<and> (\<forall>(hid, h) \<in> set (ks_hypotheses s). set (hypothesis_witnesses (hypothesis_assessment h)) \<subseteq> set (ks_applied_receipts s))
    \<and> (\<forall>p \<in> state_predicates s. \<forall>q \<in> state_predicates s. observation_key p = observation_key q \<longrightarrow>
         predicate_value_type p = predicate_value_type q)"
proof -
  note facts = validate_state_contents_Inr[OF validate_state_Inr(6)[OF assms]]
  from facts(4) obtain schema where "\<forall>q \<in> state_predicates s. schema_agrees schema q" by blast
  then have "\<forall>p \<in> state_predicates s. \<forall>q \<in> state_predicates s. observation_key p = observation_key q \<longrightarrow>
      predicate_value_type p = predicate_value_type q" using schema_agrees_types by blast
  with facts(1-3) show ?thesis by (fastforce simp: obligation_checked_def)
qed

theorem accepted_state_consistent_witness:
  "derive_claim_assessment (related sample_s1 ''c1'') = Established [dg CHR ''3'']"
  using accepted_state_consistent[OF sample_validate1[OF holds_sample_store, of 0]]
  by (auto simp: sample_s1_def sample_claim_def)

section \<open>Planning\<close>

text \<open>
  C9: the planner always decides: on an accepted state it returns an invocation or a terminal
  verdict, never an error.
\<close>

theorem plan_decides:
  assumes "validate_state X E s fs = Inr ()" and "state_containers_ok s"
    and "kp_max_attempts_per_obligation (policy E) < 2 ^ 16"
  shows "\<exists>decision. plan X E s fs = Inr decision"
  using assms by (rule plan_total_aux)

theorem plan_decides_witness: "\<exists>decision. plan (sample_externals 0) sample_engine sample_s2 sample_store = Inr decision"
  by (rule plan_decides[OF sample_validate2[OF holds_sample_store]]) simp_all



text \<open>
  C11: the planner reports scoped completion exactly when the inquiry is done: nothing is blocked,
  no hypothesis is conflicted, no bound was hit, every obligation is satisfied and every family of
  hypotheses is resolved.
\<close>

theorem plan_complete_iff_done:
  assumes "validate_state X E s fs = Inr ()" and "state_containers_ok s"
  shows "(\<exists>d r cs. plan X E s fs = Inr (PlanTerminal (ScopedComplete d r cs))) \<longleftrightarrow>
     (\<forall>ob \<in> set (bm_values (ks_obligations s)). is_satisfied (obligation_state ob))
     \<and> (\<forall>h \<in> set (bm_values (ks_hypotheses s)). \<not> is_conflicted (hypothesis_assessment h))
     \<and> hypothesis_families_resolved (ks_hypotheses s) \<and> ks_bounded_reason s = None"
proof -
  have sat: "all_satisfied s \<longleftrightarrow> (\<forall>ob \<in> set (bm_values (ks_obligations s)). is_satisfied (obligation_state ob))"
    by (simp add: all_satisfied_def list_all_iff)
  have not_blocked: "is_satisfied st \<Longrightarrow> \<not> is_blocked st" for st by (cases st) auto
  from derive_blockers_total[OF validate_state_Inr(6)[OF assms(1)] assms(2)] obtain bl where bl: "derive_blockers s = Inr bl"
    by blast
  have "(\<exists>d r cs. plan X E s fs = Inr (PlanTerminal (ScopedComplete d r cs)))
      \<longleftrightarrow> (\<exists>d r cs. derive_terminal E s = Inr (Some (ScopedComplete d r cs)))"
  proof (cases "derive_terminal E s")
    case (Inr t)
    with assms(1) show ?thesis
      by (cases t; cases "find (affordable s) (open_obligations s)") (auto simp: plan_def bounded_terminal_def)
  qed (simp add: plan_def assms(1))
  with derive_terminal_ScopedComplete_iff[OF bl] derive_blockers_Nil[OF bl] sat not_blocked show ?thesis by blast
qed

theorem plan_complete_iff_done_witness:
  "\<not> (\<exists>d r cs. plan (sample_externals 0) sample_engine sample_s2 sample_store = Inr (PlanTerminal (ScopedComplete d r cs)))"
proof -
  have "snd (sample_obligation ''z'' ''c3'' FormalProperty sample_f sample_formal (Open 0 []))
      \<in> set (bm_values (ks_obligations sample_s2))" by (simp add: sample_s2_def bm_values_def)
  then show ?thesis
    using plan_complete_iff_done[OF sample_validate2[OF holds_sample_store, of 0]] by (force simp: sample_obligation_def)
qed

section \<open>Methods that only refute\<close>

fun refuting_plan :: "cognitive_plan \<Rightarrow> bool" where
  "refuting_plan (SearchCounterexample _ _ _) = True"
| "refuting_plan (VerifyFormalProperty _ _) = True"
| "refuting_plan _ = False"

text \<open>The outcome of an accepted receipt for such a plan never matches the criterion.\<close>

lemma refuting_outcome:
  assumes m: "materialize_invocation X E s ob = Inr invoc" and p: "refuting_plan (obligation_plan ob)"
    and b: "validate_criterion_plan_binding X (obligation_criterion ob) (obligation_plan ob) = Inr ()"
    and r: "rederive X E invoc executor (Completed obs es ds) verified code fs = Inr ()"
  shows "evaluate (criterion_predicate (ib_criterion (binding invoc))) obs = Contradicts"
proof -
  from r have d: "derive_completed X (engine_context E invoc executor) (Completed obs es ds) verified fs = Inr (Completed obs es ds)"
    by (auto simp: rederive_def derive_verified_outcome_def)
  show ?thesis
  proof (cases "obligation_plan ob")
    case (SearchCounterexample target max_cases predictions)
    with m obtain search where i: "invoc = InvSearchCounterexample search" "ce_target search = target"
      by (auto simp: materialize_invocation_def Let_def)
    from materialize_invocation_Inr(3)[OF m] b SearchCounterexample
    have c: "criterion_predicate (ib_criterion (binding invoc)) = target"
      by (auto simp: validate_criterion_plan_binding_def)
    from d i have "derive_counterexample X (engine_context E invoc executor) search verified fs = Inr (Completed obs es ds)"
      by (auto simp: derive_completed_def engine_context_def Let_def)
    from derive_counterexample_Inr[OF this] i c show ?thesis by auto
  next
    case (VerifyFormalProperty proof_system property)
    with m obtain formal where i: "invoc = InvVerifyFormalProperty formal"
      by (auto simp: materialize_invocation_def Let_def)
    from d i show ?thesis by (auto simp: derive_completed_def engine_context_def Let_def)
  qed (use p in auto)
qed

lemma refuting_step:
  assumes adv: "advance X E s receipt fs = Inr adv" and ok: "state_containers_ok s"
    and ob: "map_of (ks_obligations s) i = Some ob" and p: "refuting_plan (obligation_plan ob)"
    and n: "\<not> is_satisfied (obligation_state ob)"
  shows "\<exists>ob'. map_of (ks_obligations (adv_state adv)) i = Some ob' \<and> refuting_plan (obligation_plan ob')
    \<and> \<not> is_satisfied (obligation_state ob')"
proof (cases "i = planned_id receipt")
  case True
  have v: "validate_state X E s fs = Inr ()" and rv: "validate_action_receipt X E s receipt fs = Inr ()"
    using adv by (auto simp: advance_def)
  from validate_action_receipt_Inr(1)[OF rv] obtain ob1 where f: "find (affordable s) (open_obligations s) = Some ob1"
    and m: "materialize_invocation X E s ob1 = Inr (rc_invocation receipt)" by (rule plan_Invoke)
  from validated_obligation_lookup[OF v ok] plan_choice(1)[OF f] materialize_invocation_Inr(1)[OF m] ob True
  have eq: "ob1 = ob" by (simp add: planned_id_def)
  note m = m[unfolded eq]
  have "(i, ob) \<in> set (ks_obligations s)" using ob by (rule map_of_SomeD)
  then have b: "validate_criterion_plan_binding X (obligation_criterion ob) (obligation_plan ob) = Inr ()"
    using validate_state_contents_Inr(2)[OF validate_state_Inr(6)[OF v]] by (auto simp: obligation_checked_def)
  have nx: "\<not> is_dependency_expansion (rc_invocation receipt)"
    using materialize_invocation_Inr(8)[OF m] p by (cases "obligation_plan ob") auto
  from validate_action_receipt_Inr(12)[OF rv] obtain executor verified code where
    r: "rederive X E (rc_invocation receipt) executor (rc_outcome receipt) verified code fs = Inr ()" by blast
  from adv ok obtain st where st: "reduced_obligation_state receipt (Suc (attempts (obligation_state ob)))
       (bs_insert (rc_manifest_digest receipt) (witnesses (obligation_state ob))) = Inr st"
    and o': "map_of (ks_obligations (adv_state adv)) i = Some (ob\<lparr>obligation_state := st\<rparr>)"
    by (rule advance_stages) (use nx ob True in auto)
  have "\<not> is_satisfied st"
  proof (cases "rc_outcome receipt")
    case (Completed obs es ds)
    from refuting_outcome[OF m p b r[unfolded Completed]] st Completed show ?thesis
      by (auto simp: reduced_obligation_state_def)
  qed (use st in \<open>auto simp: reduced_obligation_state_def\<close>)
  with o' p show ?thesis by simp
next
  case False
  from advance_obligations(2)[OF adv ok False ob] p n show ?thesis by blast
qed

text \<open>
  An inquiry never claims more than its methods can show: once it has an unsatisfied obligation
  to search for a counterexample or to verify a formal property, no sequence of actions makes the
  planner report scoped completion.
\<close>

theorem refuting_methods_never_complete:
  assumes "(knowledge_step X E ^^ n) s s'" and "state_containers_ok s"
    and "map_of (ks_obligations s) i = Some ob" and "refuting_plan (obligation_plan ob)"
    and "\<not> is_satisfied (obligation_state ob)"
  shows "plan X E s' fs \<noteq> Inr (PlanTerminal (ScopedComplete d r cs))"
proof
  assume pl: "plan X E s' fs = Inr (PlanTerminal (ScopedComplete d r cs))"
  let ?P = "\<lambda>t. \<exists>ob. map_of (ks_obligations t) i = Some ob \<and> refuting_plan (obligation_plan ob) \<and> \<not> is_satisfied (obligation_state ob)"
  have "?P s'" using assms(1,2) by (rule run_keeps) (use assms(3-5) refuting_step in blast)+
  then obtain ob' where "map_of (ks_obligations s') i = Some ob'" "\<not> is_satisfied (obligation_state ob')" by blast
  then have "\<not> all_satisfied s'" by (force simp: all_satisfied_def list_all_iff bm_values_def dest!: map_of_SomeD)
  moreover from pl have "derive_terminal E s' = Inr (Some (ScopedComplete d r cs))"
    by (auto simp: plan_def bounded_terminal_def split: option.splits)
  ultimately show False using derive_terminal_ScopedComplete(1) by blast
qed

theorem refuting_methods_never_complete_witness:
  "plan (sample_externals 0) sample_engine sample_s2 sample_store \<noteq> Inr (PlanTerminal (ScopedComplete (dg CHR ''2'') 2 [''c1'']))"
proof -
  have "map_of (ks_obligations sample_s0) ''z'' = Some (snd (sample_obligation ''z'' ''c3'' FormalProperty sample_f sample_formal (Open 0 [])))"
    by (simp add: sample_s0_def sample_obligation_def)
  from refuting_methods_never_complete[OF sample_runs(2) _ this] show ?thesis
    by (simp add: sample_obligation_def sample_formal_def)
qed

section \<open>Initialization\<close>

lemma initialize_claims_ok:
  assumes "rfold initialize_claim ds m = Inr m'" and "bm_ok m" shows "bm_ok m'"
  using assms by (rule rfold_invariant) (auto simp: initialize_claim_def)

lemma initialize_hypotheses_ok:
  assumes "rfold initialize_hypothesis ds m = Inr m'" and "bm_ok m" shows "bm_ok m'"
  using assms by (rule rfold_invariant) (auto simp: initialize_hypothesis_def)

definition obligation_index_ok :: "obligation_index \<Rightarrow> bool" where
  "obligation_index_ok = (\<lambda>(obligations, parents, depths, graph).
     bm_ok obligations \<and> bm_ok parents \<and> bm_ok depths \<and> bm_ok graph
     \<and> (\<forall>ts \<in> set (bm_values graph). bs_ok ts)
     \<and> (\<forall>ob \<in> set (bm_values obligations). plan_containers_ok (obligation_plan ob) \<and> bs_ok (witnesses (obligation_state ob))))"

lemma initialize_obligation_ok:
  assumes "initialize_obligation claims d x = Inr y" and "obligation_index_ok x" and "plan_containers_ok (od_plan d)"
  shows "obligation_index_ok y"
proof -
  obtain obligations parents depths graph where x: "x = (obligations, parents, depths, graph)" by (cases x) auto
  from assms(1) x obtain ob where y: "y = (bm_insert (od_obligation_id d) ob obligations,
      index_dependency_root (od_plan d) (parents, depths, graph))"
    and ob: "obligation_plan ob = od_plan d" "obligation_state ob = Open 0 []"
    by (auto simp: initialize_obligation_def Let_def)
  have "\<And>o'. o' \<in> set (bm_values (bm_insert (od_obligation_id d) ob obligations)) \<Longrightarrow> o' = ob \<or> o' \<in> set (bm_values obligations)"
    using bm_values_insert[of "od_obligation_id d" ob obligations] by auto
  moreover have "\<And>ts r. ts \<in> set (bm_values (bm_insert r [] graph)) \<Longrightarrow> ts = [] \<or> ts \<in> set (bm_values graph)"
    using bm_values_insert[of _ "[]" graph] by blast
  ultimately show ?thesis using assms(2,3) x y ob
    by (cases "od_plan d") (fastforce simp: obligation_index_ok_def index_dependency_root_def)+
qed

lemma initialize_Inr:
  assumes "initialize X E inquiry reference draft fs = Inr s"
  obtains claims obligations parents depths graph hypotheses where
    "rfold initialize_claim (draft_claims draft) [] = Inr claims"
    "rfold (initialize_obligation claims) (draft_obligations draft) ([], [], [], []) = Inr (obligations, parents, depths, graph)"
    "rfold initialize_hypothesis (draft_hypotheses draft) [] = Inr hypotheses"
    "validate_state X E s fs = Inr ()"
    "ks_claims s = claims" "ks_obligations s = obligations" "ks_hypotheses s = hypotheses"
    "ks_dependency_parents s = parents" "ks_dependency_depths s = depths" "ks_dependency_graph s = graph"
    "ks_revision s = 0" "ks_inquiry_id s = inquiry" "ks_budget s = draft_budget draft"
    "ks_applied_receipts s = []" "ks_used_evidence_artifacts s = []"
  using assms by (auto simp: initialize_def Let_def)

lemma initialize_keys:
  assumes "initialize X E inquiry reference draft fs = Inr s"
  shows "fst ` set (ks_claims s) = cd_claim_id ` set (draft_claims draft)"
    and "fst ` set (ks_obligations s) = od_obligation_id ` set (draft_obligations draft)"
    and "fst ` set (ks_hypotheses s) = hd_hypothesis_id ` set (draft_hypotheses draft)"
proof -
  from assms obtain obligations parents depths graph where
    cl: "rfold initialize_claim (draft_claims draft) [] = Inr (ks_claims s)"
    and ob: "rfold (initialize_obligation (ks_claims s)) (draft_obligations draft) ([], [], [], [])
             = Inr (ks_obligations s, parents, depths, graph)"
    and hy: "rfold initialize_hypothesis (draft_hypotheses draft) [] = Inr (ks_hypotheses s)"
    by (elim initialize_Inr) simp
  have "fst ` set (ks_claims s) = cd_claim_id ` set (draft_claims draft) \<union> fst ` set ([] :: (string, knowledge_claim) bmap)"
    using cl by (rule rfold_keys[where D = "\<lambda>m. fst ` set m"]) (auto simp: initialize_claim_def)
  then show "fst ` set (ks_claims s) = cd_claim_id ` set (draft_claims draft)" by simp
  have "fst ` set (ks_hypotheses s) = hd_hypothesis_id ` set (draft_hypotheses draft) \<union> fst ` set ([] :: (string, knowledge_hypothesis) bmap)"
    using hy by (rule rfold_keys[where D = "\<lambda>m. fst ` set m"]) (auto simp: initialize_hypothesis_def)
  then show "fst ` set (ks_hypotheses s) = hd_hypothesis_id ` set (draft_hypotheses draft)" by simp
  have "fst ` set (fst (ks_obligations s, parents, depths, graph))
      = od_obligation_id ` set (draft_obligations draft) \<union> fst ` set (fst (([], [], [], []) :: obligation_index))"
    using ob by (rule rfold_keys[where D = "\<lambda>x. fst ` set (fst x)"]) (clarsimp simp: initialize_obligation_def Let_def)
  then show "fst ` set (ks_obligations s) = od_obligation_id ` set (draft_obligations draft)" by simp
qed

lemma initialize_accepted:
  assumes "initialize X E inquiry reference draft fs = Inr s"
    and "\<forall>d \<in> set (draft_obligations draft). plan_containers_ok (od_plan d)"
  shows "validate_state X E s fs = Inr ()" and "state_containers_ok s" and "ks_revision s = 0"
    and "ks_inquiry_id s = inquiry" and "ks_budget s = draft_budget draft"
proof -
  from assms(1) obtain claims obligations parents depths graph hypotheses where
    cl: "rfold initialize_claim (draft_claims draft) [] = Inr claims"
    and ob: "rfold (initialize_obligation claims) (draft_obligations draft) ([], [], [], []) = Inr (obligations, parents, depths, graph)"
    and hy: "rfold initialize_hypothesis (draft_hypotheses draft) [] = Inr hypotheses"
    and v: "validate_state X E s fs = Inr ()"
    and s: "ks_claims s = claims" "ks_obligations s = obligations" "ks_hypotheses s = hypotheses"
      "ks_dependency_parents s = parents" "ks_dependency_depths s = depths" "ks_dependency_graph s = graph"
      "ks_revision s = 0" "ks_inquiry_id s = inquiry" "ks_budget s = draft_budget draft"
      "ks_applied_receipts s = []" "ks_used_evidence_artifacts s = []"
    by (elim initialize_Inr) simp
  have "obligation_index_ok ([], [], [], [])" by (simp add: obligation_index_ok_def bm_values_def)
  with ob have "obligation_index_ok (obligations, parents, depths, graph)"
    by (rule rfold_invariant) (use assms(2) initialize_obligation_ok in blast)
  with initialize_claims_ok[OF cl] initialize_hypotheses_ok[OF hy] s show "state_containers_ok s"
    by (simp add: state_containers_ok_def obligation_index_ok_def)
  show "validate_state X E s fs = Inr ()" "ks_revision s = 0" "ks_inquiry_id s = inquiry" "ks_budget s = draft_budget draft"
    using v s by simp_all
qed

text \<open>
  Initialization yields an accepted genesis: a contract that passes gives a state at revision zero
  with exactly the contract's claims, obligations and hypotheses, all undecided, its budget, and an
  acyclic dependency graph.
\<close>

theorem initialize_genesis:
  assumes "initialize X E inquiry reference draft fs = Inr s"
    and "\<forall>d \<in> set (draft_obligations draft). plan_containers_ok (od_plan d)"
  shows "validate_state X E s fs = Inr () \<and> state_containers_ok s \<and> ks_revision s = 0
    \<and> ks_inquiry_id s = inquiry \<and> ks_budget s = draft_budget draft
    \<and> fst ` set (ks_claims s) = cd_claim_id ` set (draft_claims draft)
    \<and> fst ` set (ks_obligations s) = od_obligation_id ` set (draft_obligations draft)
    \<and> fst ` set (ks_hypotheses s) = hd_hypothesis_id ` set (draft_hypotheses draft)
    \<and> (\<forall>ob \<in> set (bm_values (ks_obligations s)). obligation_state ob = Open 0 [])
    \<and> (\<forall>c \<in> set (bm_values (ks_claims s)). claim_assessment c = Unresolved)
    \<and> (\<forall>h \<in> set (bm_values (ks_hypotheses s)). hypothesis_assessment h = Viable)
    \<and> acyclic (edges (ks_dependency_graph s))"
proof -
  note s = initialize_accepted[OF assms]
  from validate_state_Inr(4)[OF s(1)] s(3) have
    "(\<forall>ob \<in> set (bm_values (ks_obligations s)). obligation_state ob = Open 0 [])
    \<and> (\<forall>c \<in> set (bm_values (ks_claims s)). claim_assessment c = Unresolved)
    \<and> (\<forall>h \<in> set (bm_values (ks_hypotheses s)). hypothesis_assessment h = Viable)"
    by (auto simp: validate_state_origin_def list_ex_iff)
  moreover from validate_state_dependency_ok[OF s(1,2)] have "acyclic (edges (ks_dependency_graph s))"
    by (simp add: dependency_ok_def)
  ultimately show ?thesis using s initialize_keys[OF assms(1)] by simp
qed

theorem initialize_genesis_witness: "state_containers_ok sample_s0 \<and> ks_budget sample_s0 = draft_budget sample_draft"
  using initialize_genesis[OF sample_initialize[of 0] sample_draft_containers] by simp

end
