(* ===== verification/Evidence_Properties.thy ===== *)
theory Evidence_Properties
  imports Sample_Heads
begin

text \<open>
  What the evidence verifiers of \<open>src/knowledge/knowledge_engine.rs\<close> derive from an artifact, and
  for whom an artifact counts.
\<close>

text \<open>
  No outcome claims a formal proof: whatever is proposed and whatever the evidence, a formal
  verification yields an error or the outcome that the backend is not available.
\<close>

theorem formal_verification_never_completes:
  "derive_verified_outcome X (context\<lparr>cx_invocation := InvVerifyFormalProperty formal\<rparr>) proposed evidence fs
    = Inr (OutcomeBlocked AdapterUnavailable)
  \<or> (\<exists>e. derive_verified_outcome X (context\<lparr>cx_invocation := InvVerifyFormalProperty formal\<rparr>) proposed evidence fs = Inl e)"
proof (cases "derive_verified_outcome X (context\<lparr>cx_invocation := InvVerifyFormalProperty formal\<rparr>) proposed evidence fs")
  case (Inr outcome)
  then show ?thesis
    by (cases proposed)
      (auto simp: derive_verified_outcome_def derive_completed_def derive_formal_backend_unavailable_def Let_def)
qed simp




text \<open>Further sample artifacts: a trace of two events, a search of two cases, a scenario.\<close>

definition sample_inv_binding :: "knowledge_predicate \<Rightarrow> invocation_binding" where
  "sample_inv_binding = sample_binding CHR ''0'' CHR ''e'' ''t'' ''c9''"

definition sample_trace :: trace_invocation where
  "sample_trace = \<lparr>tr_binding = sample_inv_binding sample_p, tr_observation_keys = [''k''], tr_max_events = 4\<rparr>"

definition sample_trace_artifact :: trace_evidence_artifact where
  "sample_trace_artifact = \<lparr>ta_binding = sample_authority CHR ''0'' CHR ''e'' ''t'' ''c9'' CHR ''c'',
     ta_protocol = CanonicalEventStreamV1, ta_observation_keys = [''k''], ta_max_events = 4,
     ta_events = [\<lparr>event_ordinal = 0, event_observations = [(''k'', ObsBool False)]\<rparr>,
                  \<lparr>event_ordinal = 1, event_observations = [(''k'', ObsBool True)]\<rparr>]\<rparr>"

definition sample_search :: counterexample_invocation where
  "sample_search = \<lparr>ce_binding = sample_inv_binding sample_p, ce_target = sample_p, ce_max_cases = 4,
     ce_predictions = sample_predictions\<rparr>"

definition sample_search_artifact :: counterexample_evidence_artifact where
  "sample_search_artifact = \<lparr>cea_binding = sample_authority CHR ''0'' CHR ''e'' ''t'' ''c9'' CHR ''c'',
     cea_protocol = DeterministicCaseSearchV1, cea_target = sample_p, cea_max_cases = 4,
     cea_predictions = sample_predictions,
     cea_cases = [(''x1'', \<lparr>case_inputs = [], case_observations = [(''k'', ObsBool True)]\<rparr>),
                  (''x2'', \<lparr>case_inputs = [(''i'', ObsU64 7)], case_observations = [(''k'', ObsBool False)]\<rparr>)]\<rparr>"

definition sample_scenario :: scenario_invocation where
  "sample_scenario = \<lparr>sc_binding = sample_inv_binding sample_p, sc_scenario_id = ''sc'', sc_inputs = [],
     sc_observation_keys = [''k'']\<rparr>"

definition sample_identity :: executor_identity_draft where
  "sample_identity = \<lparr>id_executor_id = ''x'', id_interface_version = ExecutorV1,
     id_implementation = \<lparr>ref_path = sample_file ''impl'', ref_sha256 = dg CHR ''7''\<rparr>\<rparr>"

definition sample_scenario_artifact :: scenario_evidence_artifact where
  "sample_scenario_artifact = \<lparr>sa_binding = sample_authority CHR ''0'' CHR ''e'' ''t'' ''c9'' CHR ''c'',
     sa_protocol = ExactScenarioObservationV1, sa_scenario_id = ''sc'', sa_inputs = [], sa_observation_keys = [''k''],
     sa_observations = [(''k'', ObsBool True)]\<rparr>"

definition sample_verifier :: externals where
  "sample_verifier = (sample_externals 0)\<lparr>
     to_vec := \<lambda>p. (case p of PInputs obs \<Rightarrow> if obs = [] then ''1'' else ''2'' | _ \<Rightarrow> sample_encode 0 p),
     from_slice_trace := \<lambda>_. Some sample_trace_artifact,
     from_slice_counterexample := \<lambda>_. Some sample_search_artifact,
     from_slice_scenario := \<lambda>_. Some sample_scenario_artifact\<rparr>"

definition sample_evidence :: "evidence_kind \<Rightarrow> evidence_artifact_input list" where
  "sample_evidence kind = [\<lparr>input_kind = kind, input_artifact = \<lparr>ref_path = sample_file ''evidence'', ref_sha256 = dg CHR ''a''\<rparr>\<rparr>]"

lemma sample_verifier_simps [simp]:
  "sha sample_verifier = sample_sha" "from_slice_trace sample_verifier bs = Some sample_trace_artifact"
  "from_slice_counterexample sample_verifier bs = Some sample_search_artifact"
  "from_slice_scenario sample_verifier bs = Some sample_scenario_artifact"
  "to_vec sample_verifier (PTraceArtifact a1) = ''a''" "to_vec sample_verifier (PCounterexampleArtifact a2) = ''a''"
  "to_vec sample_verifier (PScenarioArtifact a3) = ''a''"
  "to_vec sample_verifier (PInputs obs) = (if obs = [] then ''1'' else ''2'')"
  "computed sample_verifier d (PString i) = dg CHR ''6''"
  "computed sample_verifier d (PVersion v1 v2 v3 v4) = dg CHR ''8''"
  "computed sample_verifier d (PInvocation i2) = (if invocation_cost i2 = 5 then dg CHR ''b'' else dg CHR ''c'')"
  by (simp_all add: sample_verifier_def computed_def digest_domain_def sample_sha_append)

lemma sample_evidence_read:
  "read_single_evidence sample_verifier sample_root (sample_evidence kind) kind code (sample_store(sample_file ''evidence'' \<mapsto> ''a''))
    = Inr ''a''"
  by (simp add: read_single_evidence_def sample_evidence_def MAX_EVIDENCE_ARTIFACT_BYTES_def)

lemmas verifier_eval = decode_canonical_defs decode_canonical_as_def sample_evidence_read engine_context_def
  evidence_authority_binding_validate_def sample_authority_def sample_inv_binding_def sample_binding_def
  invocation_digest_def sample_executor_def validate_exact_observation_keys_def
  validate_predicate_observation_types_def evaluate_def canonical_completed_def bm_keys_def bm_values_def bs_of_def

lemma sample_trace_derived:
  "derive_trace sample_verifier (engine_context sample_engine (InvObserveTrace sample_trace) sample_executor) sample_trace
     (sample_evidence RuntimeTrace) (sample_store(sample_file ''evidence'' \<mapsto> ''a''))
    = Inr (Completed [(''k'', ObsBool True)] [] [])"
  by (simp add: derive_trace_def sample_trace_def sample_trace_artifact_def verifier_eval sample_p_def insert_all_def
      cong: rbind_first del: rbind_eq_Inr)

lemma sample_search_derived:
  "derive_counterexample sample_verifier (engine_context sample_engine (InvSearchCounterexample sample_search) sample_executor)
     sample_search (sample_evidence CounterexampleSearch) (sample_store(sample_file ''evidence'' \<mapsto> ''a''))
    = Inr (Completed [(''k'', ObsBool False)] [] [])"
  by (simp add: derive_counterexample_def sample_search_def sample_search_artifact_def verifier_eval sample_p_def
      sample_rival_def sample_predictions_def required_observations_def HARD_MAX_SCENARIO_INPUTS_def
      cong: rbind_first del: rbind_eq_Inr)

text \<open>
  A derived trace outcome is what the trace last showed: the events are numbered from zero
  without gaps, exactly the planned keys are observed, and each key has the value of its last event.
\<close>

theorem trace_outcome_is_last_observation:
  assumes "derive_trace X context trace evidence fs = Inr outcome"
  shows "\<exists>bytes artifact obs. from_slice_trace X bytes = Some artifact \<and> outcome = Completed obs [] []
    \<and> map event_ordinal (ta_events artifact) = [0 ..< length (ta_events artifact)]
    \<and> dom (map_of obs) = set (tr_observation_keys trace)
    \<and> (\<forall>key. map_of obs key = last_observed key (ta_events artifact))"
proof -
  from derive_trace_Inr[OF assms] obtain bytes artifact obs where
    a: "from_slice_trace X bytes = Some artifact" and r: "trace_replay (tr_observation_keys trace) 0 (ta_events artifact) [] = Inr obs"
    and d: "dom (map_of obs) = set (tr_observation_keys trace)" and o: "outcome = Completed obs [] []" by blast
  have "map_of obs key = last_observed key (ta_events artifact)" for key
    using trace_replay_observed[OF r] by (auto split: option.splits)
  with a d o trace_replay_ordinals[OF r] show ?thesis by auto
qed

theorem trace_outcome_is_last_observation_witness:
  "\<exists>bytes artifact obs. from_slice_trace sample_verifier bytes = Some artifact
    \<and> Completed [(''k'', ObsBool True)] [] [] = Completed obs [] []
    \<and> (\<forall>key. map_of obs key = last_observed key (ta_events artifact))"
  using trace_outcome_is_last_observation[OF sample_trace_derived] by blast

text \<open>
  A derived counterexample is the first one: the outcome is the first case, in the order of the
  case identifiers, that contradicts the target, every earlier case satisfies it, and no two cases
  have the same encoded inputs.
\<close>

theorem counterexample_outcome_is_first:
  assumes "derive_counterexample X context search evidence fs = Inr outcome"
  shows "\<exists>bytes artifact i. from_slice_counterexample X bytes = Some artifact \<and> i < length (cea_cases artifact)
    \<and> outcome = Completed (case_observations (bm_values (cea_cases artifact) ! i)) [] []
    \<and> evaluate (ce_target search) (case_observations (bm_values (cea_cases artifact) ! i)) = Contradicts
    \<and> (\<forall>j < i. evaluate (ce_target search) (case_observations (bm_values (cea_cases artifact) ! j)) = Matches)
    \<and> distinct (map (\<lambda>c. to_vec X (PInputs (case_inputs c))) (bm_values (cea_cases artifact)))"
  using derive_counterexample_Inr[OF assms] by blast

theorem counterexample_outcome_is_first_witness:
  "\<exists>bytes artifact i. from_slice_counterexample sample_verifier bytes = Some artifact \<and> i < length (cea_cases artifact)
    \<and> Completed [(''k'', ObsBool False)] [] [] = Completed (case_observations (bm_values (cea_cases artifact) ! i)) [] []"
  using counterexample_outcome_is_first[OF sample_search_derived] by blast

text \<open>
  Evidence cannot be moved to another action: contexts that accept the same binding agree on the
  invocation digest, the parent state, the action, the obligation, the attempt and the executor version.
\<close>

theorem evidence_not_transferable:
  assumes "evidence_authority_binding_validate X eb c = Inr ()" and "evidence_authority_binding_validate X eb c' = Inr ()"
  shows "invocation_digest X (cx_invocation c) = invocation_digest X (cx_invocation c')
    \<and> ib_parent_state (binding (cx_invocation c)) = ib_parent_state (binding (cx_invocation c'))
    \<and> ib_action_id (binding (cx_invocation c)) = ib_action_id (binding (cx_invocation c'))
    \<and> ib_obligation_id (binding (cx_invocation c)) = ib_obligation_id (binding (cx_invocation c'))
    \<and> ib_attempt (binding (cx_invocation c)) = ib_attempt (binding (cx_invocation c'))
    \<and> ib_authority_root (binding (cx_invocation c)) = ib_authority_root (binding (cx_invocation c'))
    \<and> att_executor_id (cx_executor c) = att_executor_id (cx_executor c')
    \<and> att_version_digest (cx_executor c) = att_version_digest (cx_executor c')"
  using assms by (simp add: evidence_authority_binding_validate_def Let_def)

theorem evidence_not_transferable_witness:
  "\<exists>eb c c'. c \<noteq> c' \<and> evidence_authority_binding_validate sample_verifier eb c = Inr ()
     \<and> evidence_authority_binding_validate sample_verifier eb c' = Inr ()
     \<and> att_version_digest (cx_executor c) = att_version_digest (cx_executor c')"
proof -
  let ?c = "engine_context sample_engine (InvObserveTrace sample_trace) sample_executor"
  let ?c' = "?c\<lparr>cx_private_root := []\<rparr>" and ?eb = "ta_binding sample_trace_artifact"
  have v: "evidence_authority_binding_validate sample_verifier ?eb ?c = Inr ()"
    "evidence_authority_binding_validate sample_verifier ?eb ?c' = Inr ()"
    by (simp_all add: sample_trace_artifact_def sample_trace_def verifier_eval)
  have "?c \<noteq> ?c'" by (simp add: engine_context_def sample_root_def)
  with v evidence_not_transferable[OF v] show ?thesis by blast
qed

text \<open>
  C13: an honest executor is believed: the artifact that \<open>from_invocation\<close> builds for a scenario, stored and
  read back, is derived to the observations it was built from.
\<close>

theorem scenario_evidence_round_trip:
  assumes "scenario_artifact_from_invocation X (InvExecuteScenario scenario) executor obs = Inr artifact"
    and "from_slice_scenario X (to_vec X (PScenarioArtifact artifact)) = Some artifact"
    and "read_single_evidence X root evidence ScenarioResult
           ''scenario_evidence_cardinality_or_kind_invalid'' fs = Inr (to_vec X (PScenarioArtifact artifact))"
    and "bm_ok obs" and "bs_ok (sc_observation_keys scenario)" and "dom (map_of obs) = set (sc_observation_keys scenario)"
    and "evaluate (criterion_predicate (ib_criterion (sc_binding scenario))) obs \<in> {Matches, Contradicts}"
  shows "derive_scenario X (verification_context X root (InvExecuteScenario scenario) executor) scenario evidence fs
       = Inr (Completed obs [] [])"
  using assms by (rule derive_scenario_complete)

theorem scenario_evidence_round_trip_witness:
  "derive_scenario sample_verifier (verification_context sample_verifier sample_root (InvExecuteScenario sample_scenario) sample_identity)
     sample_scenario (sample_evidence ScenarioResult) (sample_store(sample_file ''evidence'' \<mapsto> ''a''))
    = Inr (Completed [(''k'', ObsBool True)] [] [])"
proof -
  have "scenario_artifact_from_invocation sample_verifier (InvExecuteScenario sample_scenario) sample_identity
      [(''k'', ObsBool True)] = Inr sample_scenario_artifact"
    by (simp add: sample_scenario_artifact_def sample_scenario_def sample_identity_def sample_inv_binding_def
        sample_binding_def sample_authority_def evidence_authority_binding_from_invocation_def
        calculate_executor_version_digest_def invocation_digest_def Let_def cong: rbind_first del: rbind_eq_Inr)
  then show ?thesis
    by (rule scenario_evidence_round_trip)
      (simp_all add: sample_evidence_read, simp_all add: sample_scenario_def sample_inv_binding_def sample_binding_def
        sample_p_def evaluate_def bm_ok_Cons)
qed

end
