(* ===== verification/Head_Properties.thy ===== *)
theory Head_Properties
  imports Sample_Heads
begin

text \<open>
  What the canonical head of an inquiry guarantees to processes that share it: an authenticated
  state is the end of a run of the reducer, a commit publishes exactly the successor of the head it
  started from, a commit from an outdated head changes nothing.
\<close>

text \<open>
  C14: the lineage walk implements its specification: a reference that authenticates leads to the end
  of a run of accepted actions from an accepted state of revision zero of the same inquiry, with as
  many actions as the revision says.
\<close>

theorem authenticated_state_is_run:
  assumes "authenticate_state X E reference fs = Inr s"
  shows "\<exists>genesis. validate_state X E genesis fs = Inr () \<and> ks_revision genesis = 0
    \<and> ks_inquiry_id genesis = ks_inquiry_id s \<and> (knowledge_step X E ^^ ks_revision s) genesis s
    \<and> validate_state X E s fs = Inr ()"
  using assms by (rule authenticate_state_run)

theorem authenticated_state_is_run_witness:
  "\<exists>genesis. ks_revision genesis = 0 \<and> (knowledge_step (sample_externals 0) sample_engine ^^ 1) genesis sample_s1"
  using authenticated_state_is_run[OF sample_authenticate_state(2)[OF holds_sample_store, of 0]] by auto



text \<open>
  C16: no update is lost: after a commit, a second commit that started from the same head with another
  action is refused and the published head stays as the first one left it.
\<close>

theorem second_commit_refused:
  assumes "commit_canonical_advance X E expected adv fs = (Inr h, fs1)"
    and "from_slice_head X (to_vec X (PHead h)) = Some h"
    and "ch_manifest_digest h \<noteq> ch_manifest_digest expected"
    and "map_of (ch_action_receipts h) (tx_action_id (adv_transition adv')) = None"
    and "commit_canonical_advance X E expected adv' fs1 = (r, fs2)"
  shows "(\<exists>e. r = Inl e) \<and> fs2 (canonical_head_pointer_path E (ch_inquiry_id expected))
     = fs1 (canonical_head_pointer_path E (ch_inquiry_id expected))"
proof -
  have "\<exists>bytes. fs1 (canonical_head_pointer_path E (ch_inquiry_id expected)) = Some bytes \<and> from_slice_head X bytes = Some h"
    by (cases rule: commit_cases[OF assms(1)]) (use assms(2) in auto)
  then obtain bytes where b: "fs1 (canonical_head_pointer_path E (ch_inquiry_id expected)) = Some bytes"
    "from_slice_head X bytes = Some h" by blast
  from commit_stale[OF assms(5) b assms(3,4)] have r: "\<exists>e. r = Inl e" .
  then show ?thesis by (cases rule: commit_cases[OF assms(5)]) auto
qed

theorem second_commit_refused_witness:
  "\<exists>e fs2. commit_canonical_advance (sample_externals 0) sample_engine (sample_head 0)
     (sample_advance1 0\<lparr>adv_transition := adv_transition (sample_advance1 0)\<lparr>tx_action_id := dg CHR ''9''\<rparr>\<rparr>)
     (sample_commit_store 0) = (Inl e, fs2)"
proof -
  let ?adv' = "sample_advance1 0\<lparr>adv_transition := adv_transition (sample_advance1 0)\<lparr>tx_action_id := dg CHR ''9''\<rparr>\<rparr>"
  obtain r fs2 where c: "commit_canonical_advance (sample_externals 0) sample_engine (sample_head 0) ?adv'
      (sample_commit_store 0) = (r, fs2)" by fastforce
  have d: "from_slice_head (sample_externals 0) (to_vec (sample_externals 0) (PHead (sample_head 1))) = Some (sample_head 1)"
    using sample_slice_head[of 1 0] by (simp add: sample_encoded_head_def sample_head_fields)
  have "\<exists>e. r = Inl e"
    using second_commit_refused[OF sample_commit d _ _ c] by (simp add: sample_head_def)
  with c show ?thesis by auto
qed

lemma read_head_None:
  assumes "read_canonical_head_if_present X E p fs = Inr None"
  shows "fs p = None"
proof -
  from assms have "read_existing_private_file_bounded (private_root E) p CANONICAL_HEAD_POINTER_MAX_BYTES fs = Inl (Io NotFound)"
    by (auto simp: read_canonical_head_if_present_def split: sum.splits if_splits)
  then have "open_private_reference (private_root E) p fs = Inl (Io NotFound)"
    by (auto simp: read_existing_private_file_bounded_def rbind_eq_Inl open_private_reference_def
        read_opened_store_file CANONICAL_HEAD_POINTER_MAX_BYTES_def split: if_splits)
  then show ?thesis
    by (auto simp: open_private_reference_def rbind_eq_Inl root_relative_path_def split: if_splits option.splits)
qed

lemma genesis_section_Inr:
  assumes "genesis_section X E s reference fs = (Inr h, fs')"
  shows "ch_genesis_state h = ks_manifest_digest s \<and> ch_current_state h = ks_manifest_digest s \<and> ch_revision h = 0
    \<and> (fs' = fs \<and> (\<exists>bytes. fs (canonical_head_pointer_path E (ks_inquiry_id s)) = Some bytes \<and> from_slice_head X bytes = Some h)
      \<or> fs (canonical_head_pointer_path E (ks_inquiry_id s)) = None
        \<and> fs' (canonical_head_pointer_path E (ks_inquiry_id s)) = Some (to_vec X (PHead h)))"
proof (cases "read_canonical_head_if_present X E (canonical_head_pointer_path E (ks_inquiry_id s)) fs")
  case (Inl e)
  with assms show ?thesis by (simp add: genesis_section_def io_bind_def io_read_def Let_def)
next
  case (Inr present)
  show ?thesis
  proof (cases present)
    case None
    define head where "head = seal_head X \<lparr>ch_schema = SchemaV1, ch_authority_root = authority_root E,
                ch_inquiry_id = ks_inquiry_id s, ch_genesis_state = ks_manifest_digest s,
                ch_genesis_reference = reference, ch_current_state = ks_manifest_digest s,
                ch_current_reference = reference, ch_revision = 0, ch_action_receipts = [],
                ch_manifest_digest = digest_domain (sha X) CANONICAL_HEAD_DOMAIN ''unsealed''\<rparr>"
    from assms Inr None have pub: "publish_canonical_head X E (canonical_head_pointer_path E (ks_inquiry_id s)) head fs = (Inr (), fs')"
      and h: "h = head"
      unfolding genesis_section_def Let_def head_def[symmetric]
      by (auto simp: io_bind_def io_read_def io_res_def split: sum.splits prod.splits)
    have "ch_genesis_state head = ks_manifest_digest s" "ch_current_state head = ks_manifest_digest s" "ch_revision head = 0"
      by (simp_all add: head_def seal_head_def)
    with publish_canonical_head_Inr[OF pub] read_head_None[of X E _ fs] Inr None h show ?thesis by simp
  next
    case (Some existing)
    with assms Inr read_head_Inr[of X E _ fs existing] show ?thesis
      by (auto simp: genesis_section_def io_bind_def io_read_def io_res_def Let_def split: sum.splits if_splits)
  qed
qed

text \<open>
  A genesis never replaces a head: establishing a genesis succeeds only for a state of revision
  zero, and returns the head that is already published, when it is this genesis with no action yet,
  or publishes it where there was none.
\<close>
theorem genesis_never_overwrites:
  assumes "establish_canonical_genesis X E s fs = (Inr h, fs')"
  shows "ks_revision s = 0 \<and> ch_genesis_state h = ks_manifest_digest s \<and> ch_current_state h = ks_manifest_digest s
    \<and> ch_revision h = 0
    \<and> ((fs' (canonical_head_pointer_path E (ks_inquiry_id s)) = fs (canonical_head_pointer_path E (ks_inquiry_id s))
        \<and> (\<exists>bytes. fs (canonical_head_pointer_path E (ks_inquiry_id s)) = Some bytes \<and> from_slice_head X bytes = Some h))
      \<or> (fs (canonical_head_pointer_path E (ks_inquiry_id s)) = None
        \<and> fs' (canonical_head_pointer_path E (ks_inquiry_id s)) = Some (to_vec X (PHead h))))"
proof -
  let ?p = "canonical_head_pointer_path E (ks_inquiry_id s)"
  obtain r1 fs1 where ps: "persist_state X E s fs = (r1, fs1)" by fastforce
  have f1: "fs1 ?p = fs ?p" by (rule persist_state_frame[OF ps]) simp
  from assms ps obtain reference where rev: "ks_revision s = 0" and r1: "r1 = Inr reference"
    and lk: "with_private_authority_lock (sha X) (private_root E) (canonical_head_lock_path E (ks_inquiry_id s))
        (genesis_section X E s reference) fs1 = (Inr h, fs')"
    by (auto simp: establish_canonical_genesis_def io_bind_def io_res_def split: sum.splits prod.splits)
  from lk show ?thesis
  proof (cases rule: with_lock_cases)
    case (locked fs2)
    then have "fs2 ?p = fs ?p" using f1 by simp
    with genesis_section_Inr[OF locked(1)] rev show ?thesis by auto
  qed simp
qed

theorem genesis_never_overwrites_witness:
  "ch_genesis_state (sample_head 0) = dg CHR ''0'' \<and> sample_genesis_store 0 sample_pointer = Some (to_vec (sample_externals 0) (PHead (sample_head 0)))"
  using genesis_never_overwrites[OF sample_genesis[of 0]] by (auto simp: sample_pointer_def[symmetric])

text \<open>
  C17: a head can outgrow its reader: publishing does not bound the encoding, reading does, so a
  published head above the limit can be neither loaded nor advanced again.
\<close>

theorem oversized_head_is_stuck:
  assumes "good_root (private_root E)"
    and "publish_canonical_head X E (canonical_head_pointer_path E i) h fs = (Inr u, fs')"
    and "CANONICAL_HEAD_POINTER_MAX_BYTES < length (to_vec X (PHead h))"
  shows "load_canonical_head X E i fs' = Inl (Invalid ''private_file_read_limit_exceeded'')
    \<and> (ch_inquiry_id expected = i \<longrightarrow>
        commit_section X E expected adv reference fs' = (Inl (Invalid ''private_file_read_limit_exceeded''), fs'))"
proof -
  from publish_canonical_head_Inr[OF assms(2)]
  have "fs' (canonical_head_pointer_path E i) = Some (to_vec X (PHead h))" by simp
  with assms have "read_canonical_head_if_present X E (canonical_head_pointer_path E i) fs'
      = Inl (Invalid ''private_file_read_limit_exceeded'')"
    by (intro read_head_oversized) (auto intro: pointer_confined)
  then show ?thesis
    by (auto simp: load_canonical_head_def commit_section_def io_bind_def io_read_def Let_def)
qed

theorem oversized_head_is_stuck_witness:
  "\<exists>fs'. publish_canonical_head (sample_externals 1048576) sample_engine sample_pointer (sample_head 0) sample_store = (Inr (), fs')
    \<and> load_canonical_head (sample_externals 1048576) sample_engine ''q'' fs' = Inl (Invalid ''private_file_read_limit_exceeded'')"
proof -
  note pub = sample_publish[OF holds_sample_store le0[of 1], of 1048576]
  have "CANONICAL_HEAD_POINTER_MAX_BYTES < length (to_vec (sample_externals 1048576) (PHead (sample_head 0)))"
    by (simp add: CANONICAL_HEAD_POINTER_MAX_BYTES_def sample_head_fields revision_digit_def)
  from oversized_head_is_stuck[OF _ pub[unfolded sample_pointer_def] this] show ?thesis
    using pub by (simp add: sample_pointer_def)
qed

end
