(* ===== verification/Ledger.thy ===== *)
theory Ledger
  imports Authority
begin

text \<open>
  The hash-chained event ledger (\<open>src/foundation/ledger.rs\<close>): one JSON record per line, each with
  the hash of its predecessor, in the current format and in the legacy one. The file is read
  through the private store of \<^theory_text>\<open>Authority\<close>; \<open>serde_json\<close> is the parameter \<open>serde\<close>, SHA-256 the
  parameter \<open>sha\<close>. The theory holds the wire types, the line reader of the standard library, the
  verification loop and the operations, then the abstract ledger (the list of its entries) that
  the operations implement and the lemmas that connect the two.
\<close>

section \<open>Values and events\<close>

text \<open>
  \<open>serde_json::Value\<close>, with the numbers of the library left open. An object is a \<open>BTreeMap\<close> (the
  feature that preserves the insertion order is not enabled).
\<close>

datatype 'n json =
    JNull
  | JBool bool
  | JNumber 'n
  | JString string
  | JArray "'n json list"
  | JObject "(string, 'n json) bmap"

record ledger_event =
  le_schema :: string
  le_seq :: nat
  le_prev_hash :: string
  le_kind :: string
  le_payload_json :: string
  le_event_hash :: string

record ledger_status =
  ls_events :: nat
  ls_head :: string

record 'n legacy_ledger_event =
  v1_seq :: nat
  v1_prev_hash :: string
  v1_kind :: string
  v1_payload :: "'n json"
  v1_event_hash :: string

text \<open>
  The library calls: \<open>from_str\<close>, \<open>to_string\<close> and \<open>to_vec\<close> of a value (the same bytes), \<open>to_vec\<close> of
  an event and the two derived \<open>from_value\<close>. \<open>None\<close> is a library error.
\<close>

record 'n serde =
  from_str :: "string \<Rightarrow> 'n json option"
  value_to_string :: "'n json \<Rightarrow> string option"
  event_to_vec :: "ledger_event \<Rightarrow> string option"
  event_of_value :: "'n json \<Rightarrow> ledger_event option"
  legacy_of_value :: "'n json \<Rightarrow> 'n legacy_ledger_event option"

fun json_get :: "string \<Rightarrow> 'n json \<Rightarrow> 'n json option" where
  "json_get key (JObject m) = map_of m key"
| "json_get key _ = None"

fun json_as_str :: "'n json \<Rightarrow> string option" where
  "json_as_str (JString s) = Some s"
| "json_as_str _ = None"

definition json_get_str :: "string \<Rightarrow> 'n json \<Rightarrow> string option" where
  "json_get_str key v = Option.bind (json_get key v) json_as_str"

definition EVENT_SCHEMA_V2 :: string where
  "EVENT_SCHEMA_V2 = ''tidex.ledger_event/v2''"

definition DOMAIN_V1 :: string where
  "DOMAIN_V1 = ''TIDEX:LEDGER:v1'' @ [CHR 0x00]"

definition DOMAIN_V2 :: string where
  "DOMAIN_V2 = ''TIDEX:LEDGER:v2'' @ [CHR 0x00]"

definition MAX_LEDGER_BYTES :: nat where
  "MAX_LEDGER_BYTES = 256 * 1024 * 1024"

fun json_canonical :: "'n json \<Rightarrow> 'n json" where
  "json_canonical (JObject m) =
     JObject (fold (\<lambda>(k, v). bm_insert k v) (sort_key fst (map (\<lambda>(k, v). (k, json_canonical v)) m)) [])"
| "json_canonical (JArray vs) = JArray (map json_canonical vs)"
| "json_canonical v = v"

definition event_payload :: "'n serde \<Rightarrow> ledger_event \<Rightarrow> 'n json res" where
  "event_payload S event = ok_or (from_str S (le_payload_json event)) Json"

definition canonical_payload_json :: "'n serde \<Rightarrow> 'n json \<Rightarrow> string res" where
  "canonical_payload_json S payload = ok_or (value_to_string S (json_canonical payload)) Json"

text \<open>\<open>u64::to_be_bytes\<close>.\<close>

definition to_be_bytes :: "nat \<Rightarrow> string" where
  "to_be_bytes n = map (\<lambda>i. char_of (n div 256 ^ (7 - i))) [0..<8]"

definition hash_event_v1 ::
  "'n serde \<Rightarrow> (string \<Rightarrow> digest) \<Rightarrow> nat \<Rightarrow> string \<Rightarrow> string \<Rightarrow> 'n json \<Rightarrow> string res" where
  "hash_event_v1 S sha seq prev kind payload =
     rbind (ok_or (value_to_string S (json_canonical payload)) Json) (\<lambda>bytes.
     Inr (sha (DOMAIN_V1 @ to_be_bytes seq @ prev @ kind @ bytes)))"

definition hash_event_v2 :: "(string \<Rightarrow> digest) \<Rightarrow> nat \<Rightarrow> string \<Rightarrow> string \<Rightarrow> string \<Rightarrow> string" where
  "hash_event_v2 sha seq prev kind payload_json =
     sha (DOMAIN_V2 @ to_be_bytes seq @ prev @ kind @ payload_json)"

section \<open>Lines\<close>

text \<open>
  \<open>BufReader::lines\<close> of the standard library: a line ends at \<open>\n\<close>, a \<open>\r\<close> before it is dropped, a
  last line without terminator counts if it is not empty, and a line that is not valid UTF-8 is
  an I/O error when the iteration reaches it.
\<close>

definition LF :: char where
  "LF = CHR 0x0A"

definition CR :: char where
  "CR = CHR 0x0D"

definition strip_cr :: "string \<Rightarrow> string" where
  "strip_cr line = (if line \<noteq> [] \<and> last line = CR then butlast line else line)"

fun buf_lines :: "string \<Rightarrow> string \<Rightarrow> string list" where
  "buf_lines buf [] = (if buf = [] then [] else [buf])"
| "buf_lines buf (c # cs) =
     (if c = LF then strip_cr buf # buf_lines [] cs else buf_lines (buf @ [c]) cs)"

definition utf8_continuation :: "nat \<Rightarrow> bool" where
  "utf8_continuation b \<longleftrightarrow> 128 \<le> b \<and> b \<le> 191"

text \<open>The second byte of a longer sequence excludes overlong forms, surrogates and codes above 10FFFF.\<close>

definition utf8_second :: "nat \<Rightarrow> nat \<Rightarrow> bool" where
  "utf8_second b0 b1 \<longleftrightarrow>
     (if b0 = 224 then 160 \<le> b1 \<and> b1 \<le> 191
      else if b0 = 237 then 128 \<le> b1 \<and> b1 \<le> 159
      else if b0 = 240 then 144 \<le> b1 \<and> b1 \<le> 191
      else if b0 = 244 then 128 \<le> b1 \<and> b1 \<le> 143
      else utf8_continuation b1)"

fun utf8_codes_valid :: "nat list \<Rightarrow> bool" where
  "utf8_codes_valid [] = True"
| "utf8_codes_valid (b0 # r) =
     (if b0 < 128 then utf8_codes_valid r
      else if b0 < 194 then False
      else if b0 < 224 then (case r of b1 # r1 \<Rightarrow> utf8_continuation b1 \<and> utf8_codes_valid r1 | _ \<Rightarrow> False)
      else if b0 < 240 then
        (case r of b1 # b2 # r2 \<Rightarrow> utf8_second b0 b1 \<and> utf8_continuation b2 \<and> utf8_codes_valid r2 | _ \<Rightarrow> False)
      else if b0 < 245 then
        (case r of b1 # b2 # b3 # r3 \<Rightarrow>
            utf8_second b0 b1 \<and> utf8_continuation b2 \<and> utf8_continuation b3 \<and> utf8_codes_valid r3
         | _ \<Rightarrow> False)
      else False)"

definition utf8_valid :: "string \<Rightarrow> bool" where
  "utf8_valid s = utf8_codes_valid (map of_char s)"

text \<open>
  \<open>str::trim\<close> removes the characters with the Unicode property \<open>White_Space\<close>; a string trims to
  the empty one when it has no other character. The property in UTF-8: the ASCII blanks, U+0085,
  U+00A0, U+1680, U+2000 to U+200A, U+2028, U+2029, U+202F, U+205F and U+3000.
\<close>

fun codes_blank :: "nat list \<Rightarrow> bool" where
  "codes_blank [] = True"
| "codes_blank (b0 # r) =
     (if (9 \<le> b0 \<and> b0 \<le> 13) \<or> b0 = 32 then codes_blank r
      else if b0 = 194 then (case r of b1 # r1 \<Rightarrow> (b1 = 133 \<or> b1 = 160) \<and> codes_blank r1 | _ \<Rightarrow> False)
      else (case r of
          b1 # b2 # r2 \<Rightarrow>
            ((b0 = 225 \<and> b1 = 154 \<and> b2 = 128)
             \<or> (b0 = 226 \<and> b1 = 128 \<and> ((128 \<le> b2 \<and> b2 \<le> 138) \<or> b2 = 168 \<or> b2 = 169 \<or> b2 = 175))
             \<or> (b0 = 226 \<and> b1 = 129 \<and> b2 = 159)
             \<or> (b0 = 227 \<and> b1 = 128 \<and> b2 = 128)) \<and> codes_blank r2
        | _ \<Rightarrow> False))"

definition trim_is_empty :: "string \<Rightarrow> bool" where
  "trim_is_empty s = codes_blank (map of_char s)"

section \<open>Verification\<close>

definition ledger_path :: "path \<Rightarrow> path" where
  "ledger_path root = root @ [Normal ''state'', Normal ''ledger.jsonl'']"

definition lock_path :: "path \<Rightarrow> path" where
  "lock_path root = root @ [Normal ''state'', Normal ''.ledger.lock'']"

definition read_ledger_bytes :: "path \<Rightarrow> store \<Rightarrow> string option res" where
  "read_ledger_bytes root fs =
     (case read_existing_private_file_bounded root (ledger_path root) MAX_LEDGER_BYTES fs of
        Inr bytes \<Rightarrow> Inr (Some bytes)
      | Inl e \<Rightarrow> if e = Io NotFound then Inr None else Inl e)"

definition verify_v2_event ::
  "'n serde \<Rightarrow> (string \<Rightarrow> digest) \<Rightarrow> ledger_event \<Rightarrow> nat \<Rightarrow> string \<Rightarrow> unit res" where
  "verify_v2_event S sha event seq prev =
     rbind (reject (le_schema event \<noteq> EVENT_SCHEMA_V2 \<or> le_seq event \<noteq> seq \<or> le_prev_hash event \<noteq> prev)
              (Integrity ''ledger_chain_sequence_or_parent_mismatch'')) (\<lambda>_.
     rbind (ok_or (from_str S (le_payload_json event)) Json) (\<lambda>_.
     let expected = hash_event_v2 sha (le_seq event) (le_prev_hash event) (le_kind event) (le_payload_json event) in
     reject (expected \<noteq> le_event_hash event) (Integrity ''ledger_event_hash_mismatch'')))"

definition verify_v1_event ::
  "'n serde \<Rightarrow> (string \<Rightarrow> digest) \<Rightarrow> 'n legacy_ledger_event \<Rightarrow> nat \<Rightarrow> string \<Rightarrow> unit res" where
  "verify_v1_event S sha event seq prev =
     rbind (reject (v1_seq event \<noteq> seq \<or> v1_prev_hash event \<noteq> prev)
              (Integrity ''ledger_chain_sequence_or_parent_mismatch'')) (\<lambda>_.
     rbind (hash_event_v1 S sha (v1_seq event) (v1_prev_hash event) (v1_kind event) (v1_payload event)) (\<lambda>expected.
     reject (expected \<noteq> v1_event_hash event)
       (Integrity ''ledger_v1_event_hash_mismatch_requires_migration'')))"

text \<open>One record of the file, in the format its \<open>schema\<close> field selects.\<close>

datatype 'n ledger_entry = EntryV1 "'n legacy_ledger_event" | EntryV2 ledger_event

definition parse_entry :: "'n serde \<Rightarrow> string \<Rightarrow> 'n ledger_entry res" where
  "parse_entry S line =
     rbind (ok_or (from_str S line) Json) (\<lambda>raw.
     if json_get_str ''schema'' raw = Some EVENT_SCHEMA_V2
     then rbind (ok_or (event_of_value S raw) Json) (\<lambda>event. Inr (EntryV2 event))
     else rbind (ok_or (legacy_of_value S raw) Json) (\<lambda>event. Inr (EntryV1 event)))"

fun verify_entry :: "'n serde \<Rightarrow> (string \<Rightarrow> digest) \<Rightarrow> 'n ledger_entry \<Rightarrow> nat \<Rightarrow> string \<Rightarrow> string res" where
  "verify_entry S sha (EntryV2 event) seq prev =
     rbind (verify_v2_event S sha event seq prev) (\<lambda>_. Inr (le_event_hash event))"
| "verify_entry S sha (EntryV1 event) seq prev =
     rbind (verify_v1_event S sha event seq prev) (\<lambda>_. Inr (v1_event_hash event))"

definition verify_line ::
  "'n serde \<Rightarrow> (string \<Rightarrow> digest) \<Rightarrow> string \<Rightarrow> nat \<times> string \<Rightarrow> (nat \<times> string) res" where
  "verify_line S sha line = (\<lambda>(seq, prev).
     rbind (reject (\<not> utf8_valid line) (Io OtherIo)) (\<lambda>_.
     if trim_is_empty line then Inr (seq, prev)
     else rbind (ok_or (checked_add 64 seq 1) (Integrity ''ledger_sequence_overflow'')) (\<lambda>seq.
          rbind (parse_entry S line) (\<lambda>entry.
          rbind (verify_entry S sha entry seq prev) (\<lambda>prev. Inr (seq, prev))))))"

definition verify_ledger_bytes :: "'n serde \<Rightarrow> (string \<Rightarrow> digest) \<Rightarrow> string \<Rightarrow> ledger_status res" where
  "verify_ledger_bytes S sha bytes =
     rbind (rfold (verify_line S sha) (buf_lines [] bytes) (0, replicate 64 CHR ''0'')) (\<lambda>(seq, prev).
     Inr \<lparr>ls_events = seq, ls_head = prev\<rparr>)"

definition verify :: "'n serde \<Rightarrow> (string \<Rightarrow> digest) \<Rightarrow> path \<Rightarrow> store \<Rightarrow> ledger_status res" where
  "verify S sha root fs =
     rbind (read_ledger_bytes root fs) (\<lambda>bytes.
     case bytes of
       Some bytes \<Rightarrow> verify_ledger_bytes S sha bytes
     | None \<Rightarrow> Inr \<lparr>ls_events = 0, ls_head = replicate 64 CHR ''0''\<rparr>)"

section \<open>Operations\<close>

text \<open>
  The readers walk the lines a second time after verification; \<open>collect_line\<close>, \<open>hash_line\<close> and
  \<open>find_line\<close> are the bodies of their loops.
\<close>

definition collect_line :: "'n serde \<Rightarrow> string \<Rightarrow> ledger_event list \<Rightarrow> ledger_event list res" where
  "collect_line S line events =
     rbind (reject (\<not> utf8_valid line) (Io OtherIo)) (\<lambda>_.
     if trim_is_empty line then Inr events
     else rbind (ok_or (from_str S line) Json) (\<lambda>raw.
          rbind (reject (json_get_str ''schema'' raw \<noteq> Some EVENT_SCHEMA_V2)
                   (Integrity ''ledger_diagnostic_snapshot_contains_legacy_event'')) (\<lambda>_.
          rbind (ok_or (event_of_value S raw) Json) (\<lambda>event. Inr (events @ [event])))))"

definition verified_v2_snapshot ::
  "'n serde \<Rightarrow> (string \<Rightarrow> digest) \<Rightarrow> path \<Rightarrow> store \<Rightarrow> (ledger_status \<times> ledger_event list) res" where
  "verified_v2_snapshot S sha root fs =
     rbind (read_ledger_bytes root fs) (\<lambda>read.
     case read of
       None \<Rightarrow> Inr (\<lparr>ls_events = 0, ls_head = replicate 64 CHR ''0''\<rparr>, [])
     | Some bytes \<Rightarrow>
         rbind (verify_ledger_bytes S sha bytes) (\<lambda>status.
         rbind (rfold (collect_line S) (buf_lines [] bytes) []) (\<lambda>events.
         rbind (reject (length events \<noteq> ls_events status)
                  (Integrity ''ledger_diagnostic_snapshot_count_mismatch'')) (\<lambda>_.
         Inr (status, events)))))"

definition append_section ::
  "'n serde \<Rightarrow> (string \<Rightarrow> digest) \<Rightarrow> path \<Rightarrow> string \<Rightarrow> 'n json \<Rightarrow> ledger_event io" where
  "append_section S sha root kind payload =
     io_bind (io_read (read_ledger_bytes root)) (\<lambda>read.
     let current = (case read of None \<Rightarrow> [] | Some bytes \<Rightarrow> bytes) in
     io_bind (io_res (verify_ledger_bytes S sha current)) (\<lambda>status.
     io_bind (io_res (ok_or (checked_add 64 (ls_events status) 1) (Integrity ''ledger_sequence_overflow''))) (\<lambda>seq.
     io_bind (io_res (canonical_payload_json S payload)) (\<lambda>payload_json.
     io_bind (io_res (ok_or (from_str S payload_json) Json)) (\<lambda>_.
     let event = \<lparr>le_schema = EVENT_SCHEMA_V2, le_seq = seq, le_prev_hash = ls_head status, le_kind = kind,
                  le_payload_json = payload_json,
                  le_event_hash = hash_event_v2 sha seq (ls_head status) kind payload_json\<rparr> in
     io_bind (io_res (ok_or (event_to_vec S event) Json)) (\<lambda>vec.
     let line = vec @ [LF] in
     io_bind (io_res (ok_or (checked_add 64 (length current) (length line)) (Invalid ''ledger_size_overflow''))) (\<lambda>next_len.
     io_bind (io_res (reject (MAX_LEDGER_BYTES < next_len) (Invalid ''ledger_size_limit_exceeded''))) (\<lambda>_.
     let current = current @ line in
     io_bind (replace_private_file_atomic sha root (ledger_path root) current None) (\<lambda>_.
     io_bind (io_read (read_ledger_bytes root)) (\<lambda>read.
     io_bind (io_res (ok_or read (Integrity ''ledger_missing_after_atomic_replace''))) (\<lambda>persisted.
     io_bind (io_res (reject (persisted \<noteq> current) (Integrity ''ledger_atomic_replace_content_mismatch''))) (\<lambda>_.
     io_bind (io_res (verify_ledger_bytes S sha persisted)) (\<lambda>persisted_status.
     io_bind (io_res (reject (ls_events persisted_status \<noteq> seq \<or> ls_head persisted_status \<noteq> le_event_hash event)
                        (Integrity ''ledger_atomic_replace_chain_mismatch''))) (\<lambda>_.
     io_res (Inr event)))))))))))))))"

definition append_event ::
  "'n serde \<Rightarrow> (string \<Rightarrow> digest) \<Rightarrow> path \<Rightarrow> string \<Rightarrow> 'n json \<Rightarrow> ledger_event io" where
  "append_event S sha root kind payload =
     io_bind (io_res (reject (trim_is_empty kind) (Invalid ''ledger_kind_empty''))) (\<lambda>_.
     with_private_authority_lock sha root (lock_path root) (append_section S sha root kind payload))"

fun hash_lines :: "'n serde \<Rightarrow> string \<Rightarrow> string list \<Rightarrow> bool res" where
  "hash_lines S target [] = Inr False"
| "hash_lines S target (line # lines) =
     rbind (reject (\<not> utf8_valid line) (Io OtherIo)) (\<lambda>_.
     if trim_is_empty line then hash_lines S target lines
     else rbind (ok_or (from_str S line) Json) (\<lambda>raw.
          if json_get_str ''event_hash'' raw = Some target then Inr True
          else hash_lines S target lines))"

definition contains_event_hash ::
  "'n serde \<Rightarrow> (string \<Rightarrow> digest) \<Rightarrow> path \<Rightarrow> string \<Rightarrow> store \<Rightarrow> bool res" where
  "contains_event_hash S sha root target_hash fs =
     rbind (read_ledger_bytes root fs) (\<lambda>read.
     case read of
       None \<Rightarrow> Inr False
     | Some bytes \<Rightarrow>
         rbind (verify_ledger_bytes S sha bytes) (\<lambda>_.
         hash_lines S target_hash (buf_lines [] bytes)))"

definition find_line ::
  "'n serde \<Rightarrow> string \<Rightarrow> string \<Rightarrow> string \<Rightarrow> string \<Rightarrow> ledger_event option \<Rightarrow> ledger_event option res" where
  "find_line S kind key expected line matched =
     rbind (reject (\<not> utf8_valid line) (Io OtherIo)) (\<lambda>_.
     if trim_is_empty line then Inr matched
     else rbind (ok_or (from_str S line) Json) (\<lambda>raw.
          if json_get_str ''schema'' raw \<noteq> Some EVENT_SCHEMA_V2 then Inr matched
          else rbind (ok_or (event_of_value S raw) Json) (\<lambda>event.
               if le_kind event \<noteq> kind then Inr matched
               else rbind (event_payload S event) (\<lambda>payload.
                    if json_get_str key payload = Some expected
                    then rbind (reject (matched \<noteq> None) (Integrity ''ledger_v2_event_payload_match_ambiguous''))
                           (\<lambda>_. Inr (Some event))
                    else Inr matched))))"

definition find_v2_event_by_payload_string ::
  "'n serde \<Rightarrow> (string \<Rightarrow> digest) \<Rightarrow> path \<Rightarrow> string \<Rightarrow> string \<Rightarrow> string \<Rightarrow> store \<Rightarrow> ledger_event option res" where
  "find_v2_event_by_payload_string S sha root kind key expected fs =
     rbind (read_ledger_bytes root fs) (\<lambda>read.
     case read of
       None \<Rightarrow> Inr None
     | Some bytes \<Rightarrow>
         rbind (verify_ledger_bytes S sha bytes) (\<lambda>_.
         rfold (find_line S kind key expected) (buf_lines [] bytes) None))"

section \<open>The abstract ledger\<close>

text \<open>
  A ledger file holds the entries \<open>es\<close> when its lines are text and the lines that are not blank
  parse to \<open>es\<close>; verification is then the walk of \<open>chain_step\<close> along \<open>es\<close>.
\<close>

definition genesis_head :: string where
  "genesis_head = replicate 64 CHR ''0''"

definition holds_entries :: "'n serde \<Rightarrow> string \<Rightarrow> 'n ledger_entry list \<Rightarrow> bool" where
  "holds_entries S bytes es \<longleftrightarrow>
     list_all utf8_valid (buf_lines [] bytes)
     \<and> list_all2 (\<lambda>line e. parse_entry S line = Inr e) (filter (\<lambda>l. \<not> trim_is_empty l) (buf_lines [] bytes)) es"

definition chain_step ::
  "'n serde \<Rightarrow> (string \<Rightarrow> digest) \<Rightarrow> 'n ledger_entry \<Rightarrow> nat \<times> string \<Rightarrow> (nat \<times> string) res" where
  "chain_step S sha e = (\<lambda>(seq, prev).
     rbind (ok_or (checked_add 64 seq 1) (Integrity ''ledger_sequence_overflow'')) (\<lambda>seq.
     rbind (verify_entry S sha e seq prev) (\<lambda>prev. Inr (seq, prev))))"

text \<open>What the documentation of \<open>serde_json\<close> promises and the ledger relies on.\<close>

definition serde_laws :: "'n serde \<Rightarrow> bool" where
  "serde_laws S \<longleftrightarrow>
     (\<forall>v s. value_to_string S v = Some s \<longrightarrow> from_str S s \<noteq> None)
     \<and> (\<forall>e l. event_to_vec S e = Some l \<longrightarrow>
          utf8_valid l \<and> LF \<notin> set l \<and> l \<noteq> [] \<and> last l \<noteq> CR \<and> \<not> trim_is_empty l
          \<and> (\<exists>v. from_str S l = Some v \<and> json_get_str ''schema'' v = Some (le_schema e)
               \<and> event_of_value S v = Some e))
     \<and> (\<forall>v e. event_of_value S v = Some e \<and> json_get_str ''schema'' v \<noteq> None \<longrightarrow>
          json_get_str ''schema'' v = Some (le_schema e)
          \<and> json_get_str ''event_hash'' v = Some (le_event_hash e))"

definition terminated :: "string \<Rightarrow> bool" where
  "terminated bytes \<longleftrightarrow> bytes = [] \<or> last bytes = LF"

lemma verify_line_eq_Inr:
  "verify_line S sha line s = Inr t \<longleftrightarrow> utf8_valid line \<and>
     (if trim_is_empty line then t = s else \<exists>e. parse_entry S line = Inr e \<and> chain_step S sha e s = Inr t)"
  by (cases s; cases t) (auto simp: verify_line_def chain_step_def)

lemma list_all2_ex_Cons:
  "(\<exists>ys. list_all2 P (x # xs) ys \<and> Q ys) \<longleftrightarrow> (\<exists>y ys. P x y \<and> list_all2 P xs ys \<and> Q (y # ys))"
  by (auto simp: list_all2_Cons1)

lemma verify_lines_iff:
  "rfold (verify_line S sha) ls s = Inr t \<longleftrightarrow>
     list_all utf8_valid ls
     \<and> (\<exists>es. list_all2 (\<lambda>line e. parse_entry S line = Inr e) (filter (\<lambda>l. \<not> trim_is_empty l) ls) es
          \<and> rfold (chain_step S sha) es s = Inr t)"
proof (induction ls arbitrary: s)
  case (Cons l ls)
  show ?case
  proof (cases "trim_is_empty l")
    case False
    have "rfold (verify_line S sha) (l # ls) s = Inr t \<longleftrightarrow> utf8_valid l \<and>
        (\<exists>e u. parse_entry S l = Inr e \<and> chain_step S sha e s = Inr u \<and> rfold (verify_line S sha) ls u = Inr t)"
      unfolding rfold.simps rbind_eq_Inr verify_line_eq_Inr using False by metis
    then show ?thesis
      unfolding Cons.IH by (simp add: False list_all2_ex_Cons del: split_paired_Ex) blast
  qed (auto simp: verify_line_eq_Inr Cons.IH)
qed auto

lemma verify_ledger_bytes_iff:
  "verify_ledger_bytes S sha bytes = Inr st \<longleftrightarrow>
     (\<exists>es. holds_entries S bytes es
        \<and> rfold (chain_step S sha) es (0, genesis_head) = Inr (ls_events st, ls_head st))"
  by (cases st) (auto simp: verify_ledger_bytes_def holds_entries_def verify_lines_iff genesis_head_def)

lemma holds_entries_unique: "holds_entries S bytes es \<Longrightarrow> holds_entries S bytes es' \<Longrightarrow> es = es'"
  unfolding holds_entries_def
  by (auto simp: list_all2_conv_all_nth intro!: nth_equalityI)

lemma buf_lines_after_LF: "buf_lines buf (xs @ LF # ys) = buf_lines buf (xs @ [LF]) @ buf_lines [] ys"
  by (induction xs arbitrary: buf) auto

lemma buf_lines_append: "terminated b \<Longrightarrow> buf_lines [] (b @ x) = buf_lines [] b @ buf_lines [] x"
proof (cases b rule: rev_cases)
  case (snoc b' c)
  assume "terminated b"
  with snoc have "c = LF" by (simp add: terminated_def)
  with snoc show ?thesis by (simp add: buf_lines_after_LF[of "[]" b' x])
qed simp

lemma buf_lines_line: "LF \<notin> set l \<Longrightarrow> buf_lines buf (l @ [LF]) = [strip_cr (buf @ l)]"
  by (induction l arbitrary: buf) auto

lemma holds_entries_append:
  assumes "terminated b" and "holds_entries S b es"
    and "LF \<notin> set l" "strip_cr l = l" "utf8_valid l" "\<not> trim_is_empty l" "parse_entry S l = Inr e"
  shows "holds_entries S (b @ l @ [LF]) (es @ [e])"
  using assms
  by (simp add: holds_entries_def buf_lines_append buf_lines_line list_all2_appendI)

lemma event_line:
  assumes "serde_laws S" and "event_to_vec S e = Some l" and "le_schema e = EVENT_SCHEMA_V2"
  shows "LF \<notin> set l" "strip_cr l = l" "utf8_valid l" "\<not> trim_is_empty l" "parse_entry S l = Inr (EntryV2 e)"
proof -
  from assms obtain v where v: "from_str S l = Some v" "json_get_str ''schema'' v = Some EVENT_SCHEMA_V2"
      "event_of_value S v = Some e" and l: "utf8_valid l" "LF \<notin> set l" "last l \<noteq> CR" "\<not> trim_is_empty l"
    unfolding serde_laws_def by metis
  from l show "LF \<notin> set l" "strip_cr l = l" "utf8_valid l" "\<not> trim_is_empty l" by (simp_all add: strip_cr_def)
  from v show "parse_entry S l = Inr (EntryV2 e)" by (simp add: parse_entry_def)
qed

section \<open>The store under the ledger\<close>

lemma ledger_paths:
  assumes "good_root root"
  shows "confined root (ledger_path root)" "confined root (lock_path root)"
    "ledger_path root \<noteq> lock_path root"
  using assms by (simp_all add: confined_iff ledger_path_def lock_path_def)

lemma read_ledger_bytes_eq:
  assumes "good_root root"
  shows "read_ledger_bytes root fs =
    (case fs (ledger_path root) of None \<Rightarrow> Inr None
     | Some b \<Rightarrow> if MAX_LEDGER_BYTES < length b then Inl (Invalid ''private_file_read_limit_exceeded'')
                 else Inr (Some b))"
  using ledger_paths[OF assms] assms
  by (auto simp: read_ledger_bytes_def read_existing_private_file_bounded_def open_private_reference_eq
      read_opened_store_file MAX_LEDGER_BYTES_def split: option.splits)

lemma replace_eq:
  assumes "confined root p"
  shows "replace_private_file_atomic sha root p bytes None fs = (Inr (digest_bytes sha bytes), fs(p \<mapsto> bytes))"
proof -
  from assms obtain relative where "root_relative_path root p = Inr relative" by (auto simp: confined_def)
  with assms show ?thesis
    by (simp add: replace_private_file_atomic_def io_bind_def io_read_def io_res_def
        existing_regular_file_eq root_relative_path_join)
qed

lemma lock_eq:
  assumes "good_root root" and "confined root p" and "fs p = None \<or> fs p = Some []"
  shows "with_private_authority_lock sha root p op fs = op (fs(p \<mapsto> []))"
  using assms by (auto simp: with_private_authority_lock_def io_bind_def io_read_def write_or_verify_eq
      open_private_reference_eq fun_upd_idem)

text \<open>
  What a ledger in service looks like: its file, if there is one, ends with a newline, is within
  the limit and verifies, and the lock file is the empty one the authority makes.
\<close>

definition ledger_content :: "path \<Rightarrow> store \<Rightarrow> string" where
  "ledger_content root fs = (case fs (ledger_path root) of None \<Rightarrow> [] | Some b \<Rightarrow> b)"

definition ledger_ready ::
  "'n serde \<Rightarrow> (string \<Rightarrow> digest) \<Rightarrow> path \<Rightarrow> store \<Rightarrow> 'n ledger_entry list \<Rightarrow> string \<Rightarrow> bool" where
  "ledger_ready S sha root fs es head \<longleftrightarrow>
     terminated (ledger_content root fs) \<and> length (ledger_content root fs) \<le> MAX_LEDGER_BYTES
     \<and> holds_entries S (ledger_content root fs) es
     \<and> rfold (chain_step S sha) es (0, genesis_head) = Inr (length es, head)
     \<and> (fs (lock_path root) = None \<or> fs (lock_path root) = Some [])"

definition next_event :: "(string \<Rightarrow> digest) \<Rightarrow> nat \<Rightarrow> string \<Rightarrow> string \<Rightarrow> string \<Rightarrow> ledger_event" where
  "next_event sha n head kind payload_json =
     \<lparr>le_schema = EVENT_SCHEMA_V2, le_seq = Suc n, le_prev_hash = head, le_kind = kind,
      le_payload_json = payload_json, le_event_hash = hash_event_v2 sha (Suc n) head kind payload_json\<rparr>"

lemma chain_next_event:
  assumes "from_str S payload_json \<noteq> None" and "Suc n < 2 ^ 64"
  shows "chain_step S sha (EntryV2 (next_event sha n head kind payload_json)) (n, head)
    = Inr (Suc n, le_event_hash (next_event sha n head kind payload_json))"
  using assms by (auto simp: chain_step_def verify_v2_event_def next_event_def)

lemma ledger_ready_verify:
  assumes "ledger_ready S sha root fs es head"
  shows "verify_ledger_bytes S sha (ledger_content root fs) = Inr \<lparr>ls_events = length es, ls_head = head\<rparr>"
  using assms by (auto simp: verify_ledger_bytes_iff ledger_ready_def)

section \<open>What a head binds\<close>

text \<open>
  The interface of a hash chain: a step numbers the entry, and the new head is the digest of an
  image of the entry that contains the old head. Where the digest separates the images that occur,
  a number and a head determine what the entries were, as far as the image shows it.
\<close>

locale hash_chain =
  fixes step :: "'e \<Rightarrow> nat \<times> 'h \<Rightarrow> (nat \<times> 'h) res"
    and image :: "'e \<Rightarrow> 'i"
    and dig :: "'i \<Rightarrow> 'h"
    and body :: "'e \<Rightarrow> 'b"
    and ok :: "nat \<times> 'h \<Rightarrow> bool"
  assumes step_seq: "step e s = Inr t \<Longrightarrow> fst t = Suc (fst s)"
    and step_head: "step e s = Inr t \<Longrightarrow> snd t = dig (image e)"
    and image_inj: "ok s \<Longrightarrow> ok s' \<Longrightarrow> step e s = Inr t \<Longrightarrow> step e' s' = Inr t' \<Longrightarrow> image e = image e'
      \<Longrightarrow> body e = body e' \<and> s = s'"
begin

lemma run_seq: "rfold step es s = Inr t \<Longrightarrow> fst t = fst s + length es"
proof (induction es arbitrary: s)
  case (Cons e es)
  then obtain u where "step e s = Inr u" "rfold step es u = Inr t" by auto
  with Cons.IH step_seq show ?case by fastforce
qed simp

lemma head_binds:
  assumes "rfold step es s = Inr t" and "rfold step es' s' = Inr t"
    and "fst s = fst s'" and "ok s" and "ok s'"
    and keep: "\<And>e u v. ok u \<Longrightarrow> step e u = Inr v \<Longrightarrow> ok v"
    and sep: "\<forall>e \<in> set es. \<forall>e' \<in> set es'. dig (image e) = dig (image e') \<longrightarrow> image e = image e'"
  shows "map body es = map body es'"
  using assms(1,2) sep
proof (induction es arbitrary: es' t rule: rev_induct)
  case Nil
  with run_seq[of "[]"] run_seq[of es'] assms(3) show ?case by fastforce
next
  case (snoc e es)
  from run_seq[OF snoc.prems(1)] run_seq[OF snoc.prems(2)] assms(3)
  have "length es' = Suc (length es)" by simp
  then obtain fs f where es': "es' = fs @ [f]" by (cases es' rule: rev_cases) auto
  from snoc.prems(1,2) obtain u u' where
      u: "rfold step es s = Inr u" "step e u = Inr t" "rfold step fs s' = Inr u'" "step f u' = Inr t"
    unfolding es' rfold_append by auto
  have inv: "rfold step xs r = Inr v \<Longrightarrow> ok r \<Longrightarrow> ok v" for xs r v
    using rfold_invariant[of step xs r v ok] keep by blast
  from step_head[OF u(2)] step_head[OF u(4)] snoc.prems(3) have "image e = image f" by (simp add: es')
  with image_inj[OF _ _ u(2,4)] inv[OF u(1) assms(4)] inv[OF u(3) assms(5)] have "body e = body f" "u = u'" by auto
  with snoc.IH[of u fs] u snoc.prems(3) show ?case by (simp add: es')
qed

end

text \<open>
  The bytes under the hash of an entry, and what they determine of it: its format, number,
  predecessor, and the kind followed by the payload.
\<close>

fun entry_text :: "'n serde \<Rightarrow> 'n ledger_entry \<Rightarrow> string" where
  "entry_text S (EntryV1 e) = v1_kind e @ (case value_to_string S (json_canonical (v1_payload e)) of None \<Rightarrow> [] | Some b \<Rightarrow> b)"
| "entry_text S (EntryV2 e) = le_kind e @ le_payload_json e"

fun entry_body :: "'n serde \<Rightarrow> 'n ledger_entry \<Rightarrow> string \<times> nat \<times> string \<times> string" where
  "entry_body S (EntryV1 e) = (DOMAIN_V1, v1_seq e, v1_prev_hash e, entry_text S (EntryV1 e))"
| "entry_body S (EntryV2 e) = (DOMAIN_V2, le_seq e, le_prev_hash e, entry_text S (EntryV2 e))"

definition entry_image :: "'n serde \<Rightarrow> 'n ledger_entry \<Rightarrow> string" where
  "entry_image S e = (case entry_body S e of (d, seq, prev, txt) \<Rightarrow> d @ to_be_bytes seq @ prev @ txt)"

lemma to_be_bytes_length [simp]: "length (to_be_bytes n) = 8"
  by (simp add: to_be_bytes_def)

lemma to_be_bytes_inj: "to_be_bytes m = to_be_bytes n \<Longrightarrow> m < 2 ^ 64 \<Longrightarrow> n < 2 ^ 64 \<Longrightarrow> m = n"
proof -
  have sum: "n = (\<Sum>i<k. n div 256 ^ i mod 256 * 256 ^ i) + n div 256 ^ k * 256 ^ k" for n k :: nat
  proof (induction k)
    case (Suc k)
    have "n div 256 ^ k = n div 256 ^ k mod 256 + n div 256 ^ Suc k * 256"
      by (metis div_mult2_eq mod_div_mult_eq power_Suc2)
    then have "n div 256 ^ k * 256 ^ k = n div 256 ^ k mod 256 * 256 ^ k + n div 256 ^ Suc k * 256 ^ Suc k"
      by (metis (no_types, lifting) add_mult_distrib mult.assoc power_Suc)
    with Suc show ?case by simp
  qed simp
  assume eq: "to_be_bytes m = to_be_bytes n" and "m < 2 ^ 64" "n < 2 ^ 64"
  then have "m div 256 ^ 8 = 0" "n div 256 ^ 8 = 0" by simp_all
  moreover have "m div 256 ^ i mod 256 = n div 256 ^ i mod 256" if "i < 8" for i
  proof -
    from eq have "\<forall>j \<in> {0..<8}. m div 256 ^ (7 - j) mod 256 = n div 256 ^ (7 - j) mod 256"
      by (simp add: to_be_bytes_def)
    from bspec[OF this, of "7 - i"] that show ?thesis by simp
  qed
  ultimately show "m = n" using sum[of m 8] sum[of n 8] by simp
qed

lemma chain_step_eq_Inr:
  "chain_step S sha e (seq, prev) = Inr t \<longleftrightarrow> Suc seq < 2 ^ 64 \<and>
     (\<exists>head. verify_entry S sha e (Suc seq) prev = Inr head \<and> t = (Suc seq, head))"
  by (auto simp: chain_step_def)

lemma verify_entry_image:
  assumes "verify_entry S sha e seq prev = Inr head"
  shows "head = sha (entry_image S e)" and "fst (snd (entry_body S e)) = seq"
    and "fst (snd (snd (entry_body S e))) = prev"
  using assms
  by (cases e; auto simp: verify_v2_event_def verify_v1_event_def hash_event_v2_def hash_event_v1_def
      entry_image_def split: option.splits)+

lemma entry_image_split:
  assumes "verify_entry S sha e seq prev = Inr head" and "verify_entry S sha e' seq' prev' = Inr head'"
    and "entry_image S e = entry_image S e'" and "seq < 2 ^ 64" "seq' < 2 ^ 64" "length prev = length prev'"
  shows "entry_body S e = entry_body S e'"
proof -
  obtain d t where b: "entry_body S e = (d, seq, prev, t)" "length d = 16"
    using verify_entry_image(2,3)[OF assms(1)] by (cases e) (auto simp: DOMAIN_V1_def DOMAIN_V2_def)
  obtain d' t' where b': "entry_body S e' = (d', seq', prev', t')" "length d' = 16"
    using verify_entry_image(2,3)[OF assms(2)] by (cases e') (auto simp: DOMAIN_V1_def DOMAIN_V2_def)
  from assms(3) b b' have "d = d'" "to_be_bytes seq @ prev @ t = to_be_bytes seq' @ prev' @ t'"
    by (simp_all add: entry_image_def)
  with assms(6) have "to_be_bytes seq = to_be_bytes seq'" "prev = prev'" "t = t'" by simp_all
  with to_be_bytes_inj assms(4,5) b b' \<open>d = d'\<close> show ?thesis by simp
qed

interpretation ledger_chain: hash_chain
  "chain_step S sha" "entry_image S" sha "entry_body S" "\<lambda>(seq, prev). length prev = 64"
  for S :: "'n serde" and sha
proof (unfold_locales, goal_cases)
  case (1 e s t)
  then show ?case by (cases s) (auto simp: chain_step_eq_Inr)
next
  case (2 e s t)
  then show ?case by (cases s) (auto simp: chain_step_eq_Inr dest: verify_entry_image(1))
next
  case (3 s s' e t e' t')
  obtain seq prev seq' prev' where s: "s = (seq, prev)" "s' = (seq', prev')" by (cases s; cases s')
  from 3 obtain head head' where v: "verify_entry S sha e (Suc seq) prev = Inr head"
      "verify_entry S sha e' (Suc seq') prev' = Inr head'" and "Suc seq < 2 ^ 64" "Suc seq' < 2 ^ 64"
    by (auto simp: s chain_step_eq_Inr)
  with 3 have "entry_body S e = entry_body S e'" by (intro entry_image_split[OF v]) (auto simp: s)
  with verify_entry_image(2,3)[OF v(1)] verify_entry_image(2,3)[OF v(2)] show ?case by (simp add: s)
qed

text \<open>The text under the hash does not say where the kind ends.\<close>

lemma chain_step_boundary:
  assumes "chain_step S sha (EntryV2 e) s = Inr t"
    and "le_kind e @ le_payload_json e = kind' @ payload'" and "from_str S payload' \<noteq> None"
  shows "chain_step S sha (EntryV2 (e\<lparr>le_kind := kind', le_payload_json := payload'\<rparr>)) s = Inr t"
proof -
  have "verify_entry S sha (EntryV2 e) seq prev = Inr h \<Longrightarrow>
      verify_entry S sha (EntryV2 (e\<lparr>le_kind := kind', le_payload_json := payload'\<rparr>)) seq prev = Inr h" for seq prev h
    using assms(2,3) by (auto simp: verify_v2_event_def hash_event_v2_def)
  with assms(1) show ?thesis by (cases s) (simp only: chain_step_eq_Inr, blast)
qed

end
