(* ===== verification/Sample_Ledger.thy ===== *)
theory Sample_Ledger
  imports Ledger
begin

text \<open>
  A concrete instance of the parameters of \<^theory_text>\<open>Ledger\<close>, used by the witnesses: an event is its
  fields between bars with the number written in unary, a payload object is one \<open>key=value\<close> pair,
  and the digest keeps the last 64 bytes,
  with every byte that is not a plain character replaced. The instance satisfies \<open>serde_laws\<close>.
\<close>

definition graphic :: "char \<Rightarrow> bool" where
  "graphic c \<longleftrightarrow> 33 \<le> (of_char c :: nat) \<and> (of_char c :: nat) < 124 \<and> c \<noteq> CHR ''=''"

fun bars :: "string list \<Rightarrow> string" where
  "bars [] = []"
| "bars [x] = x"
| "bars (x # xs) = x @ CHR ''|'' # bars xs"

definition sample_value :: "ledger_event \<Rightarrow> string json" where
  "sample_value e = JObject
     [(''event_hash'', JString (le_event_hash e)), (''kind'', JString (le_kind e)),
      (''payload_json'', JString (le_payload_json e)), (''prev_hash'', JString (le_prev_hash e)),
      (''schema'', JString (le_schema e)), (''seq'', JNumber (replicate (le_seq e) CHR ''1''))]"

definition sample_from_str :: "string \<Rightarrow> string json option" where
  "sample_from_str s = (case split_on CHR ''|'' s of
     [a, b, c, d, e, f] \<Rightarrow> Some (sample_value \<lparr>le_schema = a, le_seq = length b, le_prev_hash = c, le_kind = d,
        le_payload_json = e, le_event_hash = f\<rparr>)
   | [p] \<Rightarrow> (case split_on CHR ''='' p of [k, v] \<Rightarrow> Some (JObject [(k, JString v)]) | _ \<Rightarrow> None)
   | _ \<Rightarrow> None)"

fun sample_to_string :: "string json \<Rightarrow> string option" where
  "sample_to_string (JObject [(k, JString v)]) =
     (if list_all graphic k \<and> list_all graphic v then Some (k @ CHR ''='' # v) else None)"
| "sample_to_string _ = None"

definition sample_event_to_vec :: "ledger_event \<Rightarrow> string option" where
  "sample_event_to_vec e =
     (let fields = [le_schema e, replicate (le_seq e) CHR ''1'', le_prev_hash e, le_kind e, le_payload_json e, le_event_hash e]
      in if list_all (list_all (\<lambda>c. graphic c \<or> c = CHR ''='')) fields then Some (bars fields) else None)"

definition sample_event_of_value :: "string json \<Rightarrow> ledger_event option" where
  "sample_event_of_value v =
     Option.bind (json_get_str ''event_hash'' v) (\<lambda>f.
     Option.bind (json_get_str ''kind'' v) (\<lambda>d.
     Option.bind (json_get_str ''payload_json'' v) (\<lambda>e.
     Option.bind (json_get_str ''prev_hash'' v) (\<lambda>c.
     Option.bind (json_get_str ''schema'' v) (\<lambda>a.
     case json_get ''seq'' v of
       Some (JNumber b) \<Rightarrow> Some \<lparr>le_schema = a, le_seq = length b, le_prev_hash = c, le_kind = d,
         le_payload_json = e, le_event_hash = f\<rparr>
     | _ \<Rightarrow> None)))))"

definition sample_serde :: "string serde" where
  "sample_serde = \<lparr>from_str = sample_from_str, value_to_string = sample_to_string,
     event_to_vec = sample_event_to_vec, event_of_value = sample_event_of_value, legacy_of_value = (\<lambda>_. None)\<rparr>"

definition sample_digest :: "string \<Rightarrow> digest" where
  "sample_digest x = map (\<lambda>c. if graphic c then c else CHR ''0'') (take 64 (rev x @ replicate 64 CHR ''0''))"

lemma sample_serde_simps [simp]:
  "from_str sample_serde = sample_from_str" "value_to_string sample_serde = sample_to_string"
  "event_to_vec sample_serde = sample_event_to_vec" "event_of_value sample_serde = sample_event_of_value"
  "legacy_of_value sample_serde v = None"
  by (simp_all add: sample_serde_def)

lemma sample_digest_length [simp]: "length (sample_digest x) = 64"
  by (simp add: sample_digest_def)

lemma split_on_append: "d \<notin> set x \<Longrightarrow> split_on d (x @ d # y) = x # split_on d y"
  by (induction x) auto

lemma split_on_bars: "xs \<noteq> [] \<Longrightarrow> list_all (\<lambda>x. CHR ''|'' \<notin> set x) xs \<Longrightarrow> split_on CHR ''|'' (bars xs) = xs"
  by (induction xs rule: bars.induct) (simp_all add: split_on_no_delim split_on_append)

lemma codes_ascii_valid: "\<forall>n \<in> set ns. n < 128 \<Longrightarrow> utf8_codes_valid ns"
  by (induction ns) auto

lemma codes_graphic_not_blank: "32 < n \<Longrightarrow> n < 128 \<Longrightarrow> \<not> codes_blank (n # ns)"
  by (cases ns; cases "tl ns") simp_all

lemma graphic_facts:
  assumes "graphic c \<or> c = CHR ''=''"
  shows "c \<noteq> CHR ''|''" "c \<noteq> LF" "c \<noteq> CR" "(of_char c :: nat) < 128" "32 < (of_char c :: nat)"
proof -
  have "of_char CHR ''|'' = (124 :: nat)" "of_char LF = (10 :: nat)" "of_char CR = (13 :: nat)" "of_char CHR ''='' = (61 :: nat)"
    by (simp_all add: LF_def CR_def)
  with assms show "c \<noteq> CHR ''|''" "c \<noteq> LF" "c \<noteq> CR" "(of_char c :: nat) < 128" "32 < (of_char c :: nat)"
    unfolding graphic_def by fastforce+
qed

lemma set_bars: "set (bars xs) \<subseteq> insert CHR ''|'' (\<Union> (set ` set xs))"
  by (induction xs rule: bars.induct) auto

lemma sample_event_line:
  assumes "sample_event_to_vec e = Some l"
  shows "utf8_valid l" "LF \<notin> set l" "l \<noteq> []" "last l \<noteq> CR" "\<not> trim_is_empty l"
    and "sample_from_str l = Some (sample_value e)"
proof -
  let ?fs = "[le_schema e, replicate (le_seq e) CHR ''1'', le_prev_hash e, le_kind e, le_payload_json e, le_event_hash e]"
  have l: "l = bars ?fs" and ok: "\<forall>x \<in> set ?fs. \<forall>c \<in> set x. graphic c \<or> c = CHR ''=''"
    using assms by (auto simp: sample_event_to_vec_def Let_def list_all_iff split: if_splits)
  have chars: "c = CHR ''|'' \<or> graphic c \<or> c = CHR ''=''" if "c \<in> set l" for c
    using that set_bars[of ?fs] ok unfolding l by blast
  have codes: "32 < (of_char c :: nat) \<and> (of_char c :: nat) < 128 \<and> c \<noteq> LF \<and> c \<noteq> CR" if "c \<in> set l" for c
  proof -
    have "of_char CHR ''|'' = (124 :: nat)" "CHR ''|'' \<noteq> LF" "CHR ''|'' \<noteq> CR" by (simp_all add: LF_def CR_def)
    with chars[OF that] graphic_facts[of c] show ?thesis by (cases "c = CHR ''|''") simp_all
  qed
  from codes show "utf8_valid l" "LF \<notin> set l" by (auto simp: utf8_valid_def intro!: codes_ascii_valid)
  show ne: "l \<noteq> []" by (simp add: l)
  then show "last l \<noteq> CR" using codes[of "last l"] by simp
  obtain b r where l': "l = b # r" using ne by (cases l) auto
  have "32 < (of_char b :: nat)" "(of_char b :: nat) < 128" using codes[of b] by (simp_all add: l')
  then show "\<not> trim_is_empty l" unfolding trim_is_empty_def l' list.map by (rule codes_graphic_not_blank)
  have "\<forall>x \<in> set ?fs. CHR ''|'' \<notin> set x" using ok graphic_facts(1) by blast
  then have "split_on CHR ''|'' l = ?fs" unfolding l by (intro split_on_bars) (simp_all only: list_all_iff, simp)
  then show "sample_from_str l = Some (sample_value e)" by (cases e) (simp add: sample_from_str_def)
qed

lemma sample_laws: "serde_laws sample_serde"
proof -
  have payload: "sample_from_str s \<noteq> None" if "sample_to_string v = Some s" for v s
  proof -
    from that obtain k w where s: "s = k @ CHR ''='' # w" "list_all graphic k" "list_all graphic w"
      by (induction v rule: sample_to_string.induct) (auto split: if_splits)
    then have "CHR ''|'' \<notin> set s" "CHR ''='' \<notin> set k" "CHR ''='' \<notin> set w"
    proof -
      have g: "c \<noteq> CHR ''|'' \<and> c \<noteq> CHR ''=''" if "graphic c" for c using that graphic_facts(1)[of c] by (simp add: graphic_def)
      show "CHR ''='' \<notin> set k" "CHR ''='' \<notin> set w" using s(2,3) g unfolding list_all_iff by blast+
      have "CHR ''|'' \<noteq> CHR ''=''" by simp
      moreover have "CHR ''|'' \<notin> set k" "CHR ''|'' \<notin> set w" using s(2,3) g unfolding list_all_iff by blast+
      ultimately show "CHR ''|'' \<notin> set s" unfolding s(1) by simp
    qed
    then have "split_on CHR ''|'' s = [s]" "split_on CHR ''='' s = [k, w]"
      by (simp add: split_on_no_delim) (simp add: s(1) split_on_append split_on_no_delim \<open>CHR ''='' \<notin> set k\<close> \<open>CHR ''='' \<notin> set w\<close> del: split_on.simps)
    then show ?thesis by (simp add: sample_from_str_def)
  qed
  have event: "json_get_str ''schema'' v = Some (le_schema e) \<and> json_get_str ''event_hash'' v = Some (le_event_hash e)"
    if "sample_event_of_value v = Some e" for v e
  proof -
    from that obtain f d p c a where "json_get_str ''event_hash'' v = Some f" "json_get_str ''schema'' v = Some a"
      and fields: "(case json_get ''seq'' v of
        Some (JNumber b) \<Rightarrow> Some \<lparr>le_schema = a, le_seq = length b, le_prev_hash = c, le_kind = d,
          le_payload_json = p, le_event_hash = f\<rparr> | _ \<Rightarrow> None) = Some e"
      unfolding sample_event_of_value_def bind_eq_Some_conv by blast
    then show ?thesis by (cases "json_get ''seq'' v"; cases "the (json_get ''seq'' v)") auto
  qed
  have inv: "json_get_str ''schema'' (sample_value e) = Some (le_schema e) \<and> sample_event_of_value (sample_value e) = Some e" for e
    by (simp add: sample_value_def json_get_str_def sample_event_of_value_def)
  show ?thesis
    unfolding serde_laws_def sample_serde_simps
    using payload event inv sample_event_line by blast
qed

section \<open>A ledger with two events\<close>

definition clean :: "string \<Rightarrow> bool" where
  "clean = list_all (\<lambda>c. graphic c \<or> c = CHR ''='')"

definition ledger_sample_root :: path where
  "ledger_sample_root = [RootDir, Normal ''r'']"

definition sample_event1 :: ledger_event where
  "sample_event1 = next_event sample_digest 0 genesis_head ''run'' ''id=a''"

definition sample_event2 :: ledger_event where
  "sample_event2 = next_event sample_digest 1 (le_event_hash sample_event1) ''run'' ''id=b''"

definition sample_line :: "ledger_event \<Rightarrow> string" where
  "sample_line e = bars [le_schema e, replicate (le_seq e) CHR ''1'', le_prev_hash e, le_kind e, le_payload_json e, le_event_hash e]"

definition sample_ledger :: "ledger_event list \<Rightarrow> string" where
  "sample_ledger es = concat (map (\<lambda>e. sample_line e @ [LF]) es)"

text \<open>The first event with the boundary between kind and payload moved.\<close>

definition sample_event1_moved :: ledger_event where
  "sample_event1_moved = sample_event1\<lparr>le_kind := ''runi'', le_payload_json := ''d=a''\<rparr>"

lemma good_ledger_root: "good_root ledger_sample_root"
  by (simp add: good_root_def ledger_sample_root_def is_absolute_def)

lemma sample_digest_clean: "clean (sample_digest x)"
proof -
  have "graphic CHR ''0''" by (simp add: graphic_def)
  then show ?thesis by (auto simp: clean_def sample_digest_def list_all_iff)
qed

lemma clean_literals [simp]:
  "clean EVENT_SCHEMA_V2" "clean genesis_head" "clean ''run''" "clean ''runi''" "clean ''id=a''" "clean ''id=b''" "clean ''d=a''"
  by (simp_all add: clean_def EVENT_SCHEMA_V2_def genesis_head_def graphic_def list_all_iff)

lemma sample_to_vec:
  assumes "clean (le_schema e)" "clean (le_prev_hash e)" "clean (le_kind e)" "clean (le_payload_json e)" "clean (le_event_hash e)"
  shows "sample_event_to_vec e = Some (sample_line e)"
proof -
  have "list_all (\<lambda>c. graphic c \<or> c = CHR ''='') (replicate n CHR ''1'')" for n
    by (simp add: list_all_iff graphic_def)
  with assms show ?thesis by (simp add: sample_event_to_vec_def sample_line_def clean_def)
qed

lemma sample_next_event:
  "clean head \<Longrightarrow> clean kind \<Longrightarrow> clean pj \<Longrightarrow>
     sample_event_to_vec (next_event sample_digest n head kind pj) = Some (sample_line (next_event sample_digest n head kind pj))"
  by (rule sample_to_vec) (simp_all add: next_event_def hash_event_v2_def sample_digest_clean)

lemma sample_events_clean:
  "e \<in> {sample_event1, sample_event2, sample_event1_moved} \<Longrightarrow>
     le_schema e = EVENT_SCHEMA_V2 \<and> sample_event_to_vec e = Some (sample_line e)"
  by (auto simp: sample_event1_def sample_event2_def sample_event1_moved_def next_event_def hash_event_v2_def
      sample_digest_clean intro!: sample_to_vec)

lemma sample_ledger_holds:
  "set es \<subseteq> {sample_event1, sample_event2, sample_event1_moved} \<Longrightarrow>
     terminated (sample_ledger es) \<and> holds_entries sample_serde (sample_ledger es) (map EntryV2 es)"
proof (induction es rule: rev_induct)
  case Nil
  then show ?case by (simp add: sample_ledger_def terminated_def holds_entries_def)
next
  case (snoc e es)
  from snoc.prems have e: "sample_event_to_vec e = Some (sample_line e)" "le_schema e = EVENT_SCHEMA_V2"
    using sample_events_clean[of e] by (meson in_set_conv_decomp subsetD)+
  note line = event_line[OF sample_laws, of e "sample_line e", unfolded sample_serde_simps, OF e]
  have "sample_ledger (es @ [e]) = sample_ledger es @ sample_line e @ [LF]" by (simp add: sample_ledger_def)
  moreover have "set es \<subseteq> {sample_event1, sample_event2, sample_event1_moved}" using snoc.prems by auto
  with snoc.IH have "terminated (sample_ledger es)" "holds_entries sample_serde (sample_ledger es) (map EntryV2 es)" by blast+
  then have "holds_entries sample_serde (sample_ledger es @ sample_line e @ [LF]) (map EntryV2 es @ [EntryV2 e])"
    by (rule holds_entries_append[OF _ _ line])
  ultimately show ?case by (simp add: terminated_def)
qed

lemma sample_payloads: "sample_from_str ''id=a'' = Some (JObject [(''id'', JString ''a'')])"
    "sample_from_str ''id=b'' = Some (JObject [(''id'', JString ''b'')])"
    "sample_from_str ''d=a'' = Some (JObject [(''d'', JString ''a'')])"
  by (simp_all add: sample_from_str_def)

lemma sample_chain:
  "rfold (chain_step sample_serde sample_digest) (map EntryV2 [sample_event1, sample_event2]) (0, genesis_head)
     = Inr (2, le_event_hash sample_event2)"
proof -
  have "chain_step sample_serde sample_digest (EntryV2 sample_event1) (0, genesis_head) = Inr (Suc 0, le_event_hash sample_event1)"
    unfolding sample_event1_def by (rule chain_next_event) (simp_all add: sample_payloads)
  moreover have "chain_step sample_serde sample_digest (EntryV2 sample_event2) (1, le_event_hash sample_event1)
      = Inr (Suc 1, le_event_hash sample_event2)"
    unfolding sample_event2_def by (rule chain_next_event) (simp_all add: sample_payloads)
  ultimately show ?thesis by (simp add: numeral_2_eq_2)
qed

lemma sample_chain_moved:
  "rfold (chain_step sample_serde sample_digest) (map EntryV2 [sample_event1_moved, sample_event2]) (0, genesis_head)
     = Inr (2, le_event_hash sample_event2)"
  using sample_chain chain_step_boundary[of sample_serde sample_digest sample_event1 "(0, genesis_head)" _ "''runi''" "''d=a''"]
  by (auto simp: sample_payloads sample_event1_moved_def sample_event1_def next_event_def)

lemma sample_verified:
  assumes "x = sample_event1 \<or> x = sample_event1_moved"
  shows "verify_ledger_bytes sample_serde sample_digest (sample_ledger [x, sample_event2])
    = Inr \<lparr>ls_events = 2, ls_head = le_event_hash sample_event2\<rparr>"
  using assms sample_ledger_holds[of "[x, sample_event2]"] sample_chain sample_chain_moved
  by (auto simp: verify_ledger_bytes_iff)

lemma sample_hashes_differ: "le_event_hash sample_event1 \<noteq> le_event_hash sample_event2"
  by (simp add: sample_event1_def sample_event2_def next_event_def hash_event_v2_def sample_digest_def
      graphic_def)

lemma sample_ledger_small: "length (sample_ledger [sample_event1, sample_event2]) \<le> MAX_LEDGER_BYTES"
  by (simp add: sample_ledger_def sample_line_def sample_event1_def sample_event2_def next_event_def hash_event_v2_def
      EVENT_SCHEMA_V2_def genesis_head_def MAX_LEDGER_BYTES_def)

definition sample_ledger_store :: store where
  "sample_ledger_store = Map.empty(ledger_path ledger_sample_root \<mapsto> sample_ledger [sample_event1, sample_event2])"

lemma sample_ledger_store_content:
  "sample_ledger_store (ledger_path ledger_sample_root) = Some (sample_ledger [sample_event1, sample_event2])"
  by (simp add: sample_ledger_store_def)

lemma sample_ledger_entries:
  "holds_entries sample_serde (sample_ledger [sample_event1, sample_event2]) (map EntryV2 [sample_event1, sample_event2])"
  using sample_ledger_holds[of "[sample_event1, sample_event2]"] by (simp del: list.map)

lemmas sample_ledger_verified = sample_verified[OF disjI1, OF refl]

end
