(* ===== verification/Ledger_Properties.thy ===== *)
theory Ledger_Properties
  imports Sample_Ledger
begin

text \<open>
  What the ledger guarantees: an append adds exactly one event to the verified chain or leaves the
  file alone, the status of a ledger binds the history that led to it, the search for a payload
  field finds the one matching event. The two results at the end of the chain section show what the
  hash does not bind and what an append does to a file whose last line is open. The sample ledger
  used by the witnesses has its own small encoding of events.
\<close>

section \<open>Appending\<close>

lemma canonical_payload_parses:
  "serde_laws S \<Longrightarrow> canonical_payload_json S payload = Inr pj \<Longrightarrow> from_str S pj \<noteq> None"
  by (auto simp: serde_laws_def canonical_payload_json_def)



lemma ledger_content_lock [simp]:
  "good_root root \<Longrightarrow> ledger_content root (fs(lock_path root \<mapsto> [])) = ledger_content root fs"
  using ledger_paths(3) by (simp add: ledger_content_def)






section \<open>What the chain binds\<close>

text \<open>
  C23: Equal heads mean equal histories. If two ledgers verify to the same number of events and the
  same head, and SHA-256 does not collide on the records they hold, then they have the same records
  in the same order: format, number, predecessor and the text made of kind and payload.
\<close>

theorem ledger_head_binds_history:
  assumes "verify_ledger_bytes S sha b = Inr st" and "verify_ledger_bytes S sha b' = Inr st"
    and "holds_entries S b es" and "holds_entries S b' es'" and "\<forall>x. length (sha x) = 64"
    and "\<forall>e \<in> set es. \<forall>e' \<in> set es'. sha (entry_image S e) = sha (entry_image S e') \<longrightarrow> entry_image S e = entry_image S e'"
  shows "map (entry_body S) es = map (entry_body S) es'"
proof -
  from assms(1-4) have run: "rfold (chain_step S sha) es (0, genesis_head) = Inr (ls_events st, ls_head st)"
      "rfold (chain_step S sha) es' (0, genesis_head) = Inr (ls_events st, ls_head st)"
    by (metis verify_ledger_bytes_iff holds_entries_unique)+
  have keep: "chain_step S sha e u = Inr v \<Longrightarrow> (\<lambda>(seq, prev). length prev = 64) v" for e u v
    using ledger_chain.step_head[of S sha e u v] assms(5) by (cases v) auto
  show ?thesis
    by (rule ledger_chain.head_binds[OF run]) (use assms(6) keep in \<open>auto simp: genesis_head_def\<close>)
qed

theorem ledger_head_binds_history_witness:
  "map (entry_body sample_serde) (map EntryV2 [sample_event1, sample_event2])
     = map (entry_body sample_serde) (map EntryV2 [sample_event1_moved, sample_event2])"
proof (rule ledger_head_binds_history)
  show "verify_ledger_bytes sample_serde sample_digest (sample_ledger [sample_event1, sample_event2])
      = Inr \<lparr>ls_events = 2, ls_head = le_event_hash sample_event2\<rparr>"
    "verify_ledger_bytes sample_serde sample_digest (sample_ledger [sample_event1_moved, sample_event2])
      = Inr \<lparr>ls_events = 2, ls_head = le_event_hash sample_event2\<rparr>"
    by (simp_all add: sample_verified)
  show "holds_entries sample_serde (sample_ledger [sample_event1, sample_event2]) (map EntryV2 [sample_event1, sample_event2])"
    "holds_entries sample_serde (sample_ledger [sample_event1_moved, sample_event2]) (map EntryV2 [sample_event1_moved, sample_event2])"
    using sample_ledger_holds by (simp_all del: list.map)
  have "entry_image sample_serde (EntryV2 sample_event1_moved) = entry_image sample_serde (EntryV2 sample_event1)"
    by (simp add: entry_image_def sample_event1_moved_def sample_event1_def next_event_def)
  moreover have "sample_digest (entry_image sample_serde (EntryV2 e)) = le_event_hash e"
    if "e = sample_event1 \<or> e = sample_event2" for e
    using that by (auto simp: entry_image_def sample_event1_def sample_event2_def next_event_def hash_event_v2_def)
  ultimately show "\<forall>e \<in> set (map EntryV2 [sample_event1, sample_event2]).
      \<forall>e' \<in> set (map EntryV2 [sample_event1_moved, sample_event2]).
      sample_digest (entry_image sample_serde e) = sample_digest (entry_image sample_serde e') \<longrightarrow>
      entry_image sample_serde e = entry_image sample_serde e'"
    using sample_hashes_differ by auto
qed simp

text \<open>
  The hash runs over kind and payload without a separator, so it does not bind where the kind ends.
  Moving the boundary, as long as the rest is still JSON, gives another ledger with the same head.
\<close>

theorem kind_boundary_not_bound:
  assumes "rfold (chain_step S sha) (es @ EntryV2 e # es') s = Inr t"
    and "le_kind e @ le_payload_json e = kind' @ payload'" and "from_str S payload' \<noteq> None"
  shows "rfold (chain_step S sha) (es @ EntryV2 (e\<lparr>le_kind := kind', le_payload_json := payload'\<rparr>) # es') s = Inr t"
  using assms(1) chain_step_boundary[OF _ assms(2,3)] by (auto simp: rfold_append)

section \<open>Searching\<close>

text \<open>The events of a ledger that a search by kind and payload field means.\<close>

fun payload_matches :: "'n serde \<Rightarrow> string \<Rightarrow> string \<Rightarrow> string \<Rightarrow> 'n ledger_entry \<Rightarrow> bool" where
  "payload_matches S kind key expected (EntryV1 _) = False"
| "payload_matches S kind key expected (EntryV2 e) =
     (le_kind e = kind
      \<and> Option.bind (from_str S (le_payload_json e)) (json_get_str key) = Some expected)"

fun find_entry ::
  "'n serde \<Rightarrow> string \<Rightarrow> string \<Rightarrow> string \<Rightarrow> 'n ledger_entry \<Rightarrow> ledger_event option \<Rightarrow> ledger_event option res" where
  "find_entry S kind key expected (EntryV1 _) matched = Inr matched"
| "find_entry S kind key expected (EntryV2 e) matched =
     (if payload_matches S kind key expected (EntryV2 e)
      then if matched = None then Inr (Some e)
           else Inl (Integrity ''ledger_v2_event_payload_match_ambiguous'')
      else Inr matched)"

definition entry_ok :: "'n serde \<Rightarrow> 'n ledger_entry \<Rightarrow> bool" where
  "entry_ok S e = (case e of EntryV1 _ \<Rightarrow> True
     | EntryV2 e \<Rightarrow> le_schema e = EVENT_SCHEMA_V2 \<and> from_str S (le_payload_json e) \<noteq> None)"

lemma chain_entries_ok: "rfold (chain_step S sha) es s = Inr t \<Longrightarrow> list_all (entry_ok S) es"
proof (induction es arbitrary: s)
  case (Cons e es)
  then obtain u where u: "chain_step S sha e s = Inr u" "rfold (chain_step S sha) es u = Inr t" by auto
  from u(1) have "entry_ok S e"
    by (cases s; cases e) (auto simp: chain_step_eq_Inr verify_v2_event_def entry_ok_def)
  with Cons.IH u(2) show ?case by simp
qed simp

lemma find_line_entry:
  assumes "utf8_valid l" "\<not> trim_is_empty l" "parse_entry S l = Inr e" "entry_ok S e"
  shows "find_line S kind key expected l = find_entry S kind key expected e"
  using assms by (auto simp: fun_eq_iff find_line_def parse_entry_def entry_ok_def event_payload_def reject_def
      split: if_splits ledger_entry.splits)

lemma find_lines_entries:
  assumes "list_all utf8_valid ls"
    and "list_all2 (\<lambda>l e. parse_entry S l = Inr e) (filter (\<lambda>l. \<not> trim_is_empty l) ls) es"
    and "list_all (entry_ok S) es"
  shows "rfold (find_line S kind key expected) ls m = rfold (find_entry S kind key expected) es m"
  using assms
proof (induction ls arbitrary: es m)
  case (Cons l ls)
  show ?case
  proof (cases "trim_is_empty l")
    case True
    with Cons show ?thesis by (simp add: find_line_def)
  next
    case False
    with Cons.prems obtain e es' where es: "es = e # es'" "parse_entry S l = Inr e"
        "list_all2 (\<lambda>l e. parse_entry S l = Inr e) (filter (\<lambda>l. \<not> trim_is_empty l) ls) es'"
      by (auto simp: list_all2_Cons1)
    with False Cons.prems Cons.IH[OF _ es(3)] find_line_entry[OF _ False es(2)] show ?thesis
      by (auto intro!: rbind_cong)
  qed
qed simp

lemma find_entries_eq:
  "rfold (find_entry S kind key expected) es m =
     (case (m, filter (payload_matches S kind key expected) es) of
        (_, []) \<Rightarrow> Inr m
      | (None, [e]) \<Rightarrow> (case e of EntryV2 ev \<Rightarrow> Inr (Some ev) | EntryV1 _ \<Rightarrow> Inr m)
      | _ \<Rightarrow> Inl (Integrity ''ledger_v2_event_payload_match_ambiguous''))"
proof (induction es arbitrary: m)
  case (Cons e es)
  show ?case
    by (cases e; cases m) (auto simp: Cons.IH split: list.splits ledger_entry.splits)
qed (simp split: option.splits)

lemma read_ready_ledger:
  assumes "good_root root" and "fs (ledger_path root) = Some bytes" and "length bytes \<le> MAX_LEDGER_BYTES"
  shows "read_ledger_bytes root fs = Inr (Some bytes)"
  using assms by (simp add: read_ledger_bytes_eq)

text \<open>
  The search by payload field finds the event if it is the only one. In a ledger that verifies,
  the search for a kind and a string field of the payload returns nothing if no current-format event
  matches, the event if exactly one does, and an ambiguity error if there are more; blank lines and
  legacy records never matter and no other error occurs.
\<close>

theorem find_by_payload_unique:
  assumes "good_root root" and "fs (ledger_path root) = Some bytes" and "length bytes \<le> MAX_LEDGER_BYTES"
    and "holds_entries S bytes es" and "verify_ledger_bytes S sha bytes = Inr st"
  shows "find_v2_event_by_payload_string S sha root kind key expected fs =
    (case filter (payload_matches S kind key expected) es of
       [] \<Rightarrow> Inr None
     | [EntryV2 e] \<Rightarrow> Inr (Some e)
     | _ \<Rightarrow> Inl (Integrity ''ledger_v2_event_payload_match_ambiguous''))"
proof -
  have "list_all (entry_ok S) es"
    using assms(4,5) chain_entries_ok holds_entries_unique unfolding verify_ledger_bytes_iff by blast
  with assms(4) have "rfold (find_line S kind key expected) (buf_lines [] bytes) None = rfold (find_entry S kind key expected) es None"
    unfolding holds_entries_def by (blast intro: find_lines_entries)
  moreover have "filter (payload_matches S kind key expected) es \<noteq> EntryV1 v # vs" for v vs
    by (auto simp: filter_eq_Cons_iff)
  ultimately show ?thesis
    using assms(5) read_ready_ledger[where root = root and fs = fs and bytes = bytes] assms(1-3)
    by (auto simp: find_v2_event_by_payload_string_def find_entries_eq split: list.splits ledger_entry.splits)
qed

lemma hash_lines_entries:
  assumes laws: "serde_laws S" and "list_all utf8_valid ls"
    and "list_all2 (\<lambda>l e. parse_entry S l = Inr (EntryV2 e)) (filter (\<lambda>l. \<not> trim_is_empty l) ls) es"
  shows "hash_lines S target ls = Inr (target \<in> le_event_hash ` set es)"
  using assms(2,3)
proof (induction ls arbitrary: es)
  case (Cons l ls)
  show ?case
  proof (cases "trim_is_empty l")
    case True
    with Cons show ?thesis by simp
  next
    case False
    with Cons.prems obtain e es' where es: "es = e # es'" "parse_entry S l = Inr (EntryV2 e)"
        "list_all2 (\<lambda>l e. parse_entry S l = Inr (EntryV2 e)) (filter (\<lambda>l. \<not> trim_is_empty l) ls) es'"
      by (auto simp: list_all2_Cons1)
    from es(2) obtain v where "from_str S l = Some v" "json_get_str ''schema'' v = Some EVENT_SCHEMA_V2"
        "event_of_value S v = Some e" by (auto simp: parse_entry_def split: if_splits)
    moreover from this laws have "json_get_str ''event_hash'' v = Some (le_event_hash e)"
      by (auto simp: serde_laws_def)
    ultimately show ?thesis using False Cons.IH[OF _ es(3)] Cons.prems es(1) by auto
  qed
qed simp

theorem find_by_payload_unique_witness:
  "find_v2_event_by_payload_string sample_serde sample_digest ledger_sample_root ''run'' ''id'' ''b'' sample_ledger_store
     = Inr (Some sample_event2)"
proof -
  have k: "le_kind sample_event1 = ''run''" "le_kind sample_event2 = ''run''"
    "le_payload_json sample_event1 = ''id=a''" "le_payload_json sample_event2 = ''id=b''"
    by (simp_all add: sample_event1_def sample_event2_def next_event_def)
  show ?thesis
    unfolding find_by_payload_unique[where fs = sample_ledger_store and root = ledger_sample_root, OF good_ledger_root sample_ledger_store_content sample_ledger_small
      sample_ledger_entries sample_ledger_verified]
    by (simp add: k sample_payloads json_get_str_def)
qed

lemma collect_lines_entries:
  assumes "list_all utf8_valid ls"
    and "list_all2 (\<lambda>l e. parse_entry S l = Inr (EntryV2 e)) (filter (\<lambda>l. \<not> trim_is_empty l) ls) es"
  shows "rfold (collect_line S) ls acc = Inr (acc @ es)"
  using assms
proof (induction ls arbitrary: acc es)
  case (Cons l ls)
  show ?case
  proof (cases "trim_is_empty l")
    case True
    with Cons show ?thesis by (simp add: collect_line_def)
  next
    case False
    with Cons.prems obtain e es' where es: "es = e # es'" "parse_entry S l = Inr (EntryV2 e)"
        "list_all2 (\<lambda>l e. parse_entry S l = Inr (EntryV2 e)) (filter (\<lambda>l. \<not> trim_is_empty l) ls) es'"
      by (auto simp: list_all2_Cons1)
    from es(2) have "collect_line S l acc = Inr (acc @ [e])"
      using False Cons.prems by (auto simp: collect_line_def parse_entry_def split: if_splits)
    with Cons.IH[OF _ es(3), of "acc @ [e]"] Cons.prems es(1) show ?thesis by simp
  qed
qed simp

text \<open>
  The diagnostic snapshot and the membership test agree with the chain. Of a ledger that verifies
  and holds only records of the current format, the snapshot is the verified status with exactly
  the events of the chain, numbered from one without gaps, and the membership test holds of an event
  hash exactly if one of these events has it.
\<close>

theorem ledger_snapshot_correct:
  assumes "serde_laws S" and "good_root root" and "fs (ledger_path root) = Some bytes"
    and "length bytes \<le> MAX_LEDGER_BYTES"
    and "holds_entries S bytes (map EntryV2 events)" and "verify_ledger_bytes S sha bytes = Inr st"
  shows "verified_v2_snapshot S sha root fs = Inr (st, events)
    \<and> ls_events st = length events \<and> map le_seq events = [1..<Suc (length events)]
    \<and> contains_event_hash S sha root target fs = Inr (target \<in> le_event_hash ` set events)"
proof -
  have lines: "list_all utf8_valid (buf_lines [] bytes)"
      "list_all2 (\<lambda>l e. parse_entry S l = Inr (EntryV2 e)) (filter (\<lambda>l. \<not> trim_is_empty l) (buf_lines [] bytes)) events"
    using assms(5) by (auto simp: holds_entries_def list_all2_map2)
  have run: "rfold (chain_step S sha) (map EntryV2 events) (0, genesis_head) = Inr (ls_events st, ls_head st)"
    using assms(5,6) holds_entries_unique unfolding verify_ledger_bytes_iff by blast
  from ledger_chain.run_seq[OF run] have n: "ls_events st = length events" by simp
  have seqs: "rfold (chain_step S sha) (map EntryV2 evs) (k, h) = Inr t \<Longrightarrow> map le_seq evs = [Suc k..<Suc (k + length evs)]"
    for evs k h t
  proof (induction evs arbitrary: k h)
    case (Cons e evs)
    then obtain h' where "verify_entry S sha (EntryV2 e) (Suc k) h = Inr h'"
        "rfold (chain_step S sha) (map EntryV2 evs) (Suc k, h') = Inr t"
      by (auto simp: chain_step_eq_Inr simp del: verify_entry.simps)
    with Cons.IH have "le_seq e = Suc k" "map le_seq evs = [Suc (Suc k)..<Suc (Suc k + length evs)]"
      by (auto simp: verify_v2_event_def)
    then show ?case by (simp add: upt_rec[of "Suc k"] del: upt_Suc)
  qed simp
  from lines have "rfold (collect_line S) (buf_lines [] bytes) [] = Inr events"
    and "hash_lines S target (buf_lines [] bytes) = Inr (target \<in> le_event_hash ` set events)"
    by (simp_all add: collect_lines_entries hash_lines_entries[OF assms(1)])
  with n seqs[OF run] assms(6) read_ready_ledger[where root = root and fs = fs and bytes = bytes] assms(2-4)
  show ?thesis by (simp add: verified_v2_snapshot_def contains_event_hash_def)
qed

theorem ledger_snapshot_correct_witness:
  "contains_event_hash sample_serde sample_digest ledger_sample_root (le_event_hash sample_event1) sample_ledger_store = Inr True
   \<and> map le_seq [sample_event1, sample_event2] = [1, 2]"
  using ledger_snapshot_correct[where fs = sample_ledger_store and root = ledger_sample_root, OF sample_laws good_ledger_root sample_ledger_store_content sample_ledger_small
      sample_ledger_entries sample_ledger_verified, of "le_event_hash sample_event1"]
  by (simp add: upt_rec)

section \<open>An open last line\<close>

lemma utf8_codes_cases:
  assumes "utf8_codes_valid (b0 # r)"
  obtains (one) "b0 < 128" "utf8_codes_valid r"
    | (two) b1 r1 where "194 \<le> b0" "b0 < 224" "r = b1 # r1" "utf8_codes_valid r1"
    | (three) b1 b2 r2 where "224 \<le> b0" "b0 < 240" "r = b1 # b2 # r2" "utf8_codes_valid r2"
    | (four) b1 b2 b3 r3 where "240 \<le> b0" "b0 < 245" "r = b1 # b2 # b3 # r3" "utf8_codes_valid r3"
proof -
  have fact: "b0 < 128 \<and> utf8_codes_valid r
    \<or> (\<exists>b1 r1. 194 \<le> b0 \<and> b0 < 224 \<and> r = b1 # r1 \<and> utf8_codes_valid r1)
    \<or> (\<exists>b1 b2 r2. 224 \<le> b0 \<and> b0 < 240 \<and> r = b1 # b2 # r2 \<and> utf8_codes_valid r2)
    \<or> (\<exists>b1 b2 b3 r3. 240 \<le> b0 \<and> b0 < 245 \<and> r = b1 # b2 # b3 # r3 \<and> utf8_codes_valid r3)"
    using assms unfolding utf8_codes_valid.simps(2)[of b0 r]
    by (cases "b0 < 128"; cases "b0 < 194"; cases "b0 < 224"; cases "b0 < 240"; cases "b0 < 245";
        cases r; cases "tl r"; cases "tl (tl r)"; simp)
  show thesis using fact that by blast
qed

lemma utf8_codes_append: "utf8_codes_valid xs \<Longrightarrow> utf8_codes_valid ys \<Longrightarrow> utf8_codes_valid (xs @ ys)"
proof (induction xs rule: length_induct)
  case (1 xs)
  show ?case
  proof (cases xs)
    case (Cons b0 r)
    from 1(2)[unfolded Cons] show ?thesis
      by (cases rule: utf8_codes_cases) (use 1 Cons in auto)
  qed (use 1 in simp)
qed

lemma codes_blank_prefix: "utf8_codes_valid xs \<Longrightarrow> codes_blank (xs @ ys) \<Longrightarrow> codes_blank xs"
proof (induction xs rule: length_induct)
  case (1 xs)
  show ?case
  proof (cases xs)
    case (Cons b0 r)
    from 1(2)[unfolded Cons] show ?thesis
      by (cases rule: utf8_codes_cases) (use 1 Cons in \<open>auto split: if_splits list.splits\<close>)
  qed simp
qed

lemma buf_lines_open:
  assumes "c \<noteq> [] \<or> buf \<noteq> []" and "c \<noteq> [] \<Longrightarrow> last c \<noteq> LF" and "LF \<notin> set x"
  shows "\<exists>ls l. buf_lines buf c = ls @ [l] \<and> buf_lines buf (c @ x @ [LF]) = ls @ [strip_cr (l @ x)]"
  using assms
proof (induction buf c rule: buf_lines.induct)
  case (1 buf)
  then show ?case by (simp add: buf_lines_line)
next
  case (2 buf c cs)
  show ?case
  proof (cases "c = LF")
    case True
    with 2 have "cs \<noteq> []" "cs \<noteq> [] \<Longrightarrow> last cs \<noteq> LF" by (auto split: if_splits)
    with 2(1)[OF True] 2(5) obtain ls l where
        "buf_lines [] cs = ls @ [l]" "buf_lines [] (cs @ x @ [LF]) = ls @ [strip_cr (l @ x)]" by blast
    with True show ?thesis by (intro exI[of _ "strip_cr buf # ls"] exI[of _ l]) simp
  next
    case False
    with 2 have "cs \<noteq> [] \<Longrightarrow> last cs \<noteq> LF" by auto
    with 2(2)[OF False] 2(5) show ?thesis by (simp add: False)
  qed
qed

text \<open>
  \<open>append\<close> replaces the file before it verifies the result. If the last line of a verifying ledger
  lacks its newline, the new record lands on that line, and once two JSON values on one line are
  refused (as \<open>serde_json\<close> refuses trailing characters) the append fails and the ledger that
  verified before never verifies again.
\<close>

theorem append_destroys_open_ledger:
  assumes laws: "serde_laws S" and root: "good_root root" and content: "fs (ledger_path root) = Some c"
    and lock: "fs (lock_path root) = None \<or> fs (lock_path root) = Some []"
    and "\<not> terminated c" and st: "verify_ledger_bytes S sha c = Inr st"
    and kind: "\<not> trim_is_empty kind" and seq: "Suc (ls_events st) < 2 ^ 64"
    and pj: "canonical_payload_json S payload = Inr pj"
    and line: "event_to_vec S (next_event sha (ls_events st) (ls_head st) kind pj) = Some line"
    and size: "length c + Suc (length line) \<le> MAX_LEDGER_BYTES"
    and final: "\<not> trim_is_empty (last (buf_lines [] c))" "from_str S (last (buf_lines [] c) @ line) = None"
    and run: "append_event S sha root kind payload fs = (r, fs')"
  shows "r = Inl Json" and "verify S sha root fs' = Inl Json"
proof -
  have ln: "LF \<notin> set line" "line \<noteq> []" "last line \<noteq> CR" "utf8_valid line"
    using laws line unfolding serde_laws_def by blast+
  from \<open>\<not> terminated c\<close> obtain ls l where l: "buf_lines [] c = ls @ [l]"
      and new: "buf_lines [] (c @ line @ [LF]) = ls @ [strip_cr (l @ line)]"
    using buf_lines_open[of c "[]" line] ln(1) by (auto simp: terminated_def)
  have merged: "strip_cr (l @ line) = l @ line" using ln by (simp add: strip_cr_def)
  from st obtain u where u: "rfold (verify_line S sha) ls (0, replicate 64 CHR ''0'') = Inr u"
      "verify_line S sha l u = Inr (ls_events st, ls_head st)"
    by (cases st) (auto simp: verify_ledger_bytes_def l rfold_append)
  from u(2) final l have ok: "utf8_valid l" "\<not> trim_is_empty l" "Suc (fst u) < 2 ^ 64"
    by (cases u; auto simp: verify_line_eq_Inr chain_step_eq_Inr)+
  then have joined: "utf8_valid (l @ line)" "\<not> trim_is_empty (l @ line)"
    using ln(4) utf8_codes_append codes_blank_prefix by (auto simp: utf8_valid_def trim_is_empty_def)
  with ok final l have bad: "verify_line S sha (l @ line) u = Inl Json"
    by (cases u) (simp add: verify_line_def parse_entry_def checked_add_def)
  have ver: "verify_ledger_bytes S sha (c @ line @ [LF]) = Inl Json"
    by (simp add: verify_ledger_bytes_def new merged rfold_append u(1) bad)
  let ?fs = "fs(lock_path root \<mapsto> [])"
  let ?fs2 = "?fs(ledger_path root \<mapsto> c @ line @ [LF])"
  have ne: "lock_path root \<noteq> ledger_path root" using ledger_paths(3)[OF root] by simp
  have read: "read_ledger_bytes root ?fs = Inr (Some c)" "read_ledger_bytes root ?fs2 = Inr (Some (c @ line @ [LF]))"
    using root size content ne by (simp_all add: read_ledger_bytes_eq)
  have small: "length c + Suc (length line) < 2 ^ 64" using size by (simp add: MAX_LEDGER_BYTES_def)
  obtain v where v: "from_str S pj = Some v" using canonical_payload_parses[OF laws pj] by blast
  have e: "\<lparr>le_schema = EVENT_SCHEMA_V2, le_seq = Suc (ls_events st), le_prev_hash = ls_head st, le_kind = kind,
      le_payload_json = pj, le_event_hash = hash_event_v2 sha (Suc (ls_events st)) (ls_head st) kind pj\<rparr>
      = next_event sha (ls_events st) (ls_head st) kind pj" by (simp add: next_event_def)
  have "append_event S sha root kind payload fs = (Inl Json, ?fs2)"
    using lock ledger_paths[OF root] root kind seq line size small
    by (simp add: append_event_def lock_eq append_section_def io_bind_def io_read_def io_res_def Let_def ok_or_def
        checked_add_def read st pj v e replace_eq ver)
  with run show "r = Inl Json" and "verify S sha root fs' = Inl Json"
    using root read(2) by (auto simp: verify_def ver)
qed

end
