(* ===== verification/Adapter_Types.thy ===== *)
theory Adapter_Types
  imports Ledger "HOL-Library.Word"
begin

text \<open>
  The data of the adapter bank (\<open>src/governance/adapter_bank.rs\<close>): requests, manifests, index
  snapshots with their operations, journal commits, materializations, promotion permits and reports,
  the checks on single values, the paths, and the parameters of the model (\<open>bank_externals\<close>).
\<close>

unbundle bit_operations_syntax

section \<open>Limits\<close>

definition MAX_BANK_JSON_BYTES :: nat where
  "MAX_BANK_JSON_BYTES = 128 * 1024 * 1024"

definition MAX_COMPOSITION_TERMS :: nat where
  "MAX_COMPOSITION_TERMS = 64"

definition MAX_HISTORY_REVISIONS :: nat where
  "MAX_HISTORY_REVISIONS = 100000"

definition MAX_REASON_BYTES :: nat where
  "MAX_REASON_BYTES = 4 * 1024"

definition MAX_MANIFEST_DEPTH :: nat where
  "MAX_MANIFEST_DEPTH = 256"

definition EXACT_COMPOSITION_ARITHMETIC :: string where
  "EXACT_COMPOSITION_ARITHMETIC = ''ordered_f32_axes_mul_f64_accumulate_f64_round_f32/v1''"

section \<open>Keys with their derived order\<close>

text \<open>
  \<open>AdapterVersion\<close>, \<open>ReceiverModelKey\<close> and \<open>AdapterActivationSlot\<close> derive \<open>Ord\<close>: field by field in the
  order of declaration. Identifiers and digests compare as byte strings.
\<close>

datatype adapter_version = AdapterVersion (adapter_id: string) (generation: nat)

datatype receiver_model_key = ReceiverModelKey (model_id: string) (model_sha256: digest)

datatype activation_slot = ActivationSlot (slot_receiver_model: receiver_model_key) (slot_capability_id: string)

definition adapter_version_less_eq :: "adapter_version \<Rightarrow> adapter_version \<Rightarrow> bool" where
  "adapter_version_less_eq a b \<longleftrightarrow>
     adapter_id a < adapter_id b \<or> (adapter_id a = adapter_id b \<and> generation a \<le> generation b)"

definition adapter_version_less :: "adapter_version \<Rightarrow> adapter_version \<Rightarrow> bool" where
  "adapter_version_less a b \<longleftrightarrow>
     adapter_id a < adapter_id b \<or> (adapter_id a = adapter_id b \<and> generation a < generation b)"

instantiation adapter_version :: linorder
begin

definition less_eq_adapter_version :: "adapter_version \<Rightarrow> adapter_version \<Rightarrow> bool" where
  "less_eq_adapter_version a b \<longleftrightarrow> adapter_version_less_eq a b"

definition less_adapter_version :: "adapter_version \<Rightarrow> adapter_version \<Rightarrow> bool" where
  "less_adapter_version a b \<longleftrightarrow> adapter_version_less a b"

instance
  by intro_classes (auto simp: less_eq_adapter_version_def less_adapter_version_def
    adapter_version_less_eq_def adapter_version_less_def adapter_version.expand)

end

definition receiver_model_key_less_eq :: "receiver_model_key \<Rightarrow> receiver_model_key \<Rightarrow> bool" where
  "receiver_model_key_less_eq a b \<longleftrightarrow>
     model_id a < model_id b \<or> (model_id a = model_id b \<and> model_sha256 a \<le> model_sha256 b)"

definition receiver_model_key_less :: "receiver_model_key \<Rightarrow> receiver_model_key \<Rightarrow> bool" where
  "receiver_model_key_less a b \<longleftrightarrow>
     model_id a < model_id b \<or> (model_id a = model_id b \<and> model_sha256 a < model_sha256 b)"

instantiation receiver_model_key :: linorder
begin

definition less_eq_receiver_model_key :: "receiver_model_key \<Rightarrow> receiver_model_key \<Rightarrow> bool" where
  "less_eq_receiver_model_key a b \<longleftrightarrow> receiver_model_key_less_eq a b"

definition less_receiver_model_key :: "receiver_model_key \<Rightarrow> receiver_model_key \<Rightarrow> bool" where
  "less_receiver_model_key a b \<longleftrightarrow> receiver_model_key_less a b"

instance
  by intro_classes (auto simp: less_eq_receiver_model_key_def less_receiver_model_key_def
    receiver_model_key_less_eq_def receiver_model_key_less_def receiver_model_key.expand)

end

definition activation_slot_less_eq :: "activation_slot \<Rightarrow> activation_slot \<Rightarrow> bool" where
  "activation_slot_less_eq a b \<longleftrightarrow>
     slot_receiver_model a < slot_receiver_model b
     \<or> (slot_receiver_model a = slot_receiver_model b \<and> slot_capability_id a \<le> slot_capability_id b)"

definition activation_slot_less :: "activation_slot \<Rightarrow> activation_slot \<Rightarrow> bool" where
  "activation_slot_less a b \<longleftrightarrow>
     slot_receiver_model a < slot_receiver_model b
     \<or> (slot_receiver_model a = slot_receiver_model b \<and> slot_capability_id a < slot_capability_id b)"

instantiation activation_slot :: linorder
begin

definition less_eq_activation_slot :: "activation_slot \<Rightarrow> activation_slot \<Rightarrow> bool" where
  "less_eq_activation_slot a b \<longleftrightarrow> activation_slot_less_eq a b"

definition less_activation_slot :: "activation_slot \<Rightarrow> activation_slot \<Rightarrow> bool" where
  "less_activation_slot a b \<longleftrightarrow> activation_slot_less a b"

instance
  by intro_classes (auto simp: less_eq_activation_slot_def less_activation_slot_def
    activation_slot_less_eq_def activation_slot_less_def activation_slot.expand)

end

section \<open>Records\<close>

text \<open>An \<open>f64\<close> is its bit pattern. The bank compares such numbers only where they are finite and not
  zero, and there equality of the patterns is equality of the numbers.\<close>

type_synonym f64_bits = "64 word"

record bank_expectation =
  be_revision :: nat
  be_index_sha256 :: "digest option"

record delta_artifact_ref =
  delta_path :: path
  delta_sha256 :: digest
  delta_parameter_count :: nat

record parameter_block_spec =
  block_name :: string
  block_shape :: "nat list"
  block_offset :: nat
  block_count :: nat

record parameter_block_layout =
  layout_schema :: string
  layout_blocks :: "parameter_block_spec list"
  layout_total_parameter_count :: nat

record layout_binding =
  lb_artifact :: private_file_reference
  lb_parameter_layout_sha256 :: digest
  lb_total_parameter_count :: nat

text \<open>The fields of \<open>ReceiverModelProfile\<close> the bank reads.\<close>

record receiver_profile =
  rp_model_id :: string
  rp_architecture_id :: string
  rp_checkpoint_path :: path
  rp_checkpoint_sha256 :: digest
  rp_parameter_topology_sha256 :: digest
  rp_adaptation_abi_sha256 :: digest

text \<open>Sets of strings and numbers are their sorted lists.\<close>

record lora_receipt =
  lr_schema :: string
  lr_base_model_path :: path
  lr_adapter_model_path :: path
  lr_adapter_config_path :: path
  lr_base_model_sha256 :: digest
  lr_adapter_model_sha256 :: digest
  lr_adapter_config_sha256 :: digest
  lr_lora_rank :: nat
  lr_lora_alpha :: f64_bits
  lr_lora_scale :: f64_bits
  lr_use_rslora :: bool
  lr_learned_parameter_count :: nat
  lr_target_tensors :: "string list"
  lr_target_families :: "string list"
  lr_covered_transformer_layers :: "nat list"
  lr_parameter_layout :: parameter_block_layout
  lr_dense_delta :: delta_artifact_ref
  lr_source_training_semantics_attested :: bool
  lr_authorizes_target_update_free_claim :: bool
  lr_authorizes_promotion :: bool

datatype weight_lifecycle = CandidateOnlyNotPromoted

record weight_receipt =
  wr_schema :: string
  wr_lifecycle :: weight_lifecycle
  wr_base_model_sha256 :: digest
  wr_base_model_byte_len :: nat
  wr_source_tensor_count :: nat
  wr_source_parameter_count :: nat
  wr_parameter_layout_sha256 :: digest
  wr_delta_sha256 :: digest
  wr_delta_parameter_count :: nat
  wr_modified_tensor_count :: nat
  wr_modified_parameter_count :: nat
  wr_output_model_sha256 :: digest
  wr_output_model_byte_len :: nat
  wr_dtype_policy :: string
  wr_trains_target_capability :: bool
  wr_requires_adapter_at_runtime :: bool
  wr_authorizes_promotion :: bool

record retained_blob =
  rb_artifact :: private_file_reference
  rb_byte_len :: nat
  rb_media_type :: string

record composition_term =
  ct_adapter :: adapter_version
  ct_manifest :: private_file_reference
  ct_coefficient :: f64_bits
  ct_coefficient_bits_hex :: string

datatype manifest_source =
    ImportedPeftLora private_file_reference retained_blob retained_blob
  | ExactDenseComposition string "composition_term list" bool bool

record adapter_manifest =
  am_schema :: string
  am_adapter :: adapter_version
  am_capability_id :: string
  am_lineage_id :: string
  am_capability_bundle :: "private_file_reference option"
  am_receiver_model :: receiver_model_key
  am_architecture_id :: string
  am_receiver_profile :: private_file_reference
  am_parameter_topology_sha256 :: digest
  am_adaptation_abi_sha256 :: digest
  am_parameter_layout :: layout_binding
  am_dense_delta :: delta_artifact_ref
  am_source :: manifest_source
  am_candidate_only :: bool
  am_authorizes_promotion :: bool

record lora_provenance =
  lp_schema :: string
  lp_receipt :: lora_receipt

record index_entry =
  ie_adapter :: adapter_version
  ie_capability_id :: string
  ie_lineage_id :: string
  ie_receiver_model :: receiver_model_key
  ie_parameter_layout_sha256 :: digest
  ie_manifest :: private_file_reference

record capability_bucket =
  cb_capability_id :: string
  cb_adapters :: "adapter_version list"

record model_bucket =
  mb_receiver_model :: receiver_model_key
  mb_adapters :: "adapter_version list"

record execution_binding =
  eb_base_model_sha256 :: digest
  eb_adapter_delta_sha256 :: digest
  eb_activation_epoch :: nat
  eb_adaptation_abi_sha256 :: digest

record active_selection =
  sel_slot :: activation_slot
  sel_adapter :: adapter_version
  sel_manifest :: private_file_reference
  sel_authorization :: private_file_reference
  sel_execution_binding :: execution_binding
  sel_activated_at_revision :: nat

record adapter_revocation =
  rv_adapter :: adapter_version
  rv_manifest_sha256 :: digest
  rv_revoked_at_revision :: nat
  rv_root_cause :: adapter_version
  rv_reason :: string
  rv_evidence :: "private_file_reference option"

datatype bank_operation =
    OpEmpty
  | OpRegister private_file_reference
  | OpCompose private_file_reference
  | OpActivate adapter_version private_file_reference
  | OpRevoke adapter_version "adapter_version list"
  | OpRollback activation_slot nat "adapter_version option" "adapter_version option"
      "private_file_reference option" string "private_file_reference option"

record index_snapshot =
  sn_schema :: string
  sn_revision :: nat
  sn_parent :: "private_file_reference option"
  sn_operation :: bank_operation
  sn_entries :: "index_entry list"
  sn_by_capability :: "capability_bucket list"
  sn_by_model :: "model_bucket list"
  sn_active :: "active_selection list"
  sn_revocations :: "adapter_revocation list"

record bank_head =
  bh_schema :: string
  bh_revision :: nat
  bh_index :: private_file_reference

record revision_commit =
  jc_schema :: string
  jc_revision :: nat
  jc_index :: private_file_reference
  jc_previous_commit :: "private_file_reference option"
  jc_previous_index :: "private_file_reference option"

record promotion_evidence =
  pe_independent_execution :: private_file_reference
  pe_preservation_assessment :: private_file_reference
  pe_negative_controls :: private_file_reference
  pe_materialization_receipt :: private_file_reference

text \<open>\<open>PromotionDecision\<close> of \<open>src/foundation/contracts.rs\<close>; a blocker is its serialized name.\<close>

record promotion_decision =
  pd_allowed :: bool
  pd_reasons :: "string list"
  pd_metrics :: "(string, f64_bits) bmap"

record candidate_materialization =
  cm_schema :: string
  cm_adapter :: adapter_version
  cm_manifest :: private_file_reference
  cm_capability_id :: string
  cm_capability_bundle :: "private_file_reference option"
  cm_receiver_profile :: private_file_reference
  cm_observed_revision :: nat
  cm_observed_index :: private_file_reference
  cm_parameter_layout_sha256 :: digest
  cm_dense_delta_sha256 :: digest
  cm_output_path :: path
  cm_receipt :: weight_receipt
  cm_candidate_only :: bool
  cm_authorizes_promotion :: bool

record promotion_authorization =
  pa_schema :: string
  pa_governed :: bool
  pa_adapter :: adapter_version
  pa_manifest :: private_file_reference
  pa_capability_id :: string
  pa_receiver_model :: receiver_model_key
  pa_receiver_profile :: private_file_reference
  pa_parameter_layout_sha256 :: digest
  pa_dense_delta_sha256 :: digest
  pa_issued_against_index :: private_file_reference
  pa_evidence :: promotion_evidence
  pa_decision :: promotion_decision
  pa_authorizes_promotion :: bool

record bank_commit =
  bc_schema :: string
  bc_revision :: nat
  bc_index :: private_file_reference
  bc_operation :: bank_operation
  bc_manifest :: "private_file_reference option"
  bc_idempotent :: bool

datatype lifecycle_state = RegisteredCandidate | ActiveAdapter | RevokedAdapter

record adapter_status =
  st_adapter :: adapter_version
  st_capability_id :: string
  st_lineage_id :: string
  st_receiver_model :: receiver_model_key
  st_manifest :: private_file_reference
  st_state :: lifecycle_state

record bank_report =
  br_schema :: string
  br_revision :: nat
  br_index :: "private_file_reference option"
  br_adapters :: "adapter_status list"

record execution_resolution =
  er_schema :: string
  er_bank_revision :: nat
  er_index :: private_file_reference
  er_slot :: activation_slot
  er_adapter :: adapter_version
  er_manifest :: private_file_reference
  er_authorization :: private_file_reference
  er_execution_binding :: execution_binding
  er_materialized_candidate :: "candidate_materialization option"

record history_status =
  hs_revision :: nat
  hs_index :: "private_file_reference option"
  hs_verified_revision_count :: nat
  hs_registered_adapter_count :: nat
  hs_active_adapter_count :: nat
  hs_revoked_adapter_count :: nat

section \<open>Requests\<close>

text \<open>The request types; \<open>'l\<close> is \<open>LoraAdapterAxisInput\<close>, which the bank only passes on.\<close>

record 'l import_request =
  ir_schema :: string
  ir_adapter :: adapter_version
  ir_capability_id :: string
  ir_lineage_id :: string
  ir_capability_bundle :: "private_file_reference option"
  ir_receiver_profile :: private_file_reference
  ir_lora :: 'l
  ir_expected :: bank_expectation

record composition_input_term =
  it_adapter :: adapter_version
  it_coefficient :: f64_bits

record composition_request =
  cr_schema :: string
  cr_adapter :: adapter_version
  cr_capability_id :: string
  cr_lineage_id :: string
  cr_capability_bundle :: "private_file_reference option"
  cr_terms :: "composition_input_term list"
  cr_expected :: bank_expectation

record activation_request =
  ar_schema :: string
  ar_adapter :: adapter_version
  ar_authorization :: private_file_reference
  ar_expected :: bank_expectation

record revocation_request =
  vr_schema :: string
  vr_adapter :: adapter_version
  vr_reason :: string
  vr_evidence :: "private_file_reference option"
  vr_expected :: bank_expectation

record rollback_request =
  rr_schema :: string
  rr_receiver_model :: receiver_model_key
  rr_capability_id :: string
  rr_target_revision :: nat
  rr_reason :: string
  rr_evidence :: "private_file_reference option"
  rr_authorization :: "private_file_reference option"
  rr_expected :: bank_expectation

record materialization_request =
  mr_schema :: string
  mr_adapter :: adapter_version
  mr_output_path :: path
  mr_expected :: bank_expectation

record promotion_request =
  pr_schema :: string
  pr_materialization :: private_file_reference
  pr_candidate_gate :: private_file_reference
  pr_petfc_assessment :: private_file_reference
  pr_canary_state :: private_file_reference
  pr_expected :: bank_expectation

record bank_query =
  bq_schema :: string
  bq_capability_id :: "string option"
  bq_model_id :: "string option"
  bq_model_sha256 :: "digest option"
  bq_include_revoked :: bool

record bank_lookup =
  bl_schema :: string
  bl_adapter_id :: string
  bl_generation :: "nat option"

record resolution_request =
  rq_schema :: string
  rq_receiver_model :: receiver_model_key
  rq_capability_id :: string

section \<open>Parameters\<close>

text \<open>What is serialized with \<open>serde_json::to_vec\<close>.\<close>

datatype bank_record =
    RManifest adapter_manifest
  | RProvenance lora_provenance
  | RLoraReceipt lora_receipt
  | RSnapshot index_snapshot
  | RCommit revision_commit
  | RHead bank_head
  | RMaterialization candidate_materialization
  | RAuthorization promotion_authorization

text \<open>
  The listing of a directory as the operating system returns it, in any order: each name with
  whether it is a regular file, or an error while reading on.
\<close>

datatype directory_read =
    DirectoryMissing
  | DirectoryError brain_error
  | NotDirectory
  | DirectoryEntries "(string \<times> bool) res list"

datatype bundle_status = BundleOpen | BundleBlocked | RepresentationClosed

text \<open>
  Parameters of the bank: the digest, the serializer and the decoders; the directory listing and
  files outside the private root; and the authorities the bank calls (receiver profiles, parameter
  layouts, dense deltas, capability bundles, adapter import, weight materialization, governance
  witnesses), whose models are not part of this theory. \<open>'g\<close> is the type of governance witnesses,
  \<open>'l\<close> the input of an import. \<open>call_depth\<close> is how deep the mutual recursion of snapshot, permit and
  materialization may go before the stack of the process ends.
\<close>

record ('g, 'l) bank_externals =
  bank_sha :: "string \<Rightarrow> digest"
  bank_to_vec :: "bank_record \<Rightarrow> string"
  slice_manifest :: "string \<Rightarrow> adapter_manifest option"
  slice_provenance :: "string \<Rightarrow> lora_provenance option"
  slice_snapshot :: "string \<Rightarrow> index_snapshot option"
  slice_commit :: "string \<Rightarrow> revision_commit option"
  slice_head :: "string \<Rightarrow> bank_head option"
  slice_materialization :: "string \<Rightarrow> candidate_materialization option"
  slice_authorization :: "string \<Rightarrow> promotion_authorization option"
  read_dir :: "path \<Rightarrow> store \<Rightarrow> directory_read"
  outside_file :: "path \<Rightarrow> store \<Rightarrow> string res"
  canonical_directory :: "path \<Rightarrow> store \<Rightarrow> unit res"
  receiver_profile_of :: "path \<Rightarrow> private_file_reference \<Rightarrow> store \<Rightarrow> receiver_profile res"
  live_receiver_profile :: "path \<Rightarrow> private_file_reference \<Rightarrow> store \<Rightarrow> receiver_profile res"
  layout_of :: "path \<Rightarrow> layout_binding \<Rightarrow> store \<Rightarrow> parameter_block_layout res"
  layout_validate :: "parameter_block_layout \<Rightarrow> unit res"
  layout_digest :: "parameter_block_layout \<Rightarrow> digest res"
  layout_persist :: "path \<Rightarrow> parameter_block_layout \<Rightarrow> private_file_reference io"
  verify_dvec :: "path \<Rightarrow> delta_artifact_ref \<Rightarrow> store \<Rightarrow> unit res"
  derive_combination :: "path \<Rightarrow> (delta_artifact_ref \<times> f64_bits) list \<Rightarrow> store \<Rightarrow> delta_artifact_ref res"
  combine_dvec :: "path \<Rightarrow> (delta_artifact_ref \<times> f64_bits) list \<Rightarrow> delta_artifact_ref io"
  bundle_of :: "path \<Rightarrow> private_file_reference \<Rightarrow> store \<Rightarrow> (string \<times> bundle_status) res"
  import_axis :: "path \<Rightarrow> 'l \<Rightarrow> lora_receipt io"
  axis_fits_profile :: "path \<Rightarrow> private_file_reference \<Rightarrow> lora_receipt \<Rightarrow> store \<Rightarrow> unit res"
  axis_receipt_of :: "path \<Rightarrow> private_file_reference \<Rightarrow> store \<Rightarrow> lora_receipt res"
  materialize_checkpoint ::
    "path \<Rightarrow> path \<Rightarrow> digest \<Rightarrow> parameter_block_layout \<Rightarrow> delta_artifact_ref \<Rightarrow> path \<Rightarrow> weight_receipt io"
  weight_receipt_valid ::
    "path \<Rightarrow> path \<Rightarrow> parameter_block_layout \<Rightarrow> delta_artifact_ref \<Rightarrow> path \<Rightarrow> weight_receipt \<Rightarrow> store \<Rightarrow> unit res"
  gate_of :: "path \<Rightarrow> private_file_reference \<Rightarrow> store \<Rightarrow> 'g res"
  petfc_of :: "path \<Rightarrow> private_file_reference \<Rightarrow> store \<Rightarrow> 'g res"
  canary_of :: "path \<Rightarrow> private_file_reference \<Rightarrow> store \<Rightarrow> 'g res"
  witness_persist :: "path \<Rightarrow> 'g \<Rightarrow> private_file_reference io"
  witnesses_promote :: "string \<Rightarrow> 'g \<Rightarrow> 'g \<Rightarrow> 'g \<Rightarrow> unit res"
  call_depth :: nat

section \<open>Checks on values\<close>

definition adapter_version_validate :: "adapter_version \<Rightarrow> unit res" where
  "adapter_version_validate v = reject (generation v = 0) (Invalid ''adapter_generation_zero'')"

text \<open>How many bytes the blank character at the front of UTF-8 text takes, 0 if there is none.\<close>

fun blank_width :: "nat list \<Rightarrow> nat" where
  "blank_width [] = 0"
| "blank_width (b0 # r) =
     (if codes_blank [b0] then 1
      else if codes_blank (b0 # take 1 r) then 2
      else if codes_blank (b0 # take 2 r) then 3
      else 0)"

text \<open>\<open>reason != reason.trim()\<close>: the text begins or ends with a blank character.\<close>

definition untrimmed :: "string \<Rightarrow> bool" where
  "untrimmed s \<longleftrightarrow>
     (let codes = map of_char s; n = length codes in
      blank_width codes \<noteq> 0
      \<or> list_ex (\<lambda>k. k \<le> n \<and> blank_width (drop (n - k) codes) = k) [1, 2, 3])"

text \<open>\<open>char::is_control\<close>: U+0000 to U+001F and U+007F to U+009F.\<close>

fun has_control :: "nat list \<Rightarrow> bool" where
  "has_control [] = False"
| "has_control (b0 # r) =
     (b0 < 32 \<or> b0 = 127
      \<or> (b0 = 194 \<and> (case r of b1 # _ \<Rightarrow> b1 \<le> 159 | [] \<Rightarrow> False))
      \<or> has_control r)"

definition validate_reason :: "string \<Rightarrow> unit res" where
  "validate_reason reason =
     reject (reason = [] \<or> MAX_REASON_BYTES < length reason \<or> untrimmed reason
             \<or> has_control (map of_char reason))
       (Invalid ''adapter_lifecycle_reason_invalid'')"

text \<open>\<open>format!("{:016x}", bits)\<close>.\<close>

definition coefficient_bits_hex :: "f64_bits \<Rightarrow> string" where
  "coefficient_bits_hex bits =
     map (\<lambda>i. ''0123456789abcdef'' ! (unat (drop_bit (4 * (15 - i)) bits AND 15))) [0..<16]"

definition f64_is_finite :: "f64_bits \<Rightarrow> bool" where
  "f64_is_finite bits \<longleftrightarrow> drop_bit 52 bits AND 0x7FF \<noteq> 0x7FF"

definition f64_is_zero :: "f64_bits \<Rightarrow> bool" where
  "f64_is_zero bits \<longleftrightarrow> bits = 0 \<or> bits = push_bit 63 1"

definition validate_coefficient :: "f64_bits \<Rightarrow> unit res" where
  "validate_coefficient value =
     reject (\<not> f64_is_finite value \<or> f64_is_zero value) (Invalid ''adapter_composition_coefficient_invalid'')"

definition promotion_decision_validate :: "promotion_decision \<Rightarrow> unit res" where
  "promotion_decision_validate d =
     reject (pd_allowed d \<noteq> (pd_reasons d = [])
             \<or> list_ex trim_is_empty (bm_keys (pd_metrics d))
             \<or> list_ex (\<lambda>v. \<not> f64_is_finite v) (bm_values (pd_metrics d)))
       (Integrity ''promotion_decision_contract_invalid'')"

section \<open>Paths\<close>

definition bank_root :: "path \<Rightarrow> path" where
  "bank_root root = root @ [Normal ''state'', Normal ''adapter_bank'']"

definition bank_lock_path :: "path \<Rightarrow> path" where
  "bank_lock_path root = bank_root root @ [Normal ''authority.lock'']"

definition head_path :: "path \<Rightarrow> path" where
  "head_path root = bank_root root @ [Normal ''head.json'']"

definition revision_commit_root :: "path \<Rightarrow> path" where
  "revision_commit_root root = bank_root root @ [Normal ''commits'', Normal ''by-revision'']"

text \<open>\<open>format!("{revision:020}")\<close> of a \<open>u64\<close>, which has at most 20 digits.\<close>

definition decimal20 :: "nat \<Rightarrow> string" where
  "decimal20 n = map (\<lambda>i. char_of (48 + n div 10 ^ (19 - i) mod 10)) [0..<20]"

definition revision_commit_path :: "path \<Rightarrow> nat \<Rightarrow> path" where
  "revision_commit_path root revision = revision_commit_root root @ [Normal (decimal20 revision @ ''.json'')]"

text \<open>The content-addressed directories of the bank.\<close>

definition by_sha :: "path \<Rightarrow> string \<Rightarrow> digest \<Rightarrow> string \<Rightarrow> path" where
  "by_sha root directory digest extension =
     bank_root root @ [Normal directory, Normal ''by-sha'', Normal (digest @ ''.'' @ extension)]"

definition manifest_path :: "path \<Rightarrow> digest \<Rightarrow> path" where
  "manifest_path root digest = by_sha root ''manifests'' digest ''json''"

definition import_path :: "path \<Rightarrow> digest \<Rightarrow> path" where
  "import_path root digest = by_sha root ''imports'' digest ''json''"

definition source_blob_path :: "path \<Rightarrow> digest \<Rightarrow> string \<Rightarrow> path" where
  "source_blob_path root digest extension = by_sha root ''source-blobs'' digest extension"

definition index_path :: "path \<Rightarrow> digest \<Rightarrow> path" where
  "index_path root digest = by_sha root ''indexes'' digest ''json''"

definition authorization_path :: "path \<Rightarrow> digest \<Rightarrow> path" where
  "authorization_path root digest = by_sha root ''promotion-authorizations'' digest ''json''"

definition materialization_path :: "path \<Rightarrow> digest \<Rightarrow> path" where
  "materialization_path root digest = by_sha root ''materializations'' digest ''json''"

definition canonical_delta_path :: "path \<Rightarrow> digest \<Rightarrow> path" where
  "canonical_delta_path root digest =
     root @ [Normal ''artifacts'', Normal ''deltas'', Normal ''by-sha'', Normal (digest @ ''.dvec'')]"

section \<open>Small operations\<close>

definition empty_snapshot :: index_snapshot where
  "empty_snapshot = \<lparr>sn_schema = ''tidex.adapter_index/v1'', sn_revision = 0, sn_parent = None, sn_operation = OpEmpty,
     sn_entries = [], sn_by_capability = [], sn_by_model = [], sn_active = [], sn_revocations = []\<rparr>"

definition entry_from_manifest :: "adapter_manifest \<Rightarrow> private_file_reference \<Rightarrow> index_entry" where
  "entry_from_manifest manifest reference =
     \<lparr>ie_adapter = am_adapter manifest, ie_capability_id = am_capability_id manifest,
      ie_lineage_id = am_lineage_id manifest, ie_receiver_model = am_receiver_model manifest,
      ie_parameter_layout_sha256 = lb_parameter_layout_sha256 (am_parameter_layout manifest),
      ie_manifest = reference\<rparr>"

text \<open>\<open>map.entry(key).or_default().push(value)\<close>.\<close>

definition bucket_push :: "'k::linorder \<Rightarrow> 'v \<Rightarrow> ('k, 'v list) bmap \<Rightarrow> ('k, 'v list) bmap" where
  "bucket_push k v m = bm_insert k ((case map_of m k of None \<Rightarrow> [] | Some vs \<Rightarrow> vs) @ [v]) m"

definition derived_buckets :: "index_entry list \<Rightarrow> capability_bucket list \<times> model_bucket list" where
  "derived_buckets entries =
     (let capabilities = fold (\<lambda>e. bucket_push (ie_capability_id e) (ie_adapter e)) entries [];
          models = fold (\<lambda>e. bucket_push (ie_receiver_model e) (ie_adapter e)) entries []
      in (map (\<lambda>(c, vs). \<lparr>cb_capability_id = c, cb_adapters = vs\<rparr>) capabilities,
          map (\<lambda>(m, vs). \<lparr>mb_receiver_model = m, mb_adapters = vs\<rparr>) models))"

definition check_expectation ::
  "bank_expectation \<Rightarrow> index_snapshot \<Rightarrow> private_file_reference option \<Rightarrow> unit res" where
  "check_expectation expected snapshot reference =
     reject (be_revision expected \<noteq> sn_revision snapshot
             \<or> be_index_sha256 expected \<noteq> map_option ref_sha256 reference)
       (Integrity ''adapter_bank_compare_and_swap_mismatch'')"

definition is_revoked :: "index_snapshot \<Rightarrow> adapter_version \<Rightarrow> bool" where
  "is_revoked s v = list_ex (\<lambda>r. rv_adapter r = v) (sn_revocations s)"

definition find_entry_of :: "index_entry list \<Rightarrow> adapter_version \<Rightarrow> index_entry option" where
  "find_entry_of entries v = List.find (\<lambda>e. ie_adapter e = v) entries"

definition find_slot :: "active_selection list \<Rightarrow> activation_slot \<Rightarrow> active_selection option" where
  "find_slot active slot = List.find (\<lambda>s. sel_slot s = slot) active"

text \<open>The last element with the largest key (\<open>Iterator::max_by_key\<close>).\<close>

fun max_by_key :: "('a \<Rightarrow> nat) \<Rightarrow> 'a list \<Rightarrow> 'a option" where
  "max_by_key key [] = None"
| "max_by_key key (x # xs) =
     (case max_by_key key xs of None \<Rightarrow> Some x | Some y \<Rightarrow> Some (if key x \<le> key y then y else x))"

text \<open>\<open>xs.windows(2).any(|pair| p(pair[0], pair[1]))\<close>.\<close>

fun windows2_any :: "('a \<Rightarrow> 'a \<Rightarrow> bool) \<Rightarrow> 'a list \<Rightarrow> bool" where
  "windows2_any p (x # y # xs) = (p x y \<or> windows2_any p (y # xs))"
| "windows2_any p _ = False"

definition composition_dependencies :: "adapter_manifest \<Rightarrow> adapter_version list" where
  "composition_dependencies manifest = (case am_source manifest of
     ImportedPeftLora _ _ _ \<Rightarrow> []
   | ExactDenseComposition _ terms _ _ \<Rightarrow> map ct_adapter terms)"

end
