(* ===== verification/Adapter_Manifest.thy ===== *)
theory Adapter_Manifest
  imports Adapter_Types
begin

text \<open>
  Manifests of the adapter bank: retained source blobs, import provenance, and the authentication
  of a manifest with all manifests it is composed of
  (\<open>authenticate_manifest_inner\<close> and \<open>validate_manifest_contract\<close>, which call each other).
\<close>

section \<open>Reading and writing records\<close>

definition sha_reference :: "('g, 'l) bank_externals \<Rightarrow> path \<Rightarrow> string \<Rightarrow> private_file_reference" where
  "sha_reference X p bytes = \<lparr>ref_path = p, ref_sha256 = digest_bytes (bank_sha X) bytes\<rparr>"

text \<open>
  The writes of immutable records share their steps: install the bytes, compare the digest the
  store returns, and name the file.
\<close>

definition persist_bytes ::
  "('g, 'l) bank_externals \<Rightarrow> path \<Rightarrow> path \<Rightarrow> string \<Rightarrow> string \<Rightarrow> private_file_reference io" where
  "persist_bytes X root p bytes code =
     io_bind (write_or_verify_immutable (bank_sha X) root p bytes) (\<lambda>written.
     io_bind (io_res (reject (written \<noteq> digest_bytes (bank_sha X) bytes) (Integrity code))) (\<lambda>_.
     io_res (Inr (sha_reference X p bytes))))"

definition read_mutable_bounded :: "('g, 'l) bank_externals \<Rightarrow> path \<Rightarrow> path \<Rightarrow> store \<Rightarrow> string res" where
  "read_mutable_bounded X root p fs =
     rbind (open_private_reference root p fs) (\<lambda>(_, opened).
     let bytes = take (saturating_add 64 MAX_BANK_JSON_BYTES 1) (concat (chunks opened)) in
     if MAX_BANK_JSON_BYTES < length bytes then Inl (Invalid ''adapter_bank_record_too_large'')
     else Inr bytes)"

section \<open>Source blobs and provenance\<close>

definition authenticate_retained_blob ::
  "('g, 'l) bank_externals \<Rightarrow> path \<Rightarrow> retained_blob \<Rightarrow> string \<Rightarrow> string \<Rightarrow> store \<Rightarrow> unit res" where
  "authenticate_retained_blob X root retained extension media_type fs =
     rbind (reject (rb_byte_len retained = 0 \<or> rb_media_type retained \<noteq> media_type
                    \<or> ref_path (rb_artifact retained) \<noteq> source_blob_path root (ref_sha256 (rb_artifact retained)) extension)
              (Integrity ''adapter_source_blob_binding_invalid'')) (\<lambda>_.
     rbind (ref_verify (bank_sha X) root (rb_artifact retained) fs) (\<lambda>_.
     rbind (open_private_reference root (ref_path (rb_artifact retained)) fs) (\<lambda>(_, opened).
     reject (opened_len opened \<noteq> rb_byte_len retained) (Integrity ''adapter_source_blob_length_mismatch''))))"

text \<open>
  The blob is copied to a staging file next to its destination and linked there if its digest is the
  expected one; the staging file never survives the call, so the model goes from the old store to
  the one with the blob in a single step.
\<close>

definition retain_external_blob ::
  "('g, 'l) bank_externals \<Rightarrow> path \<Rightarrow> path \<Rightarrow> digest \<Rightarrow> string \<Rightarrow> string \<Rightarrow> retained_blob io" where
  "retain_external_blob X root source expected extension media_type =
     io_bind (io_res (reject (\<not> is_absolute source \<or> ParentDir \<in> set source)
                        (Invalid ''adapter_source_blob_path_invalid''))) (\<lambda>_.
     io_bind (io_read (outside_file X source)) (\<lambda>bytes.
     io_bind (io_res (reject (bytes = []) (Integrity ''adapter_source_blob_not_regular_file''))) (\<lambda>_.
     let destination = source_blob_path root expected extension;
         artifact = \<lparr>ref_path = destination, ref_sha256 = expected\<rparr>;
         retained = \<lparr>rb_artifact = artifact, rb_byte_len = length bytes, rb_media_type = media_type\<rparr> in
     io_bind (io_res (root_relative_path root destination)) (\<lambda>relative.
     io_bind (io_res (reject (digest_bytes (bank_sha X) bytes \<noteq> expected)
                        (Integrity ''private_file_staged_content_mismatch''))) (\<lambda>_.
     io_bind (\<lambda>fs. case fs destination of
                None \<Rightarrow> (Inr True, fs(destination \<mapsto> bytes))
              | Some _ \<Rightarrow> (Inr False, fs)) (\<lambda>installed.
     io_bind (if installed then io_res (Inr destination) else io_read (ref_verify (bank_sha X) root artifact)) (\<lambda>_.
     io_bind (io_read (authenticate_retained_blob X root retained extension media_type)) (\<lambda>_.
     io_res (Inr retained)))))))))"

definition authenticate_import_provenance ::
  "('g, 'l) bank_externals \<Rightarrow> path \<Rightarrow> private_file_reference \<Rightarrow> store \<Rightarrow> lora_receipt res" where
  "authenticate_import_provenance X root reference fs =
     rbind (reject (ref_path reference \<noteq> import_path root (ref_sha256 reference))
              (Integrity ''adapter_import_provenance_path_not_canonical'')) (\<lambda>_.
     rbind (read_verified_bounded (bank_sha X) root reference MAX_BANK_JSON_BYTES fs) (\<lambda>bytes.
     rbind (ok_or (slice_provenance X bytes) Json) (\<lambda>provenance.
     let receipt = lp_receipt provenance in
     rbind (reject (lp_schema provenance \<noteq> ''tidex.adapter_import_provenance/v1''
                    \<or> lr_schema receipt \<noteq> ''tidex.lora_adapter_axis_receipt/v1''
                    \<or> lr_target_tensors receipt = []
                    \<or> lr_authorizes_promotion receipt
                    \<or> lr_authorizes_target_update_free_claim receipt
                    \<or> lr_source_training_semantics_attested receipt
                    \<or> bank_to_vec X (RProvenance provenance) \<noteq> bytes)
              (Integrity ''adapter_import_provenance_invalid'')) (\<lambda>_.
     rbind (layout_validate X (lr_parameter_layout receipt)) (\<lambda>_.
     rbind (verify_dvec X root (lr_dense_delta receipt) fs) (\<lambda>_.
     Inr receipt))))))"

definition persist_import_provenance ::
  "('g, 'l) bank_externals \<Rightarrow> path \<Rightarrow> lora_receipt \<Rightarrow> private_file_reference io" where
  "persist_import_provenance X root receipt =
     (let bytes = bank_to_vec X (RProvenance \<lparr>lp_schema = ''tidex.adapter_import_provenance/v1'', lp_receipt = receipt\<rparr>);
          p = import_path root (digest_bytes (bank_sha X) bytes) in
      io_bind (persist_bytes X root p bytes ''adapter_import_provenance_write_mismatch'') (\<lambda>reference.
      io_bind (io_read (authenticate_import_provenance X root reference)) (\<lambda>_.
      io_res (Inr reference))))"

section \<open>Capability bundles\<close>

definition authenticate_bound_capability_bundle ::
  "('g, 'l) bank_externals \<Rightarrow> path \<Rightarrow> private_file_reference option \<Rightarrow> string \<Rightarrow> store \<Rightarrow> bundle_status option res" where
  "authenticate_bound_capability_bundle X root reference expected_capability fs =
     (case reference of
        None \<Rightarrow> Inr None
      | Some reference \<Rightarrow>
          rbind (bundle_of X root reference fs) (\<lambda>(capability, status).
          rbind (reject (capability \<noteq> expected_capability) (Integrity ''adapter_capability_bundle_binding_mismatch''))
            (\<lambda>_. Inr (Some status))))"

definition require_promotable_capability_bundle ::
  "('g, 'l) bank_externals \<Rightarrow> path \<Rightarrow> adapter_manifest \<Rightarrow> store \<Rightarrow> private_file_reference res" where
  "require_promotable_capability_bundle X root manifest fs =
     rbind (ok_or (am_capability_bundle manifest) (Invalid ''adapter_promotion_capability_bundle_missing'')) (\<lambda>reference.
     rbind (authenticate_bound_capability_bundle X root (Some reference) (am_capability_id manifest) fs) (\<lambda>bundle.
     rbind (ok_or bundle (Integrity ''adapter_promotion_capability_bundle_missing'')) (\<lambda>status.
     rbind (reject (status \<noteq> RepresentationClosed)
              (Invalid ''adapter_promotion_capability_bundle_not_representation_closed'')) (\<lambda>_.
     Inr reference))))"

section \<open>Manifests\<close>

text \<open>One term of a composition; \<open>auth\<close> authenticates the manifest the term names.\<close>

definition validate_composition_term ::
  "(private_file_reference \<Rightarrow> adapter_manifest res) \<Rightarrow> adapter_manifest \<Rightarrow> composition_term
    \<Rightarrow> digest option \<times> adapter_version set \<times> (delta_artifact_ref \<times> f64_bits) list
    \<Rightarrow> (digest option \<times> adapter_version set \<times> (delta_artifact_ref \<times> f64_bits) list) res" where
  "validate_composition_term auth manifest t = (\<lambda>(prior, versions, sources).
     rbind (adapter_version_validate (ct_adapter t)) (\<lambda>_.
     rbind (validate_coefficient (ct_coefficient t)) (\<lambda>_.
     rbind (reject (ct_coefficient_bits_hex t \<noteq> coefficient_bits_hex (ct_coefficient t)
                    \<or> ct_adapter t \<in> versions
                    \<or> (case prior of None \<Rightarrow> False | Some p \<Rightarrow> ref_sha256 (ct_manifest t) \<le> p))
              (Invalid ''adapter_manifest_composition_term_invalid'')) (\<lambda>_.
     rbind (auth (ct_manifest t)) (\<lambda>parent.
     rbind (reject (am_adapter parent \<noteq> ct_adapter t
                    \<or> am_receiver_model parent \<noteq> am_receiver_model manifest
                    \<or> am_receiver_profile parent \<noteq> am_receiver_profile manifest
                    \<or> am_architecture_id parent \<noteq> am_architecture_id manifest
                    \<or> am_parameter_topology_sha256 parent \<noteq> am_parameter_topology_sha256 manifest
                    \<or> am_adaptation_abi_sha256 parent \<noteq> am_adaptation_abi_sha256 manifest
                    \<or> am_parameter_layout parent \<noteq> am_parameter_layout manifest)
              (Integrity ''adapter_manifest_composition_parent_mismatch'')) (\<lambda>_.
     Inr (Some (ref_sha256 (ct_manifest t)), insert (ct_adapter t) versions,
          sources @ [(am_dense_delta parent, ct_coefficient t)])))))))"

fun validate_manifest_source ::
  "('g, 'l) bank_externals \<Rightarrow> path \<Rightarrow> (private_file_reference \<Rightarrow> adapter_manifest res) \<Rightarrow> adapter_manifest
    \<Rightarrow> parameter_block_layout \<Rightarrow> manifest_source \<Rightarrow> store \<Rightarrow> unit res" where
  "validate_manifest_source X root auth manifest layout (ImportedPeftLora import_provenance adapter_model adapter_config) fs =
     rbind (authenticate_import_provenance X root import_provenance fs) (\<lambda>receipt.
     rbind (authenticate_retained_blob X root adapter_model ''safetensors'' ''application/x-safetensors'' fs) (\<lambda>_.
     rbind (authenticate_retained_blob X root adapter_config ''json'' ''application/json'' fs) (\<lambda>_.
     reject (lr_base_model_sha256 receipt \<noteq> model_sha256 (am_receiver_model manifest)
             \<or> lr_parameter_layout receipt \<noteq> layout
             \<or> lr_dense_delta receipt \<noteq> am_dense_delta manifest
             \<or> lr_adapter_model_sha256 receipt \<noteq> ref_sha256 (rb_artifact adapter_model)
             \<or> lr_adapter_config_sha256 receipt \<noteq> ref_sha256 (rb_artifact adapter_config))
       (Integrity ''adapter_manifest_import_binding_mismatch''))))"
| "validate_manifest_source X root auth manifest layout
      (ExactDenseComposition arithmetic terms rank_truncation_used factor_refactorization_used) fs =
     rbind (reject (arithmetic \<noteq> EXACT_COMPOSITION_ARITHMETIC \<or> rank_truncation_used \<or> factor_refactorization_used
                    \<or> length terms < 2 \<or> MAX_COMPOSITION_TERMS < length terms)
              (Invalid ''adapter_manifest_composition_invalid'')) (\<lambda>_.
     rbind (rfold (validate_composition_term auth manifest) terms (None, {}, [])) (\<lambda>(_, _, sources).
     rbind (derive_combination X root sources fs) (\<lambda>derived.
     reject (derived \<noteq> am_dense_delta manifest) (Integrity ''adapter_manifest_composition_delta_mismatch''))))"

definition validate_manifest_contract ::
  "('g, 'l) bank_externals \<Rightarrow> path \<Rightarrow> (private_file_reference \<Rightarrow> adapter_manifest res) \<Rightarrow> adapter_manifest \<Rightarrow> store \<Rightarrow> unit res" where
  "validate_manifest_contract X root auth manifest fs =
     rbind (adapter_version_validate (am_adapter manifest)) (\<lambda>_.
     rbind (reject (am_schema manifest \<noteq> ''tidex.adapter_manifest/v1''
                    \<or> am_lineage_id manifest = []
                    \<or> \<not> am_candidate_only manifest
                    \<or> am_authorizes_promotion manifest
                    \<or> delta_parameter_count (am_dense_delta manifest) \<noteq> lb_total_parameter_count (am_parameter_layout manifest)
                    \<or> delta_path (am_dense_delta manifest) \<noteq> canonical_delta_path root (delta_sha256 (am_dense_delta manifest)))
              (Invalid ''adapter_manifest_contract_invalid'')) (\<lambda>_.
     rbind (authenticate_bound_capability_bundle X root (am_capability_bundle manifest) (am_capability_id manifest) fs) (\<lambda>_.
     rbind (receiver_profile_of X root (am_receiver_profile manifest) fs) (\<lambda>profile.
     rbind (reject (model_id (am_receiver_model manifest) \<noteq> rp_model_id profile
                    \<or> model_sha256 (am_receiver_model manifest) \<noteq> rp_checkpoint_sha256 profile
                    \<or> am_architecture_id manifest \<noteq> rp_architecture_id profile
                    \<or> am_parameter_topology_sha256 manifest \<noteq> rp_parameter_topology_sha256 profile
                    \<or> am_adaptation_abi_sha256 manifest \<noteq> rp_adaptation_abi_sha256 profile)
              (Integrity ''adapter_manifest_receiver_binding_mismatch'')) (\<lambda>_.
     rbind (layout_of X root (am_parameter_layout manifest) fs) (\<lambda>layout.
     rbind (verify_dvec X root (am_dense_delta manifest) fs) (\<lambda>_.
     validate_manifest_source X root auth manifest layout (am_source manifest) fs)))))))"

text \<open>
  The recursion over composed manifests. The first argument is the number of levels left,
  \<open>MAX_MANIFEST_DEPTH + 1 - depth\<close> of the code; \<open>stack\<close> holds the digests of the manifests that are
  being authenticated (the code removes a digest when its call returns).
\<close>

fun authenticate_manifest_inner ::
  "('g, 'l) bank_externals \<Rightarrow> path \<Rightarrow> nat \<Rightarrow> digest set \<Rightarrow> store \<Rightarrow> private_file_reference \<Rightarrow> adapter_manifest res" where
  "authenticate_manifest_inner X root 0 stack fs reference =
     Inl (Integrity ''adapter_manifest_dependency_depth_exceeded'')"
| "authenticate_manifest_inner X root (Suc levels) stack fs reference =
     rbind (reject (ref_path reference \<noteq> manifest_path root (ref_sha256 reference))
              (Integrity ''adapter_manifest_path_not_canonical'')) (\<lambda>_.
     rbind (reject (ref_sha256 reference \<in> stack) (Integrity ''adapter_manifest_dependency_cycle'')) (\<lambda>_.
     rbind (read_verified_bounded (bank_sha X) root reference MAX_BANK_JSON_BYTES fs) (\<lambda>bytes.
     rbind (ok_or (slice_manifest X bytes) Json) (\<lambda>manifest.
     rbind (reject (bank_to_vec X (RManifest manifest) \<noteq> bytes)
              (Integrity ''adapter_manifest_encoding_not_canonical'')) (\<lambda>_.
     rbind (validate_manifest_contract X root
              (authenticate_manifest_inner X root levels (insert (ref_sha256 reference) stack) fs) manifest fs) (\<lambda>_.
     Inr manifest))))))"

definition authenticate_manifest ::
  "('g, 'l) bank_externals \<Rightarrow> path \<Rightarrow> private_file_reference \<Rightarrow> store \<Rightarrow> adapter_manifest res" where
  "authenticate_manifest X root reference fs =
     authenticate_manifest_inner X root (Suc MAX_MANIFEST_DEPTH) {} fs reference"

definition persist_manifest ::
  "('g, 'l) bank_externals \<Rightarrow> path \<Rightarrow> adapter_manifest \<Rightarrow> private_file_reference io" where
  "persist_manifest X root manifest =
     io_bind (io_read (\<lambda>fs. validate_manifest_contract X root
                (authenticate_manifest_inner X root MAX_MANIFEST_DEPTH {} fs) manifest fs)) (\<lambda>_.
     let bytes = bank_to_vec X (RManifest manifest);
         p = manifest_path root (digest_bytes (bank_sha X) bytes) in
     io_bind (persist_bytes X root p bytes ''adapter_manifest_write_mismatch'') (\<lambda>reference.
     io_bind (io_read (authenticate_manifest X root reference)) (\<lambda>authenticated.
     io_bind (io_res (reject (authenticated \<noteq> manifest) (Integrity ''adapter_manifest_roundtrip_mismatch''))) (\<lambda>_.
     io_res (Inr reference)))))"

end
