(* ===== verification/Adapter_Snapshot.thy ===== *)
theory Adapter_Snapshot
  imports Adapter_Manifest
begin

text \<open>
  The index of the adapter bank: the revision journal and its head cache, the contract of one
  snapshot, the contract of a transition between two, promotion permits with the materializations
  they rest on, and the publication of a successor.
\<close>

section \<open>The revision journal\<close>

definition starts_with_text :: "string \<Rightarrow> string \<Rightarrow> bool" where
  "starts_with_text p s \<longleftrightarrow> take (length p) s = p"

definition ends_with_text :: "string \<Rightarrow> string \<Rightarrow> bool" where
  "ends_with_text p s \<longleftrightarrow> length p \<le> length s \<and> drop (length s - length p) s = p"

definition parse_decimal :: "string \<Rightarrow> nat" where
  "parse_decimal s = foldl (\<lambda>n c. 10 * n + (of_char c - 48)) 0 s"

definition journal_entry :: "(string \<times> bool) res \<Rightarrow> nat list \<Rightarrow> nat list res" where
  "journal_entry entry revisions =
     rbind entry (\<lambda>(name, is_file).
     rbind (reject (\<not> utf8_valid name) (Integrity ''adapter_bank_revision_commit_name_invalid'')) (\<lambda>_.
     if starts_with_text ''.'' name \<and> ends_with_text ''.immutable.tmp'' name then Inr revisions
     else
       rbind (reject (\<not> is_file) (Integrity ''adapter_bank_revision_commit_type_invalid'')) (\<lambda>_.
       rbind (reject (\<not> ends_with_text ''.json'' name) (Integrity ''adapter_bank_revision_commit_name_invalid'')) (\<lambda>_.
       let stem = take (length name - 5) name in
       rbind (reject (length stem \<noteq> 20 \<or> \<not> list_all is_ascii_digit stem)
                (Integrity ''adapter_bank_revision_commit_name_invalid'')) (\<lambda>_.
       let revision = parse_decimal stem in
       rbind (reject (2 ^ 64 \<le> revision) (Integrity ''adapter_bank_revision_commit_name_invalid'')) (\<lambda>_.
       rbind (reject (revision = 0 \<or> MAX_HISTORY_REVISIONS < revision)
                (Integrity ''adapter_bank_revision_commit_out_of_range'')) (\<lambda>_.
       Inr (revisions @ [revision]))))))))"

definition journal_revisions :: "('g, 'l) bank_externals \<Rightarrow> path \<Rightarrow> store \<Rightarrow> nat list res" where
  "journal_revisions X root fs =
     (case read_dir X (revision_commit_root root) fs of
        DirectoryMissing \<Rightarrow> Inr []
      | DirectoryError e \<Rightarrow> Inl e
      | NotDirectory \<Rightarrow> Inl (Integrity ''adapter_bank_revision_journal_not_directory'')
      | DirectoryEntries entries \<Rightarrow>
          rbind (rfold journal_entry entries []) (\<lambda>found.
          let revisions = sort found in
          rbind (reject (MAX_HISTORY_REVISIONS < length revisions)
                   (Integrity ''adapter_bank_revision_journal_too_long'')) (\<lambda>_.
          rbind (reject (revisions \<noteq> [1..<Suc (length revisions)])
                   (Integrity ''adapter_bank_revision_journal_gap'')) (\<lambda>_.
          Inr revisions))))"

definition read_revision_commit ::
  "('g, 'l) bank_externals \<Rightarrow> path \<Rightarrow> nat \<Rightarrow> store \<Rightarrow> (revision_commit \<times> private_file_reference) res" where
  "read_revision_commit X root revision fs =
     (let p = revision_commit_path root revision in
      rbind (read_mutable_bounded X root p fs) (\<lambda>bytes.
      rbind (ok_or (slice_commit X bytes) (Integrity ''adapter_bank_revision_commit_invalid'')) (\<lambda>commit.
      rbind (reject (jc_schema commit \<noteq> ''tidex.adapter_bank_revision_commit/v1''
                     \<or> jc_revision commit \<noteq> revision \<or> revision = 0 \<or> MAX_HISTORY_REVISIONS < revision
                     \<or> ref_path (jc_index commit) \<noteq> index_path root (ref_sha256 (jc_index commit))
                     \<or> bank_to_vec X (RCommit commit) \<noteq> bytes)
               (Integrity ''adapter_bank_revision_commit_invalid'')) (\<lambda>_.
      rbind (if revision = 1
             then reject (jc_previous_commit commit \<noteq> None \<or> jc_previous_index commit \<noteq> None)
                    (Integrity ''adapter_bank_revision_commit_genesis_link_invalid'')
             else rbind (ok_or (jc_previous_commit commit) (Integrity ''adapter_bank_revision_commit_link_missing'')) (\<lambda>previous_commit.
                  rbind (ok_or (jc_previous_index commit) (Integrity ''adapter_bank_revision_index_link_missing'')) (\<lambda>previous_index.
                  reject (ref_path previous_commit \<noteq> revision_commit_path root (revision - 1)
                          \<or> ref_path previous_index \<noteq> index_path root (ref_sha256 previous_index))
                    (Integrity ''adapter_bank_revision_commit_link_invalid'')))) (\<lambda>_.
      rbind (ref_verify (bank_sha X) root (jc_index commit) fs) (\<lambda>_.
      Inr (commit, sha_reference X p bytes)))))))"

definition journal_linked :: "revision_commit \<times> private_file_reference \<Rightarrow> revision_commit \<Rightarrow> bool" where
  "journal_linked previous commit \<longleftrightarrow>
     jc_previous_commit commit = Some (snd previous) \<and> jc_previous_index commit = Some (jc_index (fst previous))"

definition journal_step ::
  "('g, 'l) bank_externals \<Rightarrow> path \<Rightarrow> store \<Rightarrow> nat \<Rightarrow> (revision_commit \<times> private_file_reference) list
    \<Rightarrow> (revision_commit \<times> private_file_reference) list res" where
  "journal_step X root fs revision commits =
     rbind (read_revision_commit X root revision fs) (\<lambda>(commit, reference).
     rbind (reject (commits \<noteq> [] \<and> \<not> journal_linked (last commits) commit) (Integrity ''adapter_bank_revision_chain_invalid'')) (\<lambda>_.
     Inr (commits @ [(commit, reference)])))"

definition authenticate_revision_journal ::
  "('g, 'l) bank_externals \<Rightarrow> path \<Rightarrow> store \<Rightarrow> (revision_commit \<times> private_file_reference) list res" where
  "authenticate_revision_journal X root fs =
     rbind (journal_revisions X root fs) (\<lambda>revisions. rfold (journal_step X root fs) revisions [])"

definition authenticate_revision_tip ::
  "('g, 'l) bank_externals \<Rightarrow> path \<Rightarrow> store \<Rightarrow> (revision_commit \<times> private_file_reference) option res" where
  "authenticate_revision_tip X root fs =
     rbind (journal_revisions X root fs) (\<lambda>revisions.
     if revisions = [] then Inr None
     else let revision = last revisions in
          rbind (read_revision_commit X root revision fs) (\<lambda>(tip, tip_reference).
          rbind (if 1 < revision
                 then rbind (read_revision_commit X root (revision - 1) fs) (\<lambda>previous.
                      reject (\<not> journal_linked previous tip) (Integrity ''adapter_bank_revision_tip_chain_invalid''))
                 else Inr ()) (\<lambda>_.
          Inr (Some (tip, tip_reference)))))"

definition authenticate_head_cache :: "('g, 'l) bank_externals \<Rightarrow> path \<Rightarrow> revision_commit \<Rightarrow> store \<Rightarrow> unit res" where
  "authenticate_head_cache X root tip fs =
     rbind (existing_regular_file_if_present root (head_path root) fs) (\<lambda>present.
     if present = None then Inr ()
     else rbind (read_mutable_bounded X root (head_path root) fs) (\<lambda>bytes.
          rbind (ok_or (slice_head X bytes) (Integrity ''adapter_bank_head_invalid'')) (\<lambda>head.
          rbind (reject (bh_schema head \<noteq> ''tidex.adapter_bank_head/v1'' \<or> bh_revision head = 0
                         \<or> jc_revision tip < bh_revision head \<or> bank_to_vec X (RHead head) \<noteq> bytes)
                   (Integrity ''adapter_bank_head_invalid'')) (\<lambda>_.
          if bh_revision head = jc_revision tip
          then reject (bh_index head \<noteq> jc_index tip) (Integrity ''adapter_bank_head_commit_mismatch'')
          else rbind (read_revision_commit X root (bh_revision head) fs) (\<lambda>(commit, _).
               reject (bh_index head \<noteq> jc_index commit) (Integrity ''adapter_bank_head_commit_mismatch''))))))"

section \<open>Materializations and permits\<close>

text \<open>
  \<open>auth_snapshot\<close> authenticates a snapshot; the recursion is closed below.
\<close>

definition confined_materialization_output ::
  "('g, 'l) bank_externals \<Rightarrow> path \<Rightarrow> path \<Rightarrow> store \<Rightarrow> path res" where
  "confined_materialization_output X root raw fs =
     rbind (root_relative_path root raw) (\<lambda>relative.
     rbind (canonical_directory X (root @ butlast relative) fs) (\<lambda>_.
     Inr (root @ relative)))"

definition authenticated_manifest_layout ::
  "('g, 'l) bank_externals \<Rightarrow> path \<Rightarrow> adapter_manifest \<Rightarrow> store \<Rightarrow> parameter_block_layout res" where
  "authenticated_manifest_layout X root manifest fs = layout_of X root (am_parameter_layout manifest) fs"

definition materialization_authentic ::
  "('g, 'l) bank_externals \<Rightarrow> path \<Rightarrow> (private_file_reference \<Rightarrow> index_snapshot res) \<Rightarrow> private_file_reference \<Rightarrow> store
    \<Rightarrow> candidate_materialization res" where
  "materialization_authentic X root auth_snapshot reference fs =
     rbind (reject (ref_path reference \<noteq> materialization_path root (ref_sha256 reference))
              (Integrity ''adapter_materialization_path_not_canonical'')) (\<lambda>_.
     rbind (read_verified_bounded (bank_sha X) root reference MAX_BANK_JSON_BYTES fs) (\<lambda>bytes.
     rbind (ok_or (slice_materialization X bytes) Json) (\<lambda>m.
     rbind (reject (cm_schema m \<noteq> ''tidex.adapter_candidate_materialization/v1'' \<or> \<not> cm_candidate_only m
                    \<or> cm_authorizes_promotion m \<or> cm_observed_revision m = 0
                    \<or> bank_to_vec X (RMaterialization m) \<noteq> bytes)
              (Integrity ''adapter_materialization_contract_invalid'')) (\<lambda>_.
     rbind (adapter_version_validate (cm_adapter m)) (\<lambda>_.
     rbind (read_revision_commit X root (cm_observed_revision m) fs) (\<lambda>(commit, _).
     rbind (reject (jc_index commit \<noteq> cm_observed_index m)
              (Integrity ''adapter_materialization_observed_commit_mismatch'')) (\<lambda>_.
     rbind (auth_snapshot (cm_observed_index m)) (\<lambda>snapshot.
     rbind (reject (sn_revision snapshot \<noteq> cm_observed_revision m \<or> is_revoked snapshot (cm_adapter m))
              (Integrity ''adapter_materialization_observed_snapshot_invalid'')) (\<lambda>_.
     rbind (ok_or (find_entry_of (sn_entries snapshot) (cm_adapter m))
              (Integrity ''adapter_materialization_observed_entry_missing'')) (\<lambda>entry.
     rbind (reject (ie_manifest entry \<noteq> cm_manifest m) (Integrity ''adapter_materialization_manifest_mismatch'')) (\<lambda>_.
     rbind (authenticate_manifest X root (ie_manifest entry) fs) (\<lambda>manifest.
     rbind (reject (am_capability_id manifest \<noteq> cm_capability_id m
                    \<or> am_capability_bundle manifest \<noteq> cm_capability_bundle m
                    \<or> am_receiver_profile manifest \<noteq> cm_receiver_profile m
                    \<or> lb_parameter_layout_sha256 (am_parameter_layout manifest) \<noteq> cm_parameter_layout_sha256 m
                    \<or> delta_sha256 (am_dense_delta manifest) \<noteq> cm_dense_delta_sha256 m)
              (Integrity ''adapter_materialization_binding_mismatch'')) (\<lambda>_.
     rbind (live_receiver_profile X root (am_receiver_profile manifest) fs) (\<lambda>profile.
     rbind (authenticated_manifest_layout X root manifest fs) (\<lambda>layout.
     rbind (confined_materialization_output X root (cm_output_path m) fs) (\<lambda>output.
     rbind (reject (output \<noteq> cm_output_path m) (Integrity ''adapter_materialization_output_path_mismatch'')) (\<lambda>_.
     rbind (open_private_reference root output fs) (\<lambda>_.
     rbind (weight_receipt_valid X root (rp_checkpoint_path profile) layout (am_dense_delta manifest) output (cm_receipt m) fs) (\<lambda>_.
     Inr m)))))))))))))))))))"

text \<open>\<open>VariantId::parse\<close> of \<open>src/learning/portfolio_governance.rs\<close>.\<close>

fun has_double_dot :: "string \<Rightarrow> bool" where
  "has_double_dot (a # b # s) = ((a = CHR ''.'' \<and> b = CHR ''.'') \<or> has_double_dot (b # s))"
| "has_double_dot _ = False"

definition variant_id_parse :: "string \<Rightarrow> string res" where
  "variant_id_parse value =
     rbind (reject (value = [] \<or> 128 < length value
                    \<or> hd value = CHR ''.'' \<or> last value = CHR ''.'' \<or> has_double_dot value
                    \<or> \<not> list_all (\<lambda>b. is_ascii_alphanumeric b \<or> b \<in> {CHR ''-'', CHR ''_'', CHR ''.'', CHR '':''}) value)
              (Invalid ''governance_variant_id_invalid'')) (\<lambda>_. Inr value)"

definition governance_candidate_id ::
  "('g, 'l) bank_externals \<Rightarrow> path \<Rightarrow> private_file_reference \<Rightarrow> store \<Rightarrow> string res" where
  "governance_candidate_id X root manifest fs =
     rbind (authenticate_manifest X root manifest fs) (\<lambda>_.
     variant_id_parse (''adapter.manifest.'' @ ref_sha256 manifest))"

text \<open>
  \<open>authenticate_promotion_authorization\<close> in the production build, where a permit that is not governed
  is refused (the test build accepts it with other evidence).
\<close>

definition promotion_authorization_authentic ::
  "('g, 'l) bank_externals \<Rightarrow> path \<Rightarrow> (private_file_reference \<Rightarrow> index_snapshot res) \<Rightarrow> private_file_reference \<Rightarrow> store
    \<Rightarrow> promotion_authorization res" where
  "promotion_authorization_authentic X root auth_snapshot reference fs =
     rbind (reject (ref_path reference \<noteq> authorization_path root (ref_sha256 reference))
              (Integrity ''adapter_promotion_authorization_path_not_canonical'')) (\<lambda>_.
     rbind (read_verified_bounded (bank_sha X) root reference MAX_BANK_JSON_BYTES fs) (\<lambda>bytes.
     rbind (ok_or (slice_authorization X bytes) Json) (\<lambda>a.
     rbind (promotion_decision_validate (pa_decision a)) (\<lambda>_.
     rbind (reject (pa_schema a \<noteq> ''tidex.adapter_promotion_authorization/v1'' \<or> \<not> pa_authorizes_promotion a
                    \<or> \<not> pd_allowed (pa_decision a) \<or> bank_to_vec X (RAuthorization a) \<noteq> bytes)
              (Integrity ''adapter_promotion_authorization_invalid'')) (\<lambda>_.
     rbind (reject (\<not> pa_governed a) (Integrity ''adapter_promotion_authorization_not_governed'')) (\<lambda>_.
     rbind (gate_of X root (pe_independent_execution (pa_evidence a)) fs) (\<lambda>gate.
     rbind (petfc_of X root (pe_preservation_assessment (pa_evidence a)) fs) (\<lambda>petfc.
     rbind (canary_of X root (pe_negative_controls (pa_evidence a)) fs) (\<lambda>canary.
     rbind (materialization_authentic X root auth_snapshot (pe_materialization_receipt (pa_evidence a)) fs) (\<lambda>m.
     rbind (reject (ref_path (pa_issued_against_index a) \<noteq> index_path root (ref_sha256 (pa_issued_against_index a)))
              (Integrity ''adapter_promotion_parent_index_not_canonical'')) (\<lambda>_.
     rbind (ref_verify (bank_sha X) root (pa_issued_against_index a) fs) (\<lambda>_.
     rbind (authenticate_manifest X root (pa_manifest a) fs) (\<lambda>manifest.
     rbind (reject (pa_adapter a \<noteq> am_adapter manifest \<or> pa_capability_id a \<noteq> am_capability_id manifest
                    \<or> pa_receiver_model a \<noteq> am_receiver_model manifest
                    \<or> pa_receiver_profile a \<noteq> am_receiver_profile manifest
                    \<or> pa_parameter_layout_sha256 a \<noteq> lb_parameter_layout_sha256 (am_parameter_layout manifest)
                    \<or> pa_dense_delta_sha256 a \<noteq> delta_sha256 (am_dense_delta manifest))
              (Integrity ''adapter_promotion_manifest_binding_mismatch'')) (\<lambda>_.
     rbind (require_promotable_capability_bundle X root manifest fs) (\<lambda>_.
     rbind (governance_candidate_id X root (pa_manifest a) fs) (\<lambda>candidate.
     rbind (witnesses_promote X candidate gate petfc canary) (\<lambda>_.
     rbind (reject (cm_adapter m \<noteq> pa_adapter a \<or> cm_manifest m \<noteq> pa_manifest a
                    \<or> cm_capability_id m \<noteq> pa_capability_id a \<or> cm_receiver_profile m \<noteq> pa_receiver_profile a
                    \<or> cm_parameter_layout_sha256 m \<noteq> pa_parameter_layout_sha256 a
                    \<or> cm_dense_delta_sha256 m \<noteq> pa_dense_delta_sha256 a)
              (Integrity ''adapter_promotion_materialization_binding_mismatch'')) (\<lambda>_.
     Inr a))))))))))))))))))"

section \<open>The contract of a snapshot\<close>

definition snapshot_entry ::
  "('g, 'l) bank_externals \<Rightarrow> path \<Rightarrow> store \<Rightarrow> index_entry
    \<Rightarrow> adapter_version option \<times> (string \<times> nat) set \<times> (adapter_version, adapter_manifest) bmap
    \<Rightarrow> (adapter_version option \<times> (string \<times> nat) set \<times> (adapter_version, adapter_manifest) bmap) res" where
  "snapshot_entry X root fs entry = (\<lambda>(prior, generations, manifests).
     rbind (adapter_version_validate (ie_adapter entry)) (\<lambda>_.
     rbind (reject ((case prior of None \<Rightarrow> False | Some p \<Rightarrow> ie_adapter entry \<le> p)
                    \<or> (ie_lineage_id entry, generation (ie_adapter entry)) \<in> generations)
              (Integrity ''adapter_index_entry_order_or_lineage_invalid'')) (\<lambda>_.
     rbind (authenticate_manifest X root (ie_manifest entry) fs) (\<lambda>manifest.
     rbind (reject (ie_adapter entry \<noteq> am_adapter manifest \<or> ie_capability_id entry \<noteq> am_capability_id manifest
                    \<or> ie_lineage_id entry \<noteq> am_lineage_id manifest
                    \<or> ie_receiver_model entry \<noteq> am_receiver_model manifest
                    \<or> ie_parameter_layout_sha256 entry \<noteq> lb_parameter_layout_sha256 (am_parameter_layout manifest))
              (Integrity ''adapter_index_manifest_binding_mismatch'')) (\<lambda>_.
     Inr (Some (ie_adapter entry), insert (ie_lineage_id entry, generation (ie_adapter entry)) generations,
          bm_insert (ie_adapter entry) manifest manifests))))))"

definition snapshot_revocation ::
  "('g, 'l) bank_externals \<Rightarrow> path \<Rightarrow> index_snapshot \<Rightarrow> store \<Rightarrow> adapter_revocation
    \<Rightarrow> adapter_version option \<times> adapter_version set \<Rightarrow> (adapter_version option \<times> adapter_version set) res" where
  "snapshot_revocation X root snapshot fs revocation = (\<lambda>(prior, revoked).
     rbind (validate_reason (rv_reason revocation)) (\<lambda>_.
     rbind (reject (rv_revoked_at_revision revocation = 0
                    \<or> sn_revision snapshot < rv_revoked_at_revision revocation
                    \<or> (case prior of None \<Rightarrow> False | Some p \<Rightarrow> rv_adapter revocation \<le> p)
                    \<or> rv_adapter revocation \<in> revoked)
              (Integrity ''adapter_revocation_order_invalid'')) (\<lambda>_.
     rbind (ok_or (find_entry_of (sn_entries snapshot) (rv_adapter revocation))
              (Integrity ''adapter_revocation_target_missing'')) (\<lambda>entry.
     rbind (reject (ref_sha256 (ie_manifest entry) \<noteq> rv_manifest_sha256 revocation)
              (Integrity ''adapter_revocation_manifest_mismatch'')) (\<lambda>_.
     rbind (case rv_evidence revocation of None \<Rightarrow> Inr () | Some e \<Rightarrow> rbind (ref_verify (bank_sha X) root e fs) (\<lambda>_. Inr ())) (\<lambda>_.
     Inr (Some (rv_adapter revocation), insert (rv_adapter revocation) revoked)))))))"

definition snapshot_selection ::
  "(private_file_reference \<Rightarrow> promotion_authorization res) \<Rightarrow> index_snapshot \<Rightarrow> (adapter_version, adapter_manifest) bmap
    \<Rightarrow> adapter_version set \<Rightarrow> active_selection \<Rightarrow> activation_slot option \<Rightarrow> activation_slot option res" where
  "snapshot_selection auth_permit snapshot manifests revoked selection prior =
     rbind (reject (sel_activated_at_revision selection = 0
                    \<or> sn_revision snapshot < sel_activated_at_revision selection
                    \<or> (case prior of None \<Rightarrow> False | Some p \<Rightarrow> sel_slot selection \<le> p)
                    \<or> sel_adapter selection \<in> revoked
                    \<or> eb_activation_epoch (sel_execution_binding selection) \<noteq> sel_activated_at_revision selection)
              (Integrity ''adapter_active_selection_invalid'')) (\<lambda>_.
     rbind (ok_or (map_of manifests (sel_adapter selection)) (Integrity ''adapter_active_manifest_missing'')) (\<lambda>manifest.
     rbind (reject (slot_receiver_model (sel_slot selection) \<noteq> am_receiver_model manifest
                    \<or> slot_capability_id (sel_slot selection) \<noteq> am_capability_id manifest
                    \<or> eb_base_model_sha256 (sel_execution_binding selection) \<noteq> model_sha256 (am_receiver_model manifest)
                    \<or> eb_adapter_delta_sha256 (sel_execution_binding selection) \<noteq> delta_sha256 (am_dense_delta manifest)
                    \<or> eb_adaptation_abi_sha256 (sel_execution_binding selection) \<noteq> am_adaptation_abi_sha256 manifest)
              (Integrity ''adapter_active_binding_mismatch'')) (\<lambda>_.
     rbind (ok_or (find_entry_of (sn_entries snapshot) (sel_adapter selection)) (Integrity ''adapter_active_entry_missing'')) (\<lambda>entry.
     rbind (reject (sel_manifest selection \<noteq> ie_manifest entry) (Integrity ''adapter_active_binding_mismatch'')) (\<lambda>_.
     rbind (auth_permit (sel_authorization selection)) (\<lambda>authorization.
     rbind (reject (pa_adapter authorization \<noteq> sel_adapter selection \<or> pa_manifest authorization \<noteq> sel_manifest selection)
              (Integrity ''adapter_active_authorization_mismatch'')) (\<lambda>_.
     Inr (Some (sel_slot selection)))))))))"

definition validate_snapshot_contract ::
  "('g, 'l) bank_externals \<Rightarrow> path \<Rightarrow> (private_file_reference \<Rightarrow> promotion_authorization res) \<Rightarrow> index_snapshot \<Rightarrow> store
    \<Rightarrow> unit res" where
  "validate_snapshot_contract X root auth_permit snapshot fs =
     rbind (reject (sn_schema snapshot \<noteq> ''tidex.adapter_index/v1'') (Invalid ''adapter_index_schema_invalid'')) (\<lambda>_.
     if sn_revision snapshot = 0
     then reject (snapshot \<noteq> empty_snapshot) (Integrity ''adapter_index_empty_snapshot_invalid'')
     else
       rbind (reject ((sn_revision snapshot = 1) \<noteq> (sn_parent snapshot = None) \<or> sn_operation snapshot = OpEmpty)
                (Integrity ''adapter_index_history_link_invalid'')) (\<lambda>_.
       rbind (rfold (snapshot_entry X root fs) (sn_entries snapshot) (None, {}, [])) (\<lambda>(_, _, manifests).
       rbind (reject ((sn_by_capability snapshot, sn_by_model snapshot) \<noteq> derived_buckets (sn_entries snapshot))
                (Integrity ''adapter_index_projection_mismatch'')) (\<lambda>_.
       rbind (rfold (snapshot_revocation X root snapshot fs) (sn_revocations snapshot) (None, {})) (\<lambda>(_, revoked).
       rbind (rfor (\<lambda>(version, manifest).
                reject (list_ex (\<lambda>d. d \<in> revoked) (composition_dependencies manifest) \<and> version \<notin> revoked)
                  (Integrity ''adapter_revocation_closure_incomplete'')) manifests) (\<lambda>_.
       rbind (rfold (snapshot_selection auth_permit snapshot manifests revoked) (sn_active snapshot) None) (\<lambda>_.
       Inr ())))))))"

section \<open>Authentication of snapshots\<close>

fun authenticate_snapshot_at ::
  "('g, 'l) bank_externals \<Rightarrow> path \<Rightarrow> nat \<Rightarrow> store \<Rightarrow> private_file_reference \<Rightarrow> index_snapshot res" where
  "authenticate_snapshot_at X root 0 fs reference = Inl (Panic ''stack overflow'')"
| "authenticate_snapshot_at X root (Suc depth) fs reference =
     rbind (reject (ref_path reference \<noteq> index_path root (ref_sha256 reference))
              (Integrity ''adapter_index_path_not_canonical'')) (\<lambda>_.
     rbind (read_verified_bounded (bank_sha X) root reference MAX_BANK_JSON_BYTES fs) (\<lambda>bytes.
     rbind (ok_or (slice_snapshot X bytes) Json) (\<lambda>snapshot.
     rbind (reject (bank_to_vec X (RSnapshot snapshot) \<noteq> bytes) (Integrity ''adapter_index_encoding_not_canonical'')) (\<lambda>_.
     rbind (validate_snapshot_contract X root
              (\<lambda>permit. promotion_authorization_authentic X root (authenticate_snapshot_at X root depth fs) permit fs)
              snapshot fs) (\<lambda>_.
     Inr snapshot)))))"

definition authenticate_snapshot ::
  "('g, 'l) bank_externals \<Rightarrow> path \<Rightarrow> private_file_reference \<Rightarrow> store \<Rightarrow> index_snapshot res" where
  "authenticate_snapshot X root reference fs = authenticate_snapshot_at X root (call_depth X) fs reference"

definition authenticate_candidate_materialization ::
  "('g, 'l) bank_externals \<Rightarrow> path \<Rightarrow> private_file_reference \<Rightarrow> store \<Rightarrow> candidate_materialization res" where
  "authenticate_candidate_materialization X root reference fs =
     materialization_authentic X root (\<lambda>r. authenticate_snapshot X root r fs) reference fs"

definition authenticate_promotion_authorization ::
  "('g, 'l) bank_externals \<Rightarrow> path \<Rightarrow> private_file_reference \<Rightarrow> store \<Rightarrow> promotion_authorization res" where
  "authenticate_promotion_authorization X root reference fs =
     promotion_authorization_authentic X root (\<lambda>r. authenticate_snapshot X root r fs) reference fs"

end
