(* ===== verification/Adapter_Journal.thy ===== *)
theory Adapter_Journal
  imports Adapter_Snapshot
begin

text \<open>
  Transitions between snapshots of the adapter bank, the current snapshot, and the publication of a
  successor: the snapshot is installed under its digest, the journal gets one commit, the head
  cache is replaced, and the result is read back.
\<close>

section \<open>Transitions\<close>

text \<open>One definition per kind of operation; the order of the checks is the code's.\<close>

definition registration_transition ::
  "('g, 'l) bank_externals \<Rightarrow> path \<Rightarrow> index_snapshot \<Rightarrow> index_snapshot \<Rightarrow> bool \<Rightarrow> private_file_reference \<Rightarrow> store \<Rightarrow> unit res" where
  "registration_transition X root parent child composed manifest fs =
     rbind (reject (sn_active child \<noteq> sn_active parent \<or> sn_revocations child \<noteq> sn_revocations parent)
              (Integrity ''adapter_bank_registration_mutated_lifecycle'')) (\<lambda>_.
     rbind (authenticate_manifest X root manifest fs) (\<lambda>authenticated.
     rbind (reject (case am_source authenticated of ImportedPeftLora _ _ _ \<Rightarrow> composed | ExactDenseComposition _ _ _ _ \<Rightarrow> \<not> composed)
              (Integrity ''adapter_bank_registration_operation_mismatch'')) (\<lambda>_.
     reject (sn_entries child \<noteq> sort_key ie_adapter (sn_entries parent @ [entry_from_manifest authenticated manifest]))
       (Integrity ''adapter_bank_registration_transition_invalid''))))"

text \<open>The active selections with the slot of one selection set to it.\<close>

definition with_selection :: "active_selection list \<Rightarrow> active_selection \<Rightarrow> active_selection list" where
  "with_selection active selection =
     sort_key sel_slot (filter (\<lambda>s. sel_slot s \<noteq> sel_slot selection) active @ [selection])"

definition activation_transition ::
  "('g, 'l) bank_externals \<Rightarrow> path \<Rightarrow> index_snapshot \<Rightarrow> index_snapshot \<Rightarrow> adapter_version \<Rightarrow> private_file_reference \<Rightarrow> store
    \<Rightarrow> unit res" where
  "activation_transition X root parent child adapter authorization fs =
     rbind (reject (sn_entries child \<noteq> sn_entries parent \<or> sn_revocations child \<noteq> sn_revocations parent)
              (Integrity ''adapter_bank_activation_mutated_registry'')) (\<lambda>_.
     rbind (ok_or (find_entry_of (sn_entries child) adapter) (Integrity ''adapter_bank_activation_entry_missing'')) (\<lambda>entry.
     rbind (authenticate_manifest X root (ie_manifest entry) fs) (\<lambda>manifest.
     let slot = ActivationSlot (am_receiver_model manifest) (am_capability_id manifest) in
     rbind (ok_or (find_slot (sn_active child) slot) (Integrity ''adapter_bank_activation_selection_missing'')) (\<lambda>selection.
     rbind (reject (sel_adapter selection \<noteq> adapter \<or> sel_authorization selection \<noteq> authorization
                    \<or> sel_activated_at_revision selection \<noteq> sn_revision child
                    \<or> eb_activation_epoch (sel_execution_binding selection) \<noteq> sn_revision child)
              (Integrity ''adapter_bank_activation_transition_invalid'')) (\<lambda>_.
     reject (sn_active child \<noteq> with_selection (sn_active parent) selection)
       (Integrity ''adapter_bank_activation_changed_other_slots''))))))"

definition revocation_transition ::
  "index_snapshot \<Rightarrow> index_snapshot \<Rightarrow> adapter_version \<Rightarrow> adapter_version list \<Rightarrow> unit res" where
  "revocation_transition parent child cause affected =
     rbind (reject (sn_entries child \<noteq> sn_entries parent \<or> affected = [] \<or> cause \<notin> set affected
                    \<or> windows2_any (\<lambda>a b. b \<le> a) affected)
              (Integrity ''adapter_bank_revocation_transition_invalid'')) (\<lambda>_.
     rbind (reject (\<not> list_all (\<lambda>r. r \<in> set (sn_revocations child)) (sn_revocations parent))
              (Integrity ''adapter_bank_revocation_removed_history'')) (\<lambda>_.
     let added = filter (\<lambda>r. r \<notin> set (sn_revocations parent)) (sn_revocations child) in
     rbind (reject (map rv_adapter added \<noteq> affected
                    \<or> list_ex (\<lambda>r. rv_root_cause r \<noteq> cause \<or> rv_revoked_at_revision r \<noteq> sn_revision child) added)
              (Integrity ''adapter_bank_revocation_delta_invalid'')) (\<lambda>_.
     reject (sn_active child \<noteq> filter (\<lambda>s. sel_adapter s \<notin> set affected) (sn_active parent))
       (Integrity ''adapter_bank_revocation_active_delta_invalid''))))"

definition rollback_transition ::
  "('g, 'l) bank_externals \<Rightarrow> path \<Rightarrow> index_snapshot \<Rightarrow> index_snapshot \<Rightarrow> activation_slot \<Rightarrow> nat
    \<Rightarrow> adapter_version option \<Rightarrow> adapter_version option \<Rightarrow> private_file_reference option \<Rightarrow> store \<Rightarrow> unit res" where
  "rollback_transition X root parent child slot target_revision before after authorization fs =
     rbind (reject (sn_entries child \<noteq> sn_entries parent \<or> sn_revocations child \<noteq> sn_revocations parent
                    \<or> target_revision = 0 \<or> sn_revision parent \<le> target_revision)
              (Integrity ''adapter_bank_rollback_transition_invalid'')) (\<lambda>_.
     rbind (reject (map_option sel_adapter (find_slot (sn_active parent) slot) \<noteq> before)
              (Integrity ''adapter_bank_rollback_from_mismatch'')) (\<lambda>_.
     rbind (read_revision_commit X root target_revision fs) (\<lambda>(target_commit, _).
     rbind (authenticate_snapshot X root (jc_index target_commit) fs) (\<lambda>target.
     rbind (reject (map_option sel_adapter (find_slot (sn_active target) slot) \<noteq> after)
              (Integrity ''adapter_bank_rollback_target_mismatch'')) (\<lambda>_.
     let others = filter (\<lambda>s. sel_slot s \<noteq> slot) (sn_active parent) in
     rbind (case after of
              Some adapter \<Rightarrow>
                rbind (ok_or authorization (Integrity ''adapter_bank_rollback_authorization_missing'')) (\<lambda>permit.
                rbind (ok_or (find_slot (sn_active child) slot) (Integrity ''adapter_bank_rollback_selection_missing'')) (\<lambda>selection.
                rbind (reject (sel_adapter selection \<noteq> adapter \<or> sel_authorization selection \<noteq> permit
                               \<or> sel_activated_at_revision selection \<noteq> sn_revision child
                               \<or> eb_activation_epoch (sel_execution_binding selection) \<noteq> sn_revision child)
                         (Integrity ''adapter_bank_rollback_selection_invalid'')) (\<lambda>_.
                Inr (sort_key sel_slot (others @ [selection])))))
            | None \<Rightarrow>
                rbind (reject (authorization \<noteq> None) (Integrity ''adapter_bank_rollback_deactivation_has_authorization''))
                  (\<lambda>_. Inr others)) (\<lambda>expected.
     reject (sn_active child \<noteq> expected) (Integrity ''adapter_bank_rollback_changed_other_slots'')))))))"

definition validate_snapshot_transition ::
  "('g, 'l) bank_externals \<Rightarrow> path \<Rightarrow> private_file_reference option \<Rightarrow> index_snapshot \<Rightarrow> index_snapshot \<Rightarrow> store \<Rightarrow> unit res" where
  "validate_snapshot_transition X root parent_reference parent child fs =
     rbind (ok_or (checked_add 64 (sn_revision parent) 1) (Integrity ''adapter_bank_transition_revision_overflow'')) (\<lambda>expected.
     rbind (reject (sn_revision child \<noteq> expected \<or> sn_parent child \<noteq> parent_reference)
              (Integrity ''adapter_bank_transition_link_invalid'')) (\<lambda>_.
     case sn_operation child of
       OpEmpty \<Rightarrow> Inl (Integrity ''adapter_bank_transition_empty_operation'')
     | OpRegister manifest \<Rightarrow> registration_transition X root parent child False manifest fs
     | OpCompose manifest \<Rightarrow> registration_transition X root parent child True manifest fs
     | OpActivate adapter authorization \<Rightarrow> activation_transition X root parent child adapter authorization fs
     | OpRevoke cause affected \<Rightarrow> revocation_transition parent child cause affected
     | OpRollback slot target before after authorization _ _ \<Rightarrow>
         rollback_transition X root parent child slot target before after authorization fs))"

section \<open>The current snapshot\<close>

definition current ::
  "('g, 'l) bank_externals \<Rightarrow> path \<Rightarrow> store \<Rightarrow> (index_snapshot \<times> private_file_reference option) res" where
  "current X root fs =
     rbind (authenticate_revision_tip X root fs) (\<lambda>tip.
     case tip of
       None \<Rightarrow>
         rbind (existing_regular_file_if_present root (head_path root) fs) (\<lambda>present.
         rbind (reject (present \<noteq> None) (Integrity ''adapter_bank_head_without_revision_journal'')) (\<lambda>_.
         Inr (empty_snapshot, None)))
     | Some (tip, _) \<Rightarrow>
         rbind (authenticate_head_cache X root tip fs) (\<lambda>_.
         rbind (authenticate_snapshot X root (jc_index tip) fs) (\<lambda>snapshot.
         rbind (reject (sn_revision snapshot \<noteq> jc_revision tip \<or> sn_parent snapshot \<noteq> jc_previous_index tip)
                  (Integrity ''adapter_bank_revision_tip_mismatch'')) (\<lambda>_.
         rbind (case jc_previous_index tip of
                  Some reference \<Rightarrow> authenticate_snapshot X root reference fs
                | None \<Rightarrow> Inr empty_snapshot) (\<lambda>parent.
         rbind (validate_snapshot_transition X root (jc_previous_index tip) parent snapshot fs) (\<lambda>_.
         Inr (snapshot, Some (jc_index tip))))))))"

section \<open>Publication\<close>

definition persist_snapshot ::
  "('g, 'l) bank_externals \<Rightarrow> path \<Rightarrow> index_snapshot \<Rightarrow> private_file_reference io" where
  "persist_snapshot X root snapshot =
     io_bind (io_read (\<lambda>fs. validate_snapshot_contract X root
                (\<lambda>permit. authenticate_promotion_authorization X root permit fs) snapshot fs)) (\<lambda>_.
     let bytes = bank_to_vec X (RSnapshot snapshot);
         p = index_path root (digest_bytes (bank_sha X) bytes) in
     io_bind (persist_bytes X root p bytes ''adapter_index_write_mismatch'') (\<lambda>reference.
     io_bind (io_read (authenticate_snapshot X root reference)) (\<lambda>replay.
     io_bind (io_res (reject (replay \<noteq> snapshot) (Integrity ''adapter_index_roundtrip_mismatch''))) (\<lambda>_.
     io_res (Inr reference)))))"

definition persist_revision_commit ::
  "('g, 'l) bank_externals \<Rightarrow> path \<Rightarrow> revision_commit \<Rightarrow> private_file_reference io" where
  "persist_revision_commit X root commit =
     (let bytes = bank_to_vec X (RCommit commit);
          p = revision_commit_path root (jc_revision commit) in
      io_bind (persist_bytes X root p bytes ''adapter_bank_revision_commit_write_mismatch'') (\<lambda>reference.
      io_bind (io_read (read_revision_commit X root (jc_revision commit))) (\<lambda>(replay, replay_reference).
      io_bind (io_res (reject (replay \<noteq> commit \<or> replay_reference \<noteq> reference)
                         (Integrity ''adapter_bank_revision_commit_roundtrip_mismatch''))) (\<lambda>_.
      io_res (Inr reference)))))"

text \<open>What the successor of a journal tip must have: revision, previous commit and previous index.\<close>

definition successor_links ::
  "(revision_commit \<times> private_file_reference) option
    \<Rightarrow> (nat \<times> private_file_reference option \<times> private_file_reference option) res" where
  "successor_links journal_tip = (case journal_tip of
     Some (commit, reference) \<Rightarrow>
       rbind (ok_or (checked_add 64 (jc_revision commit) 1) (Invalid ''adapter_bank_revision_overflow'')) (\<lambda>revision.
       Inr (revision, Some reference, Some (jc_index commit)))
   | None \<Rightarrow> Inr (1, None, None))"

definition publish_snapshot ::
  "('g, 'l) bank_externals \<Rightarrow> path \<Rightarrow> index_snapshot \<Rightarrow> private_file_reference io" where
  "publish_snapshot X root snapshot =
     io_bind (io_res (reject (sn_revision snapshot = 0 \<or> MAX_HISTORY_REVISIONS < sn_revision snapshot)
                        (Invalid ''adapter_bank_history_revision_limit''))) (\<lambda>_.
     io_bind (io_read (authenticate_revision_tip X root)) (\<lambda>journal_tip.
     io_bind (io_res (successor_links journal_tip)) (\<lambda>(expected_revision, previous_commit, previous_index).
     io_bind (io_res (reject (sn_revision snapshot \<noteq> expected_revision \<or> sn_parent snapshot \<noteq> previous_index)
                        (Integrity ''adapter_bank_revision_publish_conflict''))) (\<lambda>_.
     io_bind (io_read (\<lambda>fs. case journal_tip of
                Some (commit, _) \<Rightarrow> authenticate_snapshot X root (jc_index commit) fs
              | None \<Rightarrow> Inr empty_snapshot)) (\<lambda>parent.
     io_bind (io_read (validate_snapshot_transition X root previous_index parent snapshot)) (\<lambda>_.
     io_bind (persist_snapshot X root snapshot) (\<lambda>reference.
     io_bind (persist_revision_commit X root
                \<lparr>jc_schema = ''tidex.adapter_bank_revision_commit/v1'', jc_revision = sn_revision snapshot,
                 jc_index = reference, jc_previous_commit = previous_commit, jc_previous_index = previous_index\<rparr>) (\<lambda>_.
     let bytes = bank_to_vec X (RHead \<lparr>bh_schema = ''tidex.adapter_bank_head/v1'', bh_revision = sn_revision snapshot,
                   bh_index = reference\<rparr>);
         expected = digest_bytes (bank_sha X) bytes in
     io_bind (replace_private_file_atomic (bank_sha X) root (head_path root) bytes (Some expected)) (\<lambda>written.
     io_bind (io_res (reject (written \<noteq> expected) (Integrity ''adapter_bank_head_write_mismatch''))) (\<lambda>_.
     io_bind (io_read (current X root)) (\<lambda>(reopened, reopened_reference).
     io_bind (io_res (reject (reopened \<noteq> snapshot \<or> reopened_reference \<noteq> Some reference)
                        (Integrity ''adapter_bank_publish_roundtrip_mismatch''))) (\<lambda>_.
     io_res (Inr reference)))))))))))))"

end
