(* ===== verification/Adapter_Bank.thy ===== *)
theory Adapter_Bank
  imports Adapter_Journal
begin

text \<open>
  The operations of the adapter bank: registration by import or composition, candidate
  materialization, promotion permits, activation, revocation, rollback, and the readers. The part of
  an operation that runs under the authority lock is a definition of its own (\<open>_section\<close>).
\<close>

section \<open>Registration\<close>

definition commit_of :: "index_snapshot \<Rightarrow> private_file_reference \<Rightarrow> private_file_reference option \<Rightarrow> bool \<Rightarrow> bank_commit" where
  "commit_of s index manifest idempotent =
     \<lparr>bc_schema = ''tidex.adapter_bank_commit/v1'', bc_revision = sn_revision s, bc_index = index,
      bc_operation = sn_operation s, bc_manifest = manifest, bc_idempotent = idempotent\<rparr>"

definition idempotent_commit ::
  "index_snapshot \<Rightarrow> private_file_reference option \<Rightarrow> private_file_reference option \<Rightarrow> bank_commit res" where
  "idempotent_commit s reference manifest =
     rbind (ok_or reference (Integrity ''adapter_bank_current_reference_missing'')) (\<lambda>index.
     Inr (commit_of s index manifest True))"

text \<open>The generation of a new version continues the last one of its adapter, in the same lineage.\<close>

definition check_generation :: "index_snapshot \<Rightarrow> adapter_manifest \<Rightarrow> unit res" where
  "check_generation s manifest =
     (case max_by_key (\<lambda>e. generation (ie_adapter e))
             (filter (\<lambda>e. adapter_id (ie_adapter e) = adapter_id (am_adapter manifest)) (sn_entries s)) of
        None \<Rightarrow> reject (generation (am_adapter manifest) \<noteq> 1) (Invalid ''adapter_first_generation_must_be_one'')
      | Some previous \<Rightarrow>
          reject (generation (am_adapter manifest) \<noteq> (generation (ie_adapter previous) + 1) mod 2 ^ 64
                  \<or> ie_capability_id previous \<noteq> am_capability_id manifest
                  \<or> ie_lineage_id previous \<noteq> am_lineage_id manifest
                  \<or> ie_receiver_model previous \<noteq> am_receiver_model manifest)
            (Invalid ''adapter_generation_lineage_invalid''))"

definition operational_duplicate ::
  "('g, 'l) bank_externals \<Rightarrow> path \<Rightarrow> adapter_manifest \<Rightarrow> store \<Rightarrow> index_entry \<Rightarrow> bool" where
  "operational_duplicate X root manifest fs entry \<longleftrightarrow>
     ie_capability_id entry = am_capability_id manifest \<and> ie_receiver_model entry = am_receiver_model manifest
     \<and> ie_parameter_layout_sha256 entry = lb_parameter_layout_sha256 (am_parameter_layout manifest)
     \<and> (case authenticate_manifest X root (ie_manifest entry) fs of
          Inl _ \<Rightarrow> False | Inr other \<Rightarrow> am_dense_delta other = am_dense_delta manifest)"

definition registered_snapshot ::
  "index_snapshot \<Rightarrow> nat \<Rightarrow> private_file_reference option \<Rightarrow> adapter_manifest \<Rightarrow> private_file_reference \<Rightarrow> bool \<Rightarrow> index_snapshot" where
  "registered_snapshot s revision parent manifest reference composed =
     (let entries = sort_key ie_adapter (sn_entries s @ [entry_from_manifest manifest reference]) in
      s\<lparr>sn_revision := revision, sn_parent := parent,
        sn_operation := (if composed then OpCompose reference else OpRegister reference),
        sn_entries := entries, sn_by_capability := fst (derived_buckets entries),
        sn_by_model := snd (derived_buckets entries)\<rparr>)"

definition registration_section ::
  "('g, 'l) bank_externals \<Rightarrow> path \<Rightarrow> adapter_manifest \<Rightarrow> private_file_reference \<Rightarrow> bank_expectation \<Rightarrow> bool \<Rightarrow> bank_commit io" where
  "registration_section X root manifest reference expected composed =
     io_bind (io_read (current X root)) (\<lambda>(s, current_reference).
     case find_entry_of (sn_entries s) (am_adapter manifest) of
       Some existing \<Rightarrow>
         if ie_manifest existing = reference then io_res (idempotent_commit s current_reference (Some reference))
         else io_res (Inl (Integrity ''adapter_version_conflict''))
     | None \<Rightarrow>
         io_bind (io_res (check_expectation expected s current_reference)) (\<lambda>_.
         io_bind (io_res (check_generation s manifest)) (\<lambda>_.
         io_bind (io_res (reject (list_ex (\<lambda>e. ie_lineage_id e = am_lineage_id manifest
                                             \<and> generation (ie_adapter e) = generation (am_adapter manifest)) (sn_entries s))
                            (Integrity ''adapter_lineage_generation_conflict''))) (\<lambda>_.
         io_bind (io_read (\<lambda>fs. reject (list_ex (operational_duplicate X root manifest fs) (sn_entries s))
                                  (Integrity ''adapter_operational_duplicate''))) (\<lambda>_.
         io_bind (io_res (ok_or (checked_add 64 (sn_revision s) 1) (Invalid ''adapter_bank_revision_overflow''))) (\<lambda>next_revision.
         let s' = registered_snapshot s next_revision current_reference manifest reference composed in
         io_bind (publish_snapshot X root s') (\<lambda>index.
         io_res (Inr (commit_of s' index (Some reference) False)))))))))"

definition commit_registration ::
  "('g, 'l) bank_externals \<Rightarrow> path \<Rightarrow> adapter_manifest \<Rightarrow> private_file_reference \<Rightarrow> bank_expectation \<Rightarrow> bool \<Rightarrow> bank_commit io" where
  "commit_registration X root manifest reference expected composed =
     with_private_authority_lock (bank_sha X) root (bank_lock_path root)
       (registration_section X root manifest reference expected composed)"

definition import_lora :: "('g, 'l) bank_externals \<Rightarrow> path \<Rightarrow> 'l import_request \<Rightarrow> bank_commit io" where
  "import_lora X root request =
     io_bind (io_res (reject (ir_schema request \<noteq> ''tidex.adapter_import_request/v1'' \<or> ir_lineage_id request = [])
                        (Invalid ''adapter_import_request_invalid''))) (\<lambda>_.
     io_bind (io_res (adapter_version_validate (ir_adapter request))) (\<lambda>_.
     io_bind (io_read (authenticate_bound_capability_bundle X root (ir_capability_bundle request) (ir_capability_id request))) (\<lambda>_.
     io_bind (io_read (live_receiver_profile X root (ir_receiver_profile request))) (\<lambda>profile.
     io_bind (import_axis X root (ir_lora request)) (\<lambda>receipt.
     io_bind (io_read (axis_fits_profile X root (ir_receiver_profile request) receipt)) (\<lambda>_.
     io_bind (persist_import_provenance X root receipt) (\<lambda>provenance.
     io_bind (retain_external_blob X root (lr_adapter_model_path receipt) (lr_adapter_model_sha256 receipt)
                ''safetensors'' ''application/x-safetensors'') (\<lambda>adapter_model.
     io_bind (retain_external_blob X root (lr_adapter_config_path receipt) (lr_adapter_config_sha256 receipt)
                ''json'' ''application/json'') (\<lambda>adapter_config.
     let bytes = bank_to_vec X (RLoraReceipt receipt);
         p = by_sha root ''raw-import-receipts'' (digest_bytes (bank_sha X) bytes) ''json'' in
     io_bind (write_or_verify_immutable (bank_sha X) root p bytes) (\<lambda>_.
     io_bind (io_read (axis_receipt_of X root (sha_reference X p bytes))) (\<lambda>replay.
     io_bind (io_res (reject (replay \<noteq> receipt) (Integrity ''adapter_import_replay_mismatch''))) (\<lambda>_.
     io_bind (io_res (layout_digest X (lr_parameter_layout receipt))) (\<lambda>layout_sha256.
     io_bind (layout_persist X root (lr_parameter_layout receipt)) (\<lambda>layout_artifact.
     let manifest =
       \<lparr>am_schema = ''tidex.adapter_manifest/v1'', am_adapter = ir_adapter request, am_capability_id = ir_capability_id request,
        am_lineage_id = ir_lineage_id request, am_capability_bundle = ir_capability_bundle request,
        am_receiver_model = ReceiverModelKey (rp_model_id profile) (rp_checkpoint_sha256 profile),
        am_architecture_id = rp_architecture_id profile, am_receiver_profile = ir_receiver_profile request,
        am_parameter_topology_sha256 = rp_parameter_topology_sha256 profile,
        am_adaptation_abi_sha256 = rp_adaptation_abi_sha256 profile,
        am_parameter_layout = \<lparr>lb_artifact = layout_artifact, lb_parameter_layout_sha256 = layout_sha256,
          lb_total_parameter_count = delta_parameter_count (lr_dense_delta receipt)\<rparr>,
        am_dense_delta = lr_dense_delta receipt,
        am_source = ImportedPeftLora provenance adapter_model adapter_config,
        am_candidate_only = True, am_authorizes_promotion = False\<rparr> in
     io_bind (persist_manifest X root manifest) (\<lambda>reference.
     commit_registration X root manifest reference (ir_expected request) False)))))))))))))))"

text \<open>\<open>compose_exact\<close>: each input term is resolved in the current snapshot.\<close>

definition composition_source ::
  "('g, 'l) bank_externals \<Rightarrow> path \<Rightarrow> index_snapshot \<Rightarrow> store \<Rightarrow> composition_input_term
    \<Rightarrow> composition_term list \<times> (digest \<times> adapter_manifest) list \<times> adapter_version set
    \<Rightarrow> (composition_term list \<times> (digest \<times> adapter_manifest) list \<times> adapter_version set) res" where
  "composition_source X root s fs input = (\<lambda>(terms, manifests, versions).
     rbind (adapter_version_validate (it_adapter input)) (\<lambda>_.
     rbind (validate_coefficient (it_coefficient input)) (\<lambda>_.
     rbind (reject (it_adapter input \<in> versions \<or> is_revoked s (it_adapter input))
              (Invalid ''adapter_composition_source_invalid'')) (\<lambda>_.
     rbind (ok_or (find_entry_of (sn_entries s) (it_adapter input)) (Invalid ''adapter_composition_source_missing'')) (\<lambda>entry.
     rbind (authenticate_manifest X root (ie_manifest entry) fs) (\<lambda>manifest.
     Inr (terms @ [\<lparr>ct_adapter = it_adapter input, ct_manifest = ie_manifest entry, ct_coefficient = it_coefficient input,
                    ct_coefficient_bits_hex = coefficient_bits_hex (it_coefficient input)\<rparr>],
          manifests @ [(ref_sha256 (ie_manifest entry), manifest)],
          insert (it_adapter input) versions)))))))"

definition composable :: "adapter_manifest \<Rightarrow> adapter_manifest \<Rightarrow> bool" where
  "composable first manifest \<longleftrightarrow>
     am_receiver_model manifest = am_receiver_model first \<and> am_receiver_profile manifest = am_receiver_profile first
     \<and> am_architecture_id manifest = am_architecture_id first
     \<and> am_parameter_topology_sha256 manifest = am_parameter_topology_sha256 first
     \<and> am_adaptation_abi_sha256 manifest = am_adaptation_abi_sha256 first
     \<and> am_parameter_layout manifest = am_parameter_layout first"

fun composition_deltas ::
  "(digest \<times> adapter_manifest) list \<Rightarrow> composition_term list \<Rightarrow> (delta_artifact_ref \<times> f64_bits) list res" where
  "composition_deltas by_digest [] = Inr []"
| "composition_deltas by_digest (t # ts) =
     rbind (ok_or (map_of by_digest (ref_sha256 (ct_manifest t)))
              (Integrity ''adapter_composition_manifest_resolution_failed'')) (\<lambda>manifest.
     rbind (composition_deltas by_digest ts) (\<lambda>rest.
     Inr ((am_dense_delta manifest, ct_coefficient t) # rest)))"

definition compose_exact :: "('g, 'l) bank_externals \<Rightarrow> path \<Rightarrow> composition_request \<Rightarrow> bank_commit io" where
  "compose_exact X root request =
     io_bind (io_res (reject (cr_schema request \<noteq> ''tidex.adapter_composition_request/v1'' \<or> cr_lineage_id request = []
                              \<or> length (cr_terms request) < 2 \<or> MAX_COMPOSITION_TERMS < length (cr_terms request))
                        (Invalid ''adapter_composition_request_invalid''))) (\<lambda>_.
     io_bind (io_res (adapter_version_validate (cr_adapter request))) (\<lambda>_.
     io_bind (io_read (authenticate_bound_capability_bundle X root (cr_capability_bundle request) (cr_capability_id request))) (\<lambda>_.
     io_bind (io_read (current X root)) (\<lambda>(s, _).
     io_bind (io_read (\<lambda>fs. rfold (composition_source X root s fs) (cr_terms request) ([], [], {}))) (\<lambda>(found, found_manifests, _).
     let terms = sort_key (\<lambda>t. ref_sha256 (ct_manifest t)) found;
         manifests = sort_key fst found_manifests in
     io_bind (io_res (reject (windows2_any (\<lambda>a b. fst a = fst b) manifests) (Invalid ''adapter_composition_source_duplicate''))) (\<lambda>_.
     let first = snd (hd manifests) in
     io_bind (io_res (reject (\<not> list_all (\<lambda>(_, m). composable first m) (tl manifests))
                        (Invalid ''adapter_composition_compatibility_mismatch''))) (\<lambda>_.
     io_bind (io_read (live_receiver_profile X root (am_receiver_profile first))) (\<lambda>_.
     io_bind (io_res (composition_deltas manifests terms)) (\<lambda>sources.
     io_bind (combine_dvec X root sources) (\<lambda>dense_delta.
     let manifest =
       \<lparr>am_schema = ''tidex.adapter_manifest/v1'', am_adapter = cr_adapter request, am_capability_id = cr_capability_id request,
        am_lineage_id = cr_lineage_id request, am_capability_bundle = cr_capability_bundle request,
        am_receiver_model = am_receiver_model first, am_architecture_id = am_architecture_id first,
        am_receiver_profile = am_receiver_profile first,
        am_parameter_topology_sha256 = am_parameter_topology_sha256 first,
        am_adaptation_abi_sha256 = am_adaptation_abi_sha256 first,
        am_parameter_layout = am_parameter_layout first, am_dense_delta = dense_delta,
        am_source = ExactDenseComposition EXACT_COMPOSITION_ARITHMETIC terms False False,
        am_candidate_only = True, am_authorizes_promotion = False\<rparr> in
     io_bind (persist_manifest X root manifest) (\<lambda>reference.
     commit_registration X root manifest reference (cr_expected request) True)))))))))))"

section \<open>Materialization and permits\<close>

definition persist_candidate_materialization ::
  "('g, 'l) bank_externals \<Rightarrow> path \<Rightarrow> candidate_materialization \<Rightarrow> private_file_reference io" where
  "persist_candidate_materialization X root m =
     (let bytes = bank_to_vec X (RMaterialization m);
          p = materialization_path root (digest_bytes (bank_sha X) bytes) in
      io_bind (persist_bytes X root p bytes ''adapter_materialization_write_mismatch'') (\<lambda>reference.
      io_bind (io_read (authenticate_candidate_materialization X root reference)) (\<lambda>replay.
      io_bind (io_res (reject (replay \<noteq> m) (Integrity ''adapter_materialization_roundtrip_mismatch''))) (\<lambda>_.
      io_res (Inr reference)))))"

definition materialize_candidate ::
  "('g, 'l) bank_externals \<Rightarrow> path \<Rightarrow> materialization_request \<Rightarrow> private_file_reference io" where
  "materialize_candidate X root request =
     io_bind (io_res (reject (mr_schema request \<noteq> ''tidex.adapter_candidate_materialization_request/v1'')
                        (Invalid ''adapter_materialization_request_invalid''))) (\<lambda>_.
     io_bind (io_res (adapter_version_validate (mr_adapter request))) (\<lambda>_.
     io_bind (io_read (confined_materialization_output X root (mr_output_path request))) (\<lambda>output.
     io_bind (io_read (current X root)) (\<lambda>(s, observed).
     io_bind (io_res (check_expectation (mr_expected request) s observed)) (\<lambda>_.
     io_bind (io_res (ok_or observed (Invalid ''adapter_materialization_requires_registered_index''))) (\<lambda>observed_index.
     io_bind (io_res (reject (is_revoked s (mr_adapter request)) (Invalid ''adapter_materialization_target_revoked''))) (\<lambda>_.
     io_bind (io_res (ok_or (find_entry_of (sn_entries s) (mr_adapter request))
                        (Invalid ''adapter_materialization_target_missing''))) (\<lambda>entry.
     io_bind (io_read (authenticate_manifest X root (ie_manifest entry))) (\<lambda>manifest.
     io_bind (io_read (live_receiver_profile X root (am_receiver_profile manifest))) (\<lambda>profile.
     io_bind (io_read (authenticated_manifest_layout X root manifest)) (\<lambda>layout.
     io_bind (materialize_checkpoint X root (rp_checkpoint_path profile) (model_sha256 (am_receiver_model manifest))
                layout (am_dense_delta manifest) output) (\<lambda>receipt.
     io_bind (io_read (weight_receipt_valid X root (rp_checkpoint_path profile) layout (am_dense_delta manifest) output receipt)) (\<lambda>_.
     persist_candidate_materialization X root
       \<lparr>cm_schema = ''tidex.adapter_candidate_materialization/v1'', cm_adapter = mr_adapter request,
        cm_manifest = ie_manifest entry, cm_capability_id = am_capability_id manifest,
        cm_capability_bundle = am_capability_bundle manifest, cm_receiver_profile = am_receiver_profile manifest,
        cm_observed_revision = sn_revision s, cm_observed_index = observed_index,
        cm_parameter_layout_sha256 = lb_parameter_layout_sha256 (am_parameter_layout manifest),
        cm_dense_delta_sha256 = delta_sha256 (am_dense_delta manifest), cm_output_path = output, cm_receipt = receipt,
        cm_candidate_only = True, cm_authorizes_promotion = False\<rparr>)))))))))))))"

definition persist_promotion_authorization ::
  "('g, 'l) bank_externals \<Rightarrow> path \<Rightarrow> promotion_authorization \<Rightarrow> private_file_reference io" where
  "persist_promotion_authorization X root a =
     io_bind (io_res (promotion_decision_validate (pa_decision a))) (\<lambda>_.
     let bytes = bank_to_vec X (RAuthorization a);
         p = authorization_path root (digest_bytes (bank_sha X) bytes) in
     io_bind (persist_bytes X root p bytes ''adapter_promotion_authorization_write_mismatch'') (\<lambda>reference.
     io_bind (io_read (authenticate_promotion_authorization X root reference)) (\<lambda>_.
     io_res (Inr reference))))"

text \<open>The metrics of the decision in key order, each 1.0.\<close>

definition f64_one :: f64_bits where
  "f64_one = 0x3FF0000000000000"

definition governed_decision :: promotion_decision where
  "governed_decision = \<lparr>pd_allowed = True, pd_reasons = [],
     pd_metrics = [(''canary_authenticated'', f64_one), (''candidate_gate_authenticated'', f64_one),
       (''candidate_materialization_authenticated'', f64_one), (''petfc_authenticated'', f64_one),
       (''representation_closed'', f64_one)]\<rparr>"

definition promotion_section ::
  "('g, 'l) bank_externals \<Rightarrow> path \<Rightarrow> private_file_reference \<Rightarrow> 'g \<Rightarrow> 'g \<Rightarrow> 'g \<Rightarrow> bank_expectation \<Rightarrow> private_file_reference io" where
  "promotion_section X root materialization_reference gate petfc canary expected =
     io_bind (io_read (current X root)) (\<lambda>(s, current_reference).
     io_bind (io_res (check_expectation expected s current_reference)) (\<lambda>_.
     io_bind (io_res (ok_or current_reference (Invalid ''adapter_promotion_requires_registered_index''))) (\<lambda>issued_against_index.
     io_bind (io_read (authenticate_candidate_materialization X root materialization_reference)) (\<lambda>m.
     io_bind (io_res (ok_or (find_entry_of (sn_entries s) (cm_adapter m)) (Invalid ''adapter_promotion_target_missing''))) (\<lambda>entry.
     io_bind (io_res (reject (ie_manifest entry \<noteq> cm_manifest m \<or> is_revoked s (cm_adapter m))
                        (Integrity ''adapter_promotion_current_state_mismatch''))) (\<lambda>_.
     io_bind (io_read (authenticate_manifest X root (ie_manifest entry))) (\<lambda>manifest.
     io_bind (io_read (live_receiver_profile X root (am_receiver_profile manifest))) (\<lambda>_.
     io_bind (io_read (require_promotable_capability_bundle X root manifest)) (\<lambda>_.
     io_bind (io_read (governance_candidate_id X root (ie_manifest entry))) (\<lambda>candidate.
     io_bind (io_res (witnesses_promote X candidate gate petfc canary)) (\<lambda>_.
     io_bind (witness_persist X root gate) (\<lambda>independent_execution.
     io_bind (witness_persist X root petfc) (\<lambda>preservation_assessment.
     io_bind (witness_persist X root canary) (\<lambda>negative_controls.
     persist_promotion_authorization X root
       \<lparr>pa_schema = ''tidex.adapter_promotion_authorization/v1'', pa_governed = True, pa_adapter = am_adapter manifest,
        pa_manifest = ie_manifest entry, pa_capability_id = am_capability_id manifest,
        pa_receiver_model = am_receiver_model manifest, pa_receiver_profile = am_receiver_profile manifest,
        pa_parameter_layout_sha256 = lb_parameter_layout_sha256 (am_parameter_layout manifest),
        pa_dense_delta_sha256 = delta_sha256 (am_dense_delta manifest), pa_issued_against_index = issued_against_index,
        pa_evidence = \<lparr>pe_independent_execution = independent_execution,
          pe_preservation_assessment = preservation_assessment, pe_negative_controls = negative_controls,
          pe_materialization_receipt = materialization_reference\<rparr>,
        pa_decision = governed_decision, pa_authorizes_promotion = True\<rparr>))))))))))))))"

definition authorize_governed_promotion ::
  "('g, 'l) bank_externals \<Rightarrow> path \<Rightarrow> private_file_reference \<Rightarrow> 'g \<Rightarrow> 'g \<Rightarrow> 'g \<Rightarrow> bank_expectation \<Rightarrow> private_file_reference io" where
  "authorize_governed_promotion X root materialization_reference gate petfc canary expected =
     with_private_authority_lock (bank_sha X) root (bank_lock_path root)
       (promotion_section X root materialization_reference gate petfc canary expected)"

definition authorize_governed_promotion_request ::
  "('g, 'l) bank_externals \<Rightarrow> path \<Rightarrow> promotion_request \<Rightarrow> private_file_reference io" where
  "authorize_governed_promotion_request X root request =
     io_bind (io_res (reject (pr_schema request \<noteq> ''tidex.adapter_governed_promotion_request/v1'')
                        (Invalid ''adapter_governed_promotion_request_invalid''))) (\<lambda>_.
     io_bind (io_read (gate_of X root (pr_candidate_gate request))) (\<lambda>gate.
     io_bind (io_read (petfc_of X root (pr_petfc_assessment request))) (\<lambda>petfc.
     io_bind (io_read (canary_of X root (pr_canary_state request))) (\<lambda>canary.
     authorize_governed_promotion X root (pr_materialization request) gate petfc canary (pr_expected request)))))"

end
