(* ===== verification/Adapter_Lifecycle.thy ===== *)
theory Adapter_Lifecycle
  imports Adapter_Bank
begin

text \<open>
  Activation, revocation with its dependency closure, rollback, queries, resolution for execution and
  the verification of the whole history of the adapter bank.
\<close>

section \<open>Activation\<close>

definition activated_snapshot ::
  "index_snapshot \<Rightarrow> nat \<Rightarrow> private_file_reference \<Rightarrow> index_entry \<Rightarrow> adapter_manifest \<Rightarrow> private_file_reference \<Rightarrow> index_snapshot" where
  "activated_snapshot s revision parent entry manifest authorization =
     (let selection =
       \<lparr>sel_slot = ActivationSlot (am_receiver_model manifest) (am_capability_id manifest),
        sel_adapter = ie_adapter entry, sel_manifest = ie_manifest entry, sel_authorization = authorization,
        sel_execution_binding = \<lparr>eb_base_model_sha256 = model_sha256 (am_receiver_model manifest),
          eb_adapter_delta_sha256 = delta_sha256 (am_dense_delta manifest), eb_activation_epoch = revision,
          eb_adaptation_abi_sha256 = am_adaptation_abi_sha256 manifest\<rparr>,
        sel_activated_at_revision = revision\<rparr> in
      s\<lparr>sn_revision := revision, sn_parent := Some parent,
        sn_operation := OpActivate (ie_adapter entry) authorization,
        sn_active := with_selection (sn_active s) selection\<rparr>)"

text \<open>The part of \<open>activate\<close> after the check for a repeated request.\<close>

definition activate_fresh ::
  "('g, 'l) bank_externals \<Rightarrow> path \<Rightarrow> activation_request \<Rightarrow> index_snapshot \<Rightarrow> private_file_reference option \<Rightarrow> bank_commit io" where
  "activate_fresh X root request s current_reference =
     io_bind (io_res (check_expectation (ar_expected request) s current_reference)) (\<lambda>_.
     io_bind (io_res (ok_or current_reference (Invalid ''adapter_activation_requires_registered_index''))) (\<lambda>current_index.
     io_bind (io_res (reject (is_revoked s (ar_adapter request)) (Invalid ''adapter_activation_target_revoked''))) (\<lambda>_.
     io_bind (io_res (ok_or (find_entry_of (sn_entries s) (ar_adapter request))
                        (Invalid ''adapter_activation_target_missing''))) (\<lambda>entry.
     io_bind (io_read (authenticate_manifest X root (ie_manifest entry))) (\<lambda>manifest.
     io_bind (io_read (live_receiver_profile X root (am_receiver_profile manifest))) (\<lambda>_.
     io_bind (io_read (authenticate_promotion_authorization X root (ar_authorization request))) (\<lambda>authorization.
     io_bind (io_res (reject (pa_adapter authorization \<noteq> ar_adapter request
                              \<or> pa_manifest authorization \<noteq> ie_manifest entry
                              \<or> pa_issued_against_index authorization \<noteq> current_index)
                        (Integrity ''adapter_activation_authorization_mismatch''))) (\<lambda>_.
     io_bind (io_res (ok_or (checked_add 64 (sn_revision s) 1) (Invalid ''adapter_bank_revision_overflow''))) (\<lambda>next_revision.
     let s' = activated_snapshot s next_revision current_index entry manifest (ar_authorization request) in
     io_bind (publish_snapshot X root s') (\<lambda>index.
     io_res (Inr (commit_of s' index (Some (ie_manifest entry)) False))))))))))))"

definition activation_section :: "('g, 'l) bank_externals \<Rightarrow> path \<Rightarrow> activation_request \<Rightarrow> bank_commit io" where
  "activation_section X root request =
     io_bind (io_read (current X root)) (\<lambda>(s, current_reference).
     case List.find (\<lambda>sel. sel_adapter sel = ar_adapter request) (sn_active s) of
       Some selection \<Rightarrow>
         if sel_authorization selection = ar_authorization request
         then io_res (idempotent_commit s current_reference (Some (sel_manifest selection)))
         else activate_fresh X root request s current_reference
     | None \<Rightarrow> activate_fresh X root request s current_reference)"

definition activate :: "('g, 'l) bank_externals \<Rightarrow> path \<Rightarrow> activation_request \<Rightarrow> bank_commit io" where
  "activate X root request =
     io_bind (io_res (reject (ar_schema request \<noteq> ''tidex.adapter_activation_request/v1'')
                        (Invalid ''adapter_activation_request_invalid''))) (\<lambda>_.
     io_bind (io_res (adapter_version_validate (ar_adapter request))) (\<lambda>_.
     with_private_authority_lock (bank_sha X) root (bank_lock_path root) (activation_section X root request)))"

section \<open>Revocation\<close>

text \<open>
  The dependents of a revoked adapter: one pass over the registered manifests adds every version that
  is composed of an affected one; passes repeat until nothing is added.
\<close>

definition closure_pass ::
  "(adapter_version, adapter_manifest) bmap \<Rightarrow> adapter_version bset \<Rightarrow> adapter_version bset" where
  "closure_pass manifests affected =
     fold (\<lambda>(version, manifest) affected.
        if list_ex (\<lambda>d. d \<in> set affected) (composition_dependencies manifest)
        then bs_insert version affected else affected) manifests affected"

lemma set_closure_pass:
  "set affected \<subseteq> set (closure_pass manifests affected)"
  "set (closure_pass manifests affected) \<subseteq> set affected \<union> fst ` set manifests"
  unfolding closure_pass_def by (induction manifests arbitrary: affected) (fastforce split: if_splits)+

lemma bs_ok_closure_pass: "bs_ok affected \<Longrightarrow> bs_ok (closure_pass manifests affected)"
  unfolding closure_pass_def by (induction manifests arbitrary: affected) auto

text \<open>
  \<open>affected\<close> is a \<open>BTreeSet\<close>, so it is sorted without duplicates; only for such lists does its length
  count its members, and the recursion asks for it.
\<close>

function closure_loop ::
  "(adapter_version, adapter_manifest) bmap \<Rightarrow> adapter_version bset \<Rightarrow> adapter_version bset" where
  "closure_loop manifests affected =
     (let next = closure_pass manifests affected in
      if bs_ok affected \<and> length next \<noteq> length affected then closure_loop manifests next else next)"
  by pat_completeness auto
termination
proof (relation "measure (\<lambda>(manifests, affected). card (fst ` set manifests - set affected))", goal_cases)
  case (2 manifests affected later)
  then have "card (set later) \<noteq> card (set affected)"
    by (metis bs_ok_closure_pass length_bs)
  then have "set later \<noteq> set affected" by auto
  with set_closure_pass[where affected = affected and manifests = manifests] 2(1)
  have "fst ` set manifests - set later \<subset> fst ` set manifests - set affected" by blast
  then show ?case by (simp add: psubset_card_mono)
qed simp

declare closure_loop.simps [simp del]

text \<open>The manifests of the registered entries, in a \<open>BTreeMap\<close> by version.\<close>

definition registered_manifests ::
  "('g, 'l) bank_externals \<Rightarrow> path \<Rightarrow> store \<Rightarrow> index_entry list \<Rightarrow> (adapter_version, adapter_manifest) bmap res" where
  "registered_manifests X root fs entries =
     rfold (\<lambda>e manifests. rbind (authenticate_manifest X root (ie_manifest e) fs) (\<lambda>manifest.
              Inr (bm_insert (ie_adapter e) manifest manifests))) entries []"

definition add_revocation ::
  "index_snapshot \<Rightarrow> revocation_request \<Rightarrow> nat \<Rightarrow> adapter_version \<Rightarrow> adapter_revocation list \<Rightarrow> adapter_revocation list res" where
  "add_revocation s request revision version revocations =
     (if list_ex (\<lambda>r. rv_adapter r = version) revocations then Inr revocations
      else rbind (ok_or (find_entry_of (sn_entries s) version) (Integrity ''adapter_revocation_closure_target_missing'')) (\<lambda>entry.
           Inr (revocations @ [\<lparr>rv_adapter = version, rv_manifest_sha256 = ref_sha256 (ie_manifest entry),
             rv_revoked_at_revision = revision, rv_root_cause = vr_adapter request, rv_reason = vr_reason request,
             rv_evidence = vr_evidence request\<rparr>])))"

definition revoked_snapshot ::
  "index_snapshot \<Rightarrow> nat \<Rightarrow> private_file_reference option \<Rightarrow> adapter_version \<Rightarrow> adapter_version bset
    \<Rightarrow> adapter_revocation list \<Rightarrow> index_snapshot" where
  "revoked_snapshot s revision parent cause affected revocations =
     s\<lparr>sn_revision := revision, sn_parent := parent, sn_operation := OpRevoke cause affected,
       sn_active := filter (\<lambda>sel. sel_adapter sel \<notin> set affected) (sn_active s),
       sn_revocations := sort_key rv_adapter revocations\<rparr>"

definition revocation_section :: "('g, 'l) bank_externals \<Rightarrow> path \<Rightarrow> revocation_request \<Rightarrow> bank_commit io" where
  "revocation_section X root request =
     io_bind (io_read (current X root)) (\<lambda>(s, current_reference).
     let manifest_of = map_option ie_manifest (find_entry_of (sn_entries s) (vr_adapter request)) in
     if is_revoked s (vr_adapter request) then io_res (idempotent_commit s current_reference manifest_of)
     else
       io_bind (io_res (check_expectation (vr_expected request) s current_reference)) (\<lambda>_.
       io_bind (io_res (reject (find_entry_of (sn_entries s) (vr_adapter request) = None)
                          (Invalid ''adapter_revocation_target_missing''))) (\<lambda>_.
       io_bind (io_read (\<lambda>fs. registered_manifests X root fs (sn_entries s))) (\<lambda>manifests.
       let affected = closure_loop manifests [vr_adapter request] in
       io_bind (io_res (ok_or (checked_add 64 (sn_revision s) 1) (Invalid ''adapter_bank_revision_overflow''))) (\<lambda>next_revision.
       io_bind (io_res (rfold (add_revocation s request next_revision) affected (sn_revocations s))) (\<lambda>revocations.
       let s' = revoked_snapshot s next_revision current_reference (vr_adapter request) affected revocations in
       io_bind (publish_snapshot X root s') (\<lambda>index.
       io_res (Inr (commit_of s' index manifest_of False)))))))))"

definition verify_evidence ::
  "('g, 'l) bank_externals \<Rightarrow> path \<Rightarrow> private_file_reference option \<Rightarrow> store \<Rightarrow> unit res" where
  "verify_evidence X root evidence fs = (case evidence of
     None \<Rightarrow> Inr () | Some e \<Rightarrow> rbind (ref_verify (bank_sha X) root e fs) (\<lambda>_. Inr ()))"

definition revoke :: "('g, 'l) bank_externals \<Rightarrow> path \<Rightarrow> revocation_request \<Rightarrow> bank_commit io" where
  "revoke X root request =
     io_bind (io_res (reject (vr_schema request \<noteq> ''tidex.adapter_revocation_request/v1'')
                        (Invalid ''adapter_revocation_request_invalid''))) (\<lambda>_.
     io_bind (io_res (adapter_version_validate (vr_adapter request))) (\<lambda>_.
     io_bind (io_res (validate_reason (vr_reason request))) (\<lambda>_.
     io_bind (io_read (verify_evidence X root (vr_evidence request))) (\<lambda>_.
     with_private_authority_lock (bank_sha X) root (bank_lock_path root) (revocation_section X root request)))))"

section \<open>Rollback\<close>

text \<open>\<open>snapshot_at_revision\<close>; the first argument counts the iterations left of the bounded loop.\<close>

fun snapshot_walk ::
  "nat \<Rightarrow> ('g, 'l) bank_externals \<Rightarrow> path \<Rightarrow> store \<Rightarrow> digest set \<Rightarrow> private_file_reference \<Rightarrow> nat \<Rightarrow> index_snapshot res" where
  "snapshot_walk 0 X root fs visited reference target = Inl (Integrity ''adapter_bank_history_limit_exceeded'')"
| "snapshot_walk (Suc n) X root fs visited reference target =
     rbind (reject (ref_sha256 reference \<in> visited) (Integrity ''adapter_bank_history_cycle'')) (\<lambda>_.
     rbind (authenticate_snapshot X root reference fs) (\<lambda>snapshot.
     if sn_revision snapshot = target then Inr snapshot
     else if sn_revision snapshot < target then Inl (Invalid ''adapter_rollback_target_not_ancestor'')
     else rbind (ok_or (sn_parent snapshot) (Invalid ''adapter_rollback_target_not_ancestor'')) (\<lambda>parent.
          snapshot_walk n X root fs (insert (ref_sha256 reference) visited) parent target)))"

definition snapshot_at_revision ::
  "('g, 'l) bank_externals \<Rightarrow> path \<Rightarrow> private_file_reference \<Rightarrow> nat \<Rightarrow> store \<Rightarrow> index_snapshot res" where
  "snapshot_at_revision X root reference target fs =
     snapshot_walk MAX_HISTORY_REVISIONS X root fs {} reference target"

text \<open>The permit check of a rollback that restores a selection, or ends one.\<close>

definition rollback_permit ::
  "('g, 'l) bank_externals \<Rightarrow> path \<Rightarrow> rollback_request \<Rightarrow> index_snapshot \<Rightarrow> private_file_reference \<Rightarrow> active_selection option
    \<Rightarrow> store \<Rightarrow> unit res" where
  "rollback_permit X root request s current_index after fs = (case after of
     Some selection \<Rightarrow>
       rbind (reject (is_revoked s (sel_adapter selection)) (Invalid ''adapter_rollback_target_revoked'')) (\<lambda>_.
       rbind (authenticate_manifest X root (sel_manifest selection) fs) (\<lambda>manifest.
       rbind (live_receiver_profile X root (am_receiver_profile manifest) fs) (\<lambda>_.
       rbind (ok_or (rr_authorization request) (Invalid ''adapter_rollback_fresh_authorization_required'')) (\<lambda>reference.
       rbind (authenticate_promotion_authorization X root reference fs) (\<lambda>authorization.
       reject (pa_adapter authorization \<noteq> sel_adapter selection \<or> pa_manifest authorization \<noteq> sel_manifest selection
               \<or> pa_issued_against_index authorization \<noteq> current_index)
         (Integrity ''adapter_rollback_authorization_mismatch''))))))
   | None \<Rightarrow> reject (rr_authorization request \<noteq> None)
       (Invalid ''adapter_rollback_deactivation_authorization_not_allowed''))"

definition rolled_back_snapshot ::
  "index_snapshot \<Rightarrow> nat \<Rightarrow> private_file_reference \<Rightarrow> rollback_request \<Rightarrow> activation_slot \<Rightarrow> active_selection option
    \<Rightarrow> active_selection option \<Rightarrow> index_snapshot res" where
  "rolled_back_snapshot s revision parent request slot before after =
     rbind (case after of
        None \<Rightarrow> Inr (filter (\<lambda>sel. sel_slot sel \<noteq> slot) (sn_active s))
      | Some selection \<Rightarrow>
          rbind (ok_or (rr_authorization request) (Invalid ''adapter_rollback_fresh_authorization_required'')) (\<lambda>permit.
          Inr (sort_key sel_slot (filter (\<lambda>sel. sel_slot sel \<noteq> slot) (sn_active s) @
            [selection\<lparr>sel_authorization := permit, sel_activated_at_revision := revision,
              sel_execution_binding := (sel_execution_binding selection)\<lparr>eb_activation_epoch := revision\<rparr>\<rparr>])))) (\<lambda>active.
     Inr (s\<lparr>sn_revision := revision, sn_parent := Some parent, sn_active := active,
       sn_operation := OpRollback slot (rr_target_revision request) (map_option sel_adapter before)
         (map_option sel_adapter after) (rr_authorization request) (rr_reason request) (rr_evidence request)\<rparr>))"

definition rollback_section :: "('g, 'l) bank_externals \<Rightarrow> path \<Rightarrow> rollback_request \<Rightarrow> bank_commit io" where
  "rollback_section X root request =
     io_bind (io_read (current X root)) (\<lambda>(s, current_reference).
     io_bind (io_res (check_expectation (rr_expected request) s current_reference)) (\<lambda>_.
     io_bind (io_res (ok_or current_reference (Invalid ''adapter_rollback_requires_history''))) (\<lambda>current_index.
     io_bind (io_res (reject (sn_revision s \<le> rr_target_revision request) (Invalid ''adapter_rollback_target_not_ancestor''))) (\<lambda>_.
     io_bind (io_read (snapshot_at_revision X root current_index (rr_target_revision request))) (\<lambda>target.
     let slot = ActivationSlot (rr_receiver_model request) (rr_capability_id request);
         before = find_slot (sn_active s) slot;
         after = find_slot (sn_active target) slot in
     io_bind (io_res (reject (map_option sel_adapter before = map_option sel_adapter after)
                        (Invalid ''adapter_rollback_no_state_change''))) (\<lambda>_.
     io_bind (io_read (rollback_permit X root request s current_index after)) (\<lambda>_.
     io_bind (io_res (ok_or (checked_add 64 (sn_revision s) 1) (Invalid ''adapter_bank_revision_overflow''))) (\<lambda>next_revision.
     io_bind (io_res (rolled_back_snapshot s next_revision current_index request slot before after)) (\<lambda>s'.
     io_bind (publish_snapshot X root s') (\<lambda>index.
     io_res (Inr (commit_of s' index None False))))))))))))"

definition rollback :: "('g, 'l) bank_externals \<Rightarrow> path \<Rightarrow> rollback_request \<Rightarrow> bank_commit io" where
  "rollback X root request =
     io_bind (io_res (reject (rr_schema request \<noteq> ''tidex.adapter_rollback_request/v1'' \<or> rr_target_revision request = 0)
                        (Invalid ''adapter_rollback_request_invalid''))) (\<lambda>_.
     io_bind (io_res (validate_reason (rr_reason request))) (\<lambda>_.
     io_bind (io_read (verify_evidence X root (rr_evidence request))) (\<lambda>_.
     with_private_authority_lock (bank_sha X) root (bank_lock_path root) (rollback_section X root request))))"

section \<open>Readers\<close>

definition snapshot :: "('g, 'l) bank_externals \<Rightarrow> path \<Rightarrow> store \<Rightarrow> index_snapshot res" where
  "snapshot X root fs = rbind (current X root fs) (\<lambda>(s, _). Inr s)"

definition none_or :: "'a option \<Rightarrow> 'a \<Rightarrow> bool" where
  "none_or x y \<longleftrightarrow> (case x of None \<Rightarrow> True | Some z \<Rightarrow> z = y)"

definition status_of :: "index_snapshot \<Rightarrow> index_entry \<Rightarrow> adapter_status" where
  "status_of s e =
     \<lparr>st_adapter = ie_adapter e, st_capability_id = ie_capability_id e, st_lineage_id = ie_lineage_id e,
      st_receiver_model = ie_receiver_model e, st_manifest = ie_manifest e,
      st_state = (if is_revoked s (ie_adapter e) then RevokedAdapter
                  else if list_ex (\<lambda>sel. sel_adapter sel = ie_adapter e) (sn_active s) then ActiveAdapter
                  else RegisteredCandidate)\<rparr>"

definition query :: "('g, 'l) bank_externals \<Rightarrow> path \<Rightarrow> bank_query \<Rightarrow> store \<Rightarrow> bank_report res" where
  "query X root q fs =
     rbind (reject (bq_schema q \<noteq> ''tidex.adapter_bank_query/v1'' \<or> (bq_model_sha256 q \<noteq> None \<and> bq_model_id q = None))
              (Invalid ''adapter_bank_query_invalid'')) (\<lambda>_.
     rbind (current X root fs) (\<lambda>(s, reference).
     let selected = filter (\<lambda>e. none_or (bq_capability_id q) (ie_capability_id e)
           \<and> none_or (bq_model_id q) (model_id (ie_receiver_model e))
           \<and> none_or (bq_model_sha256 q) (model_sha256 (ie_receiver_model e))
           \<and> (bq_include_revoked q \<or> \<not> is_revoked s (ie_adapter e))) (sn_entries s) in
     Inr \<lparr>br_schema = ''tidex.adapter_bank_report/v1'', br_revision = sn_revision s, br_index = reference,
          br_adapters = map (status_of s) selected\<rparr>))"

definition lookup :: "('g, 'l) bank_externals \<Rightarrow> path \<Rightarrow> bank_lookup \<Rightarrow> store \<Rightarrow> adapter_manifest option res" where
  "lookup X root l fs =
     rbind (reject (bl_schema l \<noteq> ''tidex.adapter_bank_lookup/v1'' \<or> bl_generation l = Some 0)
              (Invalid ''adapter_bank_lookup_invalid'')) (\<lambda>_.
     rbind (snapshot X root fs) (\<lambda>s.
     case max_by_key (\<lambda>e. generation (ie_adapter e))
            (filter (\<lambda>e. adapter_id (ie_adapter e) = bl_adapter_id l
                        \<and> none_or (bl_generation l) (generation (ie_adapter e))) (sn_entries s)) of
       None \<Rightarrow> Inr None
     | Some e \<Rightarrow> rbind (authenticate_manifest X root (ie_manifest e) fs) (\<lambda>manifest. Inr (Some manifest))))"

definition resolve_active ::
  "('g, 'l) bank_externals \<Rightarrow> path \<Rightarrow> resolution_request \<Rightarrow> store \<Rightarrow> execution_resolution res" where
  "resolve_active X root request fs =
     rbind (reject (rq_schema request \<noteq> ''tidex.adapter_resolution_request/v1'')
              (Invalid ''adapter_resolution_request_invalid'')) (\<lambda>_.
     rbind (current X root fs) (\<lambda>(s, index).
     rbind (ok_or index (Invalid ''adapter_resolution_bank_empty'')) (\<lambda>index.
     let slot = ActivationSlot (rq_receiver_model request) (rq_capability_id request) in
     rbind (ok_or (find_slot (sn_active s) slot) (Invalid ''adapter_resolution_not_active'')) (\<lambda>selection.
     rbind (authenticate_manifest X root (sel_manifest selection) fs) (\<lambda>manifest.
     rbind (live_receiver_profile X root (am_receiver_profile manifest) fs) (\<lambda>_.
     rbind (authenticate_promotion_authorization X root (sel_authorization selection) fs) (\<lambda>authorization.
     rbind (if pa_governed authorization
            then rbind (authenticate_candidate_materialization X root
                          (pe_materialization_receipt (pa_evidence authorization)) fs) (\<lambda>m. Inr (Some m))
            else Inr None) (\<lambda>materialized.
     Inr \<lparr>er_schema = ''tidex.adapter_execution_resolution/v1'', er_bank_revision = sn_revision s, er_index = index,
          er_slot = slot, er_adapter = sel_adapter selection, er_manifest = sel_manifest selection,
          er_authorization = sel_authorization selection, er_execution_binding = sel_execution_binding selection,
          er_materialized_candidate = materialized\<rparr>))))))))"

definition authenticate_execution_resolution ::
  "('g, 'l) bank_externals \<Rightarrow> path \<Rightarrow> execution_resolution \<Rightarrow> store \<Rightarrow> unit res" where
  "authenticate_execution_resolution X root resolution fs =
     rbind (reject (er_schema resolution \<noteq> ''tidex.adapter_execution_resolution/v1'')
              (Invalid ''adapter_execution_resolution_schema_invalid'')) (\<lambda>_.
     rbind (resolve_active X root \<lparr>rq_schema = ''tidex.adapter_resolution_request/v1'',
              rq_receiver_model = slot_receiver_model (er_slot resolution),
              rq_capability_id = slot_capability_id (er_slot resolution)\<rparr> fs) (\<lambda>now.
     reject (now \<noteq> resolution) (Integrity ''adapter_execution_resolution_stale'')))"

section \<open>The whole history\<close>

text \<open>
  The walk of \<open>verify_history\<close> from the current snapshot to the first, structural in the expected
  revision. For revision 0, which no journal has, the code's subtraction leads to the missing commit.
\<close>

fun history_walk ::
  "('g, 'l) bank_externals \<Rightarrow> path \<Rightarrow> store \<Rightarrow> (revision_commit \<times> private_file_reference) list \<Rightarrow> nat \<Rightarrow> digest set \<Rightarrow> nat
    \<Rightarrow> private_file_reference \<Rightarrow> nat res" where
  "history_walk X root fs journal 0 visited count cursor =
     rbind (reject (MAX_HISTORY_REVISIONS \<le> count \<or> ref_sha256 cursor \<in> visited) (Integrity ''adapter_bank_history_invalid'')) (\<lambda>_.
     rbind (authenticate_snapshot X root cursor fs) (\<lambda>s.
     rbind (reject (sn_revision s \<noteq> 0) (Integrity ''adapter_bank_history_revision_gap'')) (\<lambda>_.
     Inl (Integrity ''adapter_bank_history_commit_missing''))))"
| "history_walk X root fs journal (Suc r) visited count cursor =
     rbind (reject (MAX_HISTORY_REVISIONS \<le> count \<or> ref_sha256 cursor \<in> visited) (Integrity ''adapter_bank_history_invalid'')) (\<lambda>_.
     rbind (authenticate_snapshot X root cursor fs) (\<lambda>s.
     rbind (reject (sn_revision s \<noteq> Suc r) (Integrity ''adapter_bank_history_revision_gap'')) (\<lambda>_.
     rbind (ok_or (if r < length journal then Some (journal ! r) else None)
              (Integrity ''adapter_bank_history_commit_missing'')) (\<lambda>(commit, _).
     rbind (reject (jc_index commit \<noteq> cursor) (Integrity ''adapter_bank_history_commit_index_mismatch'')) (\<lambda>_.
     if r = 0
     then rbind (reject (sn_parent s \<noteq> None) (Integrity ''adapter_bank_history_genesis_parent'')) (\<lambda>_. Inr (Suc count))
     else rbind (ok_or (sn_parent s) (Integrity ''adapter_bank_history_parent_missing'')) (\<lambda>parent.
          history_walk X root fs journal r (insert (ref_sha256 cursor) visited) (Suc count) parent))))))"

definition replay_step ::
  "('g, 'l) bank_externals \<Rightarrow> path \<Rightarrow> store \<Rightarrow> revision_commit \<times> private_file_reference
    \<Rightarrow> private_file_reference option \<times> index_snapshot \<Rightarrow> (private_file_reference option \<times> index_snapshot) res" where
  "replay_step X root fs commit = (\<lambda>(parent_reference, parent).
     rbind (authenticate_snapshot X root (jc_index (fst commit)) fs) (\<lambda>s.
     rbind (validate_snapshot_transition X root parent_reference parent s fs) (\<lambda>_.
     Inr (Some (jc_index (fst commit)), s))))"

definition verify_history :: "('g, 'l) bank_externals \<Rightarrow> path \<Rightarrow> store \<Rightarrow> history_status res" where
  "verify_history X root fs =
     rbind (authenticate_revision_journal X root fs) (\<lambda>journal.
     rbind (current X root fs) (\<lambda>(s, reference).
     case reference of
       None \<Rightarrow> Inr \<lparr>hs_revision = 0, hs_index = None, hs_verified_revision_count = 0,
                    hs_registered_adapter_count = 0, hs_active_adapter_count = 0, hs_revoked_adapter_count = 0\<rparr>
     | Some cursor \<Rightarrow>
         rbind (history_walk X root fs journal (sn_revision s) {} 0 cursor) (\<lambda>count.
         rbind (reject (count \<noteq> length journal) (Integrity ''adapter_bank_history_journal_length_mismatch'')) (\<lambda>_.
         rbind (rfold (replay_step X root fs) journal (None, empty_snapshot)) (\<lambda>_.
         Inr \<lparr>hs_revision = sn_revision s, hs_index = reference, hs_verified_revision_count = count,
              hs_registered_adapter_count = length (sn_entries s), hs_active_adapter_count = length (sn_active s),
              hs_revoked_adapter_count = length (sn_revocations s)\<rparr>)))))"

end
