(* ===== verification/Adapter_Invariants.thy ===== *)
theory Adapter_Invariants
  imports Adapter_Lifecycle
begin

text \<open>
  What the checks of the adapter bank guarantee: the well-formedness of a snapshot that passes its
  contract, what each kind of transition leaves alone, what a publication establishes, the fixpoint
  the revocation loop reaches, and the frame of the operations on the store.
\<close>

section \<open>Well-formed snapshots\<close>

definition registered :: "index_snapshot \<Rightarrow> adapter_version set" where
  "registered s = ie_adapter ` set (sn_entries s)"

definition revoked_versions :: "index_snapshot \<Rightarrow> adapter_version set" where
  "revoked_versions s = rv_adapter ` set (sn_revocations s)"

definition active_versions :: "index_snapshot \<Rightarrow> adapter_version set" where
  "active_versions s = sel_adapter ` set (sn_active s)"

lemma is_revoked_iff [simp]: "is_revoked s v \<longleftrightarrow> v \<in> revoked_versions s"
  by (auto simp: is_revoked_def revoked_versions_def list_ex_iff)

lemma find_entry_of_Some: "find_entry_of es v = Some e \<Longrightarrow> e \<in> set es \<and> ie_adapter e = v"
  unfolding find_entry_of_def by (metis (mono_tags, lifting) find_Some_iff nth_mem)

lemma find_entry_of_None: "find_entry_of es v = None \<longleftrightarrow> v \<notin> ie_adapter ` set es"
  unfolding find_entry_of_def by (auto simp: find_None_iff)

lemma find_slot_Some: "find_slot ss slot = Some s \<Longrightarrow> s \<in> set ss \<and> sel_slot s = slot"
  unfolding find_slot_def by (metis (mono_tags, lifting) find_Some_iff nth_mem)

lemma find_slot_None: "find_slot ss slot = None \<longleftrightarrow> slot \<notin> sel_slot ` set ss"
  unfolding find_slot_def by (auto simp: find_None_iff)

text \<open>Keys in strictly increasing order make an entry unique for its key.\<close>

lemma sorted_key_unique:
  "sorted_wrt (<) (map (f :: 'a \<Rightarrow> 'k::linorder) xs) \<Longrightarrow> x \<in> set xs \<Longrightarrow> y \<in> set xs \<Longrightarrow> f x = f y \<Longrightarrow> x = y"
  by (metis distinct_map inj_on_def strict_sorted_iff)

lemma find_entry_of_unique:
  "sorted_wrt (<) (map ie_adapter es) \<Longrightarrow> e \<in> set es \<Longrightarrow> find_entry_of es (ie_adapter e) = Some e"
  using find_entry_of_None[of es "ie_adapter e"] find_entry_of_Some[of es "ie_adapter e"]
    sorted_key_unique[of ie_adapter es] by (metis imageI option.exhaust)

lemma find_slot_unique:
  "sorted_wrt (<) (map sel_slot ss) \<Longrightarrow> s \<in> set ss \<Longrightarrow> find_slot ss (sel_slot s) = Some s"
  using find_slot_None[of ss "sel_slot s"] find_slot_Some[of ss "sel_slot s"]
    sorted_key_unique[of sel_slot ss] by (metis imageI option.exhaust)

text \<open>
  The invariant of the bank: versions are registered once, in order, each lineage has one version of a
  generation, the two indexes are projections of the table, revocations are of registered versions,
  and each slot has at most one selection, of a version that is registered and not revoked.
\<close>

definition lineage_key :: "index_entry \<Rightarrow> string \<times> nat" where
  "lineage_key e = (ie_lineage_id e, generation (ie_adapter e))"

definition bank_invariant :: "index_snapshot \<Rightarrow> bool" where
  "bank_invariant s \<longleftrightarrow>
     sorted_wrt (<) (map ie_adapter (sn_entries s))
     \<and> distinct (map lineage_key (sn_entries s))
     \<and> (\<forall>e \<in> set (sn_entries s). 0 < generation (ie_adapter e))
     \<and> (sn_by_capability s, sn_by_model s) = derived_buckets (sn_entries s)
     \<and> sorted_wrt (<) (map rv_adapter (sn_revocations s))
     \<and> revoked_versions s \<subseteq> registered s
     \<and> (\<forall>r \<in> set (sn_revocations s). 0 < rv_revoked_at_revision r \<and> rv_revoked_at_revision r \<le> sn_revision s)
     \<and> sorted_wrt (<) (map sel_slot (sn_active s))
     \<and> active_versions s \<inter> revoked_versions s = {}
     \<and> (\<forall>a \<in> set (sn_active s).
          0 < sel_activated_at_revision a \<and> sel_activated_at_revision a \<le> sn_revision s
          \<and> eb_activation_epoch (sel_execution_binding a) = sel_activated_at_revision a
          \<and> (\<exists>e \<in> set (sn_entries s). ie_adapter e = sel_adapter a \<and> ie_manifest e = sel_manifest a
               \<and> sel_slot a = ActivationSlot (ie_receiver_model e) (ie_capability_id e)))"

text \<open>Every registered manifest of a snapshot, as the store authenticates it.\<close>

definition manifest_in ::
  "('g, 'l) bank_externals \<Rightarrow> path \<Rightarrow> store \<Rightarrow> index_snapshot \<Rightarrow> adapter_version \<Rightarrow> adapter_manifest \<Rightarrow> bool" where
  "manifest_in X root fs s v m \<longleftrightarrow>
     (\<exists>e \<in> set (sn_entries s). ie_adapter e = v \<and> authenticate_manifest X root (ie_manifest e) fs = Inr m)"

text \<open>\<open>v\<close> is composed of \<open>d\<close>: the dependency relation of the registered manifests.\<close>

definition composed_of ::
  "('g, 'l) bank_externals \<Rightarrow> path \<Rightarrow> store \<Rightarrow> index_snapshot \<Rightarrow> (adapter_version \<times> adapter_version) set" where
  "composed_of X root fs s = {(d, v). \<exists>m. manifest_in X root fs s v m \<and> d \<in> set (composition_dependencies m)}"

definition before_all :: "'k::linorder option \<Rightarrow> 'k list \<Rightarrow> bool" where
  "before_all prior ks \<longleftrightarrow> (case prior of None \<Rightarrow> True | Some p \<Rightarrow> \<forall>k \<in> set ks. p < k)"

lemma sorted_wrt_Cons_before: "sorted_wrt (<) (k # ks) \<longleftrightarrow> before_all (Some k) ks \<and> sorted_wrt (<) ks"
  by (simp add: before_all_def)

lemma before_all_Cons: "before_all prior (k # ks) \<longleftrightarrow> (\<forall>p. prior = Some p \<longrightarrow> p < k) \<and> before_all prior ks"
  by (auto simp: before_all_def split: option.splits)

lemma before_all_trans: "before_all (Some k) ks \<Longrightarrow> (\<forall>p. prior = Some p \<longrightarrow> p < k) \<Longrightarrow> before_all prior (k # ks)"
  by (auto simp: before_all_def split: option.splits intro: less_trans)

lemma snapshot_entry_Inr:
  assumes "snapshot_entry X root fs e (prior, gens, ms) = Inr st"
  obtains m where "authenticate_manifest X root (ie_manifest e) fs = Inr m"
    and "0 < generation (ie_adapter e)" and "\<forall>p. prior = Some p \<longrightarrow> p < ie_adapter e"
    and "(ie_lineage_id e, generation (ie_adapter e)) \<notin> gens"
    and "ie_adapter e = am_adapter m" "ie_capability_id e = am_capability_id m" "ie_lineage_id e = am_lineage_id m"
      "ie_receiver_model e = am_receiver_model m"
    and "st = (Some (ie_adapter e), insert (ie_lineage_id e, generation (ie_adapter e)) gens, bm_insert (ie_adapter e) m ms)"
  using assms by (auto simp: snapshot_entry_def adapter_version_validate_def split: option.splits)

lemma snapshot_entries_Inr:
  "rfold (snapshot_entry X root fs) es (prior, gens, ms) = Inr (prior', gens', ms') \<Longrightarrow>
     sorted_wrt (<) (map ie_adapter es) \<and> before_all prior (map ie_adapter es)
     \<and> distinct (map lineage_key es) \<and> lineage_key ` set es \<inter> gens = {}
     \<and> (\<forall>e \<in> set es. 0 < generation (ie_adapter e))
     \<and> (\<forall>e \<in> set es. \<exists>m. authenticate_manifest X root (ie_manifest e) fs = Inr m \<and> map_of ms' (ie_adapter e) = Some m
           \<and> ie_capability_id e = am_capability_id m \<and> ie_receiver_model e = am_receiver_model m)
     \<and> (\<forall>v. v \<notin> ie_adapter ` set es \<longrightarrow> map_of ms' v = map_of ms v)
     \<and> (bm_ok ms \<longrightarrow> bm_ok ms')"
proof (induction es arbitrary: prior gens ms)
  case Nil
  then show ?case by (simp add: before_all_def split: option.splits)
next
  case (Cons e es)
  from Cons.prems obtain st where st: "snapshot_entry X root fs e (prior, gens, ms) = Inr st"
      "rfold (snapshot_entry X root fs) es st = Inr (prior', gens', ms')" by auto
  from snapshot_entry_Inr[OF st(1)] obtain m where m: "authenticate_manifest X root (ie_manifest e) fs = Inr m"
      "0 < generation (ie_adapter e)" "\<forall>p. prior = Some p \<longrightarrow> p < ie_adapter e" "lineage_key e \<notin> gens"
      "ie_capability_id e = am_capability_id m" "ie_receiver_model e = am_receiver_model m"
      and st_eq: "st = (Some (ie_adapter e), insert (lineage_key e) gens, bm_insert (ie_adapter e) m ms)"
    unfolding lineage_key_def by metis
  note IH = Cons.IH[OF st(2)[unfolded st_eq]]
  have fresh: "ie_adapter e \<notin> ie_adapter ` set es"
    using IH by (fastforce simp: before_all_def)
  then have last: "map_of ms' (ie_adapter e) = Some m" using IH by simp
  have "before_all prior (map ie_adapter (e # es))"
    using before_all_trans[of "ie_adapter e" "map ie_adapter es" prior] IH m(3) by simp
  with IH m last show ?case by (auto simp: before_all_def)
qed

lemma snapshot_revocations_Inr:
  "rfold (snapshot_revocation X root s fs) rs (prior, revoked) = Inr (prior', revoked') \<Longrightarrow>
     sorted_wrt (<) (map rv_adapter rs) \<and> before_all prior (map rv_adapter rs)
     \<and> (\<forall>r \<in> set rs. 0 < rv_revoked_at_revision r \<and> rv_revoked_at_revision r \<le> sn_revision s
          \<and> rv_adapter r \<in> registered s)
     \<and> revoked' = revoked \<union> rv_adapter ` set rs"
proof (induction rs arbitrary: prior revoked)
  case Nil
  then show ?case by (simp add: before_all_def split: option.splits)
next
  case (Cons r rs)
  from Cons.prems obtain st where st: "snapshot_revocation X root s fs r (prior, revoked) = Inr st"
      "rfold (snapshot_revocation X root s fs) rs st = Inr (prior', revoked')" by auto
  from st(1) have r: "0 < rv_revoked_at_revision r" "rv_revoked_at_revision r \<le> sn_revision s"
      "\<forall>p. prior = Some p \<longrightarrow> p < rv_adapter r" "\<exists>e. find_entry_of (sn_entries s) (rv_adapter r) = Some e"
      and st_eq: "st = (Some (rv_adapter r), insert (rv_adapter r) revoked)"
    by (auto simp: snapshot_revocation_def split: option.splits)
  note IH = Cons.IH[OF st(2)[unfolded st_eq]]
  have "rv_adapter r \<in> registered s" using r(4) find_entry_of_Some by (force simp: registered_def)
  moreover have "before_all prior (map rv_adapter (r # rs))"
    using before_all_trans[of "rv_adapter r" "map rv_adapter rs" prior] IH r(3) by simp
  ultimately show ?case using IH r by (auto simp: before_all_def)
qed

lemma snapshot_selections_Inr:
  "rfold (snapshot_selection ap s ms revoked) sels prior = Inr prior' \<Longrightarrow>
     sorted_wrt (<) (map sel_slot sels) \<and> before_all prior (map sel_slot sels)
     \<and> (\<forall>a \<in> set sels. 0 < sel_activated_at_revision a \<and> sel_activated_at_revision a \<le> sn_revision s
          \<and> sel_adapter a \<notin> revoked
          \<and> eb_activation_epoch (sel_execution_binding a) = sel_activated_at_revision a
          \<and> (\<exists>m e p. map_of ms (sel_adapter a) = Some m \<and> find_entry_of (sn_entries s) (sel_adapter a) = Some e
               \<and> sel_slot a = ActivationSlot (am_receiver_model m) (am_capability_id m)
               \<and> sel_manifest a = ie_manifest e
               \<and> eb_adapter_delta_sha256 (sel_execution_binding a) = delta_sha256 (am_dense_delta m)
               \<and> ap (sel_authorization a) = Inr p \<and> pa_adapter p = sel_adapter a \<and> pa_manifest p = sel_manifest a))"
proof (induction sels arbitrary: prior)
  case Nil
  then show ?case by (simp add: before_all_def split: option.splits)
next
  case (Cons a sels)
  from Cons.prems obtain st where st: "snapshot_selection ap s ms revoked a prior = Inr st"
      "rfold (snapshot_selection ap s ms revoked) sels st = Inr prior'" by auto
  from st(1) have a: "0 < sel_activated_at_revision a" "sel_activated_at_revision a \<le> sn_revision s"
      "\<forall>p. prior = Some p \<longrightarrow> p < sel_slot a" "sel_adapter a \<notin> revoked"
      "eb_activation_epoch (sel_execution_binding a) = sel_activated_at_revision a"
      "\<exists>m e p. map_of ms (sel_adapter a) = Some m \<and> find_entry_of (sn_entries s) (sel_adapter a) = Some e
         \<and> sel_slot a = ActivationSlot (am_receiver_model m) (am_capability_id m) \<and> sel_manifest a = ie_manifest e
         \<and> eb_adapter_delta_sha256 (sel_execution_binding a) = delta_sha256 (am_dense_delta m)
         \<and> ap (sel_authorization a) = Inr p \<and> pa_adapter p = sel_adapter a \<and> pa_manifest p = sel_manifest a"
      and st_eq: "st = Some (sel_slot a)"
    by (auto simp: snapshot_selection_def activation_slot.expand split: option.splits)
  note IH = Cons.IH[OF st(2)[unfolded st_eq]]
  have "before_all prior (map sel_slot (a # sels))"
    using before_all_trans[of "sel_slot a" "map sel_slot sels" prior] IH a(3) by simp
  with IH a show ?case by (auto simp: before_all_def)
qed

text \<open>The contract of a snapshot establishes the invariant and the closure of revocation.\<close>

lemma bank_invariant_empty: "bank_invariant empty_snapshot"
  by (simp add: bank_invariant_def empty_snapshot_def revoked_versions_def active_versions_def derived_buckets_def)

lemma validate_snapshot_contract_Inr:
  assumes "validate_snapshot_contract X root ap s fs = Inr ()"
  shows "bank_invariant s"
    and "\<forall>(d, v) \<in> composed_of X root fs s. d \<in> revoked_versions s \<longrightarrow> v \<in> revoked_versions s"
    and "\<forall>e \<in> set (sn_entries s). \<exists>m. authenticate_manifest X root (ie_manifest e) fs = Inr m
      \<and> ie_capability_id e = am_capability_id m \<and> ie_receiver_model e = am_receiver_model m"
    and "\<forall>a \<in> set (sn_active s). \<exists>p. ap (sel_authorization a) = Inr p \<and> pa_adapter p = sel_adapter a
      \<and> pa_manifest p = sel_manifest a"
proof -
  have "bank_invariant s
    \<and> (\<forall>(d, v) \<in> composed_of X root fs s. d \<in> revoked_versions s \<longrightarrow> v \<in> revoked_versions s)
    \<and> (\<forall>e \<in> set (sn_entries s). \<exists>m. authenticate_manifest X root (ie_manifest e) fs = Inr m
      \<and> ie_capability_id e = am_capability_id m \<and> ie_receiver_model e = am_receiver_model m)
    \<and> (\<forall>a \<in> set (sn_active s). \<exists>p. ap (sel_authorization a) = Inr p \<and> pa_adapter p = sel_adapter a
      \<and> pa_manifest p = sel_manifest a)"
  proof (cases "sn_revision s = 0")
    case True
    with assms have "s = empty_snapshot" by (simp add: validate_snapshot_contract_def)
    then show ?thesis
      using bank_invariant_empty by (auto simp: composed_of_def manifest_in_def empty_snapshot_def)
  next
    case False
    from assms False obtain prior gens ms where
        es: "rfold (snapshot_entry X root fs) (sn_entries s) (None, {}, []) = Inr (prior, gens, ms)"
      and buckets: "(sn_by_capability s, sn_by_model s) = derived_buckets (sn_entries s)"
      and rest: "\<exists>prior' revoked. rfold (snapshot_revocation X root s fs) (sn_revocations s) (None, {}) = Inr (prior', revoked)
        \<and> (\<forall>(v, m) \<in> set ms. list_ex (\<lambda>d. d \<in> revoked) (composition_dependencies m) \<longrightarrow> v \<in> revoked)
        \<and> (\<exists>p. rfold (snapshot_selection ap s ms revoked) (sn_active s) None = Inr p)"
      by (auto simp: validate_snapshot_contract_def split: prod.splits)
    note E = snapshot_entries_Inr[OF es]
    from rest obtain prior' revoked p where
        rs: "rfold (snapshot_revocation X root s fs) (sn_revocations s) (None, {}) = Inr (prior', revoked)"
      and closed: "\<forall>(v, m) \<in> set ms. list_ex (\<lambda>d. d \<in> revoked) (composition_dependencies m) \<longrightarrow> v \<in> revoked"
      and sels: "rfold (snapshot_selection ap s ms revoked) (sn_active s) None = Inr p" by blast
    note R = snapshot_revocations_Inr[OF rs] and A = snapshot_selections_Inr[OF sels]
    have revoked: "revoked = revoked_versions s" using R by (simp add: revoked_versions_def)
    have found: "find_entry_of (sn_entries s) v = Some e \<longleftrightarrow> e \<in> set (sn_entries s) \<and> ie_adapter e = v" for v e
      using E find_entry_of_Some find_entry_of_unique by metis
    have slots: "\<exists>e \<in> set (sn_entries s). ie_adapter e = sel_adapter a \<and> ie_manifest e = sel_manifest a
          \<and> sel_slot a = ActivationSlot (ie_receiver_model e) (ie_capability_id e)" if "a \<in> set (sn_active s)" for a
    proof -
      from A that obtain m e where "map_of ms (sel_adapter a) = Some m" "e \<in> set (sn_entries s)" "ie_adapter e = sel_adapter a"
          "sel_slot a = ActivationSlot (am_receiver_model m) (am_capability_id m)" "sel_manifest a = ie_manifest e"
        by (metis found)
      with E show ?thesis by (metis option.inject)
    qed
    have inv: "bank_invariant s"
      unfolding bank_invariant_def
      using E R A buckets slots revoked
      by (auto simp: registered_def revoked_versions_def active_versions_def)
    have "v \<in> revoked_versions s" if "(d, v) \<in> composed_of X root fs s" "d \<in> revoked_versions s" for d v
    proof -
      from that obtain e m where e: "e \<in> set (sn_entries s)" "ie_adapter e = v"
          "authenticate_manifest X root (ie_manifest e) fs = Inr m" "d \<in> set (composition_dependencies m)"
        by (auto simp: composed_of_def manifest_in_def)
      with E have "map_of ms v = Some m" by (metis sum.inject(2))
      then have "(v, m) \<in> set ms" by (rule map_of_SomeD)
      with closed e that(2) show ?thesis by (auto simp: list_ex_iff revoked)
    qed
    with inv E A show ?thesis by auto
  qed
  then show "bank_invariant s"
    "\<forall>(d, v) \<in> composed_of X root fs s. d \<in> revoked_versions s \<longrightarrow> v \<in> revoked_versions s"
    "\<forall>e \<in> set (sn_entries s). \<exists>m. authenticate_manifest X root (ie_manifest e) fs = Inr m
      \<and> ie_capability_id e = am_capability_id m \<and> ie_receiver_model e = am_receiver_model m"
    "\<forall>a \<in> set (sn_active s). \<exists>p. ap (sel_authorization a) = Inr p \<and> pa_adapter p = sel_adapter a
      \<and> pa_manifest p = sel_manifest a"
    by blast+
qed

end
