(* ===== verification/Adapter_Publication.thy ===== *)
theory Adapter_Publication
  imports Adapter_Invariants
begin

text \<open>
  What a successful publication establishes: the transition is one the bank allows, the next reader
  sees exactly the published snapshot, and no file of the store but the head cache changes.
\<close>

section \<open>What publication keeps\<close>

lemma io_keeps_persist_bytes [keeps_intros]: "io_keeps M (persist_bytes X root p bytes code)"
  unfolding persist_bytes_def by (intro keeps_intros)

lemma io_keeps_publish [keeps_intros]: "io_keeps {head_path root} (publish_snapshot X root s)"
  unfolding publish_snapshot_def persist_snapshot_def persist_revision_commit_def Let_def split_def
  by (intro keeps_intros) simp

section \<open>Publication\<close>

text \<open>A snapshot that authenticates is within its contract.\<close>

lemma authenticate_snapshot_Inr:
  assumes "authenticate_snapshot X root reference fs = Inr s"
  obtains ap where "validate_snapshot_contract X root ap s fs = Inr ()"
  using assms by (cases "call_depth X") (auto simp: authenticate_snapshot_def)

text \<open>
  The current snapshot is the last of the journal, or the empty one: its reference authenticates to it.
\<close>

definition snapshot_of ::
  "('g, 'l) bank_externals \<Rightarrow> path \<Rightarrow> store \<Rightarrow> private_file_reference option \<Rightarrow> index_snapshot res" where
  "snapshot_of X root fs reference = (case reference of
     None \<Rightarrow> Inr empty_snapshot | Some r \<Rightarrow> authenticate_snapshot X root r fs)"

lemma snapshot_of_simps [simp]:
  "snapshot_of X root fs None = Inr empty_snapshot"
  "snapshot_of X root fs (Some r) = authenticate_snapshot X root r fs"
  by (simp_all add: snapshot_of_def)

lemma snapshot_of_invariant:
  assumes "snapshot_of X root fs reference = Inr s"
  shows "bank_invariant s"
    and "\<forall>(d, v) \<in> composed_of X root fs s. d \<in> revoked_versions s \<longrightarrow> v \<in> revoked_versions s"
proof -
  have "bank_invariant s
    \<and> (\<forall>(d, v) \<in> composed_of X root fs s. d \<in> revoked_versions s \<longrightarrow> v \<in> revoked_versions s)"
  proof (cases reference)
    case None
    with assms have "s = empty_snapshot" by simp
    then show ?thesis
      using bank_invariant_empty by (auto simp: composed_of_def manifest_in_def empty_snapshot_def)
  next
    case (Some r)
    with assms obtain ap where "validate_snapshot_contract X root ap s fs = Inr ()"
      by (auto elim: authenticate_snapshot_Inr)
    from validate_snapshot_contract_Inr(1,2)[OF this] show ?thesis by blast
  qed
  then show "bank_invariant s"
    "\<forall>(d, v) \<in> composed_of X root fs s. d \<in> revoked_versions s \<longrightarrow> v \<in> revoked_versions s" by blast+
qed

lemma current_Inr:
  assumes "current X root fs = Inr (s, reference)"
  obtains tip where "authenticate_revision_tip X root fs = Inr tip"
    and "reference = map_option (jc_index \<circ> fst) tip"
    and "snapshot_of X root fs reference = Inr s"
    and "\<And>c r. tip = Some (c, r) \<Longrightarrow> sn_revision s = jc_revision c"
    and "tip = None \<Longrightarrow> sn_revision s = 0"
proof -
  from assms obtain tip where tip: "authenticate_revision_tip X root fs = Inr tip" by (auto simp: current_def)
  show thesis
  proof (cases tip)
    case None
    with assms tip show thesis by (intro that[of tip]) (auto simp: current_def empty_snapshot_def)
  next
    case (Some cr)
    obtain c r where "cr = (c, r)" by (cases cr)
    with Some assms tip show thesis by (intro that[of tip]) (auto simp: current_def)
  qed
qed

lemma current_transition:
  assumes "current X root fs = Inr (s, Some reference)"
  obtains parent where "snapshot_of X root fs (sn_parent s) = Inr parent"
    and "validate_snapshot_transition X root (sn_parent s) parent s fs = Inr ()"
proof -
  from assms obtain c r where "authenticate_revision_tip X root fs = Inr (Some (c, r))"
    by (auto simp: current_def split: option.splits)
  with assms that show thesis by (auto simp: current_def snapshot_of_def)
qed

lemma current_invariant: "current X root fs = Inr (s, reference) \<Longrightarrow> bank_invariant s"
  by (erule current_Inr) (rule snapshot_of_invariant(1))

lemma publish_snapshot_Inr:
  assumes "publish_snapshot X root s fs = (Inr reference, fs')"
  obtains tip revision previous_commit previous_index parent where
    "authenticate_revision_tip X root fs = Inr tip"
    and "successor_links tip = Inr (revision, previous_commit, previous_index)"
    and "sn_revision s = revision" "sn_parent s = previous_index"
    and "snapshot_of X root fs previous_index = Inr parent"
    and "validate_snapshot_transition X root previous_index parent s fs = Inr ()"
    and "current X root fs' = Inr (s, Some reference)"
  using assms unfolding publish_snapshot_def Let_def split_def
  by (fastforce simp: io_steps successor_links_def snapshot_of_def split: option.splits)

text \<open>
  The operations publish a successor of the current snapshot: its parent is the current one, and the
  next reader gets it.
\<close>

lemma publish_from_current:
  assumes "current X root fs = Inr (s0, r0)" and "publish_snapshot X root s fs = (Inr reference, fs')"
  shows "validate_snapshot_transition X root r0 s0 s fs = Inr ()"
    and "current X root fs' = Inr (s, Some reference)"
    and "sn_revision s = Suc (sn_revision s0)"
proof -
  from assms(2) obtain tip revision pc pi parent where
      tip: "authenticate_revision_tip X root fs = Inr tip"
    and links: "successor_links tip = Inr (revision, pc, pi)"
    and parent: "snapshot_of X root fs pi = Inr parent"
    and trans: "validate_snapshot_transition X root pi parent s fs = Inr ()"
    and cur: "current X root fs' = Inr (s, Some reference)"
    by (rule publish_snapshot_Inr)
  from assms(1) obtain tip' where tip': "authenticate_revision_tip X root fs = Inr tip'"
    and r0: "r0 = map_option (jc_index \<circ> fst) tip'" and s0: "snapshot_of X root fs r0 = Inr s0"
    by (rule current_Inr)
  have "pi = r0" using tip tip' links r0 by (auto simp: successor_links_def split: option.splits prod.splits)
  with parent s0 have "parent = s0" by simp
  with trans \<open>pi = r0\<close> show "validate_snapshot_transition X root r0 s0 s fs = Inr ()" by simp
  then show "sn_revision s = Suc (sn_revision s0)" by (auto simp: validate_snapshot_transition_def)
  show "current X root fs' = Inr (s, Some reference)" by (rule cur)
qed

section \<open>The files of the bank\<close>

lemma io_keeps_registration [keeps_intros]:
  "io_keeps {head_path root} (registration_section X root manifest reference expected composed)"
  unfolding registration_section_def Let_def split_def
  by (intro keeps_intros) (auto split: option.splits intro!: keeps_intros)

lemma io_keeps_activation [keeps_intros]: "io_keeps {head_path root} (activation_section X root request)"
proof -
  have fresh: "io_keeps {head_path root} (activate_fresh X root request s r)" for s r
    unfolding activate_fresh_def Let_def by (intro keeps_intros)
  show ?thesis
    unfolding activation_section_def Let_def split_def
    by (intro keeps_intros) (auto split: option.splits intro!: keeps_intros fresh)
qed

lemma io_keeps_revocation [keeps_intros]: "io_keeps {head_path root} (revocation_section X root request)"
  unfolding revocation_section_def Let_def split_def
  by (intro keeps_intros) (auto intro!: keeps_intros)

lemma io_keeps_rollback [keeps_intros]: "io_keeps {head_path root} (rollback_section X root request)"
  unfolding rollback_section_def Let_def split_def by (intro keeps_intros)

end
