(* ===== verification/Adapter_Registry.thy ===== *)
theory Adapter_Registry
  imports Adapter_Publication
begin

text \<open>
  The abstract specification of the adapter bank: which versions are registered, which are revoked,
  and which version each slot runs. Its steps are the only changes the bank may make; every
  transition between well-formed snapshots is one of them (\<open>transition_refines\<close>), so what holds of
  all runs of the abstract machine holds of the bank's history.
\<close>

section \<open>The abstract machine\<close>

record registry =
  reg_registered :: "adapter_version set"
  reg_revoked :: "adapter_version set"
  reg_active :: "activation_slot \<Rightarrow> adapter_version option"

definition registry_start :: registry where
  "registry_start = \<lparr>reg_registered = {}, reg_revoked = {}, reg_active = (\<lambda>_. None)\<rparr>"

definition deactivate :: "adapter_version set \<Rightarrow> (activation_slot \<Rightarrow> adapter_version option) \<Rightarrow> activation_slot \<Rightarrow> adapter_version option" where
  "deactivate V active slot = (case active slot of None \<Rightarrow> None | Some v \<Rightarrow> if v \<in> V then None else Some v)"

inductive registry_step :: "registry \<Rightarrow> registry \<Rightarrow> bool" where
  Register: "v \<notin> reg_registered b \<Longrightarrow> registry_step b (b\<lparr>reg_registered := insert v (reg_registered b)\<rparr>)"
| Activate: "v \<in> reg_registered b \<Longrightarrow> v \<notin> reg_revoked b \<Longrightarrow>
    registry_step b (b\<lparr>reg_active := (reg_active b)(slot \<mapsto> v)\<rparr>)"
| Deactivate: "registry_step b (b\<lparr>reg_active := (reg_active b)(slot := None)\<rparr>)"
| Revoke: "V \<noteq> {} \<Longrightarrow> V \<subseteq> reg_registered b \<Longrightarrow> V \<inter> reg_revoked b = {} \<Longrightarrow>
    registry_step b (b\<lparr>reg_revoked := reg_revoked b \<union> V, reg_active := deactivate V (reg_active b)\<rparr>)"

inductive_cases registry_stepE: "registry_step b c"

definition registry_ok :: "registry \<Rightarrow> bool" where
  "registry_ok b \<longleftrightarrow> reg_revoked b \<subseteq> reg_registered b \<and> ran (reg_active b) \<subseteq> reg_registered b - reg_revoked b"

lemma registry_ok_start: "registry_ok registry_start"
  by (simp add: registry_ok_def registry_start_def)

lemma ran_deactivate: "ran (deactivate V active) = ran active - V"
  by (auto simp: ran_def deactivate_def split: option.splits if_splits)

lemma registry_ok_step: "registry_step b c \<Longrightarrow> registry_ok b \<Longrightarrow> registry_ok c"
proof (induction rule: registry_step.induct)
  case (Activate v b slot)
  then show ?case by (auto simp: registry_ok_def ran_def)
next
  case (Deactivate b slot)
  then show ?case by (auto simp: registry_ok_def ran_def)
next
  case (Revoke V b)
  then show ?case by (auto simp: registry_ok_def ran_deactivate)
qed (auto simp: registry_ok_def)

section \<open>Lifecycles\<close>

text \<open>
  A lifecycle only adds to what is registered and revoked, and after each step only registered
  versions that are not revoked are active. Its clients need no more to know that a revoked version
  never runs again.
\<close>

locale lifecycle =
  fixes step :: "'s \<Rightarrow> 's \<Rightarrow> bool" and enrolled withdrawn running :: "'s \<Rightarrow> 'v set"
  assumes enrolled_grows: "step s t \<Longrightarrow> enrolled s \<subseteq> enrolled t"
    and withdrawn_grows: "step s t \<Longrightarrow> withdrawn s \<subseteq> withdrawn t"
    and withdrawn_enrolled: "step s t \<Longrightarrow> withdrawn t \<subseteq> enrolled t"
    and running_sound: "step s t \<Longrightarrow> running t \<subseteq> enrolled t - withdrawn t"
begin

lemma run_grows: "step\<^sup>*\<^sup>* s t \<Longrightarrow> enrolled s \<subseteq> enrolled t \<and> withdrawn s \<subseteq> withdrawn t"
proof (induction rule: rtranclp_induct)
  case (step t u)
  then show ?case using enrolled_grows withdrawn_grows by blast
qed simp

lemma run_sound: "step\<^sup>+\<^sup>+ s t \<Longrightarrow> running t \<subseteq> enrolled t - withdrawn t"
  by (induction rule: tranclp_induct) (blast dest: running_sound)+

lemma withdrawn_for_good: "step\<^sup>+\<^sup>+ s t \<Longrightarrow> v \<in> withdrawn s \<Longrightarrow> v \<in> withdrawn t \<and> v \<notin> running t"
  using run_grows[of s t] run_sound[of s t] by (auto dest: tranclp_into_rtranclp)

end

interpretation registry: lifecycle "\<lambda>b c. registry_ok b \<and> registry_step b c" reg_registered reg_revoked "\<lambda>b. ran (reg_active b)"
proof (unfold_locales, goal_cases)
  case (3 s t)
  then show ?case using registry_ok_step by (auto simp: registry_ok_def)
next
  case (4 s t)
  then show ?case using registry_ok_step by (auto simp: registry_ok_def)
qed (auto elim!: registry_stepE)

text \<open>A system whose steps are abstract steps under a view has the lifecycle of the abstract one.\<close>

locale lifecycle_refinement = lifecycle step enrolled withdrawn running
  for step :: "'s \<Rightarrow> 's \<Rightarrow> bool" and enrolled withdrawn running :: "'s \<Rightarrow> 'v set" +
  fixes concrete_step :: "'c \<Rightarrow> 'c \<Rightarrow> bool" and abstraction :: "'c \<Rightarrow> 's"
  assumes simulation: "concrete_step s t \<Longrightarrow> step (abstraction s) (abstraction t)"
begin

lemma simulation_run: "(concrete_step ^^ n) s t \<Longrightarrow> (step ^^ n) (abstraction s) (abstraction t)"
proof (induction n arbitrary: t)
  case (Suc n)
  then show ?case by (auto dest: simulation)
qed simp

end

sublocale lifecycle_refinement \<subseteq> refined: lifecycle concrete_step "enrolled \<circ> abstraction" "withdrawn \<circ> abstraction" "running \<circ> abstraction"
  by unfold_locales (simp_all add: enrolled_grows[OF simulation] withdrawn_grows[OF simulation]
      withdrawn_enrolled[OF simulation] running_sound[OF simulation])

section \<open>Snapshots refine the abstract machine\<close>

definition view :: "index_snapshot \<Rightarrow> registry" where
  "view s = \<lparr>reg_registered = registered s, reg_revoked = revoked_versions s,
     reg_active = (\<lambda>slot. map_option sel_adapter (find_slot (sn_active s) slot))\<rparr>"

definition bank_step :: "('g, 'l) bank_externals \<Rightarrow> path \<Rightarrow> store \<Rightarrow> index_snapshot \<Rightarrow> index_snapshot \<Rightarrow> bool" where
  "bank_step X root fs s t \<longleftrightarrow> bank_invariant s \<and> bank_invariant t
     \<and> (\<exists>reference. validate_snapshot_transition X root reference s t fs = Inr ())"

lemma find_slot_iff:
  "sorted_wrt (<) (map sel_slot ss) \<Longrightarrow> find_slot ss slot = Some a \<longleftrightarrow> a \<in> set ss \<and> sel_slot a = slot"
  using find_slot_Some find_slot_unique by metis

lemma find_slot_eqI:
  assumes "sorted_wrt (<) (map sel_slot ss)" and "\<And>a. f = Some a \<longleftrightarrow> a \<in> set ss \<and> sel_slot a = slot"
  shows "find_slot ss slot = f"
  using find_slot_iff[OF assms(1), of slot] assms(2) by (cases f) (metis option.exhaust)+

lemma find_slot_set_selection:
  assumes "sorted_wrt (<) (map sel_slot ss)" "sorted_wrt (<) (map sel_slot ts)"
    and "set ts = insert sel {a \<in> set ss. sel_slot a \<noteq> sel_slot sel}"
  shows "find_slot ts = (find_slot ss)(sel_slot sel \<mapsto> sel)"
  using assms by (intro ext find_slot_eqI) (auto simp: find_slot_iff)

lemma find_slot_clear:
  assumes "sorted_wrt (<) (map sel_slot ss)" "sorted_wrt (<) (map sel_slot ts)"
    and "set ts = {a \<in> set ss. sel_slot a \<noteq> slot}"
  shows "find_slot ts = (find_slot ss)(slot := None)"
  using assms by (intro ext find_slot_eqI) (auto simp: find_slot_iff)

lemma find_slot_deactivate:
  assumes "sorted_wrt (<) (map sel_slot ss)" "sorted_wrt (<) (map sel_slot ts)"
    and "set ts = {a \<in> set ss. sel_adapter a \<notin> V}"
  shows "map_option sel_adapter (find_slot ts slot) = deactivate V (\<lambda>slot. map_option sel_adapter (find_slot ss slot)) slot"
proof (cases "find_slot ss slot")
  case None
  then have "find_slot ts slot = None" using assms(3) by (auto simp: find_slot_None)
  with None show ?thesis by (simp add: deactivate_def)
next
  case (Some a)
  then have a: "a \<in> set ss" "sel_slot a = slot" by (auto dest: find_slot_Some)
  have only: "b = a" if "b \<in> set ss" "sel_slot b = slot" for b
    using find_slot_unique[OF assms(1) that(1)] that(2) Some by simp
  have "find_slot ts slot = (if sel_adapter a \<in> V then None else Some a)"
  proof (cases "sel_adapter a \<in> V")
    case True
    then have "slot \<notin> sel_slot ` set ts" using only assms(3) by fastforce
    with True show ?thesis by (simp add: find_slot_None)
  next
    case False
    with a assms(3) have "a \<in> set ts" by simp
    from find_slot_unique[OF assms(2) this] a(2) False show ?thesis by simp
  qed
  with Some show ?thesis by (simp add: deactivate_def)
qed

lemmas bank_invariant_simps = bank_invariant_def registered_def revoked_versions_def active_versions_def

lemma bank_invariant_active:
  assumes "bank_invariant s" and "a \<in> set (sn_active s)"
  shows "sel_adapter a \<in> registered s - revoked_versions s"
proof -
  from assms obtain e where "e \<in> set (sn_entries s)" "ie_adapter e = sel_adapter a"
    unfolding bank_invariant_def by metis
  then have "sel_adapter a \<in> registered s" unfolding registered_def by (metis imageI)
  moreover have "sel_adapter a \<in> active_versions s" using assms(2) by (simp add: active_versions_def)
  moreover have "active_versions s \<inter> revoked_versions s = {}" using assms(1) by (simp add: bank_invariant_def)
  ultimately show ?thesis by blast
qed

lemma view_ok:
  assumes "bank_invariant s"
  shows "registry_ok (view s)"
proof -
  have "v \<in> registered s - revoked_versions s" if "v \<in> ran (reg_active (view s))" for v
  proof -
    from that obtain a where "a \<in> set (sn_active s)" "sel_adapter a = v"
      by (auto simp: ran_def view_def dest: find_slot_Some)
    with bank_invariant_active[OF assms] show ?thesis by metis
  qed
  moreover have "revoked_versions s \<subseteq> registered s" using assms by (simp add: bank_invariant_def)
  ultimately show ?thesis by (auto simp: registry_ok_def view_def)
qed

lemma view_start: "view empty_snapshot = registry_start"
  by (simp add: view_def registry_start_def empty_snapshot_def registered_def revoked_versions_def find_slot_def)

text \<open>What each kind of transition does to the snapshot.\<close>

lemma registration_transition_Inr:
  "registration_transition X root s t composed manifest fs = Inr () \<Longrightarrow>
     sn_active t = sn_active s \<and> sn_revocations t = sn_revocations s
     \<and> (\<exists>m. authenticate_manifest X root manifest fs = Inr m
          \<and> sn_entries t = sort_key ie_adapter (sn_entries s @ [entry_from_manifest m manifest]))"
  by (auto simp: registration_transition_def)

lemma activation_transition_Inr:
  "activation_transition X root s t adapter authorization fs = Inr () \<Longrightarrow>
     sn_entries t = sn_entries s \<and> sn_revocations t = sn_revocations s
     \<and> (\<exists>sel. sn_active t = with_selection (sn_active s) sel \<and> sel_adapter sel = adapter
          \<and> sel_authorization sel = authorization \<and> sel_activated_at_revision sel = sn_revision t)"
  by (auto simp: activation_transition_def Let_def)

lemma revocation_transition_Inr:
  "revocation_transition s t cause affected = Inr () \<Longrightarrow>
     sn_entries t = sn_entries s \<and> affected \<noteq> [] \<and> cause \<in> set affected
     \<and> set (sn_revocations s) \<subseteq> set (sn_revocations t)
     \<and> map rv_adapter (filter (\<lambda>r. r \<notin> set (sn_revocations s)) (sn_revocations t)) = affected
     \<and> sn_active t = filter (\<lambda>sel. sel_adapter sel \<notin> set affected) (sn_active s)"
  by (auto simp: revocation_transition_def Let_def list_all_iff)

lemma rollback_transition_Inr:
  "rollback_transition X root s t slot target before after authorization fs = Inr () \<Longrightarrow>
     sn_entries t = sn_entries s \<and> sn_revocations t = sn_revocations s
     \<and> (case after of
          None \<Rightarrow> sn_active t = filter (\<lambda>sel. sel_slot sel \<noteq> slot) (sn_active s)
        | Some adapter \<Rightarrow> \<exists>sel. sel_slot sel = slot \<and> sel_adapter sel = adapter
            \<and> sn_active t = with_selection (sn_active s) sel)"
proof (cases after)
  case None
  assume "rollback_transition X root s t slot target before after authorization fs = Inr ()"
  with None show ?thesis by (auto simp: rollback_transition_def Let_def)
next
  case (Some adapter)
  assume "rollback_transition X root s t slot target before after authorization fs = Inr ()"
  with Some have "\<exists>sel. sn_entries t = sn_entries s \<and> sn_revocations t = sn_revocations s
      \<and> find_slot (sn_active t) slot = Some sel \<and> sel_adapter sel = adapter
      \<and> sort_key sel_slot (filter (\<lambda>s. sel_slot s \<noteq> slot) (sn_active s) @ [sel]) = sn_active t"
    by (simp add: rollback_transition_def Let_def) metis
  then obtain sel where sel: "sn_entries t = sn_entries s" "sn_revocations t = sn_revocations s"
      "find_slot (sn_active t) slot = Some sel" "sel_adapter sel = adapter"
      "sn_active t = sort_key sel_slot (filter (\<lambda>s. sel_slot s \<noteq> slot) (sn_active s) @ [sel])" by metis
  from find_slot_Some[OF sel(3)] have slot: "sel_slot sel = slot" by simp
  with sel(5) have "sn_active t = with_selection (sn_active s) sel" by (simp add: with_selection_def)
  with sel(1,2,4) slot Some show ?thesis by auto
qed

text \<open>Revocations of a successor are those of its parent and the new ones, which are of other versions.\<close>

lemma revocation_transition_versions:
  assumes "revocation_transition s t cause affected = Inr ()" and "bank_invariant t"
  shows "revoked_versions t = revoked_versions s \<union> set affected" "set affected \<inter> revoked_versions s = {}"
proof -
  note R = revocation_transition_Inr[OF assms(1)]
  have affected: "set affected = rv_adapter ` (set (sn_revocations t) - set (sn_revocations s))"
  proof -
    from R have "affected = map rv_adapter (filter (\<lambda>r. r \<notin> set (sn_revocations s)) (sn_revocations t))" by simp
    then have "set affected = rv_adapter ` set (filter (\<lambda>r. r \<notin> set (sn_revocations s)) (sn_revocations t))"
      by (metis list.set_map)
    then show ?thesis by (simp add: set_diff_eq)
  qed
  with R show "revoked_versions t = revoked_versions s \<union> set affected"
    unfolding revoked_versions_def by (metis Diff_partition image_Un)
  have "sorted_wrt (<) (map rv_adapter (sn_revocations t))" using assms(2) by (simp add: bank_invariant_def)
  note unique = sorted_key_unique[OF this]
  show "set affected \<inter> revoked_versions s = {}"
  proof (rule ccontr)
    assume "set affected \<inter> revoked_versions s \<noteq> {}"
    then obtain r r' where "r \<in> set (sn_revocations t)" "r \<notin> set (sn_revocations s)" "r' \<in> set (sn_revocations s)"
        "rv_adapter r = rv_adapter r'"
      unfolding affected revoked_versions_def by blast
    with unique R show False by (metis subsetD)
  qed
qed

lemma view_with_selection:
  assumes "bank_invariant s" "bank_invariant t" "sn_active t = with_selection (sn_active s) sel"
  shows "reg_active (view t) = (reg_active (view s))(sel_slot sel \<mapsto> sel_adapter sel)"
    and "sel \<in> set (sn_active t)"
proof -
  have "sorted_wrt (<) (map sel_slot (sn_active s))" "sorted_wrt (<) (map sel_slot (sn_active t))"
    using assms(1,2) by (simp_all add: bank_invariant_def)
  moreover have set: "set (sn_active t) = insert sel {a \<in> set (sn_active s). sel_slot a \<noteq> sel_slot sel}"
    using assms(3) by (auto simp: with_selection_def)
  ultimately have "find_slot (sn_active t) = (find_slot (sn_active s))(sel_slot sel \<mapsto> sel)"
    by (rule find_slot_set_selection)
  then show "reg_active (view t) = (reg_active (view s))(sel_slot sel \<mapsto> sel_adapter sel)"
    by (auto simp: view_def)
  show "sel \<in> set (sn_active t)" using set by simp
qed

lemma registry_eqI:
  "reg_registered b = reg_registered c \<Longrightarrow> reg_revoked b = reg_revoked c \<Longrightarrow> reg_active b = reg_active c \<Longrightarrow> b = (c :: registry)"
  by simp

lemma selection_refines:
  assumes "bank_invariant s" "bank_invariant t" "sn_entries t = sn_entries s" "sn_revocations t = sn_revocations s"
    and "sn_active t = with_selection (sn_active s) sel"
  shows "registry_step (view s) (view t)"
proof -
  note V = view_with_selection[OF assms(1,2,5)]
  have same: "registered t = registered s" "revoked_versions t = revoked_versions s"
    using assms(3,4) by (simp_all add: registered_def revoked_versions_def)
  have "view t = (view s)\<lparr>reg_active := (reg_active (view s))(sel_slot sel \<mapsto> sel_adapter sel)\<rparr>"
    using V(1) by (intro registry_eqI) (simp_all add: view_def same)
  moreover have "sel_adapter sel \<in> reg_registered (view s)" "sel_adapter sel \<notin> reg_revoked (view s)"
    using bank_invariant_active[OF assms(2) V(2)] same by (simp_all add: view_def)
  ultimately show ?thesis by (metis Activate)
qed

lemma registration_refines:
  assumes "bank_invariant s" "bank_invariant t" "registration_transition X root s t composed manifest fs = Inr ()"
  shows "registry_step (view s) (view t)"
proof -
  from registration_transition_Inr[OF assms(3)] obtain m where
      same: "sn_active t = sn_active s" "sn_revocations t = sn_revocations s"
    and entries: "sn_entries t = sort_key ie_adapter (sn_entries s @ [entry_from_manifest m manifest])"
    by blast
  let ?v = "ie_adapter (entry_from_manifest m manifest)"
  have "distinct (map ie_adapter (sn_entries t))"
    using assms(2) by (simp add: bank_invariant_def strict_sorted_iff)
  then have "distinct (map ie_adapter (sn_entries s @ [entry_from_manifest m manifest]))"
    unfolding entries by (auto simp: distinct_map)
  then have "?v \<notin> registered s" by (simp add: registered_def)
  moreover have "view t = (view s)\<lparr>reg_registered := insert ?v (reg_registered (view s))\<rparr>"
    by (intro registry_eqI) (simp_all add: view_def registered_def revoked_versions_def same entries)
  ultimately show ?thesis
    using Register[of ?v "view s"] by (simp add: view_def)
qed

lemma revocation_refines:
  assumes "bank_invariant s" "bank_invariant t" "revocation_transition s t cause affected = Inr ()"
  shows "registry_step (view s) (view t)"
proof -
  note R = revocation_transition_Inr[OF assms(3)]
  note V = revocation_transition_versions[OF assms(3,2)]
  have entries: "registered t = registered s" using R by (simp add: registered_def)
  have sub: "set affected \<subseteq> registered s"
    using V(1) assms(2) entries by (auto simp: bank_invariant_def)
  have sorted: "sorted_wrt (<) (map sel_slot (sn_active s))" "sorted_wrt (<) (map sel_slot (sn_active t))"
    using assms(1,2) by (simp_all add: bank_invariant_def)
  have "set (sn_active t) = {a \<in> set (sn_active s). sel_adapter a \<notin> set affected}" using R by simp
  from find_slot_deactivate[OF sorted this]
  have "reg_active (view t) = deactivate (set affected) (reg_active (view s))"
    by (auto simp: view_def fun_eq_iff)
  then have "view t = (view s)\<lparr>reg_revoked := reg_revoked (view s) \<union> set affected,
      reg_active := deactivate (set affected) (reg_active (view s))\<rparr>"
    by (intro registry_eqI) (simp_all add: view_def entries V(1))
  moreover have "set affected \<noteq> {}" "set affected \<subseteq> reg_registered (view s)" "set affected \<inter> reg_revoked (view s) = {}"
    using R sub V(2) by (simp_all add: view_def)
  ultimately show ?thesis by (metis Revoke)
qed

lemma rollback_refines:
  assumes "bank_invariant s" "bank_invariant t"
    and "rollback_transition X root s t slot target before after authorization fs = Inr ()"
  shows "registry_step (view s) (view t)"
proof (cases after)
  case None
  with rollback_transition_Inr[OF assms(3)] have
      R: "sn_entries t = sn_entries s" "sn_revocations t = sn_revocations s"
      "sn_active t = filter (\<lambda>sel. sel_slot sel \<noteq> slot) (sn_active s)" by simp_all
  have "sorted_wrt (<) (map sel_slot (sn_active s))" "sorted_wrt (<) (map sel_slot (sn_active t))"
    using assms(1,2) by (simp_all add: bank_invariant_def)
  from find_slot_clear[OF this, of slot] R(3)
  have "find_slot (sn_active t) = (find_slot (sn_active s))(slot := None)" by simp
  then have "view t = (view s)\<lparr>reg_active := (reg_active (view s))(slot := None)\<rparr>"
    using R(1,2) by (intro registry_eqI) (auto simp: view_def registered_def revoked_versions_def)
  then show ?thesis by (metis Deactivate)
next
  case (Some adapter)
  with rollback_transition_Inr[OF assms(3)] selection_refines[OF assms(1,2)] show ?thesis by auto
qed

lemma transition_refines:
  assumes "bank_step X root fs s t"
  shows "registry_ok (view s) \<and> registry_step (view s) (view t)"
proof -
  from assms obtain reference where inv: "bank_invariant s" "bank_invariant t"
    and ok: "validate_snapshot_transition X root reference s t fs = Inr ()"
    by (auto simp: bank_step_def)
  have "registry_step (view s) (view t)"
  proof (cases "sn_operation t")
    case (OpActivate adapter authorization)
    with ok have "activation_transition X root s t adapter authorization fs = Inr ()"
      by (auto simp: validate_snapshot_transition_def)
    from activation_transition_Inr[OF this] selection_refines[OF inv] show ?thesis by blast
  qed (use ok inv in \<open>auto simp: validate_snapshot_transition_def
    intro: registration_refines revocation_refines rollback_refines\<close>)
  with view_ok[OF inv(1)] show ?thesis by blast
qed

interpretation bank: lifecycle_refinement
  "\<lambda>b c. registry_ok b \<and> registry_step b c" reg_registered reg_revoked "\<lambda>b. ran (reg_active b)" "bank_step X root fs" view
  for X :: "('g, 'l) bank_externals" and root fs
  by unfold_locales (rule transition_refines)

end
