(* ===== verification/Adapter_Effects.thy ===== *)
theory Adapter_Effects
  imports Adapter_Registry
begin

text \<open>
  What the operations of the adapter bank do: the fixpoint of the revocation loop, the effect of each
  operation on the snapshot the next reader gets, and the replay of the history.
\<close>

section \<open>The dependency closure\<close>

definition depends ::
  "(adapter_version, adapter_manifest) bmap \<Rightarrow> (adapter_version \<times> adapter_version) set" where
  "depends manifests = {(d, v). \<exists>m. (v, m) \<in> set manifests \<and> d \<in> set (composition_dependencies m)}"

lemma closure_pass_Cons:
  "closure_pass ((v, m) # manifests) affected =
     closure_pass manifests (if list_ex (\<lambda>d. d \<in> set affected) (composition_dependencies m) then bs_insert v affected else affected)"
  by (simp add: closure_pass_def)

lemma closure_pass_complete:
  "(d, v) \<in> depends manifests \<Longrightarrow> d \<in> set affected \<Longrightarrow> v \<in> set (closure_pass manifests affected)"
proof (induction manifests arbitrary: affected)
  case (Cons wm manifests)
  obtain w m where [simp]: "wm = (w, m)" by (cases wm)
  let ?next = "if list_ex (\<lambda>d. d \<in> set affected) (composition_dependencies m) then bs_insert w affected else affected"
  show ?case
  proof (cases "(d, v) \<in> depends manifests")
    case True
    with Cons show ?thesis by (auto simp: closure_pass_Cons)
  next
    case False
    with Cons.prems have "v = w" "d \<in> set (composition_dependencies m)" by (auto simp: depends_def)
    with Cons.prems(2) have "v \<in> set ?next" by (auto simp: list_ex_iff)
    then have "v \<in> set (closure_pass manifests ?next)" by (rule subsetD[OF set_closure_pass(1)])
    then show ?thesis by (simp only: \<open>wm = (w, m)\<close> closure_pass_Cons)
  qed
qed (simp add: depends_def)

lemma Image_rtrancl_subset: "A \<subseteq> R\<^sup>* `` B \<Longrightarrow> R\<^sup>* `` A \<subseteq> R\<^sup>* `` B"
  by (clarsimp simp: Image_def subset_iff) (metis rtrancl_trans)

lemma closure_pass_sound: "set (closure_pass manifests affected) \<subseteq> (depends manifests)\<^sup>* `` set affected"
proof -
  have "set (closure_pass ms affected) \<subseteq> R\<^sup>* `` set affected" if "depends ms \<subseteq> R" for ms R
    using that
  proof (induction ms arbitrary: affected)
    case (Cons wm ms)
    obtain w m where [simp]: "wm = (w, m)" by (cases wm)
    let ?hit = "list_ex (\<lambda>d. d \<in> set affected) (composition_dependencies m)"
    let ?next = "if ?hit then bs_insert w affected else affected"
    have "set ?next \<subseteq> R\<^sup>* `` set affected"
    proof (cases ?hit)
      case True
      then obtain d where "d \<in> set affected" "(d, w) \<in> depends (wm # ms)" by (auto simp: list_ex_iff depends_def)
      with Cons.prems have "w \<in> R\<^sup>* `` set affected" by (metis ImageI r_into_rtrancl subsetD)
      moreover have "set affected \<subseteq> R\<^sup>* `` set affected" by blast
      ultimately show ?thesis using True by simp
    qed auto
    moreover have "set (closure_pass ms ?next) \<subseteq> R\<^sup>* `` set ?next"
      using Cons.prems by (intro Cons.IH) (auto simp: depends_def)
    ultimately have "set (closure_pass ms ?next) \<subseteq> R\<^sup>* `` set affected"
      using Image_rtrancl_subset by (metis order_trans)
    then show ?case by (simp only: \<open>wm = (w, m)\<close> closure_pass_Cons)
  qed (auto simp: closure_pass_def)
  then show ?thesis by simp
qed

lemma closure_loop_spec:
  assumes "bs_ok affected"
  shows "bs_ok (closure_loop manifests affected)
    \<and> set (closure_loop manifests affected) = (depends manifests)\<^sup>* `` set affected"
  using assms
proof (induction manifests affected rule: closure_loop.induct)
  case (1 manifests affected)
  let ?next = "closure_pass manifests affected"
  note ok = bs_ok_closure_pass[OF 1(2), of manifests]
  show ?case
  proof (cases "length ?next = length affected")
    case True
    then have "set ?next = set affected"
      using set_closure_pass(1)[of affected manifests] length_bs[OF ok] length_bs[OF 1(2)]
      by (metis List.finite_set card_subset_eq)
    moreover have "depends manifests `` set affected \<subseteq> set ?next" using closure_pass_complete by blast
    ultimately have "(depends manifests)\<^sup>* `` set affected = set ?next" by (simp add: Image_closed_trancl)
    with True ok show ?thesis by (subst (1 2) closure_loop.simps) (simp add: Let_def)
  next
    case False
    with 1 ok have IH: "bs_ok (closure_loop manifests ?next)"
        "set (closure_loop manifests ?next) = (depends manifests)\<^sup>* `` set ?next" by blast+
    have "(depends manifests)\<^sup>* `` set ?next = (depends manifests)\<^sup>* `` set affected"
    proof
      show "(depends manifests)\<^sup>* `` set ?next \<subseteq> (depends manifests)\<^sup>* `` set affected"
        by (rule Image_rtrancl_subset[OF closure_pass_sound])
    qed (use set_closure_pass(1)[of affected manifests] in blast)
    with IH False 1(2) show ?thesis by (subst (1 2) closure_loop.simps) (simp add: Let_def)
  qed
qed

lemma registered_manifests_Inr:
  assumes "registered_manifests X root fs (sn_entries s) = Inr manifests" and "bank_invariant s"
  shows "depends manifests = composed_of X root fs s"
proof -
  have fold: "bm_ok ms' \<and> (\<forall>v m. map_of ms' v = Some m \<longleftrightarrow>
      (\<exists>e \<in> set es. ie_adapter e = v \<and> authenticate_manifest X root (ie_manifest e) fs = Inr m)
      \<or> (v \<notin> ie_adapter ` set es \<and> map_of ms v = Some m))"
    if "rfold (\<lambda>e manifests. rbind (authenticate_manifest X root (ie_manifest e) fs) (\<lambda>manifest.
              Inr (bm_insert (ie_adapter e) manifest manifests))) es ms = Inr ms'" "bm_ok ms" "distinct (map ie_adapter es)"
    for es ms ms'
    using that
  proof (induction es arbitrary: ms)
    case (Cons e es)
    then obtain m where m: "authenticate_manifest X root (ie_manifest e) fs = Inr m"
        "rfold (\<lambda>e manifests. rbind (authenticate_manifest X root (ie_manifest e) fs) (\<lambda>manifest.
              Inr (bm_insert (ie_adapter e) manifest manifests))) es (bm_insert (ie_adapter e) m ms) = Inr ms'" by auto
    have fresh: "ie_adapter e \<notin> ie_adapter ` set es" "distinct (map ie_adapter es)" using Cons.prems(3) by simp_all
    from Cons.IH[OF m(2) _ fresh(2)] Cons.prems(2)
    have IH: "bm_ok ms'" "\<And>v x. map_of ms' v = Some x \<longleftrightarrow>
        (\<exists>e \<in> set es. ie_adapter e = v \<and> authenticate_manifest X root (ie_manifest e) fs = Inr x)
        \<or> (v \<notin> ie_adapter ` set es \<and> map_of (bm_insert (ie_adapter e) m ms) v = Some x)" by simp_all
    show ?case using IH(1) fresh m(1) by (auto simp: IH(2))
  qed simp
  have "distinct (map ie_adapter (sn_entries s))"
    using assms(2) by (simp add: bank_invariant_def strict_sorted_iff)
  with fold[of "sn_entries s" "[]" manifests] assms(1)
  have ok: "bm_ok manifests" and mem: "\<And>v m. map_of manifests v = Some m \<longleftrightarrow> manifest_in X root fs s v m"
    unfolding registered_manifests_def manifest_in_def by simp_all
  have "(v, m) \<in> set manifests \<longleftrightarrow> manifest_in X root fs s v m" for v m
    using map_of_eq_iff_mem[OF ok] mem by metis
  then show ?thesis by (auto simp: depends_def composed_of_def)
qed

text \<open>The versions a revocation of one version reaches.\<close>

definition dependents ::
  "('g, 'l) bank_externals \<Rightarrow> path \<Rightarrow> store \<Rightarrow> index_snapshot \<Rightarrow> adapter_version \<Rightarrow> adapter_version set" where
  "dependents X root fs s v = (composed_of X root fs s)\<^sup>* `` {v}"

lemma closure_loop_dependents:
  assumes "registered_manifests X root fs (sn_entries s) = Inr manifests" and "bank_invariant s"
  shows "set (closure_loop manifests [v]) = dependents X root fs s v" "bs_ok (closure_loop manifests [v])"
  using closure_loop_spec[of "[v]" manifests] registered_manifests_Inr[OF assms]
  by (simp_all add: dependents_def bs_ok_Cons)

lemma add_revocation_known:
  "v \<in> rv_adapter ` set rs \<Longrightarrow> add_revocation s request n v rs = Inr rs"
  by (auto simp: add_revocation_def list_ex_iff)

lemma add_revocation_fresh:
  assumes "v \<notin> rv_adapter ` set rs" and "add_revocation s request n v rs = Inr rs'"
  obtains r where "rs' = rs @ [r]" "rv_adapter r = v" "rv_root_cause r = vr_adapter request" "rv_revoked_at_revision r = n"
proof -
  from assms(1) have "\<not> list_ex (\<lambda>r. rv_adapter r = v) rs" by (auto simp: list_ex_iff)
  with assms(2) that show thesis by (auto simp: add_revocation_def)
qed

lemma add_revocations_Inr:
  "rfold (add_revocation s request n) versions revocations = Inr revocations' \<Longrightarrow> distinct versions \<Longrightarrow>
     \<exists>added. revocations' = revocations @ added
       \<and> map rv_adapter added = filter (\<lambda>v. v \<notin> rv_adapter ` set revocations) versions
       \<and> (\<forall>r \<in> set added. rv_root_cause r = vr_adapter request \<and> rv_revoked_at_revision r = n)"
proof (induction versions arbitrary: revocations)
  case (Cons v versions)
  show ?case
  proof (cases "v \<in> rv_adapter ` set revocations")
    case True
    with Cons.prems(1) have "rfold (add_revocation s request n) versions revocations = Inr revocations'"
      by (simp add: add_revocation_known)
    with Cons.IH[OF this] Cons.prems(2) True show ?thesis by simp
  next
    case False
    from Cons.prems(1) obtain rs where "add_revocation s request n v revocations = Inr rs"
        "rfold (add_revocation s request n) versions rs = Inr revocations'" by auto
    then obtain r where r: "rv_adapter r = v" "rv_root_cause r = vr_adapter request" "rv_revoked_at_revision r = n"
        "rfold (add_revocation s request n) versions (revocations @ [r]) = Inr revocations'"
      using add_revocation_fresh[OF False] by metis
    from Cons.IH[OF r(4)] Cons.prems(2) obtain added where a: "revocations' = (revocations @ [r]) @ added"
        "map rv_adapter added = filter (\<lambda>v. v \<notin> rv_adapter ` set (revocations @ [r])) versions"
        "\<forall>r \<in> set added. rv_root_cause r = vr_adapter request \<and> rv_revoked_at_revision r = n" by auto
    have "filter (\<lambda>v. v \<notin> rv_adapter ` set (revocations @ [r])) versions = filter (\<lambda>v. v \<notin> rv_adapter ` set revocations) versions"
      using Cons.prems(2) r(1) by (intro filter_cong) auto
    with a r False show ?thesis by (intro exI[of _ "r # added"]) auto
  qed
qed simp

section \<open>Effects of the operations\<close>

lemma publish_effect:
  assumes "current X root fs = Inr (s0, r0)" and "publish_snapshot X root s fs = (Inr reference, fs')"
  shows "current X root fs' = Inr (s, Some reference)" "bank_step X root fs s0 s"
    "sn_revision s = Suc (sn_revision s0)" "validate_snapshot_transition X root r0 s0 s fs = Inr ()"
proof -
  note P = publish_from_current[OF assms]
  show "current X root fs' = Inr (s, Some reference)" "sn_revision s = Suc (sn_revision s0)"
    "validate_snapshot_transition X root r0 s0 s fs = Inr ()" by (fact P)+
  from P current_invariant[OF P(2)] current_invariant[OF assms(1)] show "bank_step X root fs s0 s"
    by (auto simp: bank_step_def)
qed

lemma idempotent_commit_Inr: "idempotent_commit s r m = Inr c \<Longrightarrow> bc_idempotent c"
  by (auto simp: idempotent_commit_def commit_of_def)

lemma commit_of_simps [simp]:
  "bc_index (commit_of s index m b) = index" "bc_idempotent (commit_of s index m b) = b"
  "bc_revision (commit_of s index m b) = sn_revision s" "bc_operation (commit_of s index m b) = sn_operation s"
  by (simp_all add: commit_of_def)

lemma revocation_section_Inr:
  assumes "revocation_section X root q fs = (Inr c, fs')" and "\<not> bc_idempotent c"
  obtains s0 r0 s affected where
    "current X root fs = Inr (s0, r0)" and "check_expectation (vr_expected q) s0 r0 = Inr ()"
    and "vr_adapter q \<in> registered s0" "vr_adapter q \<notin> revoked_versions s0"
    and "current X root fs' = Inr (s, Some (bc_index c))" "bank_step X root fs s0 s" "sn_revision s = Suc (sn_revision s0)"
    and "revocation_transition s0 s (vr_adapter q) affected = Inr ()"
    and "set affected = dependents X root fs s0 (vr_adapter q)" "bc_revision c = sn_revision s"
proof -
  from assms(1) obtain s0 r0 where cur: "current X root fs = Inr (s0, r0)"
    by (auto simp: revocation_section_def io_steps)
  have live: "vr_adapter q \<notin> revoked_versions s0"
    using assms cur by (auto simp: revocation_section_def io_steps dest: idempotent_commit_Inr)
  from assms(1) cur live obtain manifests revocations reference where
      expected: "check_expectation (vr_expected q) s0 r0 = Inr ()"
    and target: "find_entry_of (sn_entries s0) (vr_adapter q) \<noteq> None"
    and manifests: "registered_manifests X root fs (sn_entries s0) = Inr manifests"
    and pub: "publish_snapshot X root (revoked_snapshot s0 (Suc (sn_revision s0)) r0 (vr_adapter q)
        (closure_loop manifests [vr_adapter q]) revocations) fs = (Inr reference, fs')"
    and c: "bc_index c = reference" "bc_revision c = Suc (sn_revision s0)"
    by (auto simp: revocation_section_def io_steps Let_def revoked_snapshot_def)
  let ?s = "revoked_snapshot s0 (Suc (sn_revision s0)) r0 (vr_adapter q) (closure_loop manifests [vr_adapter q]) revocations"
  note P = publish_effect[OF cur pub]
  have "revocation_transition s0 ?s (vr_adapter q) (closure_loop manifests [vr_adapter q]) = Inr ()"
    using P(4) by (auto simp: validate_snapshot_transition_def revoked_snapshot_def)
  moreover have "set (closure_loop manifests [vr_adapter q]) = dependents X root fs s0 (vr_adapter q)"
    using closure_loop_dependents(1)[OF manifests current_invariant[OF cur]] by simp
  moreover have "vr_adapter q \<in> registered s0"
    using target find_entry_of_None[of "sn_entries s0" "vr_adapter q"] by (auto simp: registered_def)
  ultimately show thesis
    using that[of s0 r0 ?s] cur expected live P c by simp
qed

lemma activation_section_Inr:
  assumes "activation_section X root q fs = (Inr c, fs')" and "\<not> bc_idempotent c"
  obtains s0 r0 s sel permit where
    "current X root fs = Inr (s0, Some r0)" and "check_expectation (ar_expected q) s0 (Some r0) = Inr ()"
    and "ar_adapter q \<notin> revoked_versions s0"
    and "authenticate_promotion_authorization X root (ar_authorization q) fs = Inr permit"
    and "pa_adapter permit = ar_adapter q" "pa_issued_against_index permit = r0" "pa_manifest permit = sel_manifest sel"
    and "current X root fs' = Inr (s, Some (bc_index c))" "bank_step X root fs s0 s" "sn_revision s = Suc (sn_revision s0)"
    and "sn_active s = with_selection (sn_active s0) sel" "sel_adapter sel = ar_adapter q"
    and "sel_authorization sel = ar_authorization q" "sel_activated_at_revision sel = sn_revision s"
    and "sn_entries s = sn_entries s0" "sn_revocations s = sn_revocations s0"
proof -
  from assms(1) obtain s0 r where cur: "current X root fs = Inr (s0, r)"
    by (auto simp: activation_section_def io_steps)
  have "activate_fresh X root q s0 r fs = (Inr c, fs')"
    using assms cur
    by (auto simp: activation_section_def io_steps split: option.splits if_splits dest: idempotent_commit_Inr)
  then obtain r0 entry m permit reference where
      fresh: "check_expectation (ar_expected q) s0 r = Inr ()" "r = Some r0" "ar_adapter q \<notin> revoked_versions s0"
      "find_entry_of (sn_entries s0) (ar_adapter q) = Some entry"
      "authenticate_promotion_authorization X root (ar_authorization q) fs = Inr permit"
      "pa_adapter permit = ar_adapter q" "pa_issued_against_index permit = r0" "pa_manifest permit = ie_manifest entry"
    and pub: "publish_snapshot X root (activated_snapshot s0 (Suc (sn_revision s0)) r0 entry m (ar_authorization q)) fs
        = (Inr reference, fs')"
    and c: "bc_index c = reference"
    by (auto simp: activate_fresh_def io_steps Let_def)
  note P = publish_effect[OF cur pub]
  have "ie_adapter entry = ar_adapter q" using find_entry_of_Some[OF fresh(4)] by simp
  then show thesis
    using that[of s0 r0 permit "\<lparr>sel_slot = ActivationSlot (am_receiver_model m) (am_capability_id m),
        sel_adapter = ie_adapter entry, sel_manifest = ie_manifest entry, sel_authorization = ar_authorization q,
        sel_execution_binding = \<lparr>eb_base_model_sha256 = model_sha256 (am_receiver_model m),
          eb_adapter_delta_sha256 = delta_sha256 (am_dense_delta m), eb_activation_epoch = Suc (sn_revision s0),
          eb_adaptation_abi_sha256 = am_adaptation_abi_sha256 m\<rparr>,
        sel_activated_at_revision = Suc (sn_revision s0)\<rparr>"
        "activated_snapshot s0 (Suc (sn_revision s0)) r0 entry m (ar_authorization q)"]
      cur fresh P c by (simp add: activated_snapshot_def Let_def)
qed

lemma rollback_section_Inr:
  assumes "rollback_section X root q fs = (Inr c, fs')"
  obtains s0 r0 s target where
    "current X root fs = Inr (s0, Some r0)" and "check_expectation (rr_expected q) s0 (Some r0) = Inr ()"
    and "snapshot_at_revision X root r0 (rr_target_revision q) fs = Inr target" "rr_target_revision q < sn_revision s0"
    and "rollback_permit X root q s0 r0 (find_slot (sn_active target) (ActivationSlot (rr_receiver_model q) (rr_capability_id q))) fs = Inr ()"
    and "current X root fs' = Inr (s, Some (bc_index c))" "bank_step X root fs s0 s" "sn_revision s = Suc (sn_revision s0)"
    and "sn_entries s = sn_entries s0" "sn_revocations s = sn_revocations s0"
    and "reg_active (view s) = (reg_active (view s0))
      (ActivationSlot (rr_receiver_model q) (rr_capability_id q) :=
        reg_active (view target) (ActivationSlot (rr_receiver_model q) (rr_capability_id q)))"
    and "bc_idempotent c = False"
proof -
  let ?slot = "ActivationSlot (rr_receiver_model q) (rr_capability_id q)"
  from assms obtain s0 r0 target s reference where
      cur: "current X root fs = Inr (s0, Some r0)" and expected: "check_expectation (rr_expected q) s0 (Some r0) = Inr ()"
    and target: "snapshot_at_revision X root r0 (rr_target_revision q) fs = Inr target" "rr_target_revision q < sn_revision s0"
    and permit: "rollback_permit X root q s0 r0 (find_slot (sn_active target) ?slot) fs = Inr ()"
    and s: "rolled_back_snapshot s0 (Suc (sn_revision s0)) r0 q ?slot (find_slot (sn_active s0) ?slot)
        (find_slot (sn_active target) ?slot) = Inr s"
    and pub: "publish_snapshot X root s fs = (Inr reference, fs')"
    and c: "bc_index c = reference" "bc_idempotent c = False"
    by (auto simp: rollback_section_def io_steps Let_def)
  note P = publish_effect[OF cur pub]
  have same: "sn_entries s = sn_entries s0" "sn_revocations s = sn_revocations s0" using s by (auto simp: rolled_back_snapshot_def)
  have inv: "bank_invariant s0" "bank_invariant s" using P(2) by (simp_all add: bank_step_def)
  have "reg_active (view s) = (reg_active (view s0))(?slot := reg_active (view target) ?slot)"
  proof (cases "find_slot (sn_active target) ?slot")
    case None
    with s have "sn_active s = filter (\<lambda>sel. sel_slot sel \<noteq> ?slot) (sn_active s0)" by (auto simp: rolled_back_snapshot_def)
    with inv find_slot_clear[of "sn_active s0" "sn_active s" ?slot] None show ?thesis
      by (auto simp: bank_invariant_def view_def)
  next
    case (Some a)
    from s Some obtain permit where "sn_active s = sort_key sel_slot (filter (\<lambda>sel. sel_slot sel \<noteq> ?slot) (sn_active s0) @
            [a\<lparr>sel_authorization := permit, sel_activated_at_revision := Suc (sn_revision s0),
              sel_execution_binding := (sel_execution_binding a)\<lparr>eb_activation_epoch := Suc (sn_revision s0)\<rparr>\<rparr>])"
      by (auto simp: rolled_back_snapshot_def)
    moreover have "sel_slot a = ?slot" using find_slot_Some[OF Some] by simp
    ultimately have "sn_active s = with_selection (sn_active s0) (a\<lparr>sel_authorization := permit,
        sel_activated_at_revision := Suc (sn_revision s0),
        sel_execution_binding := (sel_execution_binding a)\<lparr>eb_activation_epoch := Suc (sn_revision s0)\<rparr>\<rparr>)"
      by (simp add: with_selection_def)
    from view_with_selection(1)[OF inv this] \<open>sel_slot a = ?slot\<close> Some show ?thesis by (simp add: view_def)
  qed
  with that[of s0 r0 target s] cur expected target permit P c same show thesis by simp
qed

lemma registration_section_Inr:
  assumes "registration_section X root manifest reference expected composed fs = (Inr c, fs')" and "\<not> bc_idempotent c"
  obtains s0 r0 s where
    "current X root fs = Inr (s0, r0)" and "check_expectation expected s0 r0 = Inr ()"
    and "am_adapter manifest \<notin> registered s0" and "check_generation s0 manifest = Inr ()"
    and "\<not> list_ex (operational_duplicate X root manifest fs) (sn_entries s0)"
    and "current X root fs' = Inr (s, Some (bc_index c))" "bank_step X root fs s0 s" "sn_revision s = Suc (sn_revision s0)"
    and "set (sn_entries s) = insert (entry_from_manifest manifest reference) (set (sn_entries s0))"
    and "sn_active s = sn_active s0" "sn_revocations s = sn_revocations s0"
proof -
  from assms(1) obtain s0 r0 where cur: "current X root fs = Inr (s0, r0)"
    by (auto simp: registration_section_def io_steps)
  have new: "find_entry_of (sn_entries s0) (am_adapter manifest) = None"
    using assms cur
    by (auto simp: registration_section_def io_steps split: option.splits if_splits dest: idempotent_commit_Inr)
  from assms(1) cur new obtain index where
      facts: "check_expectation expected s0 r0 = Inr ()" "check_generation s0 manifest = Inr ()"
      "\<not> list_ex (operational_duplicate X root manifest fs) (sn_entries s0)"
    and pub: "publish_snapshot X root (registered_snapshot s0 (Suc (sn_revision s0)) r0 manifest reference composed) fs
        = (Inr index, fs')"
    and c: "bc_index c = index"
    by (auto simp: registration_section_def io_steps Let_def)
  note P = publish_effect[OF cur pub]
  have "am_adapter manifest \<notin> registered s0" using new by (simp add: find_entry_of_None registered_def)
  with that[of s0 r0 "registered_snapshot s0 (Suc (sn_revision s0)) r0 manifest reference composed"] cur facts P c
  show thesis by (simp add: registered_snapshot_def Let_def)
qed

end
