(* ===== verification/Adapter_History.thy ===== *)
theory Adapter_History
  imports Adapter_Effects
begin

text \<open>
  The verification of the whole history as a run of the abstract machine, what an authenticated
  resolution says of the current snapshot, and the case in which a revocation cannot be published.
\<close>

section \<open>The replay of the history\<close>

lemma history_walk_Inr:
  "history_walk X root fs journal r visited count cursor = Inr n \<Longrightarrow>
     0 < r \<and> n = count + r \<and> r \<le> length journal \<and> jc_index (fst (journal ! (r - 1))) = cursor"
proof (induction r arbitrary: visited count cursor n)
  case 0
  then show ?case by simp
next
  case (Suc r)
  from Suc.prems obtain j where j: "(if r < length journal then Some (journal ! r) else None) = Some j"
    by (auto simp del: option.case_eq_if)
  then have r: "r < length journal" "journal ! r = j" by (simp_all split: if_splits)
  obtain c d where [simp]: "j = (c, d)" by (cases j)
  show ?case
  proof (cases "r = 0")
    case True
    with Suc.prems r show ?thesis by (auto simp: Suc_le_eq)
  next
    case False
    with Suc.prems r obtain parent where cursor: "jc_index c = cursor"
      and rest: "history_walk X root fs journal r (insert (ref_sha256 cursor) visited) (Suc count) parent = Inr n" by auto
    from Suc.IH[OF rest] r cursor show ?thesis by simp
  qed
qed

lemma replay_step_eq_Inr:
  "replay_step X root fs c (pr, p) = Inr q \<longleftrightarrow>
     (\<exists>s. authenticate_snapshot X root (jc_index (fst c)) fs = Inr s
        \<and> validate_snapshot_transition X root pr p s fs = Inr () \<and> q = (Some (jc_index (fst c)), s))"
  by (auto simp: replay_step_def)

lemma replay_Inr:
  assumes "rfold (replay_step X root fs) journal (pr, p) = Inr (pr', p')" and "bank_invariant p"
  shows "(bank_step X root fs ^^ length journal) p p' \<and> bank_invariant p'
    \<and> (journal \<noteq> [] \<longrightarrow> authenticate_snapshot X root (jc_index (fst (last journal))) fs = Inr p')"
  using assms
proof (induction journal arbitrary: pr p)
  case (Cons c journal)
  from Cons.prems(1) obtain s where s: "authenticate_snapshot X root (jc_index (fst c)) fs = Inr s"
      "validate_snapshot_transition X root pr p s fs = Inr ()"
      "rfold (replay_step X root fs) journal (Some (jc_index (fst c)), s) = Inr (pr', p')"
    by (auto simp: replay_step_eq_Inr)
  have inv: "bank_invariant s" using snapshot_of_invariant(1)[of X root fs "Some (jc_index (fst c))" s] s(1) by simp
  have step: "bank_step X root fs p s" using s(2) inv Cons.prems(2) by (auto simp: bank_step_def)
  note IH = Cons.IH[OF s(3) inv]
  then have "(bank_step X root fs ^^ length (c # journal)) p p'" using step relpowp_Suc_I2 by (metis length_Cons)
  with IH s show ?case by (cases "journal = []") auto
qed simp

lemma current_snapshot_of: "current X root fs = Inr (s, reference) \<Longrightarrow> snapshot_of X root fs reference = Inr s"
  by (erule current_Inr)

lemma verify_history_Inr:
  assumes "verify_history X root fs = Inr status"
  obtains s reference where "current X root fs = Inr (s, reference)"
    and "(bank_step X root fs ^^ sn_revision s) empty_snapshot s"
    and "status = \<lparr>hs_revision = sn_revision s, hs_index = reference, hs_verified_revision_count = sn_revision s,
      hs_registered_adapter_count = length (sn_entries s), hs_active_adapter_count = length (sn_active s),
      hs_revoked_adapter_count = length (sn_revocations s)\<rparr>"
proof -
  from assms obtain journal s reference where cur: "current X root fs = Inr (s, reference)"
    and rest: "(case reference of
       None \<Rightarrow> Inr \<lparr>hs_revision = 0, hs_index = None, hs_verified_revision_count = 0,
                    hs_registered_adapter_count = 0, hs_active_adapter_count = 0, hs_revoked_adapter_count = 0\<rparr>
     | Some cursor \<Rightarrow>
         rbind (history_walk X root fs journal (sn_revision s) {} 0 cursor) (\<lambda>count.
         rbind (reject (count \<noteq> length journal) (Integrity ''adapter_bank_history_journal_length_mismatch'')) (\<lambda>_.
         rbind (rfold (replay_step X root fs) journal (None, empty_snapshot)) (\<lambda>_.
         Inr \<lparr>hs_revision = sn_revision s, hs_index = reference, hs_verified_revision_count = count,
              hs_registered_adapter_count = length (sn_entries s), hs_active_adapter_count = length (sn_active s),
              hs_revoked_adapter_count = length (sn_revocations s)\<rparr>)))) = Inr status"
    unfolding verify_history_def by (auto simp del: rfold.simps)
  show thesis
  proof (cases reference)
    case None
    with current_snapshot_of[OF cur] have "s = empty_snapshot" by simp
    with None rest cur that show thesis by (simp add: empty_snapshot_def)
  next
    case (Some cursor)
    from rest Some obtain q where walk: "history_walk X root fs journal (sn_revision s) {} 0 cursor = Inr (length journal)"
      and replay: "rfold (replay_step X root fs) journal (None, empty_snapshot) = Inr q"
      and status: "status = \<lparr>hs_revision = sn_revision s, hs_index = reference, hs_verified_revision_count = length journal,
              hs_registered_adapter_count = length (sn_entries s), hs_active_adapter_count = length (sn_active s),
              hs_revoked_adapter_count = length (sn_revocations s)\<rparr>"
      by auto
    obtain pr p where q: "q = (pr, p)" by (cases q)
    note W = history_walk_Inr[OF walk]
    note R = replay_Inr[OF replay[unfolded q] bank_invariant_empty]
    have "authenticate_snapshot X root cursor fs = Inr s" using current_snapshot_of[OF cur] Some by simp
    moreover have nonempty: "journal \<noteq> []" using W by auto
    moreover have "jc_index (fst (last journal)) = cursor" using W by (simp add: last_conv_nth[OF nonempty])
    ultimately have "p = s" using R by simp
    with R W status that cur show thesis by simp
  qed
qed

section \<open>Resolutions\<close>

lemma resolve_active_Inr:
  assumes "resolve_active X root request fs = Inr resolution"
  obtains s where "current X root fs = Inr (s, Some (er_index resolution))" "er_bank_revision resolution = sn_revision s"
    and "reg_active (view s) (er_slot resolution) = Some (er_adapter resolution)"
    and "er_adapter resolution \<in> registered s - revoked_versions s"
    and "er_slot resolution = ActivationSlot (rq_receiver_model request) (rq_capability_id request)"
proof -
  let ?slot = "ActivationSlot (rq_receiver_model request) (rq_capability_id request)"
  from assms obtain s index sel where cur: "current X root fs = Inr (s, Some index)"
    and sel: "find_slot (sn_active s) ?slot = Some sel"
    and r: "er_index resolution = index" "er_bank_revision resolution = sn_revision s" "er_slot resolution = ?slot"
      "er_adapter resolution = sel_adapter sel"
    by (auto simp: resolve_active_def Let_def)
  have "sel_adapter sel \<in> registered s - revoked_versions s"
    using bank_invariant_active[OF current_invariant[OF cur]] find_slot_Some[OF sel] by blast
  with that[of s] cur sel r show thesis by (simp add: view_def)
qed

lemma authentic_resolution_Inr:
  assumes "authenticate_execution_resolution X root resolution fs = Inr ()"
  obtains s where "current X root fs = Inr (s, Some (er_index resolution))" "er_bank_revision resolution = sn_revision s"
    and "reg_active (view s) (er_slot resolution) = Some (er_adapter resolution)"
    and "er_adapter resolution \<in> registered s - revoked_versions s"
proof -
  from assms obtain request where "resolve_active X root request fs = Inr resolution"
    by (auto simp: authenticate_execution_resolution_def)
  then show thesis by (rule resolve_active_Inr) (rule that)
qed

section \<open>A revocation that cannot be published\<close>

lemma windows2_any_sorted: "sorted_wrt (<) (xs :: 'a::linorder list) \<Longrightarrow> \<not> windows2_any (\<lambda>a b. b \<le> a) xs"
  by (induction xs rule: induct_list012) auto

lemma bs_ok_sorted: "bs_ok xs \<longleftrightarrow> sorted_wrt (<) xs"
  by (induction xs) (simp_all add: bs_ok_Cons)

text \<open>
  The transition check wants the versions of the operation to be exactly those that are newly
  revoked; the operation lists every dependent, also those revoked before.
\<close>

lemma revocation_transition_of_revoked:
  assumes "map rv_adapter added = filter (\<lambda>v. v \<notin> revoked_versions s) affected"
    and "bs_ok affected" "cause \<in> set affected" "v \<in> set affected" "v \<in> revoked_versions s"
  shows "revocation_transition s (revoked_snapshot s n r cause affected (sn_revocations s @ added)) cause affected
    = Inl (Integrity ''adapter_bank_revocation_delta_invalid'')"
proof -
  let ?t = "revoked_snapshot s n r cause affected (sn_revocations s @ added)"
  let ?new = "filter (\<lambda>r. r \<notin> set (sn_revocations s)) (sn_revocations ?t)"
  have t: "sn_entries ?t = sn_entries s" "set (sn_revocations ?t) = set (sn_revocations s) \<union> set added"
    by (simp_all add: revoked_snapshot_def)
  have "v \<notin> rv_adapter ` set ?new"
  proof
    assume "v \<in> rv_adapter ` set ?new"
    then have "v \<in> rv_adapter ` set added" using t(2) by auto
    also have "rv_adapter ` set added = set (filter (\<lambda>v. v \<notin> revoked_versions s) affected)"
      using assms(1) by (metis list.set_map)
    finally show False using assms(5) by simp
  qed
  with assms(4) have "map rv_adapter ?new \<noteq> affected" by (metis list.set_map)
  moreover have "list_all (\<lambda>r. r \<in> set (sn_revocations ?t)) (sn_revocations s)" using t(2) by (simp add: list_all_iff)
  moreover have "\<not> windows2_any (\<lambda>a b. b \<le> a) affected" using assms(2) by (simp add: bs_ok_sorted windows2_any_sorted)
  moreover have "affected \<noteq> []" using assms(4) by auto
  ultimately show ?thesis using assms(3) t(1) by (simp add: revocation_transition_def Let_def)
qed

lemma next_revision: "n < MAX_HISTORY_REVISIONS \<Longrightarrow> checked_add 64 n (Suc 0) = Some (Suc n)"
  by (simp add: MAX_HISTORY_REVISIONS_def)

text \<open>A refused transition leaves the store as it was.\<close>

lemma publish_refused:
  assumes "current X root fs = Inr (s0, r0)" and "sn_revision t = Suc (sn_revision s0)"
    and "sn_revision s0 < MAX_HISTORY_REVISIONS" and "sn_parent t = r0"
    and "validate_snapshot_transition X root r0 s0 t fs = Inl e"
  shows "publish_snapshot X root t fs = (Inl e, fs)"
proof (rule current_Inr[OF assms(1)])
  fix tip
  assume tip: "authenticate_revision_tip X root fs = Inr tip"
    and r0: "r0 = map_option (jc_index \<circ> fst) tip" and s0: "snapshot_of X root fs r0 = Inr s0"
    and rev: "\<And>c r. tip = Some (c, r) \<Longrightarrow> sn_revision s0 = jc_revision c" "tip = None \<Longrightarrow> sn_revision s0 = 0"
  show ?thesis
  proof (cases tip)
    case None
    with assms tip r0 s0 rev show ?thesis
      by (simp add: publish_snapshot_def io_bind_def io_read_def io_res_def successor_links_def)
  next
    case (Some cr)
    obtain c r where cr: "cr = (c, r)" by (cases cr)
    have revision: "jc_revision c = sn_revision s0" using rev(1) Some cr by simp
    from assms tip r0 s0 Some cr show ?thesis
      by (simp add: publish_snapshot_def io_bind_def io_read_def io_res_def successor_links_def revision next_revision)
  qed
qed

lemma current_manifests:
  assumes "current X root fs = Inr (s, r)"
  shows "\<exists>manifests. registered_manifests X root fs (sn_entries s) = Inr manifests"
proof -
  have auth: "\<exists>m. authenticate_manifest X root (ie_manifest e) fs = Inr m" if "e \<in> set (sn_entries s)" for e
  proof (cases r)
    case None
    with current_snapshot_of[OF assms] that show ?thesis by (auto simp: empty_snapshot_def)
  next
    case (Some r')
    with current_snapshot_of[OF assms] obtain ap where "validate_snapshot_contract X root ap s fs = Inr ()"
      by (auto elim: authenticate_snapshot_Inr)
    from validate_snapshot_contract_Inr(3)[OF this] that show ?thesis by blast
  qed
  have "\<exists>ms. rfold (\<lambda>e manifests. rbind (authenticate_manifest X root (ie_manifest e) fs) (\<lambda>manifest.
              Inr (bm_insert (ie_adapter e) manifest manifests))) (sn_entries s) [] = Inr ms \<and> True"
    by (rule rfold_total) (use auth in fastforce)+
  then show ?thesis by (simp add: registered_manifests_def)
qed

lemma dependents_registered:
  "v \<in> registered s \<Longrightarrow> dependents X root fs s v \<subseteq> registered s"
proof
  fix w
  assume "v \<in> registered s" "w \<in> dependents X root fs s v"
  then have "(v, w) \<in> (composed_of X root fs s)\<^sup>*" "v \<in> registered s" by (simp_all add: dependents_def)
  then show "w \<in> registered s"
    by (induction rule: rtrancl_induct) (auto simp: composed_of_def manifest_in_def registered_def)
qed

lemma dependents_self [simp]: "v \<in> dependents X root fs s v"
  by (simp add: dependents_def)

lemma revocation_section_of_revoked:
  assumes cur: "current X root fs = Inr (s, r)" and expected: "check_expectation (vr_expected q) s r = Inr ()"
    and target: "vr_adapter q \<in> registered s" "vr_adapter q \<notin> revoked_versions s"
    and dependent: "v \<in> dependents X root fs s (vr_adapter q)" "v \<in> revoked_versions s"
    and small: "sn_revision s < MAX_HISTORY_REVISIONS"
  shows "revocation_section X root q fs = (Inl (Integrity ''adapter_bank_revocation_delta_invalid''), fs)"
proof -
  from current_manifests[OF cur] obtain manifests where
    manifests: "registered_manifests X root fs (sn_entries s) = Inr manifests" by blast
  let ?affected = "closure_loop manifests [vr_adapter q]"
  note A = closure_loop_dependents[OF manifests current_invariant[OF cur], of "vr_adapter q"]
  have reg: "w \<in> registered s" if "w \<in> set ?affected" for w
    using dependents_registered[OF target(1)] A(1) that by (metis subsetD)
  have "\<exists>rs. rfold (add_revocation s q (Suc (sn_revision s))) ?affected (sn_revocations s) = Inr rs \<and> True"
  proof (rule rfold_total)
    fix w rs
    assume "w \<in> set ?affected"
    with reg obtain e where "find_entry_of (sn_entries s) w = Some e"
      using find_entry_of_None[of "sn_entries s" w] by (auto simp: registered_def)
    then show "\<exists>rs'. add_revocation s q (Suc (sn_revision s)) w rs = Inr rs' \<and> True" by (simp add: add_revocation_def)
  qed simp
  then obtain rs where rs: "rfold (add_revocation s q (Suc (sn_revision s))) ?affected (sn_revocations s) = Inr rs" by blast
  from add_revocations_Inr[OF rs bs_ok_distinct[OF A(2)]] obtain added where
      added: "rs = sn_revocations s @ added"
        "map rv_adapter added = filter (\<lambda>v. v \<notin> revoked_versions s) ?affected"
    by (auto simp: revoked_versions_def)
  let ?t = "revoked_snapshot s (Suc (sn_revision s)) r (vr_adapter q) ?affected rs"
  have "revocation_transition s ?t (vr_adapter q) ?affected = Inl (Integrity ''adapter_bank_revocation_delta_invalid'')"
    unfolding added(1) using added(2) A dependent by (intro revocation_transition_of_revoked) auto
  then have "validate_snapshot_transition X root r s ?t fs = Inl (Integrity ''adapter_bank_revocation_delta_invalid'')"
    by (simp add: validate_snapshot_transition_def revoked_snapshot_def next_revision[OF small])
  from publish_refused[OF cur _ small _ this]
  have "publish_snapshot X root ?t fs = (Inl (Integrity ''adapter_bank_revocation_delta_invalid''), fs)"
    by (simp add: revoked_snapshot_def)
  moreover obtain e where "find_entry_of (sn_entries s) (vr_adapter q) = Some e"
    using target(1) find_entry_of_None[of "sn_entries s" "vr_adapter q"] by (auto simp: registered_def)
  ultimately show ?thesis
    using cur expected target(2) manifests rs
    by (simp add: revocation_section_def io_bind_def io_read_def io_res_def Let_def next_revision[OF small])
qed

section \<open>Commands in any order\<close>

text \<open>
  The sections that run under the authority lock, as commands: whatever processes issue them, the
  store sees a sequence of commands.
\<close>

datatype bank_command =
    RegisterCommand adapter_manifest private_file_reference bank_expectation bool
  | ActivateCommand activation_request
  | RevokeCommand revocation_request
  | RollbackCommand rollback_request

fun run_command :: "('g, 'l) bank_externals \<Rightarrow> path \<Rightarrow> bank_command \<Rightarrow> bank_commit io" where
  "run_command X root (RegisterCommand manifest reference expected composed) =
     registration_section X root manifest reference expected composed"
| "run_command X root (ActivateCommand q) = activation_section X root q"
| "run_command X root (RevokeCommand q) = revocation_section X root q"
| "run_command X root (RollbackCommand q) = rollback_section X root q"

fun command_expectation :: "bank_command \<Rightarrow> bank_expectation" where
  "command_expectation (RegisterCommand manifest reference expected composed) = expected"
| "command_expectation (ActivateCommand q) = ar_expected q"
| "command_expectation (RevokeCommand q) = vr_expected q"
| "command_expectation (RollbackCommand q) = rr_expected q"

lemma run_command_Inr:
  assumes "run_command X root command fs = (Inr c, fs')" and "\<not> bc_idempotent c"
  obtains s0 r0 s where "current X root fs = Inr (s0, r0)"
    and "check_expectation (command_expectation command) s0 r0 = Inr ()"
    and "current X root fs' = Inr (s, Some (bc_index c))" "bank_step X root fs s0 s" "sn_revision s = Suc (sn_revision s0)"
proof (cases command)
  case (RegisterCommand manifest reference expected composed)
  with assms that show thesis by (auto elim: registration_section_Inr)
next
  case (ActivateCommand q)
  with assms that show thesis by (auto elim: activation_section_Inr)
next
  case (RevokeCommand q)
  with assms that show thesis by (auto elim: revocation_section_Inr)
next
  case (RollbackCommand q)
  with assms that show thesis by (auto elim: rollback_section_Inr)
qed

lemma run_command_stale:
  assumes "current X root fs = Inr (s, r)" and "be_revision (command_expectation command) \<noteq> sn_revision s"
  shows "snd (run_command X root command fs) = fs"
    and "case fst (run_command X root command fs) of Inl e \<Rightarrow> True | Inr c \<Rightarrow> bc_idempotent c"
proof -
  have stale: "check_expectation (command_expectation command) s r = Inl (Integrity ''adapter_bank_compare_and_swap_mismatch'')"
    using assms(2) by (simp add: check_expectation_def)
  have idem: "case idempotent_commit s r m of Inl e \<Rightarrow> True | Inr c \<Rightarrow> bc_idempotent c" for m
    by (auto split: sum.splits dest: idempotent_commit_Inr)
  have "snd (run_command X root command fs) = fs
    \<and> (case fst (run_command X root command fs) of Inl e \<Rightarrow> True | Inr c \<Rightarrow> bc_idempotent c)"
    using assms(1) stale idem
    by (cases command)
      (auto simp: registration_section_def activation_section_def activate_fresh_def revocation_section_def
        rollback_section_def io_bind_def io_read_def io_res_def Let_def split: option.splits)
  then show "snd (run_command X root command fs) = fs"
    "case fst (run_command X root command fs) of Inl e \<Rightarrow> True | Inr c \<Rightarrow> bc_idempotent c" by blast+
qed

lemma io_keeps_command: "io_keeps {head_path root} (run_command X root command)"
  by (cases command) (auto intro: keeps_intros)

end
