(* ===== verification/Adapter_Runs.thy ===== *)
theory Adapter_Runs
  imports Adapter_History
begin

text \<open>
  Runs of the adapter bank: sequences of commands that succeed, from whatever processes. Each command
  that is not a repetition is one step of the bank; a repetition leaves the store as it was.
\<close>

definition command_run :: "('g, 'l) bank_externals \<Rightarrow> path \<Rightarrow> store \<Rightarrow> store \<Rightarrow> bool" where
  "command_run X root fs fs' \<longleftrightarrow> (\<exists>command c. run_command X root command fs = (Inr c, fs'))"

lemma run_command_idempotent:
  assumes "run_command X root command fs = (Inr c, fs')" "bc_idempotent c"
  shows "fs' = fs"
  using assms
  by (cases command)
    (auto simp: registration_section_def activation_section_def activate_fresh_def revocation_section_def
      rollback_section_def io_steps Let_def split: option.splits if_splits)

lemma run_command_current:
  assumes "run_command X root command fs = (Inr c, fs')"
  obtains s r where "current X root fs = Inr (s, r)"
proof (cases "bc_idempotent c")
  case True
  with assms that show thesis
    by (cases command)
      (auto simp: registration_section_def activation_section_def revocation_section_def rollback_section_def io_steps)
next
  case False
  with assms that show thesis by (auto elim: run_command_Inr)
qed

text \<open>The steps of the bank in any of the stores a run goes through.\<close>

definition any_bank_step :: "('g, 'l) bank_externals \<Rightarrow> path \<Rightarrow> index_snapshot \<Rightarrow> index_snapshot \<Rightarrow> bool" where
  "any_bank_step X root s t \<longleftrightarrow> (\<exists>fs. bank_step X root fs s t)"

interpretation bank_run: lifecycle_refinement
  "\<lambda>b c. registry_ok b \<and> registry_step b c" reg_registered reg_revoked "\<lambda>b. ran (reg_active b)" "any_bank_step X root" view
  for X :: "('g, 'l) bank_externals" and root
  by unfold_locales (auto simp: any_bank_step_def dest: transition_refines)

lemma command_run_step:
  assumes "command_run X root fs fs'" "current X root fs = Inr (s, r)"
  obtains s' r' where "current X root fs' = Inr (s', r')" "(any_bank_step X root)\<^sup>*\<^sup>* s s'"
proof -
  from assms(1) obtain command c where run: "run_command X root command fs = (Inr c, fs')"
    by (auto simp: command_run_def)
  show thesis
  proof (cases "bc_idempotent c")
    case True
    with run_command_idempotent[OF run] assms(2) that show thesis by simp
  next
    case False
    from run_command_Inr[OF run this] obtain s' where "current X root fs' = Inr (s', Some (bc_index c))" "bank_step X root fs s s'"
      using assms(2) by (metis Inr_inject Pair_inject)
    moreover from this have "(any_bank_step X root)\<^sup>*\<^sup>* s s'" by (auto simp: any_bank_step_def intro!: r_into_rtranclp)
    ultimately show thesis by (intro that)
  qed
qed

lemma command_runs_steps:
  assumes "(command_run X root)\<^sup>*\<^sup>* fs fs'" "current X root fs = Inr (s, r)"
  shows "\<exists>s' r'. current X root fs' = Inr (s', r') \<and> (any_bank_step X root)\<^sup>*\<^sup>* s s'"
  using assms
proof (induction rule: rtranclp_induct)
  case (step fs1 fs2)
  then obtain s1 r1 where s1: "current X root fs1 = Inr (s1, r1)" "(any_bank_step X root)\<^sup>*\<^sup>* s s1" by blast
  from command_run_step[OF step.hyps(2) s1(1)] obtain s2 r2 where
      "current X root fs2 = Inr (s2, r2)" "(any_bank_step X root)\<^sup>*\<^sup>* s1 s2" .
  with s1(2) show ?case by (metis rtranclp_trans)
qed auto

lemma revoked_stay_revoked:
  assumes "(command_run X root)\<^sup>*\<^sup>* fs fs'" "current X root fs = Inr (s, r)" "current X root fs' = Inr (s', r')"
  shows "revoked_versions s \<subseteq> revoked_versions s'"
proof -
  from command_runs_steps[OF assms(1,2)] assms(3) have "(any_bank_step X root)\<^sup>*\<^sup>* s s'" by auto
  from bank_run.refined.run_grows[OF this] show ?thesis by (simp add: view_def)
qed

lemma card_of_keys: "sorted_wrt (<) (map f xs) \<Longrightarrow> card (f ` set xs) = length xs" for f :: "'a \<Rightarrow> 'k::linorder"
  by (metis distinct_card length_map list.set_map strict_sorted_iff)

lemma view_counts:
  assumes "bank_invariant s"
  shows "card (reg_registered (view s)) = length (sn_entries s)" "card (reg_revoked (view s)) = length (sn_revocations s)"
    "card (dom (reg_active (view s))) = length (sn_active s)"
proof -
  have sorted: "sorted_wrt (<) (map ie_adapter (sn_entries s))" "sorted_wrt (<) (map rv_adapter (sn_revocations s))"
    "sorted_wrt (<) (map sel_slot (sn_active s))" using assms by (simp_all add: bank_invariant_def)
  have "dom (reg_active (view s)) = sel_slot ` set (sn_active s)"
    using find_slot_None[of "sn_active s"] by (auto simp: view_def dom_def)
  then show "card (reg_registered (view s)) = length (sn_entries s)" "card (reg_revoked (view s)) = length (sn_revocations s)"
    "card (dom (reg_active (view s))) = length (sn_active s)"
    using sorted[THEN card_of_keys] by (simp_all add: view_def registered_def revoked_versions_def)
qed

end
