(* ===== verification/Adapter_Names.thy ===== *)
theory Adapter_Names
  imports Adapter_Invariants
begin

text \<open>
  The names the adapter bank writes and reads back: the file names of the revision journal, and the
  governance identity of a manifest.
\<close>

section \<open>Names of journal files\<close>

lemma parse_decimal_snoc: "parse_decimal (s @ [c]) = 10 * parse_decimal s + (of_char c - 48)"
  by (simp add: parse_decimal_def)

lemma decimal_digit: "d < 10 \<Longrightarrow> (of_char (char_of (48 + d) :: char) :: nat) = 48 + d"
  by simp

lemma parse_decimal_digits:
  assumes "k \<le> 20"
  shows "parse_decimal (map (\<lambda>i. char_of (48 + n div 10 ^ (19 - i) mod 10)) [0..<k]) = n div 10 ^ (20 - k) mod 10 ^ k"
  using assms
proof (induction k)
  case (Suc k)
  let ?q = "n div 10 ^ (19 - k)"
  have split: "?q mod 10 ^ Suc k = 10 * (?q div 10 mod 10 ^ k) + ?q mod 10"
    using mod_mult2_eq[of ?q 10 "10 ^ k"] by simp
  have "20 - k = Suc (19 - k)" using Suc.prems by simp
  then have "n div 10 ^ (20 - k) = ?q div 10" by (simp add: power_Suc2 div_mult2_eq del: power_Suc)
  moreover have "(48 + ?q mod 10) mod 256 - 48 = ?q mod 10"
  proof -
    have "?q mod 10 < 10" by simp
    then show ?thesis by (simp del: mod_less_divisor)
  qed
  ultimately show ?case using Suc split by (simp add: parse_decimal_snoc)
qed (simp add: parse_decimal_def)

lemma parse_decimal20: "n < 10 ^ 20 \<Longrightarrow> parse_decimal (decimal20 n) = n"
  unfolding decimal20_def by (subst parse_decimal_digits) simp_all

lemma decimal20_eq: "m < 10 ^ 20 \<Longrightarrow> n < 10 ^ 20 \<Longrightarrow> decimal20 m = decimal20 n \<longleftrightarrow> m = n"
  using parse_decimal20 by metis

lemma length_decimal20 [simp]: "length (decimal20 n) = 20"
  by (simp add: decimal20_def)

lemma decimal20_digits: "list_all is_ascii_digit (decimal20 n)"
proof -
  have "is_ascii_digit (char_of (48 + d mod 10))" for d :: nat
  proof -
    have "d mod 10 < 10" by simp
    then show ?thesis by (simp add: is_ascii_digit_def less_eq_char_def del: mod_less_divisor)
  qed
  then show ?thesis by (simp add: decimal20_def list_all_iff)
qed

lemma utf8_valid_ascii: "list_all (\<lambda>c. (of_char c :: nat) < 128) s \<Longrightarrow> utf8_valid s"
proof -
  have "utf8_codes_valid ns" if "\<forall>n \<in> set ns. n < 128" for ns
    using that by (induction ns) auto
  then show "list_all (\<lambda>c. (of_char c :: nat) < 128) s \<Longrightarrow> utf8_valid s"
    by (simp add: utf8_valid_def list_all_iff)
qed

text \<open>The name a commit is stored under is the name the journal reads its revision from.\<close>

lemma journal_entry_name:
  assumes "0 < n" "n \<le> MAX_HISTORY_REVISIONS"
  shows "journal_entry (Inr (decimal20 n @ ''.json'', True)) revisions = Inr (revisions @ [n])"
proof -
  have digits: "is_ascii_digit c" if "c \<in> set (decimal20 n)" for c
    using decimal20_digits that by (auto simp: list_all_iff)
  have "(of_char c :: nat) < 128" if "c \<in> set (decimal20 n)" for c
    using digits[OF that] by (simp add: is_ascii_digit_def less_eq_char_def)
  then have utf8: "utf8_valid (decimal20 n @ ''.json'')" by (intro utf8_valid_ascii) (auto simp: list_all_iff)
  obtain c rest where name: "decimal20 n = c # rest"
    using length_decimal20[of n] by (cases "decimal20 n") auto
  then have "c \<noteq> CHR ''.''" using digits[of c] by (auto simp: is_ascii_digit_def less_eq_char_def)
  with name have dot: "\<not> starts_with_text ''.'' (decimal20 n @ ''.json'')" by (simp add: starts_with_text_def)
  have "n < 10 ^ 20" using assms(2) by (simp add: MAX_HISTORY_REVISIONS_def)
  then have parse: "parse_decimal (decimal20 n) = n" by (rule parse_decimal20)
  have "n < 2 ^ 64" using assms(2) by (simp add: MAX_HISTORY_REVISIONS_def)
  with assms utf8 dot parse decimal20_digits[of n] show ?thesis
    by (simp add: journal_entry_def ends_with_text_def Let_def)
qed

section \<open>Governance identities\<close>

lemma no_double_dot: "CHR ''.'' \<notin> set s \<Longrightarrow> \<not> has_double_dot s"
  by (induction s rule: has_double_dot.induct) auto

text \<open>The identity derived from the digest of a manifest is always a valid one.\<close>

lemma governance_id_parses:
  assumes "is_valid_str d"
  shows "variant_id_parse (''adapter.manifest.'' @ d) = Inr (''adapter.manifest.'' @ d)"
proof -
  have d: "length d = 64" "list_all is_lower_hex d"
    using assms by (auto simp: is_valid_str_iff is_raw_sha256_def HEX_LEN_def)
  then have nodot: "CHR ''.'' \<notin> set d" using lower_hex_not_dot by (auto simp: list_all_iff)
  obtain c rest where c: "d = c # rest" using d(1) by (cases d) auto
  have "\<not> has_double_dot (''adapter.manifest.'' @ d)"
    using no_double_dot[OF nodot] nodot by (auto simp: c)
  moreover have "last d \<noteq> CHR ''.''" using nodot c by (metis last_in_set list.distinct(1))
  moreover have "list_all (\<lambda>b. is_ascii_alphanumeric b \<or> b \<in> {CHR ''-'', CHR ''_'', CHR ''.'', CHR '':''}) d"
    using d(2) lower_hex_alphanumeric by (auto simp: list_all_iff)
  ultimately show ?thesis
    using d(1) c by (simp add: variant_id_parse_def is_ascii_alphanumeric_def less_eq_char_def)
qed

end
