(* ===== verification/Sample_Bank.thy ===== *)
theory Sample_Bank
  imports Adapter_History Adapter_Names
begin

text \<open>
  A concrete bank for the witnesses: two imported adapters, a composition of both, and the histories
  that revoke, activate or roll back. A record is encoded as a short name, the digest of a text is
  its bytes in hexadecimal, filled up with zeros, and the authorities outside the bank accept.
\<close>

section \<open>Digests\<close>

definition hex_char :: "nat \<Rightarrow> char" where
  "hex_char n = ''0123456789abcdef'' ! (n mod 16)"

definition hex_pairs :: "string \<Rightarrow> string" where
  "hex_pairs x = concat (map (\<lambda>c. [hex_char (of_char c div 16), hex_char (of_char c)]) x)"

definition dig :: "string \<Rightarrow> digest" where
  "dig x = take 64 (hex_pairs x @ replicate 64 CHR ''0'')"

lemma sixteen: "n < 16 \<longleftrightarrow> n \<in> set [0..<16]"
  by simp

lemma hex_char_inj: "m < 16 \<Longrightarrow> n < 16 \<Longrightarrow> hex_char m = hex_char n \<longleftrightarrow> m = n"
proof -
  have "\<forall>m \<in> set [0..<16]. \<forall>n \<in> set [0..<16]. hex_char m = hex_char n \<longleftrightarrow> m = n"
    by (simp add: hex_char_def upt_rec nth_Cons')
  then show "m < 16 \<Longrightarrow> n < 16 \<Longrightarrow> hex_char m = hex_char n \<longleftrightarrow> m = n" unfolding sixteen by blast
qed

lemma hex_char_hex: "is_lower_hex (hex_char n)"
proof -
  have "\<forall>m \<in> set [0..<16]. is_lower_hex (hex_char m)"
    by (simp add: hex_char_def upt_rec nth_Cons' is_lower_hex_def is_ascii_digit_def less_eq_char_def)
  then have "is_lower_hex (hex_char (n mod 16))" unfolding sixteen[symmetric] by simp
  then show ?thesis by (simp add: hex_char_def)
qed

lemma hex_pair_inj:
  "hex_char (of_char c div 16) = hex_char (of_char d div 16) \<and> hex_char (of_char c) = hex_char (of_char d) \<longleftrightarrow> c = (d :: char)"
proof
  let ?c = "of_char c :: nat" and ?d = "of_char d :: nat"
  assume h: "hex_char (?c div 16) = hex_char (?d div 16) \<and> hex_char ?c = hex_char ?d"
  have m: "hex_char (n mod 16) = hex_char n" for n by (simp add: hex_char_def)
  have small: "?c div 16 < 16" "?d div 16 < 16" using nat_of_char_less_256[of c] nat_of_char_less_256[of d]
    by (simp_all add: less_mult_imp_div_less)
  have "?c mod 16 = ?d mod 16" using h m[of ?c] m[of ?d] hex_char_inj[of "?c mod 16" "?d mod 16"] by simp
  moreover have "?c div 16 = ?d div 16" using h hex_char_inj[OF small] by simp
  ultimately have "?c = ?d" by (metis div_mult_mod_eq)
  then show "c = d" by simp
qed simp

lemma hex_pairs_simps [simp]:
  "hex_pairs [] = []"
  "hex_pairs (c # x) = hex_char (of_char c div 16) # hex_char (of_char c) # hex_pairs x"
  by (simp_all add: hex_pairs_def)

lemma length_hex_pairs [simp]: "length (hex_pairs x) = 2 * length x"
  by (induction x) simp_all

lemma hex_pairs_inj:
  "CHR 0x00 \<notin> set x \<Longrightarrow> CHR 0x00 \<notin> set y \<Longrightarrow>
   hex_pairs x @ replicate m CHR ''0'' = hex_pairs y @ replicate n CHR ''0'' \<Longrightarrow> x = y"
proof (induction x arbitrary: y)
  case Nil
  then show ?case
  proof (cases y)
    case (Cons d y')
    with Nil have "hex_char (of_char d div 16) = CHR ''0'' \<and> hex_char (of_char d) = CHR ''0''"
      by (cases m; cases "m - 1") auto
    then have "d = CHR 0x00" using hex_pair_inj[of d "CHR 0x00"] by (simp add: hex_char_def)
    with Nil Cons show ?thesis by simp
  qed simp
next
  case (Cons c x)
  show ?case
  proof (cases y)
    case Nil
    with Cons have "hex_char (of_char c div 16) = CHR ''0'' \<and> hex_char (of_char c) = CHR ''0''"
      by (cases n; cases "n - 1") auto
    then have "c = CHR 0x00" using hex_pair_inj[of c "CHR 0x00"] by (simp add: hex_char_def)
    with Cons show ?thesis by simp
  next
    case (Cons d y')
    with Cons.prems Cons.IH[of y'] hex_pair_inj[of c d] show ?thesis by simp
  qed
qed

definition short :: "string \<Rightarrow> bool" where
  "short x \<longleftrightarrow> length x \<le> 32 \<and> CHR 0x00 \<notin> set x"

lemma dig_short: "short x \<Longrightarrow> dig x = hex_pairs x @ replicate (64 - 2 * length x) CHR ''0''"
  by (simp add: dig_def short_def min_def)

lemma dig_eq [simp]: "short x \<Longrightarrow> short y \<Longrightarrow> dig x = dig y \<longleftrightarrow> x = y"
  using hex_pairs_inj[of x y] by (auto simp: dig_short short_def)

lemma dig_valid [simp]: "is_valid_str (dig x)"
proof -
  have "list_all is_lower_hex (hex_pairs x)" by (induction x) (simp_all add: hex_char_hex)
  moreover have "list_all is_lower_hex (replicate n CHR ''0'')" for n
    using hex_char_hex[of 0] by (simp add: list_all_iff hex_char_def)
  ultimately have "list_all is_lower_hex (hex_pairs x @ replicate 64 CHR ''0'')" by simp
  then have "list_all is_lower_hex (dig x)" unfolding dig_def by (metis (no_types) list_all_append append_take_drop_id)
  moreover have "length (dig x) = 64" by (simp add: dig_def)
  ultimately show ?thesis by (simp add: is_valid_str_iff is_raw_sha256_def HEX_LEN_def)
qed

section \<open>Records\<close>

definition home :: path where
  "home = [RootDir, Normal ''b'']"

definition va :: adapter_version where "va = AdapterVersion ''a'' 1"
definition vb :: adapter_version where "vb = AdapterVersion ''b'' 1"
definition vc :: adapter_version where "vc = AdapterVersion ''c'' 1"

definition sample_model :: receiver_model_key where
  "sample_model = ReceiverModelKey ''m'' ''w''"

definition named :: "string \<Rightarrow> string \<Rightarrow> private_file_reference" where
  "named directory key = \<lparr>ref_path = by_sha home directory (dig key) ''json'', ref_sha256 = dig key\<rparr>"

definition sample_layout :: parameter_block_layout where
  "sample_layout = \<lparr>layout_schema = ''l'', layout_blocks = [], layout_total_parameter_count = 1\<rparr>"

definition sample_delta :: "string \<Rightarrow> delta_artifact_ref" where
  "sample_delta d = \<lparr>delta_path = canonical_delta_path home d, delta_sha256 = d, delta_parameter_count = 1\<rparr>"

definition sample_receipt_of :: "string \<Rightarrow> lora_receipt" where
  "sample_receipt_of d = \<lparr>lr_schema = ''tidex.lora_adapter_axis_receipt/v1'', lr_base_model_path = home,
     lr_adapter_model_path = home, lr_adapter_config_path = home, lr_base_model_sha256 = ''w'',
     lr_adapter_model_sha256 = dig ''t'', lr_adapter_config_sha256 = dig ''j'', lr_lora_rank = 1, lr_lora_alpha = 1, lr_lora_scale = 1,
     lr_use_rslora = False, lr_learned_parameter_count = 1, lr_target_tensors = [''q''], lr_target_families = [],
     lr_covered_transformer_layers = [], lr_parameter_layout = sample_layout, lr_dense_delta = sample_delta d,
     lr_source_training_semantics_attested = False, lr_authorizes_target_update_free_claim = False,
     lr_authorizes_promotion = False\<rparr>"

definition sample_blob :: "string \<Rightarrow> string \<Rightarrow> string \<Rightarrow> retained_blob" where
  "sample_blob key extension media =
     \<lparr>rb_artifact = \<lparr>ref_path = source_blob_path home (dig key) extension, ref_sha256 = dig key\<rparr>, rb_byte_len = 1, rb_media_type = media\<rparr>"

definition sample_manifest :: "adapter_version \<Rightarrow> string \<Rightarrow> string \<Rightarrow> manifest_source \<Rightarrow> adapter_manifest" where
  "sample_manifest v lineage delta source =
     \<lparr>am_schema = ''tidex.adapter_manifest/v1'', am_adapter = v, am_capability_id = ''k'', am_lineage_id = lineage,
      am_capability_bundle = Some (named ''bundles'' ''u''), am_receiver_model = sample_model, am_architecture_id = ''x'',
      am_receiver_profile = named ''profiles'' ''f'', am_parameter_topology_sha256 = ''y'', am_adaptation_abi_sha256 = ''z'',
      am_parameter_layout = \<lparr>lb_artifact = named ''layouts'' ''l'', lb_parameter_layout_sha256 = ''l'', lb_total_parameter_count = 1\<rparr>,
      am_dense_delta = sample_delta delta, am_source = source, am_candidate_only = True, am_authorizes_promotion = False\<rparr>"

definition imported_source :: "string \<Rightarrow> manifest_source" where
  "imported_source d = ImportedPeftLora (named ''imports'' (CHR ''p'' # d))
     (sample_blob ''t'' ''safetensors'' ''application/x-safetensors'') (sample_blob ''j'' ''json'' ''application/json'')"

definition ma :: adapter_manifest where "ma = sample_manifest va ''1'' ''d'' (imported_source ''d'')"
definition mb :: adapter_manifest where "mb = sample_manifest vb ''2'' ''e'' (imported_source ''e'')"

definition sample_term :: "adapter_version \<Rightarrow> string \<Rightarrow> composition_term" where
  "sample_term v key = \<lparr>ct_adapter = v, ct_manifest = named ''manifests'' key, ct_coefficient = f64_one,
     ct_coefficient_bits_hex = coefficient_bits_hex f64_one\<rparr>"

definition mc :: adapter_manifest where
  "mc = sample_manifest vc ''3'' ''g''
     (ExactDenseComposition EXACT_COMPOSITION_ARITHMETIC [sample_term va ''ma'', sample_term vb ''mb''] False False)"

definition index_ref :: "string \<Rightarrow> private_file_reference" where
  "index_ref key = named ''indexes'' key"

definition s1 :: index_snapshot where
  "s1 = registered_snapshot empty_snapshot 1 None ma (named ''manifests'' ''ma'') False"

definition s2 :: index_snapshot where
  "s2 = registered_snapshot s1 2 (Some (index_ref ''s1r'')) mb (named ''manifests'' ''mb'') False"

definition s3 :: index_snapshot where
  "s3 = registered_snapshot s2 3 (Some (index_ref ''s2r'')) mc (named ''manifests'' ''mc'') True"

definition sample_revocation :: "adapter_version \<Rightarrow> string \<Rightarrow> adapter_version \<Rightarrow> adapter_revocation" where
  "sample_revocation v key cause = \<lparr>rv_adapter = v, rv_manifest_sha256 = dig key, rv_revoked_at_revision = 4,
     rv_root_cause = cause, rv_reason = ''no'', rv_evidence = None\<rparr>"

text \<open>Version \<open>a\<close> and its dependent \<open>c\<close> are revoked; only \<open>c\<close> is revoked.\<close>

definition s4a :: index_snapshot where
  "s4a = revoked_snapshot s3 4 (Some (index_ref ''s3c'')) va [va, vc]
     [sample_revocation va ''ma'' va, sample_revocation vc ''mc'' va]"

definition s4c :: index_snapshot where
  "s4c = revoked_snapshot s3 4 (Some (index_ref ''s3c'')) vc [vc] [sample_revocation vc ''mc'' vc]"

text \<open>A permit for \<open>c\<close> and the snapshot that activates it.\<close>

definition sample_output :: path where
  "sample_output = home @ [Normal ''out'']"

definition sample_weights :: weight_receipt where
  "sample_weights = \<lparr>wr_schema = ''w'', wr_lifecycle = CandidateOnlyNotPromoted, wr_base_model_sha256 = ''w'',
     wr_base_model_byte_len = 1, wr_source_tensor_count = 1, wr_source_parameter_count = 1, wr_parameter_layout_sha256 = ''l'',
     wr_delta_sha256 = ''g'', wr_delta_parameter_count = 1, wr_modified_tensor_count = 1, wr_modified_parameter_count = 1,
     wr_output_model_sha256 = ''o'', wr_output_model_byte_len = 1, wr_dtype_policy = ''f'', wr_trains_target_capability = False,
     wr_requires_adapter_at_runtime = False, wr_authorizes_promotion = False\<rparr>"

definition sample_materialization :: candidate_materialization where
  "sample_materialization = \<lparr>cm_schema = ''tidex.adapter_candidate_materialization/v1'', cm_adapter = vc,
     cm_manifest = named ''manifests'' ''mc'', cm_capability_id = ''k'', cm_capability_bundle = Some (named ''bundles'' ''u''),
     cm_receiver_profile = named ''profiles'' ''f'', cm_observed_revision = 3, cm_observed_index = index_ref ''s3c'',
     cm_parameter_layout_sha256 = ''l'', cm_dense_delta_sha256 = ''g'', cm_output_path = sample_output,
     cm_receipt = sample_weights, cm_candidate_only = True, cm_authorizes_promotion = False\<rparr>"

definition sample_permit :: promotion_authorization where
  "sample_permit = \<lparr>pa_schema = ''tidex.adapter_promotion_authorization/v1'', pa_governed = True, pa_adapter = vc,
     pa_manifest = named ''manifests'' ''mc'', pa_capability_id = ''k'', pa_receiver_model = sample_model,
     pa_receiver_profile = named ''profiles'' ''f'', pa_parameter_layout_sha256 = ''l'', pa_dense_delta_sha256 = ''g'',
     pa_issued_against_index = index_ref ''s3c'',
     pa_evidence = \<lparr>pe_independent_execution = named ''gates'' ''g'', pe_preservation_assessment = named ''gates'' ''p'',
       pe_negative_controls = named ''gates'' ''n'', pe_materialization_receipt = named ''materializations'' ''mat''\<rparr>,
     pa_decision = governed_decision, pa_authorizes_promotion = True\<rparr>"

definition permit_ref :: private_file_reference where
  "permit_ref = named ''promotion-authorizations'' ''auth''"

definition s4x :: index_snapshot where
  "s4x = activated_snapshot s3 4 (index_ref ''s3c'') (entry_from_manifest mc (named ''manifests'' ''mc'')) mc permit_ref"

definition sample_slot :: activation_slot where
  "sample_slot = ActivationSlot sample_model ''k''"

definition s5 :: index_snapshot where
  "s5 = s4x\<lparr>sn_revision := 5, sn_parent := Some (index_ref ''s4ac''), sn_active := [],
     sn_operation := OpRollback sample_slot 3 (Some vc) None None ''no'' None\<rparr>"

section \<open>The instance\<close>

definition sample_digit :: "nat \<Rightarrow> string" where
  "sample_digit n = [''0123456789'' ! n]"

fun operation_name :: "bank_operation \<Rightarrow> string" where
  "operation_name OpEmpty = ''e''"
| "operation_name (OpRegister r) = ''r''"
| "operation_name (OpCompose r) = ''c''"
| "operation_name (OpActivate v p) = CHR ''a'' # adapter_id v"
| "operation_name (OpRevoke v vs) = CHR ''x'' # adapter_id v"
| "operation_name (OpRollback _ _ _ _ _ _ _) = ''b''"

definition index_name :: "private_file_reference \<Rightarrow> string" where
  "index_name r = (case List.find (\<lambda>k. dig k = ref_sha256 r) [''s1r'', ''s2r'', ''s3c'', ''s4xa'', ''s4xc'', ''s4ac'', ''s5b''] of
     None \<Rightarrow> [] | Some k \<Rightarrow> k)"

fun sample_encode :: "bank_record \<Rightarrow> string" where
  "sample_encode (RManifest m) = CHR ''m'' # adapter_id (am_adapter m)"
| "sample_encode (RProvenance p) = CHR ''p'' # delta_sha256 (lr_dense_delta (lp_receipt p))"
| "sample_encode (RLoraReceipt r) = ''l''"
| "sample_encode (RSnapshot s) = CHR ''s'' # sample_digit (sn_revision s) @ operation_name (sn_operation s)"
| "sample_encode (RCommit c) = CHR ''c'' # index_name (jc_index c)"
| "sample_encode (RHead h) = CHR ''h'' # index_name (bh_index h)"
| "sample_encode (RMaterialization m) = ''mat''"
| "sample_encode (RAuthorization a) = ''auth''"

definition sample_commit :: "nat \<Rightarrow> string \<Rightarrow> string option \<Rightarrow> revision_commit" where
  "sample_commit n key previous =
     \<lparr>jc_schema = ''tidex.adapter_bank_revision_commit/v1'', jc_revision = n, jc_index = index_ref key,
      jc_previous_commit = map_option (\<lambda>p. \<lparr>ref_path = revision_commit_path home (n - 1), ref_sha256 = dig (CHR ''c'' # p)\<rparr>) previous,
      jc_previous_index = map_option index_ref previous\<rparr>"

definition sample_bank_head :: "nat \<Rightarrow> string \<Rightarrow> bank_head" where
  "sample_bank_head n key = \<lparr>bh_schema = ''tidex.adapter_bank_head/v1'', bh_revision = n, bh_index = index_ref key\<rparr>"

definition sample_entries :: "(string \<times> nat \<times> string option \<times> index_snapshot) list" where
  "sample_entries = [(''s1r'', 1, None, s1), (''s2r'', 2, Some ''s1r'', s2), (''s3c'', 3, Some ''s2r'', s3),
     (''s4xa'', 4, Some ''s3c'', s4a), (''s4xc'', 4, Some ''s3c'', s4c), (''s4ac'', 4, Some ''s3c'', s4x),
     (''s5b'', 5, Some ''s4ac'', s5)]"

definition sample_journal_dir :: "store \<Rightarrow> (string \<times> bool) res list" where
  "sample_journal_dir fs = map (\<lambda>n. Inr (decimal20 n @ ''.json'', True))
     (filter (\<lambda>n. fs (revision_commit_path home n) \<noteq> None) [1, 2, 3, 4, 5])"

definition sample_profile :: receiver_profile where
  "sample_profile = \<lparr>rp_model_id = ''m'', rp_architecture_id = ''x'', rp_checkpoint_path = home, rp_checkpoint_sha256 = ''w'',
     rp_parameter_topology_sha256 = ''y'', rp_adaptation_abi_sha256 = ''z''\<rparr>"

definition sample_bank :: "(unit, unit) bank_externals" where
  "sample_bank = \<lparr>bank_sha = dig, bank_to_vec = sample_encode,
     slice_manifest = map_of [(''ma'', ma), (''mb'', mb), (''mc'', mc)],
     slice_provenance = map_of [(''pd'', \<lparr>lp_schema = ''tidex.adapter_import_provenance/v1'', lp_receipt = sample_receipt_of ''d''\<rparr>),
       (''pe'', \<lparr>lp_schema = ''tidex.adapter_import_provenance/v1'', lp_receipt = sample_receipt_of ''e''\<rparr>)],
     slice_snapshot = map_of (map (\<lambda>(k, n, p, s). (k, s)) sample_entries),
     slice_commit = map_of (map (\<lambda>(k, n, p, s). (CHR ''c'' # k, sample_commit n k p)) sample_entries),
     slice_head = map_of (map (\<lambda>(k, n, p, s). (CHR ''h'' # k, sample_bank_head n k)) sample_entries),
     slice_materialization = map_of [(''mat'', sample_materialization)],
     slice_authorization = map_of [(''auth'', sample_permit)],
     read_dir = (\<lambda>p fs. DirectoryEntries (sample_journal_dir fs)),
     outside_file = (\<lambda>p fs. Inl (Io NotFound)), canonical_directory = (\<lambda>p fs. Inr ()),
     receiver_profile_of = (\<lambda>p r fs. Inr sample_profile), live_receiver_profile = (\<lambda>p r fs. Inr sample_profile),
     layout_of = (\<lambda>p b fs. Inr sample_layout), layout_validate = (\<lambda>l. Inr ()), layout_digest = (\<lambda>l. Inr ''l''),
     layout_persist = (\<lambda>p l fs. (Inr (named ''layouts'' ''l''), fs)), verify_dvec = (\<lambda>p d fs. Inr ()),
     derive_combination = (\<lambda>p ds fs. Inr (sample_delta ''g'')), combine_dvec = (\<lambda>p ds fs. (Inr (sample_delta ''g''), fs)),
     bundle_of = (\<lambda>p r fs. Inr (''k'', RepresentationClosed)), import_axis = (\<lambda>p l fs. (Inr (sample_receipt_of ''d''), fs)),
     axis_fits_profile = (\<lambda>p r a fs. Inr ()), axis_receipt_of = (\<lambda>p r fs. Inr (sample_receipt_of ''d'')),
     materialize_checkpoint = (\<lambda>p c d l a o' fs. (Inr sample_weights, fs)), weight_receipt_valid = (\<lambda>p c l a o' r fs. Inr ()),
     gate_of = (\<lambda>p r fs. Inr ()), petfc_of = (\<lambda>p r fs. Inr ()), canary_of = (\<lambda>p r fs. Inr ()),
     witness_persist = (\<lambda>p g fs. (Inr (named ''gates'' ''g''), fs)), witnesses_promote = (\<lambda>c g p n. Inr ()), call_depth = 3\<rparr>"

text \<open>The immutable files every history shares.\<close>

definition sample_files :: store where
  "sample_files = map_of
     [(manifest_path home (dig ''ma''), ''ma''), (manifest_path home (dig ''mb''), ''mb''), (manifest_path home (dig ''mc''), ''mc''),
      (import_path home (dig ''pd''), ''pd''), (import_path home (dig ''pe''), ''pe''),
      (source_blob_path home (dig ''t'') ''safetensors'', ''t''), (source_blob_path home (dig ''j'') ''json'', ''j''),
      (sample_output, ''o''), (materialization_path home (dig ''mat''), ''mat''), (authorization_path home (dig ''auth''), ''auth'')]"

end
