(* ===== verification/Sample_Bank_Runs.thy ===== *)
theory Sample_Bank_Runs
  imports Sample_Bank
begin

text \<open>
  The sample bank evaluated: its manifests and snapshots authenticate in every store that holds their
  files, and the operations of the witnesses run from one sample history to the next.
\<close>

section \<open>Paths and reads\<close>

declare short_def [simp]

lemma home_good [simp]: "good_root home"
  by (simp add: good_root_def home_def is_absolute_def)

lemma home_confined [simp]:
  "confined home (by_sha home d k e)" "confined home (revision_commit_path home n)" "confined home (head_path home)"
  "confined home sample_output"
  by (simp_all add: confined_iff by_sha_def bank_root_def revision_commit_path_def revision_commit_root_def
      head_path_def sample_output_def)

lemma by_sha_eq [simp]:
  "by_sha home d (dig x) e = by_sha home d' (dig y) e' \<longleftrightarrow> d = d' \<and> dig x = dig y \<and> e = e'"
proof -
  have "length (dig x) = length (dig y)" by (simp add: dig_def)
  then show ?thesis by (auto simp: by_sha_def)
qed

lemma paths_differ [simp]:
  "by_sha home d k e \<noteq> revision_commit_path home n" "revision_commit_path home n \<noteq> by_sha home d k e"
  "by_sha home d k e \<noteq> head_path home" "head_path home \<noteq> by_sha home d k e"
  "head_path home \<noteq> revision_commit_path home n" "revision_commit_path home n \<noteq> head_path home"
  "sample_output \<noteq> by_sha home d k e" "by_sha home d k e \<noteq> sample_output"
  "sample_output \<noteq> revision_commit_path home n" "revision_commit_path home n \<noteq> sample_output"
  "sample_output \<noteq> head_path home" "head_path home \<noteq> sample_output"
  by (simp_all add: by_sha_def bank_root_def revision_commit_path_def revision_commit_root_def
      head_path_def sample_output_def)

lemma commit_path_eq [simp]:
  "m < 10 ^ 20 \<Longrightarrow> n < 10 ^ 20 \<Longrightarrow> revision_commit_path home m = revision_commit_path home n \<longleftrightarrow> m = n"
  by (simp add: revision_commit_path_def decimal20_eq)

lemmas path_defs = manifest_path_def import_path_def source_blob_path_def index_path_def authorization_path_def
  materialization_path_def

lemma sample_bank_simps [simp]:
  "bank_sha sample_bank = dig" "bank_to_vec sample_bank = sample_encode"
  "slice_manifest sample_bank = map_of [(''ma'', ma), (''mb'', mb), (''mc'', mc)]"
  "slice_provenance sample_bank = map_of [(''pd'', \<lparr>lp_schema = ''tidex.adapter_import_provenance/v1'', lp_receipt = sample_receipt_of ''d''\<rparr>),
     (''pe'', \<lparr>lp_schema = ''tidex.adapter_import_provenance/v1'', lp_receipt = sample_receipt_of ''e''\<rparr>)]"
  "slice_snapshot sample_bank = map_of (map (\<lambda>(k, n, p, s). (k, s)) sample_entries)"
  "slice_commit sample_bank = map_of (map (\<lambda>(k, n, p, s). (CHR ''c'' # k, sample_commit n k p)) sample_entries)"
  "slice_head sample_bank = map_of (map (\<lambda>(k, n, p, s). (CHR ''h'' # k, sample_bank_head n k)) sample_entries)"
  "slice_materialization sample_bank = map_of [(''mat'', sample_materialization)]"
  "slice_authorization sample_bank = map_of [(''auth'', sample_permit)]"
  "read_dir sample_bank p fs = DirectoryEntries (sample_journal_dir fs)"
  "canonical_directory sample_bank p fs = Inr ()"
  "receiver_profile_of sample_bank p r fs = Inr sample_profile" "live_receiver_profile sample_bank p r fs = Inr sample_profile"
  "layout_of sample_bank p b fs = Inr sample_layout" "layout_validate sample_bank l = Inr ()"
  "verify_dvec sample_bank p d fs = Inr ()" "derive_combination sample_bank p ds fs = Inr (sample_delta ''g'')"
  "bundle_of sample_bank p r fs = Inr (''k'', RepresentationClosed)"
  "weight_receipt_valid sample_bank p c l a o' w fs = Inr ()"
  "gate_of sample_bank p r fs = Inr ()" "petfc_of sample_bank p r fs = Inr ()" "canary_of sample_bank p r fs = Inr ()"
  "witnesses_promote sample_bank i g g2 g3 = Inr ()" "call_depth sample_bank = 3"
  by (simp_all add: sample_bank_def)

definition stores :: "store \<Rightarrow> private_file_reference \<Rightarrow> string \<Rightarrow> bool" where
  "stores fs r b \<longleftrightarrow> fs (ref_path r) = Some b \<and> dig b = ref_sha256 r \<and> confined home (ref_path r) \<and> length b \<le> 100"

lemma stores_read [simp]:
  assumes "stores fs r b"
  shows "read_verified_bounded dig home r MAX_BANK_JSON_BYTES fs = Inr b"
proof -
  have "is_valid_str (ref_sha256 r)" using assms dig_valid by (metis stores_def)
  with assms show ?thesis
    by (simp add: stores_def read_verified_bounded_eq verify_store_file MAX_BANK_JSON_BYTES_def)
qed

lemma stores_verify [simp]:
  assumes "stores fs r b"
  shows "ref_verify dig home r fs = Inr (ref_path r)"
proof -
  have "read_loop None (chunked PRIVATE_READ_BUFFER_BYTES b) 0 [] = Inr (length b, b)"
    using assms by (intro read_loop_store_file) (auto simp: stores_def)
  moreover have "is_valid_str (ref_sha256 r)" using assms dig_valid by (metis stores_def)
  ultimately show ?thesis using assms
    by (simp add: stores_def ref_verify_def open_private_reference_eq verify_opened_private_file_def store_file_def
        sha256_digest_parse_def)
qed

lemma stores_mutable:
  assumes "fs p = Some b" "confined home p" "length b \<le> 100"
  shows "read_mutable_bounded sample_bank home p fs = Inr b"
  using assms
  by (simp add: read_mutable_bounded_def open_private_reference_eq store_file_def concat_chunked
      PRIVATE_READ_BUFFER_BYTES_def MAX_BANK_JSON_BYTES_def saturating_add_def Let_def)

section \<open>Manifests\<close>

definition holds_files :: "store \<Rightarrow> bool" where
  "holds_files fs \<longleftrightarrow> (\<forall>p b. sample_files p = Some b \<longrightarrow> fs p = Some b)"

lemma holds_files_at:
  assumes "holds_files fs"
  shows "stores fs (named ''manifests'' ''ma'') ''ma''" "stores fs (named ''manifests'' ''mb'') ''mb''"
    "stores fs (named ''manifests'' ''mc'') ''mc''" "stores fs (named ''imports'' ''pd'') ''pd''"
    "stores fs (named ''imports'' ''pe'') ''pe''" "stores fs (rb_artifact (sample_blob ''t'' ''safetensors'' m)) ''t''"
    "stores fs (rb_artifact (sample_blob ''j'' ''json'' m)) ''j''" "stores fs (named ''materializations'' ''mat'') ''mat''"
    "stores fs permit_ref ''auth''" "fs sample_output = Some ''o''"
  using assms
  by (simp_all add: stores_def holds_files_def sample_files_def named_def sample_blob_def permit_ref_def path_defs)

lemma named_simps [simp]:
  "ref_path (named d k) = by_sha home d (dig k) ''json''" "ref_sha256 (named d k) = dig k"
  by (simp_all add: named_def)

lemma sample_provenance:
  assumes "holds_files fs"
  shows "authenticate_import_provenance sample_bank home (named ''imports'' ''pd'') fs = Inr (sample_receipt_of ''d'')"
    and "authenticate_import_provenance sample_bank home (named ''imports'' ''pe'') fs = Inr (sample_receipt_of ''e'')"
  using holds_files_at[OF assms]
  by (simp_all add: authenticate_import_provenance_def path_defs sample_receipt_of_def sample_delta_def)

lemma stores_length: "stores fs r b \<Longrightarrow> open_private_reference home (ref_path r) fs = Inr (ref_path r, store_file b)"
  by (simp add: stores_def open_private_reference_eq)

lemma sample_blobs:
  assumes "holds_files fs"
  shows "authenticate_retained_blob sample_bank home (sample_blob ''t'' ''safetensors'' m) ''safetensors'' m fs = Inr ()"
    and "authenticate_retained_blob sample_bank home (sample_blob ''j'' ''json'' m) ''json'' m fs = Inr ()"
proof -
  note at = holds_files_at(6,7)[OF assms, of m]
  have fields: "rb_byte_len (sample_blob k e m) = 1" "rb_media_type (sample_blob k e m) = m"
    "ref_path (rb_artifact (sample_blob k e m)) = source_blob_path home (ref_sha256 (rb_artifact (sample_blob k e m))) e" for k e
    by (simp_all add: sample_blob_def)
  show "authenticate_retained_blob sample_bank home (sample_blob ''t'' ''safetensors'' m) ''safetensors'' m fs = Inr ()"
    "authenticate_retained_blob sample_bank home (sample_blob ''j'' ''json'' m) ''json'' m fs = Inr ()"
    using at stores_length[OF at(1)] stores_length[OF at(2)]
    by (simp_all add: authenticate_retained_blob_def fields(1,2) fields(3)[symmetric] store_file_def)
qed

lemma manifest_fields [simp]:
  "am_adapter ma = va" "am_adapter mb = vb" "am_adapter mc = vc"
  "am_lineage_id ma = ''1''" "am_lineage_id mb = ''2''" "am_lineage_id mc = ''3''"
  "am_dense_delta ma = sample_delta ''d''" "am_dense_delta mb = sample_delta ''e''" "am_dense_delta mc = sample_delta ''g''"
  "am_source ma = imported_source ''d''" "am_source mb = imported_source ''e''"
  "am_source mc = ExactDenseComposition EXACT_COMPOSITION_ARITHMETIC [sample_term va ''ma'', sample_term vb ''mb''] False False"
  by (simp_all add: ma_def mb_def mc_def sample_manifest_def)

lemma manifest_common:
  assumes "m \<in> {ma, mb, mc}"
  shows "am_schema m = ''tidex.adapter_manifest/v1''" "am_capability_id m = ''k''" "am_receiver_model m = sample_model"
    "am_capability_bundle m = Some (named ''bundles'' ''u'')" "am_architecture_id m = ''x''"
    "am_receiver_profile m = named ''profiles'' ''f''" "am_parameter_topology_sha256 m = ''y''" "am_adaptation_abi_sha256 m = ''z''"
    "am_parameter_layout m = \<lparr>lb_artifact = named ''layouts'' ''l'', lb_parameter_layout_sha256 = ''l'', lb_total_parameter_count = 1\<rparr>"
    "am_candidate_only m" "\<not> am_authorizes_promotion m"
  using assms by (auto simp: ma_def mb_def mc_def sample_manifest_def)

lemmas manifest_commons [simp] = manifest_common[of ma, simplified] manifest_common[of mb, simplified] manifest_common[of mc, simplified]

lemma version_fields [simp]:
  "adapter_id va = ''a''" "adapter_id vb = ''b''" "adapter_id vc = ''c''" "generation va = 1" "generation vb = 1" "generation vc = 1"
  "va \<noteq> vb" "vb \<noteq> va" "va \<noteq> vc" "vc \<noteq> va" "vb \<noteq> vc" "vc \<noteq> vb" "va < vb" "vb < vc" "va < vc"
  "\<not> vb < va" "\<not> vc < vb" "\<not> vc < va" "va \<le> vb" "vb \<le> vc" "va \<le> vc" "\<not> vb \<le> va" "\<not> vc \<le> vb" "\<not> vc \<le> va"
  by (simp_all add: va_def vb_def vc_def less_adapter_version_def less_eq_adapter_version_def adapter_version_less_def adapter_version_less_eq_def)

lemma sample_imported:
  assumes "holds_files fs"
  shows "dig ''ma'' \<notin> stack \<Longrightarrow> authenticate_manifest_inner sample_bank home (Suc n) stack fs (named ''manifests'' ''ma'') = Inr ma"
    and "dig ''mb'' \<notin> stack \<Longrightarrow> authenticate_manifest_inner sample_bank home (Suc n) stack fs (named ''manifests'' ''mb'') = Inr mb"
  using holds_files_at[OF assms] sample_provenance[OF assms] sample_blobs[OF assms]
  by (simp_all add: path_defs validate_manifest_contract_def adapter_version_validate_def authenticate_bound_capability_bundle_def
      sample_profile_def sample_model_def sample_layout_def sample_delta_def imported_source_def sample_receipt_of_def sample_blob_def)

lemma sample_order: "\<not> dig ''mb'' \<le> dig ''ma''"
  by (simp add: dig_short hex_char_def less_eq_char_def less_char_def)

lemma sample_coefficient: "validate_coefficient f64_one = Inr ()"
  by (simp add: validate_coefficient_def f64_is_finite_def f64_is_zero_def f64_one_def)

lemma sample_composed:
  assumes "holds_files fs" "dig ''ma'' \<notin> stack" "dig ''mb'' \<notin> stack" "dig ''mc'' \<notin> stack"
  shows "authenticate_manifest_inner sample_bank home (Suc (Suc n)) stack fs (named ''manifests'' ''mc'') = Inr mc"
  using holds_files_at[OF assms(1)] assms(2-4)
  by (simp add: path_defs validate_manifest_contract_def adapter_version_validate_def authenticate_bound_capability_bundle_def
      sample_profile_def sample_model_def sample_layout_def sample_delta_def MAX_COMPOSITION_TERMS_def
      sample_term_def validate_composition_term_def sample_imported[OF assms(1)] sample_coefficient sample_order
      authenticate_manifest_inner.simps(2)[of sample_bank home "Suc n"]
      del: authenticate_manifest_inner.simps(2))

lemma sample_manifests:
  assumes "holds_files fs"
  shows "authenticate_manifest sample_bank home (named ''manifests'' ''ma'') fs = Inr ma"
    and "authenticate_manifest sample_bank home (named ''manifests'' ''mb'') fs = Inr mb"
    and "authenticate_manifest sample_bank home (named ''manifests'' ''mc'') fs = Inr mc"
proof -
  have depth: "Suc MAX_MANIFEST_DEPTH = Suc (Suc 255)" by (simp add: MAX_MANIFEST_DEPTH_def)
  show "authenticate_manifest sample_bank home (named ''manifests'' ''ma'') fs = Inr ma"
    "authenticate_manifest sample_bank home (named ''manifests'' ''mb'') fs = Inr mb"
    "authenticate_manifest sample_bank home (named ''manifests'' ''mc'') fs = Inr mc"
    unfolding authenticate_manifest_def depth
    by (simp_all only: sample_imported[OF assms] sample_composed[OF assms] empty_iff not_False_eq_True)
qed

section \<open>Snapshots\<close>

definition ea :: index_entry where "ea = entry_from_manifest ma (named ''manifests'' ''ma'')"
definition eb :: index_entry where "eb = entry_from_manifest mb (named ''manifests'' ''mb'')"
definition ec :: index_entry where "ec = entry_from_manifest mc (named ''manifests'' ''mc'')"

lemma entry_fields [simp]:
  "ie_adapter ea = va" "ie_adapter eb = vb" "ie_adapter ec = vc"
  "ie_lineage_id ea = ''1''" "ie_lineage_id eb = ''2''" "ie_lineage_id ec = ''3''"
  "ie_manifest ea = named ''manifests'' ''ma''" "ie_manifest eb = named ''manifests'' ''mb''" "ie_manifest ec = named ''manifests'' ''mc''"
  "ie_capability_id ea = ''k''" "ie_capability_id eb = ''k''" "ie_capability_id ec = ''k''"
  "ie_receiver_model ea = sample_model" "ie_receiver_model eb = sample_model" "ie_receiver_model ec = sample_model"
  "ie_parameter_layout_sha256 ea = ''l''" "ie_parameter_layout_sha256 eb = ''l''" "ie_parameter_layout_sha256 ec = ''l''"
  by (simp_all add: ea_def eb_def ec_def entry_from_manifest_def)

lemma entries_sorted [simp]:
  "sort_key ie_adapter [ea] = [ea]" "sort_key ie_adapter [ea, eb] = [ea, eb]" "sort_key ie_adapter [ea, eb, ec] = [ea, eb, ec]"
  by simp_all

lemma snapshot_fields [simp]:
  "sn_entries s1 = [ea]" "sn_entries s2 = [ea, eb]" "sn_entries s3 = [ea, eb, ec]" "sn_entries s4a = [ea, eb, ec]"
  "sn_entries s4c = [ea, eb, ec]" "sn_entries s4x = [ea, eb, ec]" "sn_entries s5 = [ea, eb, ec]"
  "sn_revision s1 = 1" "sn_revision s2 = 2" "sn_revision s3 = 3" "sn_revision s4a = 4" "sn_revision s4c = 4"
  "sn_revision s4x = 4" "sn_revision s5 = 5"
  "sn_parent s1 = None" "sn_parent s2 = Some (index_ref ''s1r'')" "sn_parent s3 = Some (index_ref ''s2r'')"
  "sn_parent s4a = Some (index_ref ''s3c'')" "sn_parent s4c = Some (index_ref ''s3c'')" "sn_parent s4x = Some (index_ref ''s3c'')"
  "sn_parent s5 = Some (index_ref ''s4ac'')"
  "sn_active s1 = []" "sn_active s2 = []" "sn_active s3 = []" "sn_active s4a = []" "sn_active s4c = []" "sn_active s5 = []"
  "sn_revocations s1 = []" "sn_revocations s2 = []" "sn_revocations s3 = []" "sn_revocations s4x = []" "sn_revocations s5 = []"
  "sn_operation s1 = OpRegister (named ''manifests'' ''ma'')" "sn_operation s2 = OpRegister (named ''manifests'' ''mb'')"
  "sn_operation s3 = OpCompose (named ''manifests'' ''mc'')"
  "sn_operation s4a = OpRevoke va [va, vc]" "sn_operation s4c = OpRevoke vc [vc]" "sn_operation s4x = OpActivate vc permit_ref"
  "sn_operation s5 = OpRollback sample_slot 3 (Some vc) None None ''no'' None"
  by (simp_all add: s1_def s2_def s3_def s4a_def s4c_def s4x_def s5_def registered_snapshot_def revoked_snapshot_def
      activated_snapshot_def empty_snapshot_def Let_def flip: ea_def eb_def ec_def)

lemma snapshot_schema [simp]:
  "sn_schema s1 = ''tidex.adapter_index/v1''" "sn_schema s2 = ''tidex.adapter_index/v1''" "sn_schema s3 = ''tidex.adapter_index/v1''"
  "sn_schema s4a = ''tidex.adapter_index/v1''" "sn_schema s4c = ''tidex.adapter_index/v1''" "sn_schema s4x = ''tidex.adapter_index/v1''"
  "sn_schema s5 = ''tidex.adapter_index/v1''"
  by (simp_all add: s1_def s2_def s3_def s4a_def s4c_def s4x_def s5_def registered_snapshot_def revoked_snapshot_def
      activated_snapshot_def empty_snapshot_def Let_def)

lemma projections:
  "(sn_by_capability s1, sn_by_model s1) = derived_buckets [ea]" "(sn_by_capability s2, sn_by_model s2) = derived_buckets [ea, eb]"
  "(sn_by_capability s3, sn_by_model s3) = derived_buckets [ea, eb, ec]"
  by (simp_all add: s1_def s2_def s3_def registered_snapshot_def empty_snapshot_def Let_def flip: ea_def eb_def ec_def)

lemma projections_same:
  "sn_by_capability s4a = sn_by_capability s3" "sn_by_model s4a = sn_by_model s3"
  "sn_by_capability s4c = sn_by_capability s3" "sn_by_model s4c = sn_by_model s3"
  "sn_by_capability s4x = sn_by_capability s3" "sn_by_model s4x = sn_by_model s3"
  "sn_by_capability s5 = sn_by_capability s3" "sn_by_model s5 = sn_by_model s3"
  by (simp_all add: s4a_def s4c_def s4x_def s5_def revoked_snapshot_def activated_snapshot_def Let_def)

definition selection_c :: active_selection where
  "selection_c = \<lparr>sel_slot = sample_slot, sel_adapter = vc, sel_manifest = named ''manifests'' ''mc'',
     sel_authorization = permit_ref, sel_execution_binding = \<lparr>eb_base_model_sha256 = ''w'', eb_adapter_delta_sha256 = ''g'',
       eb_activation_epoch = 4, eb_adaptation_abi_sha256 = ''z''\<rparr>, sel_activated_at_revision = 4\<rparr>"

lemma snapshot_lists [simp]:
  "sn_active s4x = [selection_c]"
  "sn_revocations s4a = [sample_revocation va ''ma'' va, sample_revocation vc ''mc'' va]"
  "sn_revocations s4c = [sample_revocation vc ''mc'' vc]"
  by (simp_all add: s4a_def s4c_def s4x_def revoked_snapshot_def activated_snapshot_def with_selection_def selection_c_def
      sample_revocation_def sample_slot_def sample_model_def sample_delta_def Let_def ec_def[symmetric])

lemma sample_entry_loop:
  assumes "holds_files fs"
  shows "rfold (snapshot_entry sample_bank home fs) [ea] (None, {}, []) = Inr (Some va, {(''1'', 1)}, [(va, ma)])"
    and "rfold (snapshot_entry sample_bank home fs) [ea, eb] (None, {}, []) = Inr (Some vb, {(''2'', 1), (''1'', 1)}, [(va, ma), (vb, mb)])"
    and "rfold (snapshot_entry sample_bank home fs) [ea, eb, ec] (None, {}, [])
      = Inr (Some vc, {(''3'', 1), (''2'', 1), (''1'', 1)}, [(va, ma), (vb, mb), (vc, mc)])"
  by (simp_all add: snapshot_entry_def adapter_version_validate_def sample_manifests[OF assms])

lemma reason_ok: "validate_reason ''no'' = Inr ()"
  by (simp add: validate_reason_def MAX_REASON_BYTES_def untrimmed_def)

lemma revocation_fields [simp]:
  "rv_adapter (sample_revocation v k c) = v" "rv_manifest_sha256 (sample_revocation v k c) = dig k"
  "rv_revoked_at_revision (sample_revocation v k c) = 4" "rv_root_cause (sample_revocation v k c) = c"
  "rv_reason (sample_revocation v k c) = ''no''" "rv_evidence (sample_revocation v k c) = None"
  by (simp_all add: sample_revocation_def)

lemma sample_dependencies [simp]:
  "composition_dependencies ma = []" "composition_dependencies mb = []" "composition_dependencies mc = [va, vb]"
  by (simp_all add: composition_dependencies_def imported_source_def sample_term_def)

lemma sample_contract:
  assumes "holds_files fs"
  shows "validate_snapshot_contract sample_bank home ap s1 fs = Inr ()" "validate_snapshot_contract sample_bank home ap s2 fs = Inr ()"
    "validate_snapshot_contract sample_bank home ap s3 fs = Inr ()" "validate_snapshot_contract sample_bank home ap s4a fs = Inr ()"
    "validate_snapshot_contract sample_bank home ap s4c fs = Inr ()" "validate_snapshot_contract sample_bank home ap s5 fs = Inr ()"
  by (simp_all add: validate_snapshot_contract_def sample_entry_loop[OF assms] projections projections_same
      snapshot_revocation_def reason_ok find_entry_of_def list_ex_iff del: rfold.simps(2))
    (simp_all add: snapshot_revocation_def reason_ok find_entry_of_def)

lemma sample_contract_active:
  assumes "holds_files fs" "ap permit_ref = Inr sample_permit"
  shows "validate_snapshot_contract sample_bank home ap s4x fs = Inr ()"
proof -
  have "snapshot_selection ap s4x [(va, ma), (vb, mb), (vc, mc)] {} selection_c None = Inr (Some sample_slot)"
    using assms(2)
    by (simp add: snapshot_selection_def selection_c_def find_entry_of_def sample_slot_def sample_model_def sample_delta_def sample_permit_def)
  then show ?thesis
    by (simp add: validate_snapshot_contract_def sample_entry_loop[OF assms(1)] projections projections_same
        del: rfold.simps(2)) (simp add: list_ex_iff)
qed

section \<open>The journal\<close>

lemma sample_encoded [simp]:
  "sample_encode (RSnapshot s1) = ''s1r''" "sample_encode (RSnapshot s2) = ''s2r''" "sample_encode (RSnapshot s3) = ''s3c''"
  "sample_encode (RSnapshot s4a) = ''s4xa''" "sample_encode (RSnapshot s4c) = ''s4xc''" "sample_encode (RSnapshot s4x) = ''s4ac''"
  "sample_encode (RSnapshot s5) = ''s5b''"
  by (simp_all add: sample_digit_def)

lemma index_ref_simps [simp]:
  "ref_path (index_ref k) = by_sha home ''indexes'' (dig k) ''json''" "ref_sha256 (index_ref k) = dig k"
  by (simp_all add: index_ref_def)

lemma index_name_simps [simp]:
  "index_name (index_ref ''s1r'') = ''s1r''" "index_name (index_ref ''s2r'') = ''s2r''" "index_name (index_ref ''s3c'') = ''s3c''"
  "index_name (index_ref ''s4xa'') = ''s4xa''" "index_name (index_ref ''s4xc'') = ''s4xc''" "index_name (index_ref ''s4ac'') = ''s4ac''"
  "index_name (index_ref ''s5b'') = ''s5b''"
  by (simp_all add: index_name_def)

text \<open>The revision a name is published at, and the name before it.\<close>

definition commit_reference :: "nat \<Rightarrow> string \<Rightarrow> private_file_reference" where
  "commit_reference n k = \<lparr>ref_path = revision_commit_path home n, ref_sha256 = dig (CHR ''c'' # k)\<rparr>"

definition journal_has :: "store \<Rightarrow> nat \<Rightarrow> string \<Rightarrow> string option \<Rightarrow> bool" where
  "journal_has fs n k p \<longleftrightarrow> fs (revision_commit_path home n) = Some (CHR ''c'' # k) \<and> stores fs (index_ref k) k"

lemma sample_snapshot:
  assumes "holds_files fs"
  shows "stores fs (index_ref ''s1r'') ''s1r'' \<Longrightarrow> authenticate_snapshot_at sample_bank home (Suc d) fs (index_ref ''s1r'') = Inr s1"
    "stores fs (index_ref ''s2r'') ''s2r'' \<Longrightarrow> authenticate_snapshot_at sample_bank home (Suc d) fs (index_ref ''s2r'') = Inr s2"
    "stores fs (index_ref ''s3c'') ''s3c'' \<Longrightarrow> authenticate_snapshot_at sample_bank home (Suc d) fs (index_ref ''s3c'') = Inr s3"
    "stores fs (index_ref ''s4xa'') ''s4xa'' \<Longrightarrow> authenticate_snapshot_at sample_bank home (Suc d) fs (index_ref ''s4xa'') = Inr s4a"
    "stores fs (index_ref ''s4xc'') ''s4xc'' \<Longrightarrow> authenticate_snapshot_at sample_bank home (Suc d) fs (index_ref ''s4xc'') = Inr s4c"
    "stores fs (index_ref ''s5b'') ''s5b'' \<Longrightarrow> authenticate_snapshot_at sample_bank home (Suc d) fs (index_ref ''s5b'') = Inr s5"
  by (simp_all add: path_defs sample_contract[OF assms] sample_entries_def del: sample_encode.simps)

lemma sample_commit_fields [simp]:
  "jc_schema (sample_commit n k p) = ''tidex.adapter_bank_revision_commit/v1''" "jc_revision (sample_commit n k p) = n"
  "jc_index (sample_commit n k p) = index_ref k"
  "jc_previous_commit (sample_commit n k p) = map_option (commit_reference (n - 1)) p"
  "jc_previous_index (sample_commit n k p) = map_option index_ref p"
  by (simp_all add: sample_commit_def) (cases p; simp add: commit_reference_def)

lemma commit_reference_fields [simp]:
  "ref_path (commit_reference n k) = revision_commit_path home n" "ref_sha256 (commit_reference n k) = dig (CHR ''c'' # k)"
  by (simp_all add: commit_reference_def)

lemma sample_read_commit:
  assumes "fs (revision_commit_path home n) = Some (CHR ''c'' # k)" "stores fs (index_ref k) k" "(k, n, p, s) \<in> set sample_entries"
  shows "read_revision_commit sample_bank home n fs = Inr (sample_commit n k p, commit_reference n k)"
proof -
  have "length k \<le> 4" using assms(3) by (auto simp: sample_entries_def)
  then have bytes: "read_mutable_bounded sample_bank home (revision_commit_path home n) fs = Inr (CHR ''c'' # k)"
    using assms(1) by (intro stores_mutable) simp_all
  have slice: "slice_commit sample_bank (CHR ''c'' # k) = Some (sample_commit n k p)"
    using assms(3) by (auto simp: sample_entries_def)
  have vec: "bank_to_vec sample_bank (RCommit (sample_commit n k p)) = CHR ''c'' # k"
    using assms(3) by (auto simp: sample_entries_def)
  have n: "0 < n" "n \<le> MAX_HISTORY_REVISIONS" "n = 1 \<longleftrightarrow> p = None"
    using assms(3) by (auto simp: sample_entries_def MAX_HISTORY_REVISIONS_def)
  note stored = stores_verify[OF assms(2)]
  have sha: "sha_reference sample_bank (revision_commit_path home n) (CHR ''c'' # k) = commit_reference n k"
    by (simp add: sha_reference_def commit_reference_def digest_bytes_def)
  obtain c where c: "c = sample_commit n k p" by simp
  have fields: "jc_schema c = ''tidex.adapter_bank_revision_commit/v1''" "jc_revision c = n" "jc_index c = index_ref k"
    "jc_previous_commit c = map_option (commit_reference (n - 1)) p" "jc_previous_index c = map_option index_ref p"
    by (simp_all add: c)
  have "read_revision_commit sample_bank home n fs = Inr (c, commit_reference n k)"
  proof (cases p)
    case None
    with n fields stored bytes sha show ?thesis
      by (simp add: read_revision_commit_def slice[folded c] vec[folded c] path_defs Let_def del: sample_bank_simps(2,6))
  next
    case (Some q)
    with n fields stored show ?thesis
      by (simp add: read_revision_commit_def bytes slice[folded c] vec[folded c] path_defs Let_def sha del: sample_bank_simps(2,6))
  qed
  then show ?thesis by (simp add: c)
qed

text \<open>
  A store with the history \<open>ks\<close>: the commits of the names in order and none after them, their
  snapshots, and the head of the last.
\<close>

definition has_history :: "store \<Rightarrow> string list \<Rightarrow> bool" where
  "has_history fs ks \<longleftrightarrow> holds_files fs
     \<and> (\<forall>n \<in> {1, 2, 3, 4, 5}. fs (revision_commit_path home n) = (if n \<le> length ks then Some (CHR ''c'' # ks ! (n - 1)) else None))
     \<and> (\<forall>k \<in> set ks. stores fs (index_ref k) k)
     \<and> fs (head_path home) = Some (CHR ''h'' # last ks)"

lemma has_history_commit:
  assumes "has_history fs ks" "n \<in> {1, 2, 3, 4, 5}"
  shows "fs (revision_commit_path home n) = (if n \<le> length ks then Some (CHR ''c'' # ks ! (n - 1)) else None)"
proof -
  have "\<forall>n \<in> {1, 2, 3, 4, 5}. fs (revision_commit_path home n) = (if n \<le> length ks then Some (CHR ''c'' # ks ! (n - 1)) else None)"
    using assms(1) unfolding has_history_def by blast
  from bspec[OF this assms(2)] show ?thesis .
qed

lemma sample_journal:
  assumes "has_history fs ks" "length ks \<in> {3, 4, 5}"
  shows "journal_revisions sample_bank home fs = Inr [1..<Suc (length ks)]"
proof -
  have names: "journal_entry (Inr (decimal20 n @ ''.json'', True)) rs = Inr (rs @ [n])" if "n \<in> {1, 2, 3, 4, 5}" for n rs
    using that by (intro journal_entry_name) (auto simp: MAX_HISTORY_REVISIONS_def)
  have revisions: "[1..<Suc (length ks)] = filter (\<lambda>n. n \<le> length ks) [1, 2, 3, 4, 5]"
  proof -
    have "\<forall>l \<in> {3, 4, 5}. [1..<Suc l] = filter (\<lambda>n. n \<le> l) [1, 2, 3, 4, 5 :: nat]" by code_simp
    from bspec[OF this assms(2)] show ?thesis .
  qed
  have "filter (\<lambda>n. fs (revision_commit_path home n) \<noteq> None) [1, 2, 3, 4, 5] = filter (\<lambda>n. n \<le> length ks) [1, 2, 3, 4, 5]"
  proof (rule filter_cong)
    fix n :: nat
    assume "n \<in> set [1, 2, 3, 4, 5]"
    then have "n \<in> {1, 2, 3, 4, 5}" by simp
    from has_history_commit[OF assms(1) this] show "fs (revision_commit_path home n) \<noteq> None \<longleftrightarrow> n \<le> length ks" by simp
  qed simp
  then have dir: "sample_journal_dir fs = map (\<lambda>n. Inr (decimal20 n @ ''.json'', True)) [1..<Suc (length ks)]"
    unfolding revisions by (simp only: sample_journal_dir_def)
  have fold: "rfold journal_entry (map (\<lambda>n. Inr (decimal20 n @ ''.json'', True)) ns) rs = Inr (rs @ ns)"
    if "set ns \<subseteq> {1, 2, 3, 4, 5}" for ns rs
    using that by (induction ns arbitrary: rs) (auto simp: names)
  have "set [1..<Suc (length ks)] \<subseteq> {1, 2, 3, 4, 5}" unfolding revisions by auto
  from fold[OF this, of "[]"] have "rfold journal_entry (sample_journal_dir fs) [] = Inr [1..<Suc (length ks)]"
    unfolding dir by simp
  moreover have "sort [1..<Suc (length ks)] = [1..<Suc (length ks)]" by (intro sorted_sort_id sorted_upt)
  ultimately show ?thesis
    using assms(2) by (auto simp: journal_revisions_def Let_def MAX_HISTORY_REVISIONS_def simp del: upt_Suc)
qed

lemma sample_history_commit:
  assumes "has_history fs ks" "n \<in> {1, 2, 3, 4, 5}" "n \<le> length ks" "(ks ! (n - 1), n, p, s) \<in> set sample_entries"
  shows "read_revision_commit sample_bank home n fs = Inr (sample_commit n (ks ! (n - 1)) p, commit_reference n (ks ! (n - 1)))"
proof (rule sample_read_commit)
  show "fs (revision_commit_path home n) = Some (CHR ''c'' # ks ! (n - 1))"
    using has_history_commit[OF assms(1,2)] assms(3) by simp
  have "ks ! (n - 1) \<in> set ks" using assms(2,3) by (intro nth_mem) auto
  then show "stores fs (index_ref (ks ! (n - 1))) (ks ! (n - 1))" using assms(1) by (simp add: has_history_def)
qed (rule assms(4))

lemma sample_tip:
  assumes "has_history fs ks" "length ks \<in> {3, 4, 5}"
    and "(last ks, length ks, Some (ks ! (length ks - 2)), s) \<in> set sample_entries"
    and "(ks ! (length ks - 2), length ks - 1, p, s') \<in> set sample_entries"
  shows "authenticate_revision_tip sample_bank home fs
    = Inr (Some (sample_commit (length ks) (last ks) (Some (ks ! (length ks - 2))), commit_reference (length ks) (last ks)))"
proof -
  have last: "last ks = ks ! (length ks - 1)" using assms(2) by (intro last_conv_nth) auto
  have range: "length ks \<in> {1, 2, 3, 4, 5}" "length ks - 1 \<in> {1, 2, 3, 4, 5}" using assms(2) by auto
  have pre: "ks ! (length ks - 1 - 1) = ks ! (length ks - 2)" by (simp add: numeral_2_eq_2)
  have "read_revision_commit sample_bank home (length ks) fs
      = Inr (sample_commit (length ks) (last ks) (Some (ks ! (length ks - 2))), commit_reference (length ks) (last ks))"
    using sample_history_commit[OF assms(1) range(1)] assms(3) unfolding last by simp
  moreover have "read_revision_commit sample_bank home (length ks - 1) fs
      = Inr (sample_commit (length ks - 1) (ks ! (length ks - 2)) p, commit_reference (length ks - 1) (ks ! (length ks - 2)))"
    using sample_history_commit[OF assms(1) range(2)] assms(4) unfolding pre by simp
  moreover have "last [1..<Suc (length ks)] = length ks" "[1..<Suc (length ks)] \<noteq> []" "1 < length ks" using assms(2) by auto
  ultimately show ?thesis
    using sample_journal[OF assms(1,2)]
    by (simp add: authenticate_revision_tip_def Let_def journal_linked_def del: upt_Suc)
qed

lemma sample_head_cache:
  assumes "has_history fs ks" "(last ks, length ks, p, s) \<in> set sample_entries"
  shows "authenticate_head_cache sample_bank home (sample_commit (length ks) (last ks) p) fs = Inr ()"
proof -
  have "length (last ks) \<le> 4" using assms(2) by (auto simp: sample_entries_def)
  then have bytes: "read_mutable_bounded sample_bank home (head_path home) fs = Inr (CHR ''h'' # last ks)"
    using assms(1) by (intro stores_mutable) (simp_all add: has_history_def)
  have slice: "slice_head sample_bank (CHR ''h'' # last ks) = Some (sample_bank_head (length ks) (last ks))"
    using assms(2) by (auto simp: sample_entries_def)
  have vec: "bank_to_vec sample_bank (RHead (sample_bank_head (length ks) (last ks))) = CHR ''h'' # last ks"
    using assms(2) by (auto simp: sample_entries_def sample_bank_head_def)
  have "0 < length ks" using assms(2) by (auto simp: sample_entries_def)
  moreover have "fs (head_path home) \<noteq> None" using assms(1) by (simp add: has_history_def)
  ultimately show ?thesis
    by (simp add: authenticate_head_cache_def existing_regular_file_eq bytes slice vec del: sample_bank_simps(2,7))
      (simp add: sample_bank_head_def)
qed

lemma sample_snapshots:
  assumes "holds_files fs"
  shows "stores fs (index_ref ''s1r'') ''s1r'' \<Longrightarrow> authenticate_snapshot sample_bank home (index_ref ''s1r'') fs = Inr s1"
    "stores fs (index_ref ''s2r'') ''s2r'' \<Longrightarrow> authenticate_snapshot sample_bank home (index_ref ''s2r'') fs = Inr s2"
    "stores fs (index_ref ''s3c'') ''s3c'' \<Longrightarrow> authenticate_snapshot sample_bank home (index_ref ''s3c'') fs = Inr s3"
    "stores fs (index_ref ''s4xa'') ''s4xa'' \<Longrightarrow> authenticate_snapshot sample_bank home (index_ref ''s4xa'') fs = Inr s4a"
    "stores fs (index_ref ''s4xc'') ''s4xc'' \<Longrightarrow> authenticate_snapshot sample_bank home (index_ref ''s4xc'') fs = Inr s4c"
    "stores fs (index_ref ''s5b'') ''s5b'' \<Longrightarrow> authenticate_snapshot sample_bank home (index_ref ''s5b'') fs = Inr s5"
proof -
  have depth: "call_depth sample_bank = Suc 2" by simp
  show "stores fs (index_ref ''s1r'') ''s1r'' \<Longrightarrow> authenticate_snapshot sample_bank home (index_ref ''s1r'') fs = Inr s1"
    "stores fs (index_ref ''s2r'') ''s2r'' \<Longrightarrow> authenticate_snapshot sample_bank home (index_ref ''s2r'') fs = Inr s2"
    "stores fs (index_ref ''s3c'') ''s3c'' \<Longrightarrow> authenticate_snapshot sample_bank home (index_ref ''s3c'') fs = Inr s3"
    "stores fs (index_ref ''s4xa'') ''s4xa'' \<Longrightarrow> authenticate_snapshot sample_bank home (index_ref ''s4xa'') fs = Inr s4a"
    "stores fs (index_ref ''s4xc'') ''s4xc'' \<Longrightarrow> authenticate_snapshot sample_bank home (index_ref ''s4xc'') fs = Inr s4c"
    "stores fs (index_ref ''s5b'') ''s5b'' \<Longrightarrow> authenticate_snapshot sample_bank home (index_ref ''s5b'') fs = Inr s5"
    unfolding authenticate_snapshot_def depth by (simp_all only: sample_snapshot[OF assms])
qed

text \<open>The permit for \<open>c\<close>, as soon as the index it was issued against is in the journal.\<close>

lemma sample_permit_authentic:
  assumes "holds_files fs" "stores fs (index_ref ''s3c'') ''s3c''" "fs (revision_commit_path home 3) = Some ''cs3c''"
    and auth: "auth (index_ref ''s3c'') = Inr s3"
  shows "promotion_authorization_authentic sample_bank home auth permit_ref fs = Inr sample_permit"
proof -
  have commit: "read_revision_commit sample_bank home 3 fs = Inr (sample_commit 3 ''s3c'' (Some ''s2r''), commit_reference 3 ''s3c'')"
    using assms by (intro sample_read_commit) (simp_all add: sample_entries_def)
  note at = holds_files_at[OF assms(1)]
  have find: "find_entry_of [ea, eb, ec] vc = Some ec" by (simp add: find_entry_of_def)
  have out: "root_relative_path home sample_output = Inr [Normal ''out'']" "home @ [Normal ''out''] = sample_output"
    by (simp_all add: root_relative_path_def sample_output_def home_def is_absolute_def)
  have opened: "open_private_reference home sample_output fs = Inr (sample_output, store_file ''o'')"
    using at(10) by (simp add: open_private_reference_eq)
  have mat: "materialization_authentic sample_bank home auth (named ''materializations'' ''mat'') fs = Inr sample_materialization"
    using at auth commit
    by (simp add: materialization_authentic_def path_defs adapter_version_validate_def sample_manifests[OF assms(1)] find
        confined_materialization_output_def authenticated_manifest_layout_def out opened sample_delta_def
        sample_materialization_def revoked_versions_def del: sample_bank_simps(6) rbind_eq_Inr)
  have candidate: "governance_candidate_id sample_bank home (named ''manifests'' ''mc'') fs = Inr (''adapter.manifest.'' @ dig ''mc'')"
    using governance_id_parses[of "dig ''mc''"] by (simp add: governance_candidate_id_def sample_manifests[OF assms(1)] del: rbind_eq_Inr)
  have decision: "promotion_decision_validate governed_decision = Inr ()"
    by (simp add: promotion_decision_validate_def governed_decision_def bm_keys_def bm_values_def f64_is_finite_def f64_one_def
        trim_is_empty_def)
  have permit: "pa_evidence sample_permit = \<lparr>pe_independent_execution = named ''gates'' ''g'', pe_preservation_assessment = named ''gates'' ''p'',
       pe_negative_controls = named ''gates'' ''n'', pe_materialization_receipt = named ''materializations'' ''mat''\<rparr>"
    "pa_issued_against_index sample_permit = index_ref ''s3c''" "pa_manifest sample_permit = named ''manifests'' ''mc''"
    "pa_decision sample_permit = governed_decision"
    by (simp_all add: sample_permit_def)
  show ?thesis
    using at(9) assms(2)
    by (simp add: promotion_authorization_authentic_def path_defs mat candidate decision permit sample_manifests[OF assms(1)]
        require_promotable_capability_bundle_def authenticate_bound_capability_bundle_def
        sample_materialization_def sample_delta_def del: rbind_eq_Inr)
      (simp add: sample_permit_def permit_ref_def governed_decision_def del: rbind_eq_Inr)
qed

lemma sample_active_snapshot:
  assumes "holds_files fs" "stores fs (index_ref ''s3c'') ''s3c''" "fs (revision_commit_path home 3) = Some ''cs3c''"
    and "stores fs (index_ref ''s4ac'') ''s4ac''"
  shows "authenticate_snapshot sample_bank home (index_ref ''s4ac'') fs = Inr s4x"
proof -
  have "promotion_authorization_authentic sample_bank home (authenticate_snapshot_at sample_bank home (Suc 1) fs) permit_ref fs = Inr sample_permit"
    using assms by (intro sample_permit_authentic sample_snapshot)
  then have "validate_snapshot_contract sample_bank home (\<lambda>permit.
      promotion_authorization_authentic sample_bank home (authenticate_snapshot_at sample_bank home (Suc 1) fs) permit fs) s4x fs = Inr ()"
    by (intro sample_contract_active[OF assms(1)])
  then have "authenticate_snapshot_at sample_bank home (Suc (Suc 1)) fs (index_ref ''s4ac'') = Inr s4x"
    using assms(4) authenticate_snapshot_at.simps(2)[of sample_bank home "Suc 1" fs "index_ref ''s4ac''"]
    by (simp add: path_defs sample_entries_def del: sample_encode.simps authenticate_snapshot_at.simps)
  moreover have "call_depth sample_bank = Suc (Suc 1)" by simp
  ultimately show ?thesis by (simp only: authenticate_snapshot_def)
qed

section \<open>The histories\<close>

lemma selection_fields [simp]:
  "sel_slot selection_c = sample_slot" "sel_adapter selection_c = vc" "sel_manifest selection_c = named ''manifests'' ''mc''"
  "sel_authorization selection_c = permit_ref" "sel_activated_at_revision selection_c = 4"
  "eb_activation_epoch (sel_execution_binding selection_c) = 4"
  by (simp_all add: selection_c_def)

lemma sample_transitions:
  assumes "holds_files fs"
  shows "validate_snapshot_transition sample_bank home None empty_snapshot s1 fs = Inr ()"
    "validate_snapshot_transition sample_bank home (Some (index_ref ''s1r'')) s1 s2 fs = Inr ()"
    "validate_snapshot_transition sample_bank home (Some (index_ref ''s2r'')) s2 s3 fs = Inr ()"
    "validate_snapshot_transition sample_bank home (Some (index_ref ''s3c'')) s3 s4a fs = Inr ()"
    "validate_snapshot_transition sample_bank home (Some (index_ref ''s3c'')) s3 s4c fs = Inr ()"
    "validate_snapshot_transition sample_bank home (Some (index_ref ''s3c'')) s3 s4x fs = Inr ()"
  by (simp_all add: validate_snapshot_transition_def registration_transition_def revocation_transition_def
      activation_transition_def sample_manifests[OF assms] imported_source_def find_entry_of_def find_slot_def
      with_selection_def sample_slot_def Let_def empty_snapshot_def flip: ea_def eb_def ec_def)

lemma sample_rollback_transition:
  assumes "read_revision_commit sample_bank home 3 fs = Inr (sample_commit 3 ''s3c'' p, r)"
    and "authenticate_snapshot sample_bank home (index_ref ''s3c'') fs = Inr s3"
  shows "validate_snapshot_transition sample_bank home (Some (index_ref ''s4ac'')) s4x s5 fs = Inr ()"
  using assms by (simp add: validate_snapshot_transition_def rollback_transition_def find_slot_def Let_def)

lemma has_history_files:
  assumes "has_history fs ks"
  shows "holds_files fs" and "k \<in> set ks \<Longrightarrow> stores fs (index_ref k) k"
  using assms by (simp_all add: has_history_def)

definition h3 :: "string list" where
  "h3 = [''s1r'', ''s2r'', ''s3c'']"

lemma sample_current3:
  assumes "has_history fs h3"
  shows "current sample_bank home fs = Inr (s3, Some (index_ref ''s3c''))"
proof -
  note files = has_history_files[OF assms]
  have at: "stores fs (index_ref ''s2r'') ''s2r''" "stores fs (index_ref ''s3c'') ''s3c''" by (auto intro!: files(2) simp: h3_def)
  note tip = sample_tip[OF assms, of s3 "Some ''s1r''" s2]
  note head = sample_head_cache[OF assms, of "Some ''s2r''" s3]
  note snaps = sample_snapshots[OF files(1)] and trans = sample_transitions[OF files(1)]
  show ?thesis
    using tip head snaps(2,3) trans(3) at
    by (simp add: current_def h3_def sample_entries_def del: rbind_eq_Inr)
qed

lemma sample_current4:
  assumes "has_history fs (h3 @ [k])" and "(k, s) \<in> {(''s4xa'', s4a), (''s4xc'', s4c), (''s4ac'', s4x)}"
  shows "current sample_bank home fs = Inr (s, Some (index_ref k))"
proof -
  note files = has_history_files[OF assms(1)]
  have at: "stores fs (index_ref ''s3c'') ''s3c''" "stores fs (index_ref k) k" by (auto intro!: files(2) simp: h3_def)
  have commit: "fs (revision_commit_path home 3) = Some ''cs3c''"
    using has_history_commit[OF assms(1), of 3] by (simp add: h3_def)
  have entry: "(k, 4, Some ''s3c'', s) \<in> set sample_entries" using assms(2) by (auto simp: sample_entries_def)
  have parent: "authenticate_snapshot sample_bank home (index_ref ''s3c'') fs = Inr s3" using sample_snapshots(3)[OF files(1) at(1)] .
  have snap: "authenticate_snapshot sample_bank home (index_ref k) fs = Inr s"
    using assms(2) at(2) sample_snapshots[OF files(1)] sample_active_snapshot[OF files(1) at(1) commit] by auto
  have trans: "validate_snapshot_transition sample_bank home (Some (index_ref ''s3c'')) s3 s fs = Inr ()"
    using assms(2) sample_transitions[OF files(1)] by auto
  have links: "sn_revision s = 4" "sn_parent s = Some (index_ref ''s3c'')" using assms(2) by auto
  note tip = sample_tip[OF assms(1), of s "Some ''s2r''" s3]
  note head = sample_head_cache[OF assms(1), of "Some ''s3c''" s]
  show ?thesis
    using tip head entry snap parent trans links
    by (simp add: current_def h3_def sample_entries_def del: rbind_eq_Inr)
qed

section \<open>Publishing the next snapshot\<close>

lemma sample_files_other:
  "sample_files (by_sha home ''indexes'' k e) = None" "sample_files (revision_commit_path home n) = None"
  "sample_files (head_path home) = None"
  by (simp_all add: sample_files_def path_defs) (simp_all add: by_sha_def)

lemma holds_files_update:
  "holds_files fs \<Longrightarrow> sample_files p = None \<Longrightarrow> holds_files (fs(p \<mapsto> b))"
  by (auto simp: holds_files_def)

lemma stores_update: "stores fs r b \<Longrightarrow> ref_path r \<noteq> p \<Longrightarrow> stores (fs(p \<mapsto> c)) r b"
  by (simp add: stores_def)

definition published_index :: "string \<Rightarrow> store \<Rightarrow> store" where
  "published_index k fs = fs(by_sha home ''indexes'' (dig k) ''json'' \<mapsto> k)"

definition published_store :: "nat \<Rightarrow> string \<Rightarrow> store \<Rightarrow> store" where
  "published_store n k fs = (published_index k fs)(revision_commit_path home n \<mapsto> CHR ''c'' # k, head_path home \<mapsto> CHR ''h'' # k)"

lemma published_index_holds:
  assumes "has_history fs ks" "short k" "\<forall>k' \<in> set ks. short k'"
  shows "holds_files (published_index k fs)" "stores (published_index k fs) (index_ref k) k"
    "k' \<in> set ks \<Longrightarrow> stores (published_index k fs) (index_ref k') k'"
    "published_index k fs (revision_commit_path home n) = fs (revision_commit_path home n)"
proof -
  note files = has_history_files[OF assms(1)]
  show "holds_files (published_index k fs)"
    unfolding published_index_def by (rule holds_files_update[OF files(1)]) (rule sample_files_other)
  show stored: "stores (published_index k fs) (index_ref k) k"
    using assms(2) by (simp add: stores_def published_index_def)
  show "stores (published_index k fs) (index_ref k') k'" if "k' \<in> set ks"
  proof (cases "k' = k")
    case False
    with that assms files(2)[OF that] show ?thesis by (simp add: stores_def published_index_def)
  qed (use stored in simp)
  show "published_index k fs (revision_commit_path home n) = fs (revision_commit_path home n)"
    by (simp add: published_index_def)
qed

lemma published_history:
  assumes "has_history fs ks" "short k" "\<forall>k' \<in> set ks. short k'" "length ks < 5"
  shows "has_history (published_store (Suc (length ks)) k fs) (ks @ [k])"
proof -
  let ?fs = "published_store (Suc (length ks)) k fs"
  note P = published_index_holds[OF assms(1-3)]
  have "holds_files ?fs"
    unfolding published_store_def by (intro holds_files_update P(1) sample_files_other)
  moreover have "\<forall>n \<in> {1, 2, 3, 4, 5}. ?fs (revision_commit_path home n)
      = (if n \<le> length (ks @ [k]) then Some (CHR ''c'' # (ks @ [k]) ! (n - 1)) else None)"
  proof
    fix n :: nat
    assume n: "n \<in> {1, 2, 3, 4, 5}"
    then have "n < 10 ^ 20" "0 < n" by auto
    moreover have "Suc (length ks) < 10 ^ 20" using assms(4) by simp
    ultimately have "?fs (revision_commit_path home n) = (if n = Suc (length ks) then Some (CHR ''c'' # k)
        else fs (revision_commit_path home n))"
      by (simp add: published_store_def P(4))
    with has_history_commit[OF assms(1) n] \<open>0 < n\<close> show "?fs (revision_commit_path home n)
        = (if n \<le> length (ks @ [k]) then Some (CHR ''c'' # (ks @ [k]) ! (n - 1)) else None)"
      by (auto simp: nth_append)
  qed
  moreover have "\<forall>k' \<in> set (ks @ [k]). stores ?fs (index_ref k') k'"
    using P(2,3) by (auto simp: published_store_def intro!: stores_update)
  moreover have "?fs (head_path home) = Some (CHR ''h'' # last (ks @ [k]))" by (simp add: published_store_def)
  ultimately show ?thesis by (simp only: has_history_def)
qed

lemma sample_persist:
  assumes "confined home p" "fs p = None"
  shows "persist_bytes sample_bank home p bytes code fs = (Inr \<lparr>ref_path = p, ref_sha256 = dig bytes\<rparr>, fs(p \<mapsto> bytes))"
  using assms
  by (simp add: persist_bytes_def io_bind_def io_res_def write_or_verify_eq digest_bytes_def sha_reference_def)

lemma sample_replace:
  "replace_private_file_atomic dig home (head_path home) bytes (Some (dig bytes)) fs = (Inr (dig bytes), fs(head_path home \<mapsto> bytes))"
proof -
  obtain relative where "root_relative_path home (head_path home) = Inr relative"
    using home_confined(3) by (auto simp: confined_def)
  then show ?thesis
    by (simp add: replace_private_file_atomic_def existing_regular_file_eq io_bind_def io_read_def io_res_def
        digest_bytes_def root_relative_path_join Let_def)
qed

lemma sample_bank_publish:
  assumes hist: "has_history fs ks" "\<forall>k' \<in> set ks. short k'"
    and entries: "(last ks, length ks, Some (ks ! (length ks - 2)), s0) \<in> set sample_entries"
      "(ks ! (length ks - 2), length ks - 1, p, s') \<in> set sample_entries"
      "(k, Suc (length ks), Some (last ks), s) \<in> set sample_entries"
    and size: "length ks \<in> {3, 4}" and fresh: "fs (by_sha home ''indexes'' (dig k) ''json'') = None"
    and ok: "validate_snapshot_contract sample_bank home (\<lambda>permit. authenticate_promotion_authorization sample_bank home permit fs) s fs = Inr ()"
      "authenticate_snapshot sample_bank home (index_ref (last ks)) fs = Inr s0"
      "validate_snapshot_transition sample_bank home (Some (index_ref (last ks))) s0 s fs = Inr ()"
      "authenticate_snapshot sample_bank home (index_ref k) (published_index k fs) = Inr s"
      "current sample_bank home (published_store (Suc (length ks)) k fs) = Inr (s, Some (index_ref k))"
    and fields: "sn_revision s = Suc (length ks)" "sn_parent s = Some (index_ref (last ks))"
  shows "publish_snapshot sample_bank home s fs = (Inr (index_ref k), published_store (Suc (length ks)) k fs)"
proof -
  let ?n = "Suc (length ks)"
  let ?c = "sample_commit ?n k (Some (last ks))"
  let ?fs1 = "published_index k fs"
  let ?fs2 = "?fs1(revision_commit_path home ?n \<mapsto> CHR ''c'' # k)"
  have tip: "authenticate_revision_tip sample_bank home fs
      = Inr (Some (sample_commit (length ks) (last ks) (Some (ks ! (length ks - 2))), commit_reference (length ks) (last ks)))"
    using sample_tip[OF hist(1) _ entries(1,2)] size by auto
  have names: "sample_encode (RSnapshot s) = k" "index_name (index_ref k) = k" "short k"
    using entries(3) by (auto simp: sample_entries_def sample_digit_def)
  have encoded: "sample_encode (RCommit ?c) = CHR ''c'' # k" "sample_encode (RHead (sample_bank_head ?n k)) = CHR ''h'' # k"
    using names(2) by (simp_all add: sample_bank_head_def)
  note P = published_index_holds[OF hist(1) names(3) hist(2)]
  have index: "\<lparr>ref_path = by_sha home ''indexes'' (dig k) ''json'', ref_sha256 = dig k\<rparr> = index_ref k"
    by (simp add: index_ref_def named_def)
  have persist: "persist_snapshot sample_bank home s fs = (Inr (index_ref k), ?fs1)"
    using fresh ok(1,4) names(1)
    by (simp add: persist_snapshot_def sample_persist index path_defs digest_bytes_def io_bind_def io_read_def io_res_def
        Let_def published_index_def[symmetric] del: sample_encode.simps)
  have free: "?fs1 (revision_commit_path home ?n) = None"
    using has_history_commit[OF hist(1), of ?n] size by (auto simp: P(4))
  have "stores ?fs2 (index_ref k) k" using P(2) by (rule stores_update) simp
  from sample_read_commit[OF _ this entries(3)]
  have read: "read_revision_commit sample_bank home ?n ?fs2 = Inr (?c, commit_reference ?n k)" by simp
  have commit: "persist_revision_commit sample_bank home ?c ?fs1 = (Inr (commit_reference ?n k), ?fs2)"
    using free read
    by (simp add: persist_revision_commit_def sample_persist encoded commit_reference_def io_bind_def io_read_def io_res_def Let_def
        del: sample_encode.simps)
  have store: "?fs2(head_path home \<mapsto> CHR ''h'' # k) = published_store ?n k fs" by (simp add: published_store_def)
  have commit_record: "\<lparr>jc_schema = ''tidex.adapter_bank_revision_commit/v1'', jc_revision = ?n, jc_index = index_ref k,
      jc_previous_commit = Some (commit_reference (length ks) (last ks)), jc_previous_index = Some (index_ref (last ks))\<rparr> = ?c"
    by (simp add: sample_commit_def commit_reference_def)
  have head: "\<lparr>bh_schema = ''tidex.adapter_bank_head/v1'', bh_revision = ?n, bh_index = index_ref k\<rparr> = sample_bank_head ?n k"
    by (simp add: sample_bank_head_def)
  have small: "length ks < MAX_HISTORY_REVISIONS" using size by (auto simp: MAX_HISTORY_REVISIONS_def)
  show ?thesis
    using small ok(2,3,5) fields
    by (simp add: publish_snapshot_def tip successor_links_def next_revision persist commit commit_record head encoded digest_bytes_def
        sample_replace store io_bind_def io_read_def io_res_def Let_def del: sample_encode.simps)
qed

end
