(* ===== verification/Sample_Bank_Stores.thy ===== *)
theory Sample_Bank_Stores
  imports Sample_Bank_Runs
begin

text \<open>
  The stores of the witnesses: the bank with its three versions, the successors that revoke or
  activate, and a rollback. Each is what the operation of the bank returns in the one before.
\<close>

section \<open>Stores\<close>

definition store3 :: store where
  "store3 = published_store 3 ''s3c'' (published_store 2 ''s2r'' (published_store 1 ''s1r'' sample_files))"

definition store4 :: "string \<Rightarrow> store" where
  "store4 k = published_store 4 k store3"

definition store5 :: store where
  "store5 = published_store 5 ''s5b'' (store4 ''s4ac'')"

lemma published_store_keeps:
  "holds_files fs \<Longrightarrow> holds_files (published_store n k fs)"
  unfolding published_store_def published_index_def by (intro holds_files_update) (simp_all add: sample_files_other)

lemma published_store_other:
  "p \<noteq> by_sha home ''indexes'' (dig k) ''json'' \<Longrightarrow> p \<noteq> revision_commit_path home n \<Longrightarrow> p \<noteq> head_path home \<Longrightarrow>
   published_store n k fs p = fs p"
  by (simp add: published_store_def published_index_def)

lemma published_store_at:
  "published_store n k fs (by_sha home ''indexes'' (dig k) ''json'') = Some k"
  "published_store n k fs (revision_commit_path home n) = Some (CHR ''c'' # k)"
  "published_store n k fs (head_path home) = Some (CHR ''h'' # k)"
  by (simp_all add: published_store_def published_index_def)

lemma history3: "has_history store3 h3"
  unfolding has_history_def
proof (intro conjI)
  have "holds_files sample_files" by (simp add: holds_files_def)
  then show "holds_files store3" unfolding store3_def by (intro published_store_keeps)
  show "\<forall>n \<in> {1, 2, 3, 4, 5}. store3 (revision_commit_path home n)
      = (if n \<le> length h3 then Some (CHR ''c'' # h3 ! (n - 1)) else None)"
    by (simp add: store3_def h3_def published_store_at published_store_other sample_files_other)
  show "\<forall>k \<in> set h3. stores store3 (index_ref k) k"
    by (simp add: store3_def h3_def stores_def published_store_at published_store_other)
  show "store3 (head_path home) = Some (CHR ''h'' # last h3)"
    by (simp add: store3_def h3_def published_store_at)
qed

lemma short3: "\<forall>k \<in> set h3. short k"
  by (simp add: h3_def)

lemma length_h3 [simp]: "length h3 = 3" "last h3 = ''s3c''" "h3 ! Suc 0 = ''s2r''" "h3 ! 2 = ''s3c''"
  by (simp_all add: h3_def)

lemma published_store_fresh:
  "k' \<noteq> k \<Longrightarrow> short k \<Longrightarrow> short k' \<Longrightarrow>
   published_store n k fs (by_sha home ''indexes'' (dig k') ''json'') = fs (by_sha home ''indexes'' (dig k') ''json'')"
  by (simp add: published_store_other)

lemma fresh3: "k \<notin> set h3 \<Longrightarrow> short k \<Longrightarrow> store3 (by_sha home ''indexes'' (dig k) ''json'') = None"
  by (simp add: store3_def h3_def published_store_fresh sample_files_other)

lemma history4:
  assumes "short k"
  shows "has_history (store4 k) (h3 @ [k])"
  using published_history[OF history3 assms short3] by (simp add: store4_def del: short_def)

section \<open>Runs\<close>

definition expectation :: "nat \<Rightarrow> string \<Rightarrow> bank_expectation" where
  "expectation n k = \<lparr>be_revision = n, be_index_sha256 = Some (dig k)\<rparr>"

lemma sample_publish4:
  assumes "(k, s) \<in> {(''s4xa'', s4a), (''s4xc'', s4c), (''s4ac'', s4x)}"
  shows "publish_snapshot sample_bank home s store3 = (Inr (index_ref k), store4 k)"
proof -
  note files = has_history_files[OF history3]
  have k: "short k" "k \<notin> set h3" "(k, 4, Some ''s3c'', s) \<in> set sample_entries" using assms by (auto simp: h3_def sample_entries_def)
  note H4 = history4[OF k(1)]
  have at: "stores store3 (index_ref ''s3c'') ''s3c''" by (intro files(2)) (simp add: h3_def)
  have commit: "store3 (revision_commit_path home 3) = Some ''cs3c''" using has_history_commit[OF history3, of 3] by simp
  have snap3: "authenticate_snapshot sample_bank home (index_ref ''s3c'') store3 = Inr s3" using sample_snapshots(3)[OF files(1) at] .
  have permit: "authenticate_promotion_authorization sample_bank home permit_ref store3 = Inr sample_permit"
    unfolding authenticate_promotion_authorization_def by (rule sample_permit_authentic[OF files(1) at commit]) (rule snap3)
  have contract: "validate_snapshot_contract sample_bank home
      (\<lambda>permit. authenticate_promotion_authorization sample_bank home permit store3) s store3 = Inr ()"
    using assms sample_contract[OF files(1)] sample_contract_active[OF files(1), of "\<lambda>permit. authenticate_promotion_authorization sample_bank home permit store3"] permit by auto
  note P = published_index_holds[OF history3 k(1) short3]
  have "holds_files (published_index k store3)" "stores (published_index k store3) (index_ref k) k"
    "stores (published_index k store3) (index_ref ''s3c'') ''s3c''" "published_index k store3 (revision_commit_path home 3) = Some ''cs3c''"
    using P commit by (simp_all add: h3_def)
  then have snap: "authenticate_snapshot sample_bank home (index_ref k) (published_index k store3) = Inr s"
    using assms sample_snapshots sample_active_snapshot by auto
  have "current sample_bank home (published_store (Suc (length h3)) k store3) = Inr (s, Some (index_ref k))"
    using sample_current4[OF H4 assms] by (simp add: store4_def)
  moreover have "validate_snapshot_transition sample_bank home (Some (index_ref ''s3c'')) s3 s store3 = Inr ()"
    using assms sample_transitions[OF files(1)] by auto
  moreover have "sn_revision s = 4" "sn_parent s = Some (index_ref ''s3c'')" using assms by auto
  moreover have "(''s3c'', 3, Some ''s2r'', s3) \<in> set sample_entries" "(''s2r'', 2, Some ''s1r'', s2) \<in> set sample_entries"
    by (simp_all add: sample_entries_def)
  ultimately show ?thesis
    using sample_bank_publish[OF history3 short3, of s3 "Some ''s1r''" s2 k s] k(3) fresh3[OF k(2,1)] contract snap3 snap
    by (simp add: store4_def del: short_def)
qed

lemma sample_commit3:
  assumes "has_history fs ks" "take 3 ks = h3"
  shows "read_revision_commit sample_bank home 3 fs = Inr (sample_commit 3 ''s3c'' (Some ''s2r''), commit_reference 3 ''s3c'')"
proof -
  have "3 \<le> length ks" "ks ! 2 = ''s3c''"
    using arg_cong[OF assms(2), of length] arg_cong[OF assms(2), of "\<lambda>xs. xs ! 2"] by simp_all
  then show ?thesis using sample_history_commit[OF assms(1), of 3 "Some ''s2r''" s3] by (simp add: sample_entries_def)
qed

definition h4 :: "string list" where
  "h4 = h3 @ [''s4ac'']"

lemma history_active: "has_history (store4 ''s4ac'') h4"
  unfolding h4_def by (rule history4) simp

lemma short4: "\<forall>k \<in> set h4. short k"
  by (simp add: h4_def h3_def)

lemma length_h4 [simp]: "length h4 = 4" "last h4 = ''s4ac''" "h4 ! 2 = ''s3c''"
  by (simp_all add: h4_def h3_def)

lemma history5: "has_history store5 (h4 @ [''s5b''])"
  using published_history[OF history_active _ short4, of "''s5b''"] by (simp add: store5_def)

text \<open>In every store with this history, the snapshots of revisions 3 and 4 authenticate.\<close>

lemma history4_snapshots:
  assumes "holds_files fs" "stores fs (index_ref ''s3c'') ''s3c''" "stores fs (index_ref ''s4ac'') ''s4ac''"
    "fs (revision_commit_path home 3) = Some ''cs3c''"
  shows "authenticate_snapshot sample_bank home (index_ref ''s3c'') fs = Inr s3"
    "authenticate_snapshot sample_bank home (index_ref ''s4ac'') fs = Inr s4x"
  using sample_snapshots(3)[OF assms(1,2)] sample_active_snapshot[OF assms(1,2,4,3)] by simp_all

lemma sample_current5: "current sample_bank home store5 = Inr (s5, Some (index_ref ''s5b''))"
proof -
  note files = has_history_files[OF history5]
  have at: "stores store5 (index_ref ''s3c'') ''s3c''" "stores store5 (index_ref ''s4ac'') ''s4ac''" "stores store5 (index_ref ''s5b'') ''s5b''"
    by (auto intro!: files(2) simp: h4_def h3_def)
  have commit: "store5 (revision_commit_path home 3) = Some ''cs3c''"
    using has_history_commit[OF history5, of 3] by (simp add: h4_def h3_def)
  note snaps = history4_snapshots[OF files(1) at(1,2) commit] and snap = sample_snapshots(6)[OF files(1) at(3)]
  have read3: "read_revision_commit sample_bank home 3 store5 = Inr (sample_commit 3 ''s3c'' (Some ''s2r''), commit_reference 3 ''s3c'')"
    by (rule sample_commit3[OF history5]) (simp add: h4_def)
  note trans = sample_rollback_transition[OF read3 snaps(1)]
  note tip = sample_tip[OF history5, of s5 "Some ''s3c''" s4x]
  note head = sample_head_cache[OF history5, of "Some ''s4ac''" s5]
  show ?thesis
    using tip head snaps snap trans
    by (simp add: current_def h4_def h3_def sample_entries_def del: rbind_eq_Inr)
qed

lemma sample_publish5: "publish_snapshot sample_bank home s5 (store4 ''s4ac'') = (Inr (index_ref ''s5b''), store5)"
proof -
  let ?fs = "store4 ''s4ac''"
  note files = has_history_files[OF history_active]
  have at: "stores ?fs (index_ref ''s3c'') ''s3c''" "stores ?fs (index_ref ''s4ac'') ''s4ac''"
    by (auto intro!: files(2) simp: h4_def h3_def)
  have commit: "?fs (revision_commit_path home 3) = Some ''cs3c''"
    using has_history_commit[OF history_active, of 3] by (simp add: h4_def h3_def)
  note snaps = history4_snapshots[OF files(1) at commit]
  have short: "short ''s5b''" by simp
  have read3: "read_revision_commit sample_bank home 3 ?fs = Inr (sample_commit 3 ''s3c'' (Some ''s2r''), commit_reference 3 ''s3c'')"
    by (rule sample_commit3[OF history_active]) (simp add: h4_def)
  note trans = sample_rollback_transition[OF read3 snaps(1)]
  note P = published_index_holds[OF history_active short short4]
  have "authenticate_snapshot sample_bank home (index_ref ''s5b'') (published_index ''s5b'' ?fs) = Inr s5"
    by (rule sample_snapshots(6)[OF P(1,2)])
  moreover have "?fs (by_sha home ''indexes'' (dig ''s5b'') ''json'') = None"
    by (simp add: store4_def published_store_fresh fresh3 h3_def)
  moreover have "current sample_bank home (published_store (Suc (length h4)) ''s5b'' ?fs) = Inr (s5, Some (index_ref ''s5b''))"
    using sample_current5 by (simp add: store5_def)
  moreover have "validate_snapshot_contract sample_bank home
      (\<lambda>permit. authenticate_promotion_authorization sample_bank home permit ?fs) s5 ?fs = Inr ()"
    by (rule sample_contract(6)[OF files(1)])
  moreover have "(''s4ac'', 4, Some ''s3c'', s4x) \<in> set sample_entries" "(''s3c'', 3, Some ''s2r'', s3) \<in> set sample_entries"
      "(''s5b'', 5, Some ''s4ac'', s5) \<in> set sample_entries"
    by (simp_all add: sample_entries_def)
  ultimately show ?thesis
    using sample_bank_publish[OF history_active short4, of s4x "Some ''s2r''" s3 "''s5b''" s5] snaps trans
    by (simp add: store5_def)
qed

section \<open>Commands\<close>

lemma store3_current: "current sample_bank home store3 = Inr (s3, Some (index_ref ''s3c''))"
  by (rule sample_current3[OF history3])

lemma store4_current:
  assumes "(k, s) \<in> {(''s4xa'', s4a), (''s4xc'', s4c), (''s4ac'', s4x)}"
  shows "current sample_bank home (store4 k) = Inr (s, Some (index_ref k))"
proof (rule sample_current4[OF history4 assms])
  show "short k" using assms by auto
qed

lemma files3: "holds_files store3" and files4: "holds_files (store4 k)"
proof -
  show "holds_files store3" by (rule has_history_files(1)[OF history3])
  then show "holds_files (store4 k)" unfolding store4_def by (rule published_store_keeps)
qed

definition revoke_a :: revocation_request where
  "revoke_a = \<lparr>vr_schema = ''tidex.adapter_revocation_request/v1'', vr_adapter = va, vr_reason = ''no'', vr_evidence = None,
     vr_expected = expectation 3 ''s3c''\<rparr>"

lemma sample_registered_manifests:
  assumes "holds_files fs"
  shows "registered_manifests sample_bank home fs [ea, eb, ec] = Inr [(va, ma), (vb, mb), (vc, mc)]"
  by (simp add: registered_manifests_def sample_manifests[OF assms])

lemma sample_closure:
  "closure_loop [(va, ma), (vb, mb), (vc, mc)] [va] = [va, vc]" "closure_loop [(va, ma), (vb, mb), (vc, mc)] [vc] = [vc]"
  by (simp_all add: closure_loop.simps closure_pass_def Let_def bs_ok_Cons)

lemma run_revoke_a:
  "revocation_section sample_bank home revoke_a store3
    = (Inr (commit_of s4a (index_ref ''s4xa'') (Some (named ''manifests'' ''ma'')) False), store4 ''s4xa'')"
proof -
  have revs: "rfold (add_revocation s3 revoke_a 4) [va, vc] [] = Inr [sample_revocation va ''ma'' va, sample_revocation vc ''mc'' va]"
    by (simp add: add_revocation_def find_entry_of_def revoke_a_def sample_revocation_def)
  have "revoked_snapshot s3 4 (Some (index_ref ''s3c'')) va [va, vc] [sample_revocation va ''ma'' va, sample_revocation vc ''mc'' va] = s4a"
    by (simp add: s4a_def)
  moreover have "publish_snapshot sample_bank home s4a store3 = (Inr (index_ref ''s4xa''), store4 ''s4xa'')"
    by (rule sample_publish4) simp
  moreover have "vr_adapter revoke_a = va" "check_expectation (vr_expected revoke_a) s3 (Some (index_ref ''s3c'')) = Inr ()"
    by (simp_all add: revoke_a_def check_expectation_def expectation_def)
  moreover have "find_entry_of [ea, eb, ec] va = Some ea" by (simp add: find_entry_of_def)
  moreover have "va \<notin> revoked_versions s3" by (simp add: revoked_versions_def)
  ultimately show ?thesis
    using store3_current sample_registered_manifests[OF files3] sample_closure revs
    by (simp add: revocation_section_def io_bind_def io_read_def io_res_def Let_def checked_add_def
        del: rfold.simps(2) rbind_eq_Inr)
qed

definition activate_c :: activation_request where
  "activate_c = \<lparr>ar_schema = ''tidex.adapter_activation_request/v1'', ar_adapter = vc, ar_authorization = permit_ref,
     ar_expected = expectation 3 ''s3c''\<rparr>"

lemma activate_c_fields [simp]:
  "ar_adapter activate_c = vc" "ar_authorization activate_c = permit_ref" "ar_expected activate_c = expectation 3 ''s3c''"
  by (simp_all add: activate_c_def)

lemma permit_fields [simp]:
  "pa_adapter sample_permit = vc" "pa_manifest sample_permit = named ''manifests'' ''mc''"
  "pa_issued_against_index sample_permit = index_ref ''s3c''"
  by (simp_all add: sample_permit_def)

lemma expectation_holds:
  "sn_revision s = n \<Longrightarrow> check_expectation (expectation n k) s (Some (index_ref k)) = Inr ()"
  by (simp add: check_expectation_def expectation_def)

lemma permit3: "authenticate_promotion_authorization sample_bank home permit_ref store3 = Inr sample_permit"
proof -
  note files = has_history_files[OF history3]
  have at: "stores store3 (index_ref ''s3c'') ''s3c''" by (intro files(2)) (simp add: h3_def)
  have commit: "store3 (revision_commit_path home 3) = Some ''cs3c''" using has_history_commit[OF history3, of 3] by simp
  show ?thesis
    unfolding authenticate_promotion_authorization_def
    by (rule sample_permit_authentic[OF files(1) at commit]) (rule sample_snapshots(3)[OF files(1) at])
qed

lemma run_activate_c:
  "activation_section sample_bank home activate_c store3
    = (Inr (commit_of s4x (index_ref ''s4ac'') (Some (named ''manifests'' ''mc'')) False), store4 ''s4ac'')"
proof -
  have "activated_snapshot s3 4 (index_ref ''s3c'') ec mc permit_ref = s4x" by (simp add: s4x_def ec_def)
  moreover have "publish_snapshot sample_bank home s4x store3 = (Inr (index_ref ''s4ac''), store4 ''s4ac'')"
    by (rule sample_publish4) simp
  moreover have "find_entry_of [ea, eb, ec] vc = Some ec" by (simp add: find_entry_of_def)
  moreover have "vc \<notin> revoked_versions s3" by (simp add: revoked_versions_def)
  ultimately show ?thesis
    using store3_current permit3 sample_manifests(3)[OF files3] expectation_holds[of s3 3]
    by (simp add: activation_section_def activate_fresh_def io_bind_def io_read_def io_res_def Let_def checked_add_def
        del: rbind_eq_Inr)
qed

definition rollback_c :: rollback_request where
  "rollback_c = \<lparr>rr_schema = ''tidex.adapter_rollback_request/v1'', rr_receiver_model = sample_model, rr_capability_id = ''k'',
     rr_target_revision = 3, rr_reason = ''no'', rr_evidence = None, rr_authorization = None,
     rr_expected = expectation 4 ''s4ac''\<rparr>"

lemma rollback_c_fields [simp]:
  "rr_receiver_model rollback_c = sample_model" "rr_capability_id rollback_c = ''k''" "rr_target_revision rollback_c = 3"
  "rr_authorization rollback_c = None" "rr_expected rollback_c = expectation 4 ''s4ac''"
  "rr_reason rollback_c = ''no''" "rr_evidence rollback_c = None"
  by (simp_all add: rollback_c_def)

lemma run_rollback_c:
  "rollback_section sample_bank home rollback_c (store4 ''s4ac'') = (Inr (commit_of s5 (index_ref ''s5b'') None False), store5)"
proof -
  let ?fs = "store4 ''s4ac''"
  note files = has_history_files[OF history_active]
  have at: "stores ?fs (index_ref ''s3c'') ''s3c''" "stores ?fs (index_ref ''s4ac'') ''s4ac''"
    by (auto intro!: files(2) simp: h4_def h3_def)
  have commit: "?fs (revision_commit_path home 3) = Some ''cs3c''"
    using has_history_commit[OF history_active, of 3] by (simp add: h4_def h3_def)
  note snaps = history4_snapshots[OF files(1) at commit]
  have walk: "snapshot_walk (Suc (Suc n)) sample_bank home ?fs {} (index_ref ''s4ac'') 3 = Inr s3" for n
    using snaps by simp
  have limit: "MAX_HISTORY_REVISIONS = Suc (Suc 99998)" by (simp add: MAX_HISTORY_REVISIONS_def)
  have target: "snapshot_at_revision sample_bank home (index_ref ''s4ac'') 3 ?fs = Inr s3"
    unfolding snapshot_at_revision_def limit by (rule walk)
  have slots: "find_slot (sn_active s4x) sample_slot = Some selection_c" "find_slot (sn_active s3) sample_slot = None"
    by (simp_all add: find_slot_def)
  have "rolled_back_snapshot s4x 5 (index_ref ''s4ac'') rollback_c sample_slot (Some selection_c) None = Inr s5"
    by (simp add: rolled_back_snapshot_def s5_def)
  moreover have "ActivationSlot sample_model ''k'' = sample_slot" by (simp add: sample_slot_def)
  moreover have "current sample_bank home ?fs = Inr (s4x, Some (index_ref ''s4ac''))" by (rule store4_current) simp
  ultimately show ?thesis
    using target slots sample_publish5 expectation_holds[of s4x 4]
    by (simp add: rollback_section_def rollback_permit_def io_bind_def io_read_def io_res_def Let_def checked_add_def
        del: rbind_eq_Inr snapshot_lists snapshot_fields(21-23))
qed

end
