(* ===== verification/Adapter_Properties.thy ===== *)
theory Adapter_Properties
  imports Adapter_Runs Sample_Bank_Stores
begin

text \<open>
  The properties of the adapter bank, over the operations that run under the authority lock
  (\<open>registration_section\<close>, \<open>activation_section\<close>, \<open>revocation_section\<close>, \<open>rollback_section\<close>) and the
  readers. Each rests on the effect lemmas of \<open>Adapter_Effects\<close> and on the abstract machine of
  \<open>Adapter_Registry\<close>; the witnesses run the sample bank.
\<close>

section \<open>Snapshots\<close>

text \<open>
  C24: What a reader gets is well formed. The current snapshot has its versions in order and at most
  one entry per lineage and generation, its two indexes are those of the entries, every revoked or
  active version is registered, no active version is revoked, each slot runs the version of its own
  receiver and capability, and a version composed of a revoked one is revoked.
\<close>

theorem current_snapshot_wellformed:
  assumes "current X root fs = Inr (s, reference)"
  shows "bank_invariant s \<and> registry_ok (view s)
    \<and> (\<forall>(d, v) \<in> composed_of X root fs s. d \<in> revoked_versions s \<longrightarrow> v \<in> revoked_versions s)"
proof -
  from assms have "snapshot_of X root fs reference = Inr s" by (rule current_snapshot_of)
  from snapshot_of_invariant[OF this] view_ok show ?thesis by blast
qed

lemma current_snapshot_wellformed_witness:
  "bank_invariant s4a \<and> revoked_versions s4a = {va, vc}"
  using current_snapshot_wellformed[OF store4_current[of "''s4xa''" s4a]] by (simp add: revoked_versions_def)

section \<open>Revocation\<close>

text \<open>
  C25: A revocation reaches every dependent and nothing else. When a version is newly revoked, the
  next snapshot has one revision more, the same entries, as revoked versions the old ones and exactly
  the versions that are composed of it, directly or through others; none of them was revoked before,
  and exactly their selections are gone from the active ones.
\<close>

theorem revocation_reaches_dependents:
  assumes "revocation_section X root q fs = (Inr c, fs')" and "\<not> bc_idempotent c"
  shows "\<exists>s0 r0 s. current X root fs = Inr (s0, r0) \<and> current X root fs' = Inr (s, Some (bc_index c))
    \<and> sn_revision s = Suc (sn_revision s0) \<and> bc_revision c = sn_revision s \<and> sn_entries s = sn_entries s0
    \<and> revoked_versions s = revoked_versions s0 \<union> dependents X root fs s0 (vr_adapter q)
    \<and> dependents X root fs s0 (vr_adapter q) \<inter> revoked_versions s0 = {}
    \<and> sn_active s = filter (\<lambda>sel. sel_adapter sel \<notin> dependents X root fs s0 (vr_adapter q)) (sn_active s0)"
proof -
  from revocation_section_Inr[OF assms] obtain s0 r0 s affected where
      cur: "current X root fs = Inr (s0, r0)" "current X root fs' = Inr (s, Some (bc_index c))"
    and rev: "sn_revision s = Suc (sn_revision s0)" "bc_revision c = sn_revision s"
    and trans: "revocation_transition s0 s (vr_adapter q) affected = Inr ()"
    and affected: "set affected = dependents X root fs s0 (vr_adapter q)" .
  note R = revocation_transition_Inr[OF trans] and V = revocation_transition_versions[OF trans current_invariant[OF cur(2)]]
  show ?thesis
    using cur rev R V unfolding affected by (intro exI[of _ s0] exI[of _ r0] exI[of _ s] conjI) simp_all
qed

lemma revocation_reaches_dependents_witness:
  "\<exists>s0 r0 s. current sample_bank home store3 = Inr (s0, r0)
    \<and> current sample_bank home (store4 ''s4xa'') = Inr (s, Some (index_ref ''s4xa''))
    \<and> revoked_versions s = revoked_versions s0 \<union> dependents sample_bank home store3 s0 va"
proof -
  have "\<not> bc_idempotent (commit_of s4a (index_ref ''s4xa'') (Some (named ''manifests'' ''ma'')) False)" by simp
  from revocation_reaches_dependents[OF run_revoke_a this] show ?thesis
    by (simp add: revoke_a_def) metis
qed

text \<open>
  C26: A version with a revoked dependent can no longer be revoked. The operation lists all dependents
  as affected, also those that are revoked already, and the transition check wants the listed versions
  to be exactly the newly revoked ones: the request for a registered version that is not revoked,
  with the right expectation, always fails with the delta error and changes nothing.
\<close>

theorem revocation_of_revoked_dependent_fails:
  assumes "current X root fs = Inr (s, r)" and "check_expectation (vr_expected q) s r = Inr ()"
    and "vr_adapter q \<in> registered s" "vr_adapter q \<notin> revoked_versions s"
    and "v \<in> dependents X root fs s (vr_adapter q)" "v \<in> revoked_versions s"
    and "sn_revision s < MAX_HISTORY_REVISIONS"
  shows "revocation_section X root q fs = (Inl (Integrity ''adapter_bank_revocation_delta_invalid''), fs)"
  using assms by (rule revocation_section_of_revoked)

lemma sample_dependent:
  assumes "holds_files fs" and "sn_entries s = [ea, eb, ec]"
  shows "vc \<in> dependents sample_bank home fs s va"
proof -
  have "manifest_in sample_bank home fs s vc mc"
    using assms(2) sample_manifests(3)[OF assms(1)] by (simp add: manifest_in_def)
  then have "(va, vc) \<in> composed_of sample_bank home fs s" by (auto simp: composed_of_def)
  then show ?thesis by (auto simp: dependents_def)
qed

lemma revocation_of_revoked_dependent_fails_witness:
  "revocation_section sample_bank home (revoke_a\<lparr>vr_expected := expectation 4 ''s4xc''\<rparr>) (store4 ''s4xc'')
    = (Inl (Integrity ''adapter_bank_revocation_delta_invalid''), store4 ''s4xc'')"
proof (rule revocation_of_revoked_dependent_fails)
  let ?q = "revoke_a\<lparr>vr_expected := expectation 4 ''s4xc''\<rparr>"
  have q: "vr_adapter ?q = va" "vr_expected ?q = expectation 4 ''s4xc''" by (simp_all add: revoke_a_def)
  show "current sample_bank home (store4 ''s4xc'') = Inr (s4c, Some (index_ref ''s4xc''))" by (rule store4_current) simp
  show "check_expectation (vr_expected ?q) s4c (Some (index_ref ''s4xc'')) = Inr ()"
    unfolding q by (rule expectation_holds) simp
  show "vr_adapter ?q \<in> registered s4c" "vr_adapter ?q \<notin> revoked_versions s4c" "vc \<in> revoked_versions s4c"
    unfolding q by (simp_all add: registered_def revoked_versions_def)
  show "vc \<in> dependents sample_bank home (store4 ''s4xc'') s4c (vr_adapter ?q)"
    unfolding q by (rule sample_dependent[OF files4]) simp
  show "sn_revision s4c < MAX_HISTORY_REVISIONS" by (simp add: MAX_HISTORY_REVISIONS_def)
qed

section \<open>Resolutions\<close>

text \<open>
  C27: A revoked version never executes again. Once a version is revoked, then after any sequence of
  successful commands, whatever activations and rollbacks they try, no resolution that names the
  version authenticates, and no request resolves to it.
\<close>

theorem revoked_version_never_resolves:
  assumes "current X root fs = Inr (s, r)" and "er_adapter resolution \<in> revoked_versions s"
    and "(command_run X root)\<^sup>*\<^sup>* fs fs'"
  shows "authenticate_execution_resolution X root resolution fs' \<noteq> Inr ()
    \<and> resolve_active X root request fs' \<noteq> Inr resolution"
proof -
  have "resolve_active X root q fs' \<noteq> Inr resolution" for q
  proof
    assume "resolve_active X root q fs' = Inr resolution"
    from resolve_active_Inr[OF this] obtain s' where
        "current X root fs' = Inr (s', Some (er_index resolution))" "er_adapter resolution \<notin> revoked_versions s'" by blast
    with revoked_stay_revoked[OF assms(3,1)] assms(2) show False by blast
  qed
  then show ?thesis by (auto simp: authenticate_execution_resolution_def)
qed

definition sample_resolution :: execution_resolution where
  "sample_resolution = \<lparr>er_schema = ''tidex.adapter_execution_resolution/v1'', er_bank_revision = 4, er_index = index_ref ''s4xa'',
     er_slot = sample_slot, er_adapter = vc, er_manifest = named ''manifests'' ''mc'', er_authorization = permit_ref,
     er_execution_binding = sel_execution_binding selection_c, er_materialized_candidate = None\<rparr>"

lemma revoked_version_never_resolves_witness:
  "authenticate_execution_resolution sample_bank home sample_resolution (store4 ''s4xa'') \<noteq> Inr ()"
proof -
  have cur: "current sample_bank home (store4 ''s4xa'') = Inr (s4a, Some (index_ref ''s4xa''))" by (rule store4_current) simp
  have revoked: "er_adapter sample_resolution \<in> revoked_versions s4a"
    by (simp add: sample_resolution_def revoked_versions_def)
  have "revocation_section sample_bank home revoke_a (store4 ''s4xa'')
      = (Inr (commit_of s4a (index_ref ''s4xa'') (map_option ie_manifest (find_entry_of [ea, eb, ec] va)) True), store4 ''s4xa'')"
    using cur by (simp add: revocation_section_def io_bind_def io_read_def io_res_def revoke_a_def revoked_versions_def
        idempotent_commit_def Let_def)
  then have "run_command sample_bank home (RevokeCommand revoke_a) (store4 ''s4xa'')
      = (Inr (commit_of s4a (index_ref ''s4xa'') (map_option ie_manifest (find_entry_of [ea, eb, ec] va)) True), store4 ''s4xa'')"
    by simp
  then have "(command_run sample_bank home)\<^sup>*\<^sup>* (store4 ''s4xa'') (store4 ''s4xa'')"
    unfolding command_run_def by blast
  from revoked_version_never_resolves[OF cur revoked this] show ?thesis by simp
qed

section \<open>Activation and rollback\<close>

text \<open>
  C28: An activation changes one slot, under a permit issued for exactly this state. When a version is
  newly activated, it was registered and not revoked, the permit authenticates, names the version and
  the manifest of its selection and was issued against the index that was current; the next snapshot has the
  same entries and revocations, the slot runs the version, and every other slot is as before.
\<close>

theorem activation_changes_one_slot:
  assumes "activation_section X root q fs = (Inr c, fs')" and "\<not> bc_idempotent c"
  shows "\<exists>s0 r0 s sel permit. current X root fs = Inr (s0, Some r0) \<and> current X root fs' = Inr (s, Some (bc_index c))
    \<and> ar_adapter q \<in> registered s0 - revoked_versions s0
    \<and> authenticate_promotion_authorization X root (ar_authorization q) fs = Inr permit
    \<and> pa_adapter permit = ar_adapter q \<and> pa_manifest permit = sel_manifest sel \<and> pa_issued_against_index permit = r0
    \<and> sn_revision s = Suc (sn_revision s0) \<and> sn_entries s = sn_entries s0 \<and> sn_revocations s = sn_revocations s0
    \<and> sel_activated_at_revision sel = sn_revision s \<and> sel_adapter sel = ar_adapter q
    \<and> find_slot (sn_active s) = (find_slot (sn_active s0))(sel_slot sel \<mapsto> sel)"
proof -
  from activation_section_Inr[OF assms] obtain s0 r0 s sel permit where
      cur: "current X root fs = Inr (s0, Some r0)" "current X root fs' = Inr (s, Some (bc_index c))"
    and permit: "authenticate_promotion_authorization X root (ar_authorization q) fs = Inr permit"
      "pa_adapter permit = ar_adapter q" "pa_issued_against_index permit = r0" "pa_manifest permit = sel_manifest sel"
    and rev: "sn_revision s = Suc (sn_revision s0)" and step: "bank_step X root fs s0 s"
    and sel: "sn_active s = with_selection (sn_active s0) sel" "sel_adapter sel = ar_adapter q"
      "sel_activated_at_revision sel = sn_revision s"
    and same: "sn_entries s = sn_entries s0" "sn_revocations s = sn_revocations s0" .
  have inv: "bank_invariant s0" "bank_invariant s" using step by (simp_all add: bank_step_def)
  have slots: "sorted_wrt (<) (map sel_slot (sn_active s0))" "sorted_wrt (<) (map sel_slot (sn_active s))"
    using inv by (simp_all add: bank_invariant_def)
  have "set (sn_active s) = insert sel {a \<in> set (sn_active s0). sel_slot a \<noteq> sel_slot sel}"
    unfolding sel(1) by (auto simp: with_selection_def)
  from find_slot_set_selection[OF slots this]
  have slot: "find_slot (sn_active s) = (find_slot (sn_active s0))(sel_slot sel \<mapsto> sel)" .
  have "ar_adapter q \<in> registered s - revoked_versions s"
    using bank_invariant_active[OF inv(2) view_with_selection(2)[OF inv sel(1)]] sel(2) by simp
  then have "ar_adapter q \<in> registered s0 - revoked_versions s0" using same by (simp add: registered_def revoked_versions_def)
  with cur permit rev sel(2,3) same slot show ?thesis
    by (intro exI[of _ s0] exI[of _ r0] exI[of _ s] exI[of _ sel] exI[of _ permit] conjI)
qed

lemma activation_changes_one_slot_witness:
  "\<exists>s0 s sel. current sample_bank home store3 = Inr (s0, Some (index_ref ''s3c'')) \<and> sel_adapter sel = vc
    \<and> current sample_bank home (store4 ''s4ac'') = Inr (s, Some (index_ref ''s4ac''))
    \<and> find_slot (sn_active s) = (find_slot (sn_active s0))(sel_slot sel \<mapsto> sel)"
proof -
  have "\<not> bc_idempotent (commit_of s4x (index_ref ''s4ac'') (Some (named ''manifests'' ''mc'')) False)" by simp
  from activation_changes_one_slot[OF run_activate_c this] show ?thesis
    by (simp add: store3_current) metis
qed

text \<open>
  C29: A rollback only moves forward. It makes a new revision with the entries and revocations of the
  present; the one slot of the request gets the version it had at the earlier target revision, every other
  slot is as before; and a version it brings back is not revoked and has a permit that was issued
  against the present index, for that version and its manifest.
\<close>

theorem rollback_moves_forward:
  assumes "rollback_section X root q fs = (Inr c, fs')"
  shows "\<exists>s0 r0 s target. current X root fs = Inr (s0, Some r0) \<and> current X root fs' = Inr (s, Some (bc_index c))
    \<and> snapshot_at_revision X root r0 (rr_target_revision q) fs = Inr target \<and> rr_target_revision q < sn_revision s0
    \<and> sn_revision s = Suc (sn_revision s0) \<and> sn_entries s = sn_entries s0 \<and> sn_revocations s = sn_revocations s0
    \<and> (let slot = ActivationSlot (rr_receiver_model q) (rr_capability_id q) in
        reg_active (view s) = (reg_active (view s0))(slot := reg_active (view target) slot)
        \<and> (case find_slot (sn_active target) slot of None \<Rightarrow> rr_authorization q = None
           | Some sel \<Rightarrow> sel_adapter sel \<notin> revoked_versions s0
               \<and> (\<exists>reference permit. rr_authorization q = Some reference
                    \<and> authenticate_promotion_authorization X root reference fs = Inr permit
                    \<and> pa_adapter permit = sel_adapter sel \<and> pa_manifest permit = sel_manifest sel
                    \<and> pa_issued_against_index permit = r0)))"
proof -
  let ?slot = "ActivationSlot (rr_receiver_model q) (rr_capability_id q)"
  from rollback_section_Inr[OF assms] obtain s0 r0 s target where
      cur: "current X root fs = Inr (s0, Some r0)" "current X root fs' = Inr (s, Some (bc_index c))"
    and target: "snapshot_at_revision X root r0 (rr_target_revision q) fs = Inr target" "rr_target_revision q < sn_revision s0"
    and permit: "rollback_permit X root q s0 r0 (find_slot (sn_active target) ?slot) fs = Inr ()"
    and rev: "sn_revision s = Suc (sn_revision s0)" and same: "sn_entries s = sn_entries s0" "sn_revocations s = sn_revocations s0"
    and active: "reg_active (view s) = (reg_active (view s0))(?slot := reg_active (view target) ?slot)" .
  have "case find_slot (sn_active target) ?slot of None \<Rightarrow> rr_authorization q = None
     | Some sel \<Rightarrow> sel_adapter sel \<notin> revoked_versions s0
         \<and> (\<exists>reference permit. rr_authorization q = Some reference
              \<and> authenticate_promotion_authorization X root reference fs = Inr permit
              \<and> pa_adapter permit = sel_adapter sel \<and> pa_manifest permit = sel_manifest sel
              \<and> pa_issued_against_index permit = r0)"
    using permit by (cases "find_slot (sn_active target) ?slot") (auto simp: rollback_permit_def)
  with cur target rev same active show ?thesis unfolding Let_def
    by (intro exI[of _ s0] exI[of _ r0] exI[of _ s] exI[of _ target] conjI)
qed

lemma rollback_moves_forward_witness:
  "\<exists>s0 s target. current sample_bank home (store4 ''s4ac'') = Inr (s0, Some (index_ref ''s4ac''))
    \<and> current sample_bank home store5 = Inr (s, Some (index_ref ''s5b'')) \<and> sn_revision s = Suc (sn_revision s0)
    \<and> reg_active (view s) = (reg_active (view s0))(sample_slot := reg_active (view target) sample_slot)"
proof -
  have now: "current sample_bank home (store4 ''s4ac'') = Inr (s4x, Some (index_ref ''s4ac''))" by (rule store4_current) simp
  from rollback_moves_forward[OF run_rollback_c] obtain s0 r0 s target where
      "current sample_bank home (store4 ''s4ac'') = Inr (s0, Some r0)"
      "current sample_bank home store5 = Inr (s, Some (index_ref ''s5b''))" "sn_revision s = Suc (sn_revision s0)"
      "reg_active (view s) = (reg_active (view s0))(sample_slot := reg_active (view target) sample_slot)"
    unfolding Let_def sample_slot_def rollback_c_fields commit_of_simps by blast
  with now show ?thesis by (intro exI[of _ s0] exI[of _ s] exI[of _ target]) simp
qed

section \<open>Commands\<close>

text \<open>
  Of two commands that were prepared against the same state, at most one has an effect. After a
  command that was not a repetition, any command with the same expectation leaves the store as it is
  and either fails or reports that its effect was already there; no update is lost.
\<close>

theorem second_command_has_no_effect:
  assumes "run_command X root command fs = (Inr c, fs')" and "\<not> bc_idempotent c"
    and "command_expectation later = command_expectation command"
  shows "snd (run_command X root later fs') = fs'
    \<and> (case fst (run_command X root later fs') of Inl e \<Rightarrow> True | Inr d \<Rightarrow> bc_idempotent d)"
proof -
  from run_command_Inr[OF assms(1,2)] obtain s0 r0 s where
      "check_expectation (command_expectation command) s0 r0 = Inr ()"
    and cur: "current X root fs' = Inr (s, Some (bc_index c))" and "sn_revision s = Suc (sn_revision s0)" .
  with assms(3) have "be_revision (command_expectation later) \<noteq> sn_revision s" by (simp add: check_expectation_def)
  from run_command_stale[OF cur this] show ?thesis by blast
qed

lemma second_command_has_no_effect_witness:
  "snd (run_command sample_bank home (RevokeCommand revoke_a) (store4 ''s4ac'')) = store4 ''s4ac''"
proof -
  have "run_command sample_bank home (ActivateCommand activate_c) store3
      = (Inr (commit_of s4x (index_ref ''s4ac'') (Some (named ''manifests'' ''mc'')) False), store4 ''s4ac'')"
    by (simp add: run_activate_c)
  moreover have "\<not> bc_idempotent (commit_of s4x (index_ref ''s4ac'') (Some (named ''manifests'' ''mc'')) False)" by simp
  moreover have "command_expectation (RevokeCommand revoke_a) = command_expectation (ActivateCommand activate_c)"
    by (simp add: revoke_a_def)
  ultimately have "snd (run_command sample_bank home (RevokeCommand revoke_a) (store4 ''s4ac'')) = store4 ''s4ac''
    \<and> (case fst (run_command sample_bank home (RevokeCommand revoke_a) (store4 ''s4ac'')) of Inl e \<Rightarrow> True | Inr d \<Rightarrow> bc_idempotent d)"
    by (rule second_command_has_no_effect)
  then show ?thesis by simp
qed

section \<open>History\<close>

text \<open>
  C30: A history that verifies is a run of the abstract machine. When the whole journal verifies, the
  current snapshot, seen as registered, revoked and active versions, is reached from the empty
  registry by exactly as many steps as the status reports revisions, each the registration, activation,
  deactivation or revocation the machine allows; and the reported numbers are those of that state.
\<close>

theorem verified_history_is_run:
  assumes "verify_history X root fs = Inr status"
  shows "\<exists>s. current X root fs = Inr (s, hs_index status)
    \<and> ((\<lambda>b c. registry_ok b \<and> registry_step b c) ^^ hs_revision status) registry_start (view s)
    \<and> hs_verified_revision_count status = hs_revision status
    \<and> hs_registered_adapter_count status = card (reg_registered (view s))
    \<and> hs_revoked_adapter_count status = card (reg_revoked (view s))
    \<and> hs_active_adapter_count status = card (dom (reg_active (view s)))"
proof -
  from verify_history_Inr[OF assms] obtain s reference where
      cur: "current X root fs = Inr (s, reference)" and run: "(bank_step X root fs ^^ sn_revision s) empty_snapshot s"
    and status: "status = \<lparr>hs_revision = sn_revision s, hs_index = reference, hs_verified_revision_count = sn_revision s,
      hs_registered_adapter_count = length (sn_entries s), hs_active_adapter_count = length (sn_active s),
      hs_revoked_adapter_count = length (sn_revocations s)\<rparr>" .
  from bank.simulation_run[OF run] cur status view_counts[OF current_invariant[OF cur]] show ?thesis
    unfolding view_start by (intro exI[of _ s]) simp
qed

lemma sample_verify_history:
  "verify_history sample_bank home store3 = Inr \<lparr>hs_revision = 3, hs_index = Some (index_ref ''s3c''), hs_verified_revision_count = 3,
     hs_registered_adapter_count = 3, hs_active_adapter_count = 0, hs_revoked_adapter_count = 0\<rparr>"
proof -
  note files = has_history_files[OF history3]
  have at: "stores store3 (index_ref k) k" if "k \<in> set h3" for k using files(2)[OF that] .
  have genesis: "read_revision_commit sample_bank home (Suc 0) store3 = Inr (sample_commit 1 ''s1r'' None, commit_reference 1 ''s1r'')"
    using sample_history_commit[OF history3, of "Suc 0" None s1] by (simp add: h3_def sample_entries_def)
  have commits: "read_revision_commit sample_bank home 2 store3 = Inr (sample_commit 2 ''s2r'' (Some ''s1r''), commit_reference 2 ''s2r'')"
    "read_revision_commit sample_bank home 3 store3 = Inr (sample_commit 3 ''s3c'' (Some ''s2r''), commit_reference 3 ''s3c'')"
    using sample_history_commit[OF history3, of 2 "Some ''s1r''" s2]
      sample_commit3[OF history3] by (simp_all add: h3_def sample_entries_def)
  have snaps: "authenticate_snapshot sample_bank home (index_ref ''s1r'') store3 = Inr s1"
    "authenticate_snapshot sample_bank home (index_ref ''s2r'') store3 = Inr s2"
    "authenticate_snapshot sample_bank home (index_ref ''s3c'') store3 = Inr s3"
    using sample_snapshots(1-3)[OF files(1) at] by (simp_all add: h3_def)
  have revisions: "journal_revisions sample_bank home store3 = Inr [1, 2, 3]"
    using sample_journal[OF history3] by (simp add: upt_rec numeral_2_eq_2)
  have "authenticate_revision_journal sample_bank home store3 = Inr [(sample_commit 1 ''s1r'' None, commit_reference 1 ''s1r''),
      (sample_commit 2 ''s2r'' (Some ''s1r''), commit_reference 2 ''s2r''), (sample_commit 3 ''s3c'' (Some ''s2r''), commit_reference 3 ''s3c'')]"
    by (simp add: authenticate_revision_journal_def revisions journal_step_def journal_linked_def genesis commits)
  moreover have "history_walk sample_bank home store3 [(sample_commit 1 ''s1r'' None, commit_reference 1 ''s1r''),
      (sample_commit 2 ''s2r'' (Some ''s1r''), commit_reference 2 ''s2r''), (sample_commit 3 ''s3c'' (Some ''s2r''), commit_reference 3 ''s3c'')]
      3 {} 0 (index_ref ''s3c'') = Inr 3"
    by (simp add: numeral_3_eq_3 snaps MAX_HISTORY_REVISIONS_def)
  ultimately show ?thesis
    using store3_current snaps sample_transitions(1-3)[OF files(1)]
    by (simp add: verify_history_def replay_step_def)
qed

lemma verified_history_is_run_witness:
  "\<exists>s. current sample_bank home store3 = Inr (s, Some (index_ref ''s3c''))
    \<and> ((\<lambda>b c. registry_ok b \<and> registry_step b c) ^^ 3) registry_start (view s) \<and> card (reg_registered (view s)) = 3"
  using verified_history_is_run[OF sample_verify_history] by auto

end
