(* ===== verification/Source_Paths.thy ===== *)
theory Source_Paths
  imports Ledger
begin

text \<open>
  Paths of an acquired source tree: \<open>std::path\<close> on Unix as far as the capability code uses it, the
  lexical rules of declared and observed paths, and the hexadecimal wire form, after
  \<open>src/capability/acquisition_contract.rs\<close>.
\<close>

section \<open>Components\<close>

text \<open>A raw path is a byte string; \<open>==\<close> and \<open>Ord\<close> of \<open>Path\<close> compare its components.\<close>

type_synonym os_path = string

definition os_is_absolute :: "os_path \<Rightarrow> bool" where
  "os_is_absolute p \<longleftrightarrow> (case p of c # _ \<Rightarrow> c = CHR ''/'' | [] \<Rightarrow> False)"

definition segment_component :: "string \<Rightarrow> component" where
  "segment_component s = (if s = ''..'' then ParentDir else Normal s)"

text \<open>Repeated separators and \<open>.\<close> are skipped, except a leading \<open>.\<close> of a relative path.\<close>

definition components :: "os_path \<Rightarrow> path" where
  "components p =
     (if os_is_absolute p then [RootDir] else if hd (split_on CHR ''/'' p) = ''.'' then [CurDir] else [])
       @ map segment_component (filter (\<lambda>s. s \<noteq> [] \<and> s \<noteq> ''.'') (split_on CHR ''/'' p))"

text \<open>\<open>Component\<close> derives \<open>Ord\<close>: root, current, parent, then names by their bytes.\<close>

fun component_key :: "component \<Rightarrow> string list" where
  "component_key RootDir = []"
| "component_key CurDir = [[]]"
| "component_key ParentDir = [[], []]"
| "component_key (Normal s) = [[], [], s]"

lemma component_key_inj: "component_key a = component_key b \<longleftrightarrow> a = b"
  by (cases a; cases b) auto

instantiation component :: linorder
begin

definition less_eq_component :: "component \<Rightarrow> component \<Rightarrow> bool" where
  "less_eq_component a b \<longleftrightarrow> component_key a \<le> component_key b"

definition less_component :: "component \<Rightarrow> component \<Rightarrow> bool" where
  "less_component a b \<longleftrightarrow> component_key a < component_key b"

instance
proof
  fix a b c :: component
  show "a < b \<longleftrightarrow> a \<le> b \<and> \<not> b \<le> a" unfolding less_eq_component_def less_component_def by (rule less_le_not_le)
  show "a \<le> a" unfolding less_eq_component_def by (rule order_refl)
  show "a \<le> b \<Longrightarrow> b \<le> c \<Longrightarrow> a \<le> c" unfolding less_eq_component_def by (rule order_trans)
  show "a \<le> b \<Longrightarrow> b \<le> a \<Longrightarrow> a = b"
    unfolding less_eq_component_def component_key_inj[symmetric] by (rule order_antisym)
  show "a \<le> b \<or> b \<le> a" unfolding less_eq_component_def by (rule linear)
qed

end

fun component_name :: "component \<Rightarrow> string" where
  "component_name (Normal s) = s"
| "component_name RootDir = ''/''"
| "component_name CurDir = ''.''"
| "component_name ParentDir = ''..''"

text \<open>The bytes of a relative path that was pushed together from its components.\<close>

definition os_bytes :: "path \<Rightarrow> os_path" where
  "os_bytes cs = join_with CHR ''/'' (map component_name cs)"

definition path_parent :: "path \<Rightarrow> path option" where
  "path_parent p = (if p = [] \<or> p = [RootDir] then None else Some (butlast p))"

definition path_file_name :: "path \<Rightarrow> string option" where
  "path_file_name p = (if p = [] then None else case last p of Normal s \<Rightarrow> Some s | _ \<Rightarrow> None)"

definition path_starts_with :: "path \<Rightarrow> path \<Rightarrow> bool" where
  "path_starts_with p base \<longleftrightarrow> strip_prefix base p \<noteq> None"

section \<open>Declared and observed paths\<close>

definition MAX_RELATIVE_COMPONENTS :: nat where "MAX_RELATIVE_COMPONENTS = 256"
definition MAX_RELATIVE_PATH_BYTES :: nat where "MAX_RELATIVE_PATH_BYTES = 16 * 1024"

definition has_valid_relative_path_shape :: "os_path \<Rightarrow> bool" where
  "has_valid_relative_path_shape p \<longleftrightarrow>
     \<not> os_is_absolute p
     \<and> length (components p) \<le> MAX_RELATIVE_COMPONENTS \<and> length p \<le> MAX_RELATIVE_PATH_BYTES \<and> CHR 0x00 \<notin> set p
     \<and> list_all is_normal (components p)
     \<and> os_bytes (components p) = p"

text \<open>
  A path that passes is the bytes of its components, so the types \<open>DeclaredRelativePath\<close> and
  \<open>ObservedRelativePath\<close>, which only these parsers construct, are lists of components.
\<close>

definition validate_declared_relative_path :: "os_path \<Rightarrow> string \<Rightarrow> unit res" where
  "validate_declared_relative_path p label =
     reject (p = [] \<or> \<not> has_valid_relative_path_shape p) (Invalid (label @ ''_invalid''))"

definition declared_path_parse_labeled :: "os_path \<Rightarrow> string \<Rightarrow> path res" where
  "declared_path_parse_labeled p label = rbind (validate_declared_relative_path p label) (\<lambda>_. Inr (components p))"

definition declared_path_parse :: "os_path \<Rightarrow> path res" where
  "declared_path_parse p = declared_path_parse_labeled p ''acquisition_declared_path''"

definition validate_observed_relative_path :: "os_path \<Rightarrow> unit res" where
  "validate_observed_relative_path p =
     reject (p \<noteq> [] \<and> \<not> has_valid_relative_path_shape p) (Invalid ''acquisition_observed_path_not_portable'')"

definition observed_path_parse :: "os_path \<Rightarrow> path res" where
  "observed_path_parse p = rbind (validate_observed_relative_path p) (\<lambda>_. Inr (components p))"

section \<open>The wire form\<close>

definition hex_digit :: "nat \<Rightarrow> char" where
  "hex_digit n = ''0123456789abcdef'' ! n"

definition path_wire_encode :: "os_path \<Rightarrow> string" where
  "path_wire_encode raw = concat (map (\<lambda>b. [hex_digit (of_char b div 16), hex_digit (of_char b mod 16)]) raw)"

definition hex_nibble :: "char \<Rightarrow> nat option" where
  "hex_nibble b =
     (if CHR ''0'' \<le> b \<and> b \<le> CHR ''9'' then Some (of_char b - of_char CHR ''0'')
      else if CHR ''a'' \<le> b \<and> b \<le> CHR ''f'' then Some (of_char b - of_char CHR ''a'' + 10)
      else None)"

fun decode_pairs :: "string \<Rightarrow> os_path res" where
  "decode_pairs (x # y # rest) =
     rbind (ok_or (hex_nibble x) Json) (\<lambda>high.
     rbind (ok_or (hex_nibble y) Json) (\<lambda>low.
     rbind (decode_pairs rest) (\<lambda>bytes. Inr (char_of (high * 16 + low) # bytes))))"
| "decode_pairs rest = Inr []"

text \<open>The error of \<open>decode\<close> reaches the caller as a decoding error of \<open>serde_json\<close>.\<close>

definition path_wire_decode :: "string \<Rightarrow> os_path res" where
  "path_wire_decode v =
     (if odd (length v) \<or> \<not> list_all (\<lambda>b. is_ascii_hexdigit b \<and> \<not> is_ascii_uppercase b) v then Inl Json
      else decode_pairs v)"

section \<open>Facts\<close>

lemma sixteen_digits: "n < 16 \<longleftrightarrow> n \<in> set [0..<16]"
  by simp

lemma hex_nibble_digit [simp]: "n < 16 \<Longrightarrow> hex_nibble (hex_digit n) = Some n"
proof -
  have "\<forall>n \<in> set [0..<16]. hex_nibble (hex_digit n) = Some n" by code_simp
  then show "n < 16 \<Longrightarrow> hex_nibble (hex_digit n) = Some n" unfolding sixteen_digits by blast
qed

lemma hex_digit_lower: "n < 16 \<Longrightarrow> is_ascii_hexdigit (hex_digit n) \<and> \<not> is_ascii_uppercase (hex_digit n)"
proof -
  have "\<forall>n \<in> set [0..<16]. is_ascii_hexdigit (hex_digit n) \<and> \<not> is_ascii_uppercase (hex_digit n)" by code_simp
  then show "n < 16 \<Longrightarrow> is_ascii_hexdigit (hex_digit n) \<and> \<not> is_ascii_uppercase (hex_digit n)"
    unfolding sixteen_digits by blast
qed

lemma hex_nibble_Some: "hex_nibble b = Some n \<Longrightarrow> n < 16 \<and> hex_digit n = b"
proof -
  have "\<forall>c \<in> set (map char_of [0..<256 :: nat]). case hex_nibble c of None \<Rightarrow> True | Some n \<Rightarrow> n < 16 \<and> hex_digit n = c"
    by code_simp
  moreover have "b \<in> set (map char_of [0..<256 :: nat])"
  proof -
    have "b = char_of (of_char b :: nat)" "(of_char b :: nat) \<in> set [0..<256]"
      using nat_of_char_less_256[of b] by simp_all
    then show ?thesis by (metis image_eqI list.set_map)
  qed
  ultimately show "hex_nibble b = Some n \<Longrightarrow> n < 16 \<and> hex_digit n = b" by fastforce
qed

lemma path_wire_encode_simps [simp]:
  "path_wire_encode [] = []"
  "path_wire_encode (b # raw) = hex_digit (of_char b div 16) # hex_digit (of_char b mod 16) # path_wire_encode raw"
  by (simp_all add: path_wire_encode_def)

lemma char_nibbles: "(of_char b :: nat) div 16 < 16" "(of_char b :: nat) mod 16 < 16"
  using nat_of_char_less_256[of b] by (simp_all add: less_mult_imp_div_less)

lemma decode_pairs_encode: "decode_pairs (path_wire_encode raw) = Inr raw"
proof (induction raw)
  case (Cons b raw)
  have "char_of (of_char b div 16 * 16 + of_char b mod 16 :: nat) = b" by (simp only: div_mult_mod_eq char_of_char)
  with Cons char_nibbles[of b] show ?case by simp
qed simp

lemma path_wire_encode_even: "even (length (path_wire_encode raw))"
  by (induction raw) simp_all

lemma path_wire_encode_lower:
  "list_all (\<lambda>b. is_ascii_hexdigit b \<and> \<not> is_ascii_uppercase b) (path_wire_encode raw)"
  using hex_digit_lower char_nibbles by (induction raw) simp_all

lemma decode_pairs_Inr: "decode_pairs v = Inr raw \<Longrightarrow> even (length v) \<Longrightarrow> path_wire_encode raw = v"
proof (induction v arbitrary: raw rule: decode_pairs.induct)
  case (1 x y rest)
  then obtain high low bytes where h: "hex_nibble x = Some high" "hex_nibble y = Some low" "decode_pairs rest = Inr bytes"
      "raw = char_of (high * 16 + low) # bytes" by auto
  note X = hex_nibble_Some[OF h(1)] and Y = hex_nibble_Some[OF h(2)]
  have "high * 16 + low < 256" using X Y by simp
  then have code: "(of_char (char_of (high * 16 + low) :: char) :: nat) = high * 16 + low" by simp
  have "ok_or (hex_nibble x) Json = Inr high" "ok_or (hex_nibble y) Json = Inr low" using h by simp_all
  moreover have "even (length rest)" using 1(3) by simp
  ultimately have "path_wire_encode bytes = rest" using 1(1) h(3) by blast
  then show ?case using h(4) code X Y by simp
qed auto

end
