(* ===== verification/Acquisition_Request.thy ===== *)
theory Acquisition_Request
  imports Source_Paths
begin

text \<open>
  Acquisition requests of \<open>src/capability/acquisition_contract.rs\<close>: the data of requests and envelopes, the
  scope a user authorizes, the canonical form of its roots, exclusions and their separation, and the
  sealed request.
\<close>

section \<open>Data\<close>

definition REQUEST_DOMAIN :: string where "REQUEST_DOMAIN = ''TIDEX:ACQUISITION-REQUEST:v1'' @ [CHR 0x00]"
definition ENVELOPE_DOMAIN :: string where "ENVELOPE_DOMAIN = ''TIDEX:SYSTEM-ENVELOPE:v1'' @ [CHR 0x00]"
definition FILE_DOMAIN :: string where "FILE_DOMAIN = ''TIDEX:SOURCE-FILE:v1'' @ [CHR 0x00]"
definition DIRECTORY_DOMAIN :: string where "DIRECTORY_DOMAIN = ''TIDEX:SOURCE-DIRECTORY:v1'' @ [CHR 0x00]"

definition MAX_SCOPE_ROOTS :: nat where "MAX_SCOPE_ROOTS = 4096"
definition MAX_EXCLUSIONS :: nat where "MAX_EXCLUSIONS = 100000"
definition MAX_DIRECTORY_CHILDREN :: nat where "MAX_DIRECTORY_CHILDREN = 100000"
definition MAX_TRAVERSED_ENTRIES :: nat where "MAX_TRAVERSED_ENTRIES = 1000000"
definition MAX_TRAVERSED_NAME_BYTES :: nat where "MAX_TRAVERSED_NAME_BYTES = 64 * 1024 * 1024"
definition MAX_CAPTURED_DIRECTORIES :: nat where "MAX_CAPTURED_DIRECTORIES = 100000"
definition MAX_MANIFEST_ENTRIES :: nat where "MAX_MANIFEST_ENTRIES = 500000"
definition MAX_MANIFEST_PATH_BYTES :: nat where "MAX_MANIFEST_PATH_BYTES = 64 * 1024 * 1024"

text \<open>The schema enums have one value and are left out; the encoder knows the type it encodes.\<close>

datatype acquisition_scope = WholeProject | DeclaredPaths "path list"

datatype requested_residency = BestVerified | WeightsOnly | PortableIrOnly

datatype noise_policy = ExplicitOnly | ConservativeGeneratedArtifacts

record acquisition_budget =
  max_files :: nat
  max_total_bytes :: nat

record acquisition_request =
  ar_acquisition_id :: string
  ar_scope :: acquisition_scope
  ar_requested_residency :: requested_residency
  ar_noise_policy :: noise_policy
  ar_budget :: acquisition_budget
  ar_exclusions :: "path list"
  ar_manifest_sha256 :: digest

datatype snapshot_completeness = WholeTree | DeclaredScopeOnly

datatype snapshot_entry_kind = FileEntry | DirectoryEntry

record manifest_entry =
  se_relative_path :: path
  se_kind :: snapshot_entry_kind
  se_byte_len :: nat
  se_executable :: bool
  se_sha256 :: digest

datatype exclusion_reason = ExplicitRequest | GeneratedArtifactPolicy

record excluded_path =
  ex_relative_path :: path
  ex_reason :: exclusion_reason

datatype source_retention = ManifestOnly

record system_envelope =
  sv_acquisition_request_sha256 :: digest
  sv_completeness :: snapshot_completeness
  sv_projection_roots :: "path list"
  sv_entries :: "manifest_entry list"
  sv_excluded_paths :: "excluded_path list"
  sv_total_file_bytes :: nat
  sv_source_retention :: source_retention
  sv_manifest_sha256 :: digest

text \<open>SHA-256 and \<open>serde_json::to_vec\<close> on the two sealed types are parameters.\<close>

record acquisition_codec =
  aq_sha :: "string \<Rightarrow> digest"
  request_to_vec :: "acquisition_request \<Rightarrow> string"
  envelope_to_vec :: "system_envelope \<Rightarrow> string"

section \<open>Scopes\<close>

definition acquisition_budget_validate :: "acquisition_budget \<Rightarrow> unit res" where
  "acquisition_budget_validate b =
     reject (max_files b = 0 \<or> max_total_bytes b = 0) (Invalid ''acquisition_budget_zero'')"

text \<open>Roots in order, without those below an earlier one.\<close>

definition keep_root :: "path \<Rightarrow> path list \<Rightarrow> path list" where
  "keep_root root normalized =
     (if list_ex (path_starts_with root) normalized then normalized else normalized @ [root])"

definition normalize_declared_roots :: "path list \<Rightarrow> path list" where
  "normalize_declared_roots roots = fold keep_root (bs_of roots) []"

definition check_root_count :: "path list \<Rightarrow> unit res" where
  "check_root_count roots =
     rbind (reject (roots = []) (Invalid ''acquisition_scope_roots_empty'')) (\<lambda>_.
     reject (MAX_SCOPE_ROOTS < length roots) (Invalid ''acquisition_scope_roots_limit_exceeded''))"

fun validate_scope :: "acquisition_scope \<Rightarrow> unit res" where
  "validate_scope WholeProject = Inr ()"
| "validate_scope (DeclaredPaths roots) =
     rbind (check_root_count roots) (\<lambda>_.
     reject (normalize_declared_roots roots \<noteq> roots) (Invalid ''acquisition_scope_roots_not_canonical''))"

fun normalize_scope :: "acquisition_scope \<Rightarrow> acquisition_scope res" where
  "normalize_scope WholeProject = Inr WholeProject"
| "normalize_scope (DeclaredPaths roots) =
     rbind (check_root_count roots) (\<lambda>_. Inr (DeclaredPaths (normalize_declared_roots roots)))"

definition parse_declared :: "string \<Rightarrow> os_path \<Rightarrow> path list \<Rightarrow> path list res" where
  "parse_declared label p acc = rbind (declared_path_parse_labeled p label) (\<lambda>c. Inr (acc @ [c]))"

definition scope_declared_paths :: "os_path list \<Rightarrow> acquisition_scope res" where
  "scope_declared_paths roots =
     rbind (rfold (parse_declared ''acquisition_scope_root'') roots []) (\<lambda>roots. normalize_scope (DeclaredPaths roots))"

fun selected_roots :: "acquisition_scope \<Rightarrow> path bset" where
  "selected_roots WholeProject = [[]]"
| "selected_roots (DeclaredPaths roots) = bs_of roots"

section \<open>Exclusions\<close>

definition canonical_declared_set :: "path list \<Rightarrow> string \<Rightarrow> path bset res" where
  "canonical_declared_set paths label =
     (let item_limit = if label = ''acquisition_exclusion'' then MAX_EXCLUSIONS else MAX_SCOPE_ROOTS
      in rbind (reject (item_limit < length paths) (Invalid (label @ ''_limit_exceeded''))) (\<lambda>_.
         rfold (\<lambda>p result. if p \<in> set result then Inl (Invalid (label @ ''_duplicate'')) else Inr (bs_insert p result))
           paths []))"

definition paths_overlap :: "path \<Rightarrow> path \<Rightarrow> bool" where
  "paths_overlap l r \<longleftrightarrow> l = r \<or> path_starts_with l r \<or> path_starts_with r l"

fun validate_scope_exclusion_separation :: "acquisition_scope \<Rightarrow> path bset \<Rightarrow> unit res" where
  "validate_scope_exclusion_separation (DeclaredPaths roots) (excluded # _) =
     (if list_ex (\<lambda>root. paths_overlap root excluded) roots
      then Inl (Invalid ''acquisition_scope_exclusion_overlap'')
      else Inl (Invalid ''acquisition_exclusion_outside_declared_scope''))"
| "validate_scope_exclusion_separation _ _ = Inr ()"

text \<open>The walk from a path through its parents, up to the root of the project.\<close>

function parents_excluded :: "path bset \<Rightarrow> path \<Rightarrow> unit res" where
  "parents_excluded exclusions p =
     (case path_parent p of
        None \<Rightarrow> Inr ()
      | Some candidate \<Rightarrow>
          if candidate = [] then Inr ()
          else if candidate \<in> set exclusions then Inl (Invalid ''acquisition_exclusions_overlap'')
          else parents_excluded exclusions candidate)"
  by pat_completeness auto
termination
  by (relation "measure (\<lambda>(e, p). length p)") (auto simp: path_parent_def split: if_splits)

declare parents_excluded.simps [simp del]

definition validate_non_overlapping_exclusions :: "path bset \<Rightarrow> unit res" where
  "validate_non_overlapping_exclusions exclusions = rfor (parents_excluded exclusions) exclusions"

section \<open>Sealed requests\<close>

definition request_digest :: "acquisition_codec \<Rightarrow> acquisition_request \<Rightarrow> digest" where
  "request_digest Q r =
     digest_domain (aq_sha Q) REQUEST_DOMAIN (request_to_vec Q (r\<lparr>ar_manifest_sha256 := zero_digest\<rparr>))"

definition acquisition_request_new ::
  "acquisition_codec \<Rightarrow> string \<Rightarrow> acquisition_scope \<Rightarrow> requested_residency \<Rightarrow> noise_policy
   \<Rightarrow> acquisition_budget \<Rightarrow> os_path list \<Rightarrow> acquisition_request res" where
  "acquisition_request_new Q acquisition_id scope residency noise budget exclusions =
     rbind (acquisition_budget_validate budget) (\<lambda>_.
     rbind (normalize_scope scope) (\<lambda>scope.
     rbind (rfold (parse_declared ''acquisition_exclusion'') exclusions []) (\<lambda>exclusions.
     rbind (canonical_declared_set exclusions ''acquisition_exclusion'') (\<lambda>exclusions.
     rbind (validate_non_overlapping_exclusions exclusions) (\<lambda>_.
     rbind (validate_scope_exclusion_separation scope exclusions) (\<lambda>_.
     let request = \<lparr>ar_acquisition_id = acquisition_id, ar_scope = scope, ar_requested_residency = residency,
                    ar_noise_policy = noise, ar_budget = budget, ar_exclusions = exclusions,
                    ar_manifest_sha256 = zero_digest\<rparr>
     in Inr (request\<lparr>ar_manifest_sha256 := request_digest Q request\<rparr>)))))))"

definition acquisition_request_verify ::
  "acquisition_codec \<Rightarrow> acquisition_request \<Rightarrow> unit res" where
  "acquisition_request_verify Q r =
     rbind (acquisition_budget_validate (ar_budget r)) (\<lambda>_.
     rbind (validate_scope (ar_scope r)) (\<lambda>_.
     rbind (canonical_declared_set (ar_exclusions r) ''acquisition_exclusion'') (\<lambda>canonical.
     rbind (reject (canonical \<noteq> ar_exclusions r) (Integrity ''acquisition_exclusions_not_canonical'')) (\<lambda>_.
     rbind (validate_non_overlapping_exclusions canonical) (\<lambda>_.
     rbind (validate_scope_exclusion_separation (ar_scope r) canonical) (\<lambda>_.
     reject (is_draft (ar_manifest_sha256 r) \<or> request_digest Q r \<noteq> ar_manifest_sha256 r)
       (Integrity ''acquisition_request_digest_mismatch'')))))))"

end
