(* ===== verification/Acquisition_Scopes.thy ===== *)
theory Acquisition_Scopes
  imports Acquisition_Request
begin

text \<open>
  Facts about scopes and exclusions: the canonical roots are the minimal ones, canonical sets are fixed
  points, and a request that was built is one that verifies.
\<close>

section \<open>Paths below paths\<close>

lemma path_starts_with_iff: "path_starts_with p b \<longleftrightarrow> (\<exists>q. p = b @ q)"
  by (auto simp: path_starts_with_def)

lemma path_starts_with_refl [simp]: "path_starts_with p p"
  by (simp add: path_starts_with_iff)

lemma path_starts_with_trans [trans]: "path_starts_with p b \<Longrightarrow> path_starts_with b a \<Longrightarrow> path_starts_with p a"
  by (auto simp: path_starts_with_iff)

lemma append_self_le: "(a :: 'a::linorder list) \<le> a @ q"
  by (induction a) simp_all

lemma path_starts_with_le: "path_starts_with p b \<Longrightarrow> b \<le> p"
  using append_self_le by (auto simp: path_starts_with_iff)

section \<open>Canonical roots\<close>

definition minimal_paths :: "path set \<Rightarrow> path set" where
  "minimal_paths R = {r \<in> R. \<forall>a \<in> R. path_starts_with r a \<longrightarrow> a = r}"

lemma minimal_below:
  assumes "p \<in> R" shows "\<exists>m \<in> minimal_paths R. path_starts_with p m"
  using assms
proof (induction p rule: measure_induct_rule[of length])
  case (less p)
  show ?case
  proof (cases "p \<in> minimal_paths R")
    case False
    with less.prems obtain a where a: "a \<in> R" "path_starts_with p a" "a \<noteq> p" by (auto simp: minimal_paths_def)
    then have "length a < length p" by (auto simp: path_starts_with_iff)
    with less.IH a obtain m where "m \<in> minimal_paths R" "path_starts_with a m" by blast
    with a(2) show ?thesis using path_starts_with_trans by blast
  qed (use path_starts_with_refl in blast)
qed

lemma minimal_insert_last:
  assumes "\<forall>r \<in> R. r < x"
  shows "minimal_paths (insert x R) =
    (if \<exists>m \<in> minimal_paths R. path_starts_with x m then minimal_paths R else insert x (minimal_paths R))"
proof -
  have no: "\<not> path_starts_with r x" if "r \<in> R" for r
    using that assms path_starts_with_le leD by blast
  have "\<exists>m \<in> minimal_paths R. path_starts_with x m" if "a \<in> R" "path_starts_with x a" for a
    using minimal_below[OF that(1)] path_starts_with_trans[OF that(2)] by blast
  moreover have "m \<in> R" if "m \<in> minimal_paths R" for m using that by (simp add: minimal_paths_def)
  ultimately have "(\<exists>m \<in> minimal_paths R. path_starts_with x m) \<longleftrightarrow> (\<exists>a \<in> R. path_starts_with x a)" by metis
  moreover have "x \<notin> R" using assms by blast
  ultimately show ?thesis using no unfolding minimal_paths_def by auto
qed

lemma fold_keep_root:
  assumes "bs_ok xs"
  shows "bs_ok (fold keep_root xs []) \<and> set (fold keep_root xs []) = minimal_paths (set xs)"
  using assms
proof (induction xs rule: rev_induct)
  case Nil
  then show ?case by (simp add: minimal_paths_def)
next
  case (snoc x xs)
  then have ok: "bs_ok xs" "\<forall>r \<in> set xs. r < x" by (auto simp: bs_ok_def sorted_wrt_append)
  let ?n = "fold keep_root xs []"
  from snoc.IH[OF ok(1)] have n: "bs_ok ?n" "set ?n = minimal_paths (set xs)" by simp_all
  have "\<forall>r \<in> set ?n. r < x" using n(2) ok(2) by (auto simp: minimal_paths_def)
  with n(1) have "bs_ok (?n @ [x])" by (simp add: bs_ok_def sorted_wrt_append)
  moreover have "fold keep_root (xs @ [x]) [] = (if \<exists>m \<in> set ?n. path_starts_with x m then ?n else ?n @ [x])"
    by (simp add: keep_root_def[of x] list_ex_iff del: fold_simps)
  ultimately show ?case using n minimal_insert_last[OF ok(2)] by simp
qed

lemma normalize_minimal:
  "bs_ok (normalize_declared_roots roots)" "set (normalize_declared_roots roots) = minimal_paths (set roots)"
  using fold_keep_root[of "bs_of roots"] by (simp_all add: normalize_declared_roots_def)

lemma normalize_fixed: "normalize_declared_roots (normalize_declared_roots roots) = normalize_declared_roots roots"
proof (rule bs_ok_eqI)
  show "set (normalize_declared_roots (normalize_declared_roots roots)) = set (normalize_declared_roots roots)"
    unfolding normalize_minimal(2) by (auto simp: minimal_paths_def)
qed (simp_all add: normalize_minimal(1))

lemma normalize_covers:
  "(\<exists>r \<in> set (normalize_declared_roots roots). path_starts_with p r) \<longleftrightarrow> (\<exists>r \<in> set roots. path_starts_with p r)"
proof
  assume "\<exists>r \<in> set roots. path_starts_with p r"
  then obtain r where r: "r \<in> set roots" "path_starts_with p r" by blast
  with minimal_below[OF r(1)] path_starts_with_trans[OF r(2)]
  show "\<exists>r \<in> set (normalize_declared_roots roots). path_starts_with p r" unfolding normalize_minimal(2) by blast
qed (auto simp: normalize_minimal(2) minimal_paths_def)

lemma normalize_nonempty: "roots \<noteq> [] \<Longrightarrow> normalize_declared_roots roots \<noteq> []"
proof -
  assume "roots \<noteq> []"
  then have "\<exists>r \<in> set roots. path_starts_with (hd roots) r" by (intro bexI[of _ "hd roots"]) simp_all
  with normalize_covers[of roots "hd roots"] show "normalize_declared_roots roots \<noteq> []" by auto
qed

lemma normalize_length: "length (normalize_declared_roots roots) \<le> length roots"
proof -
  have "length (normalize_declared_roots roots) = card (minimal_paths (set roots))"
    using length_bs[OF normalize_minimal(1)] normalize_minimal(2) by simp
  also have "\<dots> \<le> card (set roots)" by (rule card_mono) (auto simp: minimal_paths_def)
  also have "\<dots> \<le> length roots" by (rule card_length)
  finally show ?thesis .
qed

lemma normalize_scope_valid: "normalize_scope scope = Inr s \<Longrightarrow> validate_scope s = Inr ()"
proof (cases scope)
  case (DeclaredPaths roots)
  moreover assume "normalize_scope scope = Inr s"
  ultimately show ?thesis
    using normalize_length[of roots] by (auto simp: check_root_count_def normalize_fixed normalize_nonempty)
qed simp

section \<open>Canonical sets\<close>

lemma canonical_fold:
  assumes "rfold (\<lambda>p result. if p \<in> set result then Inl e else Inr (bs_insert p result)) paths acc = Inr s"
  shows "s = fold bs_insert paths acc \<and> distinct paths \<and> set paths \<inter> set acc = {}"
  using assms
proof (induction paths arbitrary: acc)
  case (Cons p paths)
  then have "p \<notin> set acc"
    and "rfold (\<lambda>p result. if p \<in> set result then Inl e else Inr (bs_insert p result)) paths (bs_insert p acc) = Inr s"
    by (auto split: if_splits)
  with Cons.IH[of "bs_insert p acc"] show ?case by auto
qed simp

lemma canonical_fold_total:
  "distinct paths \<Longrightarrow> set paths \<inter> set acc = {}
   \<Longrightarrow> rfold (\<lambda>p result. if p \<in> set result then Inl e else Inr (bs_insert p result)) paths acc
     = Inr (fold bs_insert paths acc)"
  by (induction paths arbitrary: acc) auto

lemma canonical_declared_set_eq_Inr:
  "canonical_declared_set paths label = Inr s \<longleftrightarrow>
     s = bs_of paths \<and> distinct paths
     \<and> length paths \<le> (if label = ''acquisition_exclusion'' then MAX_EXCLUSIONS else MAX_SCOPE_ROOTS)"
  (is "_ \<longleftrightarrow> _ \<and> _ \<and> length paths \<le> ?limit")
proof -
  have "rfold (\<lambda>p result. if p \<in> set result then Inl e else Inr (bs_insert p result)) paths [] = Inr s
      \<longleftrightarrow> s = bs_of paths \<and> distinct paths" for e
    using canonical_fold[of e paths "[]" s] canonical_fold_total[of paths "[]" e] by (auto simp: bs_of_def)
  then show ?thesis unfolding canonical_declared_set_def Let_def rbind_eq_Inr reject_eq_Inr not_less by simp blast
qed

lemma canonical_again: "canonical_declared_set paths label = Inr s \<Longrightarrow> canonical_declared_set s label = Inr s"
proof -
  assume "canonical_declared_set paths label = Inr s"
  then have s: "s = bs_of paths" "distinct paths"
    and len: "length paths \<le> (if label = ''acquisition_exclusion'' then MAX_EXCLUSIONS else MAX_SCOPE_ROOTS)"
    unfolding canonical_declared_set_eq_Inr by blast+
  have "bs_of s = s" by (rule bs_ok_eqI) (simp_all add: s(1))
  moreover have "length s = length paths" using length_bs[OF bs_ok_of[of paths]] s by (simp add: distinct_card)
  moreover have "distinct s" by (simp add: s(1) bs_ok_distinct)
  ultimately show ?thesis using len unfolding canonical_declared_set_eq_Inr by simp
qed

section \<open>Requests\<close>

lemma acquisition_request_new_verifies:
  assumes "acquisition_request_new Q acquisition_id scope residency noise budget exclusions = Inr r"
    and "ar_manifest_sha256 r \<noteq> zero_digest"
  shows "acquisition_request_verify Q r = Inr ()"
proof -
  from assms(1) obtain s parsed canonical where
      s: "acquisition_budget_validate budget = Inr ()" "normalize_scope scope = Inr s"
        "canonical_declared_set parsed ''acquisition_exclusion'' = Inr canonical"
        "validate_non_overlapping_exclusions canonical = Inr ()" "validate_scope_exclusion_separation s canonical = Inr ()"
    and r: "ar_budget r = budget" "ar_scope r = s" "ar_exclusions r = canonical"
        "ar_manifest_sha256 r = request_digest Q (r\<lparr>ar_manifest_sha256 := zero_digest\<rparr>)"
    by (auto simp: acquisition_request_new_def Let_def)
  have "request_digest Q r = ar_manifest_sha256 r" by (subst r(4)) (simp add: request_digest_def)
  with s r(1-3) assms(2) normalize_scope_valid[OF s(2)] canonical_again[OF s(3)] show ?thesis
    by (simp add: acquisition_request_verify_def is_draft_def)
qed

end
