(* ===== verification/Acquisition_Envelope.thy ===== *)
theory Acquisition_Envelope
  imports Acquisition_Request
begin

text \<open>
  The manifest of a captured source tree, after \<open>src/capability/acquisition_contract.rs\<close>: directory
  commitments, the structure an envelope must have, its digest and its verification.
\<close>

section \<open>Commitments\<close>

definition hash_frame :: "string \<Rightarrow> string res" where
  "hash_frame bytes =
     (if length bytes < 2 ^ 64 then Inr (to_be_bytes (length bytes) @ bytes)
      else Inl (Integrity ''acquisition_hash_frame_too_large''))"

definition finalize_digest :: "(string \<Rightarrow> digest) \<Rightarrow> string \<Rightarrow> digest res" where
  "finalize_digest sha hashed = sha256_digest_parse (sha hashed)"

text \<open>What a directory hashes: its path, the number of children, and of each its name, kind and digest.\<close>

type_synonym commitment = "path \<times> snapshot_entry_kind \<times> digest"

definition kind_byte :: "snapshot_entry_kind \<Rightarrow> char" where
  "kind_byte k = (case k of FileEntry \<Rightarrow> CHR 0x01 | DirectoryEntry \<Rightarrow> CHR 0x02)"

definition hash_child :: "commitment \<Rightarrow> string \<Rightarrow> string res" where
  "hash_child c hashed =
     (case c of (name, kind, d) \<Rightarrow>
        rbind (hash_frame (os_bytes name)) (\<lambda>name.
        rbind (hash_frame d) (\<lambda>d. Inr (hashed @ name @ [kind_byte kind] @ d))))"

definition directory_image :: "path \<Rightarrow> commitment list \<Rightarrow> string res" where
  "directory_image relative children =
     rbind (hash_frame (os_bytes relative)) (\<lambda>frame.
     rbind (reject (2 ^ 64 \<le> length children) (Integrity ''acquisition_child_count_overflow'')) (\<lambda>_.
     rfold hash_child children (DIRECTORY_DOMAIN @ frame @ to_be_bytes (length children))))"

definition directory_digest :: "(string \<Rightarrow> digest) \<Rightarrow> path \<Rightarrow> commitment list \<Rightarrow> digest res" where
  "directory_digest sha relative children =
     rbind (directory_image relative children) (finalize_digest sha)"

section \<open>Counting\<close>

definition add_manifest_path_bytes :: "nat \<Rightarrow> path \<Rightarrow> nat res" where
  "add_manifest_path_bytes current p =
     rbind (reject (2 ^ 64 \<le> length (os_bytes p)) (Integrity ''acquisition_manifest_path_size_overflow'')) (\<lambda>_.
     ok_or (checked_add 64 current (length (os_bytes p))) (Integrity ''acquisition_manifest_path_size_overflow''))"

definition checked_increment :: "nat \<Rightarrow> string \<Rightarrow> nat res" where
  "checked_increment v label = ok_or (checked_add 64 v 1) (Integrity label)"

section \<open>The structure of an envelope\<close>

definition envelope_header :: "system_envelope \<Rightarrow> unit res" where
  "envelope_header e =
     rbind (reject (is_draft (sv_acquisition_request_sha256 e) \<or> is_draft (sv_manifest_sha256 e) \<or> sv_entries e = []
              \<or> MAX_MANIFEST_ENTRIES < length (sv_entries e) \<or> MAX_EXCLUSIONS < length (sv_excluded_paths e))
              (Integrity ''system_envelope_structure_invalid'')) (\<lambda>_.
     rbind (case sv_completeness e of
              WholeTree \<Rightarrow>
                reject (sv_projection_roots e \<noteq> []) (Integrity ''system_envelope_whole_tree_has_projection_roots'')
            | DeclaredScopeOnly \<Rightarrow>
                reject (sv_projection_roots e = []
                  \<or> normalize_declared_roots (sv_projection_roots e) \<noteq> sv_projection_roots e)
                  (Integrity ''system_envelope_projection_roots_not_canonical'')) (\<lambda>_.
     reject (MAX_MANIFEST_ENTRIES < saturating_add 64 (length (sv_entries e)) (length (sv_excluded_paths e)))
       (Integrity ''system_envelope_manifest_entry_limit_exceeded'')))"

definition envelope_root :: "system_envelope \<Rightarrow> unit res" where
  "envelope_root e =
     (case sv_entries e of
        [] \<Rightarrow> Inl (Integrity ''system_envelope_root_missing'')
      | root # _ \<Rightarrow>
          rbind (reject (\<not> (se_relative_path root = [] \<and> se_kind root = DirectoryEntry))
                   (Integrity ''system_envelope_root_missing'')) (\<lambda>_.
          reject (se_byte_len root \<noteq> 0 \<or> se_executable root) (Integrity ''system_envelope_root_invalid'')))"

record envelope_scan =
  previous_entry :: "path option"
  scanned_file_bytes :: nat
  scanned_path_bytes :: nat
  directory_count :: nat
  entry_by_path :: "(path, manifest_entry) bmap"

definition scan_entry :: "manifest_entry \<Rightarrow> envelope_scan \<Rightarrow> envelope_scan res" where
  "scan_entry en s =
     rbind (reject (case previous_entry s of None \<Rightarrow> False | Some p \<Rightarrow> \<not> p < se_relative_path en)
              (Integrity ''system_envelope_entries_not_canonical'')) (\<lambda>_.
     rbind (if se_relative_path en = [] then Inr ()
            else validate_observed_relative_path (os_bytes (se_relative_path en))) (\<lambda>_.
     rbind (add_manifest_path_bytes (scanned_path_bytes s) (se_relative_path en)) (\<lambda>path_bytes.
     rbind (reject (se_sha256 en = zero_digest) (Integrity ''system_envelope_entry_digest_zero'')) (\<lambda>_.
     rbind (case se_kind en of
              DirectoryEntry \<Rightarrow>
                rbind (reject (se_byte_len en \<noteq> 0 \<or> se_executable en)
                         (Integrity ''system_envelope_directory_entry_invalid'')) (\<lambda>_. Inr (scanned_file_bytes s))
            | FileEntry \<Rightarrow> ok_or (checked_add 64 (scanned_file_bytes s) (se_byte_len en))
                (Integrity ''system_envelope_byte_count_overflow'')) (\<lambda>file_bytes.
     rbind (if se_kind en = DirectoryEntry
            then rbind (checked_increment (directory_count s) ''system_envelope_directory_count_overflow'') (\<lambda>n.
                 rbind (reject (MAX_CAPTURED_DIRECTORIES < n)
                          (Integrity ''system_envelope_directory_limit_exceeded'')) (\<lambda>_. Inr n))
            else Inr (directory_count s)) (\<lambda>directories.
     Inr \<lparr>previous_entry = Some (se_relative_path en), scanned_file_bytes = file_bytes,
          scanned_path_bytes = path_bytes, directory_count = directories,
          entry_by_path = bm_insert (se_relative_path en) en (entry_by_path s)\<rparr>))))))"

definition scan_entries :: "manifest_entry list \<Rightarrow> envelope_scan res" where
  "scan_entries entries =
     rfold scan_entry entries
       \<lparr>previous_entry = None, scanned_file_bytes = 0, scanned_path_bytes = 0, directory_count = 0, entry_by_path = []\<rparr>"

definition scan_excluded ::
  "system_envelope \<Rightarrow> excluded_path \<Rightarrow> path option \<times> nat \<Rightarrow> (path option \<times> nat) res" where
  "scan_excluded e x = (\<lambda>(previous, path_bytes).
     rbind (reject (ex_relative_path x = []) (Integrity ''system_envelope_excluded_root_invalid'')) (\<lambda>_.
     rbind (validate_observed_relative_path (os_bytes (ex_relative_path x))) (\<lambda>_.
     rbind (reject (case previous of None \<Rightarrow> False | Some p \<Rightarrow> \<not> p < ex_relative_path x)
              (Integrity ''system_envelope_exclusions_not_canonical'')) (\<lambda>_.
     rbind (reject (list_ex (\<lambda>en. se_relative_path en \<noteq> []
                \<and> (se_relative_path en = ex_relative_path x
                   \<or> path_starts_with (se_relative_path en) (ex_relative_path x))) (sv_entries e))
              (Integrity ''system_envelope_exclusion_contains_entry'')) (\<lambda>_.
     rbind (add_manifest_path_bytes path_bytes (ex_relative_path x)) (\<lambda>path_bytes.
     Inr (Some (ex_relative_path x), path_bytes)))))))"

definition below_projection :: "system_envelope \<Rightarrow> path \<Rightarrow> bool" where
  "below_projection e p \<longleftrightarrow> list_ex (path_starts_with p) (sv_projection_roots e)"

type_synonym child_map = "(path, manifest_entry list) bmap"

definition add_child :: "path \<Rightarrow> manifest_entry \<Rightarrow> child_map \<Rightarrow> child_map" where
  "add_child parent en m = bm_insert parent ((case map_of m parent of None \<Rightarrow> [] | Some es \<Rightarrow> es) @ [en]) m"

definition place_entry ::
  "system_envelope \<Rightarrow> (path, manifest_entry) bmap \<Rightarrow> manifest_entry \<Rightarrow> child_map \<Rightarrow> child_map res" where
  "place_entry e by_path en m =
     rbind (reject (sv_completeness e = DeclaredScopeOnly \<and> \<not> below_projection e (se_relative_path en))
              (Integrity ''system_envelope_entry_outside_projection'')) (\<lambda>_.
     if sv_completeness e = DeclaredScopeOnly \<and> se_relative_path en \<in> set (sv_projection_roots e) then Inr m
     else rbind (ok_or (path_parent (se_relative_path en)) (Integrity ''system_envelope_entry_parent_missing'')) (\<lambda>parent.
          rbind (ok_or (map_of by_path parent) (Integrity ''system_envelope_entry_parent_not_captured'')) (\<lambda>parent_entry.
          rbind (reject (se_kind parent_entry \<noteq> DirectoryEntry)
                   (Integrity ''system_envelope_entry_parent_not_directory'')) (\<lambda>_.
          Inr (add_child parent en m)))))"

definition root_commitment :: "(path, manifest_entry) bmap \<Rightarrow> path \<Rightarrow> commitment list \<Rightarrow> commitment list res" where
  "root_commitment by_path root acc =
     rbind (ok_or (map_of by_path root) (Integrity ''system_envelope_projection_root_missing'')) (\<lambda>child.
     Inr (acc @ [(root, se_kind child, se_sha256 child)]))"

definition child_commitment :: "manifest_entry \<Rightarrow> commitment list \<Rightarrow> commitment list res" where
  "child_commitment child acc =
     rbind (ok_or (path_file_name (se_relative_path child)) (Integrity ''system_envelope_child_name_missing'')) (\<lambda>name.
     Inr (acc @ [([Normal name], se_kind child, se_sha256 child)]))"

definition directory_commitments ::
  "system_envelope \<Rightarrow> (path, manifest_entry) bmap \<Rightarrow> child_map \<Rightarrow> path \<Rightarrow> commitment list res" where
  "directory_commitments e by_path children p =
     (if p = [] \<and> sv_completeness e = DeclaredScopeOnly
      then rfold (root_commitment by_path) (sv_projection_roots e) []
      else rfold child_commitment (case map_of children p of None \<Rightarrow> [] | Some es \<Rightarrow> es) [])"

definition check_directory ::
  "(string \<Rightarrow> digest) \<Rightarrow> system_envelope \<Rightarrow> (path, manifest_entry) bmap \<Rightarrow> child_map \<Rightarrow> manifest_entry \<Rightarrow> unit res" where
  "check_directory sha e by_path children directory =
     rbind (directory_commitments e by_path children (se_relative_path directory)) (\<lambda>commitments.
     rbind (directory_digest sha (se_relative_path directory) commitments) (\<lambda>d.
     reject (d \<noteq> se_sha256 directory) (Integrity ''system_envelope_directory_commitment_mismatch'')))"

definition validate_envelope_structure :: "(string \<Rightarrow> digest) \<Rightarrow> system_envelope \<Rightarrow> unit res" where
  "validate_envelope_structure sha e =
     rbind (envelope_header e) (\<lambda>_.
     rbind (envelope_root e) (\<lambda>_.
     rbind (scan_entries (sv_entries e)) (\<lambda>s.
     rbind (reject (scanned_file_bytes s \<noteq> sv_total_file_bytes e)
              (Integrity ''system_envelope_total_bytes_mismatch'')) (\<lambda>_.
     rbind (rfold (scan_excluded e) (sv_excluded_paths e) (None, scanned_path_bytes s)) (\<lambda>(_, path_bytes).
     rbind (rfold (\<lambda>root n. add_manifest_path_bytes n root) (sv_projection_roots e) path_bytes) (\<lambda>path_bytes.
     rbind (reject (MAX_MANIFEST_PATH_BYTES < path_bytes)
              (Integrity ''system_envelope_manifest_path_limit_exceeded'')) (\<lambda>_.
     rbind (rfor (\<lambda>root. reject (map_of (entry_by_path s) root = None)
                    (Integrity ''system_envelope_projection_root_missing'')) (bs_of (sv_projection_roots e))) (\<lambda>_.
     rbind (rfold (place_entry e (entry_by_path s)) (drop 1 (sv_entries e)) []) (\<lambda>children.
     rbind (rfor (\<lambda>x. reject (sv_completeness e = DeclaredScopeOnly \<and> \<not> below_projection e (ex_relative_path x))
                    (Integrity ''system_envelope_exclusion_outside_projection'')) (sv_excluded_paths e)) (\<lambda>_.
     rfor (check_directory sha e (entry_by_path s) children)
       (filter (\<lambda>en. se_kind en = DirectoryEntry) (sv_entries e))))))))))))"

section \<open>The sealed envelope\<close>

definition envelope_digest :: "acquisition_codec \<Rightarrow> system_envelope \<Rightarrow> digest" where
  "envelope_digest Q e =
     digest_domain (aq_sha Q) ENVELOPE_DOMAIN (envelope_to_vec Q (e\<lparr>sv_manifest_sha256 := zero_digest\<rparr>))"

definition verify_manifest :: "acquisition_codec \<Rightarrow> system_envelope \<Rightarrow> unit res" where
  "verify_manifest Q e =
     rbind (validate_envelope_structure (aq_sha Q) e) (\<lambda>_.
     reject (is_draft (sv_manifest_sha256 e) \<or> envelope_digest Q e \<noteq> sv_manifest_sha256 e)
       (Integrity ''system_envelope_digest_mismatch''))"

end
