(* ===== verification/Acquisition_Capture.thy ===== *)
theory Acquisition_Capture
  imports Acquisition_Envelope
begin

unbundle bit_operations_syntax

text \<open>
  The capture of a source tree, after \<open>src/capability/acquisition_contract.rs\<close>. The source is an adversary:
  a node holds what each system call on that object answers, so objects may be replaced, grow, shrink or
  vanish between two calls, and nothing is assumed of the answers.
\<close>

section \<open>What the system answers\<close>

datatype file_type = Directory | RegularFile | Symlink | SpecialFile

record file_stat =
  st_dev :: nat
  st_ino :: nat
  st_type :: file_type
  st_perm :: nat
  st_uid :: nat
  st_gid :: nat
  st_size :: int
  st_mtime :: int
  st_mtime_nsec :: nat
  st_ctime :: int
  st_ctime_nsec :: nat

text \<open>
  Of one object: \<open>fstat\<close> of the \<open>O_PATH\<close> descriptor, \<open>fstat\<close> after it was opened for reading, what \<open>readdir\<close>
  answers, the objects \<open>openat2\<close> finds under each name, what \<open>read\<close> answers, and the last \<open>fstat\<close>. Names are
  file names: the kernel returns none with a separator.
\<close>

datatype source_node = SourceNode
  (node_inspected: "file_stat res")
  (node_opened: "file_stat res")
  (node_listing: "string res list")
  (node_children: "(string \<times> source_node) list")
  (node_reads: "string res list")
  (node_final: "file_stat res")

text \<open>The pinned root: its \<open>fstat\<close> when it was opened, before the capture and after it.\<close>

record capture_session =
  session_pinned :: file_stat
  session_before :: "file_stat res"
  session_root :: source_node
  session_after :: "file_stat res"

section \<open>Descriptors\<close>

definition ensure_expected_object :: "file_stat \<Rightarrow> file_type \<Rightarrow> unit res" where
  "ensure_expected_object st expected =
     reject (st_type st \<noteq> expected) (Integrity ''acquisition_source_object_type_changed'')"

definition same_object_identity :: "file_stat \<Rightarrow> file_stat \<Rightarrow> bool" where
  "same_object_identity l r \<longleftrightarrow> st_dev l = st_dev r \<and> st_ino l = st_ino r"

definition ensure_same_object :: "file_stat \<Rightarrow> file_stat \<Rightarrow> file_type \<Rightarrow> unit res" where
  "ensure_same_object before after expected =
     rbind (ensure_expected_object before expected) (\<lambda>_.
     rbind (ensure_expected_object after expected) (\<lambda>_.
     reject (\<not> same_object_identity before after) (Integrity ''acquisition_source_object_replaced'')))"

definition ensure_stable_object :: "file_stat \<Rightarrow> file_stat \<Rightarrow> file_type \<Rightarrow> unit res" where
  "ensure_stable_object before after expected =
     rbind (ensure_same_object before after expected) (\<lambda>_.
     reject (st_type before \<noteq> st_type after \<or> st_perm before \<noteq> st_perm after \<or> st_size before \<noteq> st_size after
        \<or> st_mtime before \<noteq> st_mtime after \<or> st_mtime_nsec before \<noteq> st_mtime_nsec after
        \<or> st_ctime before \<noteq> st_ctime after \<or> st_ctime_nsec before \<noteq> st_ctime_nsec after)
       (Integrity ''acquisition_source_object_mutated_during_capture''))"

definition ensure_same_directory_binding :: "file_stat \<Rightarrow> file_stat \<Rightarrow> unit res" where
  "ensure_same_directory_binding before after =
     rbind (ensure_same_object before after Directory) (\<lambda>_.
     reject (st_type before \<noteq> st_type after \<or> st_perm before \<noteq> st_perm after
        \<or> st_uid before \<noteq> st_uid after \<or> st_gid before \<noteq> st_gid after)
       (Integrity ''acquisition_private_root_binding_changed''))"

definition current_source_root_stat :: "file_stat \<Rightarrow> file_stat res \<Rightarrow> file_stat res" where
  "current_source_root_stat pinned observed =
     rbind observed (\<lambda>current. rbind (ensure_same_object pinned current Directory) (\<lambda>_. Inr current))"

definition open_directory_beneath :: "file_stat \<Rightarrow> source_node \<Rightarrow> file_stat res" where
  "open_directory_beneath inspected n =
     rbind (ensure_expected_object inspected Directory) (\<lambda>_.
     rbind (node_opened n) (\<lambda>opened.
     rbind (ensure_same_object inspected opened Directory) (\<lambda>_. Inr opened)))"

section \<open>Roots\<close>

text \<open>\<open>open_confined_root\<close>, given what opening the path answers.\<close>

definition open_confined_root :: "path \<Rightarrow> string \<Rightarrow> file_stat res \<Rightarrow> file_stat res" where
  "open_confined_root root label opened =
     rbind (reject (\<not> is_absolute root \<or> root = [RootDir] \<or> \<not> list_all (\<lambda>c. c = RootDir \<or> is_normal c) root)
              (Invalid (label @ ''_invalid''))) (\<lambda>_.
     rbind (ok_or (strip_prefix [RootDir] root) (Invalid (label @ ''_invalid''))) (\<lambda>_.
     rbind opened (\<lambda>st.
     rbind (reject (st_type st \<noteq> Directory) (Integrity (label @ ''_invalid''))) (\<lambda>_. Inr st))))"

definition MAX_DESCRIPTOR_ANCESTORS :: nat where "MAX_DESCRIPTOR_ANCESTORS = 16 * 1024"

text \<open>The climb along \<open>..\<close>: per round \<open>fstat\<close> of the directory and of its parent.\<close>

fun climb :: "nat \<Rightarrow> file_stat \<Rightarrow> (file_stat res \<times> file_stat res) list \<Rightarrow> bool res" where
  "climb 0 ancestor _ = Inl (Integrity ''acquisition_root_ancestry_limit_exceeded'')"
| "climb (Suc n) ancestor [] = Inl (Io OtherIo)"
| "climb (Suc n) ancestor ((current, parent) # rest) =
     rbind current (\<lambda>current.
     rbind (ensure_expected_object current Directory) (\<lambda>_.
     if same_object_identity ancestor current then Inr True
     else rbind parent (\<lambda>parent.
          rbind (ensure_expected_object parent Directory) (\<lambda>_.
          if same_object_identity current parent then Inr False
          else climb n ancestor rest))))"

definition descriptor_is_ancestor :: "file_stat \<Rightarrow> (file_stat res \<times> file_stat res) list \<Rightarrow> bool res" where
  "descriptor_is_ancestor ancestor ascent = climb MAX_DESCRIPTOR_ANCESTORS ancestor ascent"

type_synonym pinned_root = "file_stat \<times> (file_stat res \<times> file_stat res) list"

definition ensure_disjoint_descriptors :: "pinned_root \<Rightarrow> pinned_root \<Rightarrow> unit res" where
  "ensure_disjoint_descriptors source private =
     rbind (descriptor_is_ancestor (fst source) (snd private)) (\<lambda>above.
     rbind (if above then Inr True else descriptor_is_ancestor (fst private) (snd source)) (\<lambda>overlap.
     reject overlap (Invalid ''acquisition_source_private_root_overlap'')))"

section \<open>Counting\<close>

record capture_context =
  cc_entries :: "manifest_entry list"
  cc_excluded :: "excluded_path list"
  cc_visited :: "(nat \<times> nat) list"
  cc_file_count :: nat
  cc_total_file_bytes :: nat
  cc_traversed_entries :: nat
  cc_traversed_name_bytes :: nat
  cc_captured_directories :: nat
  cc_manifest_entries :: nat
  cc_manifest_path_bytes :: nat

text \<open>What does not change during a capture.\<close>

record capture_rules =
  cr_sha :: "string \<Rightarrow> digest"
  cr_selected :: "path bset"
  cr_exclusions :: "path bset"
  cr_budget :: acquisition_budget
  cr_noise :: noise_policy

definition empty_context :: capture_context where
  "empty_context =
     \<lparr>cc_entries = [], cc_excluded = [], cc_visited = [], cc_file_count = 0, cc_total_file_bytes = 0,
      cc_traversed_entries = 0, cc_traversed_name_bytes = 0, cc_captured_directories = 0,
      cc_manifest_entries = 0, cc_manifest_path_bytes = 0\<rparr>"

definition admit_manifest_path :: "path \<Rightarrow> capture_context \<Rightarrow> capture_context res" where
  "admit_manifest_path p c =
     rbind (checked_increment (cc_manifest_entries c) ''acquisition_manifest_entry_count_overflow'') (\<lambda>entries.
     rbind (add_manifest_path_bytes (cc_manifest_path_bytes c) p) (\<lambda>path_bytes.
     rbind (reject (MAX_MANIFEST_ENTRIES < entries \<or> MAX_MANIFEST_PATH_BYTES < path_bytes)
              (Invalid ''acquisition_manifest_limit_exceeded'')) (\<lambda>_.
     Inr (c\<lparr>cc_manifest_entries := entries, cc_manifest_path_bytes := path_bytes\<rparr>))))"

definition push_entry :: "manifest_entry \<Rightarrow> capture_context \<Rightarrow> capture_context" where
  "push_entry en c = c\<lparr>cc_entries := cc_entries c @ [en]\<rparr>"

definition admit_excluded_path :: "path \<Rightarrow> exclusion_reason \<Rightarrow> capture_context \<Rightarrow> capture_context res" where
  "admit_excluded_path p reason c =
     rbind (admit_manifest_path p c) (\<lambda>c.
     rbind (reject (MAX_EXCLUSIONS \<le> length (cc_excluded c))
              (Invalid ''acquisition_excluded_path_limit_exceeded'')) (\<lambda>_.
     rbind (observed_path_parse (os_bytes p)) (\<lambda>p.
     Inr (c\<lparr>cc_excluded := cc_excluded c @ [\<lparr>ex_relative_path = p, ex_reason = reason\<rparr>]\<rparr>))))"

section \<open>Selection and exclusion\<close>

definition is_selected :: "path \<Rightarrow> path bset \<Rightarrow> bool" where
  "is_selected p selected \<longleftrightarrow>
     list_ex (\<lambda>root. root = [] \<or> p = root \<or> path_starts_with p root \<or> path_starts_with root p) selected"

definition GENERATED_DIRECTORIES :: "string list" where
  "GENERATED_DIRECTORIES =
     [''.git'', ''.hg'', ''.svn'', ''.venv'', ''venv'', ''node_modules'', ''__pycache__'', ''.pytest_cache'',
      ''.mypy_cache'', ''.ruff_cache'', ''.tox'', ''.nox'', ''target'', ''CMakeFiles'', ''bazel-out'', ''buck-out'']"

definition GENERATED_SUFFIXES :: "string list" where
  "GENERATED_SUFFIXES =
     [''.pyc'', ''.pyo'', ''.class'', ''.o'', ''.obj'', ''.a'', ''.so'', ''.dylib'', ''.dll'', ''.exe'', ''.log'',
      ''.tmp'', ''.swp'', ''.bak'', ''~'']"

definition name_ends_with :: "string \<Rightarrow> string \<Rightarrow> bool" where
  "name_ends_with name suffix \<longleftrightarrow> length suffix \<le> length name \<and> drop (length name - length suffix) name = suffix"

definition is_conservative_generated_artifact :: "path \<Rightarrow> bool" where
  "is_conservative_generated_artifact p \<longleftrightarrow>
     list_ex (\<lambda>c. case c of Normal name \<Rightarrow> List.member GENERATED_DIRECTORIES name | _ \<Rightarrow> False) p
     \<or> (case path_file_name p of
          None \<Rightarrow> False
        | Some name \<Rightarrow> utf8_valid name \<and> list_ex (name_ends_with name) GENERATED_SUFFIXES)"

text \<open>The path relative to the first selected root it lies strictly below.\<close>

fun policy_relative :: "path \<Rightarrow> path list \<Rightarrow> path option" where
  "policy_relative p [] = None"
| "policy_relative p (root # roots) =
     (case (if root = [] then Some p else if p = root then None else strip_prefix root p) of
        Some candidate \<Rightarrow> Some candidate
      | None \<Rightarrow> policy_relative p roots)"

definition exclusion_reason_of :: "capture_rules \<Rightarrow> path \<Rightarrow> exclusion_reason option" where
  "exclusion_reason_of R p =
     (if list_ex (\<lambda>excluded. p = excluded \<or> path_starts_with p excluded) (cr_exclusions R) then Some ExplicitRequest
      else if cr_noise R = ConservativeGeneratedArtifacts
              \<and> (case policy_relative p (cr_selected R) of
                   None \<Rightarrow> False
                 | Some candidate \<Rightarrow> candidate \<noteq> [] \<and> is_conservative_generated_artifact candidate)
      then Some GeneratedArtifactPolicy
      else None)"

section \<open>Files\<close>

fun stream_file :: "nat \<Rightarrow> nat \<Rightarrow> string res list \<Rightarrow> nat \<Rightarrow> string \<Rightarrow> (nat \<times> string) res" where
  "stream_file expected_len remaining [] actual_len acc = Inr (actual_len, acc)"
| "stream_file expected_len remaining (r # rs) actual_len acc =
     rbind r (\<lambda>bytes.
     if bytes = [] then Inr (actual_len, acc)
     else rbind (ok_or (checked_add 64 actual_len (length bytes)) (Integrity ''acquisition_byte_count_overflow'')) (\<lambda>len.
          rbind (reject (remaining < len) (Invalid ''acquisition_budget_exceeded'')) (\<lambda>_.
          rbind (reject (expected_len < len) (Integrity ''acquisition_file_length_changed_during_capture'')) (\<lambda>_.
          stream_file expected_len remaining rs len (acc @ bytes)))))"

definition is_executable :: "file_stat \<Rightarrow> bool" where
  "is_executable st \<longleftrightarrow> st_perm st AND 73 \<noteq> 0"

definition file_image :: "path \<Rightarrow> bool \<Rightarrow> nat \<Rightarrow> string res" where
  "file_image relative executable expected_len =
     rbind (hash_frame (os_bytes relative)) (\<lambda>frame.
     Inr (FILE_DOMAIN @ frame @ [if executable then CHR 0x01 else CHR 0x00] @ to_be_bytes expected_len))"

definition capture_file ::
  "capture_rules \<Rightarrow> path \<Rightarrow> source_node \<Rightarrow> file_stat \<Rightarrow> capture_context \<Rightarrow> (digest \<times> capture_context) res" where
  "capture_file R relative n inspected c =
     rbind (ensure_expected_object inspected RegularFile) (\<lambda>_.
     rbind (checked_increment (cc_file_count c) ''acquisition_file_count_overflow'') (\<lambda>next_file_count.
     rbind (reject (max_files (cr_budget R) < next_file_count) (Invalid ''acquisition_budget_exceeded'')) (\<lambda>_.
     rbind (node_opened n) (\<lambda>opened.
     rbind (ensure_same_object inspected opened RegularFile) (\<lambda>_.
     rbind (reject (st_size opened < 0) (Integrity ''acquisition_file_size_invalid'')) (\<lambda>_.
     let expected_len = nat (st_size opened) in
     rbind (ok_or (checked_sub (max_total_bytes (cr_budget R)) (cc_total_file_bytes c))
              (Integrity ''acquisition_byte_budget_underflow'')) (\<lambda>remaining.
     rbind (reject (remaining < expected_len) (Invalid ''acquisition_budget_exceeded'')) (\<lambda>_.
     rbind (file_image relative (is_executable opened) expected_len) (\<lambda>image.
     rbind (stream_file expected_len remaining (node_reads n) 0 []) (\<lambda>(actual_len, bytes).
     rbind (node_final n) (\<lambda>final.
     rbind (ensure_stable_object opened final RegularFile) (\<lambda>_.
     rbind (reject (actual_len \<noteq> expected_len) (Integrity ''acquisition_file_length_changed_during_capture'')) (\<lambda>_.
     rbind (finalize_digest (cr_sha R) (image @ bytes)) (\<lambda>d.
     rbind (ok_or (checked_add 64 (cc_total_file_bytes c) actual_len) (Integrity ''acquisition_byte_count_overflow'')) (\<lambda>total.
     rbind (admit_manifest_path relative (c\<lparr>cc_file_count := next_file_count, cc_total_file_bytes := total\<rparr>)) (\<lambda>c.
     rbind (observed_path_parse (os_bytes relative)) (\<lambda>p.
     Inr (d, push_entry \<lparr>se_relative_path = p, se_kind = FileEntry, se_byte_len = actual_len,
                          se_executable = is_executable opened, se_sha256 = d\<rparr> c))))))))))))))))))"

section \<open>Directories\<close>

text \<open>The first loop: count every name, keep those in the selected scope.\<close>

definition scan_name ::
  "capture_rules \<Rightarrow> path \<Rightarrow> string res \<Rightarrow> string list \<times> nat \<times> capture_context
   \<Rightarrow> (string list \<times> nat \<times> capture_context) res" where
  "scan_name R relative answer = (\<lambda>(names, children, c).
     rbind answer (\<lambda>name.
     if name = ''.'' \<or> name = ''..'' then Inr (names, children, c)
     else rbind (checked_increment children ''acquisition_directory_child_count_overflow'') (\<lambda>children.
          rbind (checked_increment (cc_traversed_entries c) ''acquisition_traversed_entry_count_overflow'') (\<lambda>traversed.
          rbind (ok_or (checked_add 64 (cc_traversed_name_bytes c) (length name))
                   (Integrity ''acquisition_traversed_name_size_overflow'')) (\<lambda>name_bytes.
          rbind (reject (MAX_DIRECTORY_CHILDREN < children \<or> MAX_TRAVERSED_ENTRIES < traversed
                   \<or> MAX_TRAVERSED_NAME_BYTES < name_bytes) (Invalid ''acquisition_traversal_limit_exceeded'')) (\<lambda>_.
          let c = c\<lparr>cc_traversed_entries := traversed, cc_traversed_name_bytes := name_bytes\<rparr>;
              child = relative @ [Normal name]
          in if is_selected child (cr_selected R)
             then rbind (validate_observed_relative_path (os_bytes child)) (\<lambda>_. Inr (names @ [name], children, c))
             else Inr (names, children, c)))))))"

definition enter_directory ::
  "capture_rules \<Rightarrow> path \<Rightarrow> source_node \<Rightarrow> file_stat \<Rightarrow> capture_context \<Rightarrow> (string list \<times> capture_context) res" where
  "enter_directory R relative n initial c =
     rbind (ensure_expected_object initial Directory) (\<lambda>_.
     rbind (reject ((st_dev initial, st_ino initial) \<in> set (cc_visited c))
              (Integrity ''acquisition_directory_cycle_or_alias'')) (\<lambda>_.
     rbind (checked_increment (cc_captured_directories c) ''acquisition_directory_count_overflow'') (\<lambda>directories.
     rbind (reject (MAX_CAPTURED_DIRECTORIES < directories) (Invalid ''acquisition_directory_limit_exceeded'')) (\<lambda>_.
     rbind (admit_manifest_path relative
              (c\<lparr>cc_visited := (st_dev initial, st_ino initial) # cc_visited c, cc_captured_directories := directories\<rparr>)) (\<lambda>c.
     rbind (rfold (scan_name R relative) (node_listing n) ([], 0, c)) (\<lambda>(names, _, c).
     Inr (sort names, c)))))))"

definition leave_directory ::
  "capture_rules \<Rightarrow> path \<Rightarrow> source_node \<Rightarrow> file_stat \<Rightarrow> commitment list \<Rightarrow> capture_context
   \<Rightarrow> (digest \<times> capture_context) res" where
  "leave_directory R relative n initial commitments c =
     rbind (node_final n) (\<lambda>final.
     rbind (ensure_stable_object initial final Directory) (\<lambda>_.
     rbind (directory_digest (cr_sha R) relative commitments) (\<lambda>d.
     rbind (observed_path_parse (os_bytes relative)) (\<lambda>p.
     Inr (d, push_entry \<lparr>se_relative_path = p, se_kind = DirectoryEntry, se_byte_len = 0,
                          se_executable = False, se_sha256 = d\<rparr> c)))))"

text \<open>\<open>inspect_beneath\<close> of one name.\<close>

definition find_child :: "source_node \<Rightarrow> string \<Rightarrow> source_node res" where
  "find_child n name = ok_or (map_of (node_children n) name) (Io NotFound)"

text \<open>The second loop runs over the sorted names and enters the directories among them.\<close>

function capture_directory ::
    "capture_rules \<Rightarrow> path \<Rightarrow> source_node \<Rightarrow> file_stat \<Rightarrow> nat \<Rightarrow> capture_context \<Rightarrow> (digest \<times> capture_context) res"
  and capture_children ::
    "capture_rules \<Rightarrow> path \<Rightarrow> source_node \<Rightarrow> nat \<Rightarrow> string list \<Rightarrow> commitment list \<Rightarrow> capture_context
     \<Rightarrow> (commitment list \<times> capture_context) res"
where
  "capture_directory R relative n initial depth c =
     (if MAX_RELATIVE_COMPONENTS < depth then Inl (Invalid ''acquisition_directory_depth_limit_exceeded'')
      else rbind (enter_directory R relative n initial c) (\<lambda>(names, c).
           rbind (capture_children R relative n depth names [] c) (\<lambda>(commitments, c).
           leave_directory R relative n initial commitments c)))"
| "capture_children R relative n depth [] commitments c = Inr (commitments, c)"
| "capture_children R relative n depth (name # names) commitments c =
     (case exclusion_reason_of R (relative @ [Normal name]) of
        Some reason \<Rightarrow>
          rbind (admit_excluded_path (relative @ [Normal name]) reason c) (\<lambda>c.
          capture_children R relative n depth names commitments c)
      | None \<Rightarrow>
          rbind (find_child n name) (\<lambda>child.
          rbind (node_inspected child) (\<lambda>inspected.
          if st_type inspected = Directory then
            rbind (open_directory_beneath inspected child) (\<lambda>opened.
            rbind (capture_directory R (relative @ [Normal name]) child opened (depth + 1) c) (\<lambda>(d, c).
            capture_children R relative n depth names (commitments @ [([Normal name], DirectoryEntry, d)]) c))
          else if st_type inspected = RegularFile then
            rbind (capture_file R (relative @ [Normal name]) child inspected c) (\<lambda>(d, c).
            capture_children R relative n depth names (commitments @ [([Normal name], FileEntry, d)]) c)
          else if st_type inspected = Symlink then Inl (Integrity ''acquisition_source_symlink_forbidden'')
          else Inl (Integrity ''acquisition_source_special_file_forbidden''))))"
  by pat_completeness auto
termination
  by (relation "measures
        [\<lambda>x. case x of Inl (_, _, _, _, d, _) \<Rightarrow> if MAX_RELATIVE_COMPONENTS < d then 0 else 2 * (Suc MAX_RELATIVE_COMPONENTS - d) + 2
                   | Inr (_, _, _, d, _, _, _) \<Rightarrow> 2 * (Suc MAX_RELATIVE_COMPONENTS - d) + 1,
         \<lambda>x. case x of Inl _ \<Rightarrow> 0 | Inr (_, _, _, _, ns, _, _) \<Rightarrow> length ns]") auto

declare capture_directory.simps [simp del] capture_children.simps(2) [simp del]

section \<open>The whole source\<close>

text \<open>\<open>inspect_beneath\<close> of a path: an object on the way that is no directory cannot be passed.\<close>

fun find_beneath :: "source_node \<Rightarrow> path \<Rightarrow> source_node res" where
  "find_beneath n [] = Inr n"
| "find_beneath n (Normal name # p) =
     (case node_inspected n of
        Inl e \<Rightarrow> Inl e
      | Inr st \<Rightarrow> if st_type st \<noteq> Directory then Inl (Io OtherIo)
                 else rbind (find_child n name) (\<lambda>child. find_beneath child p))"
| "find_beneath n (_ # p) = Inl (Io OtherIo)"

definition capture_selected_root ::
  "capture_rules \<Rightarrow> source_node \<Rightarrow> path \<Rightarrow> commitment list \<times> capture_context \<Rightarrow> (commitment list \<times> capture_context) res" where
  "capture_selected_root R source_root selected_root = (\<lambda>(commitments, c).
     rbind (find_beneath source_root selected_root) (\<lambda>n.
     rbind (node_inspected n) (\<lambda>inspected.
     if st_type inspected = Directory then
       rbind (open_directory_beneath inspected n) (\<lambda>opened.
       rbind (capture_directory R selected_root n opened (length selected_root) c) (\<lambda>(d, c).
       Inr (commitments @ [(selected_root, DirectoryEntry, d)], c)))
     else if st_type inspected = RegularFile then
       rbind (capture_file R selected_root n inspected c) (\<lambda>(d, c).
       Inr (commitments @ [(selected_root, FileEntry, d)], c))
     else if st_type inspected = Symlink then Inl (Integrity ''acquisition_source_symlink_forbidden'')
     else Inl (Integrity ''acquisition_source_special_file_forbidden''))))"

definition capture_rules_of :: "acquisition_codec \<Rightarrow> acquisition_request \<Rightarrow> capture_rules" where
  "capture_rules_of Q r =
     \<lparr>cr_sha = aq_sha Q, cr_selected = selected_roots (ar_scope r), cr_exclusions = bs_of (ar_exclusions r),
      cr_budget = ar_budget r, cr_noise = ar_noise_policy r\<rparr>"

definition capture_scope :: "capture_rules \<Rightarrow> acquisition_scope \<Rightarrow> source_node \<Rightarrow> file_stat \<Rightarrow> capture_context res" where
  "capture_scope R scope source_root root_stat =
     (case scope of
        WholeProject \<Rightarrow>
          rbind (capture_directory R [] source_root root_stat 0 empty_context) (\<lambda>(_, c). Inr c)
      | DeclaredPaths _ \<Rightarrow>
          rbind (rfold (capture_selected_root R source_root) (cr_selected R) ([], empty_context)) (\<lambda>(commitments, c).
          rbind (directory_digest (cr_sha R) [] commitments) (\<lambda>d.
          rbind (admit_manifest_path [] c) (\<lambda>c.
          Inr (push_entry \<lparr>se_relative_path = [], se_kind = DirectoryEntry, se_byte_len = 0,
                           se_executable = False, se_sha256 = d\<rparr> c)))))"

definition validate_explicit_exclusion_coverage :: "excluded_path list \<Rightarrow> path bset \<Rightarrow> unit res" where
  "validate_explicit_exclusion_coverage observed requested =
     reject (bs_of (map ex_relative_path (filter (\<lambda>x. ex_reason x = ExplicitRequest) observed)) \<noteq> requested)
       (Integrity ''acquisition_explicit_exclusion_not_observed'')"

definition validate_requested_coverage :: "manifest_entry list \<Rightarrow> path bset \<Rightarrow> unit res" where
  "validate_requested_coverage entries selected =
     rfor (\<lambda>requested. reject (\<not> list_ex (\<lambda>en. se_relative_path en = requested) entries)
             (Integrity ''acquisition_declared_root_not_captured'')) selected"

definition scope_completeness :: "acquisition_scope \<Rightarrow> snapshot_completeness" where
  "scope_completeness scope = (case scope of WholeProject \<Rightarrow> WholeTree | DeclaredPaths _ \<Rightarrow> DeclaredScopeOnly)"

definition scope_projection :: "acquisition_scope \<Rightarrow> path list" where
  "scope_projection scope = (case scope of WholeProject \<Rightarrow> [] | DeclaredPaths roots \<Rightarrow> roots)"

definition capture_from_session ::
  "acquisition_codec \<Rightarrow> capture_session \<Rightarrow> acquisition_request \<Rightarrow> system_envelope res" where
  "capture_from_session Q S r =
     rbind (acquisition_request_verify Q r) (\<lambda>_.
     rbind (current_source_root_stat (session_pinned S) (session_before S)) (\<lambda>root_stat.
     let R = capture_rules_of Q r in
     rbind (capture_scope R (ar_scope r) (session_root S) root_stat) (\<lambda>c.
     rbind (current_source_root_stat (session_pinned S) (session_after S)) (\<lambda>_.
     let entries = sort_key se_relative_path (cc_entries c);
         excluded = sort_key ex_relative_path (cc_excluded c) in
     rbind (validate_explicit_exclusion_coverage excluded (cr_exclusions R)) (\<lambda>_.
     rbind (validate_requested_coverage entries (cr_selected R)) (\<lambda>_.
     let envelope = \<lparr>sv_acquisition_request_sha256 = ar_manifest_sha256 r,
                     sv_completeness = scope_completeness (ar_scope r),
                     sv_projection_roots = scope_projection (ar_scope r), sv_entries = entries,
                     sv_excluded_paths = excluded, sv_total_file_bytes = cc_total_file_bytes c,
                     sv_source_retention = ManifestOnly, sv_manifest_sha256 = zero_digest\<rparr>;
         envelope = envelope\<lparr>sv_manifest_sha256 := envelope_digest Q envelope\<rparr> in
     rbind (verify_manifest Q envelope) (\<lambda>_. Inr envelope)))))))"

definition verify_against_session ::
  "acquisition_codec \<Rightarrow> system_envelope \<Rightarrow> capture_session \<Rightarrow> acquisition_request \<Rightarrow> unit res" where
  "verify_against_session Q e S r =
     rbind (acquisition_request_verify Q r) (\<lambda>_.
     rbind (verify_manifest Q e) (\<lambda>_.
     rbind (reject (ar_manifest_sha256 r \<noteq> sv_acquisition_request_sha256 e)
              (Integrity ''system_envelope_request_binding_mismatch'')) (\<lambda>_.
     rbind (reject (scope_projection (ar_scope r) \<noteq> sv_projection_roots e)
              (Integrity ''system_envelope_projection_roots_mismatch'')) (\<lambda>_.
     rbind (capture_from_session Q S r) (\<lambda>observed.
     reject (observed \<noteq> e) (Integrity ''system_envelope_source_tree_mismatch''))))))"

section \<open>Sessions\<close>

text \<open>\<open>capture\<close> and \<open>verify_against\<close> open the source root first; \<open>opened\<close> is what that answers.\<close>

definition envelope_capture ::
  "acquisition_codec \<Rightarrow> path \<Rightarrow> file_stat res \<Rightarrow> capture_session \<Rightarrow> acquisition_request \<Rightarrow> system_envelope res" where
  "envelope_capture Q source_root opened S r =
     rbind (open_confined_root source_root ''acquisition_source_root'' opened) (\<lambda>pinned.
     capture_from_session Q (S\<lparr>session_pinned := pinned\<rparr>) r)"

definition envelope_verify_against ::
  "acquisition_codec \<Rightarrow> system_envelope \<Rightarrow> path \<Rightarrow> file_stat res \<Rightarrow> capture_session \<Rightarrow> acquisition_request \<Rightarrow> unit res" where
  "envelope_verify_against Q e source_root opened S r =
     rbind (open_confined_root source_root ''acquisition_source_root'' opened) (\<lambda>pinned.
     verify_against_session Q e (S\<lparr>session_pinned := pinned\<rparr>) r)"

text \<open>Both roots with what opening them answers and their climbs to the root of the file system.\<close>

definition session_open_disjoint ::
  "path \<Rightarrow> path \<Rightarrow> file_stat res \<times> (file_stat res \<times> file_stat res) list
   \<Rightarrow> file_stat res \<times> (file_stat res \<times> file_stat res) list \<Rightarrow> (file_stat \<times> file_stat) res" where
  "session_open_disjoint source_root private_root source private =
     rbind (open_confined_root source_root ''acquisition_source_root'' (fst source)) (\<lambda>source_stat.
     rbind (open_confined_root private_root ''acquisition_private_root'' (fst private)) (\<lambda>private_stat.
     rbind (ensure_disjoint_descriptors (source_stat, snd source) (private_stat, snd private)) (\<lambda>_.
     Inr (source_stat, private_stat))))"

definition verify_private_root_binding ::
  "pinned_root \<Rightarrow> file_stat option \<Rightarrow> path \<Rightarrow> file_stat res \<times> (file_stat res \<times> file_stat res) list \<Rightarrow> unit res" where
  "verify_private_root_binding source expected private_root private =
     rbind (ok_or expected (Integrity ''acquisition_private_root_not_pinned'')) (\<lambda>expected.
     rbind (open_confined_root private_root ''acquisition_private_root'' (fst private)) (\<lambda>observed.
     rbind (ensure_same_directory_binding expected observed) (\<lambda>_.
     ensure_disjoint_descriptors source (observed, snd private))))"

section \<open>Copying one file\<close>

fun copy_stream :: "nat \<Rightarrow> string res list \<Rightarrow> nat \<Rightarrow> string \<Rightarrow> (nat \<times> string) res" where
  "copy_stream expected_len [] copied acc = Inr (copied, acc)"
| "copy_stream expected_len (r # rs) copied acc =
     rbind r (\<lambda>bytes.
     if bytes = [] then Inr (copied, acc)
     else rbind (ok_or (checked_add 64 copied (length bytes)) (Integrity ''content_vault_byte_count_overflow'')) (\<lambda>len.
          rbind (reject (expected_len < len) (Integrity ''content_vault_source_length_changed_during_capture'')) (\<lambda>_.
          copy_stream expected_len rs len (acc @ bytes))))"

text \<open>The digest of the manifest entry and the bytes written to the destination.\<close>

definition copy_manifest_file ::
  "acquisition_codec \<Rightarrow> capture_session \<Rightarrow> path \<Rightarrow> nat \<Rightarrow> (digest \<times> string) res" where
  "copy_manifest_file Q S relative expected_len =
     rbind (current_source_root_stat (session_pinned S) (session_before S)) (\<lambda>_.
     rbind (find_beneath (session_root S) relative) (\<lambda>n.
     rbind (node_inspected n) (\<lambda>inspected.
     rbind (ensure_expected_object inspected RegularFile) (\<lambda>_.
     rbind (node_opened n) (\<lambda>opened.
     rbind (ensure_same_object inspected opened RegularFile) (\<lambda>_.
     rbind (reject (st_size opened < 0) (Integrity ''acquisition_file_size_invalid'')) (\<lambda>_.
     rbind (reject (nat (st_size opened) \<noteq> expected_len)
              (Integrity ''content_vault_source_length_envelope_mismatch'')) (\<lambda>_.
     rbind (file_image relative (is_executable opened) expected_len) (\<lambda>image.
     rbind (copy_stream expected_len (node_reads n) 0 []) (\<lambda>(copied, bytes).
     rbind (node_final n) (\<lambda>final.
     rbind (ensure_stable_object opened final RegularFile) (\<lambda>_.
     rbind (reject (copied \<noteq> expected_len) (Integrity ''content_vault_source_length_changed_during_capture'')) (\<lambda>_.
     rbind (current_source_root_stat (session_pinned S) (session_after S)) (\<lambda>_.
     rbind (finalize_digest (aq_sha Q) (image @ bytes)) (\<lambda>d.
     Inr (d, bytes))))))))))))))))"

end
