(* ===== verification/Acquisition_Projection.thy ===== *)
theory Acquisition_Projection
  imports Acquisition_Scopes Acquisition_Capture
begin

text \<open>
  What a capture should record, said without counters, order or descriptors: the objects reachable in the
  source through listed, selected and not excluded names; and the proof that the two loops record exactly that.
\<close>

section \<open>Specification\<close>

definition file_name :: "string \<Rightarrow> bool" where
  "file_name s \<longleftrightarrow> s \<noteq> [] \<and> CHR ''/'' \<notin> set s"

definition good_component :: "component \<Rightarrow> bool" where
  "good_component c \<longleftrightarrow> (case c of Normal s \<Rightarrow> file_name s \<and> s \<noteq> ''.'' \<and> s \<noteq> ''..'' | _ \<Rightarrow> False)"

abbreviation good_path :: "path \<Rightarrow> bool" where
  "good_path \<equiv> list_all good_component"

text \<open>What \<open>readdir\<close> promises: names are file names.\<close>

inductive well_named :: "source_node \<Rightarrow> bool" where
  "(\<And>name. Inr name \<in> set (node_listing n) \<Longrightarrow> file_name name)
   \<Longrightarrow> (\<And>name child. map_of (node_children n) name = Some child \<Longrightarrow> well_named child) \<Longrightarrow> well_named n"

definition node_type :: "source_node \<Rightarrow> file_type option" where
  "node_type n = (case node_inspected n of Inl _ \<Rightarrow> None | Inr st \<Rightarrow> Some (st_type st))"

definition listed :: "capture_rules \<Rightarrow> path \<Rightarrow> source_node \<Rightarrow> string \<Rightarrow> bool" where
  "listed R p n name \<longleftrightarrow>
     Inr name \<in> set (node_listing n) \<and> name \<noteq> ''.'' \<and> name \<noteq> ''..'' \<and> is_selected (p @ [Normal name]) (cr_selected R)"

text \<open>The objects below a directory that belong to the projection, and the paths that are left out.\<close>

inductive inside :: "capture_rules \<Rightarrow> path \<Rightarrow> source_node \<Rightarrow> path \<Rightarrow> source_node \<Rightarrow> bool" for R where
  inside_child: "\<lbrakk>listed R p n name; exclusion_reason_of R (p @ [Normal name]) = None; find_child n name = Inr child\<rbrakk>
     \<Longrightarrow> inside R p n (p @ [Normal name]) child"
| inside_below: "\<lbrakk>listed R p n name; exclusion_reason_of R (p @ [Normal name]) = None; find_child n name = Inr child;
      node_type child = Some Directory; inside R (p @ [Normal name]) child q m\<rbrakk> \<Longrightarrow> inside R p n q m"

inductive left_out :: "capture_rules \<Rightarrow> path \<Rightarrow> source_node \<Rightarrow> path \<Rightarrow> exclusion_reason \<Rightarrow> bool" for R where
  left_out_here: "\<lbrakk>listed R p n name; exclusion_reason_of R (p @ [Normal name]) = Some reason\<rbrakk>
     \<Longrightarrow> left_out R p n (p @ [Normal name]) reason"
| left_out_below: "\<lbrakk>listed R p n name; exclusion_reason_of R (p @ [Normal name]) = None; find_child n name = Inr child;
      node_type child = Some Directory; left_out R (p @ [Normal name]) child q reason\<rbrakk> \<Longrightarrow> left_out R p n q reason"

fun read_all :: "string res list \<Rightarrow> string" where
  "read_all (Inr bytes # rs) = (if bytes = [] then [] else bytes @ read_all rs)"
| "read_all _ = []"

text \<open>An entry describes an object: kind, length, executable bit, and of a file the digest of its content.\<close>

definition describes :: "capture_rules \<Rightarrow> path \<Rightarrow> source_node \<Rightarrow> manifest_entry \<Rightarrow> bool" where
  "describes R q m en \<longleftrightarrow>
     se_relative_path en = q
     \<and> (case se_kind en of
          DirectoryEntry \<Rightarrow> (q = [] \<or> node_type m = Some Directory) \<and> se_byte_len en = 0 \<and> \<not> se_executable en
        | FileEntry \<Rightarrow> node_type m = Some RegularFile
            \<and> (\<exists>st image. node_opened m = Inr st \<and> se_executable en = is_executable st
               \<and> int (se_byte_len en) = st_size st \<and> se_byte_len en = length (read_all (node_reads m))
               \<and> file_image q (se_executable en) (se_byte_len en) = Inr image
               \<and> finalize_digest (cr_sha R) (image @ read_all (node_reads m)) = Inr (se_sha256 en)))"

section \<open>Bytes of a path\<close>

lemma split_on_join: "\<forall>s \<in> set ss. d \<notin> set s \<Longrightarrow> ss \<noteq> [] \<Longrightarrow> split_on d (join_with d ss) = ss"
proof (induction d ss rule: join_with.induct)
  case (2 d s)
  then show ?case by (simp add: split_on_no_delim)
next
  case (3 d s t ss)
  have "split_on d (s @ d # join_with d (t # ss)) = s # split_on d (join_with d (t # ss))"
    using 3(2) by (induction s) (auto split: list.splits)
  with 3 show ?case by simp
qed simp

lemma join_starts: "s \<noteq> [] \<Longrightarrow> \<exists>rest. join_with d (s # ss) = hd s # rest"
  by (cases ss; cases s) simp_all

lemma components_os_bytes: "good_path p \<Longrightarrow> components (os_bytes p) = p"
proof (cases p)
  case Nil
  then show ?thesis by (simp add: os_bytes_def components_def os_is_absolute_def)
next
  case (Cons c cs)
  assume good: "good_path p"
  let ?names = "map component_name p"
  have names: "\<forall>s \<in> set ?names. s \<noteq> [] \<and> CHR ''/'' \<notin> set s \<and> s \<noteq> ''.'' \<and> s \<noteq> ''..''"
  proof
    fix s assume "s \<in> set ?names"
    then obtain x where x: "x \<in> set p" "s = component_name x" by auto
    then have "good_component x" using good by (simp add: list_all_iff)
    then show "s \<noteq> [] \<and> CHR ''/'' \<notin> set s \<and> s \<noteq> ''.'' \<and> s \<noteq> ''..''"
      using x(2) by (cases x) (simp_all add: good_component_def file_name_def)
  qed
  have split: "split_on CHR ''/'' (os_bytes p) = ?names"
    unfolding os_bytes_def by (rule split_on_join) (use names Cons in auto)
  obtain s ss where ss: "?names = s # ss" using Cons by simp
  with names have s: "s \<noteq> []" "CHR ''/'' \<notin> set s" "s \<noteq> ''.''" by auto
  obtain rest where "os_bytes p = hd s # rest" unfolding os_bytes_def ss using join_starts[OF s(1)] by blast
  with s have "\<not> os_is_absolute (os_bytes p)" by (cases s) (auto simp: os_is_absolute_def)
  moreover have "filter (\<lambda>s. s \<noteq> [] \<and> s \<noteq> ''.'') ?names = ?names" using names by (simp add: filter_id_conv)
  moreover have "map segment_component ?names = p"
  proof -
    have "segment_component (component_name x) = x" if "x \<in> set p" for x
    proof -
      have "good_component x" using good that by (simp add: list_all_iff)
      then show ?thesis by (cases x) (simp_all add: good_component_def segment_component_def)
    qed
    then show ?thesis by (simp add: map_idI)
  qed
  ultimately show ?thesis unfolding components_def split using s(3) ss by simp
qed

lemma observed_path_parse_good: "good_path p \<Longrightarrow> observed_path_parse (os_bytes p) = Inr q \<Longrightarrow> q = p"
  by (auto simp: observed_path_parse_def components_os_bytes)

text \<open>Every path that a parser accepted is good, so the representation loses nothing.\<close>

lemma declared_path_good:
  assumes "declared_path_parse raw = Inr p" shows "good_path p \<and> os_bytes p = raw"
proof -
  have p: "p = components raw" "has_valid_relative_path_shape raw"
    using assms by (auto simp: declared_path_parse_def declared_path_parse_labeled_def validate_declared_relative_path_def)
  have "good_component c" if "c \<in> set p" for c
  proof -
    from that p have "is_normal c" by (auto simp: has_valid_relative_path_shape_def list_all_iff)
    then obtain s where c: "c = Normal s" by (cases c) auto
    with that p(1) obtain t where t: "t \<in> set (split_on CHR ''/'' raw)" "t \<noteq> []" "t \<noteq> ''.''" "segment_component t = Normal s"
      by (auto simp: components_def split: if_splits)
    then have "t \<noteq> ''..''" "s = t" by (auto simp: segment_component_def split: if_splits)
    with t split_on_segments[OF t(1)] c show ?thesis by (simp add: good_component_def file_name_def)
  qed
  then show ?thesis using p by (simp add: list_all_iff has_valid_relative_path_shape_def)
qed

lemma good_child: "good_path p \<Longrightarrow> file_name name \<Longrightarrow> name \<noteq> ''.'' \<Longrightarrow> name \<noteq> ''..'' \<Longrightarrow> good_path (p @ [Normal name])"
  by (simp add: good_component_def)

section \<open>Growth of the context\<close>

text \<open>The entries a part of the capture appends describe exactly the objects \<open>A\<close>, its excluded paths are \<open>X\<close>.\<close>

definition grown ::
  "capture_rules \<Rightarrow> (path \<times> source_node) set \<Rightarrow> (path \<times> exclusion_reason) set \<Rightarrow> capture_context \<Rightarrow> capture_context \<Rightarrow> bool" where
  "grown R A X c c' \<longleftrightarrow>
     (\<exists>new left. cc_entries c' = cc_entries c @ new \<and> cc_excluded c' = cc_excluded c @ left
        \<and> (\<forall>en \<in> set new. \<exists>(q, m) \<in> A. describes R q m en) \<and> (\<forall>(q, m) \<in> A. \<exists>en \<in> set new. describes R q m en)
        \<and> (\<lambda>x. (ex_relative_path x, ex_reason x)) ` set left = X)"

lemma grown_same [simp]: "cc_entries c' = cc_entries c \<Longrightarrow> cc_excluded c' = cc_excluded c \<Longrightarrow> grown R {} {} c c'"
  by (simp add: grown_def)

lemma grown_trans:
  assumes "grown R A X c c'" and "grown R B Y c' c''" shows "grown R (A \<union> B) (X \<union> Y) c c''"
proof -
  from assms(1) obtain new left where n: "cc_entries c' = cc_entries c @ new" "cc_excluded c' = cc_excluded c @ left"
      "\<forall>en \<in> set new. \<exists>(q, m) \<in> A. describes R q m en" "\<forall>(q, m) \<in> A. \<exists>en \<in> set new. describes R q m en"
      "(\<lambda>x. (ex_relative_path x, ex_reason x)) ` set left = X" unfolding grown_def by blast
  from assms(2) obtain new' left' where n': "cc_entries c'' = cc_entries c' @ new'" "cc_excluded c'' = cc_excluded c' @ left'"
      "\<forall>en \<in> set new'. \<exists>(q, m) \<in> B. describes R q m en" "\<forall>(q, m) \<in> B. \<exists>en \<in> set new'. describes R q m en"
      "(\<lambda>x. (ex_relative_path x, ex_reason x)) ` set left' = Y" unfolding grown_def by blast
  show ?thesis unfolding grown_def
  proof (intro exI conjI)
    show "cc_entries c'' = cc_entries c @ (new @ new')" "cc_excluded c'' = cc_excluded c @ (left @ left')"
      using n n' by simp_all
    show "\<forall>en \<in> set (new @ new'). \<exists>(q, m) \<in> A \<union> B. describes R q m en" using n(3) n'(3) by fastforce
    show "\<forall>(q, m) \<in> A \<union> B. \<exists>en \<in> set (new @ new'). describes R q m en" using n(4) n'(4) by fastforce
    show "(\<lambda>x. (ex_relative_path x, ex_reason x)) ` set (left @ left') = X \<union> Y" using n(5) n'(5) by (simp add: image_Un)
  qed
qed

lemma admit_manifest_path_same:
  "admit_manifest_path p c = Inr c' \<Longrightarrow> cc_entries c' = cc_entries c \<and> cc_excluded c' = cc_excluded c
     \<and> cc_file_count c' = cc_file_count c \<and> cc_total_file_bytes c' = cc_total_file_bytes c"
  by (auto simp: admit_manifest_path_def)

lemma grown_push: "cc_entries c' = cc_entries c \<Longrightarrow> cc_excluded c' = cc_excluded c \<Longrightarrow> describes R q m en
   \<Longrightarrow> grown R {(q, m)} {} c (push_entry en c')"
  by (simp add: grown_def push_entry_def)

lemma admit_excluded_grown:
  assumes "admit_excluded_path p reason c = Inr c'" and "good_path p" shows "grown R {} {(p, reason)} c c'"
  using assms(1) by (auto simp: admit_excluded_path_def grown_def dest!: admit_manifest_path_same observed_path_parse_good[OF assms(2)])

lemma stream_file_all:
  "stream_file expected_len remaining rs len acc = Inr (n, bytes) \<Longrightarrow> bytes = acc @ read_all rs \<and> n = len + length (read_all rs)"
proof (induction rs arbitrary: len acc)
  case (Cons r rs)
  show ?case
  proof (cases r)
    case (Inr b)
    show ?thesis
    proof (cases "b = []")
      case False
      with Inr Cons.prems have "stream_file expected_len remaining rs (len + length b) (acc @ b) = Inr (n, bytes)" by auto
      from Cons.IH[OF this] Inr False show ?thesis by simp
    qed (use Inr Cons.prems in simp)
  qed (use Cons.prems in simp)
qed simp

lemma capture_file_grown:
  assumes "capture_file R p n inspected c = Inr (d, c')" and "node_inspected n = Inr inspected" and "good_path p"
  shows "grown R {(p, n)} {} c c'"
proof -
  from assms(1) obtain opened image len bytes total c1 q where h:
      "st_type inspected = RegularFile" "node_opened n = Inr opened" "0 \<le> st_size opened"
      "file_image p (is_executable opened) (nat (st_size opened)) = Inr image"
      "stream_file (nat (st_size opened)) (max_total_bytes (cr_budget R) - cc_total_file_bytes c) (node_reads n) 0 [] = Inr (len, bytes)"
      "len = nat (st_size opened)" "finalize_digest (cr_sha R) (image @ bytes) = Inr d"
      "admit_manifest_path p (c\<lparr>cc_file_count := cc_file_count c + 1, cc_total_file_bytes := total\<rparr>) = Inr c1"
      "observed_path_parse (os_bytes p) = Inr q"
      "c' = push_entry \<lparr>se_relative_path = q, se_kind = FileEntry, se_byte_len = len,
                        se_executable = is_executable opened, se_sha256 = d\<rparr> c1"
    unfolding capture_file_def Let_def checked_increment_def ensure_expected_object_def rbind_eq_Inr reject_eq_Inr ok_or_eq_Inr
      checked_add_eq_Some checked_sub_eq_Some case_prod_unfold
    by (auto simp: not_less)
  have bytes: "bytes = read_all (node_reads n)" "len = length (read_all (node_reads n))" using stream_file_all[OF h(5)] by simp_all
  have "node_type n = Some RegularFile" using assms(2) h(1) by (simp add: node_type_def)
  then have "describes R p n \<lparr>se_relative_path = q, se_kind = FileEntry, se_byte_len = len,
       se_executable = is_executable opened, se_sha256 = d\<rparr>"
    unfolding describes_def using h bytes observed_path_parse_good[OF assms(3) h(9)] by simp
  then show ?thesis unfolding h(10) using admit_manifest_path_same[OF h(8)] by (intro grown_push) simp_all
qed

section \<open>The two loops\<close>

lemma well_named_listing: "well_named n \<Longrightarrow> Inr name \<in> set (node_listing n) \<Longrightarrow> file_name name"
  by (erule well_named.cases) blast

lemma well_named_child: "well_named n \<Longrightarrow> find_child n name = Inr child \<Longrightarrow> well_named child"
  by (erule well_named.cases) (simp add: find_child_def)

definition wanted :: "capture_rules \<Rightarrow> path \<Rightarrow> string res \<Rightarrow> string \<Rightarrow> bool" where
  "wanted R p answer name \<longleftrightarrow>
     answer = Inr name \<and> name \<noteq> ''.'' \<and> name \<noteq> ''..'' \<and> is_selected (p @ [Normal name]) (cr_selected R)"

lemma scan_name_effect:
  assumes "scan_name R p answer (names, k, c) = Inr (names', k', c')"
  shows "set names' = set names \<union> {name. wanted R p answer name} \<and> cc_entries c' = cc_entries c
    \<and> cc_excluded c' = cc_excluded c \<and> cc_file_count c' = cc_file_count c \<and> cc_total_file_bytes c' = cc_total_file_bytes c"
proof (cases answer)
  case (Inr name)
  show ?thesis
  proof (cases "name = ''.'' \<or> name = ''..''")
    case False
    with assms Inr show ?thesis
      by (auto simp: scan_name_def Let_def wanted_def checked_increment_def split: if_splits)
  qed (use assms Inr in \<open>auto simp: scan_name_def wanted_def\<close>)
qed (use assms in \<open>simp add: scan_name_def\<close>)

lemma scan_names_effect:
  assumes "rfold (scan_name R p) l (names, k, c) = Inr (names', k', c')"
  shows "set names' = set names \<union> {name. \<exists>answer \<in> set l. wanted R p answer name} \<and> cc_entries c' = cc_entries c
    \<and> cc_excluded c' = cc_excluded c \<and> cc_file_count c' = cc_file_count c \<and> cc_total_file_bytes c' = cc_total_file_bytes c"
  using assms
proof (induction l arbitrary: names k c)
  case (Cons answer l)
  then obtain names1 k1 c1 where "scan_name R p answer (names, k, c) = Inr (names1, k1, c1)"
      "rfold (scan_name R p) l (names1, k1, c1) = Inr (names', k', c')" by force
  with scan_name_effect[OF this(1)] Cons.IH[OF this(2)] show ?case by auto
qed simp

lemma enter_directory_effect:
  assumes "enter_directory R p n initial c = Inr (names, c')"
  shows "set names = {name. listed R p n name} \<and> cc_entries c' = cc_entries c \<and> cc_excluded c' = cc_excluded c
    \<and> cc_file_count c' = cc_file_count c \<and> cc_total_file_bytes c' = cc_total_file_bytes c \<and> st_type initial = Directory"
proof -
  from assms obtain c1 ns k where h: "admit_manifest_path p (c\<lparr>cc_visited := (st_dev initial, st_ino initial) # cc_visited c,
        cc_captured_directories := cc_captured_directories c + 1\<rparr>) = Inr c1"
      "rfold (scan_name R p) (node_listing n) ([], 0, c1) = Inr (ns, k, c')" "names = sort ns" "st_type initial = Directory"
    by (auto simp: enter_directory_def checked_increment_def ensure_expected_object_def)
  from scan_names_effect[OF h(2)] admit_manifest_path_same[OF h(1)] h(3,4) show ?thesis
    by (auto simp: listed_def wanted_def)
qed

text \<open>What the second loop records for some of the names, and for all of them.\<close>

definition objects_of :: "capture_rules \<Rightarrow> path \<Rightarrow> source_node \<Rightarrow> string set \<Rightarrow> (path \<times> source_node) set" where
  "objects_of R p n names =
     {(q, m). \<exists>name \<in> names. exclusion_reason_of R (p @ [Normal name]) = None
        \<and> (\<exists>child. find_child n name = Inr child
             \<and> ((q, m) = (p @ [Normal name], child)
                \<or> (node_type child = Some Directory \<and> inside R (p @ [Normal name]) child q m)))}"

definition omissions_of :: "capture_rules \<Rightarrow> path \<Rightarrow> source_node \<Rightarrow> string set \<Rightarrow> (path \<times> exclusion_reason) set" where
  "omissions_of R p n names =
     {(q, reason). \<exists>name \<in> names.
        (q = p @ [Normal name] \<and> exclusion_reason_of R q = Some reason)
        \<or> (exclusion_reason_of R (p @ [Normal name]) = None
           \<and> (\<exists>child. find_child n name = Inr child \<and> node_type child = Some Directory
                \<and> left_out R (p @ [Normal name]) child q reason))}"

lemma objects_of_listed: "objects_of R p n {name. listed R p n name} = {(q, m). inside R p n q m}"
proof (rule set_eqI)
  fix x show "x \<in> objects_of R p n {name. listed R p n name} \<longleftrightarrow> x \<in> {(q, m). inside R p n q m}"
  proof (cases x)
    case (Pair q m)
    show ?thesis unfolding Pair objects_of_def mem_Collect_eq prod.case prod.inject
      using inside.simps[of R p n q m] by blast
  qed
qed

lemma omissions_of_listed: "omissions_of R p n {name. listed R p n name} = {(q, reason). left_out R p n q reason}"
proof (rule set_eqI)
  fix x show "x \<in> omissions_of R p n {name. listed R p n name} \<longleftrightarrow> x \<in> {(q, reason). left_out R p n q reason}"
  proof (cases x)
    case (Pair q reason)
    show ?thesis unfolding Pair omissions_of_def mem_Collect_eq prod.case
      using left_out.simps[of R p n q reason] by blast
  qed
qed

lemma objects_of_simps:
  "objects_of R p n {} = {}"
  "exclusion_reason_of R (p @ [Normal name]) = Some reason \<Longrightarrow> objects_of R p n (insert name S) = objects_of R p n S"
  "exclusion_reason_of R (p @ [Normal name]) = None \<Longrightarrow> find_child n name = Inr child \<Longrightarrow>
     objects_of R p n (insert name S) = insert (p @ [Normal name], child)
       (if node_type child = Some Directory then {(q, m). inside R (p @ [Normal name]) child q m} else {}) \<union> objects_of R p n S"
  by (auto simp: objects_of_def)

lemma omissions_of_simps:
  "omissions_of R p n {} = {}"
  "exclusion_reason_of R (p @ [Normal name]) = Some reason \<Longrightarrow>
     omissions_of R p n (insert name S) = insert (p @ [Normal name], reason) (omissions_of R p n S)"
  "exclusion_reason_of R (p @ [Normal name]) = None \<Longrightarrow> find_child n name = Inr child \<Longrightarrow>
     omissions_of R p n (insert name S) =
       (if node_type child = Some Directory then {(q, reason). left_out R (p @ [Normal name]) child q reason} else {})
       \<union> omissions_of R p n S"
  by (auto simp: omissions_of_def)

lemma leave_directory_grown:
  assumes "leave_directory R p n initial commitments c = Inr (d, c')" and "good_path p"
    and "p = [] \<or> node_type n = Some Directory"
  shows "grown R {(p, n)} {} c c'"
proof -
  from assms(1) obtain q where q: "observed_path_parse (os_bytes p) = Inr q"
    and c': "c' = push_entry \<lparr>se_relative_path = q, se_kind = DirectoryEntry, se_byte_len = 0, se_executable = False, se_sha256 = d\<rparr> c"
    by (auto simp: leave_directory_def)
  from observed_path_parse_good[OF assms(2) q] assms(3)
  have "describes R p n \<lparr>se_relative_path = q, se_kind = DirectoryEntry, se_byte_len = 0, se_executable = False, se_sha256 = d\<rparr>"
    by (simp add: describes_def)
  then show ?thesis unfolding c' by (intro grown_push) simp_all
qed

theorem capture_directory_exact:
  "capture_directory R p n initial depth c = Inr (d, c') \<Longrightarrow> good_path p \<Longrightarrow> well_named n
   \<Longrightarrow> p = [] \<or> node_type n = Some Directory
   \<Longrightarrow> grown R (insert (p, n) {(q, m). inside R p n q m}) {(q, reason). left_out R p n q reason} c c'"
  and capture_children_exact:
  "capture_children R p n depth names commitments c = Inr (commitments', c') \<Longrightarrow> good_path p \<Longrightarrow> well_named n
   \<Longrightarrow> \<forall>name \<in> set names. good_path (p @ [Normal name])
   \<Longrightarrow> grown R (objects_of R p n (set names)) (omissions_of R p n (set names)) c c'"
proof (induction R p n initial depth c and R p n depth names commitments c arbitrary: d c' and commitments' c'
    rule: capture_directory_capture_children.induct)
  case (1 R p n initial depth c)
  then obtain names c1 commitments c2 where
      depth: "\<not> MAX_RELATIVE_COMPONENTS < depth" and e: "enter_directory R p n initial c = Inr (names, c1)"
    and ch: "capture_children R p n depth names [] c1 = Inr (commitments, c2)"
    and l: "leave_directory R p n initial commitments c2 = Inr (d, c')"
    by (auto simp: capture_directory.simps split: if_splits)
  note enter = enter_directory_effect[OF e]
  have "good_path (p @ [Normal name])" if "name \<in> set names" for name
    using that enter 1(3) well_named_listing[OF 1(4)] by (intro good_child) (auto simp: listed_def)
  then have "grown R (objects_of R p n (set names)) (omissions_of R p n (set names)) c1 c2"
    using 1(1)[OF depth e refl ch 1(3,4)] by blast
  then have "grown R {(q, m). inside R p n q m} {(q, reason). left_out R p n q reason} c1 c2"
    using enter by (simp add: objects_of_listed omissions_of_listed)
  then have "grown R ({(q, m). inside R p n q m} \<union> {(p, n)}) ({(q, reason). left_out R p n q reason} \<union> {}) c1 c'"
    by (rule grown_trans) (rule leave_directory_grown[OF l 1(3,5)])
  then have "grown R ({} \<union> ({(q, m). inside R p n q m} \<union> {(p, n)})) ({} \<union> ({(q, reason). left_out R p n q reason} \<union> {})) c c'"
    by (rule grown_trans[rotated]) (use enter in simp)
  then show ?case by simp
next
  case (2 R p n depth commitments c)
  then show ?case by (simp add: objects_of_simps omissions_of_simps)
next
  case (3 R p n depth name names commitments c)
  let ?p = "p @ [Normal name]"
  have good: "good_path ?p" "\<forall>name \<in> set names. good_path (p @ [Normal name])" using 3(8) by simp_all
  show ?case
  proof (cases "exclusion_reason_of R ?p")
    case (Some reason)
    with 3(5) obtain c1 where a: "admit_excluded_path ?p reason c = Inr c1"
      and rest: "capture_children R p n depth names commitments c1 = Inr (commitments', c')"
      by (auto simp: capture_children.simps(2))
    from grown_trans[OF admit_excluded_grown[OF a good(1)] 3(4)[OF Some a rest 3(6,7) good(2)]]
    show ?thesis by (simp add: objects_of_simps(2)[OF Some] omissions_of_simps(2)[OF Some])
  next
    case None
    with 3(5) obtain child inspected where f: "find_child n name = Inr child" and i: "node_inspected child = Inr inspected"
      by (auto simp: capture_children.simps(2))
    note objects = objects_of_simps(3)[OF None f] omissions_of_simps(3)[OF None f]
    have type: "node_type child = Some (st_type inspected)" using i by (simp add: node_type_def)
    show ?thesis
    proof (cases "st_type inspected")
      case Directory
      with 3(5) None f i obtain opened d1 c1 where o: "open_directory_beneath inspected child = Inr opened"
        and dir: "capture_directory R ?p child opened (depth + 1) c = Inr (d1, c1)"
        and rest: "capture_children R p n depth names (commitments @ [([Normal name], DirectoryEntry, d1)]) c1 = Inr (commitments', c')"
        by (auto simp: capture_children.simps(2))
      have "grown R (insert (?p, child) {(q, m). inside R ?p child q m}) {(q, reason). left_out R ?p child q reason} c c1"
        using 3(1)[OF None f i Directory o dir good(1) well_named_child[OF 3(7) f]] type Directory by simp
      from grown_trans[OF this 3(2)[OF None f i Directory o dir refl rest 3(6,7) good(2)]]
      show ?thesis using type Directory by (simp add: objects)
    next
      case RegularFile
      with 3(5) None f i obtain d1 c1 where cf: "capture_file R ?p child inspected c = Inr (d1, c1)"
        and rest: "capture_children R p n depth names (commitments @ [([Normal name], FileEntry, d1)]) c1 = Inr (commitments', c')"
        by (auto simp: capture_children.simps(2))
      have "st_type inspected \<noteq> Directory" using RegularFile by simp
      from grown_trans[OF capture_file_grown[OF cf i good(1)] 3(3)[OF None f i this RegularFile cf refl rest 3(6,7) good(2)]]
      show ?thesis using type RegularFile by (simp add: objects)
    qed (use 3(5) None f i in \<open>auto simp: capture_children.simps(2)\<close>)
  qed
qed

end
