(* ===== verification/Acquisition_Commitments.thy ===== *)
theory Acquisition_Commitments
  imports Acquisition_Envelope
begin

text \<open>
  What a verified envelope commits to: its entries are strictly ordered and form a tree, and the digest of
  a directory determines the names, kinds and digests of its children unless SHA-256 collides.
\<close>

section \<open>Frames\<close>

lemma hash_frame_split:
  assumes "hash_frame a = Inr x" and "hash_frame b = Inr y" and "x @ r = y @ s"
  shows "a = b \<and> r = s"
proof -
  from assms(1,2) have x: "x = to_be_bytes (length a) @ a" "length a < 2 ^ 64"
    and y: "y = to_be_bytes (length b) @ b" "length b < 2 ^ 64" by (auto simp: hash_frame_def split: if_splits)
  from assms(3) x(1) y(1) have "to_be_bytes (length a) = to_be_bytes (length b) \<and> a @ r = b @ s"
    by (simp add: append_eq_append_conv)
  with x(2) y(2) to_be_bytes_inj show ?thesis by (metis append_eq_append_conv)
qed

lemma kind_byte_inj [simp]: "kind_byte k = kind_byte k' \<longleftrightarrow> k = k'"
  by (cases k; cases k') (simp_all add: kind_byte_def)

text \<open>The part of a commitment that is hashed.\<close>

definition committed :: "commitment \<Rightarrow> string \<times> snapshot_entry_kind \<times> digest" where
  "committed c = (case c of (name, kind, d) \<Rightarrow> (os_bytes name, kind, d))"

lemma hash_child_eq_Inr:
  "hash_child (name, kind, d) hashed = Inr out \<longleftrightarrow>
     (\<exists>f g. hash_frame (os_bytes name) = Inr f \<and> hash_frame d = Inr g \<and> out = hashed @ f @ [kind_byte kind] @ g)"
  by (auto simp: hash_child_def)

lemma hash_children_prefix: "rfold hash_child xs h = Inr out \<Longrightarrow> \<exists>u. out = h @ u"
proof (induction xs arbitrary: h)
  case (Cons x xs)
  then obtain h1 where "hash_child x h = Inr h1" "rfold hash_child xs h1 = Inr out" by auto
  with Cons.IH[OF this(2)] show ?case by (cases x) (auto simp: hash_child_eq_Inr)
qed simp

lemma hash_children_inj:
  assumes "rfold hash_child cs h = Inr out" and "rfold hash_child cs' h' = Inr out'"
    and "out @ t = out' @ t'" and "length h = length h'" and "length cs = length cs'"
  shows "map committed cs = map committed cs' \<and> h = h' \<and> t = t'"
  using assms
proof (induction cs arbitrary: h h' cs' out out')
  case Nil
  then show ?case by (simp add: append_eq_append_conv)
next
  case (Cons c cs)
  obtain c' cs1 where cs': "cs' = c' # cs1" using Cons.prems(5) by (cases cs') auto
  obtain name kind d name' kind' d' where c: "c = (name, kind, d)" "c' = (name', kind', d')" by (metis prod_cases3)
  from Cons.prems(1) c obtain f g where fg: "hash_frame (os_bytes name) = Inr f" "hash_frame d = Inr g"
      "rfold hash_child cs (h @ f @ [kind_byte kind] @ g) = Inr out" by (auto simp: hash_child_eq_Inr)
  from Cons.prems(2) cs' c obtain f' g' where fg': "hash_frame (os_bytes name') = Inr f'" "hash_frame d' = Inr g'"
      "rfold hash_child cs1 (h' @ f' @ [kind_byte kind'] @ g') = Inr out'" by (auto simp: hash_child_eq_Inr)
  from hash_children_prefix[OF fg(3)] hash_children_prefix[OF fg'(3)] obtain u u' where u: "out = (h @ f @ [kind_byte kind] @ g) @ u"
      "out' = (h' @ f' @ [kind_byte kind'] @ g') @ u'" by blast
  with Cons.prems(3,4) have "f @ [kind_byte kind] @ g @ u @ t = f' @ [kind_byte kind'] @ g' @ u' @ t'" and h: "h = h'"
    by (simp_all add: append_eq_append_conv)
  from hash_frame_split[OF fg(1) fg'(1) this(1)] have n: "os_bytes name = os_bytes name'"
    and "[kind_byte kind] @ g @ u @ t = [kind_byte kind'] @ g' @ u' @ t'" by blast+
  then have k: "kind = kind'" and "g @ u @ t = g' @ u' @ t'" by simp_all
  from hash_frame_split[OF fg(2) fg'(2) this(2)] have d: "d = d'" by blast
  have "length (h @ f @ [kind_byte kind] @ g) = length (h' @ f' @ [kind_byte kind'] @ g')"
    using fg(1,2) fg'(1,2) n d h by simp
  from Cons.IH[OF fg(3) fg'(3) Cons.prems(3) this] Cons.prems(5) cs' c n k d h show ?case
    by (simp add: committed_def)
qed

lemma directory_image_inj:
  assumes "directory_image p cs = Inr img" and "directory_image p cs' = Inr img"
  shows "map committed cs = map committed cs'"
proof -
  from assms obtain f where f: "hash_frame (os_bytes p) = Inr f" "length cs < 2 ^ 64" "length cs' < 2 ^ 64"
    "rfold hash_child cs (DIRECTORY_DOMAIN @ f @ to_be_bytes (length cs)) = Inr img"
    "rfold hash_child cs' (DIRECTORY_DOMAIN @ f @ to_be_bytes (length cs')) = Inr img"
    by (auto simp: directory_image_def not_le)
  from hash_children_prefix[OF f(4)] hash_children_prefix[OF f(5)] have "to_be_bytes (length cs) = to_be_bytes (length cs')"
    by (auto simp: append_eq_append_conv)
  then have "length cs = length cs'" using f(2,3) to_be_bytes_inj by blast
  with hash_children_inj[OF f(4,5), of "[]" "[]"] show ?thesis by simp
qed

section \<open>The entries\<close>

definition entry_index :: "system_envelope \<Rightarrow> path \<Rightarrow> manifest_entry option" where
  "entry_index e = map_of (map (\<lambda>en. (se_relative_path en, en)) (sv_entries e))"

lemma scan_entry_effect:
  assumes "scan_entry en s = Inr t"
  shows "(\<forall>p. previous_entry s = Some p \<longrightarrow> p < se_relative_path en) \<and> previous_entry t = Some (se_relative_path en)
    \<and> entry_by_path t = bm_insert (se_relative_path en) en (entry_by_path s)
    \<and> scanned_file_bytes t = scanned_file_bytes s + (if se_kind en = FileEntry then se_byte_len en else 0)
    \<and> se_sha256 en \<noteq> zero_digest"
  using assms unfolding scan_entry_def
  by (cases "se_kind en") (auto split: option.splits)

lemma scan_entries_effect:
  assumes "scan_entries es = Inr s"
  shows "sorted_wrt (<) (map se_relative_path es)"
    and "map_of (entry_by_path s) = map_of (map (\<lambda>en. (se_relative_path en, en)) es)"
    and "scanned_file_bytes s = sum_list (map se_byte_len (filter (\<lambda>en. se_kind en = FileEntry) es))"
proof -
  have "sorted_wrt (<) (map se_relative_path es)
     \<and> map_of (entry_by_path s) = map_of (map (\<lambda>en. (se_relative_path en, en)) es)
     \<and> scanned_file_bytes s = sum_list (map se_byte_len (filter (\<lambda>en. se_kind en = FileEntry) es))
     \<and> previous_entry s = (if es = [] then None else Some (se_relative_path (last es)))"
    using assms
  proof (induction es arbitrary: s rule: rev_induct)
    case Nil
    then show ?case by (auto simp: scan_entries_def)
  next
    case (snoc en es)
    then obtain u where u: "scan_entries es = Inr u" "scan_entry en u = Inr s"
      by (auto simp: scan_entries_def rfold_append)
    note IH = snoc.IH[OF u(1)] and step = scan_entry_effect[OF u(2)]
    have less: "p < se_relative_path en" if p: "p \<in> set (map se_relative_path es)" for p
    proof -
      from p have "es \<noteq> []" by auto
      with IH step have last: "se_relative_path (last es) < se_relative_path en" by auto
      have "es = butlast es @ [last es]" using \<open>es \<noteq> []\<close> by simp
      then obtain front z where es: "es = front @ [z]" by blast
      with IH p have "p = se_relative_path z \<or> p < se_relative_path z" by (auto simp: sorted_wrt_append)
      then have "p \<le> se_relative_path (last es)" using es by auto
      with last show ?thesis by simp
    qed
    have fresh: "map_of (map (\<lambda>en. (se_relative_path en, en)) es) (se_relative_path en) = None"
      using less by (fastforce simp: map_of_eq_None_iff)
    have "map_of (map (\<lambda>en. (se_relative_path en, en)) (es @ [en]))
        = (map_of (map (\<lambda>en. (se_relative_path en, en)) es))(se_relative_path en \<mapsto> en)"
      using fresh by (auto simp: fun_eq_iff map_add_def split: option.splits)
    with IH step less show ?case by (simp add: sorted_wrt_append)
  qed
  then show "sorted_wrt (<) (map se_relative_path es)"
    and "map_of (entry_by_path s) = map_of (map (\<lambda>en. (se_relative_path en, en)) es)"
    and "scanned_file_bytes s = sum_list (map se_byte_len (filter (\<lambda>en. se_kind en = FileEntry) es))" by blast+
qed

section \<open>The tree\<close>

definition is_projection_root :: "system_envelope \<Rightarrow> path \<Rightarrow> bool" where
  "is_projection_root e p \<longleftrightarrow> sv_completeness e = DeclaredScopeOnly \<and> p \<in> set (sv_projection_roots e)"

definition child_entries :: "system_envelope \<Rightarrow> path \<Rightarrow> manifest_entry list" where
  "child_entries e p =
     filter (\<lambda>en. \<not> is_projection_root e (se_relative_path en) \<and> path_parent (se_relative_path en) = Some p)
       (drop 1 (sv_entries e))"

text \<open>What a directory of an envelope has to commit to.\<close>

definition commitments_of :: "system_envelope \<Rightarrow> path \<Rightarrow> commitment list" where
  "commitments_of e p =
     (if p = [] \<and> sv_completeness e = DeclaredScopeOnly
      then map (\<lambda>root. (root, se_kind (the (entry_index e root)), se_sha256 (the (entry_index e root)))) (sv_projection_roots e)
      else map (\<lambda>x. ([last (se_relative_path x)], se_kind x, se_sha256 x)) (child_entries e p))"

definition children_in :: "child_map \<Rightarrow> path \<Rightarrow> manifest_entry list" where
  "children_in m p = (case map_of m p of None \<Rightarrow> [] | Some es \<Rightarrow> es)"

lemma place_entry_effect:
  assumes "place_entry e by_path en m = Inr m'"
  shows "children_in m' p = children_in m p
      @ (if \<not> is_projection_root e (se_relative_path en) \<and> path_parent (se_relative_path en) = Some p then [en] else [])"
    and "(sv_completeness e = DeclaredScopeOnly \<longrightarrow> below_projection e (se_relative_path en))
      \<and> (is_projection_root e (se_relative_path en)
         \<or> (\<exists>q x. path_parent (se_relative_path en) = Some q \<and> map_of by_path q = Some x \<and> se_kind x = DirectoryEntry))"
  using assms by (auto simp: place_entry_def is_projection_root_def children_in_def add_child_def split: if_splits)

lemma place_entries_effect:
  assumes "rfold (place_entry e by_path) ens m = Inr m'"
  shows "children_in m' p = children_in m p
      @ filter (\<lambda>en. \<not> is_projection_root e (se_relative_path en) \<and> path_parent (se_relative_path en) = Some p) ens"
    and "\<forall>en \<in> set ens. (sv_completeness e = DeclaredScopeOnly \<longrightarrow> below_projection e (se_relative_path en))
      \<and> (is_projection_root e (se_relative_path en)
         \<or> (\<exists>q x. path_parent (se_relative_path en) = Some q \<and> map_of by_path q = Some x \<and> se_kind x = DirectoryEntry))"
proof -
  have "children_in m' p = children_in m p
      @ filter (\<lambda>en. \<not> is_projection_root e (se_relative_path en) \<and> path_parent (se_relative_path en) = Some p) ens
    \<and> (\<forall>en \<in> set ens. (sv_completeness e = DeclaredScopeOnly \<longrightarrow> below_projection e (se_relative_path en))
      \<and> (is_projection_root e (se_relative_path en)
         \<or> (\<exists>q x. path_parent (se_relative_path en) = Some q \<and> map_of by_path q = Some x \<and> se_kind x = DirectoryEntry)))"
    using assms
  proof (induction ens arbitrary: m)
    case (Cons en ens)
    then obtain m1 where m1: "place_entry e by_path en m = Inr m1" "rfold (place_entry e by_path) ens m1 = Inr m'" by auto
    from Cons.IH[OF m1(2)] place_entry_effect[OF m1(1)] show ?case by simp
  qed simp
  then show "children_in m' p = children_in m p
      @ filter (\<lambda>en. \<not> is_projection_root e (se_relative_path en) \<and> path_parent (se_relative_path en) = Some p) ens"
    and "\<forall>en \<in> set ens. (sv_completeness e = DeclaredScopeOnly \<longrightarrow> below_projection e (se_relative_path en))
      \<and> (is_projection_root e (se_relative_path en)
         \<or> (\<exists>q x. path_parent (se_relative_path en) = Some q \<and> map_of by_path q = Some x \<and> se_kind x = DirectoryEntry))"
    by blast+
qed

lemma child_commitment_eq_Inr:
  "child_commitment x acc = Inr acc' \<longleftrightarrow>
     (\<exists>name. path_file_name (se_relative_path x) = Some name \<and> acc' = acc @ [([Normal name], se_kind x, se_sha256 x)])"
  by (auto simp: child_commitment_def)

lemma root_commitment_eq_Inr:
  "root_commitment by_path root acc = Inr acc' \<longleftrightarrow>
     (\<exists>x. map_of by_path root = Some x \<and> acc' = acc @ [(root, se_kind x, se_sha256 x)])"
  by (auto simp: root_commitment_def)

lemma child_commitments_eq:
  "rfold child_commitment l acc = Inr cs \<Longrightarrow>
     cs = acc @ map (\<lambda>x. ([last (se_relative_path x)], se_kind x, se_sha256 x)) l
     \<and> (\<forall>x \<in> set l. \<exists>name. last (se_relative_path x) = Normal name)"
proof (induction l arbitrary: acc)
  case (Cons x l)
  then obtain name where n: "path_file_name (se_relative_path x) = Some name"
      "rfold child_commitment l (acc @ [([Normal name], se_kind x, se_sha256 x)]) = Inr cs"
    by (auto simp: child_commitment_eq_Inr)
  from n(1) have "last (se_relative_path x) = Normal name"
    by (auto simp: path_file_name_def split: if_splits component.splits)
  with Cons.IH[OF n(2)] show ?case by simp
qed simp

lemma root_commitments_eq:
  "rfold (root_commitment by_path) roots acc = Inr cs \<Longrightarrow>
     cs = acc @ map (\<lambda>root. (root, se_kind (the (map_of by_path root)), se_sha256 (the (map_of by_path root)))) roots
     \<and> (\<forall>root \<in> set roots. map_of by_path root \<noteq> None)"
proof (induction roots arbitrary: acc)
  case (Cons root roots)
  then obtain x where x: "map_of by_path root = Some x"
      "rfold (root_commitment by_path) roots (acc @ [(root, se_kind x, se_sha256 x)]) = Inr cs"
    by (auto simp: root_commitment_eq_Inr)
  from Cons.IH[OF x(2)] x(1) show ?case by simp
qed simp

text \<open>What validation establishes, in one place.\<close>

lemma validated_envelope:
  assumes "validate_envelope_structure sha e = Inr ()"
  shows "sorted_wrt (<) (map se_relative_path (sv_entries e))"
    and "\<exists>root rest. sv_entries e = root # rest \<and> se_relative_path root = [] \<and> se_kind root = DirectoryEntry"
    and "sv_total_file_bytes e = sum_list (map se_byte_len (filter (\<lambda>en. se_kind en = FileEntry) (sv_entries e)))"
    and "\<forall>root \<in> set (sv_projection_roots e). entry_index e root \<noteq> None"
    and "\<forall>en \<in> set (drop 1 (sv_entries e)). sv_completeness e = DeclaredScopeOnly \<longrightarrow> below_projection e (se_relative_path en)"
    and "\<forall>en \<in> set (drop 1 (sv_entries e)). is_projection_root e (se_relative_path en)
       \<or> (\<exists>q x. path_parent (se_relative_path en) = Some q \<and> entry_index e q = Some x \<and> se_kind x = DirectoryEntry)"
    and "\<forall>en \<in> set (sv_entries e). se_kind en = DirectoryEntry \<longrightarrow>
       directory_digest sha (se_relative_path en) (commitments_of e (se_relative_path en)) = Inr (se_sha256 en)
       \<and> (\<not> (se_relative_path en = [] \<and> sv_completeness e = DeclaredScopeOnly) \<longrightarrow>
          (\<forall>x \<in> set (child_entries e (se_relative_path en)). \<exists>name. last (se_relative_path x) = Normal name))"
proof -
  from assms obtain s children where h: "envelope_root e = Inr ()" "scan_entries (sv_entries e) = Inr s"
      "scanned_file_bytes s = sv_total_file_bytes e"
      "\<forall>root \<in> set (sv_projection_roots e). map_of (entry_by_path s) root \<noteq> None"
      "rfold (place_entry e (entry_by_path s)) (drop 1 (sv_entries e)) [] = Inr children"
      "\<forall>en \<in> set (sv_entries e). se_kind en = DirectoryEntry \<longrightarrow> check_directory sha e (entry_by_path s) children en = Inr ()"
    unfolding validate_envelope_structure_def rbind_eq_Inr reject_eq_Inr rfor_eq_Inr set_bs_of set_filter by auto
  note scan = scan_entries_effect[OF h(2)]
  have index: "map_of (entry_by_path s) = entry_index e" unfolding entry_index_def by (rule scan(2))
  have kids: "children_in children p = child_entries e p" for p
    using place_entries_effect(1)[OF h(5)] by (simp add: child_entries_def children_in_def)
  show "sorted_wrt (<) (map se_relative_path (sv_entries e))" by (rule scan(1))
  show "\<exists>root rest. sv_entries e = root # rest \<and> se_relative_path root = [] \<and> se_kind root = DirectoryEntry"
    using h(1) by (cases "sv_entries e") (auto simp: envelope_root_def)
  show "sv_total_file_bytes e = sum_list (map se_byte_len (filter (\<lambda>en. se_kind en = FileEntry) (sv_entries e)))"
    using h(3) scan(3) by simp
  show "\<forall>root \<in> set (sv_projection_roots e). entry_index e root \<noteq> None" using h(4) index by simp
  show "\<forall>en \<in> set (drop 1 (sv_entries e)). sv_completeness e = DeclaredScopeOnly \<longrightarrow> below_projection e (se_relative_path en)"
    using place_entries_effect(2)[OF h(5)] by blast
  show "\<forall>en \<in> set (drop 1 (sv_entries e)). is_projection_root e (se_relative_path en)
       \<or> (\<exists>q x. path_parent (se_relative_path en) = Some q \<and> entry_index e q = Some x \<and> se_kind x = DirectoryEntry)"
    using place_entries_effect(2)[OF h(5)] unfolding index by blast
  show "\<forall>en \<in> set (sv_entries e). se_kind en = DirectoryEntry \<longrightarrow>
       directory_digest sha (se_relative_path en) (commitments_of e (se_relative_path en)) = Inr (se_sha256 en)
       \<and> (\<not> (se_relative_path en = [] \<and> sv_completeness e = DeclaredScopeOnly) \<longrightarrow>
          (\<forall>x \<in> set (child_entries e (se_relative_path en)). \<exists>name. last (se_relative_path x) = Normal name))"
  proof (intro ballI impI)
    fix en assume en: "en \<in> set (sv_entries e)" "se_kind en = DirectoryEntry"
    let ?p = "se_relative_path en"
    from h(6) en obtain cs where cs: "directory_commitments e (entry_by_path s) children ?p = Inr cs"
      "directory_digest sha ?p cs = Inr (se_sha256 en)" by (auto simp: check_directory_def)
    have "cs = commitments_of e ?p \<and> (\<not> (?p = [] \<and> sv_completeness e = DeclaredScopeOnly) \<longrightarrow>
        (\<forall>x \<in> set (child_entries e ?p). \<exists>name. last (se_relative_path x) = Normal name))"
    proof (cases "?p = [] \<and> sv_completeness e = DeclaredScopeOnly")
      case True
      with cs(1) have "rfold (root_commitment (entry_by_path s)) (sv_projection_roots e) [] = Inr cs"
        by (simp add: directory_commitments_def)
      from root_commitments_eq[OF this] True show ?thesis by (simp add: commitments_of_def index)
    next
      case False
      with cs(1) have "rfold child_commitment (child_entries e ?p) [] = Inr cs"
        unfolding directory_commitments_def kids[symmetric] children_in_def by (simp only: if_False)
      from child_commitments_eq[OF this] False show ?thesis by (auto simp: commitments_of_def)
    qed
    with cs(2) show "directory_digest sha ?p (commitments_of e ?p) = Inr (se_sha256 en)
       \<and> (\<not> (?p = [] \<and> sv_completeness e = DeclaredScopeOnly) \<longrightarrow>
          (\<forall>x \<in> set (child_entries e ?p). \<exists>name. last (se_relative_path x) = Normal name))" by simp
  qed
qed

section \<open>The root digest binds the tree\<close>

definition directory_images :: "system_envelope \<Rightarrow> string set" where
  "directory_images e =
     {img. \<exists>en \<in> set (sv_entries e). se_kind en = DirectoryEntry
        \<and> directory_image (se_relative_path en) (commitments_of e (se_relative_path en)) = Inr img}"

definition committed_entries :: "system_envelope \<Rightarrow> (path \<times> snapshot_entry_kind \<times> digest) list" where
  "committed_entries e = map (\<lambda>en. (se_relative_path en, se_kind en, se_sha256 en)) (sv_entries e)"

lemma committed_entries_ok: "validate_envelope_structure sha e = Inr () \<Longrightarrow> bm_ok (committed_entries e)"
  using validated_envelope(1) by (simp add: bm_ok_def committed_entries_def comp_def)

lemma entry_index_mem:
  assumes "validate_envelope_structure sha e = Inr ()"
  shows "entry_index e p = Some en \<longleftrightarrow> en \<in> set (sv_entries e) \<and> se_relative_path en = p"
proof -
  have "bm_ok (map (\<lambda>en. (se_relative_path en, en)) (sv_entries e))"
    using validated_envelope(1)[OF assms] by (simp add: bm_ok_def comp_def)
  then show ?thesis by (auto simp: entry_index_def map_of_eq_iff_mem)
qed

lemma path_parent_Some: "path_parent p = Some q \<Longrightarrow> p \<noteq> [] \<and> p = q @ [last p]"
  by (auto simp: path_parent_def split: if_splits)

lemma directory_digest_eq_Inr:
  "directory_digest sha p cs = Inr d \<longleftrightarrow> (\<exists>img. directory_image p cs = Inr img \<and> is_valid_str (sha img) \<and> d = sha img)"
  by (auto simp: directory_digest_def finalize_digest_def sha256_digest_parse_def)

lemma directory_commitments_agree:
  assumes "validate_envelope_structure sha e = Inr ()" and "validate_envelope_structure sha e' = Inr ()"
    and "inj_on sha (directory_images e \<union> directory_images e')"
    and "x \<in> set (sv_entries e)" "se_kind x = DirectoryEntry" "x' \<in> set (sv_entries e')" "se_kind x' = DirectoryEntry"
    and "se_relative_path x = p" "se_relative_path x' = p" "se_sha256 x = se_sha256 x'"
  shows "map committed (commitments_of e p) = map committed (commitments_of e' p)"
proof -
  have "directory_digest sha p (commitments_of e p) = Inr (se_sha256 x)"
    using validated_envelope(7)[OF assms(1), rule_format, OF assms(4,5)] assms(8) by simp
  then obtain img where img: "directory_image p (commitments_of e p) = Inr img" "sha img = se_sha256 x"
    unfolding directory_digest_eq_Inr by metis
  have "directory_digest sha p (commitments_of e' p) = Inr (se_sha256 x')"
    using validated_envelope(7)[OF assms(2), rule_format, OF assms(6,7)] assms(9) by simp
  then obtain img' where img': "directory_image p (commitments_of e' p) = Inr img'" "sha img' = se_sha256 x'"
    unfolding directory_digest_eq_Inr by metis
  have "img \<in> directory_images e"
    unfolding directory_images_def using img(1) assms(8) by (intro CollectI bexI[OF _ assms(4)]) (simp add: assms(5))
  moreover have "img' \<in> directory_images e'"
    unfolding directory_images_def using img'(1) assms(9) by (intro CollectI bexI[OF _ assms(6)]) (simp add: assms(7))
  moreover have "sha img = sha img'" using img(2) img'(2) assms(10) by simp
  ultimately have "img = img'" using assms(3) by (blast dest: inj_onD)
  with directory_image_inj img(1) img'(1) show ?thesis by blast
qed

lemma tree_included:
  assumes e: "validate_envelope_structure sha e = Inr ()" and e': "validate_envelope_structure sha e' = Inr ()"
    and same: "sv_completeness e = sv_completeness e'" "sv_projection_roots e = sv_projection_roots e'"
    and roots: "[] \<notin> set (sv_projection_roots e)"
    and root: "se_sha256 (hd (sv_entries e)) = se_sha256 (hd (sv_entries e'))"
    and inj: "inj_on sha (directory_images e \<union> directory_images e')"
  shows "en \<in> set (sv_entries e) \<Longrightarrow> \<exists>en' \<in> set (sv_entries e'). se_relative_path en' = se_relative_path en
     \<and> se_kind en' = se_kind en \<and> se_sha256 en' = se_sha256 en"
proof (induction "length (se_relative_path en)" arbitrary: en rule: less_induct)
  case less
  obtain r rest where r: "sv_entries e = r # rest" "se_relative_path r = []" "se_kind r = DirectoryEntry"
    using validated_envelope(2)[OF e] by blast
  obtain r' rest' where r': "sv_entries e' = r' # rest'" "se_relative_path r' = []" "se_kind r' = DirectoryEntry"
    using validated_envelope(2)[OF e'] by blast
  have rr: "se_sha256 r = se_sha256 r'" using root r(1) r'(1) by simp
  let ?p = "se_relative_path en"
  show ?case
  proof (cases "en = r")
    case True
    have "r' \<in> set (sv_entries e')" using r'(1) by simp
    moreover have "se_relative_path r' = ?p" "se_kind r' = se_kind en" "se_sha256 r' = se_sha256 en"
      using True r r' rr by simp_all
    ultimately show ?thesis by blast
  next
    case False
    then have rest: "en \<in> set (drop 1 (sv_entries e))" using less.prems r(1) by simp
    show ?thesis
    proof (cases "is_projection_root e ?p")
      case True
      then have d: "sv_completeness e = DeclaredScopeOnly" "?p \<in> set (sv_projection_roots e)"
        by (simp_all add: is_projection_root_def)
      from validated_envelope(4)[OF e'] d(2) same(2) obtain x' where x': "entry_index e' ?p = Some x'" by fastforce
      have "map committed (commitments_of e []) = map committed (commitments_of e' [])"
        by (rule directory_commitments_agree[OF e e' inj _ r(3) _ r'(3) r(2) r'(2) rr]) (simp_all add: r(1) r'(1))
      then have "\<forall>root \<in> set (sv_projection_roots e). se_kind (the (entry_index e root)) = se_kind (the (entry_index e' root))
          \<and> se_sha256 (the (entry_index e root)) = se_sha256 (the (entry_index e' root))"
        using d(1) same by (simp add: commitments_of_def committed_def)
      moreover have "entry_index e ?p = Some en" using entry_index_mem[OF e] less.prems by simp
      ultimately have "se_kind x' = se_kind en" "se_sha256 x' = se_sha256 en" using d(2) x' by fastforce+
      moreover have "x' \<in> set (sv_entries e')" "se_relative_path x' = ?p" using x' entry_index_mem[OF e'] by blast+
      ultimately show ?thesis by blast
    next
      case noroot: False
      with validated_envelope(6)[OF e] rest obtain q x where q: "path_parent ?p = Some q" "entry_index e q = Some x"
        "se_kind x = DirectoryEntry" by blast
      have x: "x \<in> set (sv_entries e)" "se_relative_path x = q" using entry_index_mem[OF e] q(2) by blast+
      have p: "?p = q @ [last ?p]" using path_parent_Some[OF q(1)] by blast
      then have "length (se_relative_path x) < length ?p" using x(2) by (metis length_append_singleton lessI)
      from less.hyps[OF this x(1)] obtain x' where x': "x' \<in> set (sv_entries e')" "se_relative_path x' = q"
        "se_kind x' = DirectoryEntry" "se_sha256 x = se_sha256 x'" using x(2) q(3) by auto
      have nodecl: "\<not> (q = [] \<and> sv_completeness e = DeclaredScopeOnly)"
      proof
        assume a: "q = [] \<and> sv_completeness e = DeclaredScopeOnly"
        then obtain z where z: "?p = [z]" using p by simp
        obtain a where "a \<in> set (sv_projection_roots e)" "path_starts_with ?p a"
          using a validated_envelope(5)[OF e] rest by (auto simp: below_projection_def list_ex_iff)
        moreover from this z have "?p = a \<or> a = []"
          by (auto simp: path_starts_with_def Cons_eq_append_conv)
        ultimately show False using roots noroot a by (auto simp: is_projection_root_def)
      qed
      have mem: "en \<in> set (child_entries e q)" using rest noroot q(1) by (simp add: child_entries_def)
      have "map committed (commitments_of e q) = map committed (commitments_of e' q)"
        by (rule directory_commitments_agree[OF e e' inj x(1) q(3) x'(1,3) x(2) x'(2,4)])
      then have "committed ([last ?p], se_kind en, se_sha256 en)
          \<in> (\<lambda>y. committed ([last (se_relative_path y)], se_kind y, se_sha256 y)) ` set (child_entries e' q)"
        using mem nodecl same by (auto simp: commitments_of_def dest!: arg_cong[where f=set])
      then obtain y where y: "y \<in> set (child_entries e' q)" "os_bytes [last (se_relative_path y)] = os_bytes [last ?p]"
        "se_kind y = se_kind en" "se_sha256 y = se_sha256 en" by (auto simp: committed_def)
      have "\<exists>name. last ?p = Normal name" using validated_envelope(7)[OF e] x q(3) nodecl mem by blast
      moreover have "\<exists>name. last (se_relative_path y) = Normal name"
        using validated_envelope(7)[OF e', rule_format, OF x'(1,3)] x'(2) nodecl y(1) same(1) by auto
      ultimately have "last (se_relative_path y) = last ?p" using y(2) by (auto simp: os_bytes_def)
      moreover have "path_parent (se_relative_path y) = Some q" "y \<in> set (sv_entries e')"
        using y(1) by (auto simp: child_entries_def dest: in_set_dropD)
      ultimately show ?thesis using path_parent_Some p y(3,4) by metis
    qed
  qed
qed

lemma root_digest_binds:
  assumes "validate_envelope_structure sha e = Inr ()" "validate_envelope_structure sha e' = Inr ()"
    and "sv_completeness e = sv_completeness e'" "sv_projection_roots e = sv_projection_roots e'"
    and "[] \<notin> set (sv_projection_roots e)"
    and "se_sha256 (hd (sv_entries e)) = se_sha256 (hd (sv_entries e'))"
    and "inj_on sha (directory_images e \<union> directory_images e')"
  shows "committed_entries e = committed_entries e'"
proof -
  have "set (committed_entries e) \<subseteq> set (committed_entries e')"
  proof
    fix x assume "x \<in> set (committed_entries e)"
    then obtain en where "en \<in> set (sv_entries e)" "x = (se_relative_path en, se_kind en, se_sha256 en)"
      by (auto simp: committed_entries_def)
    with tree_included[OF assms this(1)] obtain en' where "en' \<in> set (sv_entries e')"
      "x = (se_relative_path en', se_kind en', se_sha256 en')" by metis
    then show "x \<in> set (committed_entries e')" by (simp add: committed_entries_def)
  qed
  moreover have "set (committed_entries e') \<subseteq> set (committed_entries e)"
  proof
    fix x assume "x \<in> set (committed_entries e')"
    then obtain en where en: "en \<in> set (sv_entries e')" "x = (se_relative_path en, se_kind en, se_sha256 en)"
      by (auto simp: committed_entries_def)
    have "[] \<notin> set (sv_projection_roots e')" "inj_on sha (directory_images e' \<union> directory_images e)"
      using assms(4,5,7) by (simp_all add: Un_commute)
    from tree_included[OF assms(2,1) assms(3,4)[symmetric] this(1) assms(6)[symmetric] this(2) en(1)] en(2)
    obtain en' where "en' \<in> set (sv_entries e)" "x = (se_relative_path en', se_kind en', se_sha256 en')" by metis
    then show "x \<in> set (committed_entries e)" by (simp add: committed_entries_def)
  qed
  ultimately have eq: "set (committed_entries e) = set (committed_entries e')" by blast
  note ok = committed_entries_ok[OF assms(1)] committed_entries_ok[OF assms(2)]
  have "map_of (committed_entries e) p = Some v \<longleftrightarrow> map_of (committed_entries e') p = Some v" for p v
    using eq by (simp add: map_of_eq_iff_mem[OF ok(1)] map_of_eq_iff_mem[OF ok(2)])
  then have "map_of (committed_entries e) = map_of (committed_entries e')"
    by (intro ext) (metis option.exhaust)
  with bm_ok_eqI ok show ?thesis by blast
qed

end
