(* ===== verification/Sample_Acquisition.thy ===== *)
theory Sample_Acquisition
  imports Acquisition_Projection Acquisition_Commitments
begin

text \<open>
  A concrete source tree, a request for the whole project with one exclusion, and its capture, evaluated
  step by step: \<open>src/m\<close> is recorded, \<open>a.log\<close> is left out by the noise policy, \<open>build\<close> by the request.
\<close>

section \<open>Data\<close>

definition aq_digest :: digest where "aq_digest = replicate 64 CHR ''1''"

definition aq_codec :: acquisition_codec where
  "aq_codec = \<lparr>aq_sha = (\<lambda>_. aq_digest), request_to_vec = (\<lambda>_. ''request''), envelope_to_vec = (\<lambda>_. ''envelope'')\<rparr>"

definition aq_budget :: acquisition_budget where "aq_budget = \<lparr>max_files = 4, max_total_bytes = 100\<rparr>"

definition aq_request :: acquisition_request where
  "aq_request = \<lparr>ar_acquisition_id = ''sample'', ar_scope = WholeProject, ar_requested_residency = BestVerified,
     ar_noise_policy = ConservativeGeneratedArtifacts, ar_budget = aq_budget, ar_exclusions = [[Normal ''build'']],
     ar_manifest_sha256 = aq_digest\<rparr>"

definition aq_stat :: "file_type \<Rightarrow> nat \<Rightarrow> int \<Rightarrow> file_stat" where
  "aq_stat t ino n =
     \<lparr>st_dev = 1, st_ino = ino, st_type = t, st_perm = 0, st_uid = 0, st_gid = 0, st_size = n,
      st_mtime = 0, st_mtime_nsec = 0, st_ctime = 0, st_ctime_nsec = 0\<rparr>"

definition aq_file :: source_node where
  "aq_file = SourceNode (Inr (aq_stat RegularFile 3 2)) (Inr (aq_stat RegularFile 3 2)) [] [] [Inr ''ab''] (Inr (aq_stat RegularFile 3 2))"

definition aq_src :: source_node where
  "aq_src = SourceNode (Inr (aq_stat Directory 2 0)) (Inr (aq_stat Directory 2 0)) [Inr ''.'', Inr ''m''] [(''m'', aq_file)] []
     (Inr (aq_stat Directory 2 0))"

definition aq_root :: source_node where
  "aq_root = SourceNode (Inr (aq_stat Directory 5 0)) (Inr (aq_stat Directory 5 0))
     [Inr ''src'', Inr ''..'', Inr ''build'', Inr ''a.log'']
     [(''src'', aq_src), (''a.log'', aq_file), (''build'', aq_file)] [] (Inr (aq_stat Directory 5 0))"

definition aq_session :: capture_session where
  "aq_session = \<lparr>session_pinned = aq_stat Directory 5 0, session_before = Inr (aq_stat Directory 5 0),
     session_root = aq_root, session_after = Inr (aq_stat Directory 5 0)\<rparr>"

definition aq_entry :: "path \<Rightarrow> snapshot_entry_kind \<Rightarrow> nat \<Rightarrow> manifest_entry" where
  "aq_entry p k n = \<lparr>se_relative_path = p, se_kind = k, se_byte_len = n, se_executable = False, se_sha256 = aq_digest\<rparr>"

definition aq_envelope :: system_envelope where
  "aq_envelope =
     \<lparr>sv_acquisition_request_sha256 = aq_digest, sv_completeness = WholeTree, sv_projection_roots = [],
      sv_entries = [aq_entry [] DirectoryEntry 0, aq_entry [Normal ''src''] DirectoryEntry 0,
                    aq_entry [Normal ''src'', Normal ''m''] FileEntry 2],
      sv_excluded_paths =
        [\<lparr>ex_relative_path = [Normal ''a.log''], ex_reason = GeneratedArtifactPolicy\<rparr>,
         \<lparr>ex_relative_path = [Normal ''build''], ex_reason = ExplicitRequest\<rparr>],
      sv_total_file_bytes = 2, sv_source_retention = ManifestOnly, sv_manifest_sha256 = aq_digest\<rparr>"

section \<open>Evaluation\<close>

lemmas aq_data = aq_codec_def aq_budget_def aq_request_def aq_stat_def aq_file_def aq_src_def aq_root_def aq_session_def
  aq_entry_def

lemma aq_digest_facts: "aq_digest \<noteq> zero_digest" "is_valid_str aq_digest" "length aq_digest = 64"
  by (simp_all add: aq_digest_def zero_digest_def HEX_LEN_def is_valid_str_def is_ascii_hexdigit_def is_lower_hex_def
      is_ascii_digit_def is_ascii_uppercase_def list_all_iff less_eq_char_def less_char_def)

lemma aq_finalize: "finalize_digest (aq_sha aq_codec) x = Inr aq_digest"
  by (simp add: finalize_digest_def sha256_digest_parse_def aq_codec_def aq_digest_facts)

lemma aq_request_verifies: "acquisition_request_verify aq_codec aq_request = Inr ()"
  by (simp add: acquisition_request_verify_def aq_request_def aq_budget_def acquisition_budget_validate_def
      canonical_declared_set_def MAX_EXCLUSIONS_def validate_non_overlapping_exclusions_def parents_excluded.simps
      path_parent_def is_draft_def aq_digest_facts request_digest_def digest_domain_def aq_codec_def)

lemma aq_parse:
  "observed_path_parse (os_bytes []) = Inr []"
  "observed_path_parse (os_bytes [Normal ''src'']) = Inr [Normal ''src'']"
  "observed_path_parse (os_bytes [Normal ''src'', Normal ''m'']) = Inr [Normal ''src'', Normal ''m'']"
  "observed_path_parse (os_bytes [Normal ''a.log'']) = Inr [Normal ''a.log'']"
  "observed_path_parse (os_bytes [Normal ''build'']) = Inr [Normal ''build'']"
  by (simp_all add: observed_path_parse_def validate_observed_relative_path_def has_valid_relative_path_shape_def
      os_bytes_def components_def os_is_absolute_def segment_component_def MAX_RELATIVE_COMPONENTS_def MAX_RELATIVE_PATH_BYTES_def)

definition aq_rules :: capture_rules where
  "aq_rules =
     \<lparr>cr_sha = aq_sha aq_codec, cr_selected = [[]], cr_exclusions = [[Normal ''build'']], cr_budget = aq_budget,
      cr_noise = ConservativeGeneratedArtifacts\<rparr>"

lemma aq_rules_of: "capture_rules_of aq_codec aq_request = aq_rules"
  by (simp add: capture_rules_of_def aq_rules_def aq_request_def bs_of_def)

lemma aq_reasons:
  "exclusion_reason_of aq_rules [Normal ''src''] = None"
  "exclusion_reason_of aq_rules [Normal ''src'', Normal ''m''] = None"
  "exclusion_reason_of aq_rules [Normal ''a.log''] = Some GeneratedArtifactPolicy"
  "exclusion_reason_of aq_rules [Normal ''build''] = Some ExplicitRequest"
  by (simp_all add: exclusion_reason_of_def aq_rules_def path_starts_with_def is_conservative_generated_artifact_def
      GENERATED_DIRECTORIES_def GENERATED_SUFFIXES_def path_file_name_def name_ends_with_def utf8_valid_def)

lemma aq_bytes:
  "os_bytes [] = []" "os_bytes [Normal ''src''] = ''src''" "os_bytes [Normal ''src'', Normal ''m''] = ''src/m''"
  "os_bytes [Normal ''a.log''] = ''a.log''" "os_bytes [Normal ''build''] = ''build''"
  by (simp_all add: os_bytes_def)

lemma aq_valid:
  "validate_observed_relative_path ''src'' = Inr ()" "validate_observed_relative_path ''src/m'' = Inr ()"
  "validate_observed_relative_path ''a.log'' = Inr ()" "validate_observed_relative_path ''build'' = Inr ()"
  using aq_parse by (simp_all add: observed_path_parse_def aq_bytes)

lemma aq_selected: "is_selected p (cr_selected aq_rules)"
  by (simp add: is_selected_def aq_rules_def)

lemmas aq_limits = MAX_DIRECTORY_CHILDREN_def MAX_TRAVERSED_ENTRIES_def MAX_TRAVERSED_NAME_BYTES_def
  MAX_CAPTURED_DIRECTORIES_def MAX_MANIFEST_ENTRIES_def MAX_MANIFEST_PATH_BYTES_def MAX_EXCLUSIONS_def
  MAX_RELATIVE_COMPONENTS_def

lemmas aq_counts = checked_increment_def checked_add_def add_manifest_path_bytes_def admit_manifest_path_def

definition aq_c1 :: capture_context where
  "aq_c1 = empty_context\<lparr>cc_visited := [(1, 5)], cc_captured_directories := 1, cc_manifest_entries := 1,
     cc_traversed_entries := 3, cc_traversed_name_bytes := 13\<rparr>"

lemma aq_enter_root:
  "enter_directory aq_rules [] aq_root (aq_stat Directory 5 0) empty_context = Inr ([''a.log'', ''build'', ''src''], aq_c1)"
  by (simp add: enter_directory_def aq_root_def scan_name_def aq_bytes aq_valid aq_selected aq_limits aq_counts
      empty_context_def aq_c1_def aq_stat_def ensure_expected_object_def del: rbind_eq_Inr)

lemma aq_excluded:
  assumes "cc_manifest_entries c < 100" "cc_manifest_path_bytes c < 100" "length (cc_excluded c) < 100"
    and "observed_path_parse (os_bytes p) = Inr p" "length (os_bytes p) < 100"
  shows "admit_excluded_path p reason c = Inr (c\<lparr>cc_manifest_entries := cc_manifest_entries c + 1,
     cc_manifest_path_bytes := cc_manifest_path_bytes c + length (os_bytes p),
     cc_excluded := cc_excluded c @ [\<lparr>ex_relative_path = p, ex_reason = reason\<rparr>]\<rparr>)"
  using assms by (simp add: admit_excluded_path_def aq_counts aq_limits del: rbind_eq_Inr)

definition aq_c2 :: capture_context where
  "aq_c2 = aq_c1\<lparr>cc_manifest_entries := 3, cc_manifest_path_bytes := 10,
     cc_excluded := [\<lparr>ex_relative_path = [Normal ''a.log''], ex_reason = GeneratedArtifactPolicy\<rparr>,
                     \<lparr>ex_relative_path = [Normal ''build''], ex_reason = ExplicitRequest\<rparr>]\<rparr>"

definition aq_c3 :: capture_context where
  "aq_c3 = aq_c2\<lparr>cc_visited := [(1, 2), (1, 5)], cc_captured_directories := 2, cc_manifest_entries := 4,
     cc_manifest_path_bytes := 13, cc_traversed_entries := 4, cc_traversed_name_bytes := 14\<rparr>"

definition aq_c4 :: capture_context where
  "aq_c4 = aq_c3\<lparr>cc_file_count := 1, cc_total_file_bytes := 2, cc_manifest_entries := 5, cc_manifest_path_bytes := 18,
     cc_entries := [aq_entry [Normal ''src'', Normal ''m''] FileEntry 2]\<rparr>"

definition aq_c5 :: capture_context where
  "aq_c5 = aq_c4\<lparr>cc_entries := [aq_entry [Normal ''src'', Normal ''m''] FileEntry 2, aq_entry [Normal ''src''] DirectoryEntry 0]\<rparr>"

lemma aq_enter_src:
  "enter_directory aq_rules [Normal ''src''] aq_src (aq_stat Directory 2 0) aq_c2 = Inr ([''m''], aq_c3)"
  by (simp add: enter_directory_def aq_src_def scan_name_def aq_bytes aq_valid aq_selected aq_limits aq_counts
      empty_context_def aq_c1_def aq_c2_def aq_c3_def aq_stat_def ensure_expected_object_def del: rbind_eq_Inr)

lemma aq_capture_m:
  "capture_file aq_rules [Normal ''src'', Normal ''m''] aq_file (aq_stat RegularFile 3 2) aq_c3 = Inr (aq_digest, aq_c4)"
  using aq_finalize
  by (simp add: capture_file_def aq_file_def Let_def file_image_def hash_frame_def aq_bytes aq_parse[unfolded aq_bytes]
      aq_rules_def aq_budget_def ensure_stable_object_def ensure_same_object_def same_object_identity_def
      ensure_expected_object_def aq_stat_def aq_counts aq_limits is_executable_def push_entry_def aq_entry_def
      empty_context_def aq_c1_def aq_c2_def aq_c3_def aq_c4_def checked_sub_def del: rbind_eq_Inr)

lemma aq_directory_digest: "directory_image p cs = Inr img \<Longrightarrow> directory_digest (cr_sha aq_rules) p cs = Inr aq_digest"
  using aq_finalize by (simp add: directory_digest_def aq_rules_def del: rbind_eq_Inr)

lemma aq_images:
  "\<exists>img. directory_image [Normal ''src''] [([Normal ''m''], FileEntry, aq_digest)] = Inr img"
  "\<exists>img. directory_image [] [([Normal ''src''], DirectoryEntry, aq_digest)] = Inr img"
  by (simp_all add: directory_image_def hash_frame_def hash_child_def os_bytes_def aq_digest_facts)

lemma aq_nodes:
  "find_child aq_src ''m'' = Inr aq_file" "find_child aq_root ''src'' = Inr aq_src"
  "node_inspected aq_file = Inr (aq_stat RegularFile 3 2)" "node_inspected aq_src = Inr (aq_stat Directory 2 0)"
  "st_type (aq_stat t i k) = t"
  by (simp_all add: find_child_def aq_src_def aq_root_def aq_file_def aq_stat_def)

lemma aq_capture_src:
  "capture_directory aq_rules [Normal ''src''] aq_src (aq_stat Directory 2 0) 1 aq_c2 = Inr (aq_digest, aq_c5)"
proof -
  have "capture_children aq_rules [Normal ''src''] aq_src 1 [''m''] [] aq_c3 = Inr ([([Normal ''m''], FileEntry, aq_digest)], aq_c4)"
    by (simp add: capture_children.simps aq_reasons aq_nodes aq_capture_m del: rbind_eq_Inr)
  moreover have "leave_directory aq_rules [Normal ''src''] aq_src (aq_stat Directory 2 0) [([Normal ''m''], FileEntry, aq_digest)] aq_c4
      = Inr (aq_digest, aq_c5)"
    using aq_images(1) aq_directory_digest
    by (auto simp add: leave_directory_def aq_src_def aq_parse aq_c5_def aq_entry_def push_entry_def aq_c4_def
        ensure_stable_object_def ensure_same_object_def same_object_identity_def ensure_expected_object_def aq_stat_def)
  ultimately show ?thesis
    by (simp add: capture_directory.simps aq_enter_src MAX_RELATIVE_COMPONENTS_def del: rbind_eq_Inr)
qed

definition aq_context :: capture_context where
  "aq_context = push_entry (aq_entry [] DirectoryEntry 0) aq_c5"

lemma aq_capture_root:
  "capture_directory aq_rules [] aq_root (aq_stat Directory 5 0) 0 empty_context = Inr (aq_digest, aq_context)"
proof -
  have "admit_excluded_path [Normal ''a.log''] GeneratedArtifactPolicy aq_c1 = Inr (aq_c1\<lparr>cc_manifest_entries := 2,
      cc_manifest_path_bytes := 5, cc_excluded := [\<lparr>ex_relative_path = [Normal ''a.log''], ex_reason = GeneratedArtifactPolicy\<rparr>]\<rparr>)"
    by (subst aq_excluded) (simp_all add: aq_c1_def empty_context_def aq_parse[unfolded aq_bytes] aq_bytes)
  moreover have "admit_excluded_path [Normal ''build''] ExplicitRequest (aq_c1\<lparr>cc_manifest_entries := 2,
      cc_manifest_path_bytes := 5, cc_excluded := [\<lparr>ex_relative_path = [Normal ''a.log''], ex_reason = GeneratedArtifactPolicy\<rparr>]\<rparr>)
      = Inr aq_c2"
    by (subst aq_excluded) (simp_all add: aq_c1_def aq_c2_def empty_context_def aq_parse[unfolded aq_bytes] aq_bytes)
  moreover have "open_directory_beneath (aq_stat Directory 2 0) aq_src = Inr (aq_stat Directory 2 0)"
    by (simp add: open_directory_beneath_def aq_src_def aq_stat_def ensure_same_object_def same_object_identity_def ensure_expected_object_def)
  ultimately have "capture_children aq_rules [] aq_root 0 [''a.log'', ''build'', ''src''] [] aq_c1
      = Inr ([([Normal ''src''], DirectoryEntry, aq_digest)], aq_c5)"
    using aq_capture_src by (simp add: capture_children.simps aq_reasons aq_nodes del: rbind_eq_Inr)
  moreover have "leave_directory aq_rules [] aq_root (aq_stat Directory 5 0) [([Normal ''src''], DirectoryEntry, aq_digest)] aq_c5
      = Inr (aq_digest, aq_context)"
    using aq_images(2) aq_directory_digest
    by (auto simp add: leave_directory_def aq_root_def aq_parse aq_context_def aq_entry_def
        ensure_stable_object_def ensure_same_object_def same_object_identity_def ensure_expected_object_def aq_stat_def)
  ultimately show ?thesis
    by (simp add: capture_directory.simps aq_enter_root MAX_RELATIVE_COMPONENTS_def del: rbind_eq_Inr)
qed

section \<open>The envelope\<close>

lemma aq_entries:
  "sort_key se_relative_path (cc_entries aq_context) = sv_entries aq_envelope"
  "sort_key ex_relative_path (cc_excluded aq_context) = sv_excluded_paths aq_envelope"
  "cc_total_file_bytes aq_context = 2"
  by (simp_all add: aq_context_def push_entry_def aq_c5_def aq_c4_def aq_c3_def aq_c2_def aq_c1_def empty_context_def aq_envelope_def
      aq_entry_def less_eq_component_def less_component_def)

definition aq_scan :: envelope_scan where
  "aq_scan =
     \<lparr>previous_entry = Some [Normal ''src'', Normal ''m''], scanned_file_bytes = 2, scanned_path_bytes = 8, directory_count = 2,
      entry_by_path = [([], aq_entry [] DirectoryEntry 0), ([Normal ''src''], aq_entry [Normal ''src''] DirectoryEntry 0),
         ([Normal ''src'', Normal ''m''], aq_entry [Normal ''src'', Normal ''m''] FileEntry 2)]\<rparr>"

lemma aq_scanned: "scan_entries (sv_entries aq_envelope) = Inr aq_scan"
  by (simp add: scan_entries_def scan_entry_def aq_envelope_def aq_entry_def aq_bytes aq_valid aq_counts aq_limits aq_digest_facts
      aq_scan_def less_component_def del: rbind_eq_Inr)

definition aq_children :: child_map where
  "aq_children = [([], [aq_entry [Normal ''src''] DirectoryEntry 0]),
     ([Normal ''src''], [aq_entry [Normal ''src'', Normal ''m''] FileEntry 2])]"

lemma aq_placed: "rfold (place_entry aq_envelope (entry_by_path aq_scan)) (drop 1 (sv_entries aq_envelope)) [] = Inr aq_children"
  by (simp add: place_entry_def aq_envelope_def aq_entry_def aq_scan_def path_parent_def add_child_def aq_children_def
      less_component_def del: rbind_eq_Inr)

lemma aq_directories:
  assumes "en \<in> set (sv_entries aq_envelope)" and "se_kind en = DirectoryEntry"
  shows "check_directory (aq_sha aq_codec) aq_envelope (entry_by_path aq_scan) aq_children en = Inr ()"
proof -
  have "aq_sha aq_codec = cr_sha aq_rules" by (simp add: aq_rules_def)
  moreover have "en = aq_entry [] DirectoryEntry 0 \<or> en = aq_entry [Normal ''src''] DirectoryEntry 0"
    using assms by (auto simp: aq_envelope_def aq_entry_def)
  ultimately show ?thesis using aq_images aq_directory_digest
    by (auto simp: check_directory_def directory_commitments_def aq_children_def aq_envelope_def aq_entry_def child_commitment_def
        path_file_name_def)
qed

lemma aq_structure: "validate_envelope_structure (aq_sha aq_codec) aq_envelope = Inr ()"
proof -
  have "envelope_header aq_envelope = Inr ()"
    by (simp add: envelope_header_def aq_envelope_def is_draft_def aq_digest_facts aq_limits saturating_add_def)
  moreover have "envelope_root aq_envelope = Inr ()"
    by (simp add: envelope_root_def aq_envelope_def aq_entry_def)
  moreover have "rfold (scan_excluded aq_envelope) (sv_excluded_paths aq_envelope) (None, scanned_path_bytes aq_scan)
      = Inr (Some [Normal ''build''], 18)"
    by (simp add: scan_excluded_def aq_envelope_def aq_entry_def aq_bytes aq_valid aq_counts aq_scan_def path_starts_with_def
        less_component_def del: rbind_eq_Inr)
  moreover have "sv_projection_roots aq_envelope = []" "sv_completeness aq_envelope = WholeTree"
    "sv_total_file_bytes aq_envelope = scanned_file_bytes aq_scan" by (simp_all add: aq_envelope_def aq_scan_def)
  ultimately show ?thesis
    using aq_scanned aq_placed aq_directories
    by (simp add: validate_envelope_structure_def MAX_MANIFEST_PATH_BYTES_def bs_of_def)
qed

lemma aq_manifest: "verify_manifest aq_codec aq_envelope = Inr ()"
  using aq_structure
  by (simp add: verify_manifest_def aq_envelope_def is_draft_def aq_digest_facts envelope_digest_def digest_domain_def aq_codec_def)

lemma aq_captured: "capture_from_session aq_codec aq_session aq_request = Inr aq_envelope"
proof -
  have root: "current_source_root_stat (session_pinned aq_session) (session_before aq_session) = Inr (aq_stat Directory 5 0)"
    "current_source_root_stat (session_pinned aq_session) (session_after aq_session) = Inr (aq_stat Directory 5 0)"
    by (simp_all add: current_source_root_stat_def aq_session_def ensure_same_object_def same_object_identity_def
        ensure_expected_object_def aq_stat_def)
  have scope: "capture_scope aq_rules (ar_scope aq_request) (session_root aq_session) (aq_stat Directory 5 0) = Inr aq_context"
    using aq_capture_root by (simp add: capture_scope_def aq_request_def aq_session_def)
  have cover: "validate_explicit_exclusion_coverage (sv_excluded_paths aq_envelope) (cr_exclusions aq_rules) = Inr ()"
    "validate_requested_coverage (sv_entries aq_envelope) (cr_selected aq_rules) = Inr ()"
    by (simp_all add: validate_explicit_exclusion_coverage_def validate_requested_coverage_def aq_envelope_def aq_rules_def
        aq_entry_def bs_of_def)
  have digest: "envelope_digest aq_codec x = aq_digest" for x
    by (simp add: envelope_digest_def digest_domain_def aq_codec_def)
  have fields: "ar_manifest_sha256 aq_request = aq_digest" "ar_scope aq_request = WholeProject" by (simp_all add: aq_request_def)
  have e: "\<lparr>sv_acquisition_request_sha256 = aq_digest, sv_completeness = WholeTree, sv_projection_roots = [],
      sv_entries = sv_entries aq_envelope, sv_excluded_paths = sv_excluded_paths aq_envelope, sv_total_file_bytes = 2,
      sv_source_retention = ManifestOnly, sv_manifest_sha256 = aq_digest\<rparr> = aq_envelope"
    by (simp add: aq_envelope_def)
  show ?thesis
    using aq_manifest
    by (simp add: capture_from_session_def Let_def aq_request_verifies root aq_rules_of scope[unfolded fields] aq_entries cover digest fields
        scope_completeness_def scope_projection_def e del: rbind_eq_Inr)
qed

lemma aq_well_named: "well_named aq_root"
proof -
  have f: "well_named aq_file" by (rule well_named.intros) (simp_all add: aq_file_def)
  have s: "well_named aq_src"
    by (rule well_named.intros) (use f in \<open>auto simp: aq_src_def file_name_def split: if_splits\<close>)
  show ?thesis
    by (rule well_named.intros) (use f s in \<open>auto simp: aq_root_def file_name_def split: if_splits\<close>)
qed

section \<open>A smaller envelope\<close>

text \<open>One file; only its stated length varies, which the directory record does not commit to.\<close>

definition aq_small :: "nat \<Rightarrow> system_envelope" where
  "aq_small n =
     \<lparr>sv_acquisition_request_sha256 = aq_digest, sv_completeness = WholeTree, sv_projection_roots = [],
      sv_entries = [aq_entry [] DirectoryEntry 0, aq_entry [Normal ''src''] FileEntry n],
      sv_excluded_paths = [], sv_total_file_bytes = n, sv_source_retention = ManifestOnly, sv_manifest_sha256 = aq_digest\<rparr>"

lemma aq_small_children: "child_entries (aq_small n) [] = [aq_entry [Normal ''src''] FileEntry n]"
  by (simp add: child_entries_def aq_small_def aq_entry_def is_projection_root_def path_parent_def)

lemma aq_small_commitments: "commitments_of (aq_small n) [] = [([Normal ''src''], FileEntry, aq_digest)]"
  by (simp add: commitments_of_def aq_small_children) (simp add: aq_small_def aq_entry_def)

lemma aq_small_image: "\<exists>img. directory_image [] [([Normal ''src''], FileEntry, aq_digest)] = Inr img"
  by (simp add: directory_image_def hash_frame_def hash_child_def os_bytes_def aq_digest_facts)

lemma aq_small_verifies:
  assumes "n < 100" shows "verify_manifest aq_codec (aq_small n) = Inr ()"
proof -
  let ?s = "\<lparr>previous_entry = Some [Normal ''src''], scanned_file_bytes = n, scanned_path_bytes = 3, directory_count = 1,
      entry_by_path = [([], aq_entry [] DirectoryEntry 0), ([Normal ''src''], aq_entry [Normal ''src''] FileEntry n)]\<rparr>"
  have "envelope_header (aq_small n) = Inr ()"
    by (simp add: envelope_header_def aq_small_def is_draft_def aq_digest_facts aq_limits saturating_add_def)
  moreover have "envelope_root (aq_small n) = Inr ()" by (simp add: envelope_root_def aq_small_def aq_entry_def)
  moreover have "scan_entries (sv_entries (aq_small n)) = Inr ?s"
    using assms by (simp add: scan_entries_def scan_entry_def aq_small_def aq_entry_def aq_bytes aq_valid aq_counts aq_limits
        aq_digest_facts less_component_def del: rbind_eq_Inr)
  moreover have "rfold (place_entry (aq_small n) (entry_by_path ?s)) (drop 1 (sv_entries (aq_small n))) []
      = Inr [([], [aq_entry [Normal ''src''] FileEntry n])]"
    by (simp add: place_entry_def aq_small_def aq_entry_def path_parent_def add_child_def del: rbind_eq_Inr)
  moreover have "check_directory (aq_sha aq_codec) (aq_small n) (entry_by_path ?s) [([], [aq_entry [Normal ''src''] FileEntry n])] en = Inr ()"
    if "en \<in> set (sv_entries (aq_small n))" "se_kind en = DirectoryEntry" for en
  proof -
    have "en = aq_entry [] DirectoryEntry 0" using that by (auto simp: aq_small_def aq_entry_def)
    with aq_small_image aq_directory_digest[unfolded aq_rules_def, simplified] show ?thesis
      by (auto simp: check_directory_def directory_commitments_def aq_small_def aq_entry_def child_commitment_def path_file_name_def)
  qed
  moreover have "sv_projection_roots (aq_small n) = []" "sv_completeness (aq_small n) = WholeTree"
    "sv_total_file_bytes (aq_small n) = n" "sv_excluded_paths (aq_small n) = []" by (simp_all add: aq_small_def)
  ultimately have "validate_envelope_structure (aq_sha aq_codec) (aq_small n) = Inr ()"
    by (simp add: validate_envelope_structure_def MAX_MANIFEST_PATH_BYTES_def bs_of_def)
  then show ?thesis
    by (simp add: verify_manifest_def aq_small_def is_draft_def aq_digest_facts envelope_digest_def digest_domain_def aq_codec_def)
qed

lemma aq_small_images: "inj_on f (directory_images (aq_small m) \<union> directory_images (aq_small n))"
proof -
  obtain img where img: "directory_image [] [([Normal ''src''], FileEntry, aq_digest)] = Inr img" using aq_small_image by blast
  have "directory_images (aq_small k) \<subseteq> {img}" for k
  proof
    fix x assume "x \<in> directory_images (aq_small k)"
    then obtain en where en: "en \<in> set (sv_entries (aq_small k))" "se_kind en = DirectoryEntry"
      "directory_image (se_relative_path en) (commitments_of (aq_small k) (se_relative_path en)) = Inr x"
      unfolding directory_images_def by blast
    then have "se_relative_path en = []" by (auto simp: aq_small_def aq_entry_def)
    with en(3) img show "x \<in> {img}" by (simp add: aq_small_commitments)
  qed
  then have "directory_images (aq_small m) \<union> directory_images (aq_small n) \<subseteq> {img}" by blast
  then show ?thesis by (rule inj_on_subset[rotated]) simp
qed

section \<open>A declared scope\<close>

definition aq_declared :: acquisition_request where
  "aq_declared = \<lparr>ar_acquisition_id = ''sample'', ar_scope = DeclaredPaths [[Normal ''src'']], ar_requested_residency = WeightsOnly,
     ar_noise_policy = ExplicitOnly, ar_budget = aq_budget, ar_exclusions = [], ar_manifest_sha256 = aq_digest\<rparr>"

lemma aq_declared_new:
  "acquisition_request_new aq_codec ''sample'' (DeclaredPaths [[Normal ''src'', Normal ''m''], [Normal ''src'']]) WeightsOnly
     ExplicitOnly aq_budget [] = Inr aq_declared"
  by (simp add: acquisition_request_new_def acquisition_budget_validate_def aq_budget_def check_root_count_def MAX_SCOPE_ROOTS_def
      normalize_declared_roots_def keep_root_def bs_of_def less_component_def path_starts_with_def canonical_declared_set_def
      MAX_EXCLUSIONS_def validate_non_overlapping_exclusions_def aq_declared_def request_digest_def digest_domain_def aq_codec_def
      del: rbind_eq_Inr)

end
