(* ===== verification/Acquisition_Properties.thy ===== *)
theory Acquisition_Properties
  imports Sample_Acquisition
begin

text \<open>
  The properties of acquisition: requests are canonical, a capture records exactly the authorized
  projection of the source within its budget, and a verified envelope binds the whole tree.
\<close>

section \<open>The projection\<close>

text \<open>What a request selects of a source, and what it leaves out.\<close>

definition in_projection :: "capture_rules \<Rightarrow> source_node \<Rightarrow> path \<Rightarrow> source_node \<Rightarrow> bool" where
  "in_projection R source_root q m \<longleftrightarrow>
     (\<exists>r \<in> set (cr_selected R). \<exists>n. find_beneath source_root r = Inr n
        \<and> ((r \<noteq> [] \<and> q = r \<and> m = n) \<or> ((r = [] \<or> node_type n = Some Directory) \<and> inside R r n q m)))"

definition omitted :: "capture_rules \<Rightarrow> source_node \<Rightarrow> path \<Rightarrow> exclusion_reason \<Rightarrow> bool" where
  "omitted R source_root q reason \<longleftrightarrow>
     (\<exists>r \<in> set (cr_selected R). \<exists>n. find_beneath source_root r = Inr n
        \<and> (r = [] \<or> node_type n = Some Directory) \<and> left_out R r n q reason)"

text \<open>The invariant of \<open>DeclaredRelativePath\<close>, which its parser establishes (\<open>declared_path_good\<close>).\<close>

definition scope_paths_ok :: "acquisition_scope \<Rightarrow> bool" where
  "scope_paths_ok scope \<longleftrightarrow>
     (case scope of WholeProject \<Rightarrow> True | DeclaredPaths roots \<Rightarrow> list_all (\<lambda>r. r \<noteq> [] \<and> good_path r) roots)"

lemma find_beneath_well_named: "find_beneath n p = Inr m \<Longrightarrow> well_named n \<Longrightarrow> well_named m"
proof (induction n p rule: find_beneath.induct)
  case (2 n name p)
  then obtain st child where "node_inspected n = Inr st" "\<not> st_type st \<noteq> Directory" "find_child n name = Inr child"
      "find_beneath child p = Inr m" by (auto split: sum.splits if_splits)
  with 2 well_named_child show ?case by blast
qed auto

lemma capture_selected_root_grown:
  assumes "capture_selected_root R source_root r (commitments, c) = Inr (commitments', c')"
    and "well_named source_root" and "good_path r" and "r \<noteq> []"
  shows "\<exists>n. find_beneath source_root r = Inr n
    \<and> grown R (insert (r, n) (if node_type n = Some Directory then {(q, m). inside R r n q m} else {}))
        (if node_type n = Some Directory then {(q, reason). left_out R r n q reason} else {}) c c'"
proof -
  from assms(1) obtain n inspected where n: "find_beneath source_root r = Inr n" "node_inspected n = Inr inspected"
    by (auto simp: capture_selected_root_def)
  have type: "node_type n = Some (st_type inspected)" using n(2) by (simp add: node_type_def)
  have wn: "well_named n" using find_beneath_well_named n(1) assms(2) by blast
  show ?thesis
  proof (cases "st_type inspected")
    case Directory
    with assms(1) n obtain opened d where "capture_directory R r n opened (length r) c = Inr (d, c')"
      by (auto simp: capture_selected_root_def)
    with capture_directory_exact[OF this assms(3) wn] type Directory n(1) show ?thesis by simp
  next
    case RegularFile
    with assms(1) n obtain d where "capture_file R r n inspected c = Inr (d, c')"
      by (auto simp: capture_selected_root_def)
    with capture_file_grown[OF this n(2) assms(3)] type RegularFile n(1) show ?thesis by simp
  qed (use assms(1) n in \<open>auto simp: capture_selected_root_def\<close>)
qed

lemma capture_selected_roots_grown:
  assumes "rfold (capture_selected_root R source_root) rs (commitments, c) = Inr (commitments', c')"
    and "well_named source_root" and "\<forall>r \<in> set rs. r \<noteq> [] \<and> good_path r"
  shows "grown R
     {(q, m). \<exists>r \<in> set rs. \<exists>n. find_beneath source_root r = Inr n
        \<and> ((q = r \<and> m = n) \<or> (node_type n = Some Directory \<and> inside R r n q m))}
     {(q, reason). \<exists>r \<in> set rs. \<exists>n. find_beneath source_root r = Inr n
        \<and> node_type n = Some Directory \<and> left_out R r n q reason} c c'"
  using assms
proof (induction rs arbitrary: commitments c)
  case (Cons r rs)
  then obtain commitments1 c1 where step: "capture_selected_root R source_root r (commitments, c) = Inr (commitments1, c1)"
    and rest: "rfold (capture_selected_root R source_root) rs (commitments1, c1) = Inr (commitments', c')"
    by (auto simp: rbind_def split: sum.splits)
  from capture_selected_root_grown[OF step Cons.prems(2)] Cons.prems(3) obtain n where n: "find_beneath source_root r = Inr n"
    and g: "grown R (insert (r, n) (if node_type n = Some Directory then {(q, m). inside R r n q m} else {}))
        (if node_type n = Some Directory then {(q, reason). left_out R r n q reason} else {}) c c1" by auto
  have tail: "\<forall>r \<in> set rs. r \<noteq> [] \<and> good_path r" using Cons.prems(3) by simp
  let ?A = "\<lambda>rs. {(q, m). \<exists>r \<in> set rs. \<exists>n. find_beneath source_root r = Inr n
        \<and> ((q = r \<and> m = n) \<or> (node_type n = Some Directory \<and> inside R r n q m))}"
  let ?X = "\<lambda>rs. {(q, reason). \<exists>r \<in> set rs. \<exists>n. find_beneath source_root r = Inr n
        \<and> node_type n = Some Directory \<and> left_out R r n q reason}"
  have "?A (r # rs) = insert (r, n) (if node_type n = Some Directory then {(q, m). inside R r n q m} else {}) \<union> ?A rs"
    "?X (r # rs) = (if node_type n = Some Directory then {(q, reason). left_out R r n q reason} else {}) \<union> ?X rs"
    using n by auto
  with grown_trans[OF g Cons.IH[OF rest Cons.prems(2) tail]] show ?case by simp
qed simp

lemma capture_scope_exact:
  assumes "capture_scope R scope source_root root_stat = Inr c" and "cr_selected R = selected_roots scope"
    and "well_named source_root" and "scope_paths_ok scope"
  shows "grown R (insert ([], source_root) {(q, m). in_projection R source_root q m})
    {(q, reason). omitted R source_root q reason} empty_context c"
proof (cases scope)
  case WholeProject
  with assms(1) obtain d where "capture_directory R [] source_root root_stat 0 empty_context = Inr (d, c)"
    by (auto simp: capture_scope_def)
  from capture_directory_exact[OF this _ assms(3)] WholeProject assms(2) show ?thesis
    by (simp add: in_projection_def omitted_def)
next
  case (DeclaredPaths roots)
  with assms(1) obtain commitments c1 c2 d where
      loop: "rfold (capture_selected_root R source_root) (cr_selected R) ([], empty_context) = Inr (commitments, c1)"
    and admit: "admit_manifest_path [] c1 = Inr c2"
    and c: "c = push_entry \<lparr>se_relative_path = [], se_kind = DirectoryEntry, se_byte_len = 0, se_executable = False, se_sha256 = d\<rparr> c2"
    by (auto simp: capture_scope_def)
  have ok: "\<forall>r \<in> set (cr_selected R). r \<noteq> [] \<and> good_path r"
    using assms(2,4) DeclaredPaths by (simp add: scope_paths_ok_def list_all_iff)
  have "describes R [] source_root \<lparr>se_relative_path = [], se_kind = DirectoryEntry, se_byte_len = 0, se_executable = False, se_sha256 = d\<rparr>"
    by (simp add: describes_def)
  then have "grown R {([], source_root)} {} c1 c"
    unfolding c using admit_manifest_path_same[OF admit] by (intro grown_push) simp_all
  from grown_trans[OF capture_selected_roots_grown[OF loop assms(3) ok] this]
  have g: "grown R (insert ([], source_root) {(q, m). \<exists>r \<in> set (cr_selected R). \<exists>n. find_beneath source_root r = Inr n
        \<and> ((q = r \<and> m = n) \<or> (node_type n = Some Directory \<and> inside R r n q m))})
     {(q, reason). \<exists>r \<in> set (cr_selected R). \<exists>n. find_beneath source_root r = Inr n
        \<and> node_type n = Some Directory \<and> left_out R r n q reason} empty_context c" by simp
  have "in_projection R source_root q m \<longleftrightarrow> (\<exists>r \<in> set (cr_selected R). \<exists>n. find_beneath source_root r = Inr n
        \<and> ((q = r \<and> m = n) \<or> (node_type n = Some Directory \<and> inside R r n q m)))" for q m
    unfolding in_projection_def using ok by (intro bex_cong refl) simp
  moreover have "omitted R source_root q reason \<longleftrightarrow> (\<exists>r \<in> set (cr_selected R). \<exists>n. find_beneath source_root r = Inr n
        \<and> node_type n = Some Directory \<and> left_out R r n q reason)" for q reason
    unfolding omitted_def using ok by (intro bex_cong refl) simp
  ultimately show ?thesis using g by simp
qed

section \<open>The budget\<close>

definition file_entries :: "manifest_entry list \<Rightarrow> manifest_entry list" where
  "file_entries es = filter (\<lambda>en. se_kind en = FileEntry) es"

definition within_budget :: "capture_rules \<Rightarrow> capture_context \<Rightarrow> bool" where
  "within_budget R c \<longleftrightarrow>
     cc_file_count c = length (file_entries (cc_entries c))
     \<and> cc_total_file_bytes c = sum_list (map se_byte_len (file_entries (cc_entries c)))
     \<and> cc_file_count c \<le> max_files (cr_budget R) \<and> cc_total_file_bytes c \<le> max_total_bytes (cr_budget R)"

lemma within_budget_cong:
  "cc_entries c' = cc_entries c \<Longrightarrow> cc_file_count c' = cc_file_count c \<Longrightarrow> cc_total_file_bytes c' = cc_total_file_bytes c
   \<Longrightarrow> within_budget R c' = within_budget R c"
  by (simp add: within_budget_def)

lemma within_budget_push_directory:
  "within_budget R c \<Longrightarrow> se_kind en = DirectoryEntry \<Longrightarrow> within_budget R (push_entry en c)"
  by (simp add: within_budget_def push_entry_def file_entries_def)

lemma admit_excluded_budget: "admit_excluded_path p reason c = Inr c' \<Longrightarrow> within_budget R c \<Longrightarrow> within_budget R c'"
  by (auto simp: admit_excluded_path_def within_budget_def dest!: admit_manifest_path_same)

lemma capture_file_budget:
  assumes "capture_file R p n inspected c = Inr (d, c')" and "within_budget R c"
  shows "within_budget R c'"
proof -
  from assms(1) obtain opened len c1 q where h:
      "cc_file_count c + 1 \<le> max_files (cr_budget R)" "cc_total_file_bytes c \<le> max_total_bytes (cr_budget R)"
      "len \<le> max_total_bytes (cr_budget R) - cc_total_file_bytes c"
      "admit_manifest_path p (c\<lparr>cc_file_count := cc_file_count c + 1, cc_total_file_bytes := cc_total_file_bytes c + len\<rparr>) = Inr c1"
      "c' = push_entry \<lparr>se_relative_path = q, se_kind = FileEntry, se_byte_len = len,
                        se_executable = is_executable opened, se_sha256 = d\<rparr> c1"
    unfolding capture_file_def Let_def checked_increment_def rbind_eq_Inr reject_eq_Inr ok_or_eq_Inr
      checked_add_eq_Some checked_sub_eq_Some case_prod_unfold
    by (auto simp: not_less)
  from admit_manifest_path_same[OF h(4)] assms(2) h(1-3) show ?thesis
    unfolding h(5) by (simp add: within_budget_def push_entry_def file_entries_def)
qed

lemma capture_directory_budget:
  "capture_directory R p n initial depth c = Inr (d, c') \<Longrightarrow> within_budget R c \<Longrightarrow> within_budget R c'"
  and capture_children_budget:
  "capture_children R p n depth names commitments c = Inr (commitments', c') \<Longrightarrow> within_budget R c \<Longrightarrow> within_budget R c'"
proof (induction R p n initial depth c and R p n depth names commitments c arbitrary: d c' and commitments' c'
    rule: capture_directory_capture_children.induct)
  case (1 R p n initial depth c)
  then obtain names c1 commitments c2 where
      depth: "\<not> MAX_RELATIVE_COMPONENTS < depth" and e: "enter_directory R p n initial c = Inr (names, c1)"
    and ch: "capture_children R p n depth names [] c1 = Inr (commitments, c2)"
    and l: "leave_directory R p n initial commitments c2 = Inr (d, c')"
    by (auto simp: capture_directory.simps split: if_splits)
  from enter_directory_effect[OF e] 1(3) have "within_budget R c1" using within_budget_cong by blast
  from 1(1)[OF depth e refl ch this] l show ?case
    by (auto simp: leave_directory_def intro: within_budget_push_directory)
next
  case (3 R p n depth name names commitments c)
  show ?case
  proof (cases "exclusion_reason_of R (p @ [Normal name])")
    case (Some reason)
    with 3(5) obtain c1 where a: "admit_excluded_path (p @ [Normal name]) reason c = Inr c1"
      and rest: "capture_children R p n depth names commitments c1 = Inr (commitments', c')"
      by (auto simp: capture_children.simps(2))
    from 3(4)[OF Some a rest admit_excluded_budget[OF a 3(6)]] show ?thesis .
  next
    case None
    with 3(5) obtain child inspected where f: "find_child n name = Inr child" and i: "node_inspected child = Inr inspected"
      by (auto simp: capture_children.simps(2))
    show ?thesis
    proof (cases "st_type inspected")
      case Directory
      with 3(5) None f i obtain opened d1 c1 where o: "open_directory_beneath inspected child = Inr opened"
        and dir: "capture_directory R (p @ [Normal name]) child opened (depth + 1) c = Inr (d1, c1)"
        and rest: "capture_children R p n depth names (commitments @ [([Normal name], DirectoryEntry, d1)]) c1 = Inr (commitments', c')"
        by (auto simp: capture_children.simps(2))
      from 3(2)[OF None f i Directory o dir refl rest 3(1)[OF None f i Directory o dir 3(6)]] show ?thesis .
    next
      case RegularFile
      with 3(5) None f i obtain d1 c1 where cf: "capture_file R (p @ [Normal name]) child inspected c = Inr (d1, c1)"
        and rest: "capture_children R p n depth names (commitments @ [([Normal name], FileEntry, d1)]) c1 = Inr (commitments', c')"
        by (auto simp: capture_children.simps(2))
      have "st_type inspected \<noteq> Directory" using RegularFile by simp
      from 3(3)[OF None f i this RegularFile cf refl rest capture_file_budget[OF cf 3(6)]] show ?thesis .
    qed (use 3(5) None f i in \<open>auto simp: capture_children.simps(2)\<close>)
  qed
qed simp

lemma capture_scope_budget:
  assumes "capture_scope R scope source_root root_stat = Inr c" shows "within_budget R c"
proof -
  have empty: "within_budget R empty_context" by (simp add: within_budget_def empty_context_def file_entries_def)
  show ?thesis
  proof (cases scope)
    case WholeProject
    with assms capture_directory_budget empty show ?thesis by (auto simp: capture_scope_def)
  next
    case (DeclaredPaths roots)
    with assms obtain commitments c1 c2 d where
        loop: "rfold (capture_selected_root R source_root) (cr_selected R) ([], empty_context) = Inr (commitments, c1)"
      and admit: "admit_manifest_path [] c1 = Inr c2"
      and c: "c = push_entry \<lparr>se_relative_path = [], se_kind = DirectoryEntry, se_byte_len = 0, se_executable = False, se_sha256 = d\<rparr> c2"
      by (auto simp: capture_scope_def)
    have "within_budget R (snd (commitments, c1))"
    proof (rule rfold_invariant[OF loop, of "\<lambda>s. within_budget R (snd s)"])
      fix r and u v :: "commitment list \<times> capture_context"
      assume "within_budget R (snd u)" "capture_selected_root R source_root r u = Inr v"
      then show "within_budget R (snd v)"
        by (cases u) (auto simp: capture_selected_root_def split: if_splits intro: capture_directory_budget capture_file_budget)
    qed (simp add: empty)
    then have "within_budget R c2" using admit_manifest_path_same[OF admit] by (simp add: within_budget_def)
    then show ?thesis unfolding c by (rule within_budget_push_directory) simp
  qed
qed

section \<open>Properties\<close>

lemma capture_from_session_Inr:
  assumes "capture_from_session Q S r = Inr e"
  obtains c root_stat where "acquisition_request_verify Q r = Inr ()"
    "capture_scope (capture_rules_of Q r) (ar_scope r) (session_root S) root_stat = Inr c"
    "sv_entries e = sort_key se_relative_path (cc_entries c)"
    "sv_excluded_paths e = sort_key ex_relative_path (cc_excluded c)"
    "sv_total_file_bytes e = cc_total_file_bytes c"
    "sv_completeness e = scope_completeness (ar_scope r)" "sv_projection_roots e = scope_projection (ar_scope r)"
    "verify_manifest Q e = Inr ()"
  using assms unfolding capture_from_session_def Let_def by (auto simp del: verify_manifest_def)

text \<open>
  C31: a capture is exact. The entries of the envelope are, besides the root, those of the objects that
  are reached from a selected root through listed names that are selected and not excluded; each entry
  has the kind, length and executable bit of its object and the digest of its content; the excluded paths
  are those at which the walk stopped, with their reason; and no path has two entries.
\<close>

theorem capture_records_projection:
  assumes "capture_from_session Q S r = Inr e"
    and "well_named (session_root S)" and "scope_paths_ok (ar_scope r)"
  shows "(\<forall>en \<in> set (sv_entries e). se_relative_path en \<noteq> [] \<longrightarrow>
           (\<exists>m. in_projection (capture_rules_of Q r) (session_root S) (se_relative_path en) m
              \<and> describes (capture_rules_of Q r) (se_relative_path en) m en))
    \<and> (\<forall>q m. in_projection (capture_rules_of Q r) (session_root S) q m \<longrightarrow>
           (\<exists>en \<in> set (sv_entries e). describes (capture_rules_of Q r) q m en))
    \<and> (\<lambda>x. (ex_relative_path x, ex_reason x)) ` set (sv_excluded_paths e)
        = {(q, reason). omitted (capture_rules_of Q r) (session_root S) q reason}
    \<and> sorted_wrt (<) (map se_relative_path (sv_entries e))"
proof -
  let ?R = "capture_rules_of Q r"
  obtain c root_stat where c: "capture_scope ?R (ar_scope r) (session_root S) root_stat = Inr c"
      "sv_entries e = sort_key se_relative_path (cc_entries c)" "sv_excluded_paths e = sort_key ex_relative_path (cc_excluded c)"
      "verify_manifest Q e = Inr ()"
    using assms(1) by (rule capture_from_session_Inr)
  have "cr_selected ?R = selected_roots (ar_scope r)" by (simp add: capture_rules_of_def)
  from capture_scope_exact[OF c(1) this assms(2,3)] obtain new left where
      n: "cc_entries c = new" "cc_excluded c = left"
      "\<forall>en \<in> set new. \<exists>(q, m) \<in> insert ([], session_root S) {(q, m). in_projection ?R (session_root S) q m}. describes ?R q m en"
      "\<forall>(q, m) \<in> insert ([], session_root S) {(q, m). in_projection ?R (session_root S) q m}. \<exists>en \<in> set new. describes ?R q m en"
      "(\<lambda>x. (ex_relative_path x, ex_reason x)) ` set left = {(q, reason). omitted ?R (session_root S) q reason}"
    unfolding grown_def by (auto simp: empty_context_def)
  have entries: "set (sv_entries e) = set new" using c(2) n(1) by simp
  have "\<exists>m. in_projection ?R (session_root S) (se_relative_path en) m \<and> describes ?R (se_relative_path en) m en"
    if "en \<in> set (sv_entries e)" "se_relative_path en \<noteq> []" for en
  proof -
    from that(1) n(3) entries obtain q m where qm: "describes ?R q m en" "(q, m) = ([], session_root S) \<or> in_projection ?R (session_root S) q m"
      by blast
    then have "se_relative_path en = q" by (simp add: describes_def)
    with qm that(2) show ?thesis by auto
  qed
  moreover have "\<exists>en \<in> set (sv_entries e). describes ?R q m en" if "in_projection ?R (session_root S) q m" for q m
    using that n(4) entries by blast
  moreover have "(\<lambda>x. (ex_relative_path x, ex_reason x)) ` set (sv_excluded_paths e)
      = {(q, reason). omitted ?R (session_root S) q reason}" using c(3) n(2,5) by simp
  moreover have "sorted_wrt (<) (map se_relative_path (sv_entries e))"
    using c(4) validated_envelope(1) by (auto simp: verify_manifest_def)
  ultimately show ?thesis by blast
qed

theorem capture_records_projection_witness:
  "(\<exists>m. in_projection aq_rules aq_root [Normal ''src'', Normal ''m''] m
      \<and> describes aq_rules [Normal ''src'', Normal ''m''] m (aq_entry [Normal ''src'', Normal ''m''] FileEntry 2))
   \<and> omitted aq_rules aq_root [Normal ''build''] ExplicitRequest"
proof -
  have ok: "well_named (session_root aq_session)" "scope_paths_ok (ar_scope aq_request)"
    using aq_well_named by (simp_all add: aq_session_def scope_paths_ok_def aq_request_def)
  have root: "session_root aq_session = aq_root" by (simp add: aq_session_def)
  note exact = capture_records_projection[OF aq_captured ok, unfolded aq_rules_of root]
  have "aq_entry [Normal ''src'', Normal ''m''] FileEntry 2 \<in> set (sv_entries aq_envelope)" by (simp add: aq_envelope_def)
  with exact have "\<exists>m. in_projection aq_rules aq_root [Normal ''src'', Normal ''m''] m
      \<and> describes aq_rules [Normal ''src'', Normal ''m''] m (aq_entry [Normal ''src'', Normal ''m''] FileEntry 2)"
    by (force simp: aq_entry_def)
  moreover have "([Normal ''build''], ExplicitRequest) \<in> (\<lambda>x. (ex_relative_path x, ex_reason x)) ` set (sv_excluded_paths aq_envelope)"
    by (simp add: aq_envelope_def)
  ultimately show ?thesis using exact by auto
qed

text \<open>
  C32: a capture keeps within the budget of its request: at most \<open>max_files\<close> files and \<open>max_total_bytes\<close> bytes,
  where the total that the envelope states is the sum of the lengths of its files, and no structural
  bound of a manifest is exceeded.
\<close>

theorem capture_within_budget:
  assumes "capture_from_session Q S r = Inr e"
  shows "length (file_entries (sv_entries e)) \<le> max_files (ar_budget r)
    \<and> sv_total_file_bytes e = sum_list (map se_byte_len (file_entries (sv_entries e)))
    \<and> sv_total_file_bytes e \<le> max_total_bytes (ar_budget r)
    \<and> length (sv_entries e) + length (sv_excluded_paths e) \<le> MAX_MANIFEST_ENTRIES"
proof -
  obtain c root_stat where c: "capture_scope (capture_rules_of Q r) (ar_scope r) (session_root S) root_stat = Inr c"
      "sv_entries e = sort_key se_relative_path (cc_entries c)" "sv_total_file_bytes e = cc_total_file_bytes c"
      "verify_manifest Q e = Inr ()"
    using assms by (rule capture_from_session_Inr)
  have "length (file_entries (sv_entries e)) = length (file_entries (cc_entries c))"
    unfolding file_entries_def c(2) by (simp add: filter_sort)
  moreover have "within_budget (capture_rules_of Q r) c" by (rule capture_scope_budget[OF c(1)])
  moreover have v: "validate_envelope_structure (aq_sha Q) e = Inr ()" using c(4) by (simp add: verify_manifest_def)
  moreover have "length (sv_entries e) + length (sv_excluded_paths e) \<le> MAX_MANIFEST_ENTRIES"
    using v by (auto simp: validate_envelope_structure_def envelope_header_def not_less saturating_add_def min_def MAX_MANIFEST_ENTRIES_def
        split: if_splits)
  ultimately show ?thesis
    using validated_envelope(3)[OF v] c(3) by (simp add: within_budget_def capture_rules_of_def file_entries_def)
qed

theorem capture_within_budget_witness: "length (file_entries (sv_entries aq_envelope)) \<le> 4 \<and> sv_total_file_bytes aq_envelope \<le> 100"
  using capture_within_budget[OF aq_captured] by (simp add: aq_request_def aq_budget_def)

text \<open>
  C33: the digest of the root binds the tree. Two verified envelopes over the same projection whose root
  entries have the same digest list the same paths with the same kinds and digests, unless SHA-256
  collides on the directory records the two envelopes hash.
\<close>

theorem root_digest_binds_tree:
  assumes "verify_manifest Q e = Inr ()" and "verify_manifest Q e' = Inr ()"
    and "sv_completeness e = sv_completeness e'" and "sv_projection_roots e = sv_projection_roots e'"
    and "[] \<notin> set (sv_projection_roots e)"
    and "se_sha256 (hd (sv_entries e)) = se_sha256 (hd (sv_entries e'))"
    and "inj_on (aq_sha Q) (directory_images e \<union> directory_images e')"
  shows "committed_entries e = committed_entries e'"
  by (rule root_digest_binds[OF _ _ assms(3-7)]) (use assms(1,2) in \<open>simp_all add: verify_manifest_def\<close>)

theorem root_digest_binds_tree_witness: "committed_entries (aq_small 2) = committed_entries (aq_small 3)"
  by (rule root_digest_binds_tree[OF aq_small_verifies aq_small_verifies _ _ _ _ aq_small_images])
    (simp_all add: aq_small_def aq_entry_def)



text \<open>
  The wire form of a path is faithful: every byte string is read back from its encoding, and the decoder
  accepts nothing but encodings, so a sealed path has one wire form.
\<close>

theorem path_wire_faithful:
  "path_wire_decode (path_wire_encode raw) = Inr raw
   \<and> (path_wire_decode wire = Inr raw \<longleftrightarrow> wire = path_wire_encode raw)"
proof -
  have "path_wire_decode (path_wire_encode raw) = Inr raw"
    using path_wire_encode_lower path_wire_encode_even decode_pairs_encode by (simp add: path_wire_decode_def)
  moreover have "path_wire_encode raw = wire" if "path_wire_decode wire = Inr raw"
    using that decode_pairs_Inr by (auto simp: path_wire_decode_def split: if_splits)
  ultimately show ?thesis by blast
qed

end
