(* ===== verification/Content_Vault.thy ===== *)
theory Content_Vault
  imports Acquisition_Capture
begin

text \<open>
  Retention of captured bytes, after \<open>src/capability/content_vault.rs\<close>: the capture receipt with its
  verification, its persistence and its authentication, and the capture of a source into the private
  content-addressed vault.
\<close>

section \<open>Data\<close>

definition CAPTURE_RECEIPT_DOMAIN :: string where "CAPTURE_RECEIPT_DOMAIN = ''TIDEX:CAPTURE-RECEIPT:v2'' @ [CHR 0x00]"
definition MAX_RETAINED_OBJECTS :: nat where "MAX_RETAINED_OBJECTS = 500000"
definition MAX_CAPTURE_RECEIPT_BYTES :: nat where "MAX_CAPTURE_RECEIPT_BYTES = 536870912"

datatype retained_source_kind = VaultRetained

text \<open>The path of an object is a raw \<open>PathBuf\<close>, compared by its components.\<close>

record retained_object =
  ro_source_relative_path :: os_path
  ro_source_entry_sha256 :: digest
  ro_content_sha256 :: digest
  ro_byte_len :: nat

record capture_receipt =
  vr_request :: acquisition_request
  vr_envelope :: system_envelope
  vr_retention :: retained_source_kind
  vr_objects :: "retained_object list"
  vr_total_file_bytes :: nat
  vr_manifest_sha256 :: digest

text \<open>
  The encoder of receipts is partial: the paths of its objects are plain \<open>PathBuf\<close>s, which \<open>serde\<close> refuses to
  encode when they are not UTF-8.
\<close>

record vault_codec =
  vault_codec_of :: acquisition_codec
  receipt_to_vec :: "capture_receipt \<Rightarrow> string option"
  receipt_from_slice :: "string \<Rightarrow> capture_receipt option"

definition vault_sha :: "vault_codec \<Rightarrow> string \<Rightarrow> digest" where
  "vault_sha V = aq_sha (vault_codec_of V)"

section \<open>Places\<close>

definition vault_object_path :: "path \<Rightarrow> digest \<Rightarrow> path" where
  "vault_object_path root d =
     root @ [Normal ''state'', Normal ''acquisitions'', Normal ''content-vault'', Normal ''sha256'', Normal (take 2 d), Normal d]"

definition receipt_path :: "path \<Rightarrow> digest \<Rightarrow> path" where
  "receipt_path root d =
     root @ [Normal ''state'', Normal ''acquisitions'', Normal ''capture-receipts'', Normal ''by-sha'', Normal (d @ ''.json'')]"

section \<open>Verification\<close>

definition receipt_digest :: "vault_codec \<Rightarrow> capture_receipt \<Rightarrow> digest res" where
  "receipt_digest V r =
     rbind (ok_or (receipt_to_vec V (r\<lparr>vr_manifest_sha256 := zero_digest\<rparr>)) Json) (\<lambda>bytes.
     Inr (digest_domain (vault_sha V) CAPTURE_RECEIPT_DOMAIN bytes))"

definition expect_object :: "manifest_entry \<Rightarrow> (path, digest \<times> nat) bmap \<Rightarrow> (path, digest \<times> nat) bmap res" where
  "expect_object en m =
     (if se_kind en \<noteq> FileEntry then Inr m
      else rbind (reject (map_of m (se_relative_path en) \<noteq> None)
                    (Integrity ''capture_receipt_envelope_file_path_duplicate'')) (\<lambda>_.
           Inr (bm_insert (se_relative_path en) (se_sha256 en, se_byte_len en) m)))"

definition expected_objects :: "system_envelope \<Rightarrow> (path, digest \<times> nat) bmap res" where
  "expected_objects e = rfold expect_object (sv_entries e) []"

definition check_object ::
  "vault_codec \<Rightarrow> path \<Rightarrow> store \<Rightarrow> (path, digest \<times> nat) bmap \<Rightarrow> retained_object \<Rightarrow> path bset \<times> nat
   \<Rightarrow> (path bset \<times> nat) res" where
  "check_object V root fs expected ob = (\<lambda>(seen, total).
     rbind (ok_or (map_of expected (components (ro_source_relative_path ob))) (Integrity ''capture_receipt_entry_unknown''))
       (\<lambda>(expected_digest, expected_len).
     rbind (reject (components (ro_source_relative_path ob) \<in> set seen \<or> expected_digest \<noteq> ro_source_entry_sha256 ob
              \<or> expected_len \<noteq> ro_byte_len ob) (Integrity ''capture_receipt_entry_binding_invalid'')) (\<lambda>_.
     rbind (read_verified_bounded (vault_sha V) root
              \<lparr>ref_path = vault_object_path root (ro_content_sha256 ob), ref_sha256 = ro_content_sha256 ob\<rparr>
              (ro_byte_len ob) fs) (\<lambda>bytes.
     rbind (reject (2 ^ 64 \<le> length bytes) (Integrity ''capture_receipt_length_invalid'')) (\<lambda>_.
     rbind (reject (length bytes \<noteq> ro_byte_len ob) (Integrity ''capture_receipt_content_length_mismatch'')) (\<lambda>_.
     rbind (ok_or (checked_add 64 total (ro_byte_len ob)) (Integrity ''capture_receipt_total_overflow'')) (\<lambda>total.
     Inr (bs_insert (components (ro_source_relative_path ob)) seen, total))))))))"

definition receipt_verify :: "vault_codec \<Rightarrow> path \<Rightarrow> capture_receipt \<Rightarrow> store \<Rightarrow> unit res" where
  "receipt_verify V root r fs =
     rbind (acquisition_request_verify (vault_codec_of V) (vr_request r)) (\<lambda>_.
     rbind (verify_manifest (vault_codec_of V) (vr_envelope r)) (\<lambda>_.
     rbind (reject (is_draft (vr_manifest_sha256 r)
              \<or> sv_acquisition_request_sha256 (vr_envelope r) \<noteq> ar_manifest_sha256 (vr_request r)
              \<or> MAX_RETAINED_OBJECTS < length (vr_objects r)) (Integrity ''capture_receipt_structure_invalid'')) (\<lambda>_.
     rbind (receipt_digest V r) (\<lambda>d.
     rbind (reject (d \<noteq> vr_manifest_sha256 r) (Integrity ''capture_receipt_structure_invalid'')) (\<lambda>_.
     rbind (expected_objects (vr_envelope r)) (\<lambda>expected.
     rbind (reject (length expected \<noteq> length (vr_objects r))
              (Integrity ''capture_receipt_object_count_mismatch'')) (\<lambda>_.
     rbind (rfold (check_object V root fs expected) (vr_objects r) ([], 0)) (\<lambda>(_, total).
     reject (total \<noteq> vr_total_file_bytes r \<or> total \<noteq> sv_total_file_bytes (vr_envelope r))
       (Integrity ''capture_receipt_total_bytes_mismatch'')))))))))"

section \<open>Persistence\<close>

definition receipt_persist :: "vault_codec \<Rightarrow> path \<Rightarrow> capture_receipt \<Rightarrow> private_file_reference io" where
  "receipt_persist V root r =
     io_bind (io_read (receipt_verify V root r)) (\<lambda>_.
     io_bind (io_res (ok_or (receipt_to_vec V r) Json)) (\<lambda>bytes.
     io_bind (write_or_verify_immutable (vault_sha V) root (receipt_path root (vr_manifest_sha256 r)) bytes) (\<lambda>d.
     io_res (Inr \<lparr>ref_path = receipt_path root (vr_manifest_sha256 r), ref_sha256 = d\<rparr>))))"

definition authenticate_capture_receipt ::
  "vault_codec \<Rightarrow> path \<Rightarrow> private_file_reference \<Rightarrow> store \<Rightarrow> capture_receipt res" where
  "authenticate_capture_receipt V root ref fs =
     rbind (read_verified_bounded (vault_sha V) root ref MAX_CAPTURE_RECEIPT_BYTES fs) (\<lambda>bytes.
     rbind (ok_or (receipt_from_slice V bytes) Json) (\<lambda>r.
     rbind (reject (ref_path ref \<noteq> receipt_path root (vr_manifest_sha256 r))
              (Integrity ''capture_receipt_noncanonical_location'')) (\<lambda>_.
     rbind (receipt_verify V root r fs) (\<lambda>_. Inr r))))"

definition load_capture_receipt :: "vault_codec \<Rightarrow> path \<Rightarrow> digest \<Rightarrow> store \<Rightarrow> capture_receipt res" where
  "load_capture_receipt V root d fs =
     rbind (read_existing_private_file_bounded root (receipt_path root d) MAX_CAPTURE_RECEIPT_BYTES fs) (\<lambda>bytes.
     rbind (ok_or (receipt_from_slice V bytes) Json) (\<lambda>r.
     rbind (reject (vr_manifest_sha256 r \<noteq> d) (Integrity ''capture_receipt_identity_mismatch'')) (\<lambda>_.
     rbind (receipt_verify V root r fs) (\<lambda>_. Inr r))))"

definition load_capture_receipt_by_id :: "vault_codec \<Rightarrow> path \<Rightarrow> string \<Rightarrow> store \<Rightarrow> capture_receipt res" where
  "load_capture_receipt_by_id V root untrusted_digest fs =
     rbind (sha256_digest_parse untrusted_digest) (\<lambda>d. load_capture_receipt V root d fs)"

section \<open>Capture into the vault\<close>

text \<open>
  What the system answers during one run: the source at the capture, at each copy and at the two later
  verifications, and the private root whenever its binding is checked. A staged file is held here by
  its content; its name is removed on every outcome.
\<close>

type_synonym root_answer = "pinned_root \<times> file_stat res \<times> (file_stat res \<times> file_stat res) list"

record vault_run =
  run_source :: "file_stat res \<times> (file_stat res \<times> file_stat res) list"
  run_private :: "file_stat res \<times> (file_stat res \<times> file_stat res) list"
  run_capture :: capture_session
  run_copy :: "path \<Rightarrow> capture_session"
  run_staged :: capture_session
  run_installed :: capture_session
  run_binding :: "nat \<Rightarrow> root_answer"

definition check_binding :: "vault_run \<Rightarrow> file_stat \<Rightarrow> path \<Rightarrow> nat \<Rightarrow> unit res" where
  "check_binding A private_stat private_root i =
     (case run_binding A i of (source, answer) \<Rightarrow> verify_private_root_binding source (Some private_stat) private_root answer)"

text \<open>The loop over the files of the envelope: binding \<open>i + 1\<close> precedes copy \<open>i\<close>.\<close>

definition stage_entry ::
  "vault_codec \<Rightarrow> vault_run \<Rightarrow> file_stat \<Rightarrow> path \<Rightarrow> file_stat \<Rightarrow> acquisition_request \<Rightarrow> manifest_entry
   \<Rightarrow> nat \<times> nat \<times> (retained_object \<times> string) list \<Rightarrow> (nat \<times> nat \<times> (retained_object \<times> string) list) res" where
  "stage_entry V A source_stat private_root private_stat request en = (\<lambda>(i, total, staged).
     if se_kind en \<noteq> FileEntry then Inr (i, total, staged)
     else rbind (ok_or (checked_add 64 total (se_byte_len en)) (Integrity ''content_vault_total_overflow'')) (\<lambda>next_total.
          rbind (reject (max_total_bytes (ar_budget request) < next_total) (Invalid ''content_vault_budget_exceeded'')) (\<lambda>_.
          rbind (check_binding A private_stat private_root (i + 1)) (\<lambda>_.
          rbind (copy_manifest_file (vault_codec_of V) ((run_copy A (se_relative_path en))\<lparr>session_pinned := source_stat\<rparr>)
                   (se_relative_path en) (se_byte_len en)) (\<lambda>(captured_entry_sha256, bytes).
          rbind (reject (captured_entry_sha256 \<noteq> se_sha256 en)
                   (Integrity ''content_vault_source_entry_digest_mismatch'')) (\<lambda>_.
          Inr (i + 1, next_total, staged @
            [(\<lparr>ro_source_relative_path = os_bytes (se_relative_path en), ro_source_entry_sha256 = se_sha256 en,
               ro_content_sha256 = digest_bytes (vault_sha V) bytes, ro_byte_len = se_byte_len en\<rparr>, bytes)])))))))"

text \<open>\<open>install_private_immutable_file\<close>: the staged content is hashed again and linked unless the name exists.\<close>

definition install_staged :: "(string \<Rightarrow> digest) \<Rightarrow> path \<Rightarrow> string \<Rightarrow> path \<Rightarrow> digest \<Rightarrow> bool io" where
  "install_staged sha root bytes destination expected =
     io_bind (io_res (root_relative_path root destination)) (\<lambda>relative.
     io_bind (io_res (reject (sha bytes \<noteq> expected) (Integrity ''private_file_staged_content_mismatch''))) (\<lambda>_ fs.
     if fs (root @ relative) \<noteq> None then (Inr False, fs) else (Inr True, fs(root @ relative \<mapsto> bytes))))"

fun install_objects ::
  "vault_codec \<Rightarrow> vault_run \<Rightarrow> file_stat \<Rightarrow> path \<Rightarrow> nat \<Rightarrow> (retained_object \<times> string) list \<Rightarrow> nat io" where
  "install_objects V A private_stat private_root i [] = io_res (Inr i)"
| "install_objects V A private_stat private_root i ((ob, bytes) # staged) =
     io_bind (io_res (check_binding A private_stat private_root i)) (\<lambda>_.
     io_bind (install_staged (vault_sha V) private_root bytes (vault_object_path private_root (ro_content_sha256 ob)) (ro_content_sha256 ob))
       (\<lambda>installed.
     io_bind (if installed then io_res (Inr ())
              else io_bind (io_read (read_verified_bounded (vault_sha V) private_root
                     \<lparr>ref_path = vault_object_path private_root (ro_content_sha256 ob), ref_sha256 = ro_content_sha256 ob\<rparr> (ro_byte_len ob)))
                   (\<lambda>existing. io_res (rbind (reject (2 ^ 64 \<le> length existing) (Integrity ''content_vault_length_invalid'')) (\<lambda>_.
                      reject (length existing \<noteq> ro_byte_len ob) (Integrity ''content_vault_digest_length_collision''))))) (\<lambda>_.
     install_objects V A private_stat private_root (i + 1) staged)))"

definition capture_to_vault ::
  "vault_codec \<Rightarrow> vault_run \<Rightarrow> path \<Rightarrow> path \<Rightarrow> acquisition_request \<Rightarrow> capture_receipt io" where
  "capture_to_vault V A source_root private_root request =
     (let Q = vault_codec_of V in
     io_bind (io_res (acquisition_request_verify Q request)) (\<lambda>_.
     io_bind (io_res (session_open_disjoint source_root private_root (run_source A) (run_private A))) (\<lambda>(source_stat, private_stat).
     io_bind (io_res (capture_from_session Q ((run_capture A)\<lparr>session_pinned := source_stat\<rparr>) request)) (\<lambda>envelope.
     io_bind (io_res (check_binding A private_stat private_root 0)) (\<lambda>_.
     io_bind (io_res (rfold (stage_entry V A source_stat private_root private_stat request) (sv_entries envelope) (0, 0, [])))
       (\<lambda>(i, total, staged).
     io_bind (io_res (verify_against_session Q envelope ((run_staged A)\<lparr>session_pinned := source_stat\<rparr>) request)) (\<lambda>_.
     io_bind (io_res (check_binding A private_stat private_root (i + 1))) (\<lambda>_.
     io_bind (install_objects V A private_stat private_root (i + 2) staged) (\<lambda>i.
     io_bind (io_res (check_binding A private_stat private_root i)) (\<lambda>_.
     io_bind (io_res (verify_against_session Q envelope ((run_installed A)\<lparr>session_pinned := source_stat\<rparr>) request)) (\<lambda>_.
     let receipt = \<lparr>vr_request = request, vr_envelope = envelope, vr_retention = VaultRetained,
                    vr_objects = sort_key (\<lambda>ob. components (ro_source_relative_path ob)) (map fst staged),
                    vr_total_file_bytes = total, vr_manifest_sha256 = zero_digest\<rparr> in
     io_bind (io_res (receipt_digest V receipt)) (\<lambda>d.
     let receipt = receipt\<lparr>vr_manifest_sha256 := d\<rparr> in
     io_bind (io_res (check_binding A private_stat private_root (i + 1))) (\<lambda>_.
     io_bind (io_read (receipt_verify V private_root receipt)) (\<lambda>_.
     io_res (Inr receipt)))))))))))))))"

section \<open>Projection\<close>

text \<open>
  \<open>RetainedSourceAdapter\<close>: the retained files laid out as a tree for read-only analysis. What the system answers
  is given: whether the tree exists, what making each directory answers, the tree as a later capture
  sees it, and what clearing a failed tree leaves.
\<close>

record projection_run =
  pj_exists :: bool
  pj_directory :: "path \<Rightarrow> unit res"
  pj_source :: "file_stat res \<times> capture_session"
  pj_cleared :: "store \<Rightarrow> store"

record retained_source_adapter =
  rs_private_root :: path
  rs_receipt :: capture_receipt

definition retained_source_adapter_new :: "vault_codec \<Rightarrow> path \<Rightarrow> capture_receipt \<Rightarrow> store \<Rightarrow> retained_source_adapter res" where
  "retained_source_adapter_new V private_root r fs =
     rbind (receipt_verify V private_root r fs) (\<lambda>_. Inr \<lparr>rs_private_root = private_root, rs_receipt = r\<rparr>)"

definition projection_path :: "path \<Rightarrow> digest \<Rightarrow> path" where
  "projection_path root d =
     root @ [Normal ''state'', Normal ''acquisitions'', Normal ''content-vault'', Normal ''projections'', Normal d, Normal ''source'']"

definition objects_by_path :: "retained_object list \<Rightarrow> (path, retained_object) bmap" where
  "objects_by_path obs = fold (\<lambda>ob. bm_insert (components (ro_source_relative_path ob)) ob) obs []"

definition project_entry ::
  "vault_codec \<Rightarrow> projection_run \<Rightarrow> path \<Rightarrow> path \<Rightarrow> (path, retained_object) bmap \<Rightarrow> manifest_entry \<Rightarrow> unit io" where
  "project_entry V P private_root root objects en =
     (case se_kind en of
        DirectoryEntry \<Rightarrow>
          if se_relative_path en = [] then io_res (Inr ()) else io_res (pj_directory P (root @ se_relative_path en))
      | FileEntry \<Rightarrow>
          io_bind (io_res (ok_or (map_of objects (se_relative_path en))
                     (Integrity ''retained_source_projection_object_missing''))) (\<lambda>ob.
          io_bind (io_read (read_verified_bounded (vault_sha V) private_root
                     \<lparr>ref_path = vault_object_path private_root (ro_content_sha256 ob), ref_sha256 = ro_content_sha256 ob\<rparr>
                     (se_byte_len en))) (\<lambda>bytes.
          io_bind (io_res (reject (digest_bytes (vault_sha V) bytes \<noteq> ro_content_sha256 ob)
                     (Integrity ''retained_source_projection_install_collision''))) (\<lambda>_.
          io_bind (install_staged (vault_sha V) private_root bytes (root @ se_relative_path en) (digest_bytes (vault_sha V) bytes))
            (\<lambda>installed.
          io_res (reject (\<not> installed) (Integrity ''retained_source_projection_install_collision'')))))))"

fun project_entries ::
  "vault_codec \<Rightarrow> projection_run \<Rightarrow> path \<Rightarrow> path \<Rightarrow> (path, retained_object) bmap \<Rightarrow> manifest_entry list \<Rightarrow> unit io" where
  "project_entries V P private_root root objects [] = io_res (Inr ())"
| "project_entries V P private_root root objects (en # ens) =
     io_bind (project_entry V P private_root root objects en) (\<lambda>_. project_entries V P private_root root objects ens)"

definition verify_projection :: "vault_codec \<Rightarrow> projection_run \<Rightarrow> capture_receipt \<Rightarrow> path \<Rightarrow> unit res" where
  "verify_projection V P r root =
     envelope_verify_against (vault_codec_of V) (vr_envelope r) root (fst (pj_source P)) (snd (pj_source P)) (vr_request r)"

definition materialize :: "vault_codec \<Rightarrow> projection_run \<Rightarrow> retained_source_adapter \<Rightarrow> path io" where
  "materialize V P a =
     (let r = rs_receipt a; root = projection_path (rs_private_root a) (vr_manifest_sha256 r) in
     io_bind (io_read (receipt_verify V (rs_private_root a) r)) (\<lambda>_.
     if pj_exists P then io_res (rbind (verify_projection V P r root) (\<lambda>_. Inr root))
     else
       io_bind (io_res (ok_or (path_parent root) (Invalid ''retained_source_projection_parent_missing''))) (\<lambda>parent.
       io_bind (io_res (pj_directory P parent)) (\<lambda>_.
       io_bind (io_res (pj_directory P root)) (\<lambda>_ fs.
       case io_bind (project_entries V P (rs_private_root a) root (objects_by_path (vr_objects r)) (sv_entries (vr_envelope r)))
              (\<lambda>_. io_res (verify_projection V P r root)) fs of
         (Inl e, fs') \<Rightarrow> (Inl e, pj_cleared P fs')
       | (Inr _, fs') \<Rightarrow> (Inr root, fs'))))))"

definition verify_materialized :: "vault_codec \<Rightarrow> projection_run \<Rightarrow> retained_source_adapter \<Rightarrow> path \<Rightarrow> store \<Rightarrow> unit res" where
  "verify_materialized V P a root fs =
     rbind (reject (root \<noteq> projection_path (rs_private_root a) (vr_manifest_sha256 (rs_receipt a)))
              (Integrity ''retained_source_projection_identity_mismatch'')) (\<lambda>_.
     rbind (receipt_verify V (rs_private_root a) (rs_receipt a) fs) (\<lambda>_.
     verify_projection V P (rs_receipt a) root))"

end
