(* ===== verification/Capability_Ir.thy ===== *)
theory Capability_Ir
  imports Acquisition_Capture
begin

text \<open>
  The closed intermediate representation of an acquired capability, after \<open>src/capability/capability_ir.rs\<close>:
  typed ports, the authorized primitives, the structural validation of a graph against the envelope of
  its source, sealing, persistence and authentication.
\<close>

section \<open>Data\<close>

definition IR_DOMAIN :: string where "IR_DOMAIN = ''TIDEX:CAPABILITY-IR:v2'' @ [CHR 0x00]"
definition PRIMITIVE_SET_DOMAIN :: string where "PRIMITIVE_SET_DOMAIN = ''TIDEX:PRIMITIVE-SET:v1'' @ [CHR 0x00]"
definition MAX_IR_INPUTS :: nat where "MAX_IR_INPUTS = 4096"
definition MAX_IR_PARAMETERS :: nat where "MAX_IR_PARAMETERS = 4096"
definition MAX_CAPABILITY_IR_BYTES :: nat where "MAX_CAPABILITY_IR_BYTES = 256 * 1024 * 1024"
definition MAX_IR_NODES :: nat where "MAX_IR_NODES = 65536"
definition MAX_IR_OUTPUTS :: nat where "MAX_IR_OUTPUTS = 4096"
definition MAX_TENSOR_RANK :: nat where "MAX_TENSOR_RANK = 16"
definition MAX_TENSOR_ELEMENTS :: nat where "MAX_TENSOR_ELEMENTS = 2 ^ 40"
definition MAX_NODE_PROVENANCE :: nat where "MAX_NODE_PROVENANCE = 4096"

datatype value_type = VBool | VI64 | VF64 | VBytes | VTensorF64

text \<open>Dimensions are \<open>u64\<close>; their product is computed with \<open>checked_mul\<close>.\<close>

record typed_port =
  tp_name :: string
  tp_type :: value_type
  tp_shape :: "nat list"

record parameter_slot =
  slot_port :: typed_port

datatype effect_kind = PureEffect

datatype shape_rule = ElementwiseSame | TensorScale | MatrixMultiply2d | PreserveFirst | ScalarShape

record primitive_contract =
  pc_primitive_id :: string
  pc_input_types :: "value_type list"
  pc_output_type :: value_type
  pc_shape_rule :: shape_rule
  pc_effects :: "effect_kind bset"

record primitive_set =
  ps_profile_id :: string
  ps_primitives :: "primitive_contract list"
  ps_sha256 :: digest

datatype value_reference = InputRef string | ParameterRef string | NodeOutputRef string

record output_binding =
  ob_port :: typed_port
  ob_source :: value_reference

text \<open>Provenance holds raw \<open>PathBuf\<close>s, compared by their components.\<close>

record ir_node =
  nd_node_id :: string
  nd_primitive_id :: string
  nd_inputs :: "value_reference list"
  nd_output :: typed_port
  nd_provenance :: "os_path list"

record capability_ir =
  ci_capability_id :: string
  ci_system_envelope_sha256 :: digest
  ci_primitive_set :: primitive_set
  ci_inputs :: "typed_port list"
  ci_parameters :: "parameter_slot list"
  ci_nodes :: "ir_node list"
  ci_outputs :: "output_binding list"
  ci_manifest_sha256 :: digest

text \<open>\<open>serde_json\<close> fails on a provenance path that is not UTF-8.\<close>

record ir_codec =
  ir_envelopes :: acquisition_codec
  primitives_to_vec :: "primitive_set \<Rightarrow> string"
  ir_to_vec :: "capability_ir \<Rightarrow> string option"
  ir_from_slice :: "string \<Rightarrow> capability_ir option"

definition ir_sha :: "ir_codec \<Rightarrow> string \<Rightarrow> digest" where
  "ir_sha C = aq_sha (ir_envelopes C)"

section \<open>Ports\<close>

definition checked_mul :: "nat \<Rightarrow> nat \<Rightarrow> nat \<Rightarrow> nat option" where
  "checked_mul w a b = (if a * b < 2 ^ w then Some (a * b) else None)"

definition count_elements :: "string \<Rightarrow> nat list \<Rightarrow> nat res" where
  "count_elements label shape =
     rfold (\<lambda>dimension product. ok_or (checked_mul 64 product dimension) (Invalid (label @ ''_element_count_overflow''))) shape 1"

definition typed_port_validate :: "string \<Rightarrow> typed_port \<Rightarrow> unit res" where
  "typed_port_validate label p =
     rbind (reject (MAX_TENSOR_RANK < length (tp_shape p) \<or> 0 \<in> set (tp_shape p)) (Invalid (label @ ''_invalid''))) (\<lambda>_.
     rbind (reject (tp_type p \<noteq> VTensorF64 \<and> tp_shape p \<noteq> []) (Invalid (label @ ''_shape_for_non_tensor''))) (\<lambda>_.
     if tp_type p = VTensorF64
     then rbind (count_elements label (tp_shape p)) (\<lambda>elements.
          reject (tp_shape p = [] \<or> MAX_TENSOR_ELEMENTS < elements) (Invalid (label @ ''_tensor_shape_invalid'')))
     else Inr ()))"

definition typed_port_scalar :: "string \<Rightarrow> value_type \<Rightarrow> typed_port res" where
  "typed_port_scalar name value_type =
     rbind (reject (value_type = VTensorF64) (Invalid ''typed_port_tensor_requires_shape'')) (\<lambda>_.
     let port = \<lparr>tp_name = name, tp_type = value_type, tp_shape = []\<rparr>
     in rbind (typed_port_validate ''typed_port'' port) (\<lambda>_. Inr port))"

definition typed_port_tensor_f64 :: "string \<Rightarrow> nat list \<Rightarrow> typed_port res" where
  "typed_port_tensor_f64 name shape =
     (let port = \<lparr>tp_name = name, tp_type = VTensorF64, tp_shape = shape\<rparr>
      in rbind (typed_port_validate ''typed_port'' port) (\<lambda>_. Inr port))"

definition is_numeric :: "value_type \<Rightarrow> bool" where
  "is_numeric t \<longleftrightarrow> t = VF64 \<or> t = VTensorF64"

definition parameter_slot_new :: "typed_port \<Rightarrow> parameter_slot res" where
  "parameter_slot_new port =
     rbind (typed_port_validate ''capability_ir_parameter'' port) (\<lambda>_.
     rbind (reject (\<not> is_numeric (tp_type port)) (Invalid ''capability_ir_parameter_not_numeric'')) (\<lambda>_.
     Inr \<lparr>slot_port = port\<rparr>))"

definition output_binding_new :: "typed_port \<Rightarrow> value_reference \<Rightarrow> output_binding res" where
  "output_binding_new port source =
     rbind (typed_port_validate ''capability_ir_output'' port) (\<lambda>_. Inr \<lparr>ob_port = port, ob_source = source\<rparr>)"

section \<open>Primitives\<close>

definition primitive_contract_validate :: "primitive_contract \<Rightarrow> unit res" where
  "primitive_contract_validate c =
     rbind (reject (pc_input_types c = [] \<or> pc_effects c = []) (Invalid ''primitive_contract_invalid'')) (\<lambda>_.
     reject (PureEffect \<in> set (pc_effects c) \<and> length (pc_effects c) \<noteq> 1) (Invalid ''primitive_effects_invalid''))"

definition core_contracts :: "(string \<times> value_type list \<times> value_type \<times> shape_rule) list" where
  "core_contracts =
     [(''tensor.add'', [VTensorF64, VTensorF64], VTensorF64, ElementwiseSame),
      (''tensor.scale'', [VTensorF64, VF64], VTensorF64, TensorScale),
      (''tensor.matmul'', [VTensorF64, VTensorF64], VTensorF64, MatrixMultiply2d),
      (''tensor.normalize'', [VTensorF64], VTensorF64, PreserveFirst),
      (''select.arg_max'', [VTensorF64], VI64, ScalarShape),
      (''compare.less_than'', [VF64, VF64], VBool, ScalarShape)]"

definition core_contract :: "string \<times> value_type list \<times> value_type \<times> shape_rule \<Rightarrow> primitive_contract res" where
  "core_contract c =
     (case c of (ident, input_types, output_type, rule) \<Rightarrow>
        rbind (semantic_non_digest_id_parse ''primitive_id'' True ident) (\<lambda>ident.
        Inr \<lparr>pc_primitive_id = ident, pc_input_types = input_types, pc_output_type = output_type, pc_shape_rule = rule,
             pc_effects = [PureEffect]\<rparr>))"

definition primitive_set_digest :: "ir_codec \<Rightarrow> primitive_set \<Rightarrow> digest" where
  "primitive_set_digest C s =
     digest_domain (ir_sha C) PRIMITIVE_SET_DOMAIN (primitives_to_vec C (s\<lparr>ps_sha256 := zero_digest\<rparr>))"

definition tidex_core_v1 :: "ir_codec \<Rightarrow> primitive_set res" where
  "tidex_core_v1 C =
     rbind (semantic_non_digest_id_parse ''primitive_profile_id'' True ''tidex.core.v1'') (\<lambda>profile.
     rbind (rfold (\<lambda>c acc. rbind (core_contract c) (\<lambda>c. Inr (acc @ [c]))) core_contracts []) (\<lambda>primitives.
     let s = \<lparr>ps_profile_id = profile, ps_primitives = primitives, ps_sha256 = zero_digest\<rparr>
     in Inr (s\<lparr>ps_sha256 := primitive_set_digest C s\<rparr>)))"

definition primitive_set_verify :: "ir_codec \<Rightarrow> primitive_set \<Rightarrow> unit res" where
  "primitive_set_verify C s =
     rbind (tidex_core_v1 C) (\<lambda>authorized.
     rbind (reject (s \<noteq> authorized) (Integrity ''primitive_set_not_authorized'')) (\<lambda>_.
     rbind (rfold (\<lambda>c identities.
              rbind (primitive_contract_validate c) (\<lambda>_.
              rbind (reject (pc_primitive_id c \<in> set identities) (Invalid ''primitive_set_duplicate_id'')) (\<lambda>_.
              Inr (bs_insert (pc_primitive_id c) identities)))) (ps_primitives s) []) (\<lambda>_.
     Inr ())))"

definition find_primitive :: "primitive_set \<Rightarrow> string \<Rightarrow> primitive_contract option" where
  "find_primitive s ident = find (\<lambda>c. pc_primitive_id c = ident) (ps_primitives s)"

section \<open>Nodes\<close>

text \<open>The set of paths, in order, each by its components.\<close>

definition canonical_paths :: "os_path list \<Rightarrow> string \<Rightarrow> path bset res" where
  "canonical_paths paths label =
     rfold (\<lambda>p result.
       if p = [] \<or> os_is_absolute p \<or> 4096 < length p \<or> \<not> list_all is_normal (components p) \<or> components p \<in> set result
       then Inl (Invalid (label @ ''_invalid''))
       else Inr (bs_insert (components p) result)) paths []"

definition ir_node_new ::
  "string \<Rightarrow> string \<Rightarrow> value_reference list \<Rightarrow> typed_port \<Rightarrow> os_path list \<Rightarrow> ir_node res" where
  "ir_node_new node_id primitive_id inputs out provenance =
     rbind (typed_port_validate ''capability_ir_node_output'' out) (\<lambda>_.
     rbind (canonical_paths provenance ''capability_ir_provenance'') (\<lambda>canonical.
     rbind (reject (provenance = [] \<or> MAX_NODE_PROVENANCE < length provenance \<or> canonical \<noteq> map components provenance)
              (Invalid ''capability_ir_node_provenance_invalid'')) (\<lambda>_.
     Inr \<lparr>nd_node_id = node_id, nd_primitive_id = primitive_id, nd_inputs = inputs, nd_output = out,
          nd_provenance = provenance\<rparr>)))"

definition resolve_reference ::
  "value_reference \<Rightarrow> (string, typed_port) bmap \<Rightarrow> (string, typed_port) bmap \<Rightarrow> (string, typed_port) bmap \<Rightarrow> typed_port res" where
  "resolve_reference ref inputs parameters known_nodes =
     (case ref of
        InputRef name \<Rightarrow> ok_or (map_of inputs name) (Integrity ''capability_ir_input_unknown'')
      | ParameterRef name \<Rightarrow> ok_or (map_of parameters name) (Integrity ''capability_ir_parameter_unknown'')
      | NodeOutputRef ident \<Rightarrow> ok_or (map_of known_nodes ident) (Integrity ''capability_ir_node_reference_invalid''))"

definition shape_rule_holds :: "shape_rule \<Rightarrow> typed_port list \<Rightarrow> typed_port \<Rightarrow> bool" where
  "shape_rule_holds rule operands out \<longleftrightarrow>
     (case rule of
        ElementwiseSame \<Rightarrow>
          length operands = 2 \<and> tp_shape (operands ! 0) = tp_shape (operands ! 1) \<and> tp_shape out = tp_shape (operands ! 0)
      | TensorScale \<Rightarrow> length operands = 2 \<and> tp_shape (operands ! 1) = [] \<and> tp_shape out = tp_shape (operands ! 0)
      | MatrixMultiply2d \<Rightarrow>
          length operands = 2 \<and> length (tp_shape (operands ! 0)) = 2 \<and> length (tp_shape (operands ! 1)) = 2
          \<and> tp_shape (operands ! 0) ! 1 = tp_shape (operands ! 1) ! 0
          \<and> tp_shape out = [tp_shape (operands ! 0) ! 0, tp_shape (operands ! 1) ! 1]
      | PreserveFirst \<Rightarrow> length operands = 1 \<and> tp_shape out = tp_shape (operands ! 0)
      | ScalarShape \<Rightarrow> tp_shape out = [])"

definition validate_shape_rule :: "shape_rule \<Rightarrow> typed_port list \<Rightarrow> typed_port \<Rightarrow> unit res" where
  "validate_shape_rule rule operands out =
     reject (\<not> shape_rule_holds rule operands out) (Integrity ''capability_ir_operand_shape_mismatch'')"

fun node_reference :: "value_reference \<Rightarrow> string option" where
  "node_reference (NodeOutputRef ident) = Some ident"
| "node_reference _ = None"

fun parameter_reference :: "value_reference \<Rightarrow> string option" where
  "parameter_reference (ParameterRef name) = Some name"
| "parameter_reference _ = None"

section \<open>Validation\<close>

definition ir_budget :: "capability_ir \<Rightarrow> unit res" where
  "ir_budget ir =
     reject (MAX_IR_INPUTS < length (ci_inputs ir) \<or> MAX_IR_PARAMETERS < length (ci_parameters ir)
        \<or> MAX_IR_NODES < length (ci_nodes ir) \<or> MAX_IR_OUTPUTS < length (ci_outputs ir))
       (Invalid ''capability_ir_budget_exceeded'')"

definition scan_input :: "typed_port \<Rightarrow> (string, typed_port) bmap \<Rightarrow> (string, typed_port) bmap res" where
  "scan_input p inputs =
     rbind (typed_port_validate ''capability_ir_input'' p) (\<lambda>_.
     rbind (reject (map_of inputs (tp_name p) \<noteq> None) (Invalid ''capability_ir_input_duplicate'')) (\<lambda>_.
     Inr (bm_insert (tp_name p) p inputs)))"

definition scan_parameter ::
  "(string, typed_port) bmap \<Rightarrow> parameter_slot \<Rightarrow> (string, typed_port) bmap \<Rightarrow> (string, typed_port) bmap res" where
  "scan_parameter inputs slot parameters =
     rbind (typed_port_validate ''capability_ir_parameter'' (slot_port slot)) (\<lambda>_.
     rbind (reject (\<not> is_numeric (tp_type (slot_port slot))) (Invalid ''capability_ir_parameter_not_numeric'')) (\<lambda>_.
     rbind (reject (map_of inputs (tp_name (slot_port slot)) \<noteq> None)
              (Invalid ''capability_ir_input_parameter_name_collision'')) (\<lambda>_.
     rbind (reject (map_of parameters (tp_name (slot_port slot)) \<noteq> None) (Invalid ''capability_ir_parameter_duplicate'')) (\<lambda>_.
     Inr (bm_insert (tp_name (slot_port slot)) (slot_port slot) parameters)))))"

record ir_scan =
  known_nodes :: "(string, typed_port) bmap"
  node_dependencies :: "(string, string bset) bmap"
  used_parameters :: "string bset"

definition check_operands ::
  "primitive_contract \<Rightarrow> (string, typed_port) bmap \<Rightarrow> (string, typed_port) bmap \<Rightarrow> (string, typed_port) bmap \<Rightarrow> ir_node
   \<Rightarrow> unit res" where
  "check_operands c inputs parameters known nd =
     rbind (rfold (\<lambda>ref acc. rbind (resolve_reference ref inputs parameters known) (\<lambda>p. Inr (acc @ [p])))
              (nd_inputs nd) []) (\<lambda>operands.
     rbind (rfor (\<lambda>(operand, expected). reject (tp_type operand \<noteq> expected) (Integrity ''capability_ir_operand_type_mismatch''))
              (zip operands (pc_input_types c))) (\<lambda>_.
     validate_shape_rule (pc_shape_rule c) operands (nd_output nd)))"

definition scan_node ::
  "primitive_set \<Rightarrow> path bset \<Rightarrow> (string, typed_port) bmap \<Rightarrow> (string, typed_port) bmap \<Rightarrow> ir_node \<Rightarrow> ir_scan \<Rightarrow> ir_scan res" where
  "scan_node primitives source_files inputs parameters nd s =
     rbind (typed_port_validate ''capability_ir_node_output'' (nd_output nd)) (\<lambda>_.
     rbind (ok_or (find_primitive primitives (nd_primitive_id nd)) (Integrity ''capability_ir_primitive_not_admitted'')) (\<lambda>c.
     rbind (reject (length (nd_inputs nd) \<noteq> length (pc_input_types c) \<or> tp_type (nd_output nd) \<noteq> pc_output_type c)
              (Invalid ''capability_ir_node_contract_invalid'')) (\<lambda>_.
     rbind (reject (map_of (known_nodes s) (nd_node_id nd) \<noteq> None) (Invalid ''capability_ir_node_duplicate'')) (\<lambda>_.
     rbind (reject (nd_provenance nd = [] \<or> MAX_NODE_PROVENANCE < length (nd_provenance nd))
              (Invalid ''capability_ir_node_provenance_missing'')) (\<lambda>_.
     rbind (canonical_paths (nd_provenance nd) ''capability_ir_provenance'') (\<lambda>provenance.
     rbind (reject (provenance \<noteq> map components (nd_provenance nd) \<or> list_ex (\<lambda>p. p \<notin> set source_files) provenance)
              (Integrity ''capability_ir_provenance_invalid'')) (\<lambda>_.
     rbind (check_operands c inputs parameters (known_nodes s) nd) (\<lambda>_.
     Inr \<lparr>known_nodes = bm_insert (nd_node_id nd) (nd_output nd) (known_nodes s),
          node_dependencies = bm_insert (nd_node_id nd) (bs_of (List.map_filter node_reference (nd_inputs nd))) (node_dependencies s),
          used_parameters = fold bs_insert (List.map_filter parameter_reference (nd_inputs nd)) (used_parameters s)\<rparr>))))))))"

text \<open>Names of the outputs seen, and the stack of nodes to follow with its top first.\<close>

definition scan_output ::
  "(string, typed_port) bmap \<Rightarrow> (string, typed_port) bmap \<Rightarrow> (string, typed_port) bmap \<Rightarrow> output_binding
   \<Rightarrow> string bset \<times> string list \<Rightarrow> (string bset \<times> string list) res" where
  "scan_output inputs parameters known binding = (\<lambda>(names, pending).
     rbind (typed_port_validate ''capability_ir_output'' (ob_port binding)) (\<lambda>_.
     rbind (reject (tp_name (ob_port binding) \<in> set names) (Invalid ''capability_ir_output_duplicate'')) (\<lambda>_.
     rbind (resolve_reference (ob_source binding) inputs parameters known) (\<lambda>source.
     rbind (reject (tp_type source \<noteq> tp_type (ob_port binding) \<or> tp_shape source \<noteq> tp_shape (ob_port binding))
              (Integrity ''capability_ir_output_contract_mismatch'')) (\<lambda>_.
     Inr (bs_insert (tp_name (ob_port binding)) names,
          case node_reference (ob_source binding) of None \<Rightarrow> pending | Some ident \<Rightarrow> ident # pending))))))"

function reach_nodes :: "(string, string bset) bmap \<Rightarrow> string list \<Rightarrow> string bset \<Rightarrow> string bset res" where
  "reach_nodes deps [] reachable = Inr reachable"
| "reach_nodes deps (ident # pending) reachable =
     (if ident \<in> set reachable then reach_nodes deps pending reachable
      else case map_of deps ident of
        None \<Rightarrow> Inl (Integrity ''capability_ir_reachability_invalid'')
      | Some targets \<Rightarrow> reach_nodes deps (rev targets @ pending) (bs_insert ident reachable))"
  by pat_completeness auto
termination
proof (relation "measures [\<lambda>(deps, pending, reachable). card (fst ` set deps - set reachable), \<lambda>(deps, pending, reachable). length pending]",
    goal_cases)
  case (3 deps ident pending reachable targets)
  then have "ident \<in> fst ` set deps" by (metis domIff dom_map_of_conv_image_fst option.distinct(1))
  with 3 have "card (fst ` set deps - insert ident (set reachable)) < card (fst ` set deps - set reachable)"
    by (intro psubset_card_mono) auto
  then show ?case by simp
qed auto

declare reach_nodes.simps(2) [simp del]

definition source_files_of :: "system_envelope \<Rightarrow> path bset" where
  "source_files_of e = bs_of (map se_relative_path (filter (\<lambda>en. se_kind en = FileEntry) (sv_entries e)))"

definition validate_ir_structure :: "ir_codec \<Rightarrow> capability_ir \<Rightarrow> system_envelope \<Rightarrow> unit res" where
  "validate_ir_structure C ir e =
     rbind (case verify_manifest (ir_envelopes C) e of
              Inl _ \<Rightarrow> Inl (Integrity ''capability_ir_envelope_not_authenticated'') | Inr _ \<Rightarrow> Inr ()) (\<lambda>_.
     rbind (reject (ci_system_envelope_sha256 ir \<noteq> sv_manifest_sha256 e) (Integrity ''capability_ir_envelope_mismatch'')) (\<lambda>_.
     rbind (primitive_set_verify C (ci_primitive_set ir)) (\<lambda>_.
     rbind (ir_budget ir) (\<lambda>_.
     rbind (rfold scan_input (ci_inputs ir) []) (\<lambda>inputs.
     rbind (rfold (scan_parameter inputs) (ci_parameters ir) []) (\<lambda>parameters.
     rbind (reject (ci_outputs ir = [] \<or> ci_nodes ir = []) (Invalid ''capability_ir_empty'')) (\<lambda>_.
     rbind (rfold (scan_node (ci_primitive_set ir) (source_files_of e) inputs parameters) (ci_nodes ir)
              \<lparr>known_nodes = [], node_dependencies = [], used_parameters = []\<rparr>) (\<lambda>s.
     rbind (rfold (scan_output inputs parameters (known_nodes s)) (ci_outputs ir) ([], [])) (\<lambda>(_, pending).
     rbind (reach_nodes (node_dependencies s) pending []) (\<lambda>reachable.
     rbind (reject (length reachable \<noteq> length (known_nodes s)) (Integrity ''capability_ir_dead_node'')) (\<lambda>_.
     reject (length (used_parameters s) \<noteq> length parameters) (Integrity ''capability_ir_dead_parameter''))))))))))))"

section \<open>Sealing and persistence\<close>

definition ir_digest :: "ir_codec \<Rightarrow> capability_ir \<Rightarrow> digest res" where
  "ir_digest C ir =
     rbind (ok_or (ir_to_vec C (ir\<lparr>ci_manifest_sha256 := zero_digest\<rparr>)) Json) (\<lambda>bytes.
     Inr (digest_domain (ir_sha C) IR_DOMAIN bytes))"

definition validate_ir :: "ir_codec \<Rightarrow> capability_ir \<Rightarrow> system_envelope \<Rightarrow> unit res" where
  "validate_ir C ir e =
     rbind (validate_ir_structure C ir e) (\<lambda>_.
     rbind (reject (is_draft (ci_manifest_sha256 ir)) (Integrity ''capability_ir_digest_mismatch'')) (\<lambda>_.
     rbind (ir_digest C ir) (\<lambda>d.
     reject (d \<noteq> ci_manifest_sha256 ir) (Integrity ''capability_ir_digest_mismatch''))))"

definition capability_ir_new ::
  "ir_codec \<Rightarrow> string \<Rightarrow> system_envelope \<Rightarrow> primitive_set \<Rightarrow> typed_port list \<Rightarrow> parameter_slot list \<Rightarrow> ir_node list
   \<Rightarrow> output_binding list \<Rightarrow> capability_ir res" where
  "capability_ir_new C capability_id e primitives inputs parameters nodes outputs =
     (let ir = \<lparr>ci_capability_id = capability_id, ci_system_envelope_sha256 = sv_manifest_sha256 e,
                ci_primitive_set = primitives, ci_inputs = inputs, ci_parameters = parameters, ci_nodes = nodes,
                ci_outputs = outputs, ci_manifest_sha256 = zero_digest\<rparr>
      in rbind (validate_ir_structure C ir e) (\<lambda>_.
         rbind (ir_digest C ir) (\<lambda>d.
         let ir = ir\<lparr>ci_manifest_sha256 := d\<rparr>
         in rbind (validate_ir C ir e) (\<lambda>_. Inr ir))))"

definition capability_ir_path :: "path \<Rightarrow> digest \<Rightarrow> path" where
  "capability_ir_path root d = root @ [Normal ''state'', Normal ''capability_ir'', Normal ''by-sha'', Normal (d @ ''.json'')]"

definition authenticate_capability_ir ::
  "ir_codec \<Rightarrow> path \<Rightarrow> private_file_reference \<Rightarrow> system_envelope \<Rightarrow> store \<Rightarrow> capability_ir res" where
  "authenticate_capability_ir C root ref e fs =
     rbind (read_verified_bounded (ir_sha C) root ref MAX_CAPABILITY_IR_BYTES fs) (\<lambda>bytes.
     rbind (ok_or (ir_from_slice C bytes) Json) (\<lambda>ir.
     rbind (validate_ir C ir e) (\<lambda>_.
     rbind (reject (ref_path ref \<noteq> capability_ir_path root (ci_manifest_sha256 ir))
              (Integrity ''capability_ir_content_address_mismatch'')) (\<lambda>_.
     rbind (ok_or (ir_to_vec C ir) Json) (\<lambda>encoded.
     rbind (reject (encoded \<noteq> bytes) (Integrity ''capability_ir_noncanonical_encoding'')) (\<lambda>_.
     Inr ir))))))"

definition capability_ir_persist :: "ir_codec \<Rightarrow> path \<Rightarrow> capability_ir \<Rightarrow> system_envelope \<Rightarrow> private_file_reference io" where
  "capability_ir_persist C root ir e =
     io_bind (io_res (validate_ir C ir e)) (\<lambda>_.
     io_bind (io_res (ok_or (ir_to_vec C ir) Json)) (\<lambda>bytes.
     io_bind (write_or_verify_immutable (ir_sha C) root (capability_ir_path root (ci_manifest_sha256 ir)) bytes) (\<lambda>d.
     let ref = \<lparr>ref_path = capability_ir_path root (ci_manifest_sha256 ir), ref_sha256 = d\<rparr>
     in io_bind (io_read (authenticate_capability_ir C root ref e)) (\<lambda>_. io_res (Inr ref)))))"

end
