(* ===== verification/Capability_Bundle.thy ===== *)
theory Capability_Bundle
  imports Content_Vault Capability_Ir Adapter_Types
begin

text \<open>
  Capability bundles, after \<open>src/capability/capability_bundle.rs\<close>: the sealed record that ties a capability to a
  retained capture and to the state of its representation.
\<close>

section \<open>Data\<close>

definition BUNDLE_DOMAIN :: string where "BUNDLE_DOMAIN = ''TIDEX:CAPABILITY-BUNDLE:v4'' @ [CHR 0x00]"
definition MAX_CAPABILITY_BUNDLE_BYTES :: nat where "MAX_CAPABILITY_BUNDLE_BYTES = 64 * 1024 * 1024"

datatype representation_gap =
    DependencyClosure | InputContract | OutputContract | StateSemantics | EffectSemantics | ConcurrencySemantics
  | PersistenceSemantics | BehavioralEquivalence | CausalContribution | TargetCompatibility | TranslationConformance

datatype capability_blocker =
    AcquisitionIncomplete | SourceUnsupported | DependencyClosureUnresolved | EvidenceAuthorityUnavailable
  | ResourceBudgetExceeded | UnsupportedSemanticPrimitive | PolicyDenied | TargetCompatibilityUnresolved

datatype capability_representation =
    Unmapped
  | Partial "private_file_reference option" "digest option" "representation_gap bset"
  | Closed private_file_reference digest

record capability_bundle =
  cb_capability_id :: string
  cb_capture_receipt :: private_file_reference
  cb_capture_receipt_sha256 :: digest
  cb_system_envelope_sha256 :: digest
  cb_representation :: capability_representation
  cb_blockers :: "capability_blocker bset"
  cb_manifest_sha256 :: digest

record partial_bundle_draft =
  pd_capability_id :: string
  pd_capture_receipt :: private_file_reference
  pd_capability_ir :: "private_file_reference option"
  pd_capability_ir_sha256 :: "digest option"
  pd_gaps :: "representation_gap bset"
  pd_blockers :: "capability_blocker bset"

text \<open>One digest and one encoder of envelopes serve the vault, the IR and the bundle.\<close>

record bundle_codec =
  bundle_vault :: vault_codec
  bundle_irs :: ir_codec
  bundle_to_vec :: "capability_bundle \<Rightarrow> string option"
  bundle_from_slice :: "string \<Rightarrow> capability_bundle option"

definition bundle_ir_codec :: "bundle_codec \<Rightarrow> ir_codec" where
  "bundle_ir_codec B = (bundle_irs B)\<lparr>ir_envelopes := vault_codec_of (bundle_vault B)\<rparr>"

definition bundle_sha :: "bundle_codec \<Rightarrow> string \<Rightarrow> digest" where
  "bundle_sha B = vault_sha (bundle_vault B)"

definition capability_bundle_status :: "capability_bundle \<Rightarrow> bundle_status" where
  "capability_bundle_status b =
     (if cb_blockers b \<noteq> [] then BundleBlocked
      else case cb_representation b of Closed _ _ \<Rightarrow> RepresentationClosed | _ \<Rightarrow> BundleOpen)"

section \<open>Validation\<close>

definition bundle_digest :: "bundle_codec \<Rightarrow> capability_bundle \<Rightarrow> digest res" where
  "bundle_digest B b =
     rbind (ok_or (bundle_to_vec B (b\<lparr>cb_manifest_sha256 := zero_digest\<rparr>)) Json) (\<lambda>bytes.
     Inr (digest_domain (bundle_sha B) BUNDLE_DOMAIN bytes))"

definition read_capture :: "bundle_codec \<Rightarrow> path \<Rightarrow> private_file_reference \<Rightarrow> store \<Rightarrow> capture_receipt res" where
  "read_capture B root ref fs = authenticate_capture_receipt (bundle_vault B) root ref fs"

definition check_bundle_ir ::
  "bundle_codec \<Rightarrow> path \<Rightarrow> capability_bundle \<Rightarrow> system_envelope \<Rightarrow> private_file_reference \<Rightarrow> digest \<Rightarrow> string \<Rightarrow> store \<Rightarrow> unit res" where
  "check_bundle_ir B root b e ref d code fs =
     rbind (authenticate_capability_ir (bundle_ir_codec B) root ref e fs) (\<lambda>ir.
     rbind (reject (ci_manifest_sha256 ir \<noteq> d \<or> ci_capability_id ir \<noteq> cb_capability_id b
              \<or> ci_system_envelope_sha256 ir \<noteq> cb_system_envelope_sha256 b) (Integrity code)) (\<lambda>_.
     validate_ir (bundle_ir_codec B) ir e))"

definition validate_bundle_contents :: "bundle_codec \<Rightarrow> path \<Rightarrow> capability_bundle \<Rightarrow> store \<Rightarrow> unit res" where
  "validate_bundle_contents B root b fs =
     rbind (read_capture B root (cb_capture_receipt b) fs) (\<lambda>r.
     rbind (reject (vr_manifest_sha256 r \<noteq> cb_capture_receipt_sha256 b
              \<or> sv_manifest_sha256 (vr_envelope r) \<noteq> cb_system_envelope_sha256 b)
              (Integrity ''capability_bundle_envelope_digest_mismatch'')) (\<lambda>_.
     case cb_representation b of
       Unmapped \<Rightarrow> Inr ()
     | Closed ref d \<Rightarrow> check_bundle_ir B root b (vr_envelope r) ref d ''capability_bundle_ir_binding_mismatch'' fs
     | Partial ref d gaps \<Rightarrow>
         rbind (reject (gaps = [] \<or> (ref \<noteq> None) \<noteq> (d \<noteq> None))
                  (Integrity ''capability_bundle_partial_representation_invalid'')) (\<lambda>_.
         case (ref, d) of
           (Some ref, Some d) \<Rightarrow> check_bundle_ir B root b (vr_envelope r) ref d ''capability_bundle_partial_ir_binding_mismatch'' fs
         | _ \<Rightarrow> Inr ())))"

definition validate_bundle :: "bundle_codec \<Rightarrow> path \<Rightarrow> capability_bundle \<Rightarrow> store \<Rightarrow> unit res" where
  "validate_bundle B root b fs =
     rbind (reject (is_draft (cb_manifest_sha256 b)) (Integrity ''capability_bundle_unsealed'')) (\<lambda>_.
     rbind (validate_bundle_contents B root b fs) (\<lambda>_.
     rbind (bundle_digest B b) (\<lambda>d.
     reject (d \<noteq> cb_manifest_sha256 b) (Integrity ''capability_bundle_digest_mismatch''))))"

section \<open>Construction\<close>

text \<open>The common end of the three constructors.\<close>

definition seal_bundle :: "bundle_codec \<Rightarrow> path \<Rightarrow> capability_bundle \<Rightarrow> store \<Rightarrow> capability_bundle res" where
  "seal_bundle B root b fs =
     rbind (validate_bundle_contents B root b fs) (\<lambda>_.
     rbind (bundle_digest B b) (\<lambda>d.
     rbind (validate_bundle B root (b\<lparr>cb_manifest_sha256 := d\<rparr>) fs) (\<lambda>_.
     Inr (b\<lparr>cb_manifest_sha256 := d\<rparr>))))"

definition create_closed ::
  "bundle_codec \<Rightarrow> path \<Rightarrow> string \<Rightarrow> private_file_reference \<Rightarrow> private_file_reference \<Rightarrow> capability_blocker bset \<Rightarrow> store
   \<Rightarrow> capability_bundle res" where
  "create_closed B root capability_id receipt ref blockers fs =
     rbind (read_capture B root receipt fs) (\<lambda>r.
     rbind (authenticate_capability_ir (bundle_ir_codec B) root ref (vr_envelope r) fs) (\<lambda>ir.
     rbind (reject (ci_capability_id ir \<noteq> capability_id \<or> ci_system_envelope_sha256 ir \<noteq> sv_manifest_sha256 (vr_envelope r))
              (Integrity ''capability_bundle_chain_mismatch'')) (\<lambda>_.
     rbind (validate_ir (bundle_ir_codec B) ir (vr_envelope r)) (\<lambda>_.
     seal_bundle B root
       \<lparr>cb_capability_id = capability_id, cb_capture_receipt = receipt, cb_capture_receipt_sha256 = vr_manifest_sha256 r,
        cb_system_envelope_sha256 = sv_manifest_sha256 (vr_envelope r), cb_representation = Closed ref (ci_manifest_sha256 ir),
        cb_blockers = blockers, cb_manifest_sha256 = zero_digest\<rparr> fs))))"

definition create_unmapped ::
  "bundle_codec \<Rightarrow> path \<Rightarrow> string \<Rightarrow> private_file_reference \<Rightarrow> capability_blocker bset \<Rightarrow> store \<Rightarrow> capability_bundle res" where
  "create_unmapped B root capability_id receipt blockers fs =
     rbind (read_capture B root receipt fs) (\<lambda>r.
     seal_bundle B root
       \<lparr>cb_capability_id = capability_id, cb_capture_receipt = receipt, cb_capture_receipt_sha256 = vr_manifest_sha256 r,
        cb_system_envelope_sha256 = sv_manifest_sha256 (vr_envelope r), cb_representation = Unmapped,
        cb_blockers = blockers, cb_manifest_sha256 = zero_digest\<rparr> fs)"

definition create_partial :: "bundle_codec \<Rightarrow> path \<Rightarrow> partial_bundle_draft \<Rightarrow> store \<Rightarrow> capability_bundle res" where
  "create_partial B root draft fs =
     rbind (reject (pd_gaps draft = [] \<or> (pd_capability_ir draft \<noteq> None) \<noteq> (pd_capability_ir_sha256 draft \<noteq> None))
              (Invalid ''capability_bundle_partial_representation_invalid'')) (\<lambda>_.
     rbind (read_capture B root (pd_capture_receipt draft) fs) (\<lambda>r.
     seal_bundle B root
       \<lparr>cb_capability_id = pd_capability_id draft, cb_capture_receipt = pd_capture_receipt draft,
        cb_capture_receipt_sha256 = vr_manifest_sha256 r, cb_system_envelope_sha256 = sv_manifest_sha256 (vr_envelope r),
        cb_representation = Partial (pd_capability_ir draft) (pd_capability_ir_sha256 draft) (pd_gaps draft),
        cb_blockers = pd_blockers draft, cb_manifest_sha256 = zero_digest\<rparr> fs))"

section \<open>Persistence\<close>

definition capability_bundle_path :: "path \<Rightarrow> digest \<Rightarrow> path" where
  "capability_bundle_path root d =
     root @ [Normal ''state'', Normal ''capability_bundles'', Normal ''by-sha'', Normal (d @ ''.json'')]"

definition authenticate_capability_bundle ::
  "bundle_codec \<Rightarrow> path \<Rightarrow> private_file_reference \<Rightarrow> store \<Rightarrow> capability_bundle res" where
  "authenticate_capability_bundle B root ref fs =
     rbind (read_verified_bounded (bundle_sha B) root ref MAX_CAPABILITY_BUNDLE_BYTES fs) (\<lambda>bytes.
     rbind (ok_or (bundle_from_slice B bytes) Json) (\<lambda>b.
     rbind (validate_bundle B root b fs) (\<lambda>_.
     rbind (reject (ref_path ref \<noteq> capability_bundle_path root (cb_manifest_sha256 b))
              (Integrity ''capability_bundle_content_address_mismatch'')) (\<lambda>_.
     rbind (ok_or (bundle_to_vec B b) Json) (\<lambda>encoded.
     rbind (reject (encoded \<noteq> bytes) (Integrity ''capability_bundle_noncanonical_encoding'')) (\<lambda>_.
     Inr b))))))"

definition capability_bundle_persist :: "bundle_codec \<Rightarrow> path \<Rightarrow> capability_bundle \<Rightarrow> private_file_reference io" where
  "capability_bundle_persist B root b =
     io_bind (io_read (validate_bundle B root b)) (\<lambda>_.
     io_bind (io_res (ok_or (bundle_to_vec B b) Json)) (\<lambda>bytes.
     io_bind (write_or_verify_immutable (bundle_sha B) root (capability_bundle_path root (cb_manifest_sha256 b)) bytes) (\<lambda>d.
     let ref = \<lparr>ref_path = capability_bundle_path root (cb_manifest_sha256 b), ref_sha256 = d\<rparr>
     in io_bind (io_read (authenticate_capability_bundle B root ref)) (\<lambda>_. io_res (Inr ref)))))"

text \<open>What the other authorities ask of a bundle.\<close>

definition bundle_summary :: "bundle_codec \<Rightarrow> path \<Rightarrow> private_file_reference \<Rightarrow> store \<Rightarrow> (string \<times> bundle_status) res" where
  "bundle_summary B root ref fs =
     rbind (authenticate_capability_bundle B root ref fs) (\<lambda>b. Inr (cb_capability_id b, capability_bundle_status b))"

definition bundle_identity :: "bundle_codec \<Rightarrow> path \<Rightarrow> private_file_reference \<Rightarrow> store \<Rightarrow> digest res" where
  "bundle_identity B root ref fs =
     rbind (authenticate_capability_bundle B root ref fs) (\<lambda>b. Inr (cb_manifest_sha256 b))"

end
