(* ===== verification/Sample_Vault.thy ===== *)
theory Sample_Vault
  imports Content_Vault Acquisition_Properties
begin

text \<open>
  The sample source retained in a vault: one run of the capture with its result, and the same receipt under a
  digest that tells \<open>ab\<close> from \<open>cd\<close>.
\<close>

section \<open>Data\<close>

definition vt_root :: path where "vt_root = [RootDir, Normal ''vault'']"

definition vt_other :: digest where "vt_other = replicate 64 CHR ''2''"

definition vt_sha :: "string \<Rightarrow> digest" where "vt_sha x = (if x = ''cd'' then vt_other else aq_digest)"

definition vt_object :: retained_object where
  "vt_object = \<lparr>ro_source_relative_path = ''src/m'', ro_source_entry_sha256 = aq_digest, ro_content_sha256 = aq_digest, ro_byte_len = 2\<rparr>"

definition vt_receipt :: capture_receipt where
  "vt_receipt =
     \<lparr>vr_request = aq_request, vr_envelope = aq_envelope, vr_retention = VaultRetained, vr_objects = [vt_object],
      vr_total_file_bytes = 2, vr_manifest_sha256 = aq_digest\<rparr>"

definition vt_codec :: "acquisition_codec \<Rightarrow> vault_codec" where
  "vt_codec Q = \<lparr>vault_codec_of = Q, receipt_to_vec = (\<lambda>_. Some ''receipt''), receipt_from_slice = (\<lambda>_. Some vt_receipt)\<rparr>"

definition vt_telling :: acquisition_codec where "vt_telling = aq_codec\<lparr>aq_sha := vt_sha\<rparr>"

definition vt_store :: store where "vt_store = Map.empty(vault_object_path vt_root aq_digest \<mapsto> ''ab'')"

definition vt_private :: file_stat where "vt_private = aq_stat Directory 8 0"

definition vt_top :: "file_stat res" where "vt_top = Inr (aq_stat Directory 9 0)"

definition vt_above :: "file_stat \<Rightarrow> (file_stat res \<times> file_stat res) list" where
  "vt_above st = [(Inr st, vt_top), (vt_top, vt_top)]"

definition vt_run :: vault_run where
  "vt_run =
     \<lparr>run_source = (Inr (aq_stat Directory 5 0), vt_above (aq_stat Directory 5 0)), run_private = (Inr vt_private, vt_above vt_private),
      run_capture = aq_session, run_copy = (\<lambda>_. aq_session), run_staged = aq_session, run_installed = aq_session,
      run_binding = (\<lambda>_. ((aq_stat Directory 5 0, vt_above (aq_stat Directory 5 0)), (Inr vt_private, vt_above vt_private)))\<rparr>"

section \<open>Roots\<close>

lemma vt_climb:
  "descriptor_is_ancestor (aq_stat Directory 5 0) (vt_above vt_private) = Inr False"
  "descriptor_is_ancestor vt_private (vt_above (aq_stat Directory 5 0)) = Inr False"
proof -
  have "climb (Suc (Suc k)) (aq_stat Directory 5 0) (vt_above vt_private) = Inr False"
    "climb (Suc (Suc k)) vt_private (vt_above (aq_stat Directory 5 0)) = Inr False" for k
    by (simp_all add: vt_above_def vt_top_def vt_private_def ensure_expected_object_def aq_stat_def same_object_identity_def
        del: rbind_eq_Inr)
  note this[of 16382]
  then show "descriptor_is_ancestor (aq_stat Directory 5 0) (vt_above vt_private) = Inr False"
    "descriptor_is_ancestor vt_private (vt_above (aq_stat Directory 5 0)) = Inr False"
    by (simp_all add: descriptor_is_ancestor_def MAX_DESCRIPTOR_ANCESTORS_def)
qed

lemma vt_disjoint:
  "ensure_disjoint_descriptors (aq_stat Directory 5 0, vt_above (aq_stat Directory 5 0)) (vt_private, vt_above vt_private) = Inr ()"
  by (simp add: ensure_disjoint_descriptors_def vt_climb del: rbind_eq_Inr)

lemma vt_opened:
  "open_confined_root vt_root label (Inr vt_private) = Inr vt_private"
  "open_confined_root [RootDir, Normal ''source''] label (Inr (aq_stat Directory 5 0)) = Inr (aq_stat Directory 5 0)"
  by (simp_all add: open_confined_root_def vt_root_def vt_private_def is_absolute_def aq_stat_def del: rbind_eq_Inr)

lemma vt_binding: "check_binding vt_run vt_private vt_root i = Inr ()"
  by (simp add: check_binding_def vt_run_def verify_private_root_binding_def vt_opened vt_disjoint)
    (simp add: ensure_same_directory_binding_def ensure_same_object_def ensure_expected_object_def vt_private_def aq_stat_def
      same_object_identity_def)

section \<open>The receipt\<close>

lemma vt_expected: "expected_objects aq_envelope = Inr [([Normal ''src'', Normal ''m''], (aq_digest, 2))]"
  by (simp add: expected_objects_def expect_object_def aq_envelope_def aq_entry_def del: rbind_eq_Inr)

lemma vt_components: "components ''src/m'' = [Normal ''src'', Normal ''m'']"
  by (simp add: components_def os_is_absolute_def segment_component_def)

lemma vt_path: "good_root vt_root" "confined vt_root (vault_object_path vt_root d)"
proof -
  show "good_root vt_root" by (simp add: good_root_def vt_root_def is_absolute_def)
  then show "confined vt_root (vault_object_path vt_root d)" by (auto simp: confined_iff vault_object_path_def)
qed

lemma vt_verifies:
  assumes "acquisition_request_verify Q aq_request = Inr ()" and "verify_manifest Q aq_envelope = Inr ()"
    and "aq_sha Q ''ab'' = aq_digest" and "\<And>x. digest_domain (aq_sha Q) CAPTURE_RECEIPT_DOMAIN x = aq_digest"
    and "fs (vault_object_path vt_root aq_digest) = Some ''ab''"
  shows "receipt_verify (vt_codec Q) vt_root vt_receipt fs = Inr ()"
proof -
  have read: "read_verified_bounded (vault_sha (vt_codec Q)) vt_root
      \<lparr>ref_path = vault_object_path vt_root aq_digest, ref_sha256 = aq_digest\<rparr> 2 fs = Inr ''ab''"
    using assms(3,5) vt_path
    by (simp add: read_verified_bounded_eq verify_store_file aq_digest_facts vault_sha_def vt_codec_def)
  have "rfold (check_object (vt_codec Q) vt_root fs [([Normal ''src'', Normal ''m''], (aq_digest, 2))]) [vt_object] ([], 0)
      = Inr ([[Normal ''src'', Normal ''m'']], 2)"
    using read by (simp add: check_object_def vt_object_def vt_components checked_add_def)
  moreover have "receipt_digest (vt_codec Q) vt_receipt = Inr aq_digest"
    using assms(4) by (simp add: receipt_digest_def vt_codec_def vault_sha_def)
  moreover have "sv_acquisition_request_sha256 aq_envelope = aq_digest" "ar_manifest_sha256 aq_request = aq_digest"
      "sv_total_file_bytes aq_envelope = 2"
    by (simp_all add: aq_envelope_def aq_request_def)
  ultimately show ?thesis using assms(1,2)
    by (simp add: receipt_verify_def vt_receipt_def vt_codec_def[of Q] is_draft_def aq_digest_facts MAX_RETAINED_OBJECTS_def vt_expected)
qed

lemma vt_telling_verifies:
  assumes "fs (vault_object_path vt_root aq_digest) = Some ''ab''"
  shows "receipt_verify (vt_codec vt_telling) vt_root vt_receipt fs = Inr ()"
proof (rule vt_verifies)
  have domain: "vt_sha (CHR ''T'' # x) = aq_digest" for x by (simp add: vt_sha_def)
  show "acquisition_request_verify vt_telling aq_request = Inr ()"
    by (simp add: acquisition_request_verify_def aq_request_def aq_budget_def acquisition_budget_validate_def
        canonical_declared_set_def MAX_EXCLUSIONS_def validate_non_overlapping_exclusions_def parents_excluded.simps
        path_parent_def is_draft_def aq_digest_facts request_digest_def digest_domain_def vt_telling_def REQUEST_DOMAIN_def domain)
  have "directory_digest vt_sha p cs = directory_digest (aq_sha aq_codec) p cs" for p cs
  proof (cases "directory_image p cs")
    case (Inr img)
    then obtain h where "rfold hash_child cs (CHR ''T'' # h) = Inr img"
      by (auto simp: directory_image_def DIRECTORY_DOMAIN_def)
    from hash_children_prefix[OF this] obtain u where "img = CHR ''T'' # u" by auto
    with Inr domain show ?thesis by (simp add: directory_digest_def finalize_digest_def aq_codec_def)
  qed (simp add: directory_digest_def)
  then have "check_directory vt_sha = check_directory (aq_sha aq_codec)" by (simp add: check_directory_def fun_eq_iff)
  then have "validate_envelope_structure vt_sha aq_envelope = Inr ()"
    using aq_structure by (simp add: validate_envelope_structure_def)
  then show "verify_manifest vt_telling aq_envelope = Inr ()"
    by (simp add: verify_manifest_def vt_telling_def aq_envelope_def is_draft_def aq_digest_facts envelope_digest_def
        digest_domain_def ENVELOPE_DOMAIN_def domain)
  show "aq_sha vt_telling ''ab'' = aq_digest" by (simp add: vt_telling_def vt_sha_def)
  show "digest_domain (aq_sha vt_telling) CAPTURE_RECEIPT_DOMAIN x = aq_digest" for x
    by (simp add: vt_telling_def digest_domain_def CAPTURE_RECEIPT_DOMAIN_def domain)
qed (rule assms)

section \<open>The run\<close>

lemma vt_same_pinned: "aq_session\<lparr>session_pinned := aq_stat Directory 5 0\<rparr> = aq_session"
  by (simp add: aq_session_def)

lemma vt_copied: "copy_manifest_file aq_codec aq_session [Normal ''src'', Normal ''m''] 2 = Inr (aq_digest, ''ab'')"
proof -
  have n: "find_beneath (session_root aq_session) [Normal ''src'', Normal ''m''] = Inr aq_file"
  proof -
    have "node_inspected aq_root = Inr (aq_stat Directory 5 0)" by (simp add: aq_root_def)
    then show ?thesis by (simp add: aq_session_def aq_nodes)
  qed
  show ?thesis
    unfolding copy_manifest_file_def n
    using aq_finalize
    by (simp add: aq_session_def current_source_root_stat_def aq_file_def file_image_def hash_frame_def aq_bytes
        ensure_stable_object_def ensure_same_object_def same_object_identity_def ensure_expected_object_def aq_stat_def
        checked_add_def del: rbind_eq_Inr)
qed

lemma vt_staged:
  "rfold (stage_entry (vt_codec aq_codec) vt_run (aq_stat Directory 5 0) vt_root vt_private aq_request) (sv_entries aq_envelope) (0, 0, [])
     = Inr (Suc 0, 2, [(vt_object, ''ab'')])"
proof -
  have budget: "max_total_bytes (ar_budget aq_request) = 100" by (simp add: aq_request_def aq_budget_def)
  have run: "(run_copy vt_run p)\<lparr>session_pinned := aq_stat Directory 5 0\<rparr> = aq_session" for p
    by (simp add: vt_run_def vt_same_pinned)
  have codec: "vault_codec_of (vt_codec aq_codec) = aq_codec" "vault_sha (vt_codec aq_codec) x = aq_digest" for x
    by (simp_all add: vt_codec_def vault_sha_def aq_codec_def)
  show ?thesis
    by (simp add: aq_envelope_def aq_entry_def stage_entry_def checked_add_def budget vt_binding run codec vt_copied digest_bytes_def
        vt_object_def aq_bytes del: rbind_eq_Inr)
qed

lemma vt_installed:
  "install_objects (vt_codec aq_codec) vt_run vt_private vt_root i [(vt_object, ''ab'')] Map.empty = (Inr (Suc i), vt_store)"
proof -
  have "root_relative_path vt_root (vault_object_path vt_root aq_digest)
      = Inr [Normal ''state'', Normal ''acquisitions'', Normal ''content-vault'', Normal ''sha256'', Normal (take 2 aq_digest), Normal aq_digest]"
    by (simp add: root_relative_path_eq_Inr vault_object_path_def vt_root_def is_absolute_def)
  moreover have "vt_root @ [Normal ''state'', Normal ''acquisitions'', Normal ''content-vault'', Normal ''sha256'', Normal (take 2 aq_digest), Normal aq_digest]
      = vault_object_path vt_root aq_digest"
    by (simp add: vault_object_path_def)
  ultimately show ?thesis
    by (simp add: install_staged_def vt_object_def io_bind_def io_res_def vt_binding vt_store_def vault_sha_def vt_codec_def aq_codec_def)
qed

lemma vt_captured:
  "capture_to_vault (vt_codec aq_codec) vt_run [RootDir, Normal ''source''] vt_root aq_request Map.empty = (Inr vt_receipt, vt_store)"
proof -
  have opened: "session_open_disjoint [RootDir, Normal ''source''] vt_root (run_source vt_run) (run_private vt_run)
      = Inr (aq_stat Directory 5 0, vt_private)"
    by (simp add: session_open_disjoint_def vt_run_def vt_opened vt_disjoint del: rbind_eq_Inr)
  have again: "verify_against_session aq_codec aq_envelope aq_session aq_request = Inr ()"
    by (simp add: verify_against_session_def aq_request_verifies aq_manifest aq_captured)
      (simp add: aq_request_def aq_envelope_def scope_projection_def)
  have run: "(run_capture vt_run)\<lparr>session_pinned := aq_stat Directory 5 0\<rparr> = aq_session"
    "(run_staged vt_run)\<lparr>session_pinned := aq_stat Directory 5 0\<rparr> = aq_session"
    "(run_installed vt_run)\<lparr>session_pinned := aq_stat Directory 5 0\<rparr> = aq_session"
    by (simp_all add: vt_run_def vt_same_pinned)
  have codec: "vault_codec_of (vt_codec aq_codec) = aq_codec" by (simp add: vt_codec_def)
  have digest: "receipt_digest (vt_codec aq_codec) x = Inr aq_digest" for x
    by (simp add: receipt_digest_def vt_codec_def vault_sha_def aq_codec_def digest_domain_def)
  have "receipt_verify (vt_codec aq_codec) vt_root vt_receipt vt_store = Inr ()"
    using aq_request_verifies aq_manifest by (rule vt_verifies) (simp_all add: aq_codec_def digest_domain_def vt_store_def)
  then show ?thesis
    by (simp add: capture_to_vault_def Let_def io_bind_def io_res_def io_read_def aq_request_verifies opened run codec aq_captured
        vt_binding vt_staged again vt_installed digest vt_receipt_def del: install_objects.simps rbind_eq_Inr)
qed

section \<open>The projection\<close>

definition vt_projection :: projection_run where
  "vt_projection = \<lparr>pj_exists = False, pj_directory = (\<lambda>_. Inr ()), pj_source = (Inr (aq_stat Directory 5 0), aq_session), pj_cleared = id\<rparr>"

definition vt_adapter :: retained_source_adapter where
  "vt_adapter = \<lparr>rs_private_root = vt_root, rs_receipt = vt_receipt\<rparr>"

definition vt_projected :: store where
  "vt_projected = vt_store(projection_path vt_root aq_digest @ [Normal ''src'', Normal ''m''] \<mapsto> ''ab'')"

lemma vt_materialized:
  "materialize (vt_codec aq_codec) vt_projection vt_adapter vt_store = (Inr (projection_path vt_root aq_digest), vt_projected)"
proof -
  let ?V = "vt_codec aq_codec" and ?p = "projection_path vt_root aq_digest"
  have verified: "receipt_verify ?V vt_root vt_receipt vt_store = Inr ()"
    using aq_request_verifies aq_manifest by (rule vt_verifies) (simp_all add: aq_codec_def digest_domain_def vt_store_def)
  have sha: "vault_sha ?V = (\<lambda>_. aq_digest)" by (simp add: vault_sha_def vt_codec_def aq_codec_def fun_eq_iff)
  have read: "read_verified_bounded (\<lambda>_. aq_digest) vt_root
      \<lparr>ref_path = vault_object_path vt_root aq_digest, ref_sha256 = aq_digest\<rparr> 2 vt_store = Inr ''ab''"
    using vt_path by (simp add: read_verified_bounded_eq verify_store_file aq_digest_facts vt_store_def)
  have relative: "root_relative_path vt_root (?p @ [Normal ''src'', Normal ''m''])
      = Inr (drop 2 (?p @ [Normal ''src'', Normal ''m'']))"
    by (simp add: root_relative_path_eq_Inr projection_path_def vt_root_def is_absolute_def)
  have joined: "vt_root @ drop 2 (?p @ [Normal ''src'', Normal ''m'']) = ?p @ [Normal ''src'', Normal ''m'']"
    by (simp add: projection_path_def vt_root_def)
  have free: "vt_store (?p @ [Normal ''src'', Normal ''m'']) = None"
    by (simp add: vt_store_def projection_path_def vault_object_path_def)
  have install: "install_staged (\<lambda>_. aq_digest) vt_root ''ab'' (?p @ [Normal ''src'', Normal ''m'']) aq_digest vt_store = (Inr True, vt_projected)"
    unfolding install_staged_def relative using joined free by (simp add: io_bind_def io_res_def vt_projected_def)
  have objects: "map_of (objects_by_path [vt_object]) [Normal ''src'', Normal ''m''] = Some vt_object"
    by (simp add: objects_by_path_def vt_object_def vt_components)
  have fields: "ro_content_sha256 vt_object = aq_digest" by (simp add: vt_object_def)
  have entries: "project_entries ?V vt_projection vt_root ?p (objects_by_path [vt_object]) (sv_entries aq_envelope) vt_store = (Inr (), vt_projected)"
    using read install
    by (simp add: aq_envelope_def aq_entry_def project_entry_def vt_projection_def io_bind_def io_res_def io_read_def objects fields
        sha digest_bytes_def)
  have "open_confined_root ?p label (Inr (aq_stat Directory 5 0)) = Inr (aq_stat Directory 5 0)" for label
    by (simp add: open_confined_root_def projection_path_def vt_root_def is_absolute_def aq_stat_def del: rbind_eq_Inr)
  moreover have "verify_against_session aq_codec aq_envelope aq_session aq_request = Inr ()"
    by (simp add: verify_against_session_def aq_request_verifies aq_manifest aq_captured)
      (simp add: aq_request_def aq_envelope_def scope_projection_def)
  ultimately have "verify_projection ?V vt_projection vt_receipt ?p = Inr ()"
    by (simp add: verify_projection_def envelope_verify_against_def vt_projection_def vt_same_pinned vt_receipt_def)
      (simp add: vt_codec_def)
  moreover have "path_parent ?p = Some (butlast ?p)" by (simp add: path_parent_def projection_path_def vt_root_def)
  moreover have "vr_manifest_sha256 vt_receipt = aq_digest" "vr_objects vt_receipt = [vt_object]" "vr_envelope vt_receipt = aq_envelope"
    by (simp_all add: vt_receipt_def)
  moreover have "pj_exists vt_projection = False" "pj_directory vt_projection x = Inr ()" for x by (simp_all add: vt_projection_def)
  ultimately show ?thesis using verified entries
    by (simp add: materialize_def Let_def vt_adapter_def io_bind_def io_res_def io_read_def del: project_entries.simps rbind_eq_Inr)
qed

end
