(* ===== verification/Vault_Properties.thy ===== *)
theory Vault_Properties
  imports Sample_Vault
begin

text \<open>
  What a retained capture guarantees: the retained bytes are those of the captured files, receipts can be
  reopened for ever, and what the verification of a receipt does not see.
\<close>

section \<open>Staging\<close>





section \<open>Installation\<close>

lemma io_keepsD: "io_keeps {} m \<Longrightarrow> m fs = (x, fs') \<Longrightarrow> fs p = Some b \<Longrightarrow> fs' p = Some b"
  unfolding io_keeps_def by (metis empty_iff snd_conv)

lemma io_keeps_install [keeps_intros]: "io_keeps M (install_staged sha root bytes p d)"
  unfolding install_staged_def
  by (intro keeps_intros) (auto simp: io_keeps_def)

lemma io_keeps_install_objects [keeps_intros]: "io_keeps M (install_objects V A private_stat root i staged)"
proof (induction staged arbitrary: i)
  case (Cons s staged)
  obtain ob bytes where s: "s = (ob, bytes)" by force
  show ?case unfolding s install_objects.simps
    by (intro keeps_intros Cons) (auto intro!: keeps_intros)
qed (simp add: keeps_intros)




section \<open>Verified receipts\<close>

text \<open>What verification finds of one object.\<close>

definition retained :: "vault_codec \<Rightarrow> path \<Rightarrow> store \<Rightarrow> retained_object \<Rightarrow> bool" where
  "retained V root fs ob \<longleftrightarrow>
     (\<exists>bytes. fs (vault_object_path root (ro_content_sha256 ob)) = Some bytes
        \<and> vault_sha V bytes = ro_content_sha256 ob \<and> length bytes = ro_byte_len ob)"

lemma check_object_Inr:
  assumes "check_object V root fs expected ob (seen, tot) = Inr (seen', tot')"
  shows "map_of expected (components (ro_source_relative_path ob)) = Some (ro_source_entry_sha256 ob, ro_byte_len ob)"
    and "retained V root fs ob" and "tot' = tot + ro_byte_len ob"
    and "components (ro_source_relative_path ob) \<notin> set seen"
    and "set seen' = insert (components (ro_source_relative_path ob)) (set seen)"
proof -
  from assms obtain bytes where b: "read_verified_bounded (vault_sha V) root
        \<lparr>ref_path = vault_object_path root (ro_content_sha256 ob), ref_sha256 = ro_content_sha256 ob\<rparr> (ro_byte_len ob) fs = Inr bytes"
      "length bytes = ro_byte_len ob"
    by (auto simp: check_object_def)
  from read_verified_bounded_ok[OF b(1)] b(2) show "retained V root fs ob" by (auto simp: retained_def)
qed (use assms in \<open>auto simp: check_object_def\<close>)

lemma check_objects_Inr:
  assumes "rfold (check_object V root fs expected) obs (seen, tot) = Inr (seen', tot')"
  shows "\<forall>ob \<in> set obs. retained V root fs ob
      \<and> map_of expected (components (ro_source_relative_path ob)) = Some (ro_source_entry_sha256 ob, ro_byte_len ob)"
    and "distinct (map (\<lambda>ob. components (ro_source_relative_path ob)) obs)"
    and "tot' = tot + sum_list (map ro_byte_len obs)"
proof -
  have "(\<forall>ob \<in> set obs. retained V root fs ob
      \<and> map_of expected (components (ro_source_relative_path ob)) = Some (ro_source_entry_sha256 ob, ro_byte_len ob)
      \<and> components (ro_source_relative_path ob) \<notin> set seen)
    \<and> distinct (map (\<lambda>ob. components (ro_source_relative_path ob)) obs)
    \<and> tot' = tot + sum_list (map ro_byte_len obs)"
    using assms
  proof (induction obs arbitrary: seen tot)
    case (Cons ob obs)
    obtain s t where one: "check_object V root fs expected ob (seen, tot) = Inr (s, t)"
        and rest: "rfold (check_object V root fs expected) obs (s, t) = Inr (seen', tot')"
      using Cons.prems by auto
    note check_object_Inr[OF one]
    with Cons.IH[OF rest] show ?case by auto
  qed simp
  then show "\<forall>ob \<in> set obs. retained V root fs ob
      \<and> map_of expected (components (ro_source_relative_path ob)) = Some (ro_source_entry_sha256 ob, ro_byte_len ob)"
    and "distinct (map (\<lambda>ob. components (ro_source_relative_path ob)) obs)"
    and "tot' = tot + sum_list (map ro_byte_len obs)" by auto
qed


text \<open>A verified receipt has an object for every file of its envelope.\<close>

lemma expected_objects_Inr:
  assumes "rfold expect_object ens m = Inr m'" and "bm_ok m"
  shows "bm_ok m'" and "fst ` set m' = fst ` set m \<union> se_relative_path ` set (file_entries ens)"
    and "\<forall>p x. map_of m p = Some x \<longrightarrow> map_of m' p = Some x"
    and "\<forall>en \<in> set (file_entries ens). map_of m' (se_relative_path en) = Some (se_sha256 en, se_byte_len en)"
proof -
  have "bm_ok m' \<and> fst ` set m' = fst ` set m \<union> se_relative_path ` set (file_entries ens)
    \<and> (\<forall>p x. map_of m p = Some x \<longrightarrow> map_of m' p = Some x)
    \<and> (\<forall>en \<in> set (file_entries ens). map_of m' (se_relative_path en) = Some (se_sha256 en, se_byte_len en))"
    using assms
  proof (induction ens arbitrary: m)
    case (Cons en ens)
    show ?case
    proof (cases "se_kind en = FileEntry")
      case True
      from Cons.prems(1) obtain q where "expect_object en m = Inr q" and rest: "rfold expect_object ens q = Inr m'" by auto
      with True have new: "map_of m (se_relative_path en) = None" and q: "q = bm_insert (se_relative_path en) (se_sha256 en, se_byte_len en) m"
        by (cases "map_of m (se_relative_path en)"; simp add: expect_object_def)+
      note rest = rest[unfolded q]
      note IH = Cons.IH[OF rest bm_ok_insert[OF Cons.prems(2)]]
      have "map_of m' p = Some x" if "map_of m p = Some x" for p x
      proof -
        from that new have "map_of (bm_insert (se_relative_path en) (se_sha256 en, se_byte_len en) m) p = Some x" by auto
        with IH show ?thesis by blast
      qed
      moreover have "map_of m' (se_relative_path en) = Some (se_sha256 en, se_byte_len en)" using IH by simp
      ultimately show ?thesis using IH True by (simp add: file_entries_def insert_commute Un_insert_right)
    next
      case False
      then have "expect_object en m = Inr m" by (simp add: expect_object_def)
      with Cons.prems(1) have "rfold expect_object ens m = Inr m'" by simp
      from Cons.IH[OF this Cons.prems(2)] False show ?thesis by (simp add: file_entries_def)
    qed
  qed (simp add: file_entries_def)
  then show "bm_ok m'" and "fst ` set m' = fst ` set m \<union> se_relative_path ` set (file_entries ens)"
    and "\<forall>p x. map_of m p = Some x \<longrightarrow> map_of m' p = Some x"
    and "\<forall>en \<in> set (file_entries ens). map_of m' (se_relative_path en) = Some (se_sha256 en, se_byte_len en)" by blast+
qed

lemma verified_receipt_covers:
  assumes "receipt_verify V root r fs = Inr ()" and "en \<in> set (file_entries (sv_entries (vr_envelope r)))"
  shows "\<exists>ob \<in> set (vr_objects r). components (ro_source_relative_path ob) = se_relative_path en
    \<and> ro_source_entry_sha256 ob = se_sha256 en \<and> ro_byte_len ob = se_byte_len en \<and> retained V root fs ob"
proof -
  let ?path = "\<lambda>ob. components (ro_source_relative_path ob)"
  from assms(1) obtain expected seen tot where
      expected: "rfold expect_object (sv_entries (vr_envelope r)) [] = Inr expected" "length expected = length (vr_objects r)"
      and loop: "rfold (check_object V root fs expected) (vr_objects r) ([], 0) = Inr (seen, tot)"
    by (auto simp: receipt_verify_def expected_objects_def)
  note x = expected_objects_Inr[OF expected(1) bm_ok_Nil] and o = check_objects_Inr[OF loop]
  have "?path ` set (vr_objects r) = fst ` set expected"
  proof (rule card_subset_eq)
    show "?path ` set (vr_objects r) \<subseteq> fst ` set expected" using o(1) by (auto dest!: bspec map_of_SomeD intro: rev_image_eqI)
    have "card (?path ` set (vr_objects r)) = length (vr_objects r)" using distinct_card[OF o(2)] by simp
    then show "card (?path ` set (vr_objects r)) = card (fst ` set expected)"
      using distinct_card[OF bm_ok_distinct[OF x(1)]] expected(2) by simp
  qed simp
  moreover have "se_relative_path en \<in> fst ` set expected" using x(2) assms(2) by simp
  ultimately obtain ob where ob: "ob \<in> set (vr_objects r)" "?path ob = se_relative_path en" by (metis imageE)
  with o(1) x(4) assms(2) show ?thesis by force
qed

lemma check_object_extends:
  assumes "\<forall>p b. fs p = Some b \<longrightarrow> fs' p = Some b"
    and "check_object V root fs expected ob s = Inr s'"
  shows "check_object V root fs' expected ob s = Inr s'"
proof -
  obtain seen tot where s: "s = (seen, tot)" by force
  have read: "read_verified_bounded sha root ref n fs' = Inr bytes"
    if "read_verified_bounded sha root ref n fs = Inr bytes" for sha ref n bytes
    using that assms(1) unfolding read_verified_bounded_def open_private_reference_def by auto
  show ?thesis using assms(2) read unfolding s check_object_def by fastforce
qed

lemma receipt_verify_extends:
  assumes "\<forall>p b. fs p = Some b \<longrightarrow> fs' p = Some b" and "receipt_verify V root r fs = Inr ()"
  shows "receipt_verify V root r fs' = Inr ()"
proof -
  have loop: "rfold (check_object V root fs expected) obs s = Inr s' \<Longrightarrow> rfold (check_object V root fs' expected) obs s = Inr s'"
    for expected obs s s'
  proof (induction obs arbitrary: s)
    case (Cons ob obs)
    then obtain t where "check_object V root fs expected ob s = Inr t" "rfold (check_object V root fs expected) obs t = Inr s'" by auto
    with Cons.IH check_object_extends[OF assms(1)] show ?case by auto
  qed simp
  from assms(2) obtain expected seen tot where
      "rfold (check_object V root fs expected) (vr_objects r) ([], 0) = Inr (seen, tot)"
      "expected_objects (vr_envelope r) = Inr expected"
    by (auto simp: receipt_verify_def)
  with loop[OF this(1)] assms(2) show ?thesis by (auto simp: receipt_verify_def)
qed

section \<open>Projection\<close>

lemma install_staged_Inr:
  assumes "install_staged sha root bytes p d fs = (Inr True, fs')"
  shows "fs' p = Some bytes"
  using assms by (auto simp: install_staged_def io_steps root_relative_path_join split: if_splits)

lemma project_entry_Inr:
  assumes "project_entry V P private_root root objects en fs = (Inr (), fs')" and "se_kind en = FileEntry"
  obtains ob bytes where "map_of objects (se_relative_path en) = Some ob" "fs' (root @ se_relative_path en) = Some bytes"
    "fs (vault_object_path private_root (ro_content_sha256 ob)) = Some bytes" "vault_sha V bytes = ro_content_sha256 ob"
proof -
  from assms obtain ob bytes where ob: "map_of objects (se_relative_path en) = Some ob"
      and read: "read_verified_bounded (vault_sha V) private_root
        \<lparr>ref_path = vault_object_path private_root (ro_content_sha256 ob), ref_sha256 = ro_content_sha256 ob\<rparr> (se_byte_len en) fs = Inr bytes"
      and put: "install_staged (vault_sha V) private_root bytes (root @ se_relative_path en) (digest_bytes (vault_sha V) bytes) fs
        = (Inr True, fs')"
    by (auto simp: project_entry_def io_steps)
  from ob read_verified_bounded_ok(1,2)[OF read] install_staged_Inr[OF put] show ?thesis by (auto intro: that)
qed

lemma io_keeps_project_entry [keeps_intros]: "io_keeps M (project_entry V P private_root root objects en)"
  unfolding project_entry_def by (cases "se_kind en") (auto intro!: keeps_intros)

lemma io_keeps_project [keeps_intros]: "io_keeps M (project_entries V P private_root root objects ens)"
  by (induction ens) (auto intro!: keeps_intros)

lemma project_entries_Inr:
  assumes "project_entries V P private_root root objects ens fs = (Inr (), fs')"
    and "en \<in> set ens" and "se_kind en = FileEntry"
  shows "\<exists>ob bytes. map_of objects (se_relative_path en) = Some ob \<and> fs' (root @ se_relative_path en) = Some bytes
    \<and> fs' (vault_object_path private_root (ro_content_sha256 ob)) = Some bytes \<and> vault_sha V bytes = ro_content_sha256 ob"
  using assms(1,2)
proof (induction ens arbitrary: fs)
  case (Cons e ens)
  from Cons.prems(1) obtain fs1 where one: "project_entry V P private_root root objects e fs = (Inr (), fs1)"
      and rest: "project_entries V P private_root root objects ens fs1 = (Inr (), fs')"
    by (auto simp: io_steps)
  note later = io_keepsD[OF io_keeps_project rest] and first = io_keepsD[OF io_keeps_project_entry one]
  show ?case
  proof (cases "en \<in> set ens")
    case True
    with Cons.IH[OF rest] show ?thesis by blast
  next
    case False
    with Cons.prems(2) have e: "en = e" by simp
    from project_entry_Inr[OF one assms(3)[unfolded e]] obtain ob bytes where
        p: "map_of objects (se_relative_path e) = Some ob" "fs1 (root @ se_relative_path e) = Some bytes"
        "fs (vault_object_path private_root (ro_content_sha256 ob)) = Some bytes" "vault_sha V bytes = ro_content_sha256 ob" .
    from later[OF p(2)] later[OF first[OF p(3)]] p(1,4) show ?thesis unfolding e by blast
  qed
qed simp

section \<open>Properties\<close>



text \<open>
  A receipt that was persisted can be reopened for ever, by its reference and by its digest: whatever is
  added to the store later, authentication and loading return exactly this receipt.
\<close>

theorem receipt_reopens:
  assumes "receipt_persist V root r fs = (Inr ref, fs')" and "fs (receipt_path root (vr_manifest_sha256 r)) = None"
    and "\<forall>p b. fs' p = Some b \<longrightarrow> later p = Some b"
    and "good_root root" and "receipt_to_vec V r = Some bytes" and "receipt_from_slice V bytes = Some r"
    and "length bytes \<le> MAX_CAPTURE_RECEIPT_BYTES" and "is_valid_str (vault_sha V bytes)"
  shows "authenticate_capture_receipt V root ref later = Inr r \<and> load_capture_receipt V root (vr_manifest_sha256 r) later = Inr r"
proof -
  let ?p = "receipt_path root (vr_manifest_sha256 r)"
  from assms(1) obtain bs d where p: "receipt_verify V root r fs = Inr ()" "receipt_to_vec V r = Some bs"
      "write_or_verify_immutable (vault_sha V) root ?p bs fs = (Inr d, fs')" "ref = \<lparr>ref_path = ?p, ref_sha256 = d\<rparr>"
    by (auto simp: receipt_persist_def io_steps)
  have c: "confined root ?p" using p(3) by (intro write_or_verify_Inr_confined[of "vault_sha V" root ?p bs fs d]) simp
  have verified: "receipt_verify V root r fs = Inr ()" and ref: "ref = \<lparr>ref_path = ?p, ref_sha256 = vault_sha V bytes\<rparr>"
      and written: "write_or_verify_immutable (vault_sha V) root ?p bytes fs = (Inr (vault_sha V bytes), fs')"
    using p assms(2,5) by (auto simp: write_or_verify_eq[OF c])
  from written assms(2) have fs': "fs' = fs(?p \<mapsto> bytes)" by (simp add: write_or_verify_eq[OF c])
  with assms(2,3) have keep: "\<forall>p b. fs p = Some b \<longrightarrow> later p = Some b" and here: "later ?p = Some bytes"
    by (metis fun_upd_apply option.distinct(1))+
  have small: "MAX_CAPTURE_RECEIPT_BYTES < 2 ^ 64" by (simp add: MAX_CAPTURE_RECEIPT_BYTES_def)
  from receipt_verify_extends[OF keep verified] have "receipt_verify V root r later = Inr ()" .
  moreover have "read_verified_bounded (vault_sha V) root ref MAX_CAPTURE_RECEIPT_BYTES later = Inr bytes"
    using here assms(4,7,8) c small by (simp add: ref read_verified_bounded_eq verify_store_file)
  moreover have "read_existing_private_file_bounded root ?p MAX_CAPTURE_RECEIPT_BYTES later = Inr bytes"
    using here assms(4,7) c small
    by (simp add: read_existing_private_file_bounded_def open_private_reference_eq read_opened_store_file)
  ultimately show ?thesis using assms(6) by (simp add: authenticate_capture_receipt_def load_capture_receipt_def ref)
qed

theorem receipt_reopens_witness:
  "load_capture_receipt (vt_codec vt_telling) vt_root aq_digest
     (vt_store(receipt_path vt_root aq_digest \<mapsto> ''receipt'', vault_object_path vt_root vt_other \<mapsto> ''cd'')) = Inr vt_receipt"
proof -
  let ?p = "receipt_path vt_root aq_digest" and ?q = "vault_object_path vt_root vt_other"
  have paths: "confined vt_root ?p" "?p \<noteq> vault_object_path vt_root d" for d
    using vt_path(1) by (auto simp: confined_iff receipt_path_def vault_object_path_def)
  then have free: "vt_store ?p = None" by (simp add: vt_store_def)
  have m: "vr_manifest_sha256 vt_receipt = aq_digest" by (simp add: vt_receipt_def)
  have sha: "vault_sha (vt_codec vt_telling) ''receipt'' = aq_digest" by (simp add: vault_sha_def vt_codec_def vt_telling_def vt_sha_def)
  have "receipt_persist (vt_codec vt_telling) vt_root vt_receipt vt_store
      = (Inr \<lparr>ref_path = ?p, ref_sha256 = aq_digest\<rparr>, vt_store(?p \<mapsto> ''receipt''))"
  proof -
    have "receipt_verify (vt_codec vt_telling) vt_root vt_receipt vt_store = Inr ()"
      by (rule vt_telling_verifies) (simp add: vt_store_def)
    moreover have "receipt_to_vec (vt_codec vt_telling) vt_receipt = Some ''receipt''" by (simp add: vt_codec_def)
    ultimately show ?thesis
      using free sha by (simp add: receipt_persist_def io_bind_def io_read_def io_res_def write_or_verify_eq[OF paths(1)] m)
  qed
  moreover have "(vt_store(?p \<mapsto> ''receipt'')) ?q = None"
    using paths(2)[of vt_other] by (simp add: vt_store_def vault_object_path_def aq_digest_def vt_other_def)
  then have "\<forall>p b. (vt_store(?p \<mapsto> ''receipt'')) p = Some b \<longrightarrow> (vt_store(?p \<mapsto> ''receipt'', ?q \<mapsto> ''cd'')) p = Some b" by auto
  moreover have "receipt_to_vec (vt_codec vt_telling) vt_receipt = Some ''receipt''"
    "receipt_from_slice (vt_codec vt_telling) ''receipt'' = Some vt_receipt" by (simp_all add: vt_codec_def)
  moreover have "is_valid_str (vault_sha (vt_codec vt_telling) ''receipt'')" unfolding sha by (rule aq_digest_facts)
  moreover have "length ''receipt'' \<le> MAX_CAPTURE_RECEIPT_BYTES" by (simp add: MAX_CAPTURE_RECEIPT_BYTES_def)
  ultimately show ?thesis
    using receipt_reopens[of _ _ vt_receipt vt_store, unfolded m, OF _ free _ vt_path(1)] by blast
qed

text \<open>
  C40: verification does not tie the retained content to the captured file. When the vault holds other content of
  the same length as an object, the receipt with that content in place of the object's, sealed again,
  is verified too: the digest of the file that the envelope commits to is compared with the copy in the
  receipt only, never with the content.
\<close>

theorem substituted_content_verifies:
  assumes "receipt_verify V root r fs = Inr ()" and "i < length (vr_objects r)"
    and "good_root root" and "ro_byte_len (vr_objects r ! i) < 2 ^ 64"
    and "fs (vault_object_path root d) = Some other" and "vault_sha V other = d" and "is_valid_str d"
    and "length other = ro_byte_len (vr_objects r ! i)"
    and "receipt_digest V (r\<lparr>vr_objects := (vr_objects r)[i := (vr_objects r ! i)\<lparr>ro_content_sha256 := d\<rparr>]\<rparr>) = Inr seal"
    and "\<not> is_draft seal"
  shows "receipt_verify V root (r\<lparr>vr_objects := (vr_objects r)[i := (vr_objects r ! i)\<lparr>ro_content_sha256 := d\<rparr>],
           vr_manifest_sha256 := seal\<rparr>) fs = Inr ()"
proof -
  let ?ob = "vr_objects r ! i"
  let ?new = "?ob\<lparr>ro_content_sha256 := d\<rparr>"
  have c: "confined root (vault_object_path root d)" using assms(3) by (auto simp: confined_iff vault_object_path_def)
  have read: "read_verified_bounded (vault_sha V) root \<lparr>ref_path = vault_object_path root d, ref_sha256 = d\<rparr> (ro_byte_len ?ob) fs = Inr other"
    using assms c by (simp add: read_verified_bounded_eq verify_store_file)
  have same: "check_object V root fs expected ?new s = Inr s'" if "check_object V root fs expected ?ob s = Inr s'" for expected s s'
    using that read assms(4,8) by (cases s) (auto simp: check_object_def)
  have loop: "rfold (check_object V root fs expected) ((vr_objects r)[i := ?new]) s = Inr s'"
    if ok: "rfold (check_object V root fs expected) (vr_objects r) s = Inr s'" for expected s s'
  proof -
    have split: "vr_objects r = take i (vr_objects r) @ ?ob # drop (Suc i) (vr_objects r)"
      using assms(2) by (simp add: id_take_nth_drop)
    have "rfold (check_object V root fs expected) (take i (vr_objects r) @ ?ob # drop (Suc i) (vr_objects r)) s = Inr s'"
      using ok split by simp
    then show ?thesis using assms(2) same by (auto simp: upd_conv_take_nth_drop rfold_append)
  qed
  have seal: "receipt_digest V (r\<lparr>vr_objects := os, vr_manifest_sha256 := m\<rparr>) = receipt_digest V (r\<lparr>vr_objects := os\<rparr>)" for os m
    by (simp add: receipt_digest_def)
  show ?thesis using assms(1,9,10) loop by (auto simp: receipt_verify_def seal)
qed

theorem substituted_content_verifies_witness:
  "receipt_verify (vt_codec vt_telling) vt_root (vt_receipt\<lparr>vr_objects := [vt_object\<lparr>ro_content_sha256 := vt_other\<rparr>]\<rparr>)
     (vt_store(vault_object_path vt_root vt_other \<mapsto> ''cd'')) = Inr ()"
proof -
  let ?fs = "vt_store(vault_object_path vt_root vt_other \<mapsto> ''cd'')" and ?V = "vt_codec vt_telling"
  have other: "vt_other \<noteq> aq_digest" "is_valid_str vt_other"
    by (simp_all add: vt_other_def aq_digest_def HEX_LEN_def is_valid_str_def is_ascii_hexdigit_def is_lower_hex_def
        is_ascii_digit_def is_ascii_uppercase_def list_all_iff less_eq_char_def less_char_def)
  have one: "vr_objects vt_receipt = [vt_object]" "ro_byte_len vt_object = 2" by (simp_all add: vt_receipt_def vt_object_def)
  have "receipt_verify ?V vt_root vt_receipt ?fs = Inr ()"
    using other by (intro vt_telling_verifies) (simp add: vt_store_def vault_object_path_def)
  moreover have "receipt_digest ?V x = Inr aq_digest" for x
    by (simp add: receipt_digest_def vt_codec_def vault_sha_def digest_domain_def vt_telling_def vt_sha_def CAPTURE_RECEIPT_DOMAIN_def)
  moreover have "vault_sha ?V ''cd'' = vt_other" by (simp add: vt_codec_def vault_sha_def vt_telling_def vt_sha_def)
  ultimately have "receipt_verify ?V vt_root (vt_receipt\<lparr>vr_objects := (vr_objects vt_receipt)[0 := (vr_objects vt_receipt ! 0)\<lparr>ro_content_sha256 := vt_other\<rparr>],
      vr_manifest_sha256 := aq_digest\<rparr>) ?fs = Inr ()"
    using vt_path(1) other(2) by (intro substituted_content_verifies[where other = "''cd''"]) (simp_all add: one is_draft_def aq_digest_facts)
  then show ?thesis by (simp add: one) (simp add: vt_receipt_def)
qed

text \<open>
  A projection that was made holds, for every file of the envelope, the retained bytes of its object, and a
  capture of the projected tree gave the envelope again; nothing else in the store has changed.
\<close>

theorem projection_reproduces_capture:
  assumes "materialize V P a fs = (Inr root, fs')" and "\<not> pj_exists P"
  shows "(\<forall>en \<in> set (file_entries (sv_entries (vr_envelope (rs_receipt a)))). \<exists>ob bytes.
           map_of (objects_by_path (vr_objects (rs_receipt a))) (se_relative_path en) = Some ob
           \<and> fs' (root @ se_relative_path en) = Some bytes
           \<and> fs' (vault_object_path (rs_private_root a) (ro_content_sha256 ob)) = Some bytes
           \<and> vault_sha V bytes = ro_content_sha256 ob)
    \<and> (\<exists>pinned. capture_from_session (vault_codec_of V) ((snd (pj_source P))\<lparr>session_pinned := pinned\<rparr>) (vr_request (rs_receipt a))
         = Inr (vr_envelope (rs_receipt a)))
    \<and> (\<forall>p b. fs p = Some b \<longrightarrow> fs' p = Some b)"
proof -
  let ?r = "rs_receipt a"
  from assms have entries: "project_entries V P (rs_private_root a) root (objects_by_path (vr_objects ?r)) (sv_entries (vr_envelope ?r)) fs
        = (Inr (), fs')"
      and verified: "verify_projection V P ?r root = Inr ()"
    by (auto simp: materialize_def Let_def io_bind_eq_Inr io_read_eq_Inr io_res_eq_Inr split: prod.splits sum.splits)
  have "\<exists>pinned. capture_from_session (vault_codec_of V) ((snd (pj_source P))\<lparr>session_pinned := pinned\<rparr>) (vr_request ?r) = Inr (vr_envelope ?r)"
    using verified by (auto simp: verify_projection_def envelope_verify_against_def verify_against_session_def)
  with project_entries_Inr[OF entries] io_keepsD[OF io_keeps_project entries] show ?thesis by (simp add: file_entries_def)
qed

theorem projection_reproduces_capture_witness:
  "\<exists>fs'. materialize (vt_codec aq_codec) vt_projection vt_adapter vt_store = (Inr (projection_path vt_root aq_digest), fs')
     \<and> (\<exists>bytes. fs' (projection_path vt_root aq_digest @ [Normal ''src'', Normal ''m'']) = Some bytes \<and> aq_sha aq_codec bytes = aq_digest)"
proof -
  have "aq_entry [Normal ''src'', Normal ''m''] FileEntry 2 \<in> set (file_entries (sv_entries (vr_envelope (rs_receipt vt_adapter))))"
    by (simp add: vt_adapter_def vt_receipt_def aq_envelope_def file_entries_def aq_entry_def)
  moreover have "aq_sha aq_codec x = aq_digest" for x by (simp add: aq_codec_def)
  ultimately show ?thesis
    using projection_reproduces_capture[OF vt_materialized, THEN conjunct1] vt_materialized
    by (fastforce simp: vt_projection_def aq_entry_def)
qed

end
