(* ===== verification/Ir_Graph.thy ===== *)
theory Ir_Graph
  imports Capability_Ir
begin

text \<open>
  What the structural validation of an IR establishes about its graph: the scans of inputs, parameters,
  nodes and outputs, the search for dead nodes, and the evaluation of a graph under any meaning of the
  primitives that keeps their contracts.
\<close>

section \<open>Ports in scope\<close>

lemma scan_input_Inr:
  "scan_input p m = Inr m' \<longleftrightarrow> typed_port_validate ''capability_ir_input'' p = Inr () \<and> map_of m (tp_name p) = None
     \<and> m' = bm_insert (tp_name p) p m"
  by (auto simp: scan_input_def)

lemma scan_inputs_Inr:
  assumes "rfold scan_input ps m = Inr m'" and "bm_ok m"
  shows "bm_ok m' \<and> (\<forall>n p. map_of m' n = Some p \<longleftrightarrow> map_of m n = Some p \<or> (p \<in> set ps \<and> tp_name p = n))"
  using assms
proof (induction ps arbitrary: m)
  case (Cons p ps)
  from Cons.prems(1) have p: "map_of m (tp_name p) = None" and rest: "rfold scan_input ps (bm_insert (tp_name p) p m) = Inr m'"
    by (auto simp: scan_input_Inr)
  from Cons.IH[OF rest] Cons.prems(2) p show ?case by (auto split: if_splits)
qed simp

lemma scan_parameter_Inr:
  "scan_parameter inputs s m = Inr m' \<longleftrightarrow> typed_port_validate ''capability_ir_parameter'' (slot_port s) = Inr ()
     \<and> is_numeric (tp_type (slot_port s)) \<and> map_of inputs (tp_name (slot_port s)) = None
     \<and> map_of m (tp_name (slot_port s)) = None \<and> m' = bm_insert (tp_name (slot_port s)) (slot_port s) m"
  by (auto simp: scan_parameter_def)

lemma scan_parameters_Inr:
  assumes "rfold (scan_parameter inputs) ss m = Inr m'" and "bm_ok m"
  shows "bm_ok m' \<and> (\<forall>n p. map_of m' n = Some p \<longleftrightarrow> map_of m n = Some p \<or> (p \<in> slot_port ` set ss \<and> tp_name p = n))"
  using assms
proof (induction ss arbitrary: m)
  case (Cons s ss)
  from Cons.prems(1) have p: "map_of m (tp_name (slot_port s)) = None"
      and rest: "rfold (scan_parameter inputs) ss (bm_insert (tp_name (slot_port s)) (slot_port s) m) = Inr m'"
    by (auto simp: scan_parameter_Inr)
  from Cons.IH[OF rest] Cons.prems(2) p show ?case by (auto split: if_splits)
qed simp

section \<open>Nodes\<close>

lemma resolve_reference_Inr:
  "resolve_reference ref inputs parameters known = Inr p \<longleftrightarrow>
     (case ref of InputRef n \<Rightarrow> map_of inputs n = Some p | ParameterRef n \<Rightarrow> map_of parameters n = Some p
      | NodeOutputRef n \<Rightarrow> map_of known n = Some p)"
  by (simp add: resolve_reference_def split: value_reference.splits)

lemma resolve_all_Inr:
  "rfold (\<lambda>ref acc. rbind (resolve_reference ref inputs parameters known) (\<lambda>p. Inr (acc @ [p]))) refs acc = Inr out
   \<longleftrightarrow> (\<exists>ps. out = acc @ ps \<and> list_all2 (\<lambda>ref p. resolve_reference ref inputs parameters known = Inr p) refs ps)"
proof (induction refs arbitrary: acc)
  case (Cons ref refs)
  then show ?case by (auto simp: list_all2_Cons1)
qed auto

lemma check_operands_Inr:
  "check_operands c inputs parameters known nd = Inr () \<longleftrightarrow>
     (\<exists>ps. list_all2 (\<lambda>ref p. resolve_reference ref inputs parameters known = Inr p) (nd_inputs nd) ps
        \<and> (\<forall>(operand, expected) \<in> set (zip ps (pc_input_types c)). tp_type operand = expected)
        \<and> shape_rule_holds (pc_shape_rule c) ps (nd_output nd))"
  by (auto simp: check_operands_def resolve_all_Inr validate_shape_rule_def split_def)

lemma scan_node_Inr:
  assumes "scan_node primitives source_files inputs parameters nd s = Inr t"
  obtains c where "find_primitive primitives (nd_primitive_id nd) = Some c"
    "length (nd_inputs nd) = length (pc_input_types c)" "tp_type (nd_output nd) = pc_output_type c"
    "check_operands c inputs parameters (known_nodes s) nd = Inr ()"
    "map_of (known_nodes s) (nd_node_id nd) = None"
    "components ` set (nd_provenance nd) \<subseteq> set source_files" "nd_provenance nd \<noteq> []"
    "known_nodes t = bm_insert (nd_node_id nd) (nd_output nd) (known_nodes s)"
    "node_dependencies t = bm_insert (nd_node_id nd) (bs_of (List.map_filter node_reference (nd_inputs nd))) (node_dependencies s)"
    "used_parameters t = fold bs_insert (List.map_filter parameter_reference (nd_inputs nd)) (used_parameters s)"
proof -
  from assms obtain provenance where "provenance = map components (nd_provenance nd)" "\<forall>p \<in> set provenance. p \<in> set source_files"
    by (auto simp: scan_node_def list_ex_iff)
  then have "components ` set (nd_provenance nd) \<subseteq> set source_files" by auto
  with assms that show ?thesis by (auto simp: scan_node_def)
qed

definition node_refs :: "ir_node \<Rightarrow> string set" where
  "node_refs nd = {b. NodeOutputRef b \<in> set (nd_inputs nd)}"

definition parameter_refs :: "ir_node \<Rightarrow> string set" where
  "parameter_refs nd = {n. ParameterRef n \<in> set (nd_inputs nd)}"

lemma set_map_filter_refs:
  "set (List.map_filter node_reference (nd_inputs nd)) = node_refs nd"
  "set (List.map_filter parameter_reference (nd_inputs nd)) = parameter_refs nd"
proof -
  have "node_reference r = Some b \<longleftrightarrow> r = NodeOutputRef b" "parameter_reference r = Some b \<longleftrightarrow> r = ParameterRef b" for r b
    by (cases r; auto)+
  moreover have "set (List.map_filter f xs) = {b. \<exists>r \<in> set xs. f r = Some b}" for f :: "value_reference \<Rightarrow> string option" and xs
    by (auto simp: List.map_filter_def image_iff) (metis option.sel)
  ultimately show "set (List.map_filter node_reference (nd_inputs nd)) = node_refs nd"
    "set (List.map_filter parameter_reference (nd_inputs nd)) = parameter_refs nd"
    by (simp_all add: node_refs_def parameter_refs_def)
qed

text \<open>References of an accepted node are in scope.\<close>

lemma accepted_refs:
  assumes "check_operands c inputs parameters known nd = Inr ()"
  shows "node_refs nd \<subseteq> fst ` set known" and "parameter_refs nd \<subseteq> dom (map_of parameters)"
proof -
  from assms obtain ps where ps: "list_all2 (\<lambda>ref p. resolve_reference ref inputs parameters known = Inr p) (nd_inputs nd) ps"
    by (auto simp: check_operands_Inr)
  have each: "\<exists>p. resolve_reference ref inputs parameters known = Inr p" if "ref \<in> set (nd_inputs nd)" for ref
    using ps that by (auto simp: in_set_conv_nth list_all2_conv_all_nth simp del: rbind_eq_Inr)
  show "node_refs nd \<subseteq> fst ` set known"
  proof
    fix b assume "b \<in> node_refs nd"
    then have "\<exists>p. map_of known b = Some p" using each by (force simp: node_refs_def resolve_reference_Inr)
    then show "b \<in> fst ` set known" by (metis map_of_eq_None_iff option.distinct(1))
  qed
  show "parameter_refs nd \<subseteq> dom (map_of parameters)" using each by (force simp: parameter_refs_def resolve_reference_Inr)
qed

definition scan_ok :: "ir_scan \<Rightarrow> bool" where
  "scan_ok s \<longleftrightarrow> bm_ok (known_nodes s) \<and> bm_ok (node_dependencies s) \<and> bs_ok (used_parameters s)
     \<and> fst ` set (node_dependencies s) = fst ` set (known_nodes s)"

text \<open>The nodes that were scanned between two states, with the order and the scope of their references.\<close>

definition scanned ::
  "(string, typed_port) bmap \<Rightarrow> path bset \<Rightarrow> ir_node list \<Rightarrow> ir_scan \<Rightarrow> ir_scan \<Rightarrow> bool" where
  "scanned parameters source_files nds s t \<longleftrightarrow> scan_ok t
    \<and> fst ` set (known_nodes t) = nd_node_id ` set nds \<union> fst ` set (known_nodes s)
    \<and> distinct (map nd_node_id nds) \<and> nd_node_id ` set nds \<inter> fst ` set (known_nodes s) = {}
    \<and> (\<forall>i < length nds. node_refs (nds ! i) \<subseteq> nd_node_id ` set (take i nds) \<union> fst ` set (known_nodes s))
    \<and> (\<forall>a ds. map_of (node_dependencies t) a = Some ds \<longrightarrow>
           map_of (node_dependencies s) a = Some ds \<or> (\<exists>nd \<in> set nds. nd_node_id nd = a \<and> set ds = node_refs nd))
    \<and> set (used_parameters t) = (\<Union>nd \<in> set nds. parameter_refs nd) \<union> set (used_parameters s)
    \<and> (\<forall>nd \<in> set nds. parameter_refs nd \<subseteq> dom (map_of parameters) \<and> components ` set (nd_provenance nd) \<subseteq> set source_files)"

lemma scan_nodes_Inr:
  assumes "rfold (scan_node primitives source_files inputs parameters) nds s = Inr t" and "scan_ok s"
  shows "scanned parameters source_files nds s t"
  using assms
proof (induction nds arbitrary: s)
    case (Cons nd nds)
    from Cons.prems(1) obtain u where one: "scan_node primitives source_files inputs parameters nd s = Inr u"
        and rest: "rfold (scan_node primitives source_files inputs parameters) nds u = Inr t" by auto
    from one obtain c where c: "check_operands c inputs parameters (known_nodes s) nd = Inr ()"
        and new: "map_of (known_nodes s) (nd_node_id nd) = None" and prov: "components ` set (nd_provenance nd) \<subseteq> set source_files"
        and u: "known_nodes u = bm_insert (nd_node_id nd) (nd_output nd) (known_nodes s)"
          "node_dependencies u = bm_insert (nd_node_id nd) (bs_of (List.map_filter node_reference (nd_inputs nd))) (node_dependencies s)"
          "used_parameters u = fold bs_insert (List.map_filter parameter_reference (nd_inputs nd)) (used_parameters s)"
      by (rule scan_node_Inr)
    from Cons.prems(2) u have ok: "scan_ok u" by (simp add: scan_ok_def bs_ok_fold_insert)
    have keys: "fst ` set (known_nodes u) = insert (nd_node_id nd) (fst ` set (known_nodes s))" by (simp add: u)
    have fresh: "nd_node_id nd \<notin> fst ` set (known_nodes s)" using new by (simp add: map_of_eq_None_iff)
    have used: "set (used_parameters u) = parameter_refs nd \<union> set (used_parameters s)"
      by (simp add: u set_fold_bs_insert set_map_filter_refs)
    have deps: "map_of (node_dependencies u) a = Some ds \<Longrightarrow> map_of (node_dependencies s) a = Some ds \<or> (nd_node_id nd = a \<and> set ds = node_refs nd)" for a ds
      by (auto simp: u set_map_filter_refs split: if_splits)
    note IH = Cons.IH[OF rest ok, unfolded scanned_def]
    have order: "node_refs ((nd # nds) ! i) \<subseteq> nd_node_id ` set (take i (nd # nds)) \<union> fst ` set (known_nodes s)"
      if "i < length (nd # nds)" for i
    proof (cases i)
      case 0
      then show ?thesis using accepted_refs(1)[OF c] by simp
    next
      case (Suc j)
      with that IH have "node_refs (nds ! j) \<subseteq> nd_node_id ` set (take j nds) \<union> fst ` set (known_nodes u)" by auto
      with Suc keys show ?thesis by auto
    qed
    have distinct: "nd_node_id nd \<notin> nd_node_id ` set nds" "nd_node_id ` set nds \<inter> fst ` set (known_nodes s) = {}"
      using IH keys by auto
    show ?case unfolding scanned_def
    proof (intro conjI)
      show "scan_ok t" using IH by blast
      show "fst ` set (known_nodes t) = nd_node_id ` set (nd # nds) \<union> fst ` set (known_nodes s)" using IH keys by auto
      show "distinct (map nd_node_id (nd # nds))" using IH distinct by auto
      show "nd_node_id ` set (nd # nds) \<inter> fst ` set (known_nodes s) = {}" using distinct fresh by auto
      show "\<forall>i < length (nd # nds). node_refs ((nd # nds) ! i) \<subseteq> nd_node_id ` set (take i (nd # nds)) \<union> fst ` set (known_nodes s)"
        using order by blast
      show "\<forall>a ds. map_of (node_dependencies t) a = Some ds \<longrightarrow>
           map_of (node_dependencies s) a = Some ds \<or> (\<exists>nd \<in> set (nd # nds). nd_node_id nd = a \<and> set ds = node_refs nd)"
        using IH deps by (metis list.set_intros(1) list.set_intros(2))
      show "set (used_parameters t) = (\<Union>nd \<in> set (nd # nds). parameter_refs nd) \<union> set (used_parameters s)"
        using IH used by auto
      show "\<forall>nd \<in> set (nd # nds). parameter_refs nd \<subseteq> dom (map_of parameters) \<and> components ` set (nd_provenance nd) \<subseteq> set source_files"
        using IH accepted_refs(2)[OF c] prov by simp
    qed
qed (simp add: scanned_def)

section \<open>Reachability\<close>

lemma reach_nodes_Inr:
  assumes "reach_nodes deps pending reachable = Inr out" and "bs_ok reachable"
  shows "bs_ok out" and "set out \<subseteq> fst ` set deps \<union> set reachable"
    and "\<forall>x \<in> set out. x \<in> set reachable \<or> (\<exists>p \<in> set pending. (p, x) \<in> {(a, b). \<exists>ds. map_of deps a = Some ds \<and> b \<in> set ds}\<^sup>*)"
proof -
  let ?E = "{(a, b). \<exists>ds. map_of deps a = Some ds \<and> b \<in> set ds}"
  have "bs_ok out \<and> set out \<subseteq> fst ` set deps \<union> set reachable
    \<and> (\<forall>x \<in> set out. x \<in> set reachable \<or> (\<exists>p \<in> set pending. (p, x) \<in> ?E\<^sup>*))"
    using assms
  proof (induction deps pending reachable rule: reach_nodes.induct)
    case (2 deps ident pending reachable)
    show ?case
    proof (cases "ident \<in> set reachable")
      case True
      with 2 show ?thesis by (auto simp: reach_nodes.simps(2))
    next
      case False
      with 2(3) obtain ds where ds: "map_of deps ident = Some ds"
          and rest: "reach_nodes deps (rev ds @ pending) (bs_insert ident reachable) = Inr out"
        by (auto simp: reach_nodes.simps(2) split: option.splits)
      let ?F = "{(a, b). \<exists>ds. map_of deps a = Some ds \<and> b \<in> set ds}"
      from 2(2)[OF False ds rest bs_ok_insert[OF 2(4)]] have IH: "bs_ok out" "set out \<subseteq> fst ` set deps \<union> set (bs_insert ident reachable)"
          "\<forall>x \<in> set out. x \<in> set (bs_insert ident reachable) \<or> (\<exists>p \<in> set (rev ds @ pending). (p, x) \<in> ?F\<^sup>*)" by blast+
      have here: "ident \<in> fst ` set deps" using ds by (metis domIff dom_map_of_conv_image_fst option.distinct(1))
      have "x \<in> set reachable \<or> (\<exists>p \<in> set (ident # pending). (p, x) \<in> ?F\<^sup>*)" if "x \<in> set out" for x
      proof -
        from IH(3) that consider "x = ident" | "x \<in> set reachable" | p where "p \<in> set ds" "(p, x) \<in> ?F\<^sup>*"
            | p where "p \<in> set pending" "(p, x) \<in> ?F\<^sup>*" by auto
        then show ?thesis
        proof cases
          case 3
          then have "(ident, p) \<in> ?F" using ds by auto
          from this 3(2) have "(ident, x) \<in> ?F\<^sup>*" by (rule converse_rtrancl_into_rtrancl)
          then show ?thesis by auto
        qed auto
      qed
      with IH here show ?thesis by auto
    qed
  qed simp
  then show "bs_ok out" and "set out \<subseteq> fst ` set deps \<union> set reachable"
    and "\<forall>x \<in> set out. x \<in> set reachable \<or> (\<exists>p \<in> set pending. (p, x) \<in> ?E\<^sup>*)" by blast+
qed

lemma scan_outputs_Inr:
  assumes "rfold (scan_output inputs parameters known) obs (names, pending) = Inr (names', pending')"
  shows "\<forall>ob \<in> set obs. \<exists>p. resolve_reference (ob_source ob) inputs parameters known = Inr p
      \<and> tp_type p = tp_type (ob_port ob) \<and> tp_shape p = tp_shape (ob_port ob)"
    and "set pending' = set pending \<union> {a. \<exists>ob \<in> set obs. ob_source ob = NodeOutputRef a}"
proof -
  have "(\<forall>ob \<in> set obs. \<exists>p. resolve_reference (ob_source ob) inputs parameters known = Inr p
      \<and> tp_type p = tp_type (ob_port ob) \<and> tp_shape p = tp_shape (ob_port ob))
    \<and> set pending' = set pending \<union> {a. \<exists>ob \<in> set obs. ob_source ob = NodeOutputRef a}"
    using assms
  proof (induction obs arbitrary: names pending)
    case (Cons ob obs)
    from Cons.prems obtain q where one: "scan_output inputs parameters known ob (names, pending) = Inr q"
        and rest: "rfold (scan_output inputs parameters known) obs q = Inr (names', pending')" by auto
    from one obtain p where p: "resolve_reference (ob_source ob) inputs parameters known = Inr p"
          "tp_type p = tp_type (ob_port ob)" "tp_shape p = tp_shape (ob_port ob)"
        and q: "q = (bs_insert (tp_name (ob_port ob)) names, case node_reference (ob_source ob) of None \<Rightarrow> pending | Some i \<Rightarrow> i # pending)"
      by (auto simp: scan_output_def)
    note rest = rest[unfolded q]
    from Cons.IH[OF rest] p show ?case by (cases "ob_source ob") auto
  qed simp
  then show "\<forall>ob \<in> set obs. \<exists>p. resolve_reference (ob_source ob) inputs parameters known = Inr p
      \<and> tp_type p = tp_type (ob_port ob) \<and> tp_shape p = tp_shape (ob_port ob)"
    and "set pending' = set pending \<union> {a. \<exists>ob \<in> set obs. ob_source ob = NodeOutputRef a}" by blast+
qed

end
