(* ===== verification/Ir_Semantics.thy ===== *)
theory Ir_Semantics
  imports Ir_Graph
begin

text \<open>
  The meaning of a graph, as a specification: its nodes are evaluated in order under any interpretation of
  the primitives. An interpretation keeps the contracts when on operands of the admitted types and shapes
  it gives a value of the declared type and shape.
\<close>

section \<open>Evaluation\<close>

definition read_value :: "(string \<rightharpoonup> 'v) \<Rightarrow> (string \<rightharpoonup> 'v) \<Rightarrow> (string \<rightharpoonup> 'v) \<Rightarrow> value_reference \<Rightarrow> 'v option" where
  "read_value args residents known ref =
     (case ref of InputRef n \<Rightarrow> args n | ParameterRef n \<Rightarrow> residents n | NodeOutputRef n \<Rightarrow> known n)"

fun run_nodes ::
  "(string \<Rightarrow> 'v list \<Rightarrow> 'v) \<Rightarrow> (string \<rightharpoonup> 'v) \<Rightarrow> (string \<rightharpoonup> 'v) \<Rightarrow> ir_node list \<Rightarrow> (string \<rightharpoonup> 'v) \<Rightarrow> (string \<rightharpoonup> 'v) option" where
  "run_nodes prim args residents [] known = Some known"
| "run_nodes prim args residents (nd # nds) known =
     (case those (map (read_value args residents known) (nd_inputs nd)) of
        None \<Rightarrow> None
      | Some vs \<Rightarrow> run_nodes prim args residents nds (known(nd_node_id nd \<mapsto> prim (nd_primitive_id nd) vs)))"

definition run_ir :: "(string \<Rightarrow> 'v list \<Rightarrow> 'v) \<Rightarrow> (string \<rightharpoonup> 'v) \<Rightarrow> (string \<rightharpoonup> 'v) \<Rightarrow> capability_ir \<Rightarrow> 'v list option" where
  "run_ir prim args residents ir =
     (case run_nodes prim args residents (ci_nodes ir) Map.empty of
        None \<Rightarrow> None
      | Some known \<Rightarrow> those (map (\<lambda>ob. read_value args residents known (ob_source ob)) (ci_outputs ir)))"

definition port_typed :: "('v \<Rightarrow> value_type \<Rightarrow> nat list \<Rightarrow> bool) \<Rightarrow> 'v \<Rightarrow> typed_port \<Rightarrow> bool" where
  "port_typed typed v p \<longleftrightarrow> typed v (tp_type p) (tp_shape p)"

definition respects_core :: "('v \<Rightarrow> value_type \<Rightarrow> nat list \<Rightarrow> bool) \<Rightarrow> (string \<Rightarrow> 'v list \<Rightarrow> 'v) \<Rightarrow> bool" where
  "respects_core typed prim \<longleftrightarrow>
     (\<forall>(name, input_types, output_type, rule) \<in> set core_contracts. \<forall>vs ports out.
        list_all2 (port_typed typed) vs ports \<longrightarrow> map tp_type ports = input_types \<longrightarrow> tp_type out = output_type
        \<longrightarrow> shape_rule_holds rule ports out \<longrightarrow> port_typed typed (prim name vs) out)"

definition supplies :: "('v \<Rightarrow> value_type \<Rightarrow> nat list \<Rightarrow> bool) \<Rightarrow> (string \<rightharpoonup> 'v) \<Rightarrow> typed_port list \<Rightarrow> bool" where
  "supplies typed vals ports \<longleftrightarrow> (\<forall>p \<in> set ports. \<exists>v. vals (tp_name p) = Some v \<and> port_typed typed v p)"

section \<open>The authorized primitives\<close>

lemma semantic_id_same: "semantic_non_digest_id_parse label dots v = Inr w \<Longrightarrow> w = v"
  by (auto simp: semantic_non_digest_id_parse_def)

definition contract_tuple :: "primitive_contract \<Rightarrow> string \<times> value_type list \<times> value_type \<times> shape_rule" where
  "contract_tuple c = (pc_primitive_id c, pc_input_types c, pc_output_type c, pc_shape_rule c)"

lemma core_contract_Inr: "core_contract t = Inr c \<Longrightarrow> contract_tuple c = t"
  by (cases t) (auto simp: core_contract_def contract_tuple_def dest: semantic_id_same)

lemma core_contracts_Inr:
  "rfold (\<lambda>c acc. rbind (core_contract c) (\<lambda>c. Inr (acc @ [c]))) ts acc = Inr out \<Longrightarrow> map contract_tuple out = map contract_tuple acc @ ts"
  by (induction ts arbitrary: acc) (auto simp: core_contract_Inr)

lemma verified_primitives:
  assumes "primitive_set_verify C s = Inr ()"
  shows "map contract_tuple (ps_primitives s) = core_contracts"
proof -
  from assms obtain out where "rfold (\<lambda>c acc. rbind (core_contract c) (\<lambda>c. Inr (acc @ [c]))) core_contracts [] = Inr out"
      and s: "ps_primitives s = out"
    by (auto simp: primitive_set_verify_def tidex_core_v1_def Let_def)
  from core_contracts_Inr[OF this(1)] s show ?thesis by simp
qed

lemma found_primitive:
  assumes "primitive_set_verify C s = Inr ()" and "find_primitive s name = Some c"
  shows "(name, pc_input_types c, pc_output_type c, pc_shape_rule c) \<in> set core_contracts"
proof -
  from assms(2) have "c \<in> set (ps_primitives s)" "pc_primitive_id c = name" by (auto simp: find_primitive_def find_Some_iff)
  then have "(name, pc_input_types c, pc_output_type c, pc_shape_rule c) \<in> contract_tuple ` set (ps_primitives s)"
    by (auto simp: contract_tuple_def)
  then show ?thesis using verified_primitives[OF assms(1)] by (metis set_map)
qed

section \<open>Soundness of the port types\<close>

definition typed_map :: "('v \<Rightarrow> value_type \<Rightarrow> nat list \<Rightarrow> bool) \<Rightarrow> (string, typed_port) bmap \<Rightarrow> (string \<rightharpoonup> 'v) \<Rightarrow> bool" where
  "typed_map typed ports vals \<longleftrightarrow> (\<forall>n p. map_of ports n = Some p \<longrightarrow> (\<exists>v. vals n = Some v \<and> port_typed typed v p))"

lemma read_typed:
  assumes "resolve_reference ref inputs parameters known = Inr p"
    and "typed_map typed inputs args" and "typed_map typed parameters residents" and "typed_map typed known vals"
  shows "\<exists>v. read_value args residents vals ref = Some v \<and> port_typed typed v p"
  using assms by (cases ref) (simp_all add: resolve_reference_Inr read_value_def typed_map_def)

lemma read_all_typed:
  assumes "list_all2 (\<lambda>ref p. resolve_reference ref inputs parameters known = Inr p) refs ps"
    and "typed_map typed inputs args" and "typed_map typed parameters residents" and "typed_map typed known vals"
  shows "\<exists>vs. those (map (read_value args residents vals) refs) = Some vs \<and> list_all2 (port_typed typed) vs ps"
  using assms(1)
proof (induction refs ps rule: list_all2_induct)
  case (Cons ref refs p ps)
  from read_typed[OF Cons(1) assms(2-4)] obtain v where "read_value args residents vals ref = Some v" "port_typed typed v p" by blast
  with Cons(3) show ?case by auto
qed simp

lemma operand_types:
  assumes "length ps = length types" and "\<forall>(operand, expected) \<in> set (zip ps types). tp_type operand = expected"
  shows "map tp_type ps = types"
  using assms by (induction ps types rule: list_induct2) auto

lemma run_nodes_typed:
  assumes "rfold (scan_node primitives source_files inputs parameters) nds s = Inr t"
    and "primitive_set_verify C primitives = Inr ()" and "respects_core typed prim"
    and "typed_map typed inputs args" and "typed_map typed parameters residents" and "typed_map typed (known_nodes s) vals"
  shows "\<exists>vals'. run_nodes prim args residents nds vals = Some vals' \<and> typed_map typed (known_nodes t) vals'"
  using assms(1,6)
proof (induction nds arbitrary: s vals)
  case (Cons nd nds)
  from Cons.prems(1) obtain u where one: "scan_node primitives source_files inputs parameters nd s = Inr u"
      and rest: "rfold (scan_node primitives source_files inputs parameters) nds u = Inr t" by auto
  from one obtain c where c: "find_primitive primitives (nd_primitive_id nd) = Some c"
      "length (nd_inputs nd) = length (pc_input_types c)" "tp_type (nd_output nd) = pc_output_type c"
      "check_operands c inputs parameters (known_nodes s) nd = Inr ()"
      and u: "known_nodes u = bm_insert (nd_node_id nd) (nd_output nd) (known_nodes s)"
    by (rule scan_node_Inr)
  from c(4) obtain ps where ps: "list_all2 (\<lambda>ref p. resolve_reference ref inputs parameters (known_nodes s) = Inr p) (nd_inputs nd) ps"
      "\<forall>(operand, expected) \<in> set (zip ps (pc_input_types c)). tp_type operand = expected"
      "shape_rule_holds (pc_shape_rule c) ps (nd_output nd)"
    by (auto simp: check_operands_Inr)
  from read_all_typed[OF ps(1) assms(4,5) Cons.prems(2)] obtain vs where
      vs: "those (map (read_value args residents vals) (nd_inputs nd)) = Some vs" "list_all2 (port_typed typed) vs ps" by blast
  have "map tp_type ps = pc_input_types c"
    using operand_types[OF _ ps(2)] list_all2_lengthD[OF ps(1)] c(2) by simp
  with assms(3) found_primitive[OF assms(2) c(1)] vs(2) c(3) ps(3)
  have "port_typed typed (prim (nd_primitive_id nd) vs) (nd_output nd)" unfolding respects_core_def by blast
  then have "typed_map typed (known_nodes u) (vals(nd_node_id nd \<mapsto> prim (nd_primitive_id nd) vs))"
    using Cons.prems(2) by (simp add: typed_map_def u)
  from Cons.IH[OF rest this] vs(1) show ?case by (simp del: fun_upd_apply)
qed simp

lemma outputs_typed:
  assumes "\<forall>ob \<in> set obs. \<exists>p. resolve_reference (ob_source ob) inputs parameters known = Inr p
      \<and> tp_type p = tp_type (ob_port ob) \<and> tp_shape p = tp_shape (ob_port ob)"
    and "typed_map typed inputs args" and "typed_map typed parameters residents" and "typed_map typed known vals"
  shows "\<exists>vs. those (map (\<lambda>ob. read_value args residents vals (ob_source ob)) obs) = Some vs
    \<and> list_all2 (\<lambda>v ob. port_typed typed v (ob_port ob)) vs obs"
  using assms(1)
proof (induction obs)
  case (Cons ob obs)
  then obtain p where p: "resolve_reference (ob_source ob) inputs parameters known = Inr p"
      "tp_type p = tp_type (ob_port ob)" "tp_shape p = tp_shape (ob_port ob)" by auto
  from read_typed[OF p(1) assms(2-4)] obtain v where "read_value args residents vals (ob_source ob) = Some v" "port_typed typed v p" by blast
  moreover from this(2) p(2,3) have "port_typed typed v (ob_port ob)" by (simp add: port_typed_def)
  moreover obtain vs where "those (map (\<lambda>ob. read_value args residents vals (ob_source ob)) obs) = Some vs"
      "list_all2 (\<lambda>v ob. port_typed typed v (ob_port ob)) vs obs" using Cons by auto
  ultimately show ?case by simp
qed simp

end
