(* ===== verification/Sample_Ir.thy ===== *)
theory Sample_Ir
  imports Ir_Semantics Sample_Vault
begin

text \<open>
  A sample graph on the sample envelope: a resident matrix applied to the input, normalized; and the meaning
  of the primitives that computes types and shapes only.
\<close>

section \<open>Data\<close>

definition cp_tensor :: "string \<Rightarrow> nat list \<Rightarrow> typed_port" where
  "cp_tensor name shape = \<lparr>tp_name = name, tp_type = VTensorF64, tp_shape = shape\<rparr>"

lemma cp_tensor_fields [simp]:
  "tp_name (cp_tensor name shape) = name" "tp_type (cp_tensor name shape) = VTensorF64" "tp_shape (cp_tensor name shape) = shape"
  by (simp_all add: cp_tensor_def)

definition cp_primitives :: primitive_set where
  "cp_primitives =
     \<lparr>ps_profile_id = ''tidex.core.v1'',
      ps_primitives = map (\<lambda>(name, types, out, rule).
        \<lparr>pc_primitive_id = name, pc_input_types = types, pc_output_type = out, pc_shape_rule = rule, pc_effects = [PureEffect]\<rparr>)
        core_contracts,
      ps_sha256 = aq_digest\<rparr>"

definition cp_product :: ir_node where
  "cp_product =
     \<lparr>nd_node_id = ''a'', nd_primitive_id = ''tensor.matmul'', nd_inputs = [ParameterRef ''w'', InputRef ''x''],
      nd_output = cp_tensor ''p'' [2, 4], nd_provenance = [''src/m'']\<rparr>"

definition cp_normal :: ir_node where
  "cp_normal =
     \<lparr>nd_node_id = ''b'', nd_primitive_id = ''tensor.normalize'', nd_inputs = [NodeOutputRef ''a''],
      nd_output = cp_tensor ''q'' [2, 4], nd_provenance = [''src/m'']\<rparr>"

definition cp_output :: output_binding where
  "cp_output = \<lparr>ob_port = cp_tensor ''y'' [2, 4], ob_source = NodeOutputRef ''b''\<rparr>"

definition cp_ir :: capability_ir where
  "cp_ir =
     \<lparr>ci_capability_id = ''k'', ci_system_envelope_sha256 = aq_digest, ci_primitive_set = cp_primitives,
      ci_inputs = [cp_tensor ''x'' [3, 4]], ci_parameters = [\<lparr>slot_port = cp_tensor ''w'' [2, 3]\<rparr>],
      ci_nodes = [cp_product, cp_normal], ci_outputs = [cp_output], ci_manifest_sha256 = aq_digest\<rparr>"

definition cp_codec :: ir_codec where
  "cp_codec =
     \<lparr>ir_envelopes = aq_codec, primitives_to_vec = (\<lambda>_. ''primitives''), ir_to_vec = (\<lambda>_. Some ''ir''),
      ir_from_slice = (\<lambda>_. Some cp_ir)\<rparr>"

section \<open>Validation\<close>

lemma cp_digests: "ir_sha cp_codec x = aq_digest"
  by (simp add: ir_sha_def cp_codec_def aq_codec_def)

lemma cp_ids:
  "semantic_non_digest_id_parse ''primitive_id'' True ''tensor.add'' = Inr ''tensor.add''"
  "semantic_non_digest_id_parse ''primitive_id'' True ''tensor.scale'' = Inr ''tensor.scale''"
  "semantic_non_digest_id_parse ''primitive_id'' True ''tensor.matmul'' = Inr ''tensor.matmul''"
  "semantic_non_digest_id_parse ''primitive_id'' True ''tensor.normalize'' = Inr ''tensor.normalize''"
  "semantic_non_digest_id_parse ''primitive_id'' True ''select.arg_max'' = Inr ''select.arg_max''"
  "semantic_non_digest_id_parse ''primitive_id'' True ''compare.less_than'' = Inr ''compare.less_than''"
  "semantic_non_digest_id_parse ''primitive_profile_id'' True ''tidex.core.v1'' = Inr ''tidex.core.v1''"
  by (code_simp)+

lemma cp_authorized: "primitive_set_verify cp_codec cp_primitives = Inr ()"
proof -
  have "tidex_core_v1 cp_codec = Inr cp_primitives"
    by (simp add: tidex_core_v1_def core_contracts_def core_contract_def cp_ids cp_primitives_def primitive_set_digest_def
        digest_domain_def cp_digests Let_def del: rbind_eq_Inr)
  then show ?thesis
    by (simp add: primitive_set_verify_def)
      (simp add: cp_primitives_def core_contracts_def primitive_contract_validate_def less_char_def less_eq_char_def)
qed

lemma cp_tensor_valid:
  "shape = [a, b] \<Longrightarrow> 0 < a \<Longrightarrow> a \<le> 4 \<Longrightarrow> 0 < b \<Longrightarrow> b \<le> 4 \<Longrightarrow> typed_port_validate label (cp_tensor name shape) = Inr ()"
proof -
  assume "shape = [a, b]" "0 < a" "a \<le> 4" "0 < b" "b \<le> 4"
  moreover from \<open>a \<le> 4\<close> \<open>b \<le> 4\<close> have "a * b \<le> 16" using mult_le_mono[of a 4 b 4] by simp
  ultimately show ?thesis
    by (simp add: typed_port_validate_def cp_tensor_def count_elements_def checked_mul_def MAX_TENSOR_RANK_def MAX_TENSOR_ELEMENTS_def)
qed

lemma cp_provenance: "canonical_paths [''src/m''] label = Inr [[Normal ''src'', Normal ''m'']]"
  by (simp add: canonical_paths_def vt_components os_is_absolute_def)

lemma cp_files: "source_files_of aq_envelope = [[Normal ''src'', Normal ''m'']]"
  by (simp add: source_files_of_def aq_envelope_def aq_entry_def bs_of_def)

lemma cp_found:
  "find_primitive cp_primitives ''tensor.matmul'' = Some \<lparr>pc_primitive_id = ''tensor.matmul'', pc_input_types = [VTensorF64, VTensorF64],
     pc_output_type = VTensorF64, pc_shape_rule = MatrixMultiply2d, pc_effects = [PureEffect]\<rparr>"
  "find_primitive cp_primitives ''tensor.normalize'' = Some \<lparr>pc_primitive_id = ''tensor.normalize'', pc_input_types = [VTensorF64],
     pc_output_type = VTensorF64, pc_shape_rule = PreserveFirst, pc_effects = [PureEffect]\<rparr>"
  by (simp_all add: find_primitive_def cp_primitives_def core_contracts_def)

definition cp_scan :: ir_scan where
  "cp_scan =
     \<lparr>known_nodes = [(''a'', cp_tensor ''p'' [2, 4]), (''b'', cp_tensor ''q'' [2, 4])],
      node_dependencies = [(''a'', []), (''b'', [''a''])], used_parameters = [''w'']\<rparr>"

lemma cp_scanned:
  "rfold (scan_node cp_primitives [[Normal ''src'', Normal ''m'']] [(''x'', cp_tensor ''x'' [3, 4])] [(''w'', cp_tensor ''w'' [2, 3])])
     [cp_product, cp_normal] \<lparr>known_nodes = [], node_dependencies = [], used_parameters = []\<rparr> = Inr cp_scan"
proof -
  let ?s = "\<lparr>known_nodes = [(''a'', cp_tensor ''p'' [2, 4])], node_dependencies = [(''a'', [])], used_parameters = [''w'']\<rparr>"
  let ?scan = "scan_node cp_primitives [[Normal ''src'', Normal ''m'']] [(''x'', cp_tensor ''x'' [3, 4])] [(''w'', cp_tensor ''w'' [2, 3])]"
  note eval = scan_node_def cp_tensor_valid cp_found cp_provenance vt_components MAX_NODE_PROVENANCE_def check_operands_def
    resolve_reference_def validate_shape_rule_def shape_rule_holds_def List.map_filter_simps bs_of_def
  have "?scan cp_product \<lparr>known_nodes = [], node_dependencies = [], used_parameters = []\<rparr> = Inr ?s"
    by (simp add: eval cp_product_def del: rbind_eq_Inr)
  moreover have "?scan cp_normal ?s = Inr cp_scan"
    by (simp add: eval cp_normal_def cp_scan_def less_char_def del: rbind_eq_Inr)
  ultimately show ?thesis by simp
qed

lemma cp_validated: "validate_ir cp_codec cp_ir aq_envelope = Inr ()"
proof -
  have "verify_manifest (ir_envelopes cp_codec) aq_envelope = Inr ()" using aq_manifest by (simp add: cp_codec_def)
  moreover have "ci_system_envelope_sha256 cp_ir = sv_manifest_sha256 aq_envelope" by (simp add: cp_ir_def aq_envelope_def)
  moreover have "ir_budget cp_ir = Inr ()"
    by (simp add: ir_budget_def cp_ir_def MAX_IR_INPUTS_def MAX_IR_PARAMETERS_def MAX_IR_NODES_def MAX_IR_OUTPUTS_def)
  moreover have "rfold scan_input (ci_inputs cp_ir) [] = Inr [(''x'', cp_tensor ''x'' [3, 4])]"
    by (simp add: cp_ir_def scan_input_def cp_tensor_valid)
  moreover have "rfold (scan_parameter [(''x'', cp_tensor ''x'' [3, 4])]) (ci_parameters cp_ir) [] = Inr [(''w'', cp_tensor ''w'' [2, 3])]"
    by (simp add: cp_ir_def scan_parameter_def cp_tensor_valid is_numeric_def)
  moreover have "rfold (scan_output [(''x'', cp_tensor ''x'' [3, 4])] [(''w'', cp_tensor ''w'' [2, 3])] (known_nodes cp_scan)) (ci_outputs cp_ir)
      ([], []) = Inr ([''y''], [''b''])"
    by (simp add: cp_ir_def scan_output_def cp_output_def cp_tensor_valid resolve_reference_def cp_scan_def)
  moreover have "reach_nodes (node_dependencies cp_scan) [''b''] [] = Inr [''a'', ''b'']"
    by (simp add: cp_scan_def reach_nodes.simps)
  moreover have "ci_primitive_set cp_ir = cp_primitives" "ci_nodes cp_ir = [cp_product, cp_normal]" "ci_outputs cp_ir = [cp_output]"
    "ci_manifest_sha256 cp_ir = aq_digest"
    by (simp_all add: cp_ir_def)
  moreover have "length (known_nodes cp_scan) = 2" "used_parameters cp_scan = [''w'']" by (simp_all add: cp_scan_def)
  moreover have "ir_digest cp_codec cp_ir = Inr aq_digest"
    using cp_digests by (simp add: ir_digest_def digest_domain_def) (simp add: cp_codec_def)
  ultimately show ?thesis
    using cp_authorized cp_scanned
    by (simp add: validate_ir_def validate_ir_structure_def cp_files is_draft_def aq_digest_facts del: rfold.simps rbind_eq_Inr)
qed

lemma cp_structure: "validate_ir_structure cp_codec cp_ir aq_envelope = Inr ()"
  using cp_validated by (simp add: validate_ir_def)

section \<open>Types as values\<close>

definition cp_typed :: "value_type \<times> nat list \<Rightarrow> value_type \<Rightarrow> nat list \<Rightarrow> bool" where
  "cp_typed v t shape \<longleftrightarrow> v = (t, shape)"

definition cp_meaning :: "string \<Rightarrow> (value_type \<times> nat list) list \<Rightarrow> value_type \<times> nat list" where
  "cp_meaning name vs =
     (if name = ''tensor.matmul'' then (VTensorF64, [snd (vs ! 0) ! 0, snd (vs ! 1) ! 1])
      else if name = ''select.arg_max'' then (VI64, [])
      else if name = ''compare.less_than'' then (VBool, [])
      else (VTensorF64, snd (vs ! 0)))"

lemma cp_operands: "list_all2 (port_typed cp_typed) vs ports \<longleftrightarrow> vs = map (\<lambda>p. (tp_type p, tp_shape p)) ports"
  by (induction vs ports rule: list_induct2')
    (auto simp: port_typed_def cp_typed_def)

lemma cp_respects: "respects_core cp_typed cp_meaning"
proof -
  have "port_typed cp_typed (cp_meaning name vs) out"
    if c: "(name, ts, tp_type out, rule) \<in> set core_contracts" and n: "length ports = length ts"
      and vs: "list_all2 (port_typed cp_typed) vs ports" and rule: "shape_rule_holds rule ports out" for name vs ts ports out rule
  proof -
    have vs: "vs = map (\<lambda>p. (tp_type p, tp_shape p)) ports" using vs by (simp add: cp_operands)
    have goal: "port_typed cp_typed (cp_meaning name vs) out \<longleftrightarrow> cp_meaning name vs = (tp_type out, tp_shape out)"
      by (simp add: port_typed_def cp_typed_def)
    show ?thesis
      using c rule n unfolding core_contracts_def goal
      by (simp only: list.set insert_iff empty_iff simp_thms prod.inject, elim disjE conjE)
        (simp_all add: shape_rule_holds_def cp_meaning_def vs)
  qed
  then show ?thesis unfolding respects_core_def by fastforce
qed

end
