(* ===== verification/Sealed_Records.thy ===== *)
theory Sealed_Records
  imports Authority
begin

text \<open>
  The contract of the records that the authorities seal: a record is written once under its digest, read back
  with every check repeated, and what was readable stays readable when the store grows.
\<close>

definition store_extends :: "store \<Rightarrow> store \<Rightarrow> bool" where
  "store_extends fs fs' \<longleftrightarrow> (\<forall>p b. fs p = Some b \<longrightarrow> fs' p = Some b)"

lemma store_extends_refl [simp]: "store_extends fs fs"
  by (simp add: store_extends_def)

lemma store_extends_trans [trans]: "store_extends fs fs' \<Longrightarrow> store_extends fs' fs'' \<Longrightarrow> store_extends fs fs''"
  by (simp add: store_extends_def)

lemma io_keeps_extends: "io_keeps {} m \<Longrightarrow> store_extends fs (snd (m fs))"
  by (simp add: io_keeps_def store_extends_def)

lemma read_verified_bounded_extends:
  assumes "read_verified_bounded sha root ref n fs = Inr bytes" and "store_extends fs fs'"
  shows "read_verified_bounded sha root ref n fs' = Inr bytes"
  using assms unfolding read_verified_bounded_def open_private_reference_def store_extends_def by auto

locale sealed_records =
  fixes put :: "'a \<Rightarrow> 'r io"
    and get :: "'r \<Rightarrow> store \<Rightarrow> 'a res"
    and same :: "'a \<Rightarrow> 'a \<Rightarrow> bool"
  assumes put_keeps: "io_keeps {} (put x)"
    and get_extends: "get r fs = Inr x \<Longrightarrow> store_extends fs fs' \<Longrightarrow> get r fs' = Inr x"
    and put_get: "put x fs = (Inr r, fs') \<Longrightarrow> \<exists>y. get r fs' = Inr y \<and> same x y"
begin

lemma reopens:
  assumes "put x fs = (Inr r, fs')" and "store_extends fs' later"
  shows "\<exists>y. get r later = Inr y \<and> same x y"
  using put_get[OF assms(1)] get_extends assms(2) by blast

text \<open>No sequence of further installations makes a record unreadable.\<close>

lemma survives:
  assumes "get r fs = Inr x"
  shows "get r (fold (\<lambda>y fs. snd (put y fs)) ys fs) = Inr x"
  using assms
proof (induction ys arbitrary: fs)
  case (Cons y ys)
  from get_extends[OF Cons.prems io_keeps_extends[OF put_keeps]] Cons.IH show ?case by simp
qed simp

end

end
