(* ===== verification/Ir_Properties.thy ===== *)
theory Ir_Properties
  imports Sample_Ir Sealed_Records
begin

text \<open>
  What a validated IR guarantees, and a sample graph on the sample envelope: a product of a resident matrix
  with the input, normalized.
\<close>

section \<open>Validation\<close>

lemma validate_ir_structure_Inr:
  assumes "validate_ir_structure C ir e = Inr ()"
  obtains inputs parameters t names pending reachable where
    "verify_manifest (ir_envelopes C) e = Inr ()" "ci_system_envelope_sha256 ir = sv_manifest_sha256 e"
    "primitive_set_verify C (ci_primitive_set ir) = Inr ()"
    "rfold scan_input (ci_inputs ir) [] = Inr inputs" "rfold (scan_parameter inputs) (ci_parameters ir) [] = Inr parameters"
    "rfold (scan_node (ci_primitive_set ir) (source_files_of e) inputs parameters) (ci_nodes ir)
       \<lparr>known_nodes = [], node_dependencies = [], used_parameters = []\<rparr> = Inr t"
    "rfold (scan_output inputs parameters (known_nodes t)) (ci_outputs ir) ([], []) = Inr (names, pending)"
    "reach_nodes (node_dependencies t) pending [] = Inr reachable"
    "length reachable = length (known_nodes t)" "length (used_parameters t) = length parameters"
  using assms unfolding validate_ir_structure_def by (auto split: sum.splits)

definition ir_edge :: "capability_ir \<Rightarrow> (string \<times> string) set" where
  "ir_edge ir = {(nd_node_id nd, b) | nd b. nd \<in> set (ci_nodes ir) \<and> b \<in> node_refs nd}"

lemma empty_graph_ok: "scan_ok \<lparr>known_nodes = [], node_dependencies = [], used_parameters = []\<rparr>"
  by (simp add: scan_ok_def)

lemma length_bm: "bm_ok m \<Longrightarrow> length m = card (fst ` set m)"
  using distinct_card[OF bm_ok_distinct[of m]] by simp

lemma ir_provenance_in_envelope:
  assumes "validate_ir_structure C ir e = Inr ()" and "nd \<in> set (ci_nodes ir)" and "p \<in> set (nd_provenance nd)"
  shows "components p \<in> se_relative_path ` set (file_entries (sv_entries e))"
proof -
  obtain inputs parameters t where
      "rfold (scan_node (ci_primitive_set ir) (source_files_of e) inputs parameters) (ci_nodes ir)
        \<lparr>known_nodes = [], node_dependencies = [], used_parameters = []\<rparr> = Inr t"
    using assms(1) by (rule validate_ir_structure_Inr)
  from scan_nodes_Inr[OF this empty_graph_ok] assms(2,3) have "components p \<in> set (source_files_of e)"
    unfolding scanned_def by blast
  then show ?thesis by (simp add: source_files_of_def file_entries_def)
qed

lemma earlier_index:
  assumes "i < length xs" and "b \<in> f ` set (take i xs)"
  shows "\<exists>j < i. f (xs ! j) = b"
proof -
  from assms(2) obtain j where "j < length (take i xs)" "f (take i xs ! j) = b" by (auto simp: in_set_conv_nth)
  then show ?thesis by auto
qed

lemma all_used:
  assumes "bs_ok used" and "bm_ok m" and "length used = length m" and "set used \<subseteq> dom (map_of m)"
  shows "set used = dom (map_of m)"
proof (rule card_subset_eq)
  show "card (set used) = card (dom (map_of m))"
    using length_bs[OF assms(1)] length_bm[OF assms(2)] assms(3) by (simp add: dom_map_of_conv_image_fst)
qed (use assms(4) in \<open>simp_all add: finite_dom_map_of\<close>)

text \<open>
  C37: a validated IR is a live graph. Node names are unique and every node refers to earlier nodes only; every
  node is reached from a public output, and every parameter slot is used by a node; the provenance of
  each node names files of the envelope.
\<close>

theorem validated_ir_is_live_graph:
  assumes "validate_ir_structure C ir e = Inr ()"
  shows "distinct (map nd_node_id (ci_nodes ir))
    \<and> (\<forall>i < length (ci_nodes ir). \<forall>b \<in> node_refs (ci_nodes ir ! i). \<exists>j < i. nd_node_id (ci_nodes ir ! j) = b)
    \<and> (\<forall>nd \<in> set (ci_nodes ir). \<exists>ob \<in> set (ci_outputs ir). \<exists>a. ob_source ob = NodeOutputRef a \<and> (a, nd_node_id nd) \<in> (ir_edge ir)\<^sup>*)
    \<and> (\<forall>s \<in> set (ci_parameters ir). \<exists>nd \<in> set (ci_nodes ir). tp_name (slot_port s) \<in> parameter_refs nd)
    \<and> (\<forall>nd \<in> set (ci_nodes ir). \<forall>p \<in> set (nd_provenance nd). components p \<in> se_relative_path ` set (file_entries (sv_entries e)))"
proof -
  let ?nds = "ci_nodes ir"
  obtain inputs parameters t names pending reachable where
      inputs: "rfold scan_input (ci_inputs ir) [] = Inr inputs" and parameters: "rfold (scan_parameter inputs) (ci_parameters ir) [] = Inr parameters"
      and nodes: "rfold (scan_node (ci_primitive_set ir) (source_files_of e) inputs parameters) ?nds
        \<lparr>known_nodes = [], node_dependencies = [], used_parameters = []\<rparr> = Inr t"
      and outputs: "rfold (scan_output inputs parameters (known_nodes t)) (ci_outputs ir) ([], []) = Inr (names, pending)"
      and reach: "reach_nodes (node_dependencies t) pending [] = Inr reachable"
      and len: "length reachable = length (known_nodes t)" "length (used_parameters t) = length parameters"
    using assms by (rule validate_ir_structure_Inr)
  note g = scan_nodes_Inr[OF nodes empty_graph_ok, unfolded scanned_def]
  have ok: "scan_ok t" and keys: "fst ` set (known_nodes t) = nd_node_id ` set ?nds" and distinct: "distinct (map nd_node_id ?nds)"
    using g by simp_all
  have order: "\<forall>i < length ?nds. node_refs (?nds ! i) \<subseteq> nd_node_id ` set (take i ?nds)" using g by simp
  have deps: "\<forall>a ds. map_of (node_dependencies t) a = Some ds \<longrightarrow> (\<exists>nd \<in> set ?nds. nd_node_id nd = a \<and> set ds = node_refs nd)"
    using g by simp
  have params: "set (used_parameters t) = (\<Union>nd \<in> set ?nds. parameter_refs nd)" using g by simp
  have scopes: "\<forall>nd \<in> set ?nds. parameter_refs nd \<subseteq> dom (map_of parameters) \<and> components ` set (nd_provenance nd) \<subseteq> set (source_files_of e)"
    using g by simp
  have earlier: "\<exists>j < i. nd_node_id (?nds ! j) = b" if "i < length ?nds" "b \<in> node_refs (?nds ! i)" for i b
    using that order by (intro earlier_index[of i ?nds b nd_node_id]) (simp_all add: subset_iff)
  note r = reach_nodes_Inr[OF reach bs_ok_Nil, simplified]
  have "set reachable = fst ` set (known_nodes t)"
  proof (rule card_subset_eq)
    show "set reachable \<subseteq> fst ` set (known_nodes t)" using r(2) ok by (simp add: scan_ok_def)
    show "card (set reachable) = card (fst ` set (known_nodes t))"
      using len(1) length_bs[OF r(1)] length_bm[of "known_nodes t"] ok by (simp add: scan_ok_def)
  qed simp
  then have "nd_node_id nd \<in> set reachable" if "nd \<in> set ?nds" for nd using that keys by blast
  moreover have "{(a, b). \<exists>ds. map_of (node_dependencies t) a = Some ds \<and> b \<in> set ds} \<subseteq> ir_edge ir"
    using deps by (fastforce simp: ir_edge_def)
  ultimately have live: "\<exists>p \<in> set pending. (p, nd_node_id nd) \<in> (ir_edge ir)\<^sup>*" if "nd \<in> set ?nds" for nd
    using r(3) that rtrancl_mono by blast
  have starts: "set pending = {a. \<exists>ob \<in> set (ci_outputs ir). ob_source ob = NodeOutputRef a}"
    using scan_outputs_Inr(2)[OF outputs] by simp
  have ps: "bm_ok parameters" "\<And>s. s \<in> set (ci_parameters ir) \<Longrightarrow> map_of parameters (tp_name (slot_port s)) = Some (slot_port s)"
    using scan_parameters_Inr[OF parameters bm_ok_Nil] by auto
  have "set (used_parameters t) = dom (map_of parameters)"
    by (rule all_used) (use len(2) ps(1) ok scopes params in \<open>auto simp: scan_ok_def\<close>)
  then have used: "\<exists>nd \<in> set ?nds. tp_name (slot_port s) \<in> parameter_refs nd" if "s \<in> set (ci_parameters ir)" for s
    using ps(2)[OF that] params by blast
  note prov = ir_provenance_in_envelope[OF assms]
  show ?thesis
    using distinct earlier live used prov unfolding starts by (intro conjI ballI allI impI) (assumption | blast)+
qed

theorem validated_ir_is_live_graph_witness:
  "(''b'', ''a'') \<in> (ir_edge cp_ir)\<^sup>* \<and> (\<exists>nd \<in> set (ci_nodes cp_ir). ''w'' \<in> parameter_refs nd)"
proof -
  have sets: "cp_product \<in> set (ci_nodes cp_ir)" "\<lparr>slot_port = cp_tensor ''w'' [2, 3]\<rparr> \<in> set (ci_parameters cp_ir)"
    "ci_outputs cp_ir = [cp_output]" by (simp_all add: cp_ir_def)
  note live = validated_ir_is_live_graph[OF cp_structure]
  from live sets(1,3) obtain a where "ob_source cp_output = NodeOutputRef a" "(a, nd_node_id cp_product) \<in> (ir_edge cp_ir)\<^sup>*" by auto
  moreover have "ob_source cp_output = NodeOutputRef ''b''" "nd_node_id cp_product = ''a''" by (simp_all add: cp_output_def cp_product_def)
  ultimately show ?thesis using live sets(2) by fastforce
qed

text \<open>
  C36: port types are sound. Under every meaning of the primitives that keeps the contracts of the authorized set, a
  validated IR that is supplied with its inputs and parameters evaluates: no reference is missing, and
  each public output has the type and the shape it declares.
\<close>

theorem validated_ir_evaluates_typed:
  assumes "validate_ir_structure C ir e = Inr ()" and "respects_core typed prim"
    and "supplies typed args (ci_inputs ir)" and "supplies typed residents (map slot_port (ci_parameters ir))"
  shows "\<exists>vs. run_ir prim args residents ir = Some vs \<and> list_all2 (\<lambda>v ob. port_typed typed v (ob_port ob)) vs (ci_outputs ir)"
proof -
  obtain inputs parameters t names pending where
      primitives: "primitive_set_verify C (ci_primitive_set ir) = Inr ()"
      and inputs: "rfold scan_input (ci_inputs ir) [] = Inr inputs" and parameters: "rfold (scan_parameter inputs) (ci_parameters ir) [] = Inr parameters"
      and nodes: "rfold (scan_node (ci_primitive_set ir) (source_files_of e) inputs parameters) (ci_nodes ir)
        \<lparr>known_nodes = [], node_dependencies = [], used_parameters = []\<rparr> = Inr t"
      and outputs: "rfold (scan_output inputs parameters (known_nodes t)) (ci_outputs ir) ([], []) = Inr (names, pending)"
    using assms(1) by (rule validate_ir_structure_Inr)
  have i: "typed_map typed inputs args"
    using scan_inputs_Inr[OF inputs bm_ok_Nil] assms(3) by (auto simp: typed_map_def supplies_def)
  have p: "typed_map typed parameters residents"
    using scan_parameters_Inr[OF parameters bm_ok_Nil] assms(4) by (auto simp: typed_map_def supplies_def)
  obtain known where run: "run_nodes prim args residents (ci_nodes ir) Map.empty = Some known" and k: "typed_map typed (known_nodes t) known"
    using run_nodes_typed[OF nodes primitives assms(2) i p, of Map.empty] by (auto simp: typed_map_def)
  from outputs_typed[OF scan_outputs_Inr(1)[OF outputs] i p k] run show ?thesis by (simp add: run_ir_def)
qed

theorem validated_ir_evaluates_typed_witness:
  "run_ir cp_meaning [''x'' \<mapsto> (VTensorF64, [3, 4])] [''w'' \<mapsto> (VTensorF64, [2, 3])] cp_ir = Some [(VTensorF64, [2, 4])]"
proof -
  have "\<exists>vs. run_ir cp_meaning [''x'' \<mapsto> (VTensorF64, [3, 4])] [''w'' \<mapsto> (VTensorF64, [2, 3])] cp_ir = Some vs
      \<and> list_all2 (\<lambda>v ob. port_typed cp_typed v (ob_port ob)) vs (ci_outputs cp_ir)"
    by (rule validated_ir_evaluates_typed[OF cp_structure cp_respects])
      (simp_all add: supplies_def cp_ir_def port_typed_def cp_typed_def)
  moreover have "ci_outputs cp_ir = [cp_output]" by (simp add: cp_ir_def)
  ultimately show ?thesis by (auto simp: list_all2_Cons2 port_typed_def cp_typed_def cp_output_def)
qed

section \<open>Sealed graphs\<close>

lemma authenticate_ir_extends:
  assumes "authenticate_capability_ir C root ref e fs = Inr ir" and "store_extends fs fs'"
  shows "authenticate_capability_ir C root ref e fs' = Inr ir"
  using assms(1) read_verified_bounded_extends[OF _ assms(2)] by (fastforce simp: authenticate_capability_ir_def)

lemma authenticate_ir_Inr:
  assumes "authenticate_capability_ir C root ref e fs = Inr ir"
  shows "validate_ir C ir e = Inr ()" and "ref_path ref = capability_ir_path root (ci_manifest_sha256 ir)"
  using assms by (auto simp: authenticate_capability_ir_def)

interpretation sealed_irs: sealed_records
  "\<lambda>ir. capability_ir_persist C root ir e" "\<lambda>ref. authenticate_capability_ir C root ref e"
  "\<lambda>a b. ci_manifest_sha256 a = ci_manifest_sha256 b"
  for C root e
proof (unfold_locales, goal_cases)
  case (1 ir)
  show ?case unfolding capability_ir_persist_def Let_def by (intro keeps_intros)
next
  case (2 ref fs ir fs')
  then show ?case by (rule authenticate_ir_extends)
next
  case (3 ir fs ref fs')
  then obtain ir' where "authenticate_capability_ir C root ref e fs' = Inr ir'"
      and "ref_path ref = capability_ir_path root (ci_manifest_sha256 ir)"
    by (auto simp: capability_ir_persist_def Let_def io_steps)
  with authenticate_ir_Inr(2)[OF this(1)] show ?case by (auto simp: capability_ir_path_def)
qed

end
