(* ===== verification/Sample_Bundle.thy ===== *)
theory Sample_Bundle
  imports Capability_Bundle Sample_Ir Adapter_Manifest Sample_Bank
begin

text \<open>A closed bundle over the retained sample source and the sample graph, in a private store.\<close>

definition cb_receipt_ref :: private_file_reference where
  "cb_receipt_ref = \<lparr>ref_path = receipt_path vt_root aq_digest, ref_sha256 = aq_digest\<rparr>"

definition cb_ir_ref :: private_file_reference where
  "cb_ir_ref = \<lparr>ref_path = capability_ir_path vt_root aq_digest, ref_sha256 = aq_digest\<rparr>"

definition cb_ref :: private_file_reference where
  "cb_ref = \<lparr>ref_path = capability_bundle_path vt_root aq_digest, ref_sha256 = aq_digest\<rparr>"

definition cb_bundle :: capability_bundle where
  "cb_bundle =
     \<lparr>cb_capability_id = ''k'', cb_capture_receipt = cb_receipt_ref, cb_capture_receipt_sha256 = aq_digest,
      cb_system_envelope_sha256 = aq_digest, cb_representation = Closed cb_ir_ref aq_digest, cb_blockers = [],
      cb_manifest_sha256 = aq_digest\<rparr>"

definition cb_codec :: bundle_codec where
  "cb_codec =
     \<lparr>bundle_vault = vt_codec aq_codec, bundle_irs = cp_codec, bundle_to_vec = (\<lambda>_. Some ''bundle''),
      bundle_from_slice = (\<lambda>_. Some cb_bundle)\<rparr>"

definition cb_inputs :: store where
  "cb_inputs = vt_store(receipt_path vt_root aq_digest \<mapsto> ''receipt'', capability_ir_path vt_root aq_digest \<mapsto> ''ir'')"

definition cb_store :: store where
  "cb_store = cb_inputs(capability_bundle_path vt_root aq_digest \<mapsto> ''bundle'')"

lemmas cb_paths = receipt_path_def capability_ir_path_def capability_bundle_path_def vault_object_path_def

lemma cb_other_free: "vault_object_path vt_root vt_other \<notin> dom cb_store"
  by (simp add: cb_store_def cb_inputs_def vt_store_def cb_paths vt_other_def aq_digest_def)

lemma cb_read:
  assumes "fs p = Some bytes" and "confined vt_root p" and "length bytes \<le> n" and "n < 2 ^ 64"
  shows "read_verified_bounded (\<lambda>_. aq_digest) vt_root \<lparr>ref_path = p, ref_sha256 = aq_digest\<rparr> n fs = Inr bytes"
  using assms vt_path(1) by (simp add: read_verified_bounded_eq verify_store_file aq_digest_facts)

lemma cb_confined:
  "confined vt_root (receipt_path vt_root d)" "confined vt_root (capability_ir_path vt_root d)" "confined vt_root (capability_bundle_path vt_root d)"
  using vt_path(1) by (auto simp: confined_iff cb_paths)

lemma cb_shas: "vault_sha (vt_codec aq_codec) = (\<lambda>_. aq_digest)" "ir_sha cp_codec = (\<lambda>_. aq_digest)" "bundle_sha cb_codec = (\<lambda>_. aq_digest)"
  by (simp_all add: fun_eq_iff vault_sha_def vt_codec_def aq_codec_def ir_sha_def cp_codec_def bundle_sha_def cb_codec_def)

lemma cb_parts: "bundle_vault cb_codec = vt_codec aq_codec" "bundle_ir_codec cb_codec = cp_codec"
  by (simp_all add: cb_codec_def bundle_ir_codec_def cp_codec_def vt_codec_def)

lemma cb_receipt_authentic:
  assumes "fs (receipt_path vt_root aq_digest) = Some ''receipt''" and "fs (vault_object_path vt_root aq_digest) = Some ''ab''"
  shows "authenticate_capture_receipt (vt_codec aq_codec) vt_root cb_receipt_ref fs = Inr vt_receipt"
proof -
  have "receipt_verify (vt_codec aq_codec) vt_root vt_receipt fs = Inr ()"
    using aq_request_verifies aq_manifest by (rule vt_verifies) (simp_all add: aq_codec_def digest_domain_def assms(2))
  moreover have "receipt_from_slice (vt_codec aq_codec) x = Some vt_receipt" "vr_manifest_sha256 vt_receipt = aq_digest" for x
    by (simp_all add: vt_codec_def vt_receipt_def)
  ultimately show ?thesis
    using assms(1) cb_read[of fs "receipt_path vt_root aq_digest" "''receipt''" MAX_CAPTURE_RECEIPT_BYTES] cb_confined(1)
    by (simp add: cb_shas authenticate_capture_receipt_def cb_receipt_ref_def MAX_CAPTURE_RECEIPT_BYTES_def)
qed

lemma cb_ir_authentic:
  assumes "fs (capability_ir_path vt_root aq_digest) = Some ''ir''"
  shows "authenticate_capability_ir cp_codec vt_root cb_ir_ref aq_envelope fs = Inr cp_ir"
proof -
  have "ir_from_slice cp_codec x = Some cp_ir" "ir_to_vec cp_codec cp_ir = Some ''ir''" "ci_manifest_sha256 cp_ir = aq_digest" for x
    by (simp_all add: cp_codec_def cp_ir_def)
  then show ?thesis
    using assms cb_read[of fs "capability_ir_path vt_root aq_digest" "''ir''" MAX_CAPABILITY_IR_BYTES] cb_confined(2) cp_validated
    by (simp add: cb_shas authenticate_capability_ir_def cb_ir_ref_def MAX_CAPABILITY_IR_BYTES_def)
qed

lemma cb_valid:
  assumes "fs (receipt_path vt_root aq_digest) = Some ''receipt''" and "fs (vault_object_path vt_root aq_digest) = Some ''ab''"
    and "fs (capability_ir_path vt_root aq_digest) = Some ''ir''"
  shows "validate_bundle cb_codec vt_root cb_bundle fs = Inr ()"
proof -
  have fields: "vr_manifest_sha256 vt_receipt = aq_digest" "vr_envelope vt_receipt = aq_envelope" "sv_manifest_sha256 aq_envelope = aq_digest"
    "ci_manifest_sha256 cp_ir = aq_digest" "ci_capability_id cp_ir = ''k''" "ci_system_envelope_sha256 cp_ir = aq_digest"
    by (simp_all add: vt_receipt_def aq_envelope_def cp_ir_def)
  have here: "cb_capture_receipt cb_bundle = cb_receipt_ref" "cb_capture_receipt_sha256 cb_bundle = aq_digest"
    "cb_system_envelope_sha256 cb_bundle = aq_digest" "cb_representation cb_bundle = Closed cb_ir_ref aq_digest"
    by (simp_all add: cb_bundle_def)
  have "check_bundle_ir cb_codec vt_root cb_bundle aq_envelope cb_ir_ref aq_digest code fs = Inr ()" for code
    using assms(3) cb_ir_authentic[of fs] cp_validated by (simp add: check_bundle_ir_def cb_parts fields) (simp add: cb_bundle_def)
  moreover have "read_capture cb_codec vt_root cb_receipt_ref fs = Inr vt_receipt"
    using assms(1,2) cb_receipt_authentic[of fs] by (simp add: read_capture_def cb_parts)
  ultimately have "validate_bundle_contents cb_codec vt_root cb_bundle fs = Inr ()"
    by (simp add: validate_bundle_contents_def fields here)
  moreover have "bundle_digest cb_codec cb_bundle = Inr aq_digest"
    by (simp add: bundle_digest_def digest_domain_def cb_shas) (simp add: cb_codec_def)
  moreover have "cb_manifest_sha256 cb_bundle = aq_digest" by (simp add: cb_bundle_def)
  ultimately show ?thesis by (simp add: validate_bundle_def is_draft_def aq_digest_facts)
qed

lemma cb_files:
  "cb_inputs (receipt_path vt_root aq_digest) = Some ''receipt''" "cb_inputs (vault_object_path vt_root aq_digest) = Some ''ab''"
  "cb_inputs (capability_ir_path vt_root aq_digest) = Some ''ir''" "cb_inputs (capability_bundle_path vt_root aq_digest) = None"
  "cb_store (receipt_path vt_root aq_digest) = Some ''receipt''" "cb_store (vault_object_path vt_root aq_digest) = Some ''ab''"
  "cb_store (capability_ir_path vt_root aq_digest) = Some ''ir''" "cb_store (capability_bundle_path vt_root aq_digest) = Some ''bundle''"
  by (simp_all add: cb_store_def cb_inputs_def vt_store_def cb_paths aq_digest_def)

lemma cb_authentic: "authenticate_capability_bundle cb_codec vt_root cb_ref cb_store = Inr cb_bundle"
proof -
  have "bundle_from_slice cb_codec x = Some cb_bundle" "bundle_to_vec cb_codec cb_bundle = Some ''bundle''"
    "cb_manifest_sha256 cb_bundle = aq_digest" for x
    by (simp_all add: cb_codec_def cb_bundle_def)
  then show ?thesis
    using cb_files(8) cb_read[of cb_store "capability_bundle_path vt_root aq_digest" "''bundle''" MAX_CAPABILITY_BUNDLE_BYTES] cb_confined(3) cb_files(5-7) cb_valid[of cb_store]
    by (simp add: cb_shas authenticate_capability_bundle_def cb_ref_def MAX_CAPABILITY_BUNDLE_BYTES_def)
qed

lemma cb_persisted: "capability_bundle_persist cb_codec vt_root cb_bundle cb_inputs = (Inr cb_ref, cb_store)"
proof -
  have "bundle_to_vec cb_codec cb_bundle = Some ''bundle''" "cb_manifest_sha256 cb_bundle = aq_digest"
    by (simp_all add: cb_codec_def cb_bundle_def)
  moreover have "write_or_verify_immutable (bundle_sha cb_codec) vt_root (capability_bundle_path vt_root aq_digest) ''bundle'' cb_inputs
      = (Inr aq_digest, cb_store)"
    using cb_confined(3) cb_files(4) by (simp add: write_or_verify_eq cb_shas cb_store_def)
  ultimately show ?thesis
    using cb_files(1-3) cb_valid[of cb_inputs] cb_authentic
    by (simp add: capability_bundle_persist_def io_bind_def io_read_def io_res_def Let_def cb_ref_def)
qed

end
