(* ===== verification/Bundle_Properties.thy ===== *)
theory Bundle_Properties
  imports Capability_Bundle Vault_Properties Ir_Properties Adapter_Manifest Sample_Bundle
begin

text \<open>
  What an authentic bundle stands for: it stays authentic, and a closed one is a typed graph whose every node
  comes from retained source; so what the adapter bank lets through for promotion is grounded.
\<close>

section \<open>Growth of the store\<close>

lemma authenticate_receipt_extends:
  assumes "authenticate_capture_receipt V root ref fs = Inr r" and "store_extends fs fs'"
  shows "authenticate_capture_receipt V root ref fs' = Inr r"
  using assms(1) read_verified_bounded_extends[OF _ assms(2)] receipt_verify_extends[OF assms(2)[unfolded store_extends_def]]
  by (fastforce simp: authenticate_capture_receipt_def)

lemma check_bundle_ir_extends:
  assumes "check_bundle_ir B root b e ref d code fs = Inr ()" and "store_extends fs fs'"
  shows "check_bundle_ir B root b e ref d code fs' = Inr ()"
  using assms(1) authenticate_ir_extends[OF _ assms(2)] by (fastforce simp: check_bundle_ir_def)

lemma validate_contents_extends:
  assumes "validate_bundle_contents B root b fs = Inr ()" and "store_extends fs fs'"
  shows "validate_bundle_contents B root b fs' = Inr ()"
proof -
  from assms(1) obtain r where r: "read_capture B root (cb_capture_receipt b) fs = Inr r" by (auto simp: validate_bundle_contents_def)
  then have r': "read_capture B root (cb_capture_receipt b) fs' = Inr r"
    using authenticate_receipt_extends[OF _ assms(2)] by (simp add: read_capture_def)
  note keep = check_bundle_ir_extends[OF _ assms(2)]
  show ?thesis using assms(1) r r' keep
    by (cases "cb_representation b") (auto simp: validate_bundle_contents_def split: option.splits)
qed

lemma validate_bundle_extends:
  assumes "validate_bundle B root b fs = Inr ()" and "store_extends fs fs'"
  shows "validate_bundle B root b fs' = Inr ()"
  using assms(1) validate_contents_extends[OF _ assms(2)] by (auto simp: validate_bundle_def)

lemma authenticate_bundle_extends:
  assumes "authenticate_capability_bundle B root ref fs = Inr b" and "store_extends fs fs'"
  shows "authenticate_capability_bundle B root ref fs' = Inr b"
  using assms(1) read_verified_bounded_extends[OF _ assms(2)] validate_bundle_extends[OF _ assms(2)]
  by (fastforce simp: authenticate_capability_bundle_def)

lemma authenticate_bundle_Inr:
  assumes "authenticate_capability_bundle B root ref fs = Inr b"
  shows "validate_bundle B root b fs = Inr ()" and "ref_path ref = capability_bundle_path root (cb_manifest_sha256 b)"
  using assms by (auto simp: authenticate_capability_bundle_def)

definition same_sealed_bundle :: "bundle_codec \<Rightarrow> capability_bundle \<Rightarrow> capability_bundle \<Rightarrow> bool" where
  "same_sealed_bundle B a b \<longleftrightarrow>
     cb_manifest_sha256 a = cb_manifest_sha256 b \<and> bundle_digest B a = Inr (cb_manifest_sha256 a) \<and> bundle_digest B b = Inr (cb_manifest_sha256 b)"

interpretation sealed_bundles: sealed_records
  "capability_bundle_persist B root" "authenticate_capability_bundle B root" "same_sealed_bundle B"
  for B root
proof (unfold_locales, goal_cases)
  case (1 b)
  show ?case unfolding capability_bundle_persist_def Let_def by (intro keeps_intros)
next
  case (2 ref fs b fs')
  then show ?case by (rule authenticate_bundle_extends)
next
  case (3 b fs ref fs')
  then obtain b' where b': "authenticate_capability_bundle B root ref fs' = Inr b'"
      and ref: "ref_path ref = capability_bundle_path root (cb_manifest_sha256 b)" and valid: "validate_bundle B root b fs = Inr ()"
    by (auto simp: capability_bundle_persist_def Let_def io_steps)
  have "cb_manifest_sha256 b = cb_manifest_sha256 b'"
    using authenticate_bundle_Inr(2)[OF b'] ref by (simp add: capability_bundle_path_def)
  with valid authenticate_bundle_Inr(1)[OF b'] have "same_sealed_bundle B b b'"
    by (auto simp: same_sealed_bundle_def validate_bundle_def)
  with b' show ?case by blast
qed

section \<open>Properties\<close>

text \<open>
  C39: a persisted bundle is authentic for ever: after any further growth of the store its reference gives
  a bundle with the same seal, and after any sequence of further bundles it is exactly the same one.
\<close>

theorem persisted_bundle_reopens:
  assumes "capability_bundle_persist B root b fs = (Inr ref, fs')" and "store_extends fs' later"
  shows "\<exists>b'. authenticate_capability_bundle B root ref later = Inr b' \<and> same_sealed_bundle B b b'
    \<and> authenticate_capability_bundle B root ref (fold (\<lambda>x fs. snd (capability_bundle_persist B root x fs)) bs later) = Inr b'"
  using sealed_bundles.reopens[OF assms] sealed_bundles.survives by blast

theorem persisted_bundle_reopens_witness:
  "authenticate_capability_bundle cb_codec vt_root cb_ref (cb_store(vault_object_path vt_root vt_other \<mapsto> ''cd'')) = Inr cb_bundle"
proof -
  have "vault_object_path vt_root vt_other \<notin> dom cb_store" by (rule cb_other_free)
  then have "store_extends cb_store (cb_store(vault_object_path vt_root vt_other \<mapsto> ''cd''))" by (auto simp: store_extends_def)
  from persisted_bundle_reopens[OF cb_persisted this] obtain b' where
      "authenticate_capability_bundle cb_codec vt_root cb_ref (cb_store(vault_object_path vt_root vt_other \<mapsto> ''cd'')) = Inr b'" by blast
  moreover from this have "b' = cb_bundle" by (auto simp: authenticate_capability_bundle_def cb_codec_def)
  ultimately show ?thesis by simp
qed

text \<open>
  C35: what may be promoted is grounded in retained source. When the bank takes the modelled bundle authority, an
  adapter passes the promotion check only with an authentic bundle of its own capability, without
  blockers, whose closed representation is an authentic graph of that capability; and for every path a
  node of the graph names as its provenance the vault holds an object with content of the recorded digest.
\<close>

theorem promotable_capability_is_grounded:
  assumes "require_promotable_capability_bundle (X\<lparr>bundle_of := bundle_summary B\<rparr>) root manifest fs = Inr ref"
  shows "\<exists>b r ir ir_ref. authenticate_capability_bundle B root ref fs = Inr b
    \<and> cb_capability_id b = am_capability_id manifest \<and> cb_blockers b = []
    \<and> cb_representation b = Closed ir_ref (ci_manifest_sha256 ir)
    \<and> authenticate_capture_receipt (bundle_vault B) root (cb_capture_receipt b) fs = Inr r
    \<and> authenticate_capability_ir (bundle_ir_codec B) root ir_ref (vr_envelope r) fs = Inr ir
    \<and> ci_capability_id ir = am_capability_id manifest
    \<and> (\<forall>nd \<in> set (ci_nodes ir). \<forall>p \<in> set (nd_provenance nd). \<exists>ob \<in> set (vr_objects r).
         components (ro_source_relative_path ob) = components p \<and> retained (bundle_vault B) root fs ob)"
proof -
  from assms obtain b where b: "authenticate_capability_bundle B root ref fs = Inr b" "cb_capability_id b = am_capability_id manifest"
      "capability_bundle_status b = RepresentationClosed"
    by (auto simp: require_promotable_capability_bundle_def authenticate_bound_capability_bundle_def bundle_summary_def)
  from b(3) obtain ir_ref d where closed: "cb_blockers b = []" "cb_representation b = Closed ir_ref d"
    by (auto simp: capability_bundle_status_def split: if_splits capability_representation.splits)
  from authenticate_bundle_Inr(1)[OF b(1)] have "validate_bundle_contents B root b fs = Inr ()" by (auto simp: validate_bundle_def)
  with closed obtain r where r: "authenticate_capture_receipt (bundle_vault B) root (cb_capture_receipt b) fs = Inr r"
      and c: "check_bundle_ir B root b (vr_envelope r) ir_ref d ''capability_bundle_ir_binding_mismatch'' fs = Inr ()"
    by (auto simp: validate_bundle_contents_def read_capture_def)
  from c obtain ir where ir: "authenticate_capability_ir (bundle_ir_codec B) root ir_ref (vr_envelope r) fs = Inr ir"
      "ci_manifest_sha256 ir = d" "ci_capability_id ir = cb_capability_id b"
    by (auto simp: check_bundle_ir_def)
  from authenticate_ir_Inr(1)[OF ir(1)] have "validate_ir_structure (bundle_ir_codec B) ir (vr_envelope r) = Inr ()"
    by (simp add: validate_ir_def)
  then have files: "components p \<in> se_relative_path ` set (file_entries (sv_entries (vr_envelope r)))"
    if "nd \<in> set (ci_nodes ir)" "p \<in> set (nd_provenance nd)" for nd p
    using that by (rule ir_provenance_in_envelope)
  have verified: "receipt_verify (bundle_vault B) root r fs = Inr ()" using r by (auto simp: authenticate_capture_receipt_def)
  have "\<exists>ob \<in> set (vr_objects r). components (ro_source_relative_path ob) = components p \<and> retained (bundle_vault B) root fs ob"
    if "nd \<in> set (ci_nodes ir)" "p \<in> set (nd_provenance nd)" for nd p
    using files[OF that] verified_receipt_covers[OF verified] by fastforce
  with b closed r ir show ?thesis by auto
qed

theorem promotable_capability_is_grounded_witness:
  "\<exists>ob \<in> set (vr_objects vt_receipt). components (ro_source_relative_path ob) = components ''src/m''
     \<and> retained (vt_codec aq_codec) vt_root cb_store ob"
proof -
  let ?m = "ma\<lparr>am_capability_bundle := Some cb_ref\<rparr>"
  have "require_promotable_capability_bundle (sample_bank\<lparr>bundle_of := bundle_summary cb_codec\<rparr>) vt_root ?m cb_store = Inr cb_ref"
    using cb_authentic
    by (simp add: require_promotable_capability_bundle_def authenticate_bound_capability_bundle_def bundle_summary_def
        capability_bundle_status_def cb_bundle_def ma_def sample_manifest_def)
  from promotable_capability_is_grounded[OF this, unfolded cb_parts] obtain b r ir ir_ref where
      b: "authenticate_capability_bundle cb_codec vt_root cb_ref cb_store = Inr b"
      and r: "authenticate_capture_receipt (vt_codec aq_codec) vt_root (cb_capture_receipt b) cb_store = Inr r"
      and ir: "authenticate_capability_ir cp_codec vt_root ir_ref (vr_envelope r) cb_store = Inr ir"
      and all: "\<forall>nd \<in> set (ci_nodes ir). \<forall>p \<in> set (nd_provenance nd). \<exists>ob \<in> set (vr_objects r).
         components (ro_source_relative_path ob) = components p \<and> retained (vt_codec aq_codec) vt_root cb_store ob" by blast
  have "r = vt_receipt" using r by (auto simp: authenticate_capture_receipt_def vt_codec_def)
  moreover have "ir = cp_ir" using ir by (auto simp: authenticate_capability_ir_def cp_codec_def)
  moreover have "cp_product \<in> set (ci_nodes cp_ir)" "''src/m'' \<in> set (nd_provenance cp_product)"
    by (simp_all add: cp_ir_def cp_product_def)
  ultimately show ?thesis using all by blast
qed

end
