(* ===== verification/Spec2Isabelle.thy ===== *)
theory Spec2Isabelle
  imports Inquiry_Properties Evidence_Properties Head_Properties Ledger_Properties Adapter_Properties Acquisition_Properties Bundle_Properties
begin

text \<open>
  A model of the authorities of TIDE-X over one private store, with the theorems that make them correct: the
  knowledge engine, the event ledger, the adapter bank, the acquisition of source trees, the vault that
  retains them, the typed graphs made of them, and the bundles that the first authorities consume.

  \<^bold>\<open>The program.\<close> TIDE-X investigates a capability as an \<^emph>\<open>inquiry\<close>: a contract of claims, obligations
  and rival hypotheses with a budget. \<open>KnowledgeEngine\<close> (\<open>src/knowledge/knowledge_engine.rs\<close>) is its only
  authority. From a validated state the planner decides the next action; an executor, which is not trusted,
  proposes an outcome and evidence files; the verifier registry derives the outcome again from the
  evidence; the engine seals a receipt; the reducer turns state and receipt into the next state. States,
  receipts and transitions are immutable files named by their digest under a private root
  (\<open>src/foundation/authority.rs\<close>); one mutable file per inquiry, the canonical head, names the current
  state and is replaced under a lock.

  Two more authorities keep their state in the same store. The \<^emph>\<open>event ledger\<close>
  (\<open>src/foundation/ledger.rs\<close>) is one file of lines, each an event that carries the hash of its
  predecessor; a line is appended by replacing the file under a lock. The \<^emph>\<open>adapter bank\<close>
  (\<open>src/governance/adapter_bank.rs\<close>) records which adapters exist, what they are composed of, which are
  revoked, and which one each receiver runs for a capability: immutable snapshots, a journal with one commit file
  per revision, and a head file that caches the last. An adapter is imported or composed of others,
  materialized, authorized by a permit that names the state it was issued for, activated, rolled
  back, and revoked together with everything composed of it; \<open>resolve_active\<close> tells the executor what to run.

  \<^emph>\<open>Acquisition\<close> (\<open>src/capability/acquisition_contract.rs\<close>) is where a capability comes from: a request seals
  which part of a donor's source tree may be read and how much of it; a capture walks the tree through
  descriptors and seals an envelope of every file, directory and exclusion with their digests; the envelope
  can be verified by itself and against the tree.

  A captured source is retained in the \<^emph>\<open>content vault\<close> (\<open>src/capability/content_vault.rs\<close>) under a receipt; what a
  capability computes is a closed typed graph, the \<^emph>\<open>capability IR\<close> (\<open>src/capability/capability_ir.rs\<close>); a
  \<^emph>\<open>bundle\<close> (\<open>src/capability/capability_bundle.rs\<close>) seals receipt, graph and blockers into the subject of an inquiry
  and the ticket an adapter needs for promotion.

  \<^bold>\<open>The theories\<close>, in the order they build on each other:
  \<^item> \<open>Brain_Prelude\<close>: results as sums (\<open>src/foundation/error.rs\<close>), loops with early return, arithmetic at a
    width, \<open>BTreeMap\<close> and \<open>BTreeSet\<close> as sorted lists.
  \<^item> \<open>Identity\<close>: digests and the parsers of \<open>src/foundation/digest.rs\<close> and \<open>src/foundation/identity.rs\<close>.
  \<^item> \<open>Authority\<close>: confined paths, verified reads, immutable installation, atomic replacement, the lock;
    the locale \<open>immutable_objects\<close> is the contract of the immutable store.
  \<^item> \<open>Knowledge_Types\<close>, \<open>Knowledge_Plans\<close>: the data of the engine, its bounds, predicates and digests.
  \<^item> \<open>Knowledge_Graph\<close>: reachability and acyclicity of the dependency graph.
  \<^item> \<open>Knowledge_Evidence\<close>: evidence artifacts and \<open>EvidenceVerifierRegistry\<close>.
  \<^item> \<open>Knowledge_Assessment\<close>: what obligations say of a claim and observations of a hypothesis.
  \<^item> \<open>Knowledge_State\<close>: contract validation, \<open>initialize\<close>, \<open>validate_state\<close>.
  \<^item> \<open>Knowledge_Planner\<close>: \<open>derive_terminal\<close>, \<open>plan\<close>, \<open>living_staircase\<close>.
  \<^item> \<open>Knowledge_Receipts\<close>: \<open>execute\<close> and the issuing and validation of receipts.
  \<^item> \<open>Knowledge_Reducer\<close>, \<open>Knowledge_Advance\<close>: \<open>advance\<close>, its stages, and the step relation
    \<open>knowledge_step\<close>; the locale \<open>bounded_machine\<close> is the contract of a machine whose every step
    counts towards a bound, interpreted on the inquiry.
  \<^item> \<open>Knowledge_Canonical\<close>, \<open>Knowledge_Heads\<close>: lineages, transitions, canonical heads, and what the
    operations on heads leave alone.
  \<^item> \<open>Sample_Inquiry\<close>, \<open>Sample_Run\<close>, \<open>Sample_Heads\<close>: one concrete inquiry, evaluated from its contract over two
    actions to its published head; every instance of a theorem is taken there.
  \<^item> \<open>Inquiry_Properties\<close>, \<open>Evidence_Properties\<close>, \<open>Head_Properties\<close> and the last sections of the component
    theories: the properties.
  \<^item> \<open>Ledger\<close>: wire types, hashes, the line reader, verification of both formats, append, snapshot and
    searches; \<open>Ledger_Properties\<close> proves the byte level equal to a chain of entries, \<open>Sample_Ledger\<close> is a
    concrete ledger.
  \<^item> \<open>Adapter_Types\<close>, \<open>Adapter_Manifest\<close>: the records of the bank, versions, paths, manifests and their
    authentication; \<open>Adapter_Names\<close>: the names of journal files are read back.
  \<^item> \<open>Adapter_Snapshot\<close>, \<open>Adapter_Journal\<close>: the contract of a snapshot, commits, materializations and permits;
    transitions between snapshots, \<open>current\<close> and \<open>publish_snapshot\<close>.
  \<^item> \<open>Adapter_Bank\<close>, \<open>Adapter_Lifecycle\<close>: import, composition, materialization and permits; activation, revocation,
    rollback, queries, resolution and \<open>verify_history\<close>.
  \<^item> \<open>Adapter_Invariants\<close>, \<open>Adapter_Publication\<close>: what an accepted snapshot satisfies; what a publication
    establishes and which files it may change.
  \<^item> \<open>Adapter_Registry\<close>: the abstract machine of registered, revoked and active versions, the locales
    \<open>lifecycle\<close> and \<open>lifecycle_refinement\<close>, and their interpretation on the snapshots of the bank.
  \<^item> \<open>Adapter_Effects\<close>, \<open>Adapter_History\<close>, \<open>Adapter_Runs\<close>: the dependency closure, the effect of every
    operation, the replay of the history, and sequences of commands.
  \<^item> \<open>Sample_Bank\<close>, \<open>Sample_Bank_Runs\<close>, \<open>Sample_Bank_Stores\<close>: a concrete bank of three adapters, with its
    revocation, activation and rollback executed; \<open>Adapter_Properties\<close>: the properties of the bank.
  \<^item> \<open>Source_Paths\<close>: components of paths, declared and observed paths, their wire form.
  \<^item> \<open>Acquisition_Request\<close>, \<open>Acquisition_Envelope\<close>, \<open>Acquisition_Capture\<close>: the data and the sealed request; the
    structure of an envelope; the capture, its counters and the copy of a file.
  \<^item> \<open>Acquisition_Scopes\<close>, \<open>Acquisition_Projection\<close>, \<open>Acquisition_Commitments\<close>: canonical roots; the specification of
    what is captured and the proof that the loops capture it; what a directory digest commits to.
  \<^item> \<open>Sample_Acquisition\<close>: a concrete source tree and its capture; \<open>Acquisition_Properties\<close>: the properties.
  \<^item> \<open>Sealed_Records\<close>: the locale of records that are sealed once and stay readable, interpreted on graphs and bundles.
  \<^item> \<open>Content_Vault\<close>: receipts, the capture into the vault, the projection; \<open>Sample_Vault\<close>, \<open>Vault_Properties\<close>.
  \<^item> \<open>Capability_Ir\<close>: ports, primitives, graphs and their validation; \<open>Ir_Graph\<close>: what each scan establishes;
    \<open>Ir_Semantics\<close>: the evaluation of a graph, as a specification; \<open>Sample_Ir\<close>, \<open>Ir_Properties\<close>.
  \<^item> \<open>Capability_Bundle\<close>: bundles, with \<open>bundle_summary\<close> and \<open>bundle_identity\<close>, which the bank and the engine take
    as parameters; \<open>Sample_Bundle\<close>, \<open>Bundle_Properties\<close>.

  \<^bold>\<open>How the model corresponds to the code.\<close> A struct is a record, an enum a datatype, a function a definition
  of the same name; a method takes the engine first. The long functions are split where the code has
  stages: \<open>validate_state\<close> into header, bounds, accounting, origin, parent and contents, \<open>advance\<close> into
  \<open>account_receipt\<close>, \<open>reduce_predictions\<close>, \<open>reduce_obligation\<close>, \<open>reduce_outcome\<close> and \<open>seal_transition\<close>,
  the critical sections into \<open>genesis_section\<close> and \<open>commit_section\<close>. \<open>?\<close> is \<open>rbind\<close>, every \<open>Err\<close> keeps its
  code. Strings are lists of bytes. \<open>u16\<close>, \<open>u32\<close>, \<open>u64\<close> and \<open>usize\<close> (64 bits) are natural numbers, with
  \<open>checked_add\<close> and \<open>saturating_add\<close> at their width wherever the code adds. A reader takes the store, a
  writer returns it, also when it fails. The operations of the bank split where the code takes the lock:
  \<open>activation_section\<close>, \<open>revocation_section\<close>, \<open>rollback_section\<close>, \<open>registration_section\<close> run under it.

  \<^bold>\<open>Parameters.\<close> The record \<open>externals\<close> holds what is not under \<open>src/\<close> or not modelled: SHA-256, the
  encoder \<open>serde_json::to_vec\<close> on the types it is called with, the decoders, and the authentication of a
  capability bundle. Nothing is assumed of them, so digests may collide and a decoder may return
  anything; the few theorems that need a round trip of the encoder at one value say so in a hypothesis.
  The record \<open>bank_externals\<close> does the same for the adapter bank: encoders and decoders of its records, the
  listing of the journal directory, receiver profiles, layouts, tensor arithmetic on deltas, bundles and
  governance witnesses; nothing is assumed of them. In \<open>acquisition_codec\<close>
  are SHA-256 and the encoders of requests and envelopes. A source tree is a \<open>source_node\<close>: what each system
  call on an object answers, with no assumption except that names in a listing are file names. \<open>vault_codec\<close>,
  \<open>ir_codec\<close> and \<open>bundle_codec\<close> hold the encoders and decoders of receipts, graphs and bundles; an encoder may fail,
  because a path need not be UTF-8. The record
  \<open>serde\<close> holds the JSON functions of the ledger; the
  theorems on appending assume that what was encoded decodes to itself (\<open>serde_laws\<close>).

  \<^bold>\<open>What is proved.\<close> The safety of one action and of runs of actions: accounting and budgets, no receipt
  or evidence used twice, only the planned obligation changes, established claims are final, evidence
  accumulates, the dependency graph stays acyclic, runs end. The planner decides, is deterministic and
  reports completion exactly when the inquiry is done. Derived outcomes are what the evidence says, and
  a formal certificate is never believed. An authenticated state is the end of a run of accepted
  actions; commits on one head are serialized. The graph loops, the assessments and the store meet
  their specifications. Of the ledger: an append adds exactly one chained event or nothing, equal heads
  mean equal histories, searches find what the chain holds. Of the bank: the current snapshot is well
  formed, a revocation reaches exactly the versions composed of the revoked one, a revoked version never
  resolves again, activations and rollbacks change one slot under a permit for the present state, of two
  commands against one state at most one has an effect, and a verified history is a run of the abstract
  machine. Of acquisition: an envelope holds exactly what the request selects and does not exclude, within its
  budget, and its root digest binds every path, kind and digest below. A capture into the vault retains exactly the captured
  bytes. A validated graph is live, ordered and well typed under every meaning of its primitives. Bundles
  stay authentic, and an adapter is promotable only with a bundle that is grounded in retained source. Two
  theorems state defects: a version with a revoked dependent cannot be revoked, and the verification of a
  receipt does not tie retained content to the captured file.

  \<^bold>\<open>Termination.\<close> The graph loops end by measures on the edges left and the nodes
  not visited; the walk of a lineage is bounded by \<open>HARD_MAX_REVISION\<close> as in the code; the collection of the
  actions of a lineage decreases the revision. The revocation loop ends by the dependents not yet reached.
  Nested manifests are authenticated to the depth \<open>MAX_MANIFEST_DEPTH\<close> and a history to
  \<open>MAX_HISTORY_REVISIONS\<close>, as in the code. The capture recurses at most \<open>MAX_RELATIVE_COMPONENTS\<close> deep, which its measure uses. Permits and snapshots authenticate each other without a bound in the code:
  \<open>call_depth\<close> of the parameters is the depth of the stack, and reaching it is the value \<open>Panic\<close>; every theorem
  holds for each depth.

  \<^bold>\<open>Not modelled.\<close> Descriptors, ownership, modes and races at the level of the operating system: the lock
  section runs as one step and the only error of the system that the code distinguishes is a missing
  file. Code that is compiled only in tests, such as the test oracle for completed outcomes. The serde
  instances. The subsystems on floating point numbers (\<open>analysis\<close>, \<open>engine\<close>, \<open>receiver\<close>,
  \<open>materialization\<close>, numerical parts of \<open>learning\<close> and \<open>foundation\<close>), process isolation (\<open>runtime\<close>),
  the binaries, and the feature-gated \<open>cross_model\<close>. The part of \<open>capability_ir.rs\<close> on \<open>f64\<close>
  (linear readout, operational contract), \<open>authenticated_capacity.rs\<close>, \<open>operator\<close>, and the promotion gates and
  residency decisions of \<open>governance\<close> are left for extensions.
\<close>

section \<open>A whole inquiry\<close>

text \<open>
  C21: an inquiry keeps within its contract from beginning to end: whatever the actions taken after a
  contract was initialized, the state is one of that inquiry and that budget, its revision is the number
  of actions, and the revision, the actions, the cost and the evidence are within the budget.
\<close>

theorem inquiry_within_contract:
  assumes "initialize X E inquiry reference draft fs = Inr s"
    and "\<forall>d \<in> set (draft_obligations draft). plan_containers_ok (od_plan d)"
    and "(knowledge_step X E ^^ n) s s'"
  shows "ks_inquiry_id s' = inquiry \<and> ks_budget s' = draft_budget draft
    \<and> ks_revision s' = n \<and> used_actions (ks_usage s') = n
    \<and> length (ks_applied_receipts s') = n
    \<and> n \<le> max_revision (draft_budget draft) \<and> n \<le> max_actions (draft_budget draft)
    \<and> used_total_cost (ks_usage s') \<le> max_total_cost (draft_budget draft)
    \<and> used_evidence_records (ks_usage s') \<le> max_evidence_records (draft_budget draft)
    \<and> length (ks_used_evidence_artifacts s') = used_evidence_records (ks_usage s')"
proof -
  note s = initialize_accepted[OF assms(1,2)]
  have "ks_inquiry_id s' = inquiry \<and> ks_budget s' = draft_budget draft \<and> (\<exists>fs. validate_state X E s' fs = Inr ())"
    using assms(3) s(2)
  proof (rule run_keeps)
    show "ks_inquiry_id s = inquiry \<and> ks_budget s = draft_budget draft \<and> (\<exists>fs. validate_state X E s fs = Inr ())"
      using s by blast
  qed (auto simp: advance_ledger dest: advance_budget)
  then obtain fs' where v: "validate_state X E s' fs' = Inr ()"
    and id: "ks_inquiry_id s' = inquiry" "ks_budget s' = draft_budget draft" by blast
  from inquiry.run_rank[OF assms(3) s(2)] s(3) have "ks_revision s' = n" by simp
  with validate_state_Inr(2,3)[OF v] id show ?thesis
    by (simp add: validate_state_bounds_def validate_state_accounting_def)
qed

theorem inquiry_within_contract_witness:
  "used_actions (ks_usage sample_s2) = 2 \<and> 2 \<le> max_actions (draft_budget sample_draft)"
  using inquiry_within_contract[OF sample_initialize sample_draft_containers sample_runs(2)[of 0]] by simp

end
